(* ===== verification/Prelude.thy ===== *)
theory Prelude imports Complex_Main "HOL-Library.AList" "HOL-Library.Char_ord" "HOL-Library.List_Lexorder" "HOL-Library.Product_Lexorder"
begin

text \<open>
  Shared vocabulary of the development. JSON values as the server stores them in
  \<^verbatim>\<open>jsonb\<close> columns and policies, result values for TypeScript functions that
  may throw, the three-valued guards PostgreSQL evaluates on optional selector
  keys, and the generic list lemmas the component theories use. Numbers of the
  JSON model are rationals, timestamps are natural numbers of milliseconds.
\<close>

named_theorems model_defs "definitions unfolded by component proofs"
named_theorems row_laws "laws of the update functions of persisted rows"

section \<open>JSON values and objects\<close>

datatype json =
    JNull
  | JBool bool
  | JNum rat
  | JStr string
  | JArr "json list"
  | JObj "(string \<times> json) list"

type_synonym jobj = "(string \<times> json) list"
type_synonym timestamp = nat
type_synonym 'a res = "string + 'a"

text \<open>\<open>a || b\<close> on two \<^verbatim>\<open>jsonb\<close> objects: the right operand wins on common keys.\<close>

definition jmerge :: "jobj \<Rightarrow> jobj \<Rightarrow> jobj" where
  "jmerge a b = AList.merge a b"

definition jget :: "jobj \<Rightarrow> string \<Rightarrow> json option" where
  "jget o1 k = map_of o1 k"

definition jhas :: "jobj \<Rightarrow> string \<Rightarrow> bool" where
  "jhas o1 k \<longleftrightarrow> jget o1 k \<noteq> None"

definition jdel :: "string \<Rightarrow> jobj \<Rightarrow> jobj" where
  "jdel k o1 = AList.delete k o1"

lemma jget_jmerge [simp]:
  "jget (jmerge a b) k = (case jget b k of None \<Rightarrow> jget a k | Some v \<Rightarrow> Some v)"
  by (auto simp: jget_def jmerge_def merge_conv' map_add_def split: option.splits)

lemma jget_jdel [simp]: "jget (jdel k o1) k' = (if k = k' then None else jget o1 k')"
  by (simp add: jget_def jdel_def delete_conv')

lemma jmerge_Nil [simp]: "jmerge a [] = a"
  by (simp add: jmerge_def)

text \<open>An optional member: \<^verbatim>\<open>JSON.stringify\<close> drops keys whose value is undefined.\<close>

definition jopt :: "string \<Rightarrow> string option \<Rightarrow> jobj" where
  "jopt k v = (case v of None \<Rightarrow> [] | Some s \<Rightarrow> [(k, JStr s)])"

definition jnullable :: "string option \<Rightarrow> json" where
  "jnullable v = (case v of None \<Rightarrow> JNull | Some s \<Rightarrow> JStr s)"

section \<open>Results and optional values\<close>

definition res_bind :: "'a res \<Rightarrow> ('a \<Rightarrow> 'b res) \<Rightarrow> 'b res" where
  "res_bind r f = (case r of Inl e \<Rightarrow> Inl e | Inr v \<Rightarrow> f v)"

lemma res_bind_simps [simp]:
  "res_bind (Inl e) f = Inl e" "res_bind (Inr v) f = f v"
  by (simp_all add: res_bind_def)

lemma res_bind_eq_Inr: "res_bind r f = Inr y \<longleftrightarrow> (\<exists>v. r = Inr v \<and> f v = Inr y)"
  by (cases r) auto

text \<open>\<open>a ?? b\<close> of TypeScript and \<open>COALESCE(a, b)\<close> of SQL.\<close>

definition coalesce :: "'a option \<Rightarrow> 'a option \<Rightarrow> 'a option" where
  "coalesce a b = (case a of None \<Rightarrow> b | Some _ \<Rightarrow> a)"

lemma coalesce_simps [simp]:
  "coalesce None b = b" "coalesce (Some x) b = Some x"
  by (simp_all add: coalesce_def)

definition odefault :: "'a option \<Rightarrow> 'a \<Rightarrow> 'a" where
  "odefault a d = (case a of None \<Rightarrow> d | Some x \<Rightarrow> x)"

lemma odefault_simps [simp]: "odefault None d = d" "odefault (Some x) d = x"
  by (simp_all add: odefault_def)

text \<open>\<open>NOT (sel ? 'key') OR column = (sel->>'key')::boolean\<close>.\<close>

definition guard_opt :: "bool option \<Rightarrow> bool \<Rightarrow> bool" where
  "guard_opt g v \<longleftrightarrow> (case g of None \<Rightarrow> True | Some b \<Rightarrow> v = b)"

lemma guard_opt_simps [simp]: "guard_opt None v" "guard_opt (Some b) v = (v = b)"
  by (simp_all add: guard_opt_def)

text \<open>A row set that has to hold exactly one row.\<close>

fun single :: "'a list \<Rightarrow> 'a option" where
  "single [x] = Some x"
| "single _ = None"

lemma single_eq_Some [simp]: "single xs = Some x \<longleftrightarrow> xs = [x]"
  by (cases xs rule: single.cases) auto

fun first_row :: "'a list \<Rightarrow> 'a option" where
  "first_row [] = None"
| "first_row (x # _) = Some x"

lemma first_row_in: "first_row xs = Some x \<Longrightarrow> x \<in> set xs"
  by (cases xs) auto

lemma first_row_eq_None [simp]: "first_row xs = None \<longleftrightarrow> xs = []"
  by (cases xs) auto

section \<open>Tables keyed by an identifier\<close>

text \<open>\<open>UPDATE t SET ... WHERE p\<close>: rows that satisfy the predicate are rewritten in place.\<close>

definition update_where :: "('r \<Rightarrow> bool) \<Rightarrow> ('r \<Rightarrow> 'r) \<Rightarrow> 'r list \<Rightarrow> 'r list" where
  "update_where p f rows = map (\<lambda>r. if p r then f r else r) rows"

lemma length_update_where [simp]: "length (update_where p f rows) = length rows"
  by (simp add: update_where_def)

lemma map_update_where:
  "(\<And>r. p r \<Longrightarrow> g (f r) = g r) \<Longrightarrow> map g (update_where p f rows) = map g rows"
  by (simp add: update_where_def)

lemma set_update_where: "set (update_where p f rows) = f ` {r \<in> set rows. p r} \<union> {r \<in> set rows. \<not> p r}"
  by (auto simp: update_where_def)

lemma update_where_False [simp]: "(\<And>r. r \<in> set rows \<Longrightarrow> \<not> p r) \<Longrightarrow> update_where p f rows = rows"
  by (induction rows) (auto simp: update_where_def)

lemma find_update_where_other:
  "(\<And>r. k (f r) = k r) \<Longrightarrow> (\<And>r. p r \<Longrightarrow> k r \<noteq> i) \<Longrightarrow>
     find (\<lambda>r. k r = i) (update_where p f rows) = find (\<lambda>r. k r = i) rows"
  by (induction rows) (auto simp: update_where_def)

text \<open>
  \<open>INSERT ... ON CONFLICT (key) DO UPDATE\<close>: the first row with the key is rewritten,
  a row whose key is new is appended.
\<close>

definition upsert_row :: "('r \<Rightarrow> 'k) \<Rightarrow> 'r \<Rightarrow> ('r \<Rightarrow> 'r) \<Rightarrow> 'r list \<Rightarrow> 'r list" where
  "upsert_row key new upd rows =
     (if key new \<in> key ` set rows
      then map (\<lambda>r. if key r = key new then upd r else r) rows
      else rows @ [new])"

lemma upsert_row_keys:
  assumes "\<And>r. key (upd r) = key r"
  shows "map key (upsert_row key new upd rows) =
    (if key new \<in> set (map key rows) then map key rows else map key rows @ [key new])"
  using assms by (auto simp: upsert_row_def)

lemma distinct_upsert_row:
  "(\<And>r. key (upd r) = key r) \<Longrightarrow> distinct (map key rows) \<Longrightarrow>
     distinct (map key (upsert_row key new upd rows))"
  using upsert_row_keys[of key upd new rows] by (auto split: if_splits)

lemma set_upsert_row:
  "r \<in> set (upsert_row key new upd rows) \<Longrightarrow>
     (r \<in> set rows \<and> key r \<noteq> key new) \<or> (\<exists>r0 \<in> set rows. key r0 = key new \<and> r = upd r0) \<or> r = new"
  by (auto simp: upsert_row_def rev_image_eqI split: if_splits)

lemma distinct_key_inj:
  "distinct (map key rows) \<Longrightarrow> a \<in> set rows \<Longrightarrow> b \<in> set rows \<Longrightarrow> key a = key b \<Longrightarrow> a = b"
  by (auto simp: distinct_map inj_on_def)

lemma find_eq_Some_distinct:
  "distinct (map key rows) \<Longrightarrow> find (\<lambda>r. key r = i) rows = Some r \<longleftrightarrow> r \<in> set rows \<and> key r = i"
  by (induction rows) (auto simp: rev_image_eqI)

lemma filter_distinct_single:
  "distinct (map key rows) \<Longrightarrow> r \<in> set rows \<Longrightarrow> key r = i \<Longrightarrow> filter (\<lambda>r. key r = i) rows = [r]"
  by (induction rows) (auto simp: filter_empty_conv rev_image_eqI)

section \<open>Strings\<close>

text \<open>
  Characters are the 256 code points of \<^typ>\<open>char\<close>. \<open>js_trim\<close> is \<^verbatim>\<open>String.prototype.trim\<close>,
  \<open>sql_btrim\<close> is PostgreSQL's one-argument \<^verbatim>\<open>BTRIM\<close>, which removes blanks only.
\<close>

definition js_space :: "char \<Rightarrow> bool" where
  "js_space c \<longleftrightarrow> of_char c \<in> {9, 10, 11, 12, 13, 32, 160 :: nat}"

definition trim_by :: "(char \<Rightarrow> bool) \<Rightarrow> string \<Rightarrow> string" where
  "trim_by p s = rev (dropWhile p (rev (dropWhile p s)))"

definition js_trim :: "string \<Rightarrow> string" where
  "js_trim s = trim_by js_space s"

definition sql_btrim :: "string \<Rightarrow> string" where
  "sql_btrim s = trim_by (\<lambda>c. c = CHR '' '') s"

lemma dropWhile_idem [simp]: "dropWhile p (dropWhile p xs) = dropWhile p xs"
  by (induction xs) auto

lemma dropWhile_rev_dropWhile:
  "dropWhile p (rev (dropWhile p (rev (dropWhile p s)))) = rev (dropWhile p (rev (dropWhile p s)))"
proof (cases "dropWhile p s")
  case Nil
  show ?thesis by (simp only: Nil dropWhile.simps rev.simps)
next
  case (Cons a as)
  then have a: "\<not> p a" by (metis hd_dropWhile list.distinct(1) list.sel(1))
  have "dropWhile p (rev as @ [a]) = dropWhile p (rev as) @ [a]"
    if "\<exists>x \<in> set (rev as). \<not> p x"
    using that by (metis dropWhile_append1)
  moreover have "dropWhile p (rev as @ [a]) = [a]" if "\<not> (\<exists>x \<in> set (rev as). \<not> p x)"
    using that a by (subst dropWhile_append2) auto
  ultimately show ?thesis using Cons a by (cases "\<exists>x \<in> set (rev as). \<not> p x") auto
qed

lemma trim_by_idem [simp]: "trim_by p (trim_by p s) = trim_by p s"
  by (simp add: trim_by_def dropWhile_rev_dropWhile)

lemma js_trim_idem [simp]: "js_trim (js_trim s) = js_trim s"
  by (simp add: js_trim_def)

text \<open>Decimal digits of a natural number, as template literals print array indices.\<close>

fun show_nat :: "nat \<Rightarrow> string" where
  "show_nat n = (if n < 10 then [char_of (n + 48)] else show_nat (n div 10) @ [char_of (n mod 10 + 48)])"

declare show_nat.simps [simp del]

text \<open>\<^verbatim>\<open>Number.isSafeInteger\<close> on a finite number.\<close>

definition is_safe_integer :: "rat \<Rightarrow> bool" where
  "is_safe_integer x \<longleftrightarrow> snd (quotient_of x) = 1 \<and> \<bar>x\<bar> \<le> 9007199254740991"

end
