(* ===== verification/Lifecycle.thy ===== *)
theory Lifecycle imports Prelude
begin

text \<open>
  The PostgreSQL-owned lifecycle configuration
  (\<^verbatim>\<open>src/modules/lifecycle/lifecycle.service.ts\<close>): state definitions, transitions,
  resource bindings and operational policies, the transition selector, the lookups,
  and the operations that edit the configuration. SQL statements are functions on
  the record \<open>lc_db\<close>, whose components are the tables as lists of rows.
\<close>

section \<open>Rows and tables\<close>

record LifecycleStateDefinition =
  ls_key :: string
  ls_status :: string
  ls_initial :: bool
  ls_terminal :: bool
  ls_retryable :: bool
  ls_administrative :: bool
  ls_dispatchable :: bool
  ls_manual :: bool
  ls_stale_ms :: "int option"
  ls_stale_action :: "string option"
  ls_description :: "string option"
  ls_metadata :: jobj

text \<open>A row of \<^verbatim>\<open>lifecycle_state_definitions\<close> also has the sort order.\<close>

record lc_state_row = LifecycleStateDefinition +
  ls_sort :: int

record LifecycleTransition =
  lt_key :: string
  lt_action :: string
  lt_from :: string
  lt_to :: string
  lt_manual_allowed :: bool
  lt_external_allowed :: bool
  lt_automatic :: bool
  lt_mark_started :: bool
  lt_mark_completed :: bool
  lt_clear_completed :: bool
  lt_clear_failure :: bool
  lt_reset_retry :: bool
  lt_metadata :: jobj

record lc_binding =
  lb_table :: string
  lb_column :: string
  lb_key :: string

record ResourceLifecyclePolicyRecord =
  lp_table :: string
  lp_column :: string
  lp_policy :: json
  lp_version :: int
  lp_updated_by :: "string option"
  lp_updated_at :: timestamp

text \<open>
  \<open>db_catalog\<close> maps the names a query may use for a table to the table itself
  (\<^verbatim>\<open>to_regclass\<close>), \<open>db_columns\<close> lists the columns of each table.
\<close>

record lc_db =
  db_catalog :: "(string \<times> string) list"
  db_columns :: "(string \<times> string) list"
  db_states :: "lc_state_row list"
  db_transitions :: "LifecycleTransition list"
  db_bindings :: "lc_binding list"
  db_policies :: "ResourceLifecyclePolicyRecord list"

definition to_regclass :: "lc_db \<Rightarrow> string \<Rightarrow> string option" where
  "to_regclass db n = map_of (db_catalog db) n"

section \<open>Transition selectors\<close>

record LifecycleTransitionSelector =
  targetInitial :: "bool option"
  targetTerminal :: "bool option"
  targetRetryable :: "bool option"
  targetAdministrative :: "bool option"
  targetDispatchable :: "bool option"
  targetManual :: "bool option"
  targetHasAutomaticNonterminalExit :: "bool option"
  transitionManualAllowed :: "bool option"
  transitionExternalAllowed :: "bool option"
  transitionAutomatic :: "bool option"
  transitionMarkStarted :: "bool option"
  transitionMarkCompleted :: "bool option"
  transitionClearCompleted :: "bool option"
  transitionClearFailure :: "bool option"
  transitionResetRetry :: "bool option"

definition any_selector :: LifecycleTransitionSelector where
  "any_selector = \<lparr>targetInitial = None, targetTerminal = None, targetRetryable = None,
     targetAdministrative = None, targetDispatchable = None, targetManual = None,
     targetHasAutomaticNonterminalExit = None, transitionManualAllowed = None,
     transitionExternalAllowed = None, transitionAutomatic = None, transitionMarkStarted = None,
     transitionMarkCompleted = None, transitionClearCompleted = None,
     transitionClearFailure = None, transitionResetRetry = None\<rparr>"

text \<open>\<open>target_states\<close> is the join of a transition with its target state.\<close>

definition target_states :: "lc_db \<Rightarrow> LifecycleTransition \<Rightarrow> lc_state_row list" where
  "target_states db t = filter (\<lambda>s. ls_key s = lt_key t \<and> ls_status s = lt_to t) (db_states db)"

definition has_automatic_nonterminal_exit :: "lc_db \<Rightarrow> lc_state_row \<Rightarrow> bool" where
  "has_automatic_nonterminal_exit db s =
     list_ex (\<lambda>out. lt_key out = ls_key s \<and> lt_from out = ls_status s \<and> lt_automatic out
       \<and> list_ex (\<lambda>target. \<not> ls_terminal target) (target_states db out)) (db_transitions db)"

definition lifecycleTransitionSelectorPredicate ::
  "lc_db \<Rightarrow> LifecycleTransitionSelector \<Rightarrow> LifecycleTransition \<Rightarrow> lc_state_row \<Rightarrow> bool" where
  "lifecycleTransitionSelectorPredicate db sel t target \<longleftrightarrow>
     guard_opt (targetInitial sel) (ls_initial target)
   \<and> guard_opt (targetTerminal sel) (ls_terminal target)
   \<and> guard_opt (targetRetryable sel) (ls_retryable target)
   \<and> guard_opt (targetAdministrative sel) (ls_administrative target)
   \<and> guard_opt (targetDispatchable sel) (ls_dispatchable target)
   \<and> guard_opt (targetManual sel) (ls_manual target)
   \<and> guard_opt (transitionManualAllowed sel) (lt_manual_allowed t)
   \<and> guard_opt (transitionExternalAllowed sel) (lt_external_allowed t)
   \<and> guard_opt (transitionAutomatic sel) (lt_automatic t)
   \<and> guard_opt (transitionMarkStarted sel) (lt_mark_started t)
   \<and> guard_opt (transitionMarkCompleted sel) (lt_mark_completed t)
   \<and> guard_opt (transitionClearCompleted sel) (lt_clear_completed t)
   \<and> guard_opt (transitionClearFailure sel) (lt_clear_failure t)
   \<and> guard_opt (transitionResetRetry sel) (lt_reset_retry t)
   \<and> guard_opt (targetHasAutomaticNonterminalExit sel) (has_automatic_nonterminal_exit db target)"

text \<open>Transitions of a lifecycle out of a status, joined with their targets.\<close>

definition outgoing :: "lc_db \<Rightarrow> string \<Rightarrow> string \<Rightarrow> (LifecycleTransition \<times> lc_state_row) list" where
  "outgoing db key from1 =
     concat (map (\<lambda>t. map (Pair t) (target_states db t))
       (filter (\<lambda>t. lt_key t = key \<and> lt_from t = from1) (db_transitions db)))"

lemma set_outgoing:
  "(t, s) \<in> set (outgoing db key from1) \<longleftrightarrow>
     t \<in> set (db_transitions db) \<and> lt_key t = key \<and> lt_from t = from1
     \<and> s \<in> set (db_states db) \<and> ls_key s = key \<and> ls_status s = lt_to t"
  by (auto simp: outgoing_def target_states_def)

section \<open>Lookups on bound resources\<close>

definition bound_keys :: "lc_db \<Rightarrow> string \<Rightarrow> string \<Rightarrow> string list" where
  "bound_keys db table column =
     map lb_key (filter (\<lambda>b. to_regclass db table = Some (lb_table b) \<and> lb_column b = column)
       (db_bindings db))"

definition getResourceLifecycleKey :: "lc_db \<Rightarrow> string \<Rightarrow> string \<Rightarrow> string option" where
  "getResourceLifecycleKey db table column = first_row (bound_keys db table column)"

definition rowToState :: "lc_state_row \<Rightarrow> LifecycleStateDefinition" where
  "rowToState r = LifecycleStateDefinition.truncate r"

definition state_order :: "lc_state_row \<Rightarrow> int \<times> string" where
  "state_order s = (ls_sort s, ls_status s)"

definition listResourceLifecycleStates :: "lc_db \<Rightarrow> string \<Rightarrow> string \<Rightarrow> LifecycleStateDefinition list" where
  "listResourceLifecycleStates db table column =
     map rowToState (sort_key state_order
       (concat (map (\<lambda>k. filter (\<lambda>s. ls_key s = k) (db_states db)) (bound_keys db table column))))"

definition resource_state_rows :: "lc_db \<Rightarrow> string \<Rightarrow> string \<Rightarrow> string \<Rightarrow> lc_state_row list" where
  "resource_state_rows db table status column =
     concat (map (\<lambda>k. filter (\<lambda>s. ls_key s = k \<and> ls_status s = status) (db_states db))
       (bound_keys db table column))"

definition getResourceLifecycleState ::
  "lc_db \<Rightarrow> string \<Rightarrow> string \<Rightarrow> string \<Rightarrow> LifecycleStateDefinition option" where
  "getResourceLifecycleState db table status column =
     map_option rowToState (first_row (resource_state_rows db table status column))"

record LifecycleStateSelector =
  sel_initial :: "bool option"
  sel_terminal :: "bool option"
  sel_retryable :: "bool option"
  sel_administrative :: "bool option"
  sel_dispatchable :: "bool option"
  sel_manual :: "bool option"

definition any_state :: LifecycleStateSelector where
  "any_state = \<lparr>sel_initial = None, sel_terminal = None, sel_retryable = None,
     sel_administrative = None, sel_dispatchable = None, sel_manual = None\<rparr>"

definition state_satisfies :: "LifecycleStateSelector \<Rightarrow> 'a LifecycleStateDefinition_scheme \<Rightarrow> bool" where
  "state_satisfies sel s \<longleftrightarrow>
     guard_opt (sel_initial sel) (ls_initial s) \<and> guard_opt (sel_terminal sel) (ls_terminal s)
   \<and> guard_opt (sel_retryable sel) (ls_retryable s)
   \<and> guard_opt (sel_administrative sel) (ls_administrative s)
   \<and> guard_opt (sel_dispatchable sel) (ls_dispatchable s) \<and> guard_opt (sel_manual sel) (ls_manual s)"

definition resourceLifecycleStateMatches ::
  "lc_db \<Rightarrow> string \<Rightarrow> string \<Rightarrow> LifecycleStateSelector \<Rightarrow> string \<Rightarrow> bool" where
  "resourceLifecycleStateMatches db table status sel column =
     (case getResourceLifecycleState db table status column of
        None \<Rightarrow> False
      | Some s \<Rightarrow> state_satisfies sel s)"

definition resource_outgoing ::
  "lc_db \<Rightarrow> string \<Rightarrow> string \<Rightarrow> string \<Rightarrow> (LifecycleTransition \<times> lc_state_row) list" where
  "resource_outgoing db table from1 column =
     concat (map (\<lambda>k. outgoing db k from1) (bound_keys db table column))"

definition selectResourceLifecycleTransition ::
  "lc_db \<Rightarrow> string \<Rightarrow> string \<Rightarrow> LifecycleTransitionSelector \<Rightarrow> string \<Rightarrow> LifecycleTransition option res" where
  "selectResourceLifecycleTransition db table from1 sel column =
     (let rows = sort_key (\<lambda>(t, s). (ls_sort s, lt_action t))
        (filter (\<lambda>(t, s). lifecycleTransitionSelectorPredicate db sel t s)
          (resource_outgoing db table from1 column))
      in if length rows > 1
         then Inl ''lifecycle transition selector is ambiguous for configured resource''
         else Inr (map_option fst (first_row rows)))"

definition resource_transitions :: "lc_db \<Rightarrow> string \<Rightarrow> string \<Rightarrow> string \<Rightarrow> LifecycleTransition list" where
  "resource_transitions db table from1 column =
     concat (map (\<lambda>k. filter (\<lambda>t. lt_key t = k \<and> lt_from t = from1) (db_transitions db))
       (bound_keys db table column))"

definition getResourceLifecycleTransitionToState ::
  "lc_db \<Rightarrow> string \<Rightarrow> string \<Rightarrow> string \<Rightarrow> string \<Rightarrow> LifecycleTransition option res" where
  "getResourceLifecycleTransitionToState db table from1 to1 column =
     (let rows = filter (\<lambda>t. lt_to t = to1) (resource_transitions db table from1 column)
      in if length rows > 1
         then Inl ''configured resource has duplicate transitions between states''
         else Inr (first_row rows))"

definition getResourceLifecycleTransition ::
  "lc_db \<Rightarrow> string \<Rightarrow> string \<Rightarrow> string \<Rightarrow> string \<Rightarrow> LifecycleTransition option" where
  "getResourceLifecycleTransition db table from1 action column =
     first_row (filter (\<lambda>t. lt_action t = action) (resource_transitions db table from1 column))"

end
