(* ===== verification/Lifecycle_Policy.thy ===== *)
theory Lifecycle_Policy imports Lifecycle
begin

text \<open>
  Operational policies of lifecycle resources and the execution status contract
  (\<^verbatim>\<open>lifecycle.service.ts\<close>, lines 172-343, 439-494 and 590-646): validation of
  identifiers and of policy documents, insert-or-update with a version counter,
  disabling, deletion, and the derivation of the five execution statuses.
\<close>

section \<open>JavaScript values a caller may pass as a policy\<close>

text \<open>\<open>VNonFinite\<close> stands for NaN and the infinities, \<open>VFun\<close> for functions and symbols.\<close>

datatype jsval =
    VUndef
  | VNull
  | VBool bool
  | VNum rat
  | VNonFinite
  | VStr string
  | VArr "jsval list"
  | VObj "(string \<times> jsval) list"
  | VFun

fun assertJsonCompatiblePolicy :: "jsval \<Rightarrow> string \<Rightarrow> unit res"
  and assert_items :: "jsval list \<Rightarrow> nat \<Rightarrow> string \<Rightarrow> unit res"
  and assert_members :: "(string \<times> jsval) list \<Rightarrow> string \<Rightarrow> unit res" where
  "assertJsonCompatiblePolicy VNull path = Inr ()"
| "assertJsonCompatiblePolicy (VStr _) path = Inr ()"
| "assertJsonCompatiblePolicy (VBool _) path = Inr ()"
| "assertJsonCompatiblePolicy (VNum _) path = Inr ()"
| "assertJsonCompatiblePolicy VNonFinite path = Inl (path @ '' must be JSON-compatible'')"
| "assertJsonCompatiblePolicy (VArr items) path = assert_items items 0 path"
| "assertJsonCompatiblePolicy (VObj members) path = assert_members members path"
| "assertJsonCompatiblePolicy VUndef path = Inl (path @ '' must be JSON-compatible'')"
| "assertJsonCompatiblePolicy VFun path = Inl (path @ '' must be JSON-compatible'')"
| "assert_items [] i path = Inr ()"
| "assert_items (v # vs) i path =
     res_bind (assertJsonCompatiblePolicy v (path @ ''['' @ show_nat i @ '']''))
       (\<lambda>_. assert_items vs (Suc i) path)"
| "assert_members [] path = Inr ()"
| "assert_members ((k, v) # ms) path =
     (if js_trim k = [] then Inl (path @ '' contains an empty object key'')
      else res_bind (assertJsonCompatiblePolicy v (path @ ''.'' @ k)) (\<lambda>_. assert_members ms path))"

text \<open>
  \<^verbatim>\<open>JSON.stringify\<close> into a \<^verbatim>\<open>jsonb\<close> value: undefined and functions are dropped from
  objects and become null in arrays, non-finite numbers become null. \<open>None\<close> is the
  undefined result.
\<close>

fun json_stringify :: "jsval \<Rightarrow> json option"
  and stringify_items :: "jsval list \<Rightarrow> json list"
  and stringify_members :: "(string \<times> jsval) list \<Rightarrow> jobj" where
  "json_stringify VUndef = None"
| "json_stringify VFun = None"
| "json_stringify VNull = Some JNull"
| "json_stringify (VBool b) = Some (JBool b)"
| "json_stringify (VNum x) = Some (JNum x)"
| "json_stringify VNonFinite = Some JNull"
| "json_stringify (VStr s) = Some (JStr s)"
| "json_stringify (VArr items) = Some (JArr (stringify_items items))"
| "json_stringify (VObj members) = Some (JObj (stringify_members members))"
| "stringify_items [] = []"
| "stringify_items (v # vs) =
     (case json_stringify v of None \<Rightarrow> JNull | Some j \<Rightarrow> j) # stringify_items vs"
| "stringify_members [] = []"
| "stringify_members ((k, v) # ms) =
     (case json_stringify v of None \<Rightarrow> [] | Some j \<Rightarrow> [(k, j)]) @ stringify_members ms"

text \<open>\<^verbatim>\<open>JSON.parse\<close> of a stored value.\<close>

fun json_parse :: "json \<Rightarrow> jsval"
  and parse_items :: "json list \<Rightarrow> jsval list"
  and parse_members :: "jobj \<Rightarrow> (string \<times> jsval) list" where
  "json_parse JNull = VNull"
| "json_parse (JBool b) = VBool b"
| "json_parse (JNum x) = VNum x"
| "json_parse (JStr s) = VStr s"
| "json_parse (JArr items) = VArr (parse_items items)"
| "json_parse (JObj members) = VObj (parse_members members)"
| "parse_items [] = []"
| "parse_items (v # vs) = json_parse v # parse_items vs"
| "parse_members [] = []"
| "parse_members ((k, v) # ms) = (k, json_parse v) # parse_members ms"

lemma parse_stringify_accepted:
  "assertJsonCompatiblePolicy v path = Inr () \<Longrightarrow> \<exists>j. json_stringify v = Some j \<and> json_parse j = v"
  "assert_items vs i path = Inr () \<Longrightarrow> parse_items (stringify_items vs) = vs"
  "assert_members ms path = Inr () \<Longrightarrow> parse_members (stringify_members ms) = ms"
  by (induction v path and vs i path and ms path
      rule: assertJsonCompatiblePolicy_assert_items_assert_members.induct)
    (auto simp: res_bind_eq_Inr split: if_splits)

section \<open>Validation of identifiers and policies\<close>

definition ascii_letter :: "char \<Rightarrow> bool" where
  "ascii_letter c \<longleftrightarrow> (CHR ''a'' \<le> c \<and> c \<le> CHR ''z'') \<or> (CHR ''A'' \<le> c \<and> c \<le> CHR ''Z'')"

definition ascii_digit :: "char \<Rightarrow> bool" where
  "ascii_digit c \<longleftrightarrow> CHR ''0'' \<le> c \<and> c \<le> CHR ''9''"

fun ident_segment :: "string \<Rightarrow> bool" where
  "ident_segment [] = False"
| "ident_segment (c # cs) =
     ((ascii_letter c \<or> c = CHR ''_'') \<and> list_all (\<lambda>d. ascii_letter d \<or> ascii_digit d \<or> d = CHR ''_'') cs)"

text \<open>The regular expression of \<^verbatim>\<open>normalizeResourceIdentity\<close>: one segment, or two joined by a dot.\<close>

definition is_pg_identifier :: "string \<Rightarrow> bool" where
  "is_pg_identifier s =
     (ident_segment (takeWhile (\<lambda>c. c \<noteq> CHR ''.'') s)
      \<and> (case dropWhile (\<lambda>c. c \<noteq> CHR ''.'') s of [] \<Rightarrow> True | _ # rest \<Rightarrow> ident_segment rest))"

definition normalizeResourceIdentity :: "string \<Rightarrow> string \<Rightarrow> string res" where
  "normalizeResourceIdentity v field =
     (let normalized = js_trim v
      in if normalized = [] \<or> length normalized > 200 \<or> \<not> is_pg_identifier normalized
         then Inl (field @ '' must be a non-empty PostgreSQL identifier or schema-qualified identifier'')
         else Inr normalized)"

definition boolean_member :: "(string \<times> jsval) list \<Rightarrow> string \<Rightarrow> bool" where
  "boolean_member ms k = (case map_of ms k of None \<Rightarrow> True | Some (VBool _) \<Rightarrow> True | Some _ \<Rightarrow> False)"

definition normalizeResourceLifecyclePolicy :: "jsval \<Rightarrow> jsval res" where
  "normalizeResourceLifecyclePolicy v =
     (case v of
        VObj ms \<Rightarrow>
          res_bind (assertJsonCompatiblePolicy v ''policy'') (\<lambda>_.
            if \<not> boolean_member ms ''enabled'' then Inl ''policy.enabled must be a boolean when provided''
            else if \<not> boolean_member ms ''disabled'' then Inl ''policy.disabled must be a boolean when provided''
            else Inr v)
      | _ \<Rightarrow> Inl ''policy must be an object'')"

section \<open>Reading and writing policies\<close>

definition policy_rows :: "lc_db \<Rightarrow> string \<Rightarrow> string \<Rightarrow> ResourceLifecyclePolicyRecord list" where
  "policy_rows db table column =
     filter (\<lambda>p. to_regclass db table = Some (lp_table p) \<and> lp_column p = column) (db_policies db)"

definition getResourceLifecyclePolicy :: "lc_db \<Rightarrow> string \<Rightarrow> string \<Rightarrow> jobj res" where
  "getResourceLifecyclePolicy db table column =
     (case map_option lp_policy (first_row (policy_rows db table column)) of
        Some (JObj o1) \<Rightarrow>
          if jget o1 ''enabled'' = Some (JBool False) \<or> jget o1 ''disabled'' = Some (JBool True)
          then Inl ''resource lifecycle operational policy is disabled''
          else Inr o1
      | _ \<Rightarrow> Inl ''resource lifecycle operational policy is not configured'')"

text \<open>A missing filter is SQL's \<open>$1 IS NULL\<close>.\<close>

definition listResourceLifecyclePolicies ::
  "lc_db \<Rightarrow> string option \<Rightarrow> string option \<Rightarrow> ResourceLifecyclePolicyRecord list res" where
  "listResourceLifecyclePolicies db table column =
     res_bind (case table of None \<Rightarrow> Inr None
               | Some t \<Rightarrow> map_sum id Some (normalizeResourceIdentity t ''resourceTable'')) (\<lambda>t.
     res_bind (case column of None \<Rightarrow> Inr None
               | Some c \<Rightarrow> map_sum id Some (normalizeResourceIdentity c ''stateColumn'')) (\<lambda>c.
     Inr (sort_key (\<lambda>p. (lp_table p, lp_column p))
       (filter (\<lambda>p. (t = None \<or> to_regclass db (the t) = Some (lp_table p))
                  \<and> (c = None \<or> c = Some (lp_column p))) (db_policies db)))))"

definition getResourceLifecyclePolicyRecord ::
  "lc_db \<Rightarrow> string \<Rightarrow> string \<Rightarrow> ResourceLifecyclePolicyRecord option res" where
  "getResourceLifecyclePolicyRecord db tableValue columnValue =
     res_bind (normalizeResourceIdentity tableValue ''resourceTable'') (\<lambda>table.
     res_bind (normalizeResourceIdentity columnValue ''stateColumn'') (\<lambda>column.
     Inr (first_row (policy_rows db table column))))"

definition policy_identity :: "ResourceLifecyclePolicyRecord \<Rightarrow> string \<times> string" where
  "policy_identity p = (lp_table p, lp_column p)"

definition normalized_actor :: "string option \<Rightarrow> string option" where
  "normalized_actor v = (case v of None \<Rightarrow> None | Some u \<Rightarrow> if js_trim u = [] then None else Some (js_trim u))"

definition stored_policy :: "jsval \<Rightarrow> json" where
  "stored_policy v = (case json_stringify v of None \<Rightarrow> JNull | Some j \<Rightarrow> j)"

definition binding_row :: "lc_db \<Rightarrow> string \<Rightarrow> string \<Rightarrow> lc_binding option" where
  "binding_row db table column =
     first_row (filter (\<lambda>b. to_regclass db table = Some (lb_table b) \<and> lb_column b = column) (db_bindings db))"

definition new_policy :: "lc_binding \<Rightarrow> timestamp \<Rightarrow> json \<Rightarrow> string option \<Rightarrow> ResourceLifecyclePolicyRecord" where
  "new_policy b now stored actor =
     \<lparr>lp_table = lb_table b, lp_column = lb_column b, lp_policy = stored, lp_version = 1,
      lp_updated_by = actor, lp_updated_at = now\<rparr>"

definition overwrite_policy ::
  "timestamp \<Rightarrow> json \<Rightarrow> string option \<Rightarrow> ResourceLifecyclePolicyRecord \<Rightarrow> ResourceLifecyclePolicyRecord" where
  "overwrite_policy now stored actor p =
     p\<lparr>lp_policy := stored, lp_version := lp_version p + 1, lp_updated_by := actor, lp_updated_at := now\<rparr>"

text \<open>
  The statement runs in a transaction of its own: an error leaves the tables as they
  were, which is the \<open>Inl\<close> result.
\<close>

definition upsertResourceLifecyclePolicy ::
  "lc_db \<Rightarrow> timestamp \<Rightarrow> string \<Rightarrow> string \<Rightarrow> jsval \<Rightarrow> string option
     \<Rightarrow> (ResourceLifecyclePolicyRecord \<times> lc_db) res" where
  "upsertResourceLifecyclePolicy db now tableValue columnValue policyValue updatedByValue =
     res_bind (normalizeResourceIdentity tableValue ''resourceTable'') (\<lambda>table.
     res_bind (normalizeResourceIdentity columnValue ''stateColumn'') (\<lambda>column.
     res_bind (normalizeResourceLifecyclePolicy policyValue) (\<lambda>policy.
     case binding_row db table column of
       None \<Rightarrow> Inl ''resource lifecycle binding does not exist in PostgreSQL''
     | Some b \<Rightarrow>
         let actor = normalized_actor updatedByValue;
             new = new_policy b now (stored_policy policy) actor;
             rows = upsert_row policy_identity new (overwrite_policy now (stored_policy policy) actor)
                      (db_policies db)
         in case find (\<lambda>p. policy_identity p = policy_identity new) rows of
              None \<Rightarrow> Inl ''resource lifecycle binding does not exist in PostgreSQL''
            | Some p \<Rightarrow> Inr (p, db\<lparr>db_policies := rows\<rparr>))))"

definition disableResourceLifecyclePolicy ::
  "lc_db \<Rightarrow> timestamp \<Rightarrow> string \<Rightarrow> string \<Rightarrow> string option
     \<Rightarrow> (ResourceLifecyclePolicyRecord \<times> lc_db) res" where
  "disableResourceLifecyclePolicy db now tableValue columnValue updatedBy =
     upsertResourceLifecyclePolicy db now tableValue columnValue
       (VObj [(''enabled'', VBool False)]) updatedBy"

definition deleteResourceLifecyclePolicy :: "lc_db \<Rightarrow> string \<Rightarrow> string \<Rightarrow> (bool \<times> lc_db) res" where
  "deleteResourceLifecyclePolicy db tableValue columnValue =
     res_bind (normalizeResourceIdentity tableValue ''resourceTable'') (\<lambda>table.
     res_bind (normalizeResourceIdentity columnValue ''stateColumn'') (\<lambda>column.
     let matches = (\<lambda>p. to_regclass db table = Some (lp_table p) \<and> lp_column p = column)
     in Inr (length (filter matches (db_policies db)) = 1,
             db\<lparr>db_policies := filter (\<lambda>p. \<not> matches p) (db_policies db)\<rparr>)))"

section \<open>The execution status contract\<close>

record LifecycleExecutionStatusContract =
  ec_initial :: string
  ec_active :: string
  ec_succeeded :: string
  ec_failed :: string
  ec_cancelled :: string

definition execution_role :: "lc_db \<Rightarrow> lc_state_row \<Rightarrow> string option" where
  "execution_role db s =
     (if ls_initial s then Some ''initial''
      else if ls_terminal s \<and> ls_administrative s then Some ''cancelled''
      else if ls_terminal s \<and> ls_retryable s then Some ''failed''
      else if ls_terminal s \<and> \<not> ls_retryable s \<and> \<not> ls_administrative s then Some ''succeeded''
      else if list_ex (\<lambda>t. lt_key t = ls_key s \<and> lt_to t = ls_status s \<and> lt_mark_started t)
                (db_transitions db) then Some ''active''
      else None)"

definition role_statuses :: "lc_db \<Rightarrow> string \<Rightarrow> string \<Rightarrow> string \<Rightarrow> string list" where
  "role_statuses db table column role =
     map ls_status (sort_key state_order (filter (\<lambda>s. execution_role db s = Some role)
       (concat (map (\<lambda>k. filter (\<lambda>s. ls_key s = k) (db_states db)) (bound_keys db table column)))))"

definition required_role :: "lc_db \<Rightarrow> string \<Rightarrow> string \<Rightarrow> string \<Rightarrow> string res" where
  "required_role db table column role =
     (case single (role_statuses db table column role) of
        Some status \<Rightarrow> Inr status
      | None \<Rightarrow> Inl (''resource lifecycle execution role '' @ role
                     @ '' must resolve to exactly one configured state''))"

definition getResourceLifecycleExecutionStatusContract ::
  "lc_db \<Rightarrow> string \<Rightarrow> string \<Rightarrow> LifecycleExecutionStatusContract res" where
  "getResourceLifecycleExecutionStatusContract db table column =
     res_bind (required_role db table column ''initial'') (\<lambda>i.
     res_bind (required_role db table column ''active'') (\<lambda>a.
     res_bind (required_role db table column ''succeeded'') (\<lambda>s.
     res_bind (required_role db table column ''failed'') (\<lambda>f.
     res_bind (required_role db table column ''cancelled'') (\<lambda>c.
     Inr \<lparr>ec_initial = i, ec_active = a, ec_succeeded = s, ec_failed = f, ec_cancelled = c\<rparr>)))))"

end
