(* ===== verification/Lifecycle_Config.thy ===== *)
theory Lifecycle_Config imports Lifecycle_Policy
begin

text \<open>
  Editing the lifecycle configuration (\<^verbatim>\<open>lifecycle.service.ts\<close>, lines 648-860): listing
  and reading states and transitions, the stale policy of a state, bindings, and the
  insert-or-update of states and transitions under the constraints of the tables. The
  invariant \<open>wf_config\<close> collects what the tables promise; every operation keeps it.
\<close>

section \<open>Listing and reading\<close>

definition listLifecycleStates :: "lc_db \<Rightarrow> string \<Rightarrow> LifecycleStateDefinition list" where
  "listLifecycleStates db key =
     map rowToState (sort_key state_order (filter (\<lambda>s. ls_key s = key) (db_states db)))"

definition state_identity :: "'a LifecycleStateDefinition_scheme \<Rightarrow> string \<times> string" where
  "state_identity s = (ls_key s, ls_status s)"

definition transition_identity :: "LifecycleTransition \<Rightarrow> string \<times> string \<times> string" where
  "transition_identity t = (lt_key t, lt_action t, lt_from t)"

definition binding_identity :: "lc_binding \<Rightarrow> string \<times> string" where
  "binding_identity b = (lb_table b, lb_column b)"

definition getLifecycleState :: "lc_db \<Rightarrow> string \<Rightarrow> string \<Rightarrow> LifecycleStateDefinition option" where
  "getLifecycleState db key status =
     map_option rowToState (find (\<lambda>s. state_identity s = (key, status)) (db_states db))"

definition getLifecycleTransition ::
  "lc_db \<Rightarrow> string \<Rightarrow> string \<Rightarrow> string \<Rightarrow> LifecycleTransition option" where
  "getLifecycleTransition db key from1 action =
     find (\<lambda>t. transition_identity t = (key, action, from1)) (db_transitions db)"

definition listLifecycleTransitions :: "lc_db \<Rightarrow> string \<Rightarrow> LifecycleTransition list" where
  "listLifecycleTransitions db key =
     sort_key (\<lambda>t. (lt_from t, lt_action t)) (filter (\<lambda>t. lt_key t = key) (db_transitions db))"

section \<open>Table constraints\<close>

text \<open>The two CHECK constraints of \<^verbatim>\<open>lifecycle_state_definitions\<close>.\<close>

definition stale_check :: "int option \<Rightarrow> string option \<Rightarrow> bool" where
  "stale_check ms action =
     (case ms of
        None \<Rightarrow> action = None
      | Some n \<Rightarrow> 0 < n \<and> (case action of None \<Rightarrow> False | Some a \<Rightarrow> sql_btrim a \<noteq> []))"

definition state_exists :: "lc_db \<Rightarrow> string \<Rightarrow> string \<Rightarrow> bool" where
  "state_exists db key status \<longleftrightarrow> (key, status) \<in> state_identity ` set (db_states db)"

definition keys_distinct :: "lc_db \<Rightarrow> bool" where
  "keys_distinct db \<longleftrightarrow>
     distinct (map state_identity (db_states db)) \<and> distinct (map transition_identity (db_transitions db))
   \<and> distinct (map binding_identity (db_bindings db)) \<and> distinct (map policy_identity (db_policies db))"

definition stale_policies_ok :: "lc_db \<Rightarrow> bool" where
  "stale_policies_ok db \<longleftrightarrow> (\<forall>s \<in> set (db_states db). stale_check (ls_stale_ms s) (ls_stale_action s))"

text \<open>The partial unique index \<^verbatim>\<open>uq_lifecycle_state_initial\<close>.\<close>

definition initial_state_unique :: "lc_db \<Rightarrow> bool" where
  "initial_state_unique db \<longleftrightarrow>
     (\<forall>s \<in> set (db_states db). \<forall>s' \<in> set (db_states db).
        ls_initial s \<longrightarrow> ls_initial s' \<longrightarrow> ls_key s = ls_key s' \<longrightarrow> state_identity s = state_identity s')"

definition transitions_resolved :: "lc_db \<Rightarrow> bool" where
  "transitions_resolved db \<longleftrightarrow>
     (\<forall>t \<in> set (db_transitions db).
        state_exists db (lt_key t) (lt_from t) \<and> state_exists db (lt_key t) (lt_to t))"

definition policies_bound :: "lc_db \<Rightarrow> bool" where
  "policies_bound db \<longleftrightarrow> policy_identity ` set (db_policies db) \<subseteq> binding_identity ` set (db_bindings db)"

definition wf_config :: "lc_db \<Rightarrow> bool" where
  "wf_config db \<longleftrightarrow> keys_distinct db \<and> stale_policies_ok db \<and> initial_state_unique db
     \<and> transitions_resolved db \<and> policies_bound db"

lemma constraints_update [simp]:
  "stale_policies_ok (db\<lparr>db_transitions := ts\<rparr>) = stale_policies_ok db"
  "stale_policies_ok (db\<lparr>db_bindings := bs\<rparr>) = stale_policies_ok db"
  "stale_policies_ok (db\<lparr>db_policies := ps\<rparr>) = stale_policies_ok db"
  "initial_state_unique (db\<lparr>db_transitions := ts\<rparr>) = initial_state_unique db"
  "initial_state_unique (db\<lparr>db_bindings := bs\<rparr>) = initial_state_unique db"
  "initial_state_unique (db\<lparr>db_policies := ps\<rparr>) = initial_state_unique db"
  "transitions_resolved (db\<lparr>db_bindings := bs\<rparr>) = transitions_resolved db"
  "transitions_resolved (db\<lparr>db_policies := ps\<rparr>) = transitions_resolved db"
  "policies_bound (db\<lparr>db_states := ss\<rparr>) = policies_bound db"
  "policies_bound (db\<lparr>db_transitions := ts\<rparr>) = policies_bound db"
  by (simp_all add: stale_policies_ok_def initial_state_unique_def transitions_resolved_def
      policies_bound_def state_exists_def)

section \<open>Editing operations\<close>

text \<open>
  \<open>staleAfterMs\<close> is a JavaScript number; a blank action key counts as missing.
\<close>

definition stale_action :: "string option \<Rightarrow> string option" where
  "stale_action v = (case v of None \<Rightarrow> None | Some a \<Rightarrow> if js_trim a = [] then None else Some (js_trim a))"

definition set_stale :: "rat option \<Rightarrow> string option \<Rightarrow> lc_state_row \<Rightarrow> lc_state_row" where
  "set_stale ms action s =
     s\<lparr>ls_stale_ms := map_option (\<lambda>n. fst (quotient_of n)) ms, ls_stale_action := action\<rparr>"

definition stale_policy_applies ::
  "lc_db \<Rightarrow> rat option \<Rightarrow> string option \<Rightarrow> lc_state_row \<Rightarrow> bool" where
  "stale_policy_applies db ms action s \<longleftrightarrow>
     ms = None \<and> action = None
   \<or> list_ex (\<lambda>t. lt_key t = ls_key s \<and> lt_from t = ls_status s \<and> Some (lt_action t) = action
        \<and> lt_automatic t) (db_transitions db)"

definition updateLifecycleStalePolicy ::
  "lc_db \<Rightarrow> string \<Rightarrow> string \<Rightarrow> rat option \<Rightarrow> string option
     \<Rightarrow> (LifecycleStateDefinition option \<times> lc_db) res" where
  "updateLifecycleStalePolicy db key status staleAfterMs staleActionValue =
     (let action = stale_action staleActionValue
      in if (staleAfterMs = None) \<noteq> (action = None)
            \<or> (case staleAfterMs of None \<Rightarrow> False | Some ms \<Rightarrow> \<not> is_safe_integer ms \<or> ms \<le> 0)
         then Inl ''staleAfterMs and staleActionKey must both be null, or a positive integer and non-empty action key''
         else
           let hit = (\<lambda>s. state_identity s = (key, status) \<and> stale_policy_applies db staleAfterMs action s)
           in Inr (map_option (\<lambda>s. rowToState (set_stale staleAfterMs action s)) (find hit (db_states db)),
                   db\<lparr>db_states := update_where hit (set_stale staleAfterMs action) (db_states db)\<rparr>))"

text \<open>
  \<^verbatim>\<open>configureResourceLifecycleBinding\<close> calls the SQL function of migration 119; the
  legacy CHECK constraints it drops and the trigger it installs are not rows of the
  configuration.
\<close>

definition configureResourceLifecycleBinding ::
  "lc_db \<Rightarrow> string \<Rightarrow> string \<Rightarrow> string \<Rightarrow> lc_db res" where
  "configureResourceLifecycleBinding db table key column =
     (if sql_btrim key = [] then Inl ''lifecycle key is required''
      else if \<not> list_ex (\<lambda>s. ls_key s = key) (db_states db)
      then Inl ''lifecycle configuration does not exist''
      else case to_regclass db table of
          None \<Rightarrow> Inl ''configured lifecycle state column does not exist''
        | Some oid \<Rightarrow>
            if (oid, column) \<notin> set (db_columns db)
            then Inl ''configured lifecycle state column does not exist''
            else Inr (db\<lparr>db_bindings := upsert_row binding_identity
                   \<lparr>lb_table = oid, lb_column = column, lb_key = key\<rparr>
                   (\<lambda>b. b\<lparr>lb_key := key\<rparr>) (db_bindings db)\<rparr>))"

text \<open>\<open>input\<close> is the excluded row; its key and status are the arguments of the call.\<close>

definition overwrite_state :: "lc_state_row \<Rightarrow> lc_state_row \<Rightarrow> lc_state_row" where
  "overwrite_state input s = s\<lparr>ls_initial := ls_initial input, ls_terminal := ls_terminal input,
     ls_retryable := ls_retryable input, ls_administrative := ls_administrative input,
     ls_dispatchable := ls_dispatchable input, ls_manual := ls_manual input,
     ls_stale_ms := ls_stale_ms input, ls_stale_action := ls_stale_action input,
     ls_sort := ls_sort input, ls_description := ls_description input,
     ls_metadata := ls_metadata input\<rparr>"

definition upsertLifecycleState ::
  "lc_db \<Rightarrow> lc_state_row \<Rightarrow> (LifecycleStateDefinition \<times> lc_db) res" where
  "upsertLifecycleState db input =
     (if \<not> stale_check (ls_stale_ms input) (ls_stale_action input) then Inl ''check_violation''
      else if ls_initial input \<and> list_ex (\<lambda>s. ls_initial s \<and> ls_key s = ls_key input
                \<and> ls_status s \<noteq> ls_status input) (db_states db)
      then Inl ''unique_violation''
      else Inr (rowToState input,
                db\<lparr>db_states := upsert_row state_identity input (overwrite_state input) (db_states db)\<rparr>))"

definition overwrite_transition :: "LifecycleTransition \<Rightarrow> LifecycleTransition \<Rightarrow> LifecycleTransition" where
  "overwrite_transition input t = t\<lparr>lt_to := lt_to input, lt_manual_allowed := lt_manual_allowed input,
     lt_external_allowed := lt_external_allowed input, lt_automatic := lt_automatic input,
     lt_mark_started := lt_mark_started input, lt_mark_completed := lt_mark_completed input,
     lt_clear_completed := lt_clear_completed input, lt_clear_failure := lt_clear_failure input,
     lt_reset_retry := lt_reset_retry input, lt_metadata := lt_metadata input\<rparr>"

definition upsertLifecycleTransition ::
  "lc_db \<Rightarrow> LifecycleTransition \<Rightarrow> (LifecycleTransition \<times> lc_db) res" where
  "upsertLifecycleTransition db input =
     (if \<not> state_exists db (lt_key input) (lt_from input) \<or> \<not> state_exists db (lt_key input) (lt_to input)
      then Inl ''foreign_key_violation''
      else Inr (input, db\<lparr>db_transitions := upsert_row transition_identity input
                  (overwrite_transition input) (db_transitions db)\<rparr>))"

section \<open>Preservation of the table constraints\<close>

lemma overwrite_identity [simp]:
  "state_identity (overwrite_state si s) = state_identity s"
  "transition_identity (overwrite_transition ti t) = transition_identity t"
  by (simp_all add: state_identity_def overwrite_state_def transition_identity_def overwrite_transition_def)

lemma identities_upsert:
  "(\<And>r. key (upd r) = key r) \<Longrightarrow> key ` set rows \<subseteq> key ` set (upsert_row key new upd rows)"
  using upsert_row_keys[of key upd new rows] by (metis list.set_map set_append sup_ge1 subset_refl)

lemma state_exists_upsert:
  "state_exists db k st \<Longrightarrow>
     state_exists (db\<lparr>db_states := upsert_row state_identity input (overwrite_state input) (db_states db)\<rparr>) k st"
  unfolding state_exists_def
  using subsetD[OF identities_upsert[of state_identity "overwrite_state input" "db_states db" input]] by simp

lemma upserted_state:
  "s \<in> set (upsert_row state_identity input (overwrite_state input) rows) \<Longrightarrow>
     s \<in> set rows \<and> state_identity s \<noteq> state_identity input
   \<or> state_identity s = state_identity input \<and> ls_initial s = ls_initial input
     \<and> ls_stale_ms s = ls_stale_ms input \<and> ls_stale_action s = ls_stale_action input"
  by (drule set_upsert_row) (auto simp: overwrite_state_def state_identity_def)

lemma wf_upsertLifecycleState:
  assumes wf: "wf_config db" and ok: "upsertLifecycleState db input = Inr (r, db')"
  shows "wf_config db'"
proof -
  let ?rows = "upsert_row state_identity input (overwrite_state input) (db_states db)"
  from ok have chk: "stale_check (ls_stale_ms input) (ls_stale_action input)"
    and uniq: "\<And>s. ls_initial input \<Longrightarrow> s \<in> set (db_states db) \<Longrightarrow> ls_initial s \<Longrightarrow> ls_key s = ls_key input
      \<Longrightarrow> state_identity s = state_identity input"
    and db': "db' = db\<lparr>db_states := ?rows\<rparr>"
    by (auto simp: upsertLifecycleState_def state_identity_def list_ex_iff split: if_splits)
  have "stale_policies_ok db'"
    using wf chk by (auto simp: wf_config_def stale_policies_ok_def db' dest!: upserted_state)
  moreover have "initial_state_unique db'"
    unfolding initial_state_unique_def
  proof (intro ballI impI)
    fix s s'
    assume s: "s \<in> set (db_states db')" "s' \<in> set (db_states db')" "ls_initial s" "ls_initial s'" "ls_key s = ls_key s'"
    have old: "state_identity s = state_identity s'" if "s \<in> set (db_states db)" "s' \<in> set (db_states db)"
      using wf s that unfolding wf_config_def initial_state_unique_def by blast
    have key: "ls_key x = ls_key y" if "state_identity x = state_identity y" for x y :: lc_state_row
      using that by (simp add: state_identity_def)
    show "state_identity s = state_identity s'"
      using upserted_state[of s input "db_states db"] upserted_state[of s' input "db_states db"] s uniq old key
      unfolding db' by (metis lc_db.select_convs(3) lc_db.update_convs(3) lc_db.surjective)
  qed
  moreover have "keys_distinct db'"
    using wf distinct_upsert_row[of state_identity "overwrite_state input" "db_states db" input]
    by (simp add: wf_config_def keys_distinct_def db')
  moreover have "transitions_resolved db'" "policies_bound db'"
    using wf state_exists_upsert[of db] by (simp_all add: wf_config_def transitions_resolved_def policies_bound_def db')
  ultimately show ?thesis by (simp add: wf_config_def)
qed

lemma upserted_transition:
  "t \<in> set (upsert_row transition_identity input (overwrite_transition input) rows) \<Longrightarrow>
     t \<in> set rows \<or> lt_key t = lt_key input \<and> lt_from t = lt_from input \<and> lt_to t = lt_to input"
  by (drule set_upsert_row) (auto simp: overwrite_transition_def transition_identity_def)

lemma wf_upsertLifecycleTransition:
  assumes wf: "wf_config db" and ok: "upsertLifecycleTransition db input = Inr (r, db')"
  shows "wf_config db'"
proof -
  let ?rows = "upsert_row transition_identity input (overwrite_transition input) (db_transitions db)"
  from ok have ex: "state_exists db (lt_key input) (lt_from input)" "state_exists db (lt_key input) (lt_to input)"
    and db': "db' = db\<lparr>db_transitions := ?rows\<rparr>"
    by (auto simp: upsertLifecycleTransition_def split: if_splits)
  have "state_exists db (lt_key t) (lt_from t) \<and> state_exists db (lt_key t) (lt_to t)"
    if "t \<in> set ?rows" for t
    using upserted_transition[OF that]
  proof
    assume "t \<in> set (db_transitions db)"
    with wf show ?thesis unfolding wf_config_def transitions_resolved_def by blast
  qed (simp add: ex)
  then have "transitions_resolved db'" by (simp add: transitions_resolved_def db' state_exists_def)
  moreover have "keys_distinct db'"
    using wf distinct_upsert_row[of transition_identity "overwrite_transition input" "db_transitions db" input]
    by (simp add: wf_config_def keys_distinct_def db')
  ultimately show ?thesis
    using wf by (simp add: wf_config_def db')
qed

lemma wf_configureResourceLifecycleBinding:
  assumes wf: "wf_config db" and ok: "configureResourceLifecycleBinding db table key column = Inr db'"
  shows "wf_config db'"
proof -
  let ?upd = "\<lambda>b :: lc_binding. b\<lparr>lb_key := key\<rparr>"
  obtain new where db': "db' = db\<lparr>db_bindings := upsert_row binding_identity new ?upd (db_bindings db)\<rparr>"
    using ok by (auto simp: configureResourceLifecycleBinding_def split: if_splits option.splits)
  have id: "binding_identity (?upd b) = binding_identity b" for b by (simp add: binding_identity_def)
  have "keys_distinct db'"
    using wf distinct_upsert_row[of binding_identity ?upd "db_bindings db" new, OF id]
    by (simp add: wf_config_def keys_distinct_def db')
  moreover have "policies_bound db'"
    using wf subset_trans[OF _ identities_upsert[of binding_identity ?upd "db_bindings db" new, OF id]]
    by (simp add: wf_config_def policies_bound_def db')
  ultimately show ?thesis
    using wf by (simp add: wf_config_def db')
qed

lemma safe_positive: "is_safe_integer ms \<Longrightarrow> \<not> ms \<le> 0 \<Longrightarrow> 0 < fst (quotient_of ms)"
  by (cases "quotient_of ms") (simp add: is_safe_integer_def rat_less_code not_le)

lemma js_trim_btrim: "js_trim a \<noteq> [] \<Longrightarrow> sql_btrim (js_trim a) \<noteq> []"
proof -
  assume ne: "js_trim a \<noteq> []"
  then obtain c cs where c: "js_trim a = c # cs" by (cases "js_trim a") auto
  have "dropWhile js_space (js_trim a) = js_trim a"
    by (simp add: js_trim_def trim_by_def dropWhile_rev_dropWhile)
  with c have "\<not> js_space c" by (metis hd_dropWhile list.sel(1) list.distinct(1))
  then have "c \<noteq> CHR '' ''" by (auto simp: js_space_def)
  with c show ?thesis by (auto simp: sql_btrim_def trim_by_def)
qed

lemma set_stale_row [simp]:
  "state_identity (set_stale ms action s) = state_identity s"
  "ls_key (set_stale ms action s) = ls_key s" "ls_status (set_stale ms action s) = ls_status s"
  "ls_initial (set_stale ms action s) = ls_initial s"
  by (simp_all add: set_stale_def state_identity_def)

lemma wf_updateLifecycleStalePolicy:
  assumes wf: "wf_config db" and ok: "updateLifecycleStalePolicy db key status ms act = Inr (r, db')"
  shows "wf_config db'"
proof -
  let ?upd = "set_stale ms (stale_action act)"
  obtain hit where db': "db' = db\<lparr>db_states := update_where hit ?upd (db_states db)\<rparr>"
    using ok by (auto simp: updateLifecycleStalePolicy_def Let_def split: if_splits)
  have chk: "stale_check (ls_stale_ms (?upd s)) (ls_stale_action (?upd s))" for s
    using ok by (auto simp: updateLifecycleStalePolicy_def Let_def stale_check_def set_stale_def
        stale_action_def js_trim_btrim safe_positive split: if_splits option.splits)
  have ids: "map state_identity (update_where hit ?upd (db_states db)) = map state_identity (db_states db)"
    by (rule map_update_where) simp
  then have "state_identity ` set (update_where hit ?upd (db_states db)) = state_identity ` set (db_states db)"
    by (metis list.set_map)
  then have "transitions_resolved db'" using wf by (simp add: wf_config_def transitions_resolved_def state_exists_def db')
  moreover have "stale_policies_ok db'"
    using wf chk by (auto simp: wf_config_def stale_policies_ok_def db' set_update_where)
  moreover have "initial_state_unique db'"
    unfolding initial_state_unique_def db'
  proof (intro ballI impI)
    fix s s'
    assume "s \<in> set (db_states (db\<lparr>db_states := update_where hit ?upd (db_states db)\<rparr>))"
      and "s' \<in> set (db_states (db\<lparr>db_states := update_where hit ?upd (db_states db)\<rparr>))"
      and rest: "ls_initial s" "ls_initial s'" "ls_key s = ls_key s'"
    then obtain r r' where "r \<in> set (db_states db)" "r' \<in> set (db_states db)"
      "s = r \<or> s = ?upd r" "s' = r' \<or> s' = ?upd r'" by (auto simp: set_update_where)
    with rest wf show "state_identity s = state_identity s'"
      unfolding wf_config_def initial_state_unique_def by (metis set_stale_row)
  qed
  ultimately show ?thesis using wf ids by (simp add: wf_config_def keys_distinct_def policies_bound_def db')
qed

end
