(* ===== verification/Lifecycle_Facts.thy ===== *)
theory Lifecycle_Facts imports Lifecycle_Config
begin

text \<open>
  What the lifecycle configuration guarantees: the table constraints hold in every
  configuration the service can build, a selector resolves to a transition exactly
  when one configured transition matches, the execution contract names five distinct
  configured statuses, and a stored policy reads back as it was written.
\<close>

section \<open>Every reachable configuration satisfies the table constraints\<close>

lemma overwrite_policy_identity [simp]: "policy_identity (overwrite_policy now st u p) = policy_identity p"
  by (simp add: policy_identity_def overwrite_policy_def)

lemma new_policy_identity [simp]: "policy_identity (new_policy b now st u) = binding_identity b"
  by (simp add: policy_identity_def new_policy_def binding_identity_def)

lemma upsert_policy_Inr:
  assumes "upsertResourceLifecyclePolicy db now t c v u = Inr (p, db')"
  obtains table column policy b where
    "normalizeResourceIdentity t ''resourceTable'' = Inr table"
    "normalizeResourceIdentity c ''stateColumn'' = Inr column"
    "normalizeResourceLifecyclePolicy v = Inr policy" "binding_row db table column = Some b"
    "db' = db\<lparr>db_policies := upsert_row policy_identity (new_policy b now (stored_policy policy) (normalized_actor u))
       (overwrite_policy now (stored_policy policy) (normalized_actor u)) (db_policies db)\<rparr>"
    "find (\<lambda>q. policy_identity q = binding_identity b) (db_policies db') = Some p"
  using assms
  by (auto simp: upsertResourceLifecyclePolicy_def res_bind_eq_Inr Let_def split: option.splits)

lemma wf_upsertResourceLifecyclePolicy:
  assumes wf: "wf_config db" and ok: "upsertResourceLifecyclePolicy db now t c p u = Inr (r, db')"
  shows "wf_config db'"
proof -
  from ok obtain table column b st actor where b: "binding_row db table column = Some b"
    and db': "db' = db\<lparr>db_policies := upsert_row policy_identity (new_policy b now st actor)
       (overwrite_policy now st actor) (db_policies db)\<rparr>"
    by (rule upsert_policy_Inr) auto
  have "policy_identity ` set (db_policies db') \<subseteq> insert (binding_identity b) (policy_identity ` set (db_policies db))"
    by (auto simp: db' dest!: set_upsert_row)
  moreover have "b \<in> set (db_bindings db)" using b by (auto simp: binding_row_def dest: first_row_in)
  ultimately have "policies_bound db'" using wf by (auto simp: wf_config_def policies_bound_def db')
  moreover have "keys_distinct db'"
    using wf distinct_upsert_row[of policy_identity "overwrite_policy now st actor" "db_policies db"]
    by (simp add: wf_config_def keys_distinct_def db')
  ultimately show ?thesis using wf by (simp add: wf_config_def db')
qed

lemma wf_deleteResourceLifecyclePolicy:
  assumes wf: "wf_config db" and ok: "deleteResourceLifecyclePolicy db t c = Inr (r, db')"
  shows "wf_config db'"
proof -
  obtain q where db': "db' = db\<lparr>db_policies := filter q (db_policies db)\<rparr>"
    using ok by (auto simp: deleteResourceLifecyclePolicy_def res_bind_eq_Inr Let_def)
  have "policies_bound db'" using wf by (auto simp: wf_config_def policies_bound_def db')
  moreover have "keys_distinct db'"
    using wf by (simp add: wf_config_def keys_distinct_def db' distinct_map_filter)
  ultimately show ?thesis using wf by (simp add: wf_config_def db')
qed

text \<open>One step of the control plane on the configuration.\<close>

inductive config_step :: "lc_db \<Rightarrow> lc_db \<Rightarrow> bool" where
  upsert_state: "upsertLifecycleState db input = Inr (r, db') \<Longrightarrow> config_step db db'"
| upsert_transition: "upsertLifecycleTransition db tr = Inr (r', db') \<Longrightarrow> config_step db db'"
| stale_policy: "updateLifecycleStalePolicy db key status ms act = Inr (s, db') \<Longrightarrow> config_step db db'"
| bind_resource: "configureResourceLifecycleBinding db table key column = Inr db' \<Longrightarrow> config_step db db'"
| put_policy: "upsertResourceLifecyclePolicy db now t c p u = Inr (r'', db') \<Longrightarrow> config_step db db'"
| drop_policy: "deleteResourceLifecyclePolicy db t c = Inr (b, db') \<Longrightarrow> config_step db db'"

definition fresh_config :: "(string \<times> string) list \<Rightarrow> (string \<times> string) list \<Rightarrow> lc_db" where
  "fresh_config catalog columns = \<lparr>db_catalog = catalog, db_columns = columns, db_states = [],
     db_transitions = [], db_bindings = [], db_policies = []\<rparr>"

lemma wf_fresh: "wf_config (fresh_config catalog columns)"
  by (simp add: wf_config_def keys_distinct_def stale_policies_ok_def initial_state_unique_def
      transitions_resolved_def policies_bound_def fresh_config_def)

lemma wf_config_step:
  assumes "config_step db db'" and "wf_config db"
  shows "wf_config db'"
  using assms
proof (induction rule: config_step.induct)
  case upsert_state
  from upsert_state(2,1) show ?case by (rule wf_upsertLifecycleState)
next
  case upsert_transition
  from upsert_transition(2,1) show ?case by (rule wf_upsertLifecycleTransition)
next
  case stale_policy
  from stale_policy(2,1) show ?case by (rule wf_updateLifecycleStalePolicy)
next
  case bind_resource
  from bind_resource(2,1) show ?case by (rule wf_configureResourceLifecycleBinding)
next
  case put_policy
  from put_policy(2,1) show ?case by (rule wf_upsertResourceLifecyclePolicy)
next
  case drop_policy
  from drop_policy(2,1) show ?case by (rule wf_deleteResourceLifecyclePolicy)
qed

lemma wf_config_steps: "config_step\<^sup>*\<^sup>* db db' \<Longrightarrow> wf_config db \<Longrightarrow> wf_config db'"
proof (induction rule: rtranclp_induct)
  case (step y z)
  then have "wf_config y" by simp
  with step(2) show ?case by (rule wf_config_step)
qed

section \<open>Resolution of bindings and states\<close>

lemma distinct_concat_map:
  assumes "distinct xs" "\<And>x. x \<in> set xs \<Longrightarrow> distinct (f x)"
    "\<And>x y. x \<in> set xs \<Longrightarrow> y \<in> set xs \<Longrightarrow> x \<noteq> y \<Longrightarrow> set (f x) \<inter> set (f y) = {}"
  shows "distinct (concat (map f xs))"
  using assms by (induction xs) auto

lemma filter_key_le_1:
  "distinct (map key rows) \<Longrightarrow> filter (\<lambda>r. key r = i) rows = [] \<or> (\<exists>r. filter (\<lambda>r. key r = i) rows = [r])"
proof (cases "\<exists>r \<in> set rows. key r = i")
  case True
  assume "distinct (map key rows)"
  with True show ?thesis using filter_distinct_single by fast
qed (simp add: filter_empty_conv)

lemma bound_keys_single:
  assumes "wf_config db"
  shows "bound_keys db table column = [] \<or> (\<exists>k. bound_keys db table column = [k])"
proof (cases "to_regclass db table")
  case (Some oid)
  have eq: "filter (\<lambda>b. to_regclass db table = Some (lb_table b) \<and> lb_column b = column) (db_bindings db)
      = filter (\<lambda>b. binding_identity b = (oid, column)) (db_bindings db)"
    using Some by (intro filter_cong) (auto simp: binding_identity_def)
  have "distinct (map binding_identity (db_bindings db))"
    using assms by (simp add: wf_config_def keys_distinct_def)
  from filter_key_le_1[OF this, of "(oid, column)"] show ?thesis
    unfolding bound_keys_def eq by fastforce
qed (simp add: bound_keys_def)

lemma target_states_single:
  assumes "wf_config db"
  shows "target_states db t = [] \<or> (\<exists>s. target_states db t = [s])"
proof -
  have eq: "target_states db t = filter (\<lambda>s. state_identity s = (lt_key t, lt_to t)) (db_states db)"
    unfolding target_states_def by (intro filter_cong) (auto simp: state_identity_def)
  have "distinct (map state_identity (db_states db))"
    using assms by (simp add: wf_config_def keys_distinct_def)
  from filter_key_le_1[OF this] show ?thesis unfolding eq by blast
qed

lemma distinct_outgoing:
  assumes "wf_config db"
  shows "distinct (outgoing db key from1)"
proof -
  have "distinct (map transition_identity (db_transitions db))"
    using assms by (simp add: wf_config_def keys_distinct_def)
  then have "distinct (db_transitions db)" by (simp add: distinct_map)
  moreover have "distinct (map (Pair t) (target_states db t))" for t
    using target_states_single[OF assms, of t] by fastforce
  ultimately show ?thesis unfolding outgoing_def by (intro distinct_concat_map) auto
qed

lemma distinct_resource_outgoing:
  assumes "wf_config db"
  shows "distinct (resource_outgoing db table from1 column)"
  using bound_keys_single[OF assms, of table column] distinct_outgoing[OF assms]
  by (auto simp: resource_outgoing_def)

lemma set_resource_outgoing:
  "(t, s) \<in> set (resource_outgoing db table from1 column) \<longleftrightarrow>
     lt_key t \<in> set (bound_keys db table column) \<and> t \<in> set (db_transitions db) \<and> lt_from t = from1
     \<and> s \<in> set (db_states db) \<and> ls_key s = lt_key t \<and> ls_status s = lt_to t"
  by (auto simp: resource_outgoing_def set_outgoing)

section \<open>Selecting a transition\<close>

text \<open>The transitions a selector admits out of a status of a resource, with their targets.\<close>

definition admitted ::
  "lc_db \<Rightarrow> string \<Rightarrow> string \<Rightarrow> LifecycleTransitionSelector \<Rightarrow> string \<Rightarrow> (LifecycleTransition \<times> lc_state_row) set" where
  "admitted db table from1 sel column =
     {(t, s). lt_key t \<in> set (bound_keys db table column) \<and> t \<in> set (db_transitions db) \<and> lt_from t = from1
        \<and> s \<in> set (db_states db) \<and> ls_key s = lt_key t \<and> ls_status s = lt_to t
        \<and> lifecycleTransitionSelectorPredicate db sel t s}"

lemma set_admitted:
  "set (filter (\<lambda>(t, s). lifecycleTransitionSelectorPredicate db sel t s) (resource_outgoing db table from1 column))
     = admitted db table from1 sel column"
  by (auto simp: admitted_def set_resource_outgoing)

lemma admitted_rows:
  assumes wf: "wf_config db"
  obtains rows where "distinct rows" "set rows = admitted db table from1 sel column"
    "selectResourceLifecycleTransition db table from1 sel column =
       (if length rows > 1 then Inl ''lifecycle transition selector is ambiguous for configured resource''
        else Inr (map_option fst (first_row rows)))"
proof
  let ?rows = "sort_key (\<lambda>(t, s). (ls_sort s, lt_action t))
    (filter (\<lambda>(t, s). lifecycleTransitionSelectorPredicate db sel t s) (resource_outgoing db table from1 column))"
  show "distinct ?rows" using distinct_resource_outgoing[OF wf] by simp
  show "set ?rows = admitted db table from1 sel column" unfolding set_sort by (rule set_admitted)
  show "selectResourceLifecycleTransition db table from1 sel column =
    (if length ?rows > 1 then Inl ''lifecycle transition selector is ambiguous for configured resource''
     else Inr (map_option fst (first_row ?rows)))"
    by (simp only: selectResourceLifecycleTransition_def Let_def)
qed

lemma select_None_iff:
  assumes wf: "wf_config db"
  shows "selectResourceLifecycleTransition db table from1 sel column = Inr None \<longleftrightarrow>
    admitted db table from1 sel column = {}"
  by (rule admitted_rows[OF wf, of table from1 sel column]) (auto split: if_splits)

lemma select_Some_iff:
  assumes wf: "wf_config db"
  shows "selectResourceLifecycleTransition db table from1 sel column = Inr (Some t) \<longleftrightarrow>
    (\<exists>s. admitted db table from1 sel column = {(t, s)})"
proof (rule admitted_rows[OF wf, of table from1 sel column])
  fix rows
  assume d: "distinct rows" and s: "set rows = admitted db table from1 sel column"
    and e: "selectResourceLifecycleTransition db table from1 sel column =
      (if length rows > 1 then Inl ''lifecycle transition selector is ambiguous for configured resource''
       else Inr (map_option fst (first_row rows)))"
  have "set rows = {x} \<longleftrightarrow> rows = [x]" for x
    using d by (cases rows rule: remdups_adj.cases) auto
  then show ?thesis unfolding e s[symmetric]
    by (cases rows rule: remdups_adj.cases) auto
qed

lemma select_target:
  assumes "wf_config db" and "selectResourceLifecycleTransition db table from1 sel column = Inr (Some t)"
  obtains s where "(t, s) \<in> admitted db table from1 sel column" "s \<in> set (db_states db)"
    "ls_key s = lt_key t" "ls_status s = lt_to t" "lifecycleTransitionSelectorPredicate db sel t s"
    "lt_from t = from1" "bound_keys db table column = [lt_key t]" "t \<in> set (db_transitions db)"
proof -
  from assms(2) obtain s where "(t, s) \<in> admitted db table from1 sel column"
    using select_Some_iff[OF assms(1)] by blast
  moreover from this have "bound_keys db table column = [lt_key t]"
    using bound_keys_single[OF assms(1), of table column] by (auto simp: admitted_def)
  ultimately show thesis by (intro that) (auto simp: admitted_def)
qed

section \<open>The execution contract\<close>

text \<open>The state rows of the lifecycle a resource is bound to.\<close>

definition resource_states :: "lc_db \<Rightarrow> string \<Rightarrow> string \<Rightarrow> lc_state_row set" where
  "resource_states db table column =
     {s \<in> set (db_states db). ls_key s \<in> set (bound_keys db table column)}"

lemma resource_states_inj:
  assumes "wf_config db" "s \<in> resource_states db table column" "s' \<in> resource_states db table column"
    "ls_status s = ls_status s'"
  shows "s = s'"
proof -
  from assms bound_keys_single[OF assms(1), of table column]
  have "state_identity s = state_identity s'" by (auto simp: resource_states_def state_identity_def)
  with assms show ?thesis
    by (auto simp: wf_config_def keys_distinct_def resource_states_def dest: distinct_key_inj)
qed

lemma map_eq_single:
  assumes "map f xs = [y]"
  obtains x where "xs = [x]" "f x = y"
  using assms by (cases xs) auto

lemma required_role_unique:
  assumes "wf_config db" "required_role db table column role = Inr status"
  obtains s where "s \<in> resource_states db table column" "ls_status s = status"
    "execution_role db s = Some role"
    "\<And>s'. s' \<in> resource_states db table column \<Longrightarrow> execution_role db s' = Some role \<Longrightarrow> s' = s"
proof -
  let ?rows = "sort_key state_order (filter (\<lambda>s. execution_role db s = Some role)
       (concat (map (\<lambda>k. filter (\<lambda>s. ls_key s = k) (db_states db)) (bound_keys db table column))))"
  have rows: "set ?rows = {s \<in> resource_states db table column. execution_role db s = Some role}"
    by (auto simp: resource_states_def)
  from assms(2) have "map ls_status ?rows = [status]"
    by (simp add: required_role_def role_statuses_def split: option.splits)
  then obtain s where "?rows = [s]" "ls_status s = status" by (rule map_eq_single)
  with rows have one: "{s \<in> resource_states db table column. execution_role db s = Some role} = {s}" by simp
  show thesis
  proof (rule that)
    show "s \<in> resource_states db table column" "execution_role db s = Some role" using one by blast+
    show "ls_status s = status" by fact
    show "s' = s" if "s' \<in> resource_states db table column" "execution_role db s' = Some role" for s'
      using one that by blast
  qed
qed

section \<open>Stored policies\<close>

lemma map_of_parse_members: "map_of (parse_members o1) k = map_option json_parse (map_of o1 k)"
  by (induction o1) auto

lemma json_parse_VBool: "json_parse j = VBool b \<longleftrightarrow> j = JBool b"
  by (cases j) auto

lemma normalized_policy:
  assumes "normalizeResourceLifecyclePolicy v = Inr w"
  obtains ms o1 where "v = VObj ms" "w = v" "stored_policy w = JObj o1" "parse_members o1 = ms"
proof -
  from assms obtain ms where v: "v = VObj ms" "w = v" "assertJsonCompatiblePolicy v ''policy'' = Inr ()"
    by (auto simp: normalizeResourceLifecyclePolicy_def res_bind_eq_Inr split: jsval.splits if_splits)
  then have "parse_members (stringify_members ms) = ms"
    by (intro parse_stringify_accepted(3)) simp
  with v show thesis by (intro that) (auto simp: stored_policy_def)
qed

lemma policy_rows_bound:
  assumes "binding_row db table column = Some b" and that: "db_catalog db' = db_catalog db"
  shows "policy_rows db' table column = filter (\<lambda>p. policy_identity p = binding_identity b) (db_policies db')"
proof -
  from assms(1) have "to_regclass db table = Some (lb_table b)" "lb_column b = column"
    by (auto simp: binding_row_def dest: first_row_in)
  with that show ?thesis
    by (auto simp: policy_rows_def policy_identity_def binding_identity_def to_regclass_def intro: filter_cong)
qed

lemma upsert_row_hit:
  assumes "distinct (map key rows)" "\<And>r. key (upd r) = key r"
  shows "filter (\<lambda>r. key r = key new) (upsert_row key new upd rows) =
    [case find (\<lambda>r. key r = key new) rows of None \<Rightarrow> new | Some r \<Rightarrow> upd r]"
proof (cases "find (\<lambda>r. key r = key new) rows")
  case None
  then have "key new \<notin> key ` set rows" by (auto simp: find_None_iff)
  then show ?thesis using None by (auto simp: upsert_row_def filter_empty_conv rev_image_eqI)
next
  case (Some r)
  then have r: "r \<in> set rows" "key r = key new"
    using assms(1) by (auto simp: find_eq_Some_distinct)
  then have "key new \<in> key ` set rows" by (metis imageI)
  then have "filter (\<lambda>r. key r = key new) (upsert_row key new upd rows)
      = map upd (filter (\<lambda>r. key r = key new) rows)"
    using assms(2) by (auto simp: upsert_row_def filter_map o_def intro!: map_cong filter_cong)
  also have "\<dots> = [upd r]" using filter_distinct_single[OF assms(1) r] by simp
  finally show ?thesis using Some by simp
qed

lemma find_filter: "find P xs = first_row (filter P xs)"
  by (induction xs) auto

end
