(* ===== verification/Samples.thy ===== *)
theory Samples imports Lifecycle_Facts
begin

text \<open>
  A small concrete configuration for the witnesses: one lifecycle \<^verbatim>\<open>flow\<close> with the
  statuses queued, claimed, dispatched, done, failed and cancelled, bound to every
  resource table of the model. It is used by witness theorems only.
\<close>

definition plain_state :: "string \<Rightarrow> int \<Rightarrow> lc_state_row" where
  "plain_state status n = \<lparr>ls_key = ''flow'', ls_status = status, ls_initial = False, ls_terminal = False,
     ls_retryable = False, ls_administrative = False, ls_dispatchable = False, ls_manual = False,
     ls_stale_ms = None, ls_stale_action = None, ls_description = None, ls_metadata = [], ls_sort = n\<rparr>"

definition plain_transition :: "string \<Rightarrow> string \<Rightarrow> string \<Rightarrow> LifecycleTransition" where
  "plain_transition action from1 to1 = \<lparr>lt_key = ''flow'', lt_action = action, lt_from = from1, lt_to = to1,
     lt_manual_allowed = False, lt_external_allowed = False, lt_automatic = False,
     lt_mark_started = False, lt_mark_completed = False, lt_clear_completed = False,
     lt_clear_failure = False, lt_reset_retry = False, lt_metadata = []\<rparr>"

definition sample_states :: "lc_state_row list" where
  "sample_states =
     [(plain_state ''queued'' 0)\<lparr>ls_initial := True, ls_dispatchable := True\<rparr>,
      (plain_state ''claimed'' 1)\<lparr>ls_stale_ms := Some 1000, ls_stale_action := Some ''expire''\<rparr>,
      (plain_state ''dispatched'' 2)\<lparr>ls_dispatchable := True\<rparr>,
      (plain_state ''done'' 3)\<lparr>ls_terminal := True\<rparr>,
      (plain_state ''failed'' 4)\<lparr>ls_terminal := True, ls_retryable := True\<rparr>,
      (plain_state ''cancelled'' 5)\<lparr>ls_terminal := True, ls_administrative := True, ls_manual := True\<rparr>]"

definition sample_transitions :: "LifecycleTransition list" where
  "sample_transitions =
     [(plain_transition ''claim'' ''queued'' ''claimed'')\<lparr>lt_automatic := True, lt_mark_started := True\<rparr>,
      (plain_transition ''launch'' ''queued'' ''dispatched'')\<lparr>lt_automatic := True\<rparr>,
      (plain_transition ''dispatch'' ''claimed'' ''dispatched'')\<lparr>lt_automatic := True\<rparr>,
      (plain_transition ''expire'' ''claimed'' ''failed'')\<lparr>lt_automatic := True, lt_mark_completed := True\<rparr>,
      (plain_transition ''complete'' ''dispatched'' ''done'')
        \<lparr>lt_automatic := True, lt_external_allowed := True, lt_mark_completed := True\<rparr>,
      (plain_transition ''fail'' ''dispatched'' ''failed'')
        \<lparr>lt_automatic := True, lt_external_allowed := True, lt_mark_completed := True\<rparr>,
      (plain_transition ''cancel'' ''queued'' ''cancelled'')
        \<lparr>lt_manual_allowed := True, lt_mark_completed := True\<rparr>,
      (plain_transition ''retry'' ''failed'' ''queued'')
        \<lparr>lt_manual_allowed := True, lt_clear_completed := True, lt_clear_failure := True, lt_reset_retry := True\<rparr>]"

definition sample_tables :: "(string \<times> string) list" where
  "sample_tables =
     [(''tasks'', ''status''), (''jobs'', ''status''), (''workflows'', ''status''),
      (''research_jobs'', ''status''), (''agency_workflow_runs'', ''status''),
      (''workflow_execution_bindings'', ''status''),
      (''device_execution_roots'', ''state''), (''device_execution_operations'', ''state'')]"

definition sample_db :: lc_db where
  "sample_db = \<lparr>db_catalog = map (\<lambda>(t, c). (t, t)) sample_tables, db_columns = sample_tables,
     db_states = sample_states, db_transitions = sample_transitions,
     db_bindings = map (\<lambda>(t, c). \<lparr>lb_table = t, lb_column = c, lb_key = ''flow''\<rparr>) sample_tables,
     db_policies = []\<rparr>"

lemmas sample_defs = sample_db_def sample_tables_def sample_states_def sample_transitions_def
  plain_state_def plain_transition_def

lemma wf_sample_db: "wf_config sample_db"
proof -
  have "keys_distinct sample_db" by (simp add: keys_distinct_def sample_defs state_identity_def
        transition_identity_def binding_identity_def)
  moreover have "stale_policies_ok sample_db"
    by (simp add: stale_policies_ok_def sample_defs stale_check_def sql_btrim_def trim_by_def)
  moreover have "initial_state_unique sample_db"
    by (simp add: initial_state_unique_def sample_defs state_identity_def)
  moreover have "transitions_resolved sample_db"
    by (simp add: transitions_resolved_def state_exists_def sample_defs state_identity_def)
  moreover have "policies_bound sample_db" by (simp add: policies_bound_def sample_defs)
  ultimately show ?thesis by (simp add: wf_config_def)
qed

end
