(* ===== verification/Lifecycle_Properties.thy ===== *)
theory Lifecycle_Properties imports Samples
begin

text \<open>
  The properties of the lifecycle configuration, each with a witness on a concrete
  configuration.
\<close>

text \<open>
  C1. Whatever sequence of control-plane operations (state and transition upserts,
  stale policies, bindings, policy writes and deletes) runs on fresh tables, the
  configuration keeps its primary keys distinct, at most one initial state per
  lifecycle, valid stale policies, transitions between existing states, and policies
  of existing bindings only.
\<close>

theorem config_invariant:
  assumes "config_step\<^sup>*\<^sup>* (fresh_config catalog columns) db"
  shows "wf_config db"
  using wf_config_steps [OF assms wf_fresh] .

theorem config_invariant_witness:
  "\<exists>db. config_step\<^sup>*\<^sup>* (fresh_config [] []) db \<and> db_states db = [plain_state ''queued'' 0] \<and> wf_config db"
proof -
  let ?s = "plain_state ''queued'' 0"
  let ?db = "fresh_config [] []\<lparr>db_states := [?s]\<rparr>"
  have "upsertLifecycleState (fresh_config [] []) ?s = Inr (rowToState ?s, ?db)"
    by (simp add: upsertLifecycleState_def fresh_config_def upsert_row_def plain_state_def stale_check_def)
  then have "config_step\<^sup>*\<^sup>* (fresh_config [] []) ?db" by (intro r_into_rtranclp config_step.upsert_state)
  with config_invariant [OF this] show ?thesis by (intro exI [of _ ?db]) simp
qed

text \<open>
  C2. \<open>selectResourceLifecycleTransition\<close> answers exactly when the selector is decisive:
  it returns the transition when one configured transition out of the status has a
  target that satisfies the selector, nothing when none does, and the ambiguity error
  when several do.
\<close>

theorem select_transition_exact:
  assumes "wf_config db"
  shows "selectResourceLifecycleTransition db table from1 sel column =
    (if admitted db table from1 sel column = {} then Inr None
     else if \<exists>t s. admitted db table from1 sel column = {(t, s)}
     then Inr (Some (fst (the_elem (admitted db table from1 sel column))))
     else Inl ''lifecycle transition selector is ambiguous for configured resource'')"
proof -
  let ?A = "admitted db table from1 sel column"
  have amb: "selectResourceLifecycleTransition db table from1 sel column =
      Inl ''lifecycle transition selector is ambiguous for configured resource''"
    if "?A \<noteq> {}" "\<not> (\<exists>t s. ?A = {(t, s)})"
  proof (cases "selectResourceLifecycleTransition db table from1 sel column")
    case (Inl e)
    then show ?thesis by (simp add: selectResourceLifecycleTransition_def Let_def split: if_splits)
  next
    case (Inr r)
    with that show ?thesis using select_None_iff[OF assms] select_Some_iff[OF assms] by (cases r) blast+
  qed
  show ?thesis
  proof (cases "?A = {}")
    case True
    then show ?thesis using select_None_iff[OF assms] by simp
  next
    case False
    then show ?thesis using amb select_Some_iff[OF assms] by (cases "\<exists>t s. ?A = {(t, s)}") auto
  qed
qed

theorem select_transition_exact_witness:
  "wf_config sample_db \<and>
   selectResourceLifecycleTransition sample_db ''jobs'' ''queued''
     (any_selector\<lparr>targetTerminal := Some True\<rparr>) ''status''
     = Inr (Some (sample_transitions ! 6)) \<and>
   (\<exists>t s. admitted sample_db ''jobs'' ''queued'' (any_selector\<lparr>targetTerminal := Some True\<rparr>) ''status'' = {(t, s)})"
proof -
  let ?sel = "any_selector\<lparr>targetTerminal := Some True\<rparr>"
  have e: "selectResourceLifecycleTransition sample_db ''jobs'' ''queued'' ?sel ''status''
      = Inr (Some (sample_transitions ! 6))"
    by code_simp
  with select_transition_exact [OF wf_sample_db, of "''jobs''" "''queued''" ?sel "''status''"] wf_sample_db
  show ?thesis by (auto split: if_splits)
qed

text \<open>
  A derived execution contract names five different statuses, and each of them is
  the only configured status of the resource that plays its role (initial, started
  by some transition, successful, retryable and administrative end).
\<close>

theorem execution_contract_roles:
  assumes "wf_config db" and "getResourceLifecycleExecutionStatusContract db table column = Inr c"
  shows "distinct [ec_initial c, ec_active c, ec_succeeded c, ec_failed c, ec_cancelled c]
    \<and> (\<forall>(role, status) \<in> set [(''initial'', ec_initial c), (''active'', ec_active c),
          (''succeeded'', ec_succeeded c), (''failed'', ec_failed c), (''cancelled'', ec_cancelled c)].
        {s \<in> resource_states db table column. execution_role db s = Some role}
          = {s \<in> resource_states db table column. ls_status s = status}
        \<and> status \<in> ls_status ` resource_states db table column)"
proof -
  let ?R = "resource_states db table column"
  have roles: "required_role db table column ''initial'' = Inr (ec_initial c)"
    "required_role db table column ''active'' = Inr (ec_active c)"
    "required_role db table column ''succeeded'' = Inr (ec_succeeded c)"
    "required_role db table column ''failed'' = Inr (ec_failed c)"
    "required_role db table column ''cancelled'' = Inr (ec_cancelled c)"
    using assms(2) by (auto simp: getResourceLifecycleExecutionStatusContract_def res_bind_eq_Inr)
  have one: "{s \<in> ?R. execution_role db s = Some role} = {s \<in> ?R. ls_status s = status}
      \<and> status \<in> ls_status ` ?R"
    if req: "required_role db table column role = Inr status" for role status
  proof (rule required_role_unique [OF assms(1) req])
    fix s assume "s \<in> ?R" "ls_status s = status" "execution_role db s = Some role"
      and "\<And>s'. s' \<in> ?R \<Longrightarrow> execution_role db s' = Some role \<Longrightarrow> s' = s"
    then show ?thesis using resource_states_inj [OF assms(1)] by blast
  qed
  have neq: "st1 \<noteq> st2"
    if req: "required_role db table column r1 = Inr st1" "required_role db table column r2 = Inr st2" "r1 \<noteq> r2"
    for r1 r2 st1 st2
  proof
    assume eq: "st1 = st2"
    obtain s where s: "s \<in> {s \<in> ?R. ls_status s = st1}" using one [OF req(1)] by blast
    have "s \<in> {s \<in> ?R. execution_role db s = Some r1}" using s one [OF req(1)] by blast
    moreover have "s \<in> {s \<in> ?R. execution_role db s = Some r2}" using s one [OF req(2)] eq by blast
    ultimately show False using req(3) by simp
  qed
  have "distinct [ec_initial c, ec_active c, ec_succeeded c, ec_failed c, ec_cancelled c]"
    using neq [OF roles(1) roles(2)] neq [OF roles(1) roles(3)] neq [OF roles(1) roles(4)]
      neq [OF roles(1) roles(5)] neq [OF roles(2) roles(3)] neq [OF roles(2) roles(4)]
      neq [OF roles(2) roles(5)] neq [OF roles(3) roles(4)] neq [OF roles(3) roles(5)] neq [OF roles(4) roles(5)]
    by simp
  moreover have "case x of (role, status) \<Rightarrow>
      {s \<in> ?R. execution_role db s = Some role} = {s \<in> ?R. ls_status s = status} \<and> status \<in> ls_status ` ?R"
    if "x \<in> set [(''initial'', ec_initial c), (''active'', ec_active c), (''succeeded'', ec_succeeded c),
        (''failed'', ec_failed c), (''cancelled'', ec_cancelled c)]" for x
  proof -
    from that roles obtain role status where x: "x = (role, status)" "required_role db table column role = Inr status"
      by auto
    show ?thesis unfolding x(1) prod.case by (rule one [OF x(2)])
  qed
  ultimately show ?thesis by blast
qed

theorem execution_contract_roles_witness:
  "getResourceLifecycleExecutionStatusContract sample_db ''workflows'' ''status''
     = Inr \<lparr>ec_initial = ''queued'', ec_active = ''claimed'', ec_succeeded = ''done'',
            ec_failed = ''failed'', ec_cancelled = ''cancelled''\<rparr>
   \<and> distinct [''queued'', ''claimed'', ''done'', ''failed'', ''cancelled'']"
proof -
  let ?c = "\<lparr>ec_initial = ''queued'', ec_active = ''claimed'', ec_succeeded = ''done'',
            ec_failed = ''failed'', ec_cancelled = ''cancelled''\<rparr>"
  have e: "getResourceLifecycleExecutionStatusContract sample_db ''workflows'' ''status'' = Inr ?c"
    by code_simp
  from execution_contract_roles [OF wf_sample_db e] e show ?thesis by auto
qed

text \<open>
  A policy the service accepts is stored without loss: the stored document parses
  back to the submitted object, the version is one more than the version it replaces
  (one for a first write), the resource then has exactly this policy, and reading it
  returns the object or, when it says \<open>enabled: false\<close> or \<open>disabled: true\<close>, the
  disabled error.
\<close>

theorem policy_roundtrip:
  assumes "wf_config db" and "upsertResourceLifecyclePolicy db now t c v u = Inr (p, db')"
  shows "\<exists>table column ms o1.
      normalizeResourceIdentity t ''resourceTable'' = Inr table
    \<and> normalizeResourceIdentity c ''stateColumn'' = Inr column
    \<and> v = VObj ms \<and> lp_policy p = JObj o1 \<and> json_parse (JObj o1) = v
    \<and> policy_rows db' table column = [p]
    \<and> lp_version p = (case first_row (policy_rows db table column) of None \<Rightarrow> 1 | Some q \<Rightarrow> lp_version q + 1)
    \<and> getResourceLifecyclePolicy db' table column =
        (if map_of ms ''enabled'' = Some (VBool False) \<or> map_of ms ''disabled'' = Some (VBool True)
         then Inl ''resource lifecycle operational policy is disabled'' else Inr o1)"
proof (rule upsert_policy_Inr [OF assms(2)])
  fix table column policy b
  let ?new = "new_policy b now (stored_policy policy) (normalized_actor u)"
  let ?upd = "overwrite_policy now (stored_policy policy) (normalized_actor u)"
  assume t: "normalizeResourceIdentity t ''resourceTable'' = Inr table"
    and c: "normalizeResourceIdentity c ''stateColumn'' = Inr column"
    and v: "normalizeResourceLifecyclePolicy v = Inr policy" and b: "binding_row db table column = Some b"
    and db': "db' = db\<lparr>db_policies := upsert_row policy_identity ?new ?upd (db_policies db)\<rparr>"
    and p: "find (\<lambda>q. policy_identity q = binding_identity b) (db_policies db') = Some p"
  have "distinct (map policy_identity (db_policies db))"
    using assms(1) by (simp add: wf_config_def keys_distinct_def)
  from upsert_row_hit [OF this, of ?upd ?new]
  have "filter (\<lambda>q. policy_identity q = binding_identity b) (db_policies db') =
      [case find (\<lambda>q. policy_identity q = binding_identity b) (db_policies db) of None \<Rightarrow> ?new | Some q \<Rightarrow> ?upd q]"
    by (simp add: db')
  with p have rows: "filter (\<lambda>q. policy_identity q = binding_identity b) (db_policies db') = [p]"
    and pv: "p = (case find (\<lambda>q. policy_identity q = binding_identity b) (db_policies db) of
        None \<Rightarrow> ?new | Some q \<Rightarrow> ?upd q)"
    by (simp_all add: find_filter)
  have old: "find (\<lambda>q. policy_identity q = binding_identity b) (db_policies db) = first_row (policy_rows db table column)"
    by (simp add: find_filter policy_rows_bound [OF b refl])
  have new: "policy_rows db' table column = [p]"
    using rows policy_rows_bound [OF b, of db'] by (simp add: db')
  from v obtain ms o1 where ms: "v = VObj ms" "policy = v" "stored_policy policy = JObj o1" "parse_members o1 = ms"
    by (rule normalized_policy)
  have pol: "lp_policy p = JObj o1"
    using pv ms by (simp add: new_policy_def overwrite_policy_def split: option.splits)
  have ver: "lp_version p = (case first_row (policy_rows db table column) of None \<Rightarrow> 1 | Some q \<Rightarrow> lp_version q + 1)"
    using pv old by (simp add: new_policy_def overwrite_policy_def split: option.splits)
  have "map_of ms k = Some (VBool x) \<longleftrightarrow> jget o1 k = Some (JBool x)" for k x
    using map_of_parse_members [of o1 k] ms(4) by (auto simp: jget_def json_parse_VBool)
  with new pol have "getResourceLifecyclePolicy db' table column =
      (if map_of ms ''enabled'' = Some (VBool False) \<or> map_of ms ''disabled'' = Some (VBool True)
       then Inl ''resource lifecycle operational policy is disabled'' else Inr o1)"
    by (simp add: getResourceLifecyclePolicy_def)
  with t c ms pol ver new show ?thesis by auto
qed

theorem policy_roundtrip_witness:
  "\<exists>p db'. upsertResourceLifecyclePolicy sample_db 5 '' jobs '' ''status'' (VObj [(''limit'', VNum 3)]) None = Inr (p, db')
     \<and> getResourceLifecyclePolicy db' ''jobs'' ''status'' = Inr [(''limit'', JNum 3)]"
proof -
  let ?v = "VObj [(''limit'', VNum 3)]"
  let ?b = "\<lparr>lb_table = ''jobs'', lb_column = ''status'', lb_key = ''flow''\<rparr>"
  let ?p = "new_policy ?b 5 (JObj [(''limit'', JNum 3)]) None"
  have e: "upsertResourceLifecyclePolicy sample_db 5 '' jobs '' ''status'' ?v None = Inr (?p, sample_db\<lparr>db_policies := [?p]\<rparr>)"
    by code_simp
  have n: "normalizeResourceIdentity '' jobs '' ''resourceTable'' = Inr ''jobs''"
    "normalizeResourceIdentity ''status'' ''stateColumn'' = Inr ''status''" by code_simp+
  have "getResourceLifecyclePolicy (sample_db\<lparr>db_policies := [?p]\<rparr>) ''jobs'' ''status'' = Inr [(''limit'', JNum 3)]"
    using policy_roundtrip [OF wf_sample_db e] n by (auto simp: new_policy_def)
  with e show ?thesis by blast
qed

text \<open>
  A normalized resource identifier is a fixed point: it is trimmed, non-empty, at
  most 200 characters long, matches the identifier grammar, and normalizing it again
  returns it unchanged.
\<close>

theorem normalized_identity_stable:
  assumes "normalizeResourceIdentity v field = Inr n"
  shows "normalizeResourceIdentity n field' = Inr n \<and> js_trim v = n \<and> n \<noteq> [] \<and> length n \<le> 200
    \<and> is_pg_identifier n"
  using assms by (auto simp: normalizeResourceIdentity_def Let_def split: if_splits)

theorem normalized_identity_stable_witness:
  "normalizeResourceIdentity '' public.jobs '' ''resourceTable'' = Inr ''public.jobs''
   \<and> normalizeResourceIdentity ''public.jobs'' ''x'' = Inr ''public.jobs''"
proof -
  have e: "normalizeResourceIdentity '' public.jobs '' ''resourceTable'' = Inr ''public.jobs''" by code_simp
  with normalized_identity_stable [OF e, of "''x''"] show ?thesis by simp
qed

end
