(* ===== verification/Resource_Moves.thy ===== *)
theory Resource_Moves imports Samples
begin

text \<open>
  The mechanism the lifecycle services of tasks, jobs, workflows, research jobs, agency
  runs and execution bindings share. Their SQL statements have one shape: lock a row,
  pick one transition out of its status (the common table expressions
  \<^verbatim>\<open>candidates\<close>/\<^verbatim>\<open>selected\<close>), rewrite the row with the transition's marks. The locale
  \<open>lifecycle_rows\<close> states what an update function has to guarantee, and proves once what
  every such operation does to the table.
\<close>

section \<open>Choosing a transition\<close>

text \<open>The columns the statements read off the chosen transition.\<close>

record lc_effect =
  ef_to :: string
  ef_started :: bool
  ef_completed :: bool
  ef_clear_completed :: bool
  ef_clear_failure :: bool
  ef_reset_retry :: bool

definition effect_of :: "LifecycleTransition \<Rightarrow> lc_effect" where
  "effect_of t = \<lparr>ef_to = lt_to t, ef_started = lt_mark_started t, ef_completed = lt_mark_completed t,
     ef_clear_completed = lt_clear_completed t, ef_clear_failure = lt_clear_failure t,
     ef_reset_retry = lt_reset_retry t\<rparr>"

text \<open>
  \<^verbatim>\<open>SELECT DISTINCT ...\<close> over the transitions the selector admits, kept only when the
  row has exactly one candidate (\<^verbatim>\<open>COUNT(*) OVER (PARTITION BY id) = 1\<close>).
\<close>

definition unique_effect :: "lc_db \<Rightarrow> LifecycleTransitionSelector \<Rightarrow> string \<Rightarrow> string \<Rightarrow> lc_effect option" where
  "unique_effect db sel key status =
     single (remdups (map (\<lambda>(t, s). effect_of t)
       (filter (\<lambda>(t, s). lifecycleTransitionSelectorPredicate db sel t s) (outgoing db key status))))"

text \<open>\<^verbatim>\<open>ORDER BY transition.action_key LIMIT 1\<close> over the transitions that satisfy a condition.\<close>

definition transitions_from :: "lc_db \<Rightarrow> string \<Rightarrow> string \<Rightarrow> LifecycleTransition list" where
  "transitions_from db key status =
     filter (\<lambda>t. lt_key t = key \<and> lt_from t = status) (db_transitions db)"

definition first_effect :: "LifecycleTransition list \<Rightarrow> lc_effect option" where
  "first_effect ts = map_option effect_of (first_row (sort_key lt_action ts))"

text \<open>The transitions a manual move may take: allowed manually, into a manual state.\<close>

definition manual_transitions :: "lc_db \<Rightarrow> string \<Rightarrow> string \<Rightarrow> string \<Rightarrow> LifecycleTransition list" where
  "manual_transitions db key status target =
     map fst (filter (\<lambda>(t, s). lt_to t = target \<and> lt_manual_allowed t \<and> ls_manual s) (outgoing db key status))"

definition external_transitions :: "lc_db \<Rightarrow> string \<Rightarrow> string \<Rightarrow> string \<Rightarrow> LifecycleTransition list" where
  "external_transitions db key status target =
     filter (\<lambda>t. lt_to t = target \<and> lt_external_allowed t) (transitions_from db key status)"

text \<open>The automatic transition a state names as its stale action.\<close>

definition stale_transitions :: "lc_db \<Rightarrow> string \<Rightarrow> string \<Rightarrow> (lc_state_row \<times> LifecycleTransition) list" where
  "stale_transitions db key status =
     concat (map (\<lambda>s. map (Pair s) (filter (\<lambda>t. Some (lt_action t) = ls_stale_action s \<and> lt_automatic t)
       (transitions_from db key status)))
     (filter (\<lambda>s. ls_key s = key \<and> ls_status s = status) (db_states db)))"

text \<open>The edges of the configured status graph.\<close>

definition configured_move :: "lc_db \<Rightarrow> string \<Rightarrow> string \<Rightarrow> string \<Rightarrow> bool" where
  "configured_move db key status to1 \<longleftrightarrow> (\<exists>t \<in> set (transitions_from db key status). lt_to t = to1)"

text \<open>The column expressions the statements have in common; \<open>now\<close> is \<^verbatim>\<open>NOW()\<close>.\<close>

definition started_mark :: "lc_effect \<Rightarrow> timestamp \<Rightarrow> timestamp option \<Rightarrow> timestamp option" where
  "started_mark e now old = (if ef_started e then coalesce old (Some now) else old)"

definition completed_mark :: "lc_effect \<Rightarrow> timestamp \<Rightarrow> timestamp option \<Rightarrow> timestamp option" where
  "completed_mark e now old = (if ef_completed e then Some now else if ef_clear_completed e then None else old)"

text \<open>A patched column, and a failure column the transition may clear.\<close>

definition patched :: "'a option \<Rightarrow> 'a \<Rightarrow> 'a" where
  "patched p old = (case p of None \<Rightarrow> old | Some v \<Rightarrow> v)"

definition failure_mark :: "lc_effect \<Rightarrow> 'a \<Rightarrow> 'a option \<Rightarrow> 'a \<Rightarrow> 'a" where
  "failure_mark e cleared p old = (if ef_clear_failure e then cleared else patched p old)"

lemma effect_of_to [simp]: "ef_to (effect_of t) = lt_to t"
  by (simp add: effect_of_def)

lemma configured_moveI:
  "t \<in> set (db_transitions db) \<Longrightarrow> lt_key t = key \<Longrightarrow> lt_from t = status \<Longrightarrow> lt_to t = to1
     \<Longrightarrow> configured_move db key status to1"
  by (auto simp: configured_move_def transitions_from_def)

lemma unique_effect_configured:
  assumes "unique_effect db sel key status = Some e"
  shows "configured_move db key status (ef_to e)"
proof -
  from assms have "remdups (map (\<lambda>(t, s). effect_of t)
       (filter (\<lambda>(t, s). lifecycleTransitionSelectorPredicate db sel t s) (outgoing db key status))) = [e]"
    by (simp add: unique_effect_def)
  then have "e \<in> set (map (\<lambda>(t, s). effect_of t)
       (filter (\<lambda>(t, s). lifecycleTransitionSelectorPredicate db sel t s) (outgoing db key status)))"
    by (metis list.set_intros(1) set_remdups)
  then obtain t s where "(t, s) \<in> set (outgoing db key status)" "e = effect_of t" by auto
  then show ?thesis by (auto simp: set_outgoing intro: configured_moveI)
qed

lemma first_effect_in: "first_effect ts = Some e \<Longrightarrow> \<exists>t \<in> set ts. effect_of t = e"
  by (auto simp: first_effect_def dest!: first_row_in)

lemma manual_effect_configured:
  assumes "first_effect (manual_transitions db key status target) = Some e"
  shows "configured_move db key status (ef_to e)" "ef_to e = target"
proof -
  obtain t where t: "t \<in> set (manual_transitions db key status target)" "effect_of t = e"
    using first_effect_in [OF assms] by blast
  then obtain s where s: "(t, s) \<in> set (outgoing db key status)" "lt_to t = target"
    by (auto simp: manual_transitions_def)
  show "ef_to e = target" using t(2) s(2) by auto
  show "configured_move db key status (ef_to e)" using t(2) s(1)
    by (auto simp: set_outgoing intro: configured_moveI)
qed

lemma external_effect_configured:
  assumes "first_effect (external_transitions db key status target) = Some e"
  shows "configured_move db key status (ef_to e)" "ef_to e = target"
proof -
  obtain t where t: "t \<in> set (external_transitions db key status target)" "effect_of t = e"
    using first_effect_in [OF assms] by blast
  then have s: "t \<in> set (transitions_from db key status)" "lt_to t = target"
    by (auto simp: external_transitions_def)
  show "ef_to e = target" using t(2) s(2) by auto
  show "configured_move db key status (ef_to e)" using t(2) s(1)
    by (auto simp: configured_move_def)
qed

lemma stale_effect_configured:
  "(s, t) \<in> set (stale_transitions db key status) \<Longrightarrow> configured_move db key status (lt_to t)"
  by (auto simp: stale_transitions_def configured_move_def)

text \<open>The effects a selector admits out of a status.\<close>

definition effects :: "lc_db \<Rightarrow> LifecycleTransitionSelector \<Rightarrow> string \<Rightarrow> string \<Rightarrow> lc_effect set" where
  "effects db sel key status =
     (\<lambda>(t, s). effect_of t) ` {(t, s). (t, s) \<in> set (outgoing db key status)
        \<and> lifecycleTransitionSelectorPredicate db sel t s}"

lemma remdups_single_iff: "remdups xs = [x] \<longleftrightarrow> set xs = {x}"
proof
  assume "set xs = {x}"
  then have "set (remdups xs) = {x}" "length (remdups xs) = 1" using length_remdups_card_conv [of xs] by simp_all
  then show "remdups xs = [x]" by (cases "remdups xs") auto
qed (metis empty_set list.simps(15) set_remdups)

lemma unique_effect_iff: "unique_effect db sel key status = Some e \<longleftrightarrow> effects db sel key status = {e}"
proof -
  have "effects db sel key status = set (map (\<lambda>(t, s). effect_of t)
       (filter (\<lambda>(t, s). lifecycleTransitionSelectorPredicate db sel t s) (outgoing db key status)))"
    by (auto simp: effects_def)
  then show ?thesis by (simp only: unique_effect_def single_eq_Some remdups_single_iff)
qed

section \<open>Moving one row\<close>

definition move_row :: "('r \<Rightarrow> string) \<Rightarrow> (lc_effect \<Rightarrow> 'r \<Rightarrow> 'r) \<Rightarrow> ('r \<Rightarrow> bool) \<Rightarrow> ('r \<Rightarrow> lc_effect option)
    \<Rightarrow> 'r list \<Rightarrow> 'r option \<times> 'r list" where
  "move_row rid upd locked pick rows =
     (case first_row (filter locked rows) of
        None \<Rightarrow> (None, rows)
      | Some r \<Rightarrow>
          (case pick r of
             None \<Rightarrow> (None, rows)
           | Some e \<Rightarrow> (Some (upd e r), update_where (\<lambda>x. rid x = rid r) (upd e) rows)))"

text \<open>A statement that moves every row that has a choice.\<close>

definition move_rows :: "(lc_effect \<Rightarrow> 'r \<Rightarrow> 'r) \<Rightarrow> ('r \<Rightarrow> lc_effect option) \<Rightarrow> 'r list \<Rightarrow> 'r list \<times> 'r list" where
  "move_rows upd pick rows =
     (concat (map (\<lambda>r. case pick r of None \<Rightarrow> [] | Some e \<Rightarrow> [upd e r]) rows),
      map (\<lambda>r. case pick r of None \<Rightarrow> r | Some e \<Rightarrow> upd e r) rows)"

text \<open>
  Two tables agree up to configured moves: the same rows in the same order, each one
  unchanged or rewritten by one configured transition out of its status.
\<close>

definition moved :: "('r \<Rightarrow> string) \<Rightarrow> ('r \<Rightarrow> string) \<Rightarrow> ('r \<Rightarrow> string) \<Rightarrow> lc_db \<Rightarrow> 'r list \<Rightarrow> 'r list \<Rightarrow> bool" where
  "moved rid rkey rstatus db =
     list_all2 (\<lambda>r r'. r' = r \<or> (rid r' = rid r \<and> rkey r' = rkey r
       \<and> configured_move db (rkey r) (rstatus r) (rstatus r')))"

lemma moved_refl [simp]: "moved rid rkey rstatus db rows rows"
  by (simp add: moved_def list_all2_refl)

lemma moved_ids: "moved rid rkey rstatus db rows rows' \<Longrightarrow> map rid rows' = map rid rows"
  unfolding moved_def by (induction rule: list_all2_induct) auto

text \<open>The closure: every row has followed a path of the configured status graph.\<close>

definition followed :: "('r \<Rightarrow> string) \<Rightarrow> ('r \<Rightarrow> string) \<Rightarrow> ('r \<Rightarrow> string) \<Rightarrow> lc_db \<Rightarrow> 'r list \<Rightarrow> 'r list \<Rightarrow> bool" where
  "followed rid rkey rstatus db =
     list_all2 (\<lambda>r r'. rid r' = rid r \<and> rkey r' = rkey r
       \<and> (configured_move db (rkey r))\<^sup>*\<^sup>* (rstatus r) (rstatus r'))"

lemma followed_refl [simp]: "followed rid rkey rstatus db rows rows"
  by (simp add: followed_def list_all2_refl)

lemma followed_ids: "followed rid rkey rstatus db rows rows' \<Longrightarrow> map rid rows' = map rid rows"
  unfolding followed_def by (induction rule: list_all2_induct) auto

lemma followed_moved:
  assumes "followed rid rkey rstatus db rows rows'" "moved rid rkey rstatus db rows' rows''"
  shows "followed rid rkey rstatus db rows rows''"
  unfolding followed_def
proof (rule list_all2_trans [OF _ assms [unfolded followed_def moved_def]])
  fix a b c
  assume ab: "rid b = rid a \<and> rkey b = rkey a \<and> (configured_move db (rkey a))\<^sup>*\<^sup>* (rstatus a) (rstatus b)"
    and bc: "c = b \<or> rid c = rid b \<and> rkey c = rkey b \<and> configured_move db (rkey b) (rstatus b) (rstatus c)"
  show "rid c = rid a \<and> rkey c = rkey a \<and> (configured_move db (rkey a))\<^sup>*\<^sup>* (rstatus a) (rstatus c)"
    using bc
  proof
    assume "c = b" then show ?thesis using ab by simp
  next
    assume "rid c = rid b \<and> rkey c = rkey b \<and> configured_move db (rkey b) (rstatus b) (rstatus c)"
    with ab show ?thesis by (auto intro: rtranclp.rtrancl_into_rtrancl)
  qed
qed

text \<open>A status with no configured exit is final.\<close>

lemma no_exit_final:
  assumes "(configured_move db key)\<^sup>*\<^sup>* a b" "transitions_from db key a = []"
  shows "b = a"
  using assms by (induction rule: converse_rtranclp_induct) (auto simp: configured_move_def)

locale lifecycle_rows =
  fixes rid :: "'r \<Rightarrow> string"
    and rkey :: "'r \<Rightarrow> string"
    and rstatus :: "'r \<Rightarrow> string"
    and upd :: "'p \<Rightarrow> lc_effect \<Rightarrow> 'r \<Rightarrow> 'r"
  assumes upd_id: "rid (upd p e r) = rid r"
    and upd_key: "rkey (upd p e r) = rkey r"
    and upd_status: "rstatus (upd p e r) = ef_to e"
begin

lemma move_row_Some:
  assumes "move_row rid (upd p) locked pick rows = (Some r', rows')"
  obtains r e where "r \<in> set rows" "locked r" "pick r = Some e" "r' = upd p e r"
    "rows' = update_where (\<lambda>x. rid x = rid r) (upd p e) rows"
proof -
  from assms obtain r e where f: "first_row (filter locked rows) = Some r" and p: "pick r = Some e"
    and u: "r' = upd p e r" "rows' = update_where (\<lambda>x. rid x = rid r) (upd p e) rows"
    by (auto simp: move_row_def split: option.splits)
  from first_row_in [OF f] have "r \<in> set rows" "locked r" by auto
  then show ?thesis using p u by (rule that)
qed

lemma move_row_None:
  "move_row rid (upd p) locked pick rows = (None, rows') \<Longrightarrow> rows' = rows"
  by (auto simp: move_row_def split: option.splits)

lemma move_row_distinct:
  assumes "distinct (map rid rows)" "r \<in> set rows"
  shows "update_where (\<lambda>x. rid x = rid r) (upd p e) rows = map (\<lambda>x. if x = r then upd p e r else x) rows"
  using assms distinct_key_inj [OF assms(1)] by (auto simp: update_where_def)

text \<open>Addressing a row by its identifier.\<close>

lemma move_row_exact:
  assumes ids: "distinct (map rid rows)" and r: "r \<in> set rows" "rid r = i" "extra r"
  shows "move_row rid (upd p) (\<lambda>x. rid x = i \<and> extra x) pick rows =
    (case pick r of
       None \<Rightarrow> (None, rows)
     | Some e \<Rightarrow> (Some (upd p e r), update_where (\<lambda>x. rid x = i) (upd p e) rows))"
proof -
  have "filter (\<lambda>x. rid x = i \<and> extra x) rows = filter extra (filter (\<lambda>x. rid x = i) rows)"
    by (simp add: conj_commute)
  also have "\<dots> = [r]" using filter_distinct_single [OF ids r(1,2)] r(3) by simp
  finally show ?thesis using r(2) by (simp add: move_row_def split: option.splits)
qed

text \<open>A choice of configured transitions moves the table along the status graph only.\<close>

lemma move_row_moved:
  assumes ids: "distinct (map rid rows)"
    and sound: "\<And>r e. r \<in> set rows \<Longrightarrow> pick r = Some e \<Longrightarrow> configured_move db (rkey r) (rstatus r) (ef_to e)"
  shows "moved rid rkey rstatus db rows (snd (move_row rid (upd p) locked pick rows))"
proof (cases "move_row rid (upd p) locked pick rows")
  case (Pair res rows')
  show ?thesis
  proof (cases res)
    case None
    then show ?thesis using Pair move_row_None [of p locked pick rows rows'] by simp
  next
    case (Some r')
    with Pair obtain r e where r: "r \<in> set rows" "pick r = Some e"
      "rows' = update_where (\<lambda>x. rid x = rid r) (upd p e) rows"
      by (auto elim: move_row_Some)
    then have "rows' = map (\<lambda>x. if x = r then upd p e r else x) rows" using move_row_distinct [OF ids] by simp
    then show ?thesis using Pair sound [OF r(1,2)]
      by (auto simp: moved_def list_all2_map2 list_all2_same upd_id upd_key upd_status)
  qed
qed

lemma move_rows_moved:
  assumes "\<And>r e. r \<in> set rows \<Longrightarrow> pick r = Some e \<Longrightarrow> configured_move db (rkey r) (rstatus r) (ef_to e)"
  shows "moved rid rkey rstatus db rows (snd (move_rows (upd p) pick rows))"
  using assms
  by (fastforce simp: move_rows_def moved_def list_all2_map2 list_all2_same upd_id upd_key upd_status
      split: option.splits)

end

end
