(* ===== verification/Task_Lifecycle.thy ===== *)
theory Task_Lifecycle imports Resource_Moves
begin

text \<open>
  Task statuses, after \<^verbatim>\<open>src/src/modules/task-lifecycle/task-lifecycle.service.ts\<close>: the
  status catalogue read through the resource binding of \<^verbatim>\<open>tasks\<close>, the selector-driven and
  manual transitions of one task, and the bulk retry with its statistics. Statements run
  on the list of task rows; \<open>now\<close> is the statement's \<^verbatim>\<open>NOW()\<close>, and \<open>unlocked\<close> says which
  rows \<^verbatim>\<open>SKIP LOCKED\<close> can lock.
\<close>

section \<open>Data\<close>

record TaskStatusDefinition =
  td_status :: string
  td_terminal :: bool
  td_retryable :: bool
  td_administrative :: bool
  td_dispatchable :: bool
  td_manual :: bool
  td_description :: "string option"

record task_row =
  tk_id :: string
  tk_key :: string
  tk_status :: string
  tk_started :: "timestamp option"
  tk_completed :: "timestamp option"
  tk_retry_count :: "int option"
  tk_result :: "json option"
  tk_error :: "string option"
  tk_root_code :: "string option"
  tk_root_message :: "string option"
  tk_root_details :: json
  tk_updated :: timestamp

text \<open>An absent member is \<open>None\<close>; a nullable member that is \<^verbatim>\<open>null\<close> is \<open>Some None\<close>.\<close>

record TaskTransitionPatch =
  tp_result :: "json option"
  tp_error :: "string option option"
  tp_retry_count :: "int option"
  tp_root_code :: "string option option"
  tp_root_message :: "string option option"
  tp_root_details :: "json option"

definition no_task_patch :: TaskTransitionPatch where
  "no_task_patch = \<lparr>tp_result = None, tp_error = None, tp_retry_count = None, tp_root_code = None,
     tp_root_message = None, tp_root_details = None\<rparr>"

section \<open>The status catalogue\<close>

definition rowToDefinition :: "lc_state_row \<Rightarrow> TaskStatusDefinition" where
  "rowToDefinition s = \<lparr>td_status = ls_status s, td_terminal = ls_terminal s, td_retryable = ls_retryable s,
     td_administrative = ls_administrative s, td_dispatchable = ls_dispatchable s,
     td_manual = ls_manual s, td_description = ls_description s\<rparr>"

definition definition_of_state :: "LifecycleStateDefinition \<Rightarrow> TaskStatusDefinition" where
  "definition_of_state s = \<lparr>td_status = ls_status s, td_terminal = ls_terminal s, td_retryable = ls_retryable s,
     td_administrative = ls_administrative s, td_dispatchable = ls_dispatchable s,
     td_manual = ls_manual s, td_description = ls_description s\<rparr>"

text \<open>The lifecycle keys bound to any column of \<^verbatim>\<open>tasks\<close>.\<close>

definition task_keys :: "lc_db \<Rightarrow> string list" where
  "task_keys db = map lb_key (filter (\<lambda>b. to_regclass db ''tasks'' = Some (lb_table b)) (db_bindings db))"

definition getStatusDefinition :: "lc_db \<Rightarrow> string \<Rightarrow> TaskStatusDefinition option" where
  "getStatusDefinition db status =
     map_option rowToDefinition (first_row (concat (map
       (\<lambda>k. filter (\<lambda>s. ls_key s = k \<and> ls_status s = status) (db_states db)) (task_keys db))))"

definition listStatusDefinitions :: "lc_db \<Rightarrow> TaskStatusDefinition list" where
  "listStatusDefinitions db = map definition_of_state (listResourceLifecycleStates db ''tasks'' ''status'')"

definition isTransitionAllowed :: "lc_db \<Rightarrow> string \<Rightarrow> string \<Rightarrow> bool" where
  "isTransitionAllowed db from1 to1 \<longleftrightarrow>
     (\<exists>k \<in> set (task_keys db). \<exists>t \<in> set (db_transitions db). lt_key t = k \<and> lt_from t = from1 \<and> lt_to t = to1)"

definition getAllowedTransitions :: "lc_db \<Rightarrow> string \<Rightarrow> TaskStatusDefinition list" where
  "getAllowedTransitions db from1 =
     map rowToDefinition (sort_key (\<lambda>s. (ls_sort s, ls_status s))
       (concat (map (\<lambda>k. map snd (outgoing db k from1)) (task_keys db))))"

section \<open>Transitions of one task\<close>

definition apply_task_patch :: "timestamp \<Rightarrow> TaskTransitionPatch \<Rightarrow> lc_effect \<Rightarrow> task_row \<Rightarrow> task_row" where
  "apply_task_patch now p e t = t\<lparr>
     tk_status := ef_to e,
     tk_started := started_mark e now (tk_started t),
     tk_completed := completed_mark e now (tk_completed t),
     tk_retry_count := (if ef_reset_retry e then Some 0
        else case tp_retry_count p of Some n \<Rightarrow> Some n | None \<Rightarrow> tk_retry_count t),
     tk_result := coalesce (tp_result p) (tk_result t),
     tk_error := failure_mark e None (tp_error p) (tk_error t),
     tk_root_code := failure_mark e None (tp_root_code p) (tk_root_code t),
     tk_root_message := failure_mark e None (tp_root_message p) (tk_root_message t),
     tk_root_details := failure_mark e (JObj []) (tp_root_details p) (tk_root_details t),
     tk_updated := now\<rparr>"

text \<open>The manual statement leaves \<^verbatim>\<open>retry_count\<close> and \<^verbatim>\<open>result\<close> alone.\<close>

definition apply_task_manual :: "timestamp \<Rightarrow> lc_effect \<Rightarrow> task_row \<Rightarrow> task_row" where
  "apply_task_manual now e t = t\<lparr>
     tk_status := ef_to e,
     tk_started := started_mark e now (tk_started t),
     tk_completed := completed_mark e now (tk_completed t),
     tk_error := failure_mark e None None (tk_error t),
     tk_root_code := failure_mark e None None (tk_root_code t),
     tk_root_message := failure_mark e None None (tk_root_message t),
     tk_root_details := failure_mark e (JObj []) None (tk_root_details t),
     tk_updated := now\<rparr>"

text \<open>The retry statement writes no start or completion time.\<close>

definition apply_task_retry :: "timestamp \<Rightarrow> lc_effect \<Rightarrow> task_row \<Rightarrow> task_row" where
  "apply_task_retry now e t = t\<lparr>
     tk_status := ef_to e,
     tk_retry_count := (if ef_reset_retry e then Some 0 else tk_retry_count t),
     tk_completed := (if ef_clear_completed e then None else tk_completed t),
     tk_error := failure_mark e None None (tk_error t),
     tk_root_code := failure_mark e None None (tk_root_code t),
     tk_root_message := failure_mark e None None (tk_root_message t),
     tk_root_details := failure_mark e (JObj []) None (tk_root_details t),
     tk_updated := now\<rparr>"

datatype task_change = Patched TaskTransitionPatch | Manual | Retried

fun apply_task :: "timestamp \<times> task_change \<Rightarrow> lc_effect \<Rightarrow> task_row \<Rightarrow> task_row" where
  "apply_task (now, Patched p) e t = apply_task_patch now p e t"
| "apply_task (now, Manual) e t = apply_task_manual now e t"
| "apply_task (now, Retried) e t = apply_task_retry now e t"

definition transitionTask :: "lc_db \<Rightarrow> timestamp \<Rightarrow> string \<Rightarrow> LifecycleTransitionSelector \<Rightarrow> TaskTransitionPatch
    \<Rightarrow> task_row list \<Rightarrow> task_row option \<times> task_row list" where
  "transitionTask db now taskId sel p tasks =
     move_row tk_id (apply_task (now, Patched p)) (\<lambda>t. tk_id t = taskId)
       (\<lambda>t. unique_effect db sel (tk_key t) (tk_status t)) tasks"

definition transitionTaskManually :: "lc_db \<Rightarrow> timestamp \<Rightarrow> string \<Rightarrow> string
    \<Rightarrow> task_row list \<Rightarrow> task_row option \<times> task_row list" where
  "transitionTaskManually db now taskId target tasks =
     move_row tk_id (apply_task (now, Manual)) (\<lambda>t. tk_id t = taskId)
       (\<lambda>t. first_effect (manual_transitions db (tk_key t) (tk_status t) target)) tasks"

section \<open>Bulk retry\<close>

definition retry_exit :: "LifecycleTransition \<times> lc_state_row \<Rightarrow> bool" where
  "retry_exit x \<longleftrightarrow> lt_reset_retry (fst x) \<and> lt_clear_completed (fst x) \<and> lt_clear_failure (fst x)
     \<and> ls_initial (snd x) \<and> ls_dispatchable (snd x)"

text \<open>The columns of \<^verbatim>\<open>SELECT DISTINCT t.id, to_status, reset_retry, clear_completed, clear_failure\<close>.\<close>

definition retry_columns :: "LifecycleTransition \<Rightarrow> lc_effect" where
  "retry_columns t = \<lparr>ef_to = lt_to t, ef_started = False, ef_completed = False,
     ef_clear_completed = lt_clear_completed t, ef_clear_failure = lt_clear_failure t,
     ef_reset_retry = lt_reset_retry t\<rparr>"

definition in_retryable_state :: "lc_db \<Rightarrow> task_row \<Rightarrow> bool" where
  "in_retryable_state db t \<longleftrightarrow>
     (\<exists>s \<in> set (db_states db). ls_key s = tk_key t \<and> ls_status s = tk_status t \<and> ls_retryable s)"

definition retry_choice :: "lc_db \<Rightarrow> task_row \<Rightarrow> lc_effect option" where
  "retry_choice db t =
     (if in_retryable_state db t
      then single (remdups (map (\<lambda>x. retry_columns (fst x))
             (filter retry_exit (outgoing db (tk_key t) (tk_status t)))))
      else None)"

definition retryConfiguredTasks :: "lc_db \<Rightarrow> timestamp \<Rightarrow> (task_row \<Rightarrow> bool) \<Rightarrow> task_row list
    \<Rightarrow> nat \<times> task_row list" where
  "retryConfiguredTasks db now unlocked tasks =
     (let (updated, tasks') = move_rows (apply_task (now, Retried))
            (\<lambda>t. if unlocked t then retry_choice db t else None) tasks
      in (length updated, tasks'))"

record retry_stats =
  totalFailed :: nat
  retryableCount :: nat
  exhaustedCount :: nat

text \<open>One joined row per task and retryable state row of its status.\<close>

definition failed_tasks :: "lc_db \<Rightarrow> task_row list \<Rightarrow> task_row list" where
  "failed_tasks db tasks =
     filter (\<lambda>t. tk_key t \<in> set (task_keys db))
       (concat (map (\<lambda>t. map (\<lambda>_. t) (filter (\<lambda>s. ls_key s = tk_key t \<and> ls_status s = tk_status t \<and> ls_retryable s)
          (db_states db))) tasks))"

definition getConfiguredRetryStats :: "lc_db \<Rightarrow> int \<Rightarrow> task_row list \<Rightarrow> retry_stats" where
  "getConfiguredRetryStats db maxRetries tasks =
     (let failed = failed_tasks db tasks in
      \<lparr>totalFailed = length failed,
       retryableCount = length (filter (\<lambda>t. odefault (tk_retry_count t) 0 < maxRetries) failed),
       exhaustedCount = length (filter (\<lambda>t. odefault (tk_retry_count t) 0 \<ge> maxRetries) failed)\<rparr>)"

section \<open>Laws\<close>

lemma apply_task_laws [row_laws]:
  "tk_id (apply_task p e t) = tk_id t" "tk_key (apply_task p e t) = tk_key t"
  "tk_status (apply_task p e t) = ef_to e"
  by (cases "(p, e, t)" rule: apply_task.cases;
      simp add: apply_task_patch_def apply_task_manual_def apply_task_retry_def)+

interpretation task: lifecycle_rows tk_id tk_key tk_status apply_task
  by unfold_locales (simp_all add: row_laws)

lemma remdups_const: "remdups (replicate (Suc n) c) = [c]"
  by (induction n) auto

lemma single_remdups_const:
  assumes "\<And>x. x \<in> set xs \<Longrightarrow> f x = c" "xs \<noteq> []"
  shows "single (remdups (map f xs)) = Some c"
proof -
  have "map f xs = replicate (length xs) c" using assms(1) by (induction xs) auto
  then show ?thesis using assms(2) remdups_const [of "length xs - 1" c] by (cases xs) (simp_all del: map_eq_Cons_conv list.map)
qed

text \<open>
  One initial state per lifecycle makes the retry target unique, so the
  \<^verbatim>\<open>candidate_count = 1\<close> guard of the statement rejects nothing.
\<close>

definition retried :: "lc_effect" where
  "retried = \<lparr>ef_to = [], ef_started = False, ef_completed = False, ef_clear_completed = True,
     ef_clear_failure = True, ef_reset_retry = True\<rparr>"

lemma initial_status_unique:
  assumes "initial_state_unique db" "s \<in> set (db_states db)" "s' \<in> set (db_states db)"
    "ls_initial s" "ls_initial s'" "ls_key s = ls_key s'"
  shows "ls_status s = ls_status s'"
proof -
  have "state_identity s = state_identity s'"
    using assms unfolding initial_state_unique_def by blast
  then show ?thesis by (simp add: state_identity_def)
qed

lemma retry_choice_exact:
  assumes wf: "wf_config db" and x: "x \<in> set (outgoing db (tk_key t) (tk_status t))" "retry_exit x"
    and st: "in_retryable_state db t"
  shows "retry_choice db t = Some (retried\<lparr>ef_to := lt_to (fst x)\<rparr>)"
proof -
  have iu: "initial_state_unique db" using wf by (simp add: wf_config_def)
  have "retry_columns (fst y) = retried\<lparr>ef_to := lt_to (fst x)\<rparr>"
    if "y \<in> set (filter retry_exit (outgoing db (tk_key t) (tk_status t)))" for y
  proof -
    obtain yt ys xt xs where [simp]: "y = (yt, ys)" "x = (xt, xs)" by (cases y, cases x)
    have "ls_status ys = ls_status xs"
      using that x by (intro initial_status_unique [OF iu]) (auto simp: set_outgoing retry_exit_def)
    then have "lt_to yt = lt_to xt" using that x by (auto simp: set_outgoing)
    then show ?thesis using that by (simp add: retry_columns_def retried_def retry_exit_def)
  qed
  note c = this
  have "x \<in> set (filter retry_exit (outgoing db (tk_key t) (tk_status t)))" using x by simp
  then have "filter retry_exit (outgoing db (tk_key t) (tk_status t)) \<noteq> []" by (metis length_pos_if_in_set length_greater_0_conv)
  from single_remdups_const [OF c this] st show ?thesis unfolding retry_choice_def by (simp only: if_True)
qed

lemma retry_choice_SomeD:
  assumes "retry_choice db t = Some e"
  obtains x where "x \<in> set (outgoing db (tk_key t) (tk_status t))" "retry_exit x"
    "e = retry_columns (fst x)" "in_retryable_state db t"
proof -
  have st: "in_retryable_state db t" and m: "remdups (map (\<lambda>x. retry_columns (fst x))
        (filter retry_exit (outgoing db (tk_key t) (tk_status t)))) = [e]"
    using assms by (simp_all add: retry_choice_def split: if_splits)
  then have "e \<in> set (map (\<lambda>x. retry_columns (fst x)) (filter retry_exit (outgoing db (tk_key t) (tk_status t))))"
    by (metis list.set_intros(1) set_remdups)
  then show ?thesis using that st by auto
qed

lemma retry_choice_configured:
  assumes "retry_choice db t = Some e"
  shows "configured_move db (tk_key t) (tk_status t) (ef_to e)"
proof -
  obtain x where "x \<in> set (outgoing db (tk_key t) (tk_status t))" "e = retry_columns (fst x)"
    using assms by (rule retry_choice_SomeD)
  moreover obtain xt xs where "x = (xt, xs)" by (cases x)
  ultimately have "(xt, xs) \<in> set (outgoing db (tk_key t) (tk_status t))" "ef_to e = lt_to xt"
    by (simp_all add: retry_columns_def)
  then show ?thesis unfolding set_outgoing by (intro configured_moveI [of xt]) simp_all
qed

section \<open>The task table as a transition system\<close>

inductive task_step :: "lc_db \<Rightarrow> task_row list \<Rightarrow> task_row list \<Rightarrow> bool" for db where
  transition: "task_step db tasks (snd (transitionTask db now taskId sel p tasks))"
| manual: "task_step db tasks (snd (transitionTaskManually db now taskId target tasks))"
| retry: "task_step db tasks (snd (retryConfiguredTasks db now unlocked tasks))"

lemma task_step_moved:
  assumes "task_step db tasks tasks'" "distinct (map tk_id tasks)"
  shows "moved tk_id tk_key tk_status db tasks tasks'"
  using assms
proof cases
  case (transition now taskId sel p)
  then show ?thesis unfolding transitionTask_def
    by (simp only:) (intro task.move_row_moved [OF assms(2)] unique_effect_configured)
next
  case (manual now taskId target)
  then show ?thesis unfolding transitionTaskManually_def
    by (simp only:) (intro task.move_row_moved [OF assms(2)] manual_effect_configured(1))
next
  case (retry now unlocked)
  have "moved tk_id tk_key tk_status db tasks (snd (move_rows (apply_task (now, Retried))
            (\<lambda>t. if unlocked t then retry_choice db t else None) tasks))"
    by (intro task.move_rows_moved) (auto intro: retry_choice_configured split: if_splits)
  then show ?thesis using retry by (simp add: retryConfiguredTasks_def case_prod_unfold Let_def)
qed

lemma task_steps_followed:
  assumes "(task_step db)\<^sup>*\<^sup>* tasks tasks'" "distinct (map tk_id tasks)"
  shows "followed tk_id tk_key tk_status db tasks tasks'"
  using assms
proof (induction rule: rtranclp_induct)
  case (step y z)
  then have f: "followed tk_id tk_key tk_status db tasks y" by simp
  with followed_ids [OF f] step show ?case using task_step_moved followed_moved by metis
qed simp

end
