(* ===== verification/Job_Lifecycle.thy ===== *)
theory Job_Lifecycle imports Resource_Moves
begin

text \<open>
  Job statuses, after \<^verbatim>\<open>src/src/modules/dispatcher/job-lifecycle.service.ts\<close>: selector,
  external and manual transitions with an optional device check, the configured stale
  policy of one job, and the sweep that expires overdue jobs.
\<close>

section \<open>Data\<close>

record job_row =
  jb_id :: string
  jb_key :: string
  jb_device :: string
  jb_status :: string
  jb_created :: timestamp
  jb_started :: "timestamp option"
  jb_completed :: "timestamp option"
  jb_output :: "json option"
  jb_error :: "string option"
  jb_duration :: "int option"

text \<open>The patch as callers pass it: \<open>startedAt\<close> is a date, null, or absent.\<close>

record JobLifecyclePatch =
  jp_output :: "json option"
  jp_error :: "string option option"
  jp_duration :: "int option"
  jp_started :: "timestamp option option"

definition no_job_patch :: JobLifecyclePatch where
  "no_job_patch = \<lparr>jp_output = None, jp_error = None, jp_duration = None, jp_started = None\<rparr>"

text \<open>A \<open>startedAt\<close> that is not a date is dropped before the statement sees it.\<close>

definition serializePatch :: "JobLifecyclePatch \<Rightarrow> JobLifecyclePatch" where
  "serializePatch p =
     (case jp_started p of
        Some (Some d) \<Rightarrow> p\<lparr>jp_started := Some (Some d)\<rparr>
      | _ \<Rightarrow> p\<lparr>jp_started := None\<rparr>)"

section \<open>Row updates\<close>

definition apply_job_patch :: "timestamp \<Rightarrow> JobLifecyclePatch \<Rightarrow> lc_effect \<Rightarrow> job_row \<Rightarrow> job_row" where
  "apply_job_patch now p e j = j\<lparr>
     jb_status := ef_to e,
     jb_started := (case jp_started p of Some d \<Rightarrow> d | None \<Rightarrow> started_mark e now (jb_started j)),
     jb_completed := completed_mark e now (jb_completed j),
     jb_output := coalesce (jp_output p) (jb_output j),
     jb_error := failure_mark e None (jp_error p) (jb_error j),
     jb_duration := coalesce (jp_duration p) (jb_duration j)\<rparr>"

text \<open>The manual and the stale statement: no patch.\<close>

definition apply_job_plain :: "timestamp \<Rightarrow> lc_effect \<Rightarrow> job_row \<Rightarrow> job_row" where
  "apply_job_plain now e j = j\<lparr>
     jb_status := ef_to e,
     jb_started := started_mark e now (jb_started j),
     jb_completed := completed_mark e now (jb_completed j),
     jb_error := failure_mark e None None (jb_error j)\<rparr>"

definition apply_job_expiry :: "timestamp \<Rightarrow> lc_effect \<Rightarrow> job_row \<Rightarrow> job_row" where
  "apply_job_expiry now e j = j\<lparr>
     jb_status := ef_to e,
     jb_completed := (if ef_completed e then Some now else jb_completed j),
     jb_error := coalesce (jb_error j) (Some ''Lifecycle deadline exceeded before execution'')\<rparr>"

datatype job_change = JobPatched JobLifecyclePatch | JobPlain | JobExpired

fun apply_job :: "timestamp \<times> job_change \<Rightarrow> lc_effect \<Rightarrow> job_row \<Rightarrow> job_row" where
  "apply_job (now, JobPatched p) e j = apply_job_patch now p e j"
| "apply_job (now, JobPlain) e j = apply_job_plain now e j"
| "apply_job (now, JobExpired) e j = apply_job_expiry now e j"

text \<open>\<^verbatim>\<open>j.id = $1 AND ($4::uuid IS NULL OR j.device_id = $4::uuid)\<close>.\<close>

definition job_locked :: "string \<Rightarrow> string option \<Rightarrow> job_row \<Rightarrow> bool" where
  "job_locked jobId expected j \<longleftrightarrow> jb_id j = jobId \<and> (expected = None \<or> expected = Some (jb_device j))"

section \<open>Operations\<close>

definition listJobStatusDefinitions :: "lc_db \<Rightarrow> LifecycleStateDefinition list" where
  "listJobStatusDefinitions db = listResourceLifecycleStates db ''jobs'' ''status''"

definition transitionJob :: "lc_db \<Rightarrow> timestamp \<Rightarrow> string \<Rightarrow> LifecycleTransitionSelector \<Rightarrow> JobLifecyclePatch
    \<Rightarrow> string option \<Rightarrow> job_row list \<Rightarrow> job_row option \<times> job_row list" where
  "transitionJob db now jobId sel p expectedDeviceId jobs =
     move_row jb_id (apply_job (now, JobPatched (serializePatch p))) (job_locked jobId expectedDeviceId)
       (\<lambda>j. unique_effect db sel (jb_key j) (jb_status j)) jobs"

definition transitionJobFromExternalStatus :: "lc_db \<Rightarrow> timestamp \<Rightarrow> string \<Rightarrow> string \<Rightarrow> JobLifecyclePatch
    \<Rightarrow> string option \<Rightarrow> job_row list \<Rightarrow> job_row option \<times> job_row list" where
  "transitionJobFromExternalStatus db now jobId target p expectedDeviceId jobs =
     move_row jb_id (apply_job (now, JobPatched (serializePatch p))) (job_locked jobId expectedDeviceId)
       (\<lambda>j. first_effect (external_transitions db (jb_key j) (jb_status j) target)) jobs"

definition transitionJobManually :: "lc_db \<Rightarrow> timestamp \<Rightarrow> string \<Rightarrow> string
    \<Rightarrow> job_row list \<Rightarrow> job_row option \<times> job_row list" where
  "transitionJobManually db now jobId target jobs =
     move_row jb_id (apply_job (now, JobPlain)) (job_locked jobId None)
       (\<lambda>j. first_effect (manual_transitions db (jb_key j) (jb_status j) target)) jobs"

text \<open>The transitions of overdue states; the deadline counts from the job's creation.\<close>

definition overdue_transitions :: "lc_db \<Rightarrow> timestamp \<Rightarrow> job_row \<Rightarrow> LifecycleTransition list" where
  "overdue_transitions db now j =
     concat (map (\<lambda>(s, t). case ls_stale_ms s of
         None \<Rightarrow> []
       | Some ms \<Rightarrow> if int (jb_created j) + ms \<le> int now then [t] else [])
     (stale_transitions db (jb_key j) (jb_status j)))"

definition expireStaleJobs :: "lc_db \<Rightarrow> timestamp \<Rightarrow> (job_row \<Rightarrow> bool) \<Rightarrow> job_row list
    \<Rightarrow> job_row list \<times> job_row list" where
  "expireStaleJobs db now unlocked jobs =
     move_rows (apply_job (now, JobExpired))
       (\<lambda>j. if unlocked j then map_option effect_of (first_row (overdue_transitions db now j)) else None) jobs"

definition transitionJobByConfiguredStalePolicy :: "lc_db \<Rightarrow> timestamp \<Rightarrow> string
    \<Rightarrow> job_row list \<Rightarrow> job_row option \<times> job_row list" where
  "transitionJobByConfiguredStalePolicy db now jobId jobs =
     move_row jb_id (apply_job (now, JobPlain)) (job_locked jobId None)
       (\<lambda>j. map_option (\<lambda>(s, t). effect_of t) (first_row (stale_transitions db (jb_key j) (jb_status j)))) jobs"

section \<open>Laws\<close>

lemma apply_job_laws [row_laws]:
  "jb_id (apply_job p e j) = jb_id j" "jb_key (apply_job p e j) = jb_key j"
  "jb_status (apply_job p e j) = ef_to e"
  by (cases "(p, e, j)" rule: apply_job.cases;
      simp add: apply_job_patch_def apply_job_plain_def apply_job_expiry_def)+

interpretation job: lifecycle_rows jb_id jb_key jb_status apply_job
  by unfold_locales (simp_all add: row_laws)

lemma stale_choice_configured:
  assumes "map_option (\<lambda>(s, t). effect_of t) (first_row (stale_transitions db key status)) = Some e"
  shows "configured_move db key status (ef_to e)"
proof -
  obtain s t where f: "first_row (stale_transitions db key status) = Some (s, t)" and e: "effect_of t = e"
    using assms by auto
  from stale_effect_configured [OF first_row_in [OF f]] show ?thesis using e by auto
qed

lemma overdue_transitions_iff:
  "t \<in> set (overdue_transitions db now j) \<longleftrightarrow>
     (\<exists>s ms. (s, t) \<in> set (stale_transitions db (jb_key j) (jb_status j)) \<and> ls_stale_ms s = Some ms
        \<and> int (jb_created j) + ms \<le> int now)"
  by (force simp: overdue_transitions_def split: option.splits)

lemma overdue_choice_configured:
  assumes "map_option effect_of (first_row (overdue_transitions db now j)) = Some e"
  shows "configured_move db (jb_key j) (jb_status j) (ef_to e)"
proof -
  obtain t where f: "first_row (overdue_transitions db now j) = Some t" and e: "effect_of t = e"
    using assms by auto
  from first_row_in [OF f] obtain s where "(s, t) \<in> set (stale_transitions db (jb_key j) (jb_status j))"
    unfolding overdue_transitions_iff by blast
  from stale_effect_configured [OF this] show ?thesis using e by auto
qed

section \<open>The job table as a transition system\<close>

inductive job_step :: "lc_db \<Rightarrow> job_row list \<Rightarrow> job_row list \<Rightarrow> bool" for db where
  transition: "job_step db jobs (snd (transitionJob db now jobId sel p expected jobs))"
| external: "job_step db jobs (snd (transitionJobFromExternalStatus db now jobId target p expected jobs))"
| manual: "job_step db jobs (snd (transitionJobManually db now jobId target jobs))"
| expire: "job_step db jobs (snd (expireStaleJobs db now unlocked jobs))"
| stale: "job_step db jobs (snd (transitionJobByConfiguredStalePolicy db now jobId jobs))"

lemma job_step_moved:
  assumes "job_step db jobs jobs'" "distinct (map jb_id jobs)"
  shows "moved jb_id jb_key jb_status db jobs jobs'"
  using assms
proof cases
  case (transition now jobId sel p expected)
  then show ?thesis unfolding transitionJob_def
    by (simp only:) (intro job.move_row_moved [OF assms(2)] unique_effect_configured)
next
  case (external now jobId target p expected)
  then show ?thesis unfolding transitionJobFromExternalStatus_def
    by (simp only:) (intro job.move_row_moved [OF assms(2)] external_effect_configured(1))
next
  case (manual now jobId target)
  then show ?thesis unfolding transitionJobManually_def
    by (simp only:) (intro job.move_row_moved [OF assms(2)] manual_effect_configured(1))
next
  case (expire now unlocked)
  then show ?thesis unfolding expireStaleJobs_def
    by (simp only:) (intro job.move_rows_moved, auto intro: overdue_choice_configured split: if_splits)
next
  case (stale now jobId)
  then show ?thesis unfolding transitionJobByConfiguredStalePolicy_def
    by (simp only:) (intro job.move_row_moved [OF assms(2)] stale_choice_configured)
qed

lemma job_steps_followed:
  assumes "(job_step db)\<^sup>*\<^sup>* jobs jobs'" "distinct (map jb_id jobs)"
  shows "followed jb_id jb_key jb_status db jobs jobs'"
  using assms
proof (induction rule: rtranclp_induct)
  case (step y z)
  then have f: "followed jb_id jb_key jb_status db jobs y" by simp
  with followed_ids [OF f] step show ?case using job_step_moved followed_moved by metis
qed simp

end
