(* ===== verification/Workflow_Lifecycle.thy ===== *)
theory Workflow_Lifecycle imports Resource_Moves
begin

text \<open>
  The remaining resources that move through configured lifecycles: workflows
  (\<^verbatim>\<open>workflows/workflow-lifecycle.service.ts\<close>), research jobs
  (\<^verbatim>\<open>research/research-lifecycle.service.ts\<close>), agency workflow runs
  (\<^verbatim>\<open>workflows/agency-workflow-run-lifecycle.service.ts\<close>) and workflow execution
  bindings (\<^verbatim>\<open>workflow-segments/execution-lifecycle.service.ts\<close>), all under
  \<^verbatim>\<open>src/src/modules\<close>.
\<close>

section \<open>Workflows\<close>

record workflow_row =
  wf_id :: string
  wf_key :: string
  wf_device :: "string option"
  wf_status :: string
  wf_started :: "timestamp option"
  wf_completed :: "timestamp option"
  wf_checkpoint :: "json option"
  wf_current_step :: "int option"
  wf_total_steps :: "int option"
  wf_error :: "string option"

record WorkflowLifecyclePatch =
  wp_checkpoint :: "json option"
  wp_current_step :: "int option"
  wp_total_steps :: "int option option"
  wp_error :: "string option option"

definition no_workflow_patch :: WorkflowLifecyclePatch where
  "no_workflow_patch = \<lparr>wp_checkpoint = None, wp_current_step = None, wp_total_steps = None, wp_error = None\<rparr>"

definition apply_workflow :: "timestamp \<times> WorkflowLifecyclePatch \<Rightarrow> lc_effect \<Rightarrow> workflow_row \<Rightarrow> workflow_row" where
  "apply_workflow q e w = (case q of (now, p) \<Rightarrow> w\<lparr>
     wf_status := ef_to e,
     wf_started := started_mark e now (wf_started w),
     wf_completed := completed_mark e now (wf_completed w),
     wf_checkpoint := coalesce (wp_checkpoint p) (wf_checkpoint w),
     wf_current_step := coalesce (wp_current_step p) (wf_current_step w),
     wf_total_steps := patched (wp_total_steps p) (wf_total_steps w),
     wf_error := failure_mark e None (wp_error p) (wf_error w)\<rparr>)"

definition listWorkflowStatusDefinitions :: "lc_db \<Rightarrow> LifecycleStateDefinition list" where
  "listWorkflowStatusDefinitions db = listResourceLifecycleStates db ''workflows'' ''status''"

text \<open>\<open>extra\<close> is the caller's additional SQL predicate.\<close>

definition transitionWorkflowWhere :: "lc_db \<Rightarrow> timestamp \<Rightarrow> string \<Rightarrow> LifecycleTransitionSelector
    \<Rightarrow> WorkflowLifecyclePatch \<Rightarrow> (workflow_row \<Rightarrow> bool) \<Rightarrow> workflow_row list
    \<Rightarrow> workflow_row option \<times> workflow_row list" where
  "transitionWorkflowWhere db now workflowId sel p extra rows =
     move_row wf_id (apply_workflow (now, p)) (\<lambda>w. wf_id w = workflowId \<and> extra w)
       (\<lambda>w. unique_effect db sel (wf_key w) (wf_status w)) rows"

definition transitionWorkflow :: "lc_db \<Rightarrow> timestamp \<Rightarrow> string \<Rightarrow> LifecycleTransitionSelector
    \<Rightarrow> WorkflowLifecyclePatch \<Rightarrow> workflow_row list \<Rightarrow> workflow_row option \<times> workflow_row list" where
  "transitionWorkflow db now workflowId sel p rows =
     transitionWorkflowWhere db now workflowId sel p (\<lambda>_. True) rows"

definition transitionWorkflowFromExternalStatus :: "lc_db \<Rightarrow> timestamp \<Rightarrow> string \<Rightarrow> string
    \<Rightarrow> WorkflowLifecyclePatch \<Rightarrow> workflow_row list \<Rightarrow> workflow_row option \<times> workflow_row list" where
  "transitionWorkflowFromExternalStatus db now workflowId target p rows =
     move_row wf_id (apply_workflow (now, p)) (\<lambda>w. wf_id w = workflowId)
       (\<lambda>w. first_effect (external_transitions db (wf_key w) (wf_status w) target)) rows"

section \<open>Research jobs\<close>

record research_row =
  rj_id :: string
  rj_key :: string
  rj_status :: string
  rj_device :: "string option"
  rj_scheduled :: "timestamp option"
  rj_started :: "timestamp option"
  rj_completed :: "timestamp option"
  rj_output :: "json option"
  rj_expires :: "timestamp option"
  rj_error :: "string option"

record ResearchLifecyclePatch =
  rp_device :: "string option option"
  rp_output :: "json option"
  rp_error :: "string option option"
  rp_expires :: "timestamp option option"
  rp_scheduled_now :: "bool option"

definition no_research_patch :: ResearchLifecyclePatch where
  "no_research_patch = \<lparr>rp_device = None, rp_output = None, rp_error = None, rp_expires = None,
     rp_scheduled_now = None\<rparr>"

definition apply_research :: "timestamp \<times> ResearchLifecyclePatch \<Rightarrow> lc_effect \<Rightarrow> research_row \<Rightarrow> research_row" where
  "apply_research q e j = (case q of (now, p) \<Rightarrow> j\<lparr>
     rj_status := ef_to e,
     rj_device := (if ef_reset_retry e then None else patched (rp_device p) (rj_device j)),
     rj_scheduled := (if odefault (rp_scheduled_now p) False then Some now
        else if ef_reset_retry e then None else rj_scheduled j),
     rj_started := (if ef_started e then coalesce (rj_started j) (Some now)
        else if ef_reset_retry e then None else rj_started j),
     rj_completed := completed_mark e now (rj_completed j),
     rj_output := coalesce (rp_output p) (rj_output j),
     rj_expires := patched (rp_expires p) (rj_expires j),
     rj_error := failure_mark e None (rp_error p) (rj_error j)\<rparr>)"

definition transitionResearchJob :: "lc_db \<Rightarrow> timestamp \<Rightarrow> string \<Rightarrow> LifecycleTransitionSelector
    \<Rightarrow> ResearchLifecyclePatch \<Rightarrow> research_row list \<Rightarrow> research_row option \<times> research_row list" where
  "transitionResearchJob db now jobId sel p rows =
     move_row rj_id (apply_research (now, p)) (\<lambda>j. rj_id j = jobId)
       (\<lambda>j. unique_effect db sel (rj_key j) (rj_status j)) rows"

section \<open>Agency workflow runs\<close>

record agency_row =
  ar_id :: string
  ar_key :: string
  ar_status :: string
  ar_started :: "timestamp option"
  ar_completed :: "timestamp option"
  ar_updated :: timestamp
  ar_task :: "string option"
  ar_workflow :: "string option"
  ar_output :: "json option"
  ar_token_usage :: "json option"
  ar_recovery_requests :: "int option"
  ar_error :: "string option"
  ar_root_code :: "string option"
  ar_root_message :: "string option"
  ar_root_details :: "json option"

record AgencyWorkflowRunPatch =
  ap_task :: "string option option"
  ap_workflow :: "string option option"
  ap_output :: "json option"
  ap_token_usage :: "json option"
  ap_recovery_requests :: "int option"
  ap_error :: "string option option"
  ap_root_code :: "string option option"
  ap_root_message :: "string option option"
  ap_root_details :: "json option"

definition no_agency_patch :: AgencyWorkflowRunPatch where
  "no_agency_patch = \<lparr>ap_task = None, ap_workflow = None, ap_output = None, ap_token_usage = None,
     ap_recovery_requests = None, ap_error = None, ap_root_code = None, ap_root_message = None,
     ap_root_details = None\<rparr>"

definition apply_agency :: "timestamp \<times> AgencyWorkflowRunPatch \<Rightarrow> lc_effect \<Rightarrow> agency_row \<Rightarrow> agency_row" where
  "apply_agency q e a = (case q of (now, p) \<Rightarrow> a\<lparr>
     ar_status := ef_to e,
     ar_started := started_mark e now (ar_started a),
     ar_completed := completed_mark e now (ar_completed a),
     ar_updated := now,
     ar_task := patched (ap_task p) (ar_task a),
     ar_workflow := patched (ap_workflow p) (ar_workflow a),
     ar_output := coalesce (ap_output p) (ar_output a),
     ar_token_usage := coalesce (ap_token_usage p) (ar_token_usage a),
     ar_recovery_requests := coalesce (ap_recovery_requests p) (ar_recovery_requests a),
     ar_error := failure_mark e None (ap_error p) (ar_error a),
     ar_root_code := failure_mark e None (ap_root_code p) (ar_root_code a),
     ar_root_message := failure_mark e None (ap_root_message p) (ar_root_message a),
     ar_root_details := failure_mark e (Some (JObj [])) (map_option Some (ap_root_details p)) (ar_root_details a)\<rparr>)"

definition transitionAgencyWorkflowRun :: "lc_db \<Rightarrow> timestamp \<Rightarrow> string \<Rightarrow> LifecycleTransitionSelector
    \<Rightarrow> AgencyWorkflowRunPatch \<Rightarrow> agency_row list \<Rightarrow> agency_row option \<times> agency_row list" where
  "transitionAgencyWorkflowRun db now runId sel p rows =
     move_row ar_id (apply_agency (now, p)) (\<lambda>a. ar_id a = runId)
       (\<lambda>a. unique_effect db sel (ar_key a) (ar_status a)) rows"

section \<open>Workflow execution bindings\<close>

record execution_row =
  xb_request_key :: string
  xb_status :: string
  xb_verified :: bool
  xb_evidence :: jobj
  xb_updated :: timestamp

record execution_patch =
  xp_verified :: "bool option"
  xp_evidence :: "jobj option"

definition apply_execution :: "timestamp \<times> execution_patch \<Rightarrow> lc_effect \<Rightarrow> execution_row \<Rightarrow> execution_row" where
  "apply_execution q e x = (case q of (now, p) \<Rightarrow> x\<lparr>
     xb_status := ef_to e,
     xb_verified := odefault (xp_verified p) (xb_verified x),
     xb_evidence := (case xp_evidence p of None \<Rightarrow> xb_evidence x | Some ev \<Rightarrow> jmerge (xb_evidence x) ev),
     xb_updated := now\<rparr>)"

text \<open>The lifecycle comes from the resource binding; several candidates are ordered by action.\<close>

definition execution_choice :: "lc_db \<Rightarrow> LifecycleTransitionSelector \<Rightarrow> execution_row \<Rightarrow> lc_effect option" where
  "execution_choice db sel x =
     first_effect (map fst (filter (\<lambda>(t, s). lifecycleTransitionSelectorPredicate db sel t s)
       (resource_outgoing db ''workflow_execution_bindings'' (xb_status x) ''status'')))"

definition transitionWorkflowExecutionBinding :: "lc_db \<Rightarrow> timestamp \<Rightarrow> string \<Rightarrow> LifecycleTransitionSelector
    \<Rightarrow> execution_patch \<Rightarrow> execution_row list \<Rightarrow> bool \<times> execution_row list" where
  "transitionWorkflowExecutionBinding db now requestKey sel p rows =
     (case move_row xb_request_key (apply_execution (now, p)) (\<lambda>x. xb_request_key x = requestKey)
             (execution_choice db sel) rows of
        (r, rows') \<Rightarrow> (r \<noteq> None, rows'))"

section \<open>Laws\<close>

lemma apply_workflow_laws [row_laws]:
  "wf_id (apply_workflow q e w) = wf_id w" "wf_key (apply_workflow q e w) = wf_key w"
  "wf_status (apply_workflow q e w) = ef_to e"
  by (simp_all add: apply_workflow_def split: prod.splits)

lemma apply_research_laws [row_laws]:
  "rj_id (apply_research r e j) = rj_id j" "rj_key (apply_research r e j) = rj_key j"
  "rj_status (apply_research r e j) = ef_to e"
  by (simp_all add: apply_research_def split: prod.splits)

lemma apply_agency_laws [row_laws]:
  "ar_id (apply_agency a e i) = ar_id i" "ar_key (apply_agency a e i) = ar_key i"
  "ar_status (apply_agency a e i) = ef_to e"
  by (simp_all add: apply_agency_def split: prod.splits)

lemma apply_execution_laws [row_laws]:
  "xb_request_key (apply_execution q e x) = xb_request_key x"
  "xb_status (apply_execution q e x) = ef_to e"
  by (simp_all add: apply_execution_def split: prod.splits)

interpretation workflow: lifecycle_rows wf_id wf_key wf_status apply_workflow
  by unfold_locales (simp_all add: row_laws)

interpretation research: lifecycle_rows rj_id rj_key rj_status apply_research
  by unfold_locales (simp_all add: row_laws)

interpretation agency: lifecycle_rows ar_id ar_key ar_status apply_agency
  by unfold_locales (simp_all add: row_laws)

interpretation execution: lifecycle_rows xb_request_key "\<lambda>_. key" xb_status apply_execution for key
  by unfold_locales (simp_all add: row_laws)

end
