(* ===== verification/Row_Properties.thy ===== *)
theory Row_Properties imports Task_Lifecycle Job_Lifecycle Workflow_Lifecycle
begin

text \<open>
  What the lifecycle services guarantee of the rows they move, each property with a
  witness on the sample configuration.
\<close>

section \<open>Samples\<close>

definition sample_task :: "string \<Rightarrow> string \<Rightarrow> task_row" where
  "sample_task i status = \<lparr>tk_id = i, tk_key = ''flow'', tk_status = status, tk_started = Some 5,
     tk_completed = Some 9, tk_retry_count = Some 2, tk_result = None, tk_error = Some ''boom'',
     tk_root_code = Some ''E'', tk_root_message = None, tk_root_details = JNull, tk_updated = 9\<rparr>"

definition sample_job :: "string \<Rightarrow> string \<Rightarrow> job_row" where
  "sample_job i status = \<lparr>jb_id = i, jb_key = ''flow'', jb_device = ''d1'', jb_status = status,
     jb_created = 100, jb_started = None, jb_completed = None, jb_output = None, jb_error = None,
     jb_duration = None\<rparr>"

definition sample_workflow :: "string \<Rightarrow> string \<Rightarrow> workflow_row" where
  "sample_workflow i status = \<lparr>wf_id = i, wf_key = ''flow'', wf_device = Some ''d1'', wf_status = status, wf_started = None,
     wf_completed = None, wf_checkpoint = None, wf_current_step = None, wf_total_steps = None,
     wf_error = None\<rparr>"

lemma followed_row:
  assumes "followed rid rkey rstatus db rows rows'" "r \<in> set rows"
  shows "\<exists>r' \<in> set rows'. rid r' = rid r \<and> rkey r' = rkey r
    \<and> (configured_move db (rkey r))\<^sup>*\<^sup>* (rstatus r) (rstatus r')
    \<and> (transitions_from db (rkey r) (rstatus r) = [] \<longrightarrow> rstatus r' = rstatus r)"
proof -
  obtain i where i: "i < length rows" "r = rows ! i" using assms(2) by (metis in_set_conv_nth)
  have "length rows' = length rows" using assms(1) by (simp add: followed_def list_all2_lengthD)
  then have "rows' ! i \<in> set rows'" using i by simp
  moreover have "rid (rows' ! i) = rid r \<and> rkey (rows' ! i) = rkey r
      \<and> (configured_move db (rkey r))\<^sup>*\<^sup>* (rstatus r) (rstatus (rows' ! i))"
    using assms(1) i by (simp add: followed_def list_all2_conv_all_nth)
  ultimately show ?thesis using no_exit_final by blast
qed

section \<open>Tasks\<close>

text \<open>
  C22. Whatever sequence of task operations runs (selector transitions, manual moves, bulk
  retries), every task keeps its identity and lifecycle, its status has moved along a
  path of configured transitions, and a status without a configured exit is never left.
\<close>

theorem task_statuses_follow_configuration:
  assumes "(task_step db)\<^sup>*\<^sup>* tasks tasks'" "distinct (map tk_id tasks)" "t \<in> set tasks"
  shows "\<exists>t' \<in> set tasks'. tk_id t' = tk_id t \<and> tk_key t' = tk_key t
    \<and> (configured_move db (tk_key t))\<^sup>*\<^sup>* (tk_status t) (tk_status t')
    \<and> (transitions_from db (tk_key t) (tk_status t) = [] \<longrightarrow> tk_status t' = tk_status t)"
  using followed_row [OF task_steps_followed [OF assms(1,2)] assms(3)] .

theorem task_statuses_follow_configuration_witness:
  "\<exists>tasks'. (task_step sample_db)\<^sup>*\<^sup>* [sample_task ''t'' ''failed''] tasks'
     \<and> map tk_status tasks' = [''queued'']
     \<and> (\<exists>t' \<in> set tasks'. tk_id t' = ''t'' \<and> (configured_move sample_db ''flow'')\<^sup>*\<^sup>* ''failed'' (tk_status t'))"
proof -
  let ?ts = "[sample_task ''t'' ''failed'']"
  let ?ts' = "snd (retryConfiguredTasks sample_db 50 (\<lambda>_. True) ?ts)"
  have s: "(task_step sample_db)\<^sup>*\<^sup>* ?ts ?ts'" by (intro r_into_rtranclp task_step.retry)
  have m: "map tk_status ?ts' = [''queued'']" by code_simp
  have d: "distinct (map tk_id ?ts)" by simp
  have t: "sample_task ''t'' ''failed'' \<in> set ?ts" by simp
  have "tk_id (sample_task ''t'' ''failed'') = ''t''" "tk_key (sample_task ''t'' ''failed'') = ''flow''"
    "tk_status (sample_task ''t'' ''failed'') = ''failed''" by (simp_all add: sample_task_def)
  with task_statuses_follow_configuration [OF s d t] s m show ?thesis by metis
qed

text \<open>
  \<open>transitionTask\<close> acts exactly when the selector is decisive: when the admitted
  transitions agree on one effect the addressed task is rewritten by it and every other
  row is left alone; when there is none, or several differ, nothing changes and the
  answer is null.
\<close>

theorem transition_task_exact:
  assumes "distinct (map tk_id tasks)" "t \<in> set tasks"
  shows "transitionTask db now (tk_id t) sel p tasks =
    (let E = effects db sel (tk_key t) (tk_status t) in
     if \<exists>e. E = {e}
     then (Some (apply_task_patch now p (the_elem E) t),
           update_where (\<lambda>x. tk_id x = tk_id t) (apply_task_patch now p (the_elem E)) tasks)
     else (None, tasks))"
proof -
  let ?u = "unique_effect db sel (tk_key t) (tk_status t)"
  have ap: "apply_task (now, Patched p) = apply_task_patch now p" by (intro ext) simp
  have m: "transitionTask db now (tk_id t) sel p tasks =
      (case ?u of None \<Rightarrow> (None, tasks)
       | Some e \<Rightarrow> (Some (apply_task_patch now p e t),
                    update_where (\<lambda>x. tk_id x = tk_id t) (apply_task_patch now p e) tasks))"
    unfolding transitionTask_def
    using task.move_row_exact [OF assms refl, where extra = "\<lambda>_. True" and p = "(now, Patched p)"
      and pick = "\<lambda>t. unique_effect db sel (tk_key t) (tk_status t)"]
    by (simp only: ap simp_thms)
  show ?thesis
  proof (cases ?u)
    case None
    then have "\<not> (\<exists>e. effects db sel (tk_key t) (tk_status t) = {e})"
      using unique_effect_iff [of db sel "tk_key t" "tk_status t"] by (metis option.distinct(1))
    then show ?thesis using m None by simp
  next
    case (Some e)
    then have "effects db sel (tk_key t) (tk_status t) = {e}" by (simp add: unique_effect_iff)
    then show ?thesis using m Some by simp
  qed
qed

theorem transition_task_exact_witness:
  "transitionTask sample_db 50 ''t'' (any_selector\<lparr>targetTerminal := Some True, targetRetryable := Some True\<rparr>)
      no_task_patch [sample_task ''t'' ''dispatched'']
   = (Some (sample_task ''t'' ''failed''\<lparr>tk_completed := Some 50, tk_updated := 50\<rparr>),
      [sample_task ''t'' ''failed''\<lparr>tk_completed := Some 50, tk_updated := 50\<rparr>])
   \<and> (\<exists>e. effects sample_db (any_selector\<lparr>targetTerminal := Some True, targetRetryable := Some True\<rparr>) ''flow'' ''dispatched'' = {e})"
proof -
  let ?sel = "any_selector\<lparr>targetTerminal := Some True, targetRetryable := Some True\<rparr>"
  let ?t = "sample_task ''t'' ''dispatched''"
  have e: "transitionTask sample_db 50 ''t'' ?sel no_task_patch [?t]
      = (Some (sample_task ''t'' ''failed''\<lparr>tk_completed := Some 50, tk_updated := 50\<rparr>),
         [sample_task ''t'' ''failed''\<lparr>tk_completed := Some 50, tk_updated := 50\<rparr>])"
    by code_simp
  have k: "tk_id ?t = ''t''" "tk_key ?t = ''flow''" "tk_status ?t = ''dispatched''" by (simp_all add: sample_task_def)
  have "distinct (map tk_id [?t])" "?t \<in> set [?t]" by simp_all
  from transition_task_exact [OF this, of sample_db 50 ?sel no_task_patch] e
  have "\<exists>x. effects sample_db ?sel ''flow'' ''dispatched'' = {x}"
    unfolding k Let_def by (metis option.distinct(1) prod.inject)
  with e show ?thesis by simp
qed


text \<open>A task the bulk retry takes up.\<close>

definition retry_eligible :: "lc_db \<Rightarrow> task_row \<Rightarrow> bool" where
  "retry_eligible db t \<longleftrightarrow> in_retryable_state db t
     \<and> (\<exists>x \<in> set (outgoing db (tk_key t) (tk_status t)). retry_exit x)"

definition fresh_retry :: "lc_db \<Rightarrow> timestamp \<Rightarrow> task_row \<Rightarrow> task_row \<Rightarrow> bool" where
  "fresh_retry db now t t' \<longleftrightarrow>
     (\<exists>s \<in> set (db_states db). ls_key s = tk_key t \<and> ls_initial s \<and> ls_dispatchable s
        \<and> t' = t\<lparr>tk_status := ls_status s, tk_retry_count := Some 0, tk_completed := None, tk_error := None,
             tk_root_code := None, tk_root_message := None, tk_root_details := JObj [], tk_updated := now\<rparr>)"

lemma retry_choice_eligible:
  assumes "wf_config db"
  shows "(\<exists>e. retry_choice db t = Some e) \<longleftrightarrow> retry_eligible db t"
proof
  assume "\<exists>e. retry_choice db t = Some e"
  then show "retry_eligible db t" by (auto simp: retry_eligible_def elim: retry_choice_SomeD)
next
  assume "retry_eligible db t"
  then obtain x where "x \<in> set (outgoing db (tk_key t) (tk_status t))" "retry_exit x" "in_retryable_state db t"
    by (auto simp: retry_eligible_def)
  from retry_choice_exact [OF assms this] show "\<exists>e. retry_choice db t = Some e" by blast
qed

lemma retry_choice_fresh:
  assumes "retry_choice db t = Some e"
  shows "fresh_retry db now t (apply_task (now, Retried) e t)"
proof -
  obtain x where x: "x \<in> set (outgoing db (tk_key t) (tk_status t))" "retry_exit x" "e = retry_columns (fst x)"
    using assms by (rule retry_choice_SomeD)
  obtain tr s where [simp]: "x = (tr, s)" by (cases x)
  have s: "s \<in> set (db_states db)" "ls_key s = tk_key t" "lt_to tr = ls_status s" "ls_initial s" "ls_dispatchable s"
    using x by (auto simp: set_outgoing retry_exit_def)
  have "apply_task (now, Retried) e t = t\<lparr>tk_status := ls_status s, tk_retry_count := Some 0,
      tk_completed := None, tk_error := None, tk_root_code := None, tk_root_message := None,
      tk_root_details := JObj [], tk_updated := now\<rparr>"
    using x(2,3) s(3) by (simp add: apply_task_retry_def retry_columns_def retry_exit_def failure_mark_def)
  then show ?thesis using s(1,2,4,5) unfolding fresh_retry_def by blast
qed

text \<open>
  On a valid configuration the bulk retry takes up exactly the eligible unlocked
  tasks: each one gets the initial dispatchable status, a zero retry count and no failure
  or completion, every other task is untouched, and the count reports how many moved.
\<close>

theorem retry_configured_tasks_exact:
  assumes "wf_config db"
  shows "fst (retryConfiguredTasks db now unlocked tasks)
      = length (filter (\<lambda>t. unlocked t \<and> retry_eligible db t) tasks)
    \<and> list_all2 (\<lambda>t t'. if unlocked t \<and> retry_eligible db t then fresh_retry db now t t' else t' = t)
        tasks (snd (retryConfiguredTasks db now unlocked tasks))"
proof
  let ?pick = "\<lambda>t. if unlocked t then retry_choice db t else None"
  have some: "(unlocked t \<and> retry_eligible db t) = (?pick t \<noteq> None)" for t
    using retry_choice_eligible [OF assms, of t] by auto
  show "fst (retryConfiguredTasks db now unlocked tasks)
      = length (filter (\<lambda>t. unlocked t \<and> retry_eligible db t) tasks)"
    unfolding some retryConfiguredTasks_def move_rows_def
    by (induction tasks) (auto split: option.splits)
  have "snd (retryConfiguredTasks db now unlocked tasks) =
      map (\<lambda>t. case ?pick t of None \<Rightarrow> t | Some e \<Rightarrow> apply_task (now, Retried) e t) tasks"
    by (simp add: retryConfiguredTasks_def move_rows_def)
  then show "list_all2 (\<lambda>t t'. if unlocked t \<and> retry_eligible db t then fresh_retry db now t t' else t' = t)
        tasks (snd (retryConfiguredTasks db now unlocked tasks))"
    unfolding some
    by (simp only:) (auto simp: list_all2_map2 list_all2_same simp del: apply_task.simps
        split: option.splits dest: retry_choice_fresh)
qed

theorem retry_configured_tasks_exact_witness:
  "wf_config sample_db
   \<and> fst (retryConfiguredTasks sample_db 50 (\<lambda>_. True)
        [sample_task ''a'' ''failed'', sample_task ''b'' ''done'', sample_task ''c'' ''failed'']) = 2
   \<and> length (filter (\<lambda>t. True \<and> retry_eligible sample_db t)
        [sample_task ''a'' ''failed'', sample_task ''b'' ''done'', sample_task ''c'' ''failed'']) = 2"
proof -
  let ?ts = "[sample_task ''a'' ''failed'', sample_task ''b'' ''done'', sample_task ''c'' ''failed'']"
  have "fst (retryConfiguredTasks sample_db 50 (\<lambda>_. True) ?ts) = 2" by code_simp
  with retry_configured_tasks_exact [OF wf_sample_db, of 50 "\<lambda>_. True" ?ts] wf_sample_db
  show ?thesis by (metis (no_types, lifting))
qed

text \<open>
  The retry statistics count every task of a bound lifecycle whose status is retryable
  exactly once, and split them at the retry limit: retryable and exhausted add up.
\<close>

theorem retry_stats_partition:
  assumes "wf_config db"
  shows "totalFailed (getConfiguredRetryStats db n tasks)
      = length (filter (\<lambda>t. tk_key t \<in> set (task_keys db) \<and> in_retryable_state db t) tasks)
    \<and> retryableCount (getConfiguredRetryStats db n tasks) + exhaustedCount (getConfiguredRetryStats db n tasks)
      = totalFailed (getConfiguredRetryStats db n tasks)"
proof
  have d: "distinct (map state_identity (db_states db))" using assms by (simp add: wf_config_def keys_distinct_def)
  have one: "length (filter (\<lambda>s. ls_key s = tk_key t \<and> ls_status s = tk_status t \<and> ls_retryable s) (db_states db))
      = (if in_retryable_state db t then 1 else 0)" for t
  proof (cases "in_retryable_state db t")
    case True
    then obtain s where s: "s \<in> set (db_states db)" "state_identity s = (tk_key t, tk_status t)" "ls_retryable s"
      by (auto simp: in_retryable_state_def state_identity_def)
    have "filter (\<lambda>s. ls_key s = tk_key t \<and> ls_status s = tk_status t \<and> ls_retryable s) (db_states db)
        = filter ls_retryable (filter (\<lambda>s. state_identity s = (tk_key t, tk_status t)) (db_states db))"
      by (simp add: state_identity_def conj_commute conj_left_commute)
    also have "\<dots> = [s]" using filter_distinct_single [OF d s(1,2)] s(3) by simp
    finally show ?thesis using True by simp
  qed (auto simp: in_retryable_state_def filter_empty_conv)
  have "length (failed_tasks db ts)
      = length (filter (\<lambda>t. tk_key t \<in> set (task_keys db) \<and> in_retryable_state db t) ts)" for ts
  proof (induction ts)
    case (Cons t ts)
    have "length (filter (\<lambda>t. tk_key t \<in> set (task_keys db)) (map (\<lambda>_. t) xs))
        = (if tk_key t \<in> set (task_keys db) then length xs else 0)" for xs :: "lc_state_row list"
      by (induction xs) auto
    then have "length (failed_tasks db (t # ts)) =
        (if tk_key t \<in> set (task_keys db)
         then length (filter (\<lambda>s. ls_key s = tk_key t \<and> ls_status s = tk_status t \<and> ls_retryable s) (db_states db)) else 0)
        + length (failed_tasks db ts)"
      by (simp only: failed_tasks_def list.map concat.simps filter_append length_append)
    with Cons one [of t] show ?case by (simp only:) simp
  qed (simp add: failed_tasks_def)
  then show "totalFailed (getConfiguredRetryStats db n tasks)
      = length (filter (\<lambda>t. tk_key t \<in> set (task_keys db) \<and> in_retryable_state db t) tasks)"
    by (simp add: getConfiguredRetryStats_def Let_def)
  have "length (filter (\<lambda>t. odefault (tk_retry_count t) 0 < n) xs)
      + length (filter (\<lambda>t. odefault (tk_retry_count t) 0 \<ge> n) xs) = length xs" for xs
    by (induction xs) auto
  then show "retryableCount (getConfiguredRetryStats db n tasks) + exhaustedCount (getConfiguredRetryStats db n tasks)
      = totalFailed (getConfiguredRetryStats db n tasks)"
    by (simp add: getConfiguredRetryStats_def Let_def)
qed

theorem retry_stats_partition_witness:
  "wf_config sample_db
   \<and> getConfiguredRetryStats sample_db 2 [sample_task ''a'' ''failed'', sample_task ''b'' ''done'']
     = \<lparr>totalFailed = 1, retryableCount = 0, exhaustedCount = 1\<rparr>
   \<and> length (filter (\<lambda>t. tk_key t \<in> set (task_keys sample_db) \<and> in_retryable_state sample_db t)
       [sample_task ''a'' ''failed'', sample_task ''b'' ''done'']) = 1"
proof -
  have "getConfiguredRetryStats sample_db 2 [sample_task ''a'' ''failed'', sample_task ''b'' ''done'']
     = \<lparr>totalFailed = 1, retryableCount = 0, exhaustedCount = 1\<rparr>" by code_simp
  with retry_stats_partition [OF wf_sample_db, of 2 "[sample_task ''a'' ''failed'', sample_task ''b'' ''done'']"]
    wf_sample_db show ?thesis by (metis retry_stats.select_convs(1))
qed


section \<open>Jobs\<close>

text \<open>
  Whatever sequence of job operations runs (selector, external, manual and stale
  transitions, and the expiry sweep), every job keeps its identity and lifecycle, its
  status has moved along a path of configured transitions, and a status without a
  configured exit is never left.
\<close>

theorem job_statuses_follow_configuration:
  assumes "(job_step db)\<^sup>*\<^sup>* jobs jobs'" "distinct (map jb_id jobs)" "j \<in> set jobs"
  shows "\<exists>j' \<in> set jobs'. jb_id j' = jb_id j \<and> jb_key j' = jb_key j
    \<and> (configured_move db (jb_key j))\<^sup>*\<^sup>* (jb_status j) (jb_status j')
    \<and> (transitions_from db (jb_key j) (jb_status j) = [] \<longrightarrow> jb_status j' = jb_status j)"
  using followed_row [OF job_steps_followed [OF assms(1,2)] assms(3)] .

theorem job_statuses_follow_configuration_witness:
  "\<exists>jobs'. (job_step sample_db)\<^sup>*\<^sup>* [sample_job ''j'' ''claimed''] jobs' \<and> map jb_status jobs' = [''failed'']
     \<and> (\<exists>j' \<in> set jobs'. jb_id j' = ''j'' \<and> (configured_move sample_db ''flow'')\<^sup>*\<^sup>* ''claimed'' (jb_status j'))"
proof -
  let ?js = "[sample_job ''j'' ''claimed'']"
  let ?js' = "snd (expireStaleJobs sample_db 1100 (\<lambda>_. True) ?js)"
  have s: "(job_step sample_db)\<^sup>*\<^sup>* ?js ?js'" by (intro r_into_rtranclp job_step.expire)
  have m: "map jb_status ?js' = [''failed'']" by code_simp
  have d: "distinct (map jb_id ?js)" and j: "sample_job ''j'' ''claimed'' \<in> set ?js" by simp_all
  have "jb_id (sample_job ''j'' ''claimed'') = ''j''" "jb_key (sample_job ''j'' ''claimed'') = ''flow''"
    "jb_status (sample_job ''j'' ''claimed'') = ''claimed''" by (simp_all add: sample_job_def)
  with job_statuses_follow_configuration [OF s d j] s m show ?thesis by metis
qed

text \<open>A job is overdue at \<open>now\<close> with a stale exit \<open>t\<close> of its state.\<close>

definition overdue :: "lc_db \<Rightarrow> timestamp \<Rightarrow> job_row \<Rightarrow> LifecycleTransition \<Rightarrow> bool" where
  "overdue db now j t \<longleftrightarrow>
     (\<exists>s \<in> set (db_states db). \<exists>ms. ls_key s = jb_key j \<and> ls_status s = jb_status j \<and> ls_stale_ms s = Some ms
        \<and> ls_stale_action s = Some (lt_action t) \<and> int (jb_created j) + ms \<le> int now)
     \<and> t \<in> set (db_transitions db) \<and> lt_key t = jb_key j \<and> lt_from t = jb_status j \<and> lt_automatic t"

lemma overdue_transitions_overdue: "t \<in> set (overdue_transitions db now j) \<longleftrightarrow> overdue db now j t"
  unfolding overdue_transitions_iff stale_transitions_def transitions_from_def overdue_def
  by (simp only: set_concat set_map set_filter) fastforce

lemma overdue_unique:
  assumes "wf_config db" "overdue db now j t" "overdue db now j t'"
  shows "t = t'"
proof -
  have ds: "distinct (map state_identity (db_states db))" and dt: "distinct (map transition_identity (db_transitions db))"
    using assms(1) by (simp_all add: wf_config_def keys_distinct_def)
  obtain s s' where s: "s \<in> set (db_states db)" "s' \<in> set (db_states db)" "state_identity s = state_identity s'"
    and a: "ls_stale_action s = Some (lt_action t)" "ls_stale_action s' = Some (lt_action t')"
    using assms(2,3) unfolding overdue_def state_identity_def by auto
  have "s = s'" using distinct_key_inj [OF ds s] .
  then have "transition_identity t = transition_identity t'"
    using a assms(2,3) by (simp add: overdue_def transition_identity_def)
  then show ?thesis using distinct_key_inj [OF dt] assms(2,3) by (auto simp: overdue_def)
qed

text \<open>
  On a valid configuration the expiry sweep moves exactly the unlocked jobs whose
  state has an elapsed deadline and an automatic transition as its stale action: each
  follows that transition, keeps an error it already has and otherwise gets the deadline
  message; all other jobs are untouched, and the answer lists the moved rows.
\<close>

theorem expire_stale_jobs_exact:
  assumes "wf_config db"
  shows "list_all2 (\<lambda>j j'. if unlocked j \<and> (\<exists>t. overdue db now j t)
      then \<exists>t. overdue db now j t \<and> j' = j\<lparr>jb_status := lt_to t,
          jb_completed := (if lt_mark_completed t then Some now else jb_completed j),
          jb_error := (if jb_error j = None then Some ''Lifecycle deadline exceeded before execution'' else jb_error j)\<rparr>
      else j' = j) jobs (snd (expireStaleJobs db now unlocked jobs))
    \<and> fst (expireStaleJobs db now unlocked jobs)
      = map snd (filter (\<lambda>(j, j'). unlocked j \<and> (\<exists>t. overdue db now j t)) (zip jobs (snd (expireStaleJobs db now unlocked jobs))))"
proof
  let ?pick = "\<lambda>j. if unlocked j then map_option effect_of (first_row (overdue_transitions db now j)) else None"
  have none: "overdue_transitions db now j = [] \<longleftrightarrow> \<not> (\<exists>t. overdue db now j t)" for j
    using overdue_transitions_overdue [of _ db now j] by (metis empty_iff list.set(1) list.set_intros(1) neq_Nil_conv)
  have some: "(unlocked j \<and> (\<exists>t. overdue db now j t)) = (?pick j \<noteq> None)" for j
    using none [of j] first_row_eq_None [of "overdue_transitions db now j"]
    by (cases "first_row (overdue_transitions db now j)") (simp_all del: first_row_eq_None)
  have snd: "snd (expireStaleJobs db now unlocked jobs) =
      map (\<lambda>j. case ?pick j of None \<Rightarrow> j | Some e \<Rightarrow> apply_job (now, JobExpired) e j) jobs"
    by (simp add: expireStaleJobs_def move_rows_def)
  have hit: "\<exists>t. overdue db now j t \<and> apply_job (now, JobExpired) e j = j\<lparr>jb_status := lt_to t,
      jb_completed := (if lt_mark_completed t then Some now else jb_completed j),
      jb_error := (if jb_error j = None then Some ''Lifecycle deadline exceeded before execution'' else jb_error j)\<rparr>"
    if "?pick j = Some e" for j e
  proof -
    from that obtain t where f: "first_row (overdue_transitions db now j) = Some t" and e: "e = effect_of t"
      by (auto split: if_splits)
    have "overdue db now j t" using first_row_in [OF f] by (simp add: overdue_transitions_overdue)
    then show ?thesis unfolding e by (auto simp: apply_job_expiry_def effect_of_def coalesce_def split: option.splits)
  qed
  show "list_all2 (\<lambda>j j'. if unlocked j \<and> (\<exists>t. overdue db now j t)
      then \<exists>t. overdue db now j t \<and> j' = j\<lparr>jb_status := lt_to t,
          jb_completed := (if lt_mark_completed t then Some now else jb_completed j),
          jb_error := (if jb_error j = None then Some ''Lifecycle deadline exceeded before execution'' else jb_error j)\<rparr>
      else j' = j) jobs (snd (expireStaleJobs db now unlocked jobs))"
    unfolding snd some list_all2_map2 list_all2_same
  proof
    fix j assume "j \<in> set jobs"
    show "if ?pick j \<noteq> None then \<exists>t. overdue db now j t \<and>
        (case ?pick j of None \<Rightarrow> j | Some e \<Rightarrow> apply_job (now, JobExpired) e j) = j\<lparr>jb_status := lt_to t,
          jb_completed := (if lt_mark_completed t then Some now else jb_completed j),
          jb_error := (if jb_error j = None then Some ''Lifecycle deadline exceeded before execution'' else jb_error j)\<rparr>
      else (case ?pick j of None \<Rightarrow> j | Some e \<Rightarrow> apply_job (now, JobExpired) e j) = j"
    proof (cases "?pick j")
      case (Some e)
      show ?thesis using hit [OF Some] unfolding Some by simp
    qed simp
  qed
  show "fst (expireStaleJobs db now unlocked jobs)
      = map snd (filter (\<lambda>(j, j'). unlocked j \<and> (\<exists>t. overdue db now j t)) (zip jobs (snd (expireStaleJobs db now unlocked jobs))))"
    unfolding snd some expireStaleJobs_def move_rows_def fst_conv
    by (induction jobs) (auto split: option.splits)
qed

theorem expire_stale_jobs_exact_witness:
  "wf_config sample_db
   \<and> expireStaleJobs sample_db 1100 (\<lambda>_. True) [sample_job ''a'' ''claimed'', sample_job ''b'' ''queued'']
     = ([(sample_job ''a'' ''failed'')\<lparr>jb_completed := Some 1100,
           jb_error := Some ''Lifecycle deadline exceeded before execution''\<rparr>],
        [(sample_job ''a'' ''failed'')\<lparr>jb_completed := Some 1100,
           jb_error := Some ''Lifecycle deadline exceeded before execution''\<rparr>, sample_job ''b'' ''queued''])
   \<and> (\<exists>t. overdue sample_db 1100 (sample_job ''a'' ''claimed'') t)"
proof -
  let ?js = "[sample_job ''a'' ''claimed'', sample_job ''b'' ''queued'']"
  let ?r = "(sample_job ''a'' ''failed'')\<lparr>jb_completed := Some 1100,
           jb_error := Some ''Lifecycle deadline exceeded before execution''\<rparr>"
  have e: "expireStaleJobs sample_db 1100 (\<lambda>_. True) ?js = ([?r], [?r, sample_job ''b'' ''queued''])" by code_simp
  have ne: "?r \<noteq> sample_job ''a'' ''claimed''" by (simp add: sample_job_def)
  have "\<exists>t. overdue sample_db 1100 (sample_job ''a'' ''claimed'') t"
    using conjunct1 [OF expire_stale_jobs_exact [OF wf_sample_db, of "\<lambda>_. True" 1100 ?js]] ne
    unfolding e snd_conv list_all2_Cons by argo
  with e wf_sample_db show ?thesis by blast
qed

section \<open>Workflows, research jobs, agency runs\<close>

text \<open>
  The workflow, research and agency services move their rows along configured
  transitions only: after a transition every row is unchanged or has taken one configured
  transition out of its status, and no row is added, dropped or renamed.
\<close>

theorem workflow_services_follow_configuration:
  assumes "distinct (map wf_id ws)" "distinct (map rj_id rs)" "distinct (map ar_id as)"
  shows "moved wf_id wf_key wf_status db ws (snd (transitionWorkflowWhere db now i sel wp extra ws))
    \<and> moved wf_id wf_key wf_status db ws (snd (transitionWorkflowFromExternalStatus db now i target wp ws))
    \<and> moved rj_id rj_key rj_status db rs (snd (transitionResearchJob db now i sel rp rs))
    \<and> moved ar_id ar_key ar_status db as (snd (transitionAgencyWorkflowRun db now i sel ap as))"
  unfolding transitionWorkflowWhere_def transitionWorkflowFromExternalStatus_def
    transitionResearchJob_def transitionAgencyWorkflowRun_def
  by (intro conjI workflow.move_row_moved research.move_row_moved agency.move_row_moved assms
      unique_effect_configured external_effect_configured(1))

theorem workflow_services_follow_configuration_witness:
  "snd (transitionWorkflowFromExternalStatus sample_db 7 ''w'' ''done'' no_workflow_patch [sample_workflow ''w'' ''dispatched''])
     = [(sample_workflow ''w'' ''done'')\<lparr>wf_completed := Some 7\<rparr>]
   \<and> moved wf_id wf_key wf_status sample_db [sample_workflow ''w'' ''dispatched'']
       [(sample_workflow ''w'' ''done'')\<lparr>wf_completed := Some 7\<rparr>]"
proof -
  let ?ws = "[sample_workflow ''w'' ''dispatched'']"
  have e: "snd (transitionWorkflowFromExternalStatus sample_db 7 ''w'' ''done'' no_workflow_patch ?ws)
     = [(sample_workflow ''w'' ''done'')\<lparr>wf_completed := Some 7\<rparr>]" by code_simp
  have "distinct (map wf_id ?ws)" "distinct (map rj_id [])" "distinct (map ar_id [])" by simp_all
  from workflow_services_follow_configuration [OF this, of sample_db 7 "''w''" any_selector no_workflow_patch
      "\<lambda>_. True" "''done''" no_research_patch no_agency_patch] e
  show ?thesis by simp
qed

end
