(* ===== verification/Arbiter_Data.thy ===== *)
theory Arbiter_Data imports Resource_Moves Workflow_Lifecycle
begin

text \<open>
  The data of the device execution arbiter, after
  \<^verbatim>\<open>src/src/modules/device-execution/device-execution-arbiter.ts\<close>: the rows of
  \<^verbatim>\<open>device_execution_roots\<close>, \<^verbatim>\<open>device_execution_operations\<close> and \<^verbatim>\<open>device_execution_events\<close>,
  the handles a dispatch carries over the wire, the phase predicates on the row
  timestamps, the row converters, and the two policy readers. Numbers a device may report
  are rationals; generations of rows are integers.
\<close>

section \<open>Object literals\<close>

text \<open>
  An object literal in source order: \<open>{...base, k: v}\<close>. A member whose value is undefined
  hides an earlier one and is dropped by \<^verbatim>\<open>JSON.stringify\<close>.
\<close>

fun jwith :: "jobj \<Rightarrow> (string \<times> json option) list \<Rightarrow> jobj" where
  "jwith o1 [] = o1"
| "jwith o1 ((k, None) # ms) = jwith (jdel k o1) ms"
| "jwith o1 ((k, Some v) # ms) = jwith (jmerge o1 [(k, v)]) ms"

definition jstr :: "string \<Rightarrow> json option" where
  "jstr s = Some (JStr s)"

definition jostr :: "string option \<Rightarrow> json option" where
  "jostr s = map_option JStr s"

section \<open>Handles\<close>

record DeviceExecutionHandle =
  hd_root :: string
  hd_device :: string
  hd_kind :: string
  hd_generation :: rat
  hd_op_kind :: string
  hd_op_id :: string

record DeviceExecutionWireHandle =
  pnqRootId :: string
  pnqDeviceId :: string
  pnqRootKind :: string
  pnqOwnerGeneration :: rat
  pnqOperationKind :: string
  pnqOperationId :: string

definition encodeDeviceExecutionHandle :: "DeviceExecutionHandle \<Rightarrow> DeviceExecutionWireHandle" where
  "encodeDeviceExecutionHandle h = \<lparr>pnqRootId = hd_root h, pnqDeviceId = hd_device h, pnqRootKind = hd_kind h,
     pnqOwnerGeneration = hd_generation h, pnqOperationKind = hd_op_kind h, pnqOperationId = hd_op_id h\<rparr>"

text \<open>The JSON text of a wire handle, as it is stored and sent.\<close>

definition wire_json :: "DeviceExecutionWireHandle \<Rightarrow> json" where
  "wire_json w = JObj [(''pnqRootId'', JStr (pnqRootId w)), (''pnqDeviceId'', JStr (pnqDeviceId w)),
     (''pnqRootKind'', JStr (pnqRootKind w)), (''pnqOwnerGeneration'', JNum (pnqOwnerGeneration w)),
     (''pnqOperationKind'', JStr (pnqOperationKind w)), (''pnqOperationId'', JStr (pnqOperationId w))]"

definition handle_json :: "DeviceExecutionHandle \<Rightarrow> json" where
  "handle_json h = wire_json (encodeDeviceExecutionHandle h)"

definition string_member :: "jobj \<Rightarrow> string \<Rightarrow> string option" where
  "string_member o1 k = (case jget o1 k of Some (JStr s) \<Rightarrow> Some s | _ \<Rightarrow> None)"

definition number_member :: "jobj \<Rightarrow> string \<Rightarrow> rat option" where
  "number_member o1 k = (case jget o1 k of Some (JNum n) \<Rightarrow> Some n | _ \<Rightarrow> None)"

definition boolean_field :: "jobj \<Rightarrow> string \<Rightarrow> bool option" where
  "boolean_field o1 k = (case jget o1 k of Some (JBool b) \<Rightarrow> Some b | _ \<Rightarrow> None)"

definition decodeDeviceExecutionHandle :: "json \<Rightarrow> DeviceExecutionHandle option" where
  "decodeDeviceExecutionHandle v =
     (case v of
        JObj o1 \<Rightarrow>
          (case (string_member o1 ''pnqRootId'', string_member o1 ''pnqDeviceId'', string_member o1 ''pnqRootKind'',
                 number_member o1 ''pnqOwnerGeneration'', string_member o1 ''pnqOperationKind'',
                 string_member o1 ''pnqOperationId'') of
             (Some r, Some d, Some k, Some g, Some ok, Some oi) \<Rightarrow>
               Some \<lparr>hd_root = r, hd_device = d, hd_kind = k, hd_generation = g, hd_op_kind = ok, hd_op_id = oi\<rparr>
           | _ \<Rightarrow> None)
      | _ \<Rightarrow> None)"

definition deviceExecutionHandlesEqual :: "DeviceExecutionHandle \<Rightarrow> DeviceExecutionHandle \<Rightarrow> bool" where
  "deviceExecutionHandlesEqual l r \<longleftrightarrow>
     hd_root l = hd_root r \<and> hd_device l = hd_device r \<and> hd_kind l = hd_kind r
     \<and> hd_generation l = hd_generation r \<and> hd_op_kind l = hd_op_kind r \<and> hd_op_id l = hd_op_id r"

lemma handlesEqual_iff [simp]: "deviceExecutionHandlesEqual l r \<longleftrightarrow> l = r"
  by (cases l; cases r) (simp add: deviceExecutionHandlesEqual_def)

section \<open>Rows\<close>

record DeviceExecutionRootRow =
  rt_id :: string
  rt_device :: string
  rt_kind :: string
  rt_external :: "string option"
  rt_request :: "string option"
  rt_state :: string
  rt_fifo :: nat
  rt_generation :: int
  rt_observe :: bool
  rt_metadata :: jobj
  rt_created :: timestamp
  rt_updated :: timestamp
  rt_claimed :: "timestamp option"
  rt_dispatching :: "timestamp option"
  rt_dispatched :: "timestamp option"
  rt_terminal :: "timestamp option"
  rt_reconciliation :: "string option"
  rt_terminal_reason :: "string option"

record DeviceExecutionOperationRow =
  op_row_id :: nat
  op_root :: string
  op_device :: string
  op_root_kind :: string
  op_kind :: string
  op_id :: string
  op_generation :: int
  op_state :: string
  op_lane :: string
  op_wire_type :: "string option"
  op_wire_handle :: DeviceExecutionWireHandle
  op_metadata :: jobj
  op_created :: timestamp
  op_updated :: timestamp
  op_dispatching :: "timestamp option"
  op_dispatched :: "timestamp option"
  op_terminal :: "timestamp option"

record execution_event =
  ev_root :: "string option"
  ev_device :: "string option"
  ev_type :: string
  ev_previous :: "string option"
  ev_new :: "string option"
  ev_actor :: string
  ev_reason :: "string option"
  ev_metadata :: jobj

section \<open>Phases\<close>

definition rootIsTerminal :: "DeviceExecutionRootRow \<Rightarrow> bool" where
  "rootIsTerminal r \<longleftrightarrow> rt_terminal r \<noteq> None"

definition operationIsTerminal :: "DeviceExecutionOperationRow \<Rightarrow> bool" where
  "operationIsTerminal o1 \<longleftrightarrow> op_terminal o1 \<noteq> None"

definition rootIsInitialPhase :: "DeviceExecutionRootRow \<Rightarrow> bool" where
  "rootIsInitialPhase r \<longleftrightarrow> rt_claimed r = None \<and> rt_dispatching r = None \<and> rt_dispatched r = None
     \<and> rt_terminal r = None \<and> rt_reconciliation r = None"

definition rootIsClaimed :: "DeviceExecutionRootRow \<Rightarrow> bool" where
  "rootIsClaimed r \<longleftrightarrow> rt_claimed r \<noteq> None \<and> rt_dispatching r = None \<and> rt_dispatched r = None
     \<and> rt_terminal r = None"

definition rootIsDispatching :: "DeviceExecutionRootRow \<Rightarrow> bool" where
  "rootIsDispatching r \<longleftrightarrow> rt_dispatching r \<noteq> None \<and> rt_dispatched r = None \<and> rt_terminal r = None"

definition rootIsDispatched :: "DeviceExecutionRootRow \<Rightarrow> bool" where
  "rootIsDispatched r \<longleftrightarrow> rt_dispatched r \<noteq> None \<and> rt_terminal r = None"

definition operationIsDispatching :: "DeviceExecutionOperationRow \<Rightarrow> bool" where
  "operationIsDispatching o1 \<longleftrightarrow> op_dispatching o1 \<noteq> None \<and> op_dispatched o1 = None \<and> op_terminal o1 = None"

definition operationIsDispatched :: "DeviceExecutionOperationRow \<Rightarrow> bool" where
  "operationIsDispatched o1 \<longleftrightarrow> op_dispatched o1 \<noteq> None \<and> op_terminal o1 = None"

section \<open>Converters\<close>

record DeviceExecutionRoot =
  xr_id :: string
  xr_device :: string
  xr_kind :: string
  xr_external :: "string option"
  xr_request :: "string option"
  xr_state :: string
  xr_fifo :: nat
  xr_generation :: int
  xr_observe :: bool
  xr_metadata :: jobj
  xr_created :: timestamp
  xr_updated :: timestamp

definition rowToRoot :: "DeviceExecutionRootRow \<Rightarrow> DeviceExecutionRoot" where
  "rowToRoot r = \<lparr>xr_id = rt_id r, xr_device = rt_device r, xr_kind = rt_kind r, xr_external = rt_external r,
     xr_request = rt_request r, xr_state = rt_state r, xr_fifo = rt_fifo r, xr_generation = rt_generation r,
     xr_observe = rt_observe r, xr_metadata = rt_metadata r, xr_created = rt_created r, xr_updated = rt_updated r\<rparr>"

record DeviceExecutionOperation =
  xo_id :: nat
  xo_root :: string
  xo_device :: string
  xo_root_kind :: string
  xo_kind :: string
  xo_op_id :: string
  xo_generation :: int
  xo_state :: string
  xo_lane :: string
  xo_wire_type :: "string option"
  xo_wire_handle :: DeviceExecutionWireHandle
  xo_metadata :: jobj
  xo_created :: timestamp
  xo_updated :: timestamp

definition rowToOperation :: "DeviceExecutionOperationRow \<Rightarrow> DeviceExecutionOperation" where
  "rowToOperation o1 = \<lparr>xo_id = op_row_id o1, xo_root = op_root o1, xo_device = op_device o1,
     xo_root_kind = op_root_kind o1, xo_kind = op_kind o1, xo_op_id = op_id o1,
     xo_generation = op_generation o1, xo_state = op_state o1, xo_lane = op_lane o1,
     xo_wire_type = op_wire_type o1, xo_wire_handle = op_wire_handle o1, xo_metadata = op_metadata o1,
     xo_created = op_created o1, xo_updated = op_updated o1\<rparr>"

definition rootToHandle :: "DeviceExecutionRootRow \<Rightarrow> string \<Rightarrow> string \<Rightarrow> rat \<Rightarrow> DeviceExecutionHandle" where
  "rootToHandle r operationKind operationId ownerGeneration =
     \<lparr>hd_root = rt_id r, hd_device = rt_device r, hd_kind = rt_kind r, hd_generation = ownerGeneration,
      hd_op_kind = operationKind, hd_op_id = operationId\<rparr>"

definition operationRowToHandle :: "DeviceExecutionOperationRow \<Rightarrow> DeviceExecutionHandle" where
  "operationRowToHandle o1 =
     \<lparr>hd_root = op_root o1, hd_device = op_device o1, hd_kind = op_root_kind o1,
      hd_generation = of_int (op_generation o1), hd_op_kind = op_kind o1, hd_op_id = op_id o1\<rparr>"

section \<open>Results\<close>

datatype DeviceExecutionDecision =
    Admitted | Duplicate | Claimed | Dispatched | WouldWait | Offline | Terminal | Ambiguous
  | Rejected | Ignored | Missing

record DeviceExecutionTransitionResult =
  dr_decision :: DeviceExecutionDecision
  dr_root :: "DeviceExecutionRoot option"
  dr_applied :: bool
  dr_handle :: "DeviceExecutionHandle option"
  dr_operation :: "DeviceExecutionOperation option"
  dr_active_root :: "string option"
  dr_reason :: "string option"

definition answer :: "DeviceExecutionDecision \<Rightarrow> DeviceExecutionRootRow option \<Rightarrow> DeviceExecutionTransitionResult" where
  "answer d r = \<lparr>dr_decision = d, dr_root = map_option rowToRoot r, dr_applied = False, dr_handle = None,
     dr_operation = None, dr_active_root = None, dr_reason = None\<rparr>"

definition isDeviceExecutionResultTerminal :: "DeviceExecutionTransitionResult \<Rightarrow> bool" where
  "isDeviceExecutionResultTerminal r \<longleftrightarrow> dr_applied r"

section \<open>Policies\<close>

record DeviceExecutionBoundaryPolicy =
  bp_root_kind :: string
  bp_op_kind :: string
  bp_retains_root :: bool
  bp_requires_root :: bool
  bp_lane :: string
  bp_bypass :: bool

definition getDeviceExecutionBoundaryPolicy :: "lc_db \<Rightarrow> string \<Rightarrow> DeviceExecutionBoundaryPolicy res" where
  "getDeviceExecutionBoundaryPolicy db boundary =
     res_bind (getResourceLifecyclePolicy db ''device_execution_roots'' ''state'') (\<lambda>policy.
     (case jget policy ''boundaries'' of
        Some (JObj boundaries) \<Rightarrow>
          (case jget boundaries boundary of
             Some (JObj value) \<Rightarrow>
               (case (string_member value ''rootKind'', string_member value ''operationKind'',
                      boolean_field value ''retainsRootUntilTerminal'', boolean_field value ''requiresExistingRootHandle'',
                      string_member value ''egressLane'', boolean_field value ''mayBypassDeviceQueue'') of
                  (Some rk, Some ok, Some rt, Some rq, Some lane, Some byp) \<Rightarrow>
                    Inr \<lparr>bp_root_kind = rk, bp_op_kind = ok, bp_retains_root = rt, bp_requires_root = rq,
                         bp_lane = lane, bp_bypass = byp\<rparr>
                | _ \<Rightarrow> Inl (''device execution boundary policy is invalid: '' @ boundary))
           | _ \<Rightarrow> Inl (''device execution boundary is not configured: '' @ boundary))
      | _ \<Rightarrow> Inl ''device execution boundary policy is not configured''))"

record root_kind_policy =
  kp_op_kind :: string
  kp_wire_type :: "string option"

definition getDeviceExecutionRootKindPolicy :: "lc_db \<Rightarrow> string \<Rightarrow> root_kind_policy res" where
  "getDeviceExecutionRootKindPolicy db rootKind =
     res_bind (getResourceLifecyclePolicy db ''device_execution_roots'' ''state'') (\<lambda>policy.
     (case jget policy ''rootKinds'' of
        Some (JObj rootKinds) \<Rightarrow>
          (case jget rootKinds rootKind of
             Some (JArr _) \<Rightarrow> Inl (''device execution root-kind policy is ambiguous: '' @ rootKind)
           | Some (JObj value) \<Rightarrow>
               (case (string_member value ''operationKind'', jget value ''wireType'') of
                  (Some ok, Some (JStr w)) \<Rightarrow> Inr \<lparr>kp_op_kind = ok, kp_wire_type = Some w\<rparr>
                | (Some ok, Some JNull) \<Rightarrow> Inr \<lparr>kp_op_kind = ok, kp_wire_type = None\<rparr>
                | _ \<Rightarrow> Inl (''device execution root-kind policy is invalid: '' @ rootKind))
           | _ \<Rightarrow> Inl (''device execution root kind is not configured: '' @ rootKind))
      | _ \<Rightarrow> Inl ''device execution root-kind policy is not configured''))"

end
