(* ===== verification/Arbiter_Store.thy ===== *)
theory Arbiter_Store imports Arbiter_Data
begin

text \<open>
  The statements of the device execution arbiter on its tables. A transaction is a
  function on the database that either fails (the exception rolls it back) or answers
  with the database it leaves; \<open>now\<close> is the transaction's \<^verbatim>\<open>NOW()\<close>. The initial-state
  trigger of migration 111 acts on inserts; updates write statuses of the bound lifecycle
  only, on which it is the identity.
\<close>

section \<open>Transactions\<close>

record arb_db =
  ad_lc :: lc_db
  ad_roots :: "DeviceExecutionRootRow list"
  ad_ops :: "DeviceExecutionOperationRow list"
  ad_events :: "execution_event list"
  ad_workflows :: "workflow_row list"
  ad_next_fifo :: nat
  ad_next_op :: nat

type_synonym 'a tx = "arb_db \<Rightarrow> ('a \<times> arb_db) res"

definition tx_return :: "'a \<Rightarrow> 'a tx" where
  "tx_return x = (\<lambda>db. Inr (x, db))"

definition tx_fail :: "string \<Rightarrow> 'a tx" where
  "tx_fail e = (\<lambda>db. Inl e)"

definition tx_bind :: "'a tx \<Rightarrow> ('a \<Rightarrow> 'b tx) \<Rightarrow> 'b tx" where
  "tx_bind m f = (\<lambda>db. case m db of Inl e \<Rightarrow> Inl e | Inr (x, db') \<Rightarrow> f x db')"

definition tx_get :: "(arb_db \<Rightarrow> 'a) \<Rightarrow> 'a tx" where
  "tx_get f = (\<lambda>db. Inr (f db, db))"

text \<open>A query that may throw.\<close>

definition tx_try :: "(arb_db \<Rightarrow> 'a res) \<Rightarrow> 'a tx" where
  "tx_try f = (\<lambda>db. case f db of Inl e \<Rightarrow> Inl e | Inr x \<Rightarrow> Inr (x, db))"

definition tx_lift :: "'a res \<Rightarrow> 'a tx" where
  "tx_lift r = (case r of Inl e \<Rightarrow> tx_fail e | Inr x \<Rightarrow> tx_return x)"

definition withTransaction :: "'a tx \<Rightarrow> arb_db \<Rightarrow> 'a res \<times> arb_db" where
  "withTransaction m db = (case m db of Inl e \<Rightarrow> (Inl e, db) | Inr (x, db') \<Rightarrow> (Inr x, db'))"

section \<open>Lifecycle functions of the database\<close>

definition root_matches :: "lc_db \<Rightarrow> string \<Rightarrow> LifecycleStateSelector \<Rightarrow> bool" where
  "root_matches lc state sel = resourceLifecycleStateMatches lc ''device_execution_roots'' state sel ''state''"

definition op_matches :: "lc_db \<Rightarrow> string \<Rightarrow> LifecycleStateSelector \<Rightarrow> bool" where
  "op_matches lc state sel = resourceLifecycleStateMatches lc ''device_execution_operations'' state sel ''state''"

definition initial_selector :: LifecycleStateSelector where
  "initial_selector = any_state\<lparr>sel_initial := Some True\<rparr>"

definition terminal_selector :: LifecycleStateSelector where
  "terminal_selector = any_state\<lparr>sel_terminal := Some True\<rparr>"

definition active_selector :: LifecycleStateSelector where
  "active_selector = any_state\<lparr>sel_initial := Some False, sel_terminal := Some False\<rparr>"

text \<open>\<^verbatim>\<open>lifecycle_transition_target\<close> of migration 110.\<close>

definition lifecycle_transition_target ::
  "lc_db \<Rightarrow> string \<Rightarrow> string \<Rightarrow> LifecycleTransitionSelector \<Rightarrow> string option res" where
  "lifecycle_transition_target lc table from1 sel =
     (let targets = map (\<lambda>(t, s). ls_status s)
        (filter (\<lambda>(t, s). lifecycleTransitionSelectorPredicate lc sel t s) (resource_outgoing lc table from1 ''state''))
      in case targets of
           [] \<Rightarrow> Inr None
         | [s] \<Rightarrow> Inr (Some s)
         | _ \<Rightarrow> Inl ''lifecycle transition selector is ambiguous for configured resource'')"

definition cancel_selector :: LifecycleTransitionSelector where
  "cancel_selector = any_selector\<lparr>targetTerminal := Some True, transitionManualAllowed := Some True,
     transitionMarkCompleted := Some True\<rparr>"

text \<open>The state the insert trigger gives a row: the initial state, or a checked one.\<close>

definition initial_status :: "lc_db \<Rightarrow> string \<Rightarrow> string res" where
  "initial_status lc table =
     (case getResourceLifecycleKey lc table ''state'' of
        None \<Rightarrow> Inl ''resource table has no lifecycle binding configured''
      | Some k \<Rightarrow>
          (case first_row (sort_key state_order (filter (\<lambda>s. ls_key s = k \<and> ls_initial s) (db_states lc))) of
             None \<Rightarrow> Inl ''bound lifecycle has no initial state configured''
           | Some s \<Rightarrow> Inr (ls_status s)))"

definition insert_status :: "lc_db \<Rightarrow> string \<Rightarrow> string option \<Rightarrow> string res" where
  "insert_status lc table wanted =
     (case wanted of
        Some s \<Rightarrow>
          if sql_btrim s = [] then initial_status lc table
          else if getResourceLifecycleState lc table s ''state'' = None
          then Inl ''resource state is absent from its configured lifecycle''
          else Inr s
      | None \<Rightarrow> initial_status lc table)"

section \<open>Queries\<close>

definition selectRootByExternalId :: "string \<Rightarrow> string \<Rightarrow> arb_db \<Rightarrow> DeviceExecutionRootRow option" where
  "selectRootByExternalId kind external db =
     find (\<lambda>r. rt_kind r = kind \<and> rt_external r = Some external) (ad_roots db)"

definition root_by_id :: "string \<Rightarrow> arb_db \<Rightarrow> DeviceExecutionRootRow option" where
  "root_by_id i db = find (\<lambda>r. rt_id r = i) (ad_roots db)"

text \<open>An empty string counts as absent.\<close>

definition nonempty :: "string option \<Rightarrow> string option" where
  "nonempty v = (case v of Some s \<Rightarrow> if s = [] then None else Some s | None \<Rightarrow> None)"

definition selectRoot :: "string option \<Rightarrow> string option \<Rightarrow> string option \<Rightarrow> arb_db \<Rightarrow> DeviceExecutionRootRow option" where
  "selectRoot rootId rootKind externalId db =
     (case nonempty rootId of
        Some i \<Rightarrow> root_by_id i db
      | None \<Rightarrow>
          (case (nonempty externalId, nonempty rootKind) of
             (Some e, Some k) \<Rightarrow> selectRootByExternalId k e db
           | _ \<Rightarrow> None))"

definition selectOperationByIdentity :: "string \<Rightarrow> string \<Rightarrow> arb_db \<Rightarrow> DeviceExecutionOperationRow option" where
  "selectOperationByIdentity kind i db = find (\<lambda>o1. op_kind o1 = kind \<and> op_id o1 = i) (ad_ops db)"

definition selectActiveRoot :: "string \<Rightarrow> arb_db \<Rightarrow> DeviceExecutionRootRow option" where
  "selectActiveRoot device db =
     first_row (sort_key (\<lambda>r. - int (rt_updated r))
       (filter (\<lambda>r. rt_device r = device \<and> root_matches (ad_lc db) (rt_state r) active_selector) (ad_roots db)))"

definition selectOldestQueuedRoot :: "(DeviceExecutionRootRow \<Rightarrow> bool) \<Rightarrow> string \<Rightarrow> arb_db \<Rightarrow> DeviceExecutionRootRow option" where
  "selectOldestQueuedRoot unlocked device db =
     first_row (sort_key rt_fifo
       (filter (\<lambda>r. rt_device r = device \<and> root_matches (ad_lc db) (rt_state r) initial_selector \<and> unlocked r)
         (ad_roots db)))"

section \<open>Inserts\<close>

definition observe_policy :: "lc_db \<Rightarrow> bool option" where
  "observe_policy lc =
     first_row (concat (map (\<lambda>p. case lp_policy p of
         JObj o1 \<Rightarrow> (case boolean_field o1 ''observeMode'' of Some b \<Rightarrow> [b] | None \<Rightarrow> [])
       | _ \<Rightarrow> []) (policy_rows lc ''device_execution_roots'' ''state'')))"

text \<open>\<open>newId\<close> is the generated uuid; the key and the external index are unique.\<close>

definition insertRoot :: "timestamp \<Rightarrow> string \<Rightarrow> string \<Rightarrow> string \<Rightarrow> string option \<Rightarrow> string option \<Rightarrow> jobj
    \<Rightarrow> DeviceExecutionRootRow tx" where
  "insertRoot now newId device kind external request metadata db =
     (case observe_policy (ad_lc db) of
        None \<Rightarrow> Inl ''device execution root operational policy is not configured''
      | Some observe \<Rightarrow>
          (case initial_status (ad_lc db) ''device_execution_roots'' of
             Inl e \<Rightarrow> Inl e
           | Inr state \<Rightarrow>
               if newId \<in> rt_id ` set (ad_roots db)
                  \<or> (external \<noteq> None \<and> (kind, external) \<in> (\<lambda>r. (rt_kind r, rt_external r)) ` set (ad_roots db))
               then Inl ''duplicate key value violates unique constraint''
               else let row = \<lparr>rt_id = newId, rt_device = device, rt_kind = kind, rt_external = external,
                      rt_request = request, rt_state = state, rt_fifo = ad_next_fifo db, rt_generation = 0,
                      rt_observe = observe, rt_metadata = metadata, rt_created = now, rt_updated = now,
                      rt_claimed = None, rt_dispatching = None, rt_dispatched = None, rt_terminal = None,
                      rt_reconciliation = None, rt_terminal_reason = None\<rparr>
                    in Inr (row, db\<lparr>ad_roots := ad_roots db @ [row], ad_next_fifo := ad_next_fifo db + 1\<rparr>)))"

record event_input =
  ei_root :: "string option"
  ei_device :: "string option"
  ei_type :: string
  ei_previous :: "string option"
  ei_new :: "string option"
  ei_actor :: "string option"
  ei_reason :: "string option"
  ei_metadata :: jobj

definition insertEvent :: "event_input \<Rightarrow> unit tx" where
  "insertEvent e db = Inr ((), db\<lparr>ad_events := ad_events db @
     [\<lparr>ev_root = ei_root e, ev_device = ei_device e, ev_type = ei_type e, ev_previous = ei_previous e,
       ev_new = ei_new e, ev_actor = odefault (ei_actor e) ''server'', ev_reason = ei_reason e,
       ev_metadata = ei_metadata e\<rparr>]\<rparr>)"

text \<open>The conflict branch of the operation upsert; \<open>new\<close> is \<^verbatim>\<open>EXCLUDED\<close>.\<close>

definition merge_operation :: "lc_db \<Rightarrow> timestamp \<Rightarrow> DeviceExecutionOperationRow \<Rightarrow> DeviceExecutionOperationRow
    \<Rightarrow> DeviceExecutionOperationRow" where
  "merge_operation lc now new o1 =
     (let initial = op_matches lc (op_state o1) initial_selector in
      o1\<lparr>op_generation := (if initial then op_generation new else op_generation o1),
         op_state := (if initial then op_state new else op_state o1),
         op_lane := op_lane new,
         op_wire_type := coalesce (op_wire_type new) (op_wire_type o1),
         op_wire_handle := (if initial then op_wire_handle new else op_wire_handle o1),
         op_metadata := (if jhas (op_metadata o1) ''dispatchEnvelope''
            then jmerge (op_metadata o1) (jdel ''dispatchEnvelope'' (op_metadata new))
            else jmerge (op_metadata o1) (op_metadata new)),
         op_updated := now\<rparr>)"

definition new_operation :: "arb_db \<Rightarrow> timestamp \<Rightarrow> DeviceExecutionRootRow \<Rightarrow> string \<Rightarrow> string \<Rightarrow> string \<Rightarrow> string
    \<Rightarrow> string option \<Rightarrow> jobj \<Rightarrow> DeviceExecutionOperationRow" where
  "new_operation db now r kind i state lane wireType metadata =
     \<lparr>op_row_id = ad_next_op db, op_root = rt_id r, op_device = rt_device r,
      op_root_kind = rt_kind r, op_kind = kind, op_id = i, op_generation = rt_generation r,
      op_state = state, op_lane = lane, op_wire_type = wireType,
      op_wire_handle = encodeDeviceExecutionHandle (rootToHandle r kind i (of_int (rt_generation r))),
      op_metadata = metadata, op_created = now, op_updated = now, op_dispatching = None,
      op_dispatched = None, op_terminal = None\<rparr>"

definition upsertOperation :: "timestamp \<Rightarrow> DeviceExecutionRootRow \<Rightarrow> string \<Rightarrow> string \<Rightarrow> string option \<Rightarrow> string
    \<Rightarrow> string option \<Rightarrow> jobj \<Rightarrow> DeviceExecutionOperationRow tx" where
  "upsertOperation now r kind i target lane wireType metadata db =
     (case insert_status (ad_lc db) ''device_execution_operations'' target of
        Inl e \<Rightarrow> Inl e
      | Inr state \<Rightarrow>
          (let new = new_operation db now r kind i state lane wireType metadata;
               db' = db\<lparr>ad_next_op := ad_next_op db + 1\<rparr>
           in case selectOperationByIdentity kind i db of
                None \<Rightarrow> Inr (new, db'\<lparr>ad_ops := ad_ops db @ [new]\<rparr>)
              | Some o1 \<Rightarrow>
                  if op_root o1 = rt_id r
                  then Inr (merge_operation (ad_lc db) now new o1,
                            db'\<lparr>ad_ops := update_where (\<lambda>x. op_kind x = kind \<and> op_id x = i)
                              (merge_operation (ad_lc db) now new) (ad_ops db)\<rparr>)
                  else Inr (o1, db')))"

section \<open>Updates of roots\<close>

text \<open>\<^verbatim>\<open>UPDATE ... WHERE p RETURNING *\<close> of at most one row.\<close>

definition update_roots :: "(DeviceExecutionRootRow \<Rightarrow> bool) \<Rightarrow> (DeviceExecutionRootRow \<Rightarrow> DeviceExecutionRootRow)
    \<Rightarrow> DeviceExecutionRootRow option tx" where
  "update_roots p f db =
     Inr (map_option f (find p (ad_roots db)), db\<lparr>ad_roots := update_where p f (ad_roots db)\<rparr>)"

definition advance_root :: "timestamp \<Rightarrow> string \<Rightarrow> bool \<Rightarrow> bool \<Rightarrow> bool \<Rightarrow> jobj
    \<Rightarrow> DeviceExecutionRootRow \<Rightarrow> DeviceExecutionRootRow" where
  "advance_root now toState increment marksStarted dispatchable metadata r = r\<lparr>
     rt_state := toState,
     rt_generation := rt_generation r + (if increment then 1 else 0),
     rt_claimed := coalesce (rt_claimed r) (Some now),
     rt_dispatching := (if rt_claimed r \<noteq> None \<or> \<not> marksStarted
        then coalesce (rt_dispatching r) (Some now) else rt_dispatching r),
     rt_dispatched := (if rt_dispatching r \<noteq> None \<or> dispatchable
        then coalesce (rt_dispatched r) (Some now) else rt_dispatched r),
     rt_updated := now,
     rt_metadata := jmerge (rt_metadata r) metadata\<rparr>"

definition updateRootState :: "timestamp \<Rightarrow> string \<Rightarrow> string list \<Rightarrow> string \<Rightarrow> bool \<Rightarrow> bool \<Rightarrow> bool \<Rightarrow> jobj
    \<Rightarrow> DeviceExecutionRootRow option tx" where
  "updateRootState now rootId fromStates toState increment marksStarted dispatchable metadata =
     update_roots (\<lambda>r. rt_id r = rootId \<and> rt_state r \<in> set fromStates)
       (advance_root now toState increment marksStarted dispatchable metadata)"

definition transitionRootState :: "timestamp \<Rightarrow> string \<Rightarrow> LifecycleTransitionSelector \<Rightarrow> bool \<Rightarrow> jobj
    \<Rightarrow> DeviceExecutionRootRow option tx" where
  "transitionRootState now rootId sel increment metadata =
     tx_bind (tx_get (selectRoot (Some rootId) None None)) (\<lambda>current.
     (case current of
        None \<Rightarrow> tx_return None
      | Some cur \<Rightarrow>
          tx_bind (tx_try (\<lambda>db. selectResourceLifecycleTransition (ad_lc db) ''device_execution_roots'' (rt_state cur) sel ''state''))
          (\<lambda>transition.
          (case transition of
             None \<Rightarrow> tx_return None
           | Some t \<Rightarrow>
               tx_bind (tx_get (\<lambda>db. getResourceLifecycleState (ad_lc db) ''device_execution_roots'' (lt_to t) ''state''))
               (\<lambda>target.
               (case target of
                  None \<Rightarrow> tx_fail ''Device execution root target state is not configured''
                | Some s \<Rightarrow> updateRootState now rootId [rt_state cur] (lt_to t) increment
                    (lt_mark_started t) (ls_dispatchable s) metadata))))))"

definition finish_root :: "timestamp \<Rightarrow> string \<Rightarrow> string \<Rightarrow> jobj \<Rightarrow> DeviceExecutionRootRow \<Rightarrow> DeviceExecutionRootRow" where
  "finish_root now toState reason metadata r = r\<lparr>rt_state := toState, rt_terminal_reason := Some reason,
     rt_terminal := Some now, rt_updated := now, rt_metadata := jmerge (rt_metadata r) metadata\<rparr>"

definition updateRootTerminal :: "timestamp \<Rightarrow> string \<Rightarrow> string \<Rightarrow> int \<Rightarrow> string \<Rightarrow> string \<Rightarrow> jobj
    \<Rightarrow> DeviceExecutionRootRow option tx" where
  "updateRootTerminal now rootId device generation toState reason metadata db =
     update_roots (\<lambda>r. rt_id r = rootId \<and> rt_device r = device \<and> rt_generation r = generation
         \<and> \<not> root_matches (ad_lc db) (rt_state r) terminal_selector)
       (finish_root now toState reason metadata) db"

text \<open>The queued-state compare-and-set; an ambiguous cancellation target raises.\<close>

definition updateQueuedRootTerminal :: "timestamp \<Rightarrow> string \<Rightarrow> string \<Rightarrow> int \<Rightarrow> string \<Rightarrow> jobj
    \<Rightarrow> DeviceExecutionRootRow option tx" where
  "updateQueuedRootTerminal now rootId device generation reason metadata db =
     (case find (\<lambda>r. rt_id r = rootId \<and> rt_device r = device \<and> rt_generation r = generation
         \<and> root_matches (ad_lc db) (rt_state r) initial_selector) (ad_roots db) of
        None \<Rightarrow> Inr (None, db)
      | Some r \<Rightarrow>
          (case lifecycle_transition_target (ad_lc db) ''device_execution_roots'' (rt_state r) cancel_selector of
             Inl e \<Rightarrow> Inl e
           | Inr None \<Rightarrow> Inr (None, db)
           | Inr (Some toState) \<Rightarrow>
               update_roots (\<lambda>x. rt_id x = rootId \<and> rt_device x = device \<and> rt_generation x = generation
                   \<and> root_matches (ad_lc db) (rt_state x) initial_selector)
                 (finish_root now toState reason metadata) db))"

definition mark_ambiguous :: "timestamp \<Rightarrow> string \<Rightarrow> string \<Rightarrow> jobj \<Rightarrow> DeviceExecutionRootRow \<Rightarrow> DeviceExecutionRootRow" where
  "mark_ambiguous now to1 reason m r = r\<lparr>rt_state := to1, rt_reconciliation := Some reason, rt_updated := now,
     rt_metadata := jmerge (rt_metadata r) m\<rparr>"

definition updateRootAmbiguous :: "timestamp \<Rightarrow> string \<Rightarrow> string \<Rightarrow> int \<Rightarrow> LifecycleTransitionSelector \<Rightarrow> string \<Rightarrow> jobj
    \<Rightarrow> DeviceExecutionRootRow option tx" where
  "updateRootAmbiguous now rootId device generation sel reason metadata =
     tx_bind (tx_get (selectRoot (Some rootId) None None)) (\<lambda>current.
     (case current of
        None \<Rightarrow> tx_return None
      | Some cur \<Rightarrow>
          if rt_device cur \<noteq> device \<or> rt_generation cur \<noteq> generation then tx_return None
          else tx_bind (tx_try (\<lambda>db. selectResourceLifecycleTransition (ad_lc db) ''device_execution_roots'' (rt_state cur) sel ''state''))
          (\<lambda>transition.
          (case transition of
             None \<Rightarrow> tx_return None
           | Some t \<Rightarrow> (\<lambda>db. update_roots
               (\<lambda>r. rt_id r = rootId \<and> rt_device r = device \<and> rt_generation r = generation
                  \<and> \<not> root_matches (ad_lc db) (rt_state r) terminal_selector)
               (mark_ambiguous now (lt_to t) reason metadata) db)))))"

section \<open>Updates of operations\<close>

definition advance_operation :: "timestamp \<Rightarrow> string \<Rightarrow> int option \<Rightarrow> DeviceExecutionWireHandle option \<Rightarrow> bool \<Rightarrow> bool
    \<Rightarrow> jobj \<Rightarrow> DeviceExecutionOperationRow \<Rightarrow> DeviceExecutionOperationRow" where
  "advance_operation now toState generation wireHandle terminal dispatchable metadata o1 = o1\<lparr>
     op_state := toState,
     op_generation := odefault generation (op_generation o1),
     op_updated := now,
     op_metadata := jmerge (op_metadata o1) metadata,
     op_wire_handle := odefault wireHandle (op_wire_handle o1),
     op_dispatching := (if \<not> terminal then coalesce (op_dispatching o1) (Some now) else op_dispatching o1),
     op_dispatched := (if \<not> terminal \<and> (op_dispatching o1 \<noteq> None \<or> dispatchable)
        then coalesce (op_dispatched o1) (Some now) else op_dispatched o1),
     op_terminal := (if terminal then Some now else op_terminal o1)\<rparr>"

definition updateOperationState :: "timestamp \<Rightarrow> string \<Rightarrow> string \<Rightarrow> string list \<Rightarrow> string \<Rightarrow> int option
    \<Rightarrow> DeviceExecutionWireHandle option \<Rightarrow> jobj \<Rightarrow> DeviceExecutionOperationRow option tx" where
  "updateOperationState now kind i fromStates toState generation wireHandle metadata db =
     (case getResourceLifecycleState (ad_lc db) ''device_execution_operations'' toState ''state'' of
        None \<Rightarrow> Inl ''Device execution operation target state is not configured''
      | Some target \<Rightarrow>
          (let p = (\<lambda>o1. op_kind o1 = kind \<and> op_id o1 = i \<and> op_state o1 \<in> set fromStates);
               f = advance_operation now toState generation wireHandle (ls_terminal target) (ls_dispatchable target) metadata
           in Inr (map_option f (find p (ad_ops db)), db\<lparr>ad_ops := update_where p f (ad_ops db)\<rparr>)))"

definition transitionOperationState :: "timestamp \<Rightarrow> string \<Rightarrow> string \<Rightarrow> LifecycleTransitionSelector \<Rightarrow> int option
    \<Rightarrow> DeviceExecutionWireHandle option \<Rightarrow> jobj \<Rightarrow> DeviceExecutionOperationRow option tx" where
  "transitionOperationState now kind i sel generation wireHandle metadata =
     tx_bind (tx_get (selectOperationByIdentity kind i)) (\<lambda>current.
     (case current of
        None \<Rightarrow> tx_return None
      | Some cur \<Rightarrow>
          tx_bind (tx_try (\<lambda>db. selectResourceLifecycleTransition (ad_lc db) ''device_execution_operations'' (op_state cur) sel ''state''))
          (\<lambda>transition.
          (case transition of
             None \<Rightarrow> tx_return None
           | Some t \<Rightarrow> updateOperationState now kind i [op_state cur] (lt_to t) generation wireHandle metadata))))"

text \<open>Every registered operation of the root with a cancellation target is cancelled.\<close>

definition cancel_target :: "lc_db \<Rightarrow> string \<Rightarrow> DeviceExecutionOperationRow \<Rightarrow> string option res" where
  "cancel_target lc rootId o1 =
     (if op_root o1 = rootId \<and> op_matches lc (op_state o1) initial_selector
      then lifecycle_transition_target lc ''device_execution_operations'' (op_state o1) cancel_selector
      else Inr None)"

definition cancel_operation :: "timestamp \<Rightarrow> int \<Rightarrow> jobj \<Rightarrow> string \<Rightarrow> DeviceExecutionOperationRow \<Rightarrow> DeviceExecutionOperationRow" where
  "cancel_operation now generation metadata toState o1 = o1\<lparr>op_state := toState, op_generation := generation,
     op_terminal := Some now, op_updated := now, op_metadata := jmerge (op_metadata o1) metadata\<rparr>"

definition cancelRegisteredOperationsForRoot :: "timestamp \<Rightarrow> string \<Rightarrow> int \<Rightarrow> jobj
    \<Rightarrow> DeviceExecutionOperationRow list tx" where
  "cancelRegisteredOperationsForRoot now rootId generation metadata db =
     (if list_ex (\<lambda>o1. case cancel_target (ad_lc db) rootId o1 of Inl _ \<Rightarrow> True | Inr _ \<Rightarrow> False) (ad_ops db)
      then Inl ''lifecycle transition selector is ambiguous for configured resource''
      else let target = (\<lambda>o1. case cancel_target (ad_lc db) rootId o1 of Inr t \<Rightarrow> t | Inl _ \<Rightarrow> None) in
        Inr (concat (map (\<lambda>o1. case target o1 of None \<Rightarrow> [] | Some s \<Rightarrow> [cancel_operation now generation metadata s o1]) (ad_ops db)),
             db\<lparr>ad_ops := map (\<lambda>o1. case target o1 of None \<Rightarrow> o1 | Some s \<Rightarrow> cancel_operation now generation metadata s o1)
               (ad_ops db)\<rparr>))"

end
