(* ===== verification/Arbiter_Dispatch.thy ===== *)
theory Arbiter_Dispatch imports Arbiter_Store
begin

text \<open>
  Admission, dispatch observation and claiming of device execution roots:
  \<^verbatim>\<open>observeAdmission\<close>, \<^verbatim>\<open>observeDispatch\<close> and \<^verbatim>\<open>claimNextRoot\<close> of
  \<^verbatim>\<open>device-execution-arbiter.ts\<close>. Each handler is one transaction; \<open>newId\<close> is the uuid the
  database would generate for an inserted root.
\<close>

definition member_metadata :: "jobj option \<Rightarrow> jobj" where
  "member_metadata m = odefault m []"

text \<open>An event about a root that stays in its state.\<close>

definition note_event :: "DeviceExecutionRootRow \<Rightarrow> string \<Rightarrow> string \<Rightarrow> string \<Rightarrow> string option \<Rightarrow> jobj \<Rightarrow> unit tx" where
  "note_event r device type actor reason metadata =
     insertEvent \<lparr>ei_root = Some (rt_id r), ei_device = Some device, ei_type = type,
       ei_previous = Some (rt_state r), ei_new = Some (rt_state r), ei_actor = Some actor,
       ei_reason = reason, ei_metadata = metadata\<rparr>"

text \<open>An event about a root that moved to the state of \<open>r'\<close>.\<close>

definition move_event :: "DeviceExecutionRootRow \<Rightarrow> DeviceExecutionRootRow \<Rightarrow> string \<Rightarrow> string \<Rightarrow> string option \<Rightarrow> jobj \<Rightarrow> unit tx" where
  "move_event r r' type actor reason metadata =
     insertEvent \<lparr>ei_root = Some (rt_id r'), ei_device = Some (rt_device r'), ei_type = type,
       ei_previous = Some (rt_state r), ei_new = Some (rt_state r'), ei_actor = Some actor,
       ei_reason = reason, ei_metadata = metadata\<rparr>"

text \<open>An event of a root that was just inserted: no previous state.\<close>

definition birth_event :: "DeviceExecutionRootRow \<Rightarrow> string \<Rightarrow> string \<Rightarrow> string option \<Rightarrow> jobj \<Rightarrow> unit tx" where
  "birth_event r type actor reason metadata =
     insertEvent \<lparr>ei_root = Some (rt_id r), ei_device = Some (rt_device r), ei_type = type,
       ei_previous = None, ei_new = Some (rt_state r), ei_actor = Some actor,
       ei_reason = reason, ei_metadata = metadata\<rparr>"

text \<open>An event without a root.\<close>

definition device_event :: "string \<Rightarrow> string \<Rightarrow> string \<Rightarrow> string option \<Rightarrow> jobj \<Rightarrow> unit tx" where
  "device_event device type actor reason metadata =
     insertEvent \<lparr>ei_root = None, ei_device = Some device, ei_type = type, ei_previous = None, ei_new = None,
       ei_actor = Some actor, ei_reason = reason, ei_metadata = metadata\<rparr>"

text \<open>The answer with an operation and its handle.\<close>

definition answer_op :: "DeviceExecutionDecision \<Rightarrow> DeviceExecutionRootRow \<Rightarrow> DeviceExecutionOperationRow
    \<Rightarrow> string option \<Rightarrow> DeviceExecutionTransitionResult" where
  "answer_op d r o1 reason = (answer d (Some r))\<lparr>dr_operation := Some (rowToOperation o1),
     dr_handle := Some (operationRowToHandle o1), dr_reason := reason\<rparr>"

section \<open>Admission\<close>

record admission_input =
  ai_device :: string
  ai_kind :: "string option"
  ai_external :: "string option"
  ai_request :: "string option"
  ai_actor :: "string option"
  ai_metadata :: "jobj option"

definition admit_duplicate :: "timestamp \<Rightarrow> admission_input \<Rightarrow> root_kind_policy \<Rightarrow> string
    \<Rightarrow> DeviceExecutionRootRow \<Rightarrow> DeviceExecutionTransitionResult tx" where
  "admit_duplicate now i kp external existing =
     tx_bind (upsertOperation now existing (kp_op_kind kp) external None ''device_execution'' None
       (jwith [] [(''externalId'', jstr external), (''requestKey'', jostr (ai_request i)), (''duplicate'', Some (JBool True))]))
     (\<lambda>operation.
     tx_bind (note_event existing (rt_device existing) ''duplicate_admission'' (odefault (ai_actor i) ''server'')
       (Some ''external_id_already_recorded'')
       (jwith [] [(''externalId'', jstr external), (''requestKey'', jostr (ai_request i))]))
     (\<lambda>_. tx_return (answer_op Duplicate existing operation (Some ''external_id_already_recorded''))))"

definition admitted_answer :: "DeviceExecutionRootRow option \<Rightarrow> DeviceExecutionRootRow
    \<Rightarrow> DeviceExecutionOperationRow option \<Rightarrow> DeviceExecutionTransitionResult" where
  "admitted_answer active r operation =
     (answer (if active = None then Admitted else WouldWait) (Some r))
       \<lparr>dr_operation := map_option rowToOperation operation,
        dr_handle := map_option operationRowToHandle operation,
        dr_active_root := map_option rt_id active\<rparr>"

definition admit_new :: "timestamp \<Rightarrow> string \<Rightarrow> admission_input \<Rightarrow> string \<Rightarrow> root_kind_policy
    \<Rightarrow> DeviceExecutionTransitionResult tx" where
  "admit_new now newId i kind kp =
     tx_bind (tx_get (selectActiveRoot (ai_device i))) (\<lambda>active.
     tx_bind (insertRoot now newId (ai_device i) kind (ai_external i) (coalesce (ai_request i) (ai_external i))
       (jwith (member_metadata (ai_metadata i))
         [(''observeMode'', Some (JBool True)), (''wouldWaitForRootId'', Some (jnullable (map_option rt_id active)))]))
     (\<lambda>r.
     tx_bind (birth_event r ''root_admitted'' (odefault (ai_actor i) ''server'') None
       (jwith [] [(''rootKind'', jstr kind), (''externalId'', jostr (ai_external i)), (''requestKey'', jostr (ai_request i))]))
     (\<lambda>_.
     tx_bind (case nonempty (ai_external i) of
         None \<Rightarrow> tx_return None
       | Some external \<Rightarrow> tx_bind (upsertOperation now r (kp_op_kind kp) external None ''device_execution'' None
           (jwith [] [(''rootKind'', jstr kind), (''externalId'', jstr external), (''requestKey'', jostr (ai_request i))]))
           (\<lambda>o1. tx_return (Some o1)))
     (\<lambda>operation.
     tx_bind (case active of
         None \<Rightarrow> tx_return ()
       | Some a \<Rightarrow> note_event r (rt_device r) ''observe_would_wait'' (odefault (ai_actor i) ''server'')
           (Some ''device_slot_already_active'')
           (jwith [] [(''activeRootId'', jstr (rt_id a)), (''activeState'', jstr (rt_state a))]))
     (\<lambda>_. tx_return (admitted_answer active r operation))))))"

definition observeAdmission :: "timestamp \<Rightarrow> string \<Rightarrow> admission_input \<Rightarrow> DeviceExecutionTransitionResult tx" where
  "observeAdmission now newId i =
     (let kind = odefault (ai_kind i) ''job'' in
      tx_bind (tx_try (\<lambda>db. getDeviceExecutionRootKindPolicy (ad_lc db) kind)) (\<lambda>kp.
      (case nonempty (ai_external i) of
         None \<Rightarrow> admit_new now newId i kind kp
       | Some external \<Rightarrow>
           tx_bind (tx_get (selectRootByExternalId kind external)) (\<lambda>existing.
           (case existing of
              Some r \<Rightarrow> admit_duplicate now i kp external r
            | None \<Rightarrow> admit_new now newId i kind kp)))))"

section \<open>Dispatch\<close>

record dispatch_input =
  di_device :: string
  di_kind :: "string option"
  di_external :: string
  di_request :: "string option"
  di_sent :: bool
  di_actor :: "string option"
  di_metadata :: "jobj option"

definition di_by :: "dispatch_input \<Rightarrow> string" where
  "di_by i = odefault (di_actor i) ''transport''"

definition dispatch_selector :: LifecycleTransitionSelector where
  "dispatch_selector = any_selector\<lparr>targetTerminal := Some False, targetDispatchable := Some True,
     transitionAutomatic := Some True\<rparr>"

text \<open>The observed root, admitted implicitly when the server never saw it.\<close>

definition dispatch_root :: "timestamp \<Rightarrow> string \<Rightarrow> dispatch_input \<Rightarrow> string \<Rightarrow> DeviceExecutionRootRow tx" where
  "dispatch_root now newId i kind =
     tx_bind (tx_get (selectRootByExternalId kind (di_external i))) (\<lambda>found.
     (case found of
        Some r \<Rightarrow> tx_return r
      | None \<Rightarrow>
          tx_bind (insertRoot now newId (di_device i) kind (Some (di_external i))
            (Some (odefault (di_request i) (di_external i)))
            (jwith (member_metadata (di_metadata i))
              [(''observeMode'', Some (JBool True)), (''implicitAdmission'', Some (JBool True))]))
          (\<lambda>r.
          tx_bind (birth_event r ''implicit_admission'' (di_by i) (Some ''dispatch_observed_without_root'')
            (jwith [] [(''rootKind'', jstr kind), (''externalId'', jstr (di_external i))]))
          (\<lambda>_. tx_return r))))"

definition dispatch_wrong_device :: "dispatch_input \<Rightarrow> DeviceExecutionRootRow \<Rightarrow> DeviceExecutionTransitionResult tx" where
  "dispatch_wrong_device i r =
     tx_bind (note_event r (di_device i) ''dispatch_rejected_wrong_device'' (di_by i)
       (Some ''root_owned_by_different_device'')
       (jwith [] [(''rootDeviceId'', jstr (rt_device r)), (''externalId'', jstr (di_external i))]))
     (\<lambda>_. tx_return ((answer Rejected (Some r))\<lparr>dr_reason := Some ''root_owned_by_different_device''\<rparr>))"

definition dispatch_not_sent :: "timestamp \<Rightarrow> dispatch_input \<Rightarrow> DeviceExecutionRootRow \<Rightarrow> DeviceExecutionOperationRow
    \<Rightarrow> DeviceExecutionTransitionResult tx" where
  "dispatch_not_sent now i r operation =
     tx_bind (transitionOperationState now (op_kind operation) (op_id operation)
       (any_selector\<lparr>targetTerminal := Some False, targetRetryable := Some True, transitionAutomatic := Some True\<rparr>)
       None None (member_metadata (di_metadata i)))
     (\<lambda>moved.
     tx_bind (note_event r (rt_device r) ''dispatch_not_sent'' (di_by i)
       (Some ''device_offline_or_transport_rejected'') (member_metadata (di_metadata i)))
     (\<lambda>_. tx_return (answer_op Offline r (odefault moved operation) (Some ''device_offline_or_transport_rejected''))))"

definition dispatch_after_terminal :: "dispatch_input \<Rightarrow> DeviceExecutionRootRow \<Rightarrow> DeviceExecutionOperationRow
    \<Rightarrow> DeviceExecutionTransitionResult tx" where
  "dispatch_after_terminal i r operation =
     tx_bind (note_event r (rt_device r) ''dispatch_after_terminal'' (di_by i) (Some ''root_already_terminal'')
       (member_metadata (di_metadata i)))
     (\<lambda>_. tx_return (answer_op Terminal r operation (Some ''root_already_terminal'')))"

text \<open>The handle of an operation under another owner generation.\<close>

definition regenerate :: "DeviceExecutionOperationRow \<Rightarrow> int \<Rightarrow> DeviceExecutionHandle" where
  "regenerate operation generation = operationRowToHandle (operation\<lparr>op_generation := generation\<rparr>)"

definition dispatch_duplicate :: "timestamp \<Rightarrow> dispatch_input \<Rightarrow> DeviceExecutionRootRow \<Rightarrow> DeviceExecutionOperationRow
    \<Rightarrow> DeviceExecutionTransitionResult tx" where
  "dispatch_duplicate now i r operation =
     tx_bind (transitionOperationState now (op_kind operation) (op_id operation) dispatch_selector
       (Some (rt_generation r)) (Some (encodeDeviceExecutionHandle (regenerate operation (rt_generation r))))
       (member_metadata (di_metadata i)))
     (\<lambda>moved.
     tx_bind (note_event r (rt_device r) ''duplicate_dispatch'' (di_by i) (Some ''root_already_dispatched'')
       (member_metadata (di_metadata i)))
     (\<lambda>_. tx_return (answer_op Dispatched r (odefault moved operation) (Some ''root_already_dispatched''))))"

definition dispatch_blocked :: "dispatch_input \<Rightarrow> DeviceExecutionRootRow \<Rightarrow> DeviceExecutionRootRow
    \<Rightarrow> DeviceExecutionOperationRow \<Rightarrow> DeviceExecutionTransitionResult tx" where
  "dispatch_blocked i r a operation =
     tx_bind (note_event r (rt_device r) ''observe_would_block_dispatch'' (di_by i) (Some ''device_slot_already_active'')
       (jwith (member_metadata (di_metadata i))
         [(''activeRootId'', jstr (rt_id a)), (''activeState'', jstr (rt_state a)),
          (''handle'', Some (handle_json (operationRowToHandle operation)))]))
     (\<lambda>_. tx_return ((answer_op WouldWait r operation None)\<lparr>dr_active_root := Some (rt_id a)\<rparr>))"

definition dispatch_advance :: "timestamp \<Rightarrow> dispatch_input \<Rightarrow> DeviceExecutionRootRow \<Rightarrow> DeviceExecutionOperationRow
    \<Rightarrow> DeviceExecutionTransitionResult tx" where
  "dispatch_advance now i r operation =
     tx_bind (transitionRootState now (rt_id r) dispatch_selector (rootIsInitialPhase r) (member_metadata (di_metadata i)))
     (\<lambda>dispatched.
     (case dispatched of
        None \<Rightarrow>
          tx_bind (note_event r (rt_device r) ''dispatch_cas_missed'' (di_by i) (Some ''state_changed_before_dispatch'')
            (member_metadata (di_metadata i)))
          (\<lambda>_. tx_return (answer_op Ignored r operation (Some ''state_changed_before_dispatch'')))
      | Some d \<Rightarrow>
          (let wire = regenerate operation (rt_generation d) in
           tx_bind (transitionOperationState now (op_kind operation) (op_id operation) dispatch_selector
             (Some (rt_generation d)) (Some (encodeDeviceExecutionHandle wire))
             (jwith (member_metadata (di_metadata i)) [(''handle'', Some (handle_json wire))]))
           (\<lambda>moved.
           tx_bind (move_event r d ''root_dispatched'' (di_by i) None
             (jwith (member_metadata (di_metadata i))
               [(''handle'', Some (handle_json (operationRowToHandle (odefault moved operation))))]))
           (\<lambda>_. tx_return (answer_op Dispatched d (odefault moved operation) None))))))"

definition dispatch_owned :: "timestamp \<Rightarrow> dispatch_input \<Rightarrow> DeviceExecutionRootRow \<Rightarrow> DeviceExecutionOperationRow
    \<Rightarrow> DeviceExecutionTransitionResult tx" where
  "dispatch_owned now i r operation =
     (if \<not> di_sent i then dispatch_not_sent now i r operation
      else if rootIsTerminal r then dispatch_after_terminal i r operation
      else if rootIsDispatched r then dispatch_duplicate now i r operation
      else tx_bind (tx_get (selectActiveRoot (di_device i))) (\<lambda>active.
        (case active of
           Some a \<Rightarrow> if rt_id a \<noteq> rt_id r \<and> rootIsInitialPhase r then dispatch_blocked i r a operation
                     else dispatch_advance now i r operation
         | None \<Rightarrow> dispatch_advance now i r operation)))"

definition observeDispatch :: "timestamp \<Rightarrow> string \<Rightarrow> dispatch_input \<Rightarrow> DeviceExecutionTransitionResult tx" where
  "observeDispatch now newId i =
     (let kind = odefault (di_kind i) ''job'' in
      tx_bind (tx_try (\<lambda>db. getDeviceExecutionRootKindPolicy (ad_lc db) kind)) (\<lambda>kp.
      tx_bind (dispatch_root now newId i kind) (\<lambda>r.
      if rt_device r \<noteq> di_device i then dispatch_wrong_device i r
      else tx_bind (upsertOperation now r (kp_op_kind kp) (di_external i) None ''device_execution'' (kp_wire_type kp)
          (jwith (member_metadata (di_metadata i))
            [(''rootKind'', jstr kind), (''externalId'', jstr (di_external i)), (''requestKey'', jostr (di_request i))]))
        (dispatch_owned now i r))))"

section \<open>Claiming\<close>

record DeviceExecutionPermit =
  pm_root :: string
  pm_device :: string
  pm_generation :: int
  pm_state :: string

definition claim_selector :: LifecycleTransitionSelector where
  "claim_selector = any_selector\<lparr>targetTerminal := Some False, transitionAutomatic := Some True,
     transitionMarkStarted := Some True\<rparr>"

definition claimNextRoot :: "timestamp \<Rightarrow> (DeviceExecutionRootRow \<Rightarrow> bool) \<Rightarrow> string \<Rightarrow> string option
    \<Rightarrow> DeviceExecutionPermit option tx" where
  "claimNextRoot now unlocked device actor =
     tx_bind (tx_get (selectActiveRoot device)) (\<lambda>active.
     (case active of
        Some _ \<Rightarrow> tx_return None
      | None \<Rightarrow>
          tx_bind (tx_get (selectOldestQueuedRoot unlocked device)) (\<lambda>queued.
          (case queued of
             None \<Rightarrow> tx_return None
           | Some n \<Rightarrow>
               tx_bind (transitionRootState now (rt_id n) claim_selector True []) (\<lambda>claimed.
               (case claimed of
                  None \<Rightarrow> tx_return None
                | Some c \<Rightarrow>
                    tx_bind (move_event n c ''root_claimed'' (odefault actor ''server'') None []) (\<lambda>_.
                    tx_return (Some \<lparr>pm_root = rt_id c, pm_device = rt_device c, pm_generation = rt_generation c,
                      pm_state = ''claimed''\<rparr>))))))))"

end
