(* ===== verification/Arbiter_Results.thy ===== *)
theory Arbiter_Results imports Arbiter_Dispatch
begin

text \<open>
  Terminal observations and accepted job results of the device execution arbiter:
  \<^verbatim>\<open>observeTerminal\<close>, \<^verbatim>\<open>acceptJobResult\<close>, \<^verbatim>\<open>finishServerWorkflowRoot\<close> and
  \<^verbatim>\<open>expireServerWorkflowChild\<close> of \<^verbatim>\<open>device-execution-arbiter.ts\<close>. Where the code passes an
  expected generation on after checking that it equals the root's, the model passes the
  root's.
\<close>

section \<open>Policies of operations\<close>

text \<open>The boundary an operation was registered under, when its metadata names one.\<close>

definition operation_policy :: "DeviceExecutionOperationRow option \<Rightarrow> DeviceExecutionBoundaryPolicy option tx" where
  "operation_policy operation =
     (case operation of
        None \<Rightarrow> tx_return None
      | Some o1 \<Rightarrow>
          (case nonempty (string_member (op_metadata o1) ''boundary'') of
             None \<Rightarrow> tx_return None
           | Some b \<Rightarrow> tx_bind (tx_try (\<lambda>db. getDeviceExecutionBoundaryPolicy (ad_lc db) b)) (\<lambda>p. tx_return (Some p))))"

definition child_policy :: "DeviceExecutionBoundaryPolicy option \<Rightarrow> bool" where
  "child_policy p \<longleftrightarrow> (case p of None \<Rightarrow> False | Some b \<Rightarrow> bp_requires_root b \<and> \<not> bp_retains_root b)"

text \<open>A child result keeps its root, moving a dispatching root on; any other ends the root.\<close>

definition settle_root :: "timestamp \<Rightarrow> bool \<Rightarrow> DeviceExecutionRootRow \<Rightarrow> string \<Rightarrow> string \<Rightarrow> string \<Rightarrow> jobj
    \<Rightarrow> DeviceExecutionRootRow option tx" where
  "settle_root now child r device toState reason metadata =
     (if child
      then if rootIsDispatching r
        then transitionRootState now (rt_id r)
          (any_selector\<lparr>targetTerminal := Some False, transitionAutomatic := Some True\<rparr>) False metadata
        else tx_return (Some r)
      else updateRootTerminal now (rt_id r) device (rt_generation r) toState reason metadata)"

section \<open>Terminal observations\<close>

record terminal_input =
  ti_device :: string
  ti_kind :: "string option"
  ti_external :: "string option"
  ti_root :: "string option"
  ti_handle :: "DeviceExecutionHandle option"
  ti_generation :: "rat option"
  ti_status :: "string option"
  ti_selector :: "LifecycleTransitionSelector option"
  ti_actor :: "string option"
  ti_reason :: "string option"
  ti_metadata :: "jobj option"

definition ti_by :: "terminal_input \<Rightarrow> string" where
  "ti_by i = odefault (ti_actor i) ''transport''"

definition ti_root_kind :: "terminal_input \<Rightarrow> string" where
  "ti_root_kind i = odefault (coalesce (ti_kind i) (map_option hd_kind (ti_handle i))) ''job''"

definition ti_operation_id :: "terminal_input \<Rightarrow> string option" where
  "ti_operation_id i = coalesce (map_option hd_op_id (ti_handle i)) (ti_external i)"

text \<open>Member list shared by the events of a terminal observation.\<close>

definition ti_names :: "terminal_input \<Rightarrow> string \<Rightarrow> (string \<times> json option) list" where
  "ti_names i kind = [(''externalId'', jostr (ti_external i)), (''operationKind'', jstr kind),
     (''operationId'', jostr (ti_operation_id i))]"

definition ti_meta :: "terminal_input \<Rightarrow> (string \<times> json option) list \<Rightarrow> jobj" where
  "ti_meta i ms = jmerge (jwith [] ms) (member_metadata (ti_metadata i))"

text \<open>The terminal state: the selector's target, else the reported status.\<close>

definition terminal_definition :: "lc_db \<Rightarrow> string \<Rightarrow> LifecycleTransitionSelector option \<Rightarrow> string option
    \<Rightarrow> LifecycleStateDefinition option res" where
  "terminal_definition lc state sel status =
     res_bind (case sel of
         None \<Rightarrow> Inr None
       | Some s \<Rightarrow> selectResourceLifecycleTransition lc ''device_execution_roots'' state s ''state'')
     (\<lambda>transition. Inr
       (case transition of
          Some t \<Rightarrow> getResourceLifecycleState lc ''device_execution_roots'' (lt_to t) ''state''
        | None \<Rightarrow>
            (case nonempty status of
               None \<Rightarrow> None
             | Some s \<Rightarrow> getResourceLifecycleState lc ''device_execution_roots'' s ''state'')))"

definition terminal_missing :: "terminal_input \<Rightarrow> string \<Rightarrow> DeviceExecutionTransitionResult tx" where
  "terminal_missing i kind =
     tx_bind (device_event (ti_device i) ''result_without_root'' (ti_by i) (Some ''no_matching_root'')
       (ti_meta i (ti_names i kind @ [(''status'', jostr (ti_status i))])))
     (\<lambda>_. tx_return ((answer Missing None)\<lparr>dr_reason := Some ''no_matching_root''\<rparr>))"

text \<open>A rejection that reports the operation and the handle.\<close>

definition terminal_rejected :: "terminal_input \<Rightarrow> DeviceExecutionRootRow \<Rightarrow> DeviceExecutionOperationRow option
    \<Rightarrow> DeviceExecutionHandle \<Rightarrow> string \<Rightarrow> string \<Rightarrow> jobj \<Rightarrow> DeviceExecutionTransitionResult tx" where
  "terminal_rejected i r operation handle type reason metadata =
     tx_bind (note_event r (rt_device r) type (ti_by i) (Some reason) metadata)
     (\<lambda>_. tx_return ((answer Rejected (Some r))\<lparr>dr_operation := map_option rowToOperation operation,
       dr_handle := Some handle, dr_reason := Some reason\<rparr>))"

definition terminal_wrong_device :: "terminal_input \<Rightarrow> string \<Rightarrow> DeviceExecutionRootRow \<Rightarrow> DeviceExecutionTransitionResult tx" where
  "terminal_wrong_device i kind r =
     tx_bind (note_event r (ti_device i) ''result_rejected_wrong_device'' (ti_by i)
       (Some ''root_owned_by_different_device'')
       (ti_meta i ((''rootDeviceId'', jstr (rt_device r)) # ti_names i kind)))
     (\<lambda>_. tx_return ((answer Rejected (Some r))\<lparr>dr_reason := Some ''root_owned_by_different_device''\<rparr>))"

definition expected_generation :: "terminal_input \<Rightarrow> DeviceExecutionOperationRow option \<Rightarrow> DeviceExecutionRootRow \<Rightarrow> rat" where
  "expected_generation i operation r =
     odefault (coalesce (map_option hd_generation (ti_handle i)) (ti_generation i))
       (case operation of Some o1 \<Rightarrow> of_int (op_generation o1) | None \<Rightarrow> of_int (rt_generation r))"

definition observed_handle :: "terminal_input \<Rightarrow> string \<Rightarrow> DeviceExecutionOperationRow option \<Rightarrow> DeviceExecutionRootRow
    \<Rightarrow> DeviceExecutionHandle" where
  "observed_handle i kind operation r =
     (case operation of
        Some o1 \<Rightarrow> operationRowToHandle o1
      | None \<Rightarrow> rootToHandle r kind (odefault (coalesce (ti_operation_id i) (ti_external i)) (rt_id r))
          (expected_generation i operation r))"

text \<open>The tail of the handler: the root, then its operation, then the event.\<close>

definition terminal_apply :: "timestamp \<Rightarrow> terminal_input \<Rightarrow> string \<Rightarrow> string option \<Rightarrow> DeviceExecutionRootRow
    \<Rightarrow> DeviceExecutionOperationRow option \<Rightarrow> string \<Rightarrow> DeviceExecutionTransitionResult tx" where
  "terminal_apply now i kind wireType r operation toState =
     tx_bind (operation_policy operation) (\<lambda>policy.
     (let child = rt_kind r = ''server_workflow'' \<and> operation \<noteq> None \<and> child_policy policy;
          handle = observed_handle i kind operation r;
          reason = odefault (ti_reason i) toState
      in tx_bind (settle_root now child r (ti_device i) toState reason (member_metadata (ti_metadata i)))
      (\<lambda>settled.
      (case settled of
         None \<Rightarrow> terminal_rejected i r operation handle ''result_rejected_terminal_cas_missed'' ''terminal_cas_missed''
           (ti_meta i (ti_names i kind @ [(''expectedGeneration'', Some (JNum (expected_generation i operation r))),
             (''handle'', Some (handle_json handle))]))
       | Some terminal \<Rightarrow>
           tx_bind (case operation of
               Some o1 \<Rightarrow> tx_bind (updateOperationState now (op_kind o1) (op_id o1) [op_state o1] toState
                   (Some (rt_generation r)) None (member_metadata (ti_metadata i))) (\<lambda>u. tx_return (Some (odefault u o1)))
             | None \<Rightarrow>
                 (case nonempty (ti_operation_id i) of
                    Some oid \<Rightarrow> tx_bind (upsertOperation now terminal kind oid (Some toState) ''device_execution'' wireType
                        (member_metadata (ti_metadata i))) (\<lambda>u. tx_return (Some u))
                  | None \<Rightarrow> tx_return None))
           (\<lambda>done.
           (let h = (case done of Some d \<Rightarrow> operationRowToHandle d | None \<Rightarrow> handle) in
            tx_bind (move_event r terminal (if child then ''child_result_accepted'' else ''root_terminal'') (ti_by i)
              (Some reason) (ti_meta i (ti_names i kind @ [(''handle'', Some (handle_json h))])))
            (\<lambda>_. tx_return ((answer Terminal (Some terminal))\<lparr>dr_applied := True,
              dr_operation := map_option rowToOperation done, dr_handle := Some h\<rparr>))))))))"

text \<open>The guards on the found root, in the code's order.\<close>

definition terminal_guarded :: "timestamp \<Rightarrow> terminal_input \<Rightarrow> string \<Rightarrow> string option \<Rightarrow> DeviceExecutionRootRow
    \<Rightarrow> DeviceExecutionOperationRow option \<Rightarrow> string \<Rightarrow> DeviceExecutionTransitionResult tx" where
  "terminal_guarded now i kind wireType r operation toState =
     (let expected = expected_generation i operation r; handle = observed_handle i kind operation r in
      if rt_device r \<noteq> ti_device i then terminal_wrong_device i kind r
      else if of_int (rt_generation r) \<noteq> expected
      then terminal_rejected i r operation handle ''result_rejected_stale_generation'' ''owner_generation_mismatch''
        (ti_meta i (ti_names i kind @ [(''expectedGeneration'', Some (JNum expected)),
          (''actualGeneration'', Some (JNum (of_int (rt_generation r)))), (''handle'', Some (handle_json handle))]))
      else if rootIsTerminal r
      then terminal_rejected i r operation handle ''duplicate_or_late_result'' ''root_already_terminal''
        (ti_meta i (ti_names i kind @ [(''status'', jostr (ti_status i)), (''handle'', Some (handle_json handle))]))
      else terminal_apply now i kind wireType r operation toState)"

definition observeTerminal :: "timestamp \<Rightarrow> terminal_input \<Rightarrow> DeviceExecutionTransitionResult tx" where
  "observeTerminal now i =
     tx_bind (tx_try (\<lambda>db. getDeviceExecutionRootKindPolicy (ad_lc db) (ti_root_kind i))) (\<lambda>kp.
     (let kind = odefault (map_option hd_op_kind (ti_handle i)) (kp_op_kind kp) in
      tx_bind (tx_get (\<lambda>db. case nonempty (ti_operation_id i) of None \<Rightarrow> None
          | Some oid \<Rightarrow> selectOperationByIdentity kind oid db)) (\<lambda>operation.
      tx_bind (tx_get (selectRoot
          (coalesce (coalesce (map_option hd_root (ti_handle i)) (ti_root i)) (map_option op_root operation))
          (Some (ti_root_kind i)) (ti_external i))) (\<lambda>found.
      (case found of
         None \<Rightarrow> terminal_missing i kind
       | Some r \<Rightarrow>
           tx_bind (tx_try (\<lambda>db. terminal_definition (ad_lc db) (rt_state r) (ti_selector i) (ti_status i))) (\<lambda>target.
           (case target of
              Some s \<Rightarrow>
                if ls_terminal s then terminal_guarded now i kind (kp_wire_type kp) r operation (ls_status s)
                else tx_return ((answer Rejected (Some r))\<lparr>dr_reason := Some ''unconfigured_terminal_state''\<rparr>)
            | None \<Rightarrow> tx_return ((answer Rejected (Some r))\<lparr>dr_reason := Some ''unconfigured_terminal_state''\<rparr>))))))))"

section \<open>Job results\<close>

record result_input =
  ri_device :: string
  ri_job :: string
  ri_handle :: "DeviceExecutionHandle option"
  ri_reported :: "DeviceExecutionHandle option"
  ri_allow_legacy :: bool
  ri_success :: bool
  ri_actor :: "string option"
  ri_reason :: "string option"
  ri_metadata :: "jobj option"

record DeviceExecutionAcceptedJobResult =
  ja_accepted :: bool
  ja_decision :: DeviceExecutionDecision
  ja_root :: "DeviceExecutionRoot option"
  ja_operation :: "DeviceExecutionOperation option"
  ja_handle :: "DeviceExecutionHandle option"
  ja_reason :: "string option"

definition ri_by :: "result_input \<Rightarrow> string" where
  "ri_by i = odefault (ri_actor i) ''transport''"

definition ri_meta :: "result_input \<Rightarrow> (string \<times> json option) list \<Rightarrow> jobj" where
  "ri_meta i ms = jmerge (jwith [] ((''jobId'', jstr (ri_job i)) # ms)) (member_metadata (ri_metadata i))"

definition result_refused :: "DeviceExecutionDecision \<Rightarrow> DeviceExecutionRootRow option \<Rightarrow> DeviceExecutionOperationRow option
    \<Rightarrow> DeviceExecutionHandle option \<Rightarrow> string \<Rightarrow> DeviceExecutionAcceptedJobResult" where
  "result_refused d r operation handle reason = \<lparr>ja_accepted = False, ja_decision = d,
     ja_root = map_option rowToRoot r, ja_operation = map_option rowToOperation operation,
     ja_handle = handle, ja_reason = Some reason\<rparr>"

definition result_missing :: "result_input \<Rightarrow> string \<Rightarrow> string \<Rightarrow> (string \<times> json option) list
    \<Rightarrow> DeviceExecutionAcceptedJobResult tx" where
  "result_missing i type reason ms =
     tx_bind (device_event (ri_device i) type (ri_by i) (Some reason) (ri_meta i ms))
     (\<lambda>_. tx_return (result_refused Missing None None None reason))"

text \<open>The three handle checks; the first that fails names the reason.\<close>

definition handle_objection :: "result_input \<Rightarrow> DeviceExecutionHandle \<Rightarrow> string option" where
  "handle_objection i handle =
     (if (case ri_handle i of Some h \<Rightarrow> \<not> deviceExecutionHandlesEqual h handle | None \<Rightarrow> False)
      then Some ''job_result_expected_handle_mismatch''
      else if ri_reported i = None \<and> \<not> ri_allow_legacy i
      then Some ''job_result_handle_required''
      else if (case ri_reported i of Some h \<Rightarrow> \<not> deviceExecutionHandlesEqual h handle | None \<Rightarrow> False)
      then Some ''job_result_reported_handle_mismatch''
      else None)"

definition is_current_dispatch_owner :: "result_input \<Rightarrow> DeviceExecutionRootRow \<Rightarrow> DeviceExecutionOperationRow \<Rightarrow> bool" where
  "is_current_dispatch_owner i r o1 \<longleftrightarrow>
     op_id o1 = ri_job i \<and> op_kind o1 = ''job'' \<and> op_root o1 = rt_id r \<and> rt_device r = ri_device i
     \<and> op_device o1 = ri_device i \<and> rt_generation r = op_generation o1
     \<and> ((operationIsDispatching o1 \<and> (rootIsDispatching r \<or> rootIsDispatched r))
        \<or> (operationIsDispatched o1 \<and> rootIsDispatched r))"

definition handle_option_json :: "DeviceExecutionHandle option \<Rightarrow> json option" where
  "handle_option_json h = Some (case h of Some x \<Rightarrow> handle_json x | None \<Rightarrow> JNull)"

definition result_objected :: "result_input \<Rightarrow> DeviceExecutionRootRow \<Rightarrow> DeviceExecutionOperationRow \<Rightarrow> string
    \<Rightarrow> DeviceExecutionAcceptedJobResult tx" where
  "result_objected i r o1 reason =
     tx_bind (note_event r (ri_device i) ''job_result_rejected_handle'' (ri_by i) (Some reason)
       (ri_meta i [(''expectedHandle'', Some (handle_json (operationRowToHandle o1))),
          (''serverHandle'', handle_option_json (ri_handle i)), (''reportedHandle'', handle_option_json (ri_reported i)),
          (''legacyMissingHandleAllowed'', Some (JBool (ri_allow_legacy i)))]))
     (\<lambda>_. tx_return (result_refused Rejected (Some r) (Some o1) (Some (operationRowToHandle o1)) reason))"

definition result_not_owner :: "result_input \<Rightarrow> DeviceExecutionRootRow \<Rightarrow> DeviceExecutionOperationRow
    \<Rightarrow> DeviceExecutionAcceptedJobResult tx" where
  "result_not_owner i r o1 =
     tx_bind (note_event r (ri_device i) ''job_result_rejected_not_current_owner'' (ri_by i)
       (Some ''job_result_not_current_dispatch_owner'')
       (ri_meta i [(''expectedHandle'', Some (handle_json (operationRowToHandle o1))),
          (''rootDeviceId'', jstr (rt_device r)), (''operationDeviceId'', jstr (op_device o1)),
          (''rootGeneration'', Some (JNum (of_int (rt_generation r)))),
          (''operationGeneration'', Some (JNum (of_int (op_generation o1)))),
          (''rootState'', jstr (rt_state r)), (''operationState'', jstr (op_state o1))]))
     (\<lambda>_. tx_return (result_refused Rejected (Some r) (Some o1) (Some (operationRowToHandle o1))
        ''job_result_not_current_dispatch_owner''))"

definition result_apply :: "timestamp \<Rightarrow> result_input \<Rightarrow> DeviceExecutionRootRow \<Rightarrow> DeviceExecutionOperationRow \<Rightarrow> string
    \<Rightarrow> DeviceExecutionAcceptedJobResult tx" where
  "result_apply now i r o1 toState =
     tx_bind (operation_policy (Some o1)) (\<lambda>policy.
     (let child = child_policy policy
            \<and> (case policy of Some p \<Rightarrow> rt_kind r = bp_root_kind p \<and> op_kind o1 = bp_op_kind p | None \<Rightarrow> False);
          reason = odefault (ri_reason i) toState
      in tx_bind (settle_root now child r (ri_device i) toState reason (member_metadata (ri_metadata i)))
      (\<lambda>settled.
      (case settled of
         None \<Rightarrow>
           tx_bind (note_event r (rt_device r) ''job_result_rejected_terminal_cas_missed'' (ri_by i)
             (Some ''terminal_cas_missed'') (ri_meta i [(''handle'', Some (handle_json (operationRowToHandle o1)))]))
           (\<lambda>_. tx_return (result_refused Rejected (Some r) (Some o1) (Some (operationRowToHandle o1)) ''terminal_cas_missed''))
       | Some terminal \<Rightarrow>
           tx_bind (updateOperationState now (op_kind o1) (op_id o1) [op_state o1] toState (Some (op_generation o1)) None
             (member_metadata (ri_metadata i))) (\<lambda>u.
           (let done = odefault u o1 in
            tx_bind (move_event r terminal (if child then ''child_job_result_accepted'' else ''job_result_accepted'')
              (ri_by i) (Some reason) (ri_meta i [(''handle'', Some (handle_json (operationRowToHandle done)))]))
            (\<lambda>_. tx_return \<lparr>ja_accepted = True, ja_decision = Terminal, ja_root = Some (rowToRoot terminal),
              ja_operation = Some (rowToOperation done), ja_handle = Some (operationRowToHandle done),
              ja_reason = None\<rparr>)))))))"

definition result_selector :: "bool \<Rightarrow> LifecycleTransitionSelector" where
  "result_selector success = any_selector\<lparr>targetTerminal := Some True, targetRetryable := Some (\<not> success),
     targetAdministrative := Some False, transitionExternalAllowed := Some True\<rparr>"

definition result_guarded :: "timestamp \<Rightarrow> result_input \<Rightarrow> DeviceExecutionRootRow \<Rightarrow> DeviceExecutionOperationRow \<Rightarrow> string
    \<Rightarrow> DeviceExecutionAcceptedJobResult tx" where
  "result_guarded now i r o1 toState =
     (case handle_objection i (operationRowToHandle o1) of
        Some reason \<Rightarrow> result_objected i r o1 reason
      | None \<Rightarrow> if \<not> is_current_dispatch_owner i r o1 then result_not_owner i r o1
                else result_apply now i r o1 toState)"

definition acceptJobResult :: "timestamp \<Rightarrow> result_input \<Rightarrow> DeviceExecutionAcceptedJobResult tx" where
  "acceptJobResult now i =
     tx_bind (tx_get (selectOperationByIdentity ''job'' (ri_job i))) (\<lambda>operation.
     (case operation of
        None \<Rightarrow> result_missing i ''job_result_rejected_missing_operation'' ''no_matching_operation'' []
      | Some o1 \<Rightarrow>
          tx_bind (tx_get (selectRoot (Some (odefault (map_option hd_root (ri_handle i)) (op_root o1)))
            (Some (odefault (map_option hd_kind (ri_handle i)) (op_root_kind o1))) None)) (\<lambda>found.
          (case found of
             None \<Rightarrow> result_missing i ''job_result_rejected_missing_root'' ''no_matching_root''
               [(''operationRootId'', jstr (op_root o1))]
           | Some r \<Rightarrow>
               tx_bind (tx_try (\<lambda>db. terminal_definition (ad_lc db) (rt_state r) (Some (result_selector (ri_success i))) None))
               (\<lambda>target.
               (case target of
                  Some s \<Rightarrow>
                    if ls_terminal s then result_guarded now i r o1 (ls_status s)
                    else tx_return (result_refused Rejected (Some r) (Some o1) None ''unconfigured_terminal_state'')
                | None \<Rightarrow> tx_return (result_refused Rejected (Some r) (Some o1) None ''unconfigured_terminal_state'')))))))"

end
