(* ===== verification/Arbiter_Workflow.thy ===== *)
theory Arbiter_Workflow imports Arbiter_Results
begin

text \<open>
  Server workflow roots of the device execution arbiter: \<^verbatim>\<open>finishServerWorkflowRoot\<close>,
  \<^verbatim>\<open>expireServerWorkflowChild\<close>, \<^verbatim>\<open>cancelQueuedServerWorkflowRoot\<close>,
  \<^verbatim>\<open>cancelQueuedPersistedWorkflow\<close> and \<^verbatim>\<open>markAmbiguous\<close> of \<^verbatim>\<open>device-execution-arbiter.ts\<close>.
\<close>

record workflow_input =
  wi_device :: string
  wi_workflow :: string
  wi_actor :: "string option"
  wi_reason :: "string option"
  wi_metadata :: "jobj option"

definition wi_meta :: "workflow_input \<Rightarrow> (string \<times> json option) list \<Rightarrow> jobj" where
  "wi_meta i ms = jmerge (jwith [] ((''workflowId'', jstr (wi_workflow i)) # ms)) (member_metadata (wi_metadata i))"

definition refuse :: "DeviceExecutionDecision \<Rightarrow> DeviceExecutionRootRow option \<Rightarrow> string \<Rightarrow> DeviceExecutionTransitionResult" where
  "refuse d r reason = (answer d r)\<lparr>dr_reason := Some reason\<rparr>"

section \<open>Finishing\<close>

definition finish_selector :: "bool \<Rightarrow> LifecycleTransitionSelector" where
  "finish_selector successful = any_selector\<lparr>targetTerminal := Some True, targetRetryable := Some (\<not> successful),
     targetAdministrative := Some False, transitionAutomatic := Some True\<rparr>"

definition finish_refusal :: "workflow_input \<Rightarrow> DeviceExecutionRootRow \<Rightarrow> string option" where
  "finish_refusal i r =
     (if rt_device r \<noteq> wi_device i then Some ''root_owned_by_different_device''
      else if rootIsTerminal r then Some ''root_already_terminal''
      else if rt_reconciliation r \<noteq> None then Some ''root_ambiguous_not_finishable''
      else None)"

text \<open>The workflow operation follows the root when it has a matching exit.\<close>

definition finish_operation :: "timestamp \<Rightarrow> workflow_input \<Rightarrow> bool \<Rightarrow> int \<Rightarrow> DeviceExecutionOperationRow option tx" where
  "finish_operation now i successful generation =
     tx_bind (tx_get (selectOperationByIdentity ''workflow'' (wi_workflow i))) (\<lambda>operation.
     (case operation of
        None \<Rightarrow> tx_return None
      | Some o1 \<Rightarrow>
          tx_bind (tx_try (\<lambda>db. selectResourceLifecycleTransition (ad_lc db) ''device_execution_operations'' (op_state o1)
            (finish_selector successful) ''state'')) (\<lambda>transition.
          (case transition of
             None \<Rightarrow> tx_return None
           | Some t \<Rightarrow>
               tx_bind (updateOperationState now ''workflow'' (wi_workflow i) [op_state o1] (lt_to t) (Some generation) None
                 (member_metadata (wi_metadata i))) (\<lambda>u. tx_return (Some (odefault u o1)))))))"

definition finish_accepted :: "timestamp \<Rightarrow> workflow_input \<Rightarrow> bool \<Rightarrow> DeviceExecutionRootRow \<Rightarrow> DeviceExecutionTransitionResult tx" where
  "finish_accepted now i successful r =
     tx_bind (tx_try (\<lambda>db. selectResourceLifecycleTransition (ad_lc db) ''device_execution_roots'' (rt_state r)
       (finish_selector successful) ''state'')) (\<lambda>transition.
     (case transition of
        None \<Rightarrow> tx_return (refuse Rejected (Some r) ''terminal_transition_not_configured'')
      | Some t \<Rightarrow>
          (let reason = odefault (wi_reason i) (lt_action t) in
           tx_bind (updateRootTerminal now (rt_id r) (wi_device i) (rt_generation r) (lt_to t) reason
             (member_metadata (wi_metadata i))) (\<lambda>updated.
           (case updated of
              None \<Rightarrow> tx_return (refuse Rejected (Some r) ''terminal_cas_missed'')
            | Some terminal \<Rightarrow>
                tx_bind (finish_operation now i successful (rt_generation r)) (\<lambda>done.
                tx_bind (move_event r terminal ''server_workflow_root_terminal'' (odefault (wi_actor i) ''workflow_executor'')
                  (Some reason) (wi_meta i [])) (\<lambda>_.
                tx_return ((answer Terminal (Some terminal))\<lparr>dr_applied := True,
                  dr_operation := map_option rowToOperation done\<rparr>))))))))"

definition finishServerWorkflowRoot :: "timestamp \<Rightarrow> workflow_input \<Rightarrow> bool \<Rightarrow> DeviceExecutionTransitionResult tx" where
  "finishServerWorkflowRoot now i successful =
     tx_bind (tx_get (selectRootByExternalId ''server_workflow'' (wi_workflow i))) (\<lambda>found.
     (case found of
        None \<Rightarrow>
          tx_bind (device_event (wi_device i) ''server_workflow_finish_rejected'' (odefault (wi_actor i) ''workflow_executor'')
            (Some ''canonical_root_not_found'') (wi_meta i []))
          (\<lambda>_. tx_return (refuse Missing None ''canonical_root_not_found''))
      | Some r \<Rightarrow>
          (case finish_refusal i r of
             Some reason \<Rightarrow>
               tx_bind (note_event r (wi_device i) ''server_workflow_finish_rejected''
                 (odefault (wi_actor i) ''workflow_executor'') (Some reason) (wi_meta i []))
               (\<lambda>_. tx_return (refuse Rejected (Some r) reason))
           | None \<Rightarrow> finish_accepted now i successful r)))"

section \<open>Child timeouts\<close>

record expire_input =
  xi_device :: string
  xi_job :: string
  xi_handle :: DeviceExecutionHandle
  xi_actor :: "string option"
  xi_reason :: "string option"
  xi_metadata :: "jobj option"

definition expire_answer :: "DeviceExecutionDecision \<Rightarrow> DeviceExecutionRootRow \<Rightarrow> DeviceExecutionOperationRow \<Rightarrow> string
    \<Rightarrow> DeviceExecutionTransitionResult" where
  "expire_answer d r o1 reason = answer_op d r o1 (Some reason)"

text \<open>The guards of the timeout, in the code's order.\<close>

definition expire_refusal :: "expire_input \<Rightarrow> bool \<Rightarrow> DeviceExecutionRootRow \<Rightarrow> DeviceExecutionOperationRow
    \<Rightarrow> (DeviceExecutionDecision \<times> string) option" where
  "expire_refusal i child r o1 =
     (if \<not> child then Some (Rejected, ''operation_is_not_server_workflow_child'')
      else if \<not> (rt_device r = xi_device i \<and> op_root o1 = rt_id r \<and> op_device o1 = xi_device i
          \<and> deviceExecutionHandlesEqual (xi_handle i) (operationRowToHandle o1) \<and> op_generation o1 = rt_generation r)
      then Some (Rejected, ''child_timeout_owner_mismatch'')
      else if operationIsTerminal o1 then Some (Terminal, ''child_operation_already_terminal'')
      else if rt_reconciliation r \<noteq> None then Some (Ambiguous, ''server_workflow_root_not_active'')
      else if rootIsTerminal r then Some (Rejected, ''server_workflow_root_not_active'')
      else None)"

definition expire_accepted :: "timestamp \<Rightarrow> expire_input \<Rightarrow> DeviceExecutionRootRow \<Rightarrow> DeviceExecutionOperationRow
    \<Rightarrow> DeviceExecutionTransitionResult tx" where
  "expire_accepted now i r o1 =
     tx_bind (transitionOperationState now ''job'' (xi_job i)
       (any_selector\<lparr>targetTerminal := Some True, targetRetryable := Some True, targetAdministrative := Some False,
          transitionAutomatic := Some True\<rparr>)
       (Some (rt_generation r)) None (member_metadata (xi_metadata i))) (\<lambda>moved.
     (case moved of
        None \<Rightarrow> tx_return (expire_answer Rejected r o1 ''child_timeout_cas_missed'')
      | Some done \<Rightarrow>
          tx_bind (note_event r (rt_device r) ''child_job_timeout_recorded'' (odefault (xi_actor i) ''transport'')
            (Some (odefault (xi_reason i) ''job_result_timeout''))
            (jmerge (jwith [] [(''jobId'', jstr (xi_job i)), (''workflowId'', Some (jnullable (rt_external r))),
                (''handle'', Some (handle_json (operationRowToHandle done)))]) (member_metadata (xi_metadata i))))
          (\<lambda>_. tx_return ((expire_answer Terminal r done ''child_timed_out_root_retained'')\<lparr>dr_applied := True\<rparr>))))"

definition expireServerWorkflowChild :: "timestamp \<Rightarrow> expire_input \<Rightarrow> DeviceExecutionTransitionResult tx" where
  "expireServerWorkflowChild now i =
     tx_bind (tx_get (selectOperationByIdentity ''job'' (xi_job i))) (\<lambda>operation.
     (case operation of
        None \<Rightarrow> tx_return (refuse Missing None ''child_operation_not_found'')
      | Some o1 \<Rightarrow>
          tx_bind (tx_get (selectRoot (Some (op_root o1)) (Some ''server_workflow'') None)) (\<lambda>found.
          (case found of
             None \<Rightarrow> tx_return (refuse Missing None ''server_workflow_root_not_found'')
           | Some r \<Rightarrow>
               tx_bind (operation_policy (Some o1)) (\<lambda>policy.
               (let child = child_policy policy
                  \<and> (case policy of Some p \<Rightarrow> rt_kind r = bp_root_kind p \<and> op_kind o1 = bp_op_kind p | None \<Rightarrow> False)
                in case expire_refusal i child r o1 of
                     Some (d, reason) \<Rightarrow> tx_return (expire_answer d r o1 reason)
                   | None \<Rightarrow> expire_accepted now i r o1))))))"

section \<open>Cancelling queued workflows\<close>

definition queued_reason :: "workflow_input \<Rightarrow> string" where
  "queued_reason i = odefault (wi_reason i) ''queued_workflow_cancelled_before_dispatch''"

definition workflow_operation_of :: "workflow_input \<Rightarrow> DeviceExecutionOperationRow list \<Rightarrow> DeviceExecutionOperationRow option" where
  "workflow_operation_of i ops = find (\<lambda>o1. op_kind o1 = ''workflow'' \<and> op_id o1 = wi_workflow i) ops"

definition cancel_by :: "workflow_input \<Rightarrow> string" where
  "cancel_by i = odefault (wi_actor i) ''workflow_dispatch.cancel''"

definition cancel_rejected :: "workflow_input \<Rightarrow> DeviceExecutionRootRow \<Rightarrow> string \<Rightarrow> DeviceExecutionTransitionResult tx" where
  "cancel_rejected i r reason =
     tx_bind (note_event r (wi_device i) ''queued_server_workflow_cancel_rejected'' (cancel_by i) (Some reason) (wi_meta i []))
     (\<lambda>_. tx_return (refuse Rejected (Some r) reason))"

definition cancel_accepted :: "timestamp \<Rightarrow> workflow_input \<Rightarrow> DeviceExecutionRootRow \<Rightarrow> DeviceExecutionTransitionResult tx" where
  "cancel_accepted now i r =
     tx_bind (updateQueuedRootTerminal now (rt_id r) (wi_device i) (rt_generation r) (queued_reason i)
       (member_metadata (wi_metadata i))) (\<lambda>updated.
     (case updated of
        None \<Rightarrow>
          tx_bind (tx_get (selectRoot (Some (rt_id r)) (Some ''server_workflow'') None)) (\<lambda>current.
          tx_return (refuse Rejected (Some (odefault current r)) ''root_not_queued''))
      | Some terminal \<Rightarrow>
          tx_bind (cancelRegisteredOperationsForRoot now (rt_id r) (rt_generation r) (member_metadata (wi_metadata i)))
          (\<lambda>cancelled.
          tx_bind (move_event r terminal ''queued_server_workflow_cancelled'' (cancel_by i) (Some (queued_reason i))
            (wi_meta i [(''cancelledOperationCount'', Some (JNum (of_nat (length cancelled))))])) (\<lambda>_.
          tx_return ((answer Terminal (Some terminal))\<lparr>dr_applied := True,
            dr_operation := map_option rowToOperation (workflow_operation_of i cancelled)\<rparr>)))))"

definition cancelQueuedServerWorkflowRoot :: "timestamp \<Rightarrow> workflow_input \<Rightarrow> DeviceExecutionTransitionResult tx" where
  "cancelQueuedServerWorkflowRoot now i =
     tx_bind (tx_get (selectRootByExternalId ''server_workflow'' (wi_workflow i))) (\<lambda>found.
     (case found of
        None \<Rightarrow>
          tx_bind (device_event (wi_device i) ''queued_server_workflow_cancel_rejected'' (cancel_by i)
            (Some ''canonical_root_not_found'') (wi_meta i []))
          (\<lambda>_. tx_return (refuse Missing None ''canonical_root_not_found''))
      | Some r \<Rightarrow>
          if rt_device r \<noteq> wi_device i then cancel_rejected i r ''root_owned_by_different_device''
          else if \<not> rootIsInitialPhase r then cancel_rejected i r ''root_not_queued''
          else cancel_accepted now i r))"

text \<open>\<^verbatim>\<open>transitionWorkflow\<close> inside the transaction.\<close>

definition tx_transitionWorkflow :: "timestamp \<Rightarrow> string \<Rightarrow> LifecycleTransitionSelector \<Rightarrow> workflow_row option tx" where
  "tx_transitionWorkflow now workflowId sel db =
     (case transitionWorkflow (ad_lc db) now workflowId sel no_workflow_patch (ad_workflows db) of
        (w, ws) \<Rightarrow> Inr (w, db\<lparr>ad_workflows := ws\<rparr>))"

text \<open>Whether some manual transition of the workflow cancels it administratively.\<close>

definition workflow_cancellable :: "lc_db \<Rightarrow> workflow_row \<Rightarrow> bool" where
  "workflow_cancellable lc w =
     list_ex (\<lambda>(t, s). lt_manual_allowed t \<and> ls_terminal s \<and> ls_administrative s) (outgoing lc (wf_key w) (wf_status w))"

definition persisted_by :: "workflow_input \<Rightarrow> string" where
  "persisted_by i = odefault (wi_actor i) ''workflow_api.cancel''"

definition persisted_rejected :: "workflow_input \<Rightarrow> DeviceExecutionDecision \<Rightarrow> string \<Rightarrow> (string \<times> json option) list
    \<Rightarrow> DeviceExecutionTransitionResult tx" where
  "persisted_rejected i d reason ms =
     tx_bind (device_event (wi_device i) ''persisted_workflow_cancel_rejected'' (persisted_by i) (Some reason) (wi_meta i ms))
     (\<lambda>_. tx_return (refuse d None reason))"

definition persisted_root_rejected :: "workflow_input \<Rightarrow> DeviceExecutionRootRow \<Rightarrow> string \<Rightarrow> DeviceExecutionTransitionResult tx" where
  "persisted_root_rejected i r reason =
     tx_bind (note_event r (wi_device i) ''persisted_workflow_cancel_rejected'' (persisted_by i) (Some reason) (wi_meta i []))
     (\<lambda>_. tx_return (refuse Rejected (Some r) reason))"

text \<open>The root's part of the cancellation; the root is locked, so a miss is an exception.\<close>

definition persisted_root_cancel :: "timestamp \<Rightarrow> workflow_input \<Rightarrow> DeviceExecutionRootRow option
    \<Rightarrow> (DeviceExecutionRootRow option \<times> DeviceExecutionOperationRow option) tx" where
  "persisted_root_cancel now i found =
     (case found of
        None \<Rightarrow> tx_return (None, None)
      | Some r \<Rightarrow>
          tx_bind (updateQueuedRootTerminal now (rt_id r) (wi_device i) (rt_generation r) (queued_reason i)
            (member_metadata (wi_metadata i))) (\<lambda>updated.
          (case updated of
             None \<Rightarrow> tx_fail (''Queued PNQ root '' @ rt_id r @ '' changed while locked'')
           | Some terminal \<Rightarrow>
               tx_bind (cancelRegisteredOperationsForRoot now (rt_id r) (rt_generation r) (member_metadata (wi_metadata i)))
               (\<lambda>cancelled. tx_return (Some terminal, workflow_operation_of i cancelled)))))"

definition persisted_cancel :: "timestamp \<Rightarrow> workflow_input \<Rightarrow> DeviceExecutionRootRow option
    \<Rightarrow> DeviceExecutionTransitionResult tx" where
  "persisted_cancel now i found =
     tx_bind (persisted_root_cancel now i found) (\<lambda>(terminalRoot, terminalOperation).
     tx_bind (tx_transitionWorkflow now (wi_workflow i) (any_selector\<lparr>targetTerminal := Some True,
       targetAdministrative := Some True, transitionManualAllowed := Some True\<rparr>)) (\<lambda>cancelled.
     (case cancelled of
        None \<Rightarrow> tx_fail (''Queued workflow '' @ wi_workflow i @ '' changed while locked'')
      | Some _ \<Rightarrow>
          tx_bind (insertEvent \<lparr>ei_root = map_option rt_id terminalRoot, ei_device = Some (wi_device i),
            ei_type = (if found = None then ''persisted_workflow_cancelled_before_root_admission''
                       else ''persisted_workflow_and_root_cancelled''),
            ei_previous = Some ''queued'', ei_new = Some ''cancelled'', ei_actor = Some (persisted_by i),
            ei_reason = Some (queued_reason i), ei_metadata = wi_meta i []\<rparr>) (\<lambda>_.
          tx_return ((answer Terminal terminalRoot)\<lparr>dr_applied := True,
            dr_operation := map_option rowToOperation terminalOperation\<rparr>)))))"

definition cancelQueuedPersistedWorkflow :: "timestamp \<Rightarrow> workflow_input \<Rightarrow> DeviceExecutionTransitionResult tx" where
  "cancelQueuedPersistedWorkflow now i =
     tx_bind (tx_get (\<lambda>db. find (\<lambda>w. wf_id w = wi_workflow i) (ad_workflows db))) (\<lambda>workflow.
     (case workflow of
        None \<Rightarrow> persisted_rejected i Missing ''workflow_record_not_found'' []
      | Some w \<Rightarrow>
          if wf_device w \<noteq> Some (wi_device i) then persisted_rejected i Rejected ''workflow_owned_by_different_device'' []
          else tx_bind (tx_get (\<lambda>db. workflow_cancellable (ad_lc db) w)) (\<lambda>cancellable.
            if \<not> cancellable
            then persisted_rejected i Rejected ''workflow_not_queued'' [(''workflowStatus'', jstr (wf_status w))]
            else tx_bind (tx_get (selectRootByExternalId ''server_workflow'' (wi_workflow i))) (\<lambda>found.
              (case found of
                 None \<Rightarrow> persisted_cancel now i None
               | Some r \<Rightarrow>
                   if rt_device r \<noteq> wi_device i then persisted_root_rejected i r ''root_owned_by_different_device''
                   else if \<not> rootIsInitialPhase r then persisted_root_rejected i r ''root_not_queued''
                   else persisted_cancel now i (Some r))))))"

section \<open>Ambiguity\<close>

record ambiguity_input =
  mi_terminal :: terminal_input
  mi_reason :: string

definition ambiguity_selector :: LifecycleTransitionSelector where
  "ambiguity_selector = any_selector\<lparr>targetTerminal := Some False, targetManual := Some True,
     transitionAutomatic := Some True\<rparr>"

definition mi_by :: "terminal_input \<Rightarrow> string" where
  "mi_by i = odefault (ti_actor i) ''server''"

definition ambiguity_apply :: "timestamp \<Rightarrow> terminal_input \<Rightarrow> string \<Rightarrow> string \<Rightarrow> DeviceExecutionRootRow
    \<Rightarrow> DeviceExecutionOperationRow option \<Rightarrow> DeviceExecutionTransitionResult tx" where
  "ambiguity_apply now i reason kind r operation =
     tx_bind (updateRootAmbiguous now (rt_id r) (ti_device i) (rt_generation r) ambiguity_selector reason
       (member_metadata (ti_metadata i))) (\<lambda>updated.
     (case updated of
        None \<Rightarrow> tx_return (refuse Ignored (Some r) ''ambiguity_cas_missed'')
      | Some ambiguous \<Rightarrow>
          tx_bind (case operation of
              None \<Rightarrow> tx_return None
            | Some o1 \<Rightarrow> tx_bind (transitionOperationState now (op_kind o1) (op_id o1) ambiguity_selector
                (Some (rt_generation r)) None (member_metadata (ti_metadata i))) (\<lambda>u. tx_return (Some (odefault u o1))))
          (\<lambda>done.
          (let h = (case done of Some d \<Rightarrow> operationRowToHandle d | None \<Rightarrow> observed_handle i kind operation r) in
           tx_bind (move_event r ambiguous ''root_ambiguous'' (mi_by i) (Some reason)
             (ti_meta i (ti_names i kind @ [(''handle'', Some (handle_json h))]))) (\<lambda>_.
           tx_return ((answer Ambiguous (Some ambiguous))\<lparr>dr_applied := True,
             dr_operation := map_option rowToOperation done, dr_handle := Some h, dr_reason := Some reason\<rparr>))))))"

definition ambiguity_guarded :: "timestamp \<Rightarrow> terminal_input \<Rightarrow> string \<Rightarrow> string \<Rightarrow> DeviceExecutionRootRow
    \<Rightarrow> DeviceExecutionOperationRow option \<Rightarrow> DeviceExecutionTransitionResult tx" where
  "ambiguity_guarded now i reason kind r operation =
     (let expected = expected_generation i operation r; handle = observed_handle i kind operation r in
      if rt_device r \<noteq> ti_device i
      then tx_bind (note_event r (ti_device i) ''ambiguity_rejected_wrong_device'' (mi_by i)
          (Some ''root_owned_by_different_device'')
          (jwith [] [(''rootDeviceId'', jstr (rt_device r)), (''externalId'', jostr (ti_external i))]))
        (\<lambda>_. tx_return (refuse Rejected (Some r) ''root_owned_by_different_device''))
      else if rootIsTerminal r
      then tx_bind (note_event r (rt_device r) ''ambiguity_after_terminal_ignored'' (mi_by i) (Some reason)
          (member_metadata (ti_metadata i)))
        (\<lambda>_. tx_return ((refuse Ignored (Some r) ''root_already_terminal'')\<lparr>dr_applied := True\<rparr>))
      else if of_int (rt_generation r) \<noteq> expected
      then tx_bind (note_event r (rt_device r) ''ambiguity_rejected_stale_generation'' (mi_by i)
          (Some ''owner_generation_mismatch'')
          (ti_meta i (ti_names i kind @ [(''expectedGeneration'', Some (JNum expected)),
            (''actualGeneration'', Some (JNum (of_int (rt_generation r)))), (''handle'', Some (handle_json handle))])))
        (\<lambda>_. tx_return ((refuse Rejected (Some r) ''owner_generation_mismatch'')
          \<lparr>dr_operation := map_option rowToOperation operation, dr_handle := Some handle\<rparr>))
      else ambiguity_apply now i reason kind r operation)"

text \<open>The input shares its members with a terminal observation; the reason is mandatory.\<close>

definition markAmbiguous :: "timestamp \<Rightarrow> ambiguity_input \<Rightarrow> DeviceExecutionTransitionResult tx" where
  "markAmbiguous now a =
     (let i = mi_terminal a; reason = mi_reason a in
      tx_bind (tx_try (\<lambda>db. getDeviceExecutionRootKindPolicy (ad_lc db) (ti_root_kind i))) (\<lambda>kp.
      (let kind = odefault (map_option hd_op_kind (ti_handle i)) (kp_op_kind kp) in
       tx_bind (tx_get (\<lambda>db. case nonempty (ti_operation_id i) of None \<Rightarrow> None
           | Some oid \<Rightarrow> selectOperationByIdentity kind oid db)) (\<lambda>operation.
       tx_bind (tx_get (selectRoot
           (coalesce (coalesce (map_option hd_root (ti_handle i)) (ti_root i)) (map_option op_root operation))
           (Some (ti_root_kind i)) (ti_external i))) (\<lambda>found.
       (case found of
          None \<Rightarrow>
            tx_bind (device_event (ti_device i) ''ambiguity_without_root'' (mi_by i) (Some reason)
              (ti_meta i [(''externalId'', jostr (ti_external i))]))
            (\<lambda>_. tx_return (refuse Missing None ''no_matching_root''))
        | Some r \<Rightarrow> ambiguity_guarded now i reason kind r operation))))))"

end
