(* ===== verification/Arbiter_Egress.thy ===== *)
theory Arbiter_Egress imports Arbiter_Workflow
begin

text \<open>
  The egress runners of the device execution arbiter, \<^verbatim>\<open>runStandaloneJobEgress\<close> and
  \<^verbatim>\<open>runObservedEgress\<close>: a first transaction records the intent to dispatch and issues a
  permit, the transport is called outside any transaction, a second transaction records
  what became of it. The waiter and the transport are parameters of the runners; what
  other transactions do in between is a parameter as well.
\<close>

section \<open>Inputs and results\<close>

record egress_input =
  eg_device :: string
  eg_item :: string
  eg_root :: "string option"
  eg_root_external :: "string option"
  eg_root_kind :: "string option"
  eg_op_kind :: "string option"
  eg_boundary :: "string option"
  eg_wire_type :: "string option"
  eg_request :: "string option"
  eg_actor :: "string option"
  eg_metadata :: "jobj option"

record DeviceExecutionJobDispatchPermit =
  jp_handle :: DeviceExecutionHandle
  jp_wire :: DeviceExecutionWireHandle

record egress_result = DeviceExecutionTransitionResult +
  er_deferred :: bool
  er_ready :: bool
  er_sent :: bool
  er_permit :: "DeviceExecutionJobDispatchPermit option"

definition egress :: "DeviceExecutionTransitionResult \<Rightarrow> egress_result" where
  "egress r = DeviceExecutionTransitionResult.extend r (egress_result.fields False False False None)"

text \<open>What a runner resolves before its first transaction.\<close>

record egress_terms =
  et_kind :: string
  et_op_kind :: string
  et_actor :: string
  et_wire_type :: string
  et_requires :: bool
  et_lane :: string
  et_implicit :: string
  et_item_name :: string
  et_metadata :: jobj

definition egress_boundary :: "lc_db \<Rightarrow> egress_input \<Rightarrow> DeviceExecutionBoundaryPolicy option res" where
  "egress_boundary lc i =
     (case nonempty (eg_boundary i) of
        None \<Rightarrow> Inr None
      | Some b \<Rightarrow> res_bind (getDeviceExecutionBoundaryPolicy lc b) (\<lambda>p. Inr (Some p)))"

definition standalone_terms :: "lc_db \<Rightarrow> egress_input \<Rightarrow> egress_terms res" where
  "standalone_terms lc i = res_bind (egress_boundary lc i) (\<lambda>boundary.
     let wireType = odefault (eg_wire_type i) ''JOB'';
         boundaryKind = odefault (eg_boundary i) ''standalone_job''
     in Inr \<lparr>et_kind = odefault (coalesce (eg_root_kind i) (map_option bp_root_kind boundary)) ''job'',
          et_op_kind = odefault (coalesce (eg_op_kind i) (map_option bp_op_kind boundary)) ''job'',
          et_actor = odefault (eg_actor i) ''transport.g2'',
          et_wire_type = wireType,
          et_requires = (map_option bp_requires_root boundary = Some True),
          et_lane = odefault (map_option bp_lane boundary) ''device_execution'',
          et_implicit = ''standalone_job_egress_without_root'',
          et_item_name = ''jobId'',
          et_metadata = jwith (member_metadata (eg_metadata i))
            [(''boundary'', jstr boundaryKind),
             (''enforcement'', jstr (if boundaryKind = ''standalone_job'' then ''g2'' else ''g3'')),
             (''wireType'', jstr wireType)]\<rparr>)"

definition observed_terms :: "lc_db \<Rightarrow> egress_input \<Rightarrow> egress_terms res" where
  "observed_terms lc i = res_bind (egress_boundary lc i) (\<lambda>boundary.
     let rootKind = odefault (coalesce (eg_root_kind i) (map_option bp_root_kind boundary)) ''job'' in
     res_bind (getDeviceExecutionRootKindPolicy lc rootKind) (\<lambda>kp.
     Inr \<lparr>et_kind = rootKind,
          et_op_kind = odefault (coalesce (eg_op_kind i) (map_option bp_op_kind boundary)) (kp_op_kind kp),
          et_actor = odefault (eg_actor i) ''transport'',
          et_wire_type = odefault (eg_wire_type i) [],
          et_requires = (map_option bp_requires_root boundary = Some True),
          et_lane = odefault (map_option bp_lane boundary) ''device_execution'',
          et_implicit = ''egress_observed_without_root'',
          et_item_name = ''operationId'',
          et_metadata = jwith (member_metadata (eg_metadata i))
            [(''boundary'', Some (jnullable (eg_boundary i))), (''observeMode'', Some (JBool True)),
             (''wireType'', jostr (eg_wire_type i))]\<rparr>))"

definition dispatching_selector :: LifecycleTransitionSelector where
  "dispatching_selector = any_selector\<lparr>targetTerminal := Some False, targetRetryable := Some False,
     targetDispatchable := Some False, targetManual := Some False, transitionAutomatic := Some True\<rparr>"

definition root_dispatching_selector :: LifecycleTransitionSelector where
  "root_dispatching_selector = dispatching_selector\<lparr>transitionMarkStarted := Some False\<rparr>"

definition sent_selector :: LifecycleTransitionSelector where
  "sent_selector = any_selector\<lparr>targetTerminal := Some False, targetDispatchable := Some True,
     targetManual := Some False, transitionAutomatic := Some True\<rparr>"

definition blocked_selector :: LifecycleTransitionSelector where
  "blocked_selector = any_selector\<lparr>targetTerminal := Some False, targetManual := Some True,
     transitionAutomatic := Some True\<rparr>"

section \<open>Entering: the root of the request\<close>

definition find_egress_root :: "egress_terms \<Rightarrow> egress_input \<Rightarrow> arb_db \<Rightarrow> DeviceExecutionRootRow option" where
  "find_egress_root t i =
     (if nonempty (eg_root i) \<noteq> None then selectRoot (eg_root i) (Some (et_kind t)) None
      else selectRootByExternalId (et_kind t) (if et_requires t then odefault (eg_root_external i) [] else eg_item i))"

definition egress_missing_root :: "egress_terms \<Rightarrow> egress_input \<Rightarrow> egress_result tx" where
  "egress_missing_root t i =
     (let reason = (if nonempty (eg_root i) \<noteq> None \<or> nonempty (eg_root_external i) \<noteq> None
                    then ''existing_root_not_found'' else ''existing_root_identity_required'') in
      tx_bind (device_event (eg_device i) ''child_egress_rejected_missing_root'' (et_actor t) (Some reason)
        (jwith (et_metadata t) [(et_item_name t, jstr (eg_item i)), (''rootId'', Some (jnullable (eg_root i))),
           (''rootExternalId'', Some (jnullable (eg_root_external i)))]))
      (\<lambda>_. tx_return (egress ((answer Rejected None)\<lparr>dr_reason := Some reason\<rparr>))))"

definition egress_admit :: "timestamp \<Rightarrow> string \<Rightarrow> egress_terms \<Rightarrow> egress_input \<Rightarrow> DeviceExecutionRootRow tx" where
  "egress_admit now newId t i =
     tx_bind (insertRoot now newId (eg_device i) (et_kind t) (Some (eg_item i))
       (Some (odefault (eg_request i) (eg_item i)))
       (jwith (et_metadata t) [(''implicitAdmission'', Some (JBool True))])) (\<lambda>r.
     tx_bind (birth_event r ''implicit_admission'' (et_actor t) (Some (et_implicit t)) (et_metadata t))
     (\<lambda>_. tx_return r))"

definition egress_wrong_device :: "egress_terms \<Rightarrow> egress_input \<Rightarrow> DeviceExecutionRootRow \<Rightarrow> egress_result tx" where
  "egress_wrong_device t i r =
     tx_bind (note_event r (eg_device i) ''egress_rejected_wrong_device'' (et_actor t)
       (Some ''root_owned_by_different_device'') (jwith (et_metadata t) [(''rootDeviceId'', jstr (rt_device r))]))
     (\<lambda>_. tx_return (egress ((answer Rejected (Some r))\<lparr>dr_reason := Some ''root_owned_by_different_device''\<rparr>)))"

text \<open>The shared start of both first transactions; \<open>go\<close> continues with a root of the device.\<close>

definition egress_own :: "egress_terms \<Rightarrow> egress_input \<Rightarrow> (DeviceExecutionRootRow \<Rightarrow> egress_result tx)
    \<Rightarrow> DeviceExecutionRootRow \<Rightarrow> egress_result tx" where
  "egress_own t i go r = (if rt_device r \<noteq> eg_device i then egress_wrong_device t i r else go r)"

definition egress_enter :: "timestamp \<Rightarrow> string \<Rightarrow> egress_terms \<Rightarrow> egress_input
    \<Rightarrow> (DeviceExecutionRootRow \<Rightarrow> egress_result tx) \<Rightarrow> egress_result tx" where
  "egress_enter now newId t i go =
     tx_bind (tx_get (find_egress_root t i)) (\<lambda>found.
     (case found of
        Some r \<Rightarrow> egress_own t i go r
      | None \<Rightarrow> if et_requires t then egress_missing_root t i
                else tx_bind (egress_admit now newId t i) (egress_own t i go)))"

definition register_operation :: "timestamp \<Rightarrow> egress_terms \<Rightarrow> egress_input \<Rightarrow> DeviceExecutionRootRow
    \<Rightarrow> DeviceExecutionOperationRow tx" where
  "register_operation now t i r = upsertOperation now r (et_op_kind t) (eg_item i) None (et_lane t)
     (Some (et_wire_type t)) (et_metadata t)"

text \<open>An answer after an event about a root that stays as it is.\<close>

definition egress_stop :: "egress_terms \<Rightarrow> DeviceExecutionRootRow \<Rightarrow> DeviceExecutionOperationRow
    \<Rightarrow> DeviceExecutionDecision \<Rightarrow> string \<Rightarrow> string \<Rightarrow> (string \<times> json option) list \<Rightarrow> egress_result tx" where
  "egress_stop t r operation d type reason ms =
     tx_bind (note_event r (rt_device r) type (et_actor t) (Some reason) (jwith (et_metadata t) ms))
     (\<lambda>_. tx_return (egress (answer_op d r operation (Some reason))))"

definition own_handle_member :: "DeviceExecutionOperationRow \<Rightarrow> string \<times> json option" where
  "own_handle_member operation = (''handle'', Some (handle_json (operationRowToHandle operation)))"

definition egress_wait :: "egress_terms \<Rightarrow> DeviceExecutionRootRow \<Rightarrow> DeviceExecutionOperationRow \<Rightarrow> string option
    \<Rightarrow> string \<Rightarrow> string \<Rightarrow> string option \<Rightarrow> (string \<times> json option) list \<Rightarrow> egress_result tx" where
  "egress_wait t r operation waitsFor type reason answered ms =
     tx_bind (note_event r (rt_device r) type (et_actor t) (Some reason) (jwith (et_metadata t) ms))
     (\<lambda>_. tx_return ((egress ((answer_op WouldWait r operation answered)\<lparr>dr_active_root := waitsFor\<rparr>))
       \<lparr>er_deferred := True\<rparr>))"

definition egress_busy :: "egress_terms \<Rightarrow> DeviceExecutionRootRow \<Rightarrow> DeviceExecutionOperationRow
    \<Rightarrow> DeviceExecutionRootRow \<Rightarrow> string \<Rightarrow> string option \<Rightarrow> egress_result tx" where
  "egress_busy t r operation a type answered =
     egress_wait t r operation (Some (rt_id a)) type ''device_slot_already_active'' answered
       [(''activeRootId'', jstr (rt_id a)), (''activeState'', jstr (rt_state a)), own_handle_member operation]"

section \<open>First transaction of a standalone job\<close>

text \<open>The intent of the operation is recorded, then the permit is issued.\<close>

definition standalone_permit :: "timestamp \<Rightarrow> egress_terms \<Rightarrow> egress_input \<Rightarrow> DeviceExecutionOperationRow
    \<Rightarrow> DeviceExecutionRootRow \<Rightarrow> DeviceExecutionRootRow \<Rightarrow> egress_result tx" where
  "standalone_permit now t i operation r current =
     (let h = rootToHandle current (et_op_kind t) (eg_item i) (of_int (rt_generation current)) in
      tx_bind (transitionOperationState now (et_op_kind t) (eg_item i) dispatching_selector
        (Some (rt_generation current)) (Some (encodeDeviceExecutionHandle h))
        (jwith (et_metadata t) [(''handle'', Some (handle_json h))]))
      (\<lambda>moved.
      (case moved of
         None \<Rightarrow>
           tx_bind (note_event current (rt_device current) ''operation_dispatching_cas_missed'' (et_actor t)
             (Some ''operation_not_registered'') (et_metadata t))
           (\<lambda>_. tx_return (egress (answer_op Rejected current operation (Some ''operation_not_registered''))))
       | Some o1 \<Rightarrow>
           (let permit = \<lparr>jp_handle = operationRowToHandle o1,
                  jp_wire = encodeDeviceExecutionHandle (operationRowToHandle o1)\<rparr> in
            tx_bind (move_event r current ''root_dispatching'' (et_actor t) None
              (jwith (et_metadata t) [(''handle'', Some (wire_json (jp_wire permit)))]))
            (\<lambda>_. tx_return ((egress (answer_op Claimed current o1 None))
              \<lparr>er_ready := True, er_permit := Some permit\<rparr>))))))"

definition standalone_initial :: "timestamp \<Rightarrow> (DeviceExecutionRootRow \<Rightarrow> bool) \<Rightarrow> egress_terms \<Rightarrow> egress_input
    \<Rightarrow> DeviceExecutionRootRow \<Rightarrow> DeviceExecutionOperationRow \<Rightarrow> egress_result tx" where
  "standalone_initial now unlocked t i r operation =
     tx_bind (tx_get (selectOldestQueuedRoot unlocked (eg_device i))) (\<lambda>oldest.
     if map_option rt_id oldest \<noteq> Some (rt_id r)
     then egress_wait t r operation (map_option rt_id oldest) ''egress_waiting_fifo_predecessor''
       ''older_queued_root_exists'' (Some ''older_queued_root_exists'')
       [(''predecessorRootId'', Some (jnullable (map_option rt_id oldest))), own_handle_member operation]
     else tx_bind (transitionRootState now (rt_id r) root_dispatching_selector True (et_metadata t)) (\<lambda>moved.
       (case moved of
          None \<Rightarrow> egress_stop t r operation Ignored ''dispatching_cas_missed'' ''state_changed_before_dispatching'' []
        | Some d \<Rightarrow> standalone_permit now t i operation r d)))"

definition standalone_live :: "timestamp \<Rightarrow> (DeviceExecutionRootRow \<Rightarrow> bool) \<Rightarrow> egress_terms \<Rightarrow> egress_input
    \<Rightarrow> DeviceExecutionRootRow \<Rightarrow> DeviceExecutionOperationRow \<Rightarrow> egress_result tx" where
  "standalone_live now unlocked t i r operation =
     (if rootIsTerminal r
      then egress_stop t r operation Terminal ''egress_after_terminal'' ''root_already_terminal'' [own_handle_member operation]
      else if rt_reconciliation r \<noteq> None
      then egress_stop t r operation Ambiguous ''egress_blocked_by_ambiguous_root'' (rt_state r) [own_handle_member operation]
      else if rootIsDispatched r \<and> \<not> et_requires t
      then egress_stop t r operation Dispatched ''duplicate_dispatch'' ''root_already_dispatched'' [own_handle_member operation]
      else if rootIsInitialPhase r then standalone_initial now unlocked t i r operation
      else if rootIsClaimed r
      then tx_bind (transitionRootState now (rt_id r) root_dispatching_selector False (et_metadata t))
        (\<lambda>moved. standalone_permit now t i operation r (odefault moved r))
      else if \<not> rootIsDispatching r \<and> \<not> (et_requires t \<and> rootIsDispatched r)
      then tx_return (egress (answer_op Ignored r operation (Some ''state_not_dispatchable'')))
      else standalone_permit now t i operation r r)"

definition standalone_owned :: "timestamp \<Rightarrow> (DeviceExecutionRootRow \<Rightarrow> bool) \<Rightarrow> egress_terms \<Rightarrow> egress_input
    \<Rightarrow> DeviceExecutionRootRow \<Rightarrow> egress_result tx" where
  "standalone_owned now unlocked t i r =
     tx_bind (register_operation now t i r) (\<lambda>operation.
     tx_bind (tx_get (selectActiveRoot (eg_device i))) (\<lambda>active.
     (case active of
        Some a \<Rightarrow>
          if rt_id a \<noteq> rt_id r
          then egress_busy t r operation a ''egress_waiting_active_root'' (Some ''device_slot_already_active'')
          else standalone_live now unlocked t i r operation
      | None \<Rightarrow> standalone_live now unlocked t i r operation)))"

definition standalone_prepare :: "timestamp \<Rightarrow> string \<Rightarrow> (DeviceExecutionRootRow \<Rightarrow> bool) \<Rightarrow> egress_terms
    \<Rightarrow> egress_input \<Rightarrow> egress_result tx" where
  "standalone_prepare now newId unlocked t i = egress_enter now newId t i (standalone_owned now unlocked t i)"

section \<open>Second transaction\<close>

text \<open>What the transport did: the waiter may throw, then the wire is not called.\<close>

definition wire_attempt :: "string option \<Rightarrow> string + bool \<Rightarrow> bool \<times> string option" where
  "wire_attempt waiter wire =
     (case waiter of
        Some e \<Rightarrow> (False, Some (''waiter_registration_failed: '' @ e))
      | None \<Rightarrow> (case wire of Inl e \<Rightarrow> (False, Some e) | Inr sent \<Rightarrow> (sent, None)))"

text \<open>The generation of a handle, which is that of an operation row.\<close>

definition handle_generation :: "DeviceExecutionHandle \<Rightarrow> int" where
  "handle_generation h = \<lfloor>hd_generation h\<rfloor>"

definition same_owner :: "egress_input \<Rightarrow> DeviceExecutionHandle \<Rightarrow> DeviceExecutionRootRow
    \<Rightarrow> DeviceExecutionOperationRow \<Rightarrow> bool" where
  "same_owner i h r o1 \<longleftrightarrow> rt_device r = eg_device i \<and> op_root o1 = rt_id r \<and> op_device o1 = eg_device i
     \<and> op_kind o1 = hd_op_kind h \<and> op_id o1 = hd_op_id h
     \<and> of_int (rt_generation r) = hd_generation h \<and> of_int (op_generation o1) = hd_generation h"

definition already_ended :: "egress_terms \<Rightarrow> DeviceExecutionRootRow \<Rightarrow> DeviceExecutionOperationRow \<Rightarrow> bool" where
  "already_ended t r o1 \<longleftrightarrow> (rootIsTerminal r \<and> operationIsTerminal o1)
     \<or> (et_requires t \<and> rootIsDispatched r \<and> operationIsTerminal o1)"

definition wire_members :: "bool \<Rightarrow> string option \<Rightarrow> (string \<times> json option) list" where
  "wire_members sent err = [(''sent'', Some (JBool sent)), (''wireError'', Some (jnullable err))]"

definition permit_answer :: "DeviceExecutionJobDispatchPermit \<Rightarrow> bool \<Rightarrow> DeviceExecutionDecision
    \<Rightarrow> DeviceExecutionRootRow \<Rightarrow> DeviceExecutionOperationRow \<Rightarrow> string option \<Rightarrow> egress_result" where
  "permit_answer p sent d r o1 reason =
     (egress ((answer_op d r o1 reason)\<lparr>dr_handle := Some (jp_handle p)\<rparr>))\<lparr>er_sent := sent, er_permit := Some p\<rparr>"

definition permit_members :: "DeviceExecutionJobDispatchPermit \<Rightarrow> (string \<times> json option) list" where
  "permit_members p = [(''handle'', Some (wire_json (jp_wire p)))]"

definition standalone_not_sent :: "timestamp \<Rightarrow> egress_terms \<Rightarrow> egress_input \<Rightarrow> DeviceExecutionJobDispatchPermit
    \<Rightarrow> string option \<Rightarrow> DeviceExecutionRootRow \<Rightarrow> DeviceExecutionOperationRow \<Rightarrow> egress_result tx" where
  "standalone_not_sent now t i p err r operation =
     (let reason = odefault err ''device_offline_or_transport_rejected_after_dispatching'';
          meta = jwith (et_metadata t) (permit_members p @ [(''wireError'', Some (jnullable err))]);
          g = handle_generation (jp_handle p)
      in tx_bind (updateRootAmbiguous now (rt_id r) (eg_device i) g blocked_selector reason meta) (\<lambda>b.
         tx_bind (transitionOperationState now (et_op_kind t) (eg_item i) blocked_selector (Some g)
           (Some (jp_wire p)) meta) (\<lambda>o2.
         tx_bind (move_event r (odefault b r) ''egress_not_sent_fail_closed'' (et_actor t) (Some reason)
           (jwith (et_metadata t) (permit_members p)))
         (\<lambda>_. tx_return (permit_answer p False Offline (odefault b r) (odefault o2 operation) (Some reason))))))"

definition standalone_sent :: "timestamp \<Rightarrow> egress_terms \<Rightarrow> egress_input \<Rightarrow> DeviceExecutionJobDispatchPermit
    \<Rightarrow> DeviceExecutionRootRow \<Rightarrow> DeviceExecutionOperationRow \<Rightarrow> egress_result tx" where
  "standalone_sent now t i p r operation =
     (let meta = jwith (et_metadata t) (permit_members p) in
      tx_bind (if rootIsDispatched r then tx_return (Some r)
               else transitionRootState now (rt_id r) sent_selector False meta) (\<lambda>moved.
      (case moved of
         None \<Rightarrow>
           tx_bind (note_event r (rt_device r) ''dispatch_cas_missed'' (et_actor t)
             (Some ''state_changed_before_dispatched'') meta)
           (\<lambda>_. tx_return (permit_answer p True Rejected r operation (Some ''state_changed_before_dispatched'')))
       | Some d \<Rightarrow>
           tx_bind (transitionOperationState now (et_op_kind t) (eg_item i) sent_selector
             (Some (handle_generation (jp_handle p))) (Some (jp_wire p)) meta) (\<lambda>o2.
           tx_bind (move_event r d (if et_requires t then ''child_dispatched_under_root'' else ''root_dispatched'')
             (et_actor t) None meta)
           (\<lambda>_. tx_return (permit_answer p True Dispatched d (odefault o2 operation) None))))))"

definition standalone_refused :: "egress_terms \<Rightarrow> egress_input \<Rightarrow> DeviceExecutionJobDispatchPermit \<Rightarrow> bool
    \<Rightarrow> string option \<Rightarrow> DeviceExecutionRootRow \<Rightarrow> DeviceExecutionOperationRow \<Rightarrow> egress_result tx" where
  "standalone_refused t i p sent err r operation =
     tx_bind (note_event r (eg_device i) ''dispatch_completion_cas_missed'' (et_actor t)
       (Some ''root_device_generation_or_state_mismatch'')
       (jwith (et_metadata t) ([(''expectedGeneration'', Some (JNum (hd_generation (jp_handle p)))),
          (''actualGeneration'', Some (JNum (of_int (rt_generation r)))), (''rootDeviceId'', jstr (rt_device r))]
          @ permit_members p @ wire_members sent err)))
     (\<lambda>_. tx_return (permit_answer p sent Rejected r operation (Some ''root_device_generation_or_state_mismatch'')))"

definition standalone_completed :: "timestamp \<Rightarrow> egress_terms \<Rightarrow> egress_input \<Rightarrow> DeviceExecutionJobDispatchPermit
    \<Rightarrow> bool \<Rightarrow> string option \<Rightarrow> DeviceExecutionRootRow \<Rightarrow> DeviceExecutionOperationRow \<Rightarrow> egress_result tx" where
  "standalone_completed now t i p sent err r operation =
     (if same_owner i (jp_handle p) r operation \<and> already_ended t r operation
      then tx_bind (note_event r (rt_device r) ''dispatch_completion_after_terminal'' (et_actor t)
          (Some (if sent then ''result_arrived_before_wire_dispatch_returned''
                 else ''terminal_result_precedes_transport_failure''))
          (jwith (et_metadata t) (permit_members p @ wire_members sent err)))
        (\<lambda>_. tx_return (permit_answer p sent Terminal r operation (Some ''result_already_terminal'')))
      else if \<not> same_owner i (jp_handle p) r operation
        \<or> (\<not> rootIsDispatching r \<and> \<not> (et_requires t \<and> rootIsDispatched r))
      then standalone_refused t i p sent err r operation
      else if \<not> sent then standalone_not_sent now t i p err r operation
      else standalone_sent now t i p r operation)"

definition completion_lost :: "egress_terms \<Rightarrow> egress_input \<Rightarrow> egress_result \<Rightarrow> bool
    \<Rightarrow> (string \<times> json option) list \<Rightarrow> egress_result tx" where
  "completion_lost t i prepared sent ms =
     tx_bind (device_event (eg_device i) ''egress_completion_missing_handle'' (et_actor t)
       (Some ''missing_root_or_operation'') (jwith (et_metadata t) ms))
     (\<lambda>_. tx_return (prepared\<lparr>er_sent := sent, dr_reason := Some ''missing_root_or_operation''\<rparr>))"

text \<open>The rows a second transaction reads: the root the handle names and the operation.\<close>

definition egress_rows :: "egress_terms \<Rightarrow> egress_input \<Rightarrow> DeviceExecutionHandle
    \<Rightarrow> (DeviceExecutionRootRow \<Rightarrow> DeviceExecutionOperationRow \<Rightarrow> egress_result tx) \<Rightarrow> egress_result tx
    \<Rightarrow> egress_result tx" where
  "egress_rows t i h go lost =
     tx_bind (tx_get (selectRoot (Some (hd_root h)) (Some (et_kind t)) None)) (\<lambda>found.
     tx_bind (tx_get (selectOperationByIdentity (et_op_kind t) (eg_item i))) (\<lambda>operation.
     (case found of
        None \<Rightarrow> lost
      | Some r \<Rightarrow> (case operation of None \<Rightarrow> lost | Some o1 \<Rightarrow> go r o1))))"

definition standalone_complete :: "timestamp \<Rightarrow> egress_terms \<Rightarrow> egress_input \<Rightarrow> egress_result
    \<Rightarrow> DeviceExecutionJobDispatchPermit \<Rightarrow> bool \<Rightarrow> string option \<Rightarrow> egress_result tx" where
  "standalone_complete now t i prepared p sent err =
     egress_rows t i (jp_handle p) (standalone_completed now t i p sent err)
       (completion_lost t i prepared sent (wire_members sent err))"

section \<open>The runner of a standalone job\<close>

text \<open>
  \<open>others\<close> is what other transactions do to the tables while the transport is called;
  the boundary policy is read before the first transaction.
\<close>

definition runStandaloneJobEgress :: "timestamp \<Rightarrow> timestamp \<Rightarrow> string \<Rightarrow> (DeviceExecutionRootRow \<Rightarrow> bool)
    \<Rightarrow> (DeviceExecutionJobDispatchPermit \<Rightarrow> string option) \<Rightarrow> (DeviceExecutionJobDispatchPermit \<Rightarrow> string + bool)
    \<Rightarrow> (arb_db \<Rightarrow> arb_db) \<Rightarrow> egress_input \<Rightarrow> arb_db \<Rightarrow> egress_result res \<times> arb_db" where
  "runStandaloneJobEgress now later newId unlocked registerWaiter wireDispatch others i db =
     (case standalone_terms (ad_lc db) i of
        Inl e \<Rightarrow> (Inl e, db)
      | Inr t \<Rightarrow>
          (case withTransaction (standalone_prepare now newId unlocked t i) db of
             (Inl e, db1) \<Rightarrow> (Inl e, db1)
           | (Inr prepared, db1) \<Rightarrow>
               (case er_permit prepared of
                  None \<Rightarrow> (Inr prepared, db1)
                | Some p \<Rightarrow>
                    (case wire_attempt (registerWaiter p) (wireDispatch p) of
                       (sent, err) \<Rightarrow>
                         withTransaction (standalone_complete later t i prepared p sent err) (others db1)))))"

section \<open>Observed egress\<close>

definition observed_open :: "timestamp \<Rightarrow> egress_terms \<Rightarrow> egress_input \<Rightarrow> DeviceExecutionRootRow
    \<Rightarrow> DeviceExecutionOperationRow \<Rightarrow> egress_result tx" where
  "observed_open now t i r operation =
     tx_bind (if rootIsInitialPhase r \<or> rootIsClaimed r
              then transitionRootState now (rt_id r) root_dispatching_selector (rootIsInitialPhase r) (et_metadata t)
              else tx_return None) (\<lambda>moved.
     let current = odefault moved r; h = regenerate operation (rt_generation current) in
     tx_bind (transitionOperationState now (et_op_kind t) (eg_item i) dispatching_selector
       (Some (rt_generation current)) (Some (encodeDeviceExecutionHandle h))
       (jwith (et_metadata t) [(''handle'', Some (handle_json h))])) (\<lambda>o2.
     tx_bind (move_event r current ''root_dispatching'' (et_actor t) None
       (jwith (et_metadata t) [own_handle_member (odefault o2 operation)]))
     (\<lambda>_. tx_return ((egress (answer_op Claimed current (odefault o2 operation) None))\<lparr>er_ready := True\<rparr>))))"

definition observed_queued :: "timestamp \<Rightarrow> (DeviceExecutionRootRow \<Rightarrow> bool) \<Rightarrow> egress_terms \<Rightarrow> egress_input
    \<Rightarrow> DeviceExecutionRootRow \<Rightarrow> DeviceExecutionOperationRow \<Rightarrow> egress_result tx" where
  "observed_queued now unlocked t i r operation =
     (if rootIsInitialPhase r
      then tx_bind (tx_get (selectOldestQueuedRoot unlocked (eg_device i))) (\<lambda>oldest.
        if map_option rt_id oldest \<noteq> Some (rt_id r)
        then egress_wait t r operation (map_option rt_id oldest) ''egress_waiting_fifo_predecessor''
          ''older_queued_root_exists'' (Some ''older_queued_root_exists'')
          [(''predecessorRootId'', Some (jnullable (map_option rt_id oldest)))]
        else observed_open now t i r operation)
      else observed_open now t i r operation)"

definition observed_owned :: "timestamp \<Rightarrow> (DeviceExecutionRootRow \<Rightarrow> bool) \<Rightarrow> egress_terms \<Rightarrow> egress_input
    \<Rightarrow> DeviceExecutionRootRow \<Rightarrow> egress_result tx" where
  "observed_owned now unlocked t i r =
     (if rootIsTerminal r
      then tx_return (egress ((answer Terminal (Some r))\<lparr>dr_reason := Some ''root_already_terminal''\<rparr>))
      else if rt_reconciliation r \<noteq> None
      then tx_return (egress ((answer Ambiguous (Some r))\<lparr>dr_reason := Some (rt_state r)\<rparr>))
      else tx_bind (register_operation now t i r) (\<lambda>operation.
        tx_bind (tx_get (selectActiveRoot (eg_device i))) (\<lambda>active.
        (case active of
           Some a \<Rightarrow>
             if rt_id a \<noteq> rt_id r \<and> rootIsInitialPhase r
             then egress_busy t r operation a ''observe_would_block_egress'' None
             else observed_queued now unlocked t i r operation
         | None \<Rightarrow> observed_queued now unlocked t i r operation))))"

definition observed_prepare :: "timestamp \<Rightarrow> string \<Rightarrow> (DeviceExecutionRootRow \<Rightarrow> bool) \<Rightarrow> egress_terms
    \<Rightarrow> egress_input \<Rightarrow> egress_result tx" where
  "observed_prepare now newId unlocked t i = egress_enter now newId t i (observed_owned now unlocked t i)"

definition observed_not_sent :: "timestamp \<Rightarrow> egress_terms \<Rightarrow> egress_input \<Rightarrow> DeviceExecutionHandle \<Rightarrow> string option
    \<Rightarrow> DeviceExecutionRootRow \<Rightarrow> DeviceExecutionOperationRow \<Rightarrow> egress_result tx" where
  "observed_not_sent now t i h err r operation =
     tx_bind (updateRootAmbiguous now (rt_id r) (eg_device i) (handle_generation h) blocked_selector
       (odefault err ''device_offline_or_transport_rejected_after_dispatching'') (et_metadata t)) (\<lambda>b.
     tx_bind (transitionOperationState now (et_op_kind t) (eg_item i) blocked_selector
       (Some (handle_generation h)) None (jwith (et_metadata t) [(''wireError'', Some (jnullable err))])) (\<lambda>o2.
     tx_bind (insertEvent \<lparr>ei_root = Some (rt_id r), ei_device = Some (rt_device r),
       ei_type = ''egress_not_sent_fail_closed'', ei_previous = Some (rt_state r),
       ei_new = Some (rt_state (odefault b r)), ei_actor = Some (et_actor t),
       ei_reason = Some (odefault err ''device_offline_or_transport_rejected''),
       ei_metadata = jwith (et_metadata t) [own_handle_member operation]\<rparr>)
     (\<lambda>_. tx_return (egress (answer_op Offline (odefault b r) (odefault o2 operation)
       (Some (odefault err ''device_offline_or_transport_rejected'')))))))"

definition observed_sent :: "timestamp \<Rightarrow> egress_terms \<Rightarrow> egress_input \<Rightarrow> string option
    \<Rightarrow> DeviceExecutionRootRow \<Rightarrow> DeviceExecutionOperationRow \<Rightarrow> egress_result tx" where
  "observed_sent now t i waited r operation =
     tx_bind (if rootIsDispatching r then transitionRootState now (rt_id r) sent_selector False (et_metadata t)
              else tx_return (Some r)) (\<lambda>moved.
     let d = odefault moved r; h = regenerate operation (rt_generation d) in
     tx_bind (transitionOperationState now (et_op_kind t) (eg_item i) sent_selector (Some (rt_generation d))
       (Some (encodeDeviceExecutionHandle h)) (jwith (et_metadata t) [(''handle'', Some (handle_json h))])) (\<lambda>o2.
     tx_bind (move_event r d (if rootIsDispatching r then ''root_dispatched''
         else ''observe_dispatched_without_root_transition'') (et_actor t) None
       (jwith (et_metadata t) [own_handle_member (odefault o2 operation)]))
     (\<lambda>_. tx_return ((egress ((answer_op Dispatched d (odefault o2 operation) None)\<lparr>dr_active_root := waited\<rparr>))
       \<lparr>er_sent := True\<rparr>))))"

definition observed_completed :: "timestamp \<Rightarrow> egress_terms \<Rightarrow> egress_input \<Rightarrow> egress_result \<Rightarrow> DeviceExecutionHandle
    \<Rightarrow> bool \<Rightarrow> string option \<Rightarrow> DeviceExecutionRootRow \<Rightarrow> DeviceExecutionOperationRow \<Rightarrow> egress_result tx" where
  "observed_completed now t i prepared h sent err r operation =
     (if same_owner i h r operation \<and> already_ended t r operation
      then tx_bind (note_event r (rt_device r) ''dispatch_completion_after_terminal'' (et_actor t)
          (Some ''result_arrived_before_wire_dispatch_returned'')
          (jwith (et_metadata t) ((''handle'', Some (handle_json h)) # wire_members sent err)))
        (\<lambda>_. tx_return ((egress ((answer_op Terminal r operation (Some ''result_already_terminal''))
           \<lparr>dr_handle := Some h\<rparr>))\<lparr>er_sent := sent\<rparr>))
      else if \<not> sent then observed_not_sent now t i h err r operation
      else observed_sent now t i (dr_active_root prepared) r operation)"

definition observed_complete :: "timestamp \<Rightarrow> egress_terms \<Rightarrow> egress_input \<Rightarrow> egress_result
    \<Rightarrow> DeviceExecutionHandle \<Rightarrow> bool \<Rightarrow> string option \<Rightarrow> egress_result tx" where
  "observed_complete now t i prepared h sent err =
     egress_rows t i h (observed_completed now t i prepared h sent err)
       (completion_lost t i prepared sent [(''operationKind'', jstr (et_op_kind t)),
          (''operationId'', jstr (eg_item i)), (''sent'', Some (JBool sent)), (''wireError'', jostr err)])"

definition runObservedEgress :: "timestamp \<Rightarrow> timestamp \<Rightarrow> string \<Rightarrow> (DeviceExecutionRootRow \<Rightarrow> bool)
    \<Rightarrow> (DeviceExecutionHandle \<Rightarrow> string option) \<Rightarrow> (DeviceExecutionHandle \<Rightarrow> string + bool)
    \<Rightarrow> (arb_db \<Rightarrow> arb_db) \<Rightarrow> egress_input \<Rightarrow> arb_db \<Rightarrow> egress_result res \<times> arb_db" where
  "runObservedEgress now later newId unlocked registerWaiter wireDispatch others i db =
     (case observed_terms (ad_lc db) i of
        Inl e \<Rightarrow> (Inl e, db)
      | Inr t \<Rightarrow>
          (case withTransaction (observed_prepare now newId unlocked t i) db of
             (Inl e, db1) \<Rightarrow> (Inl e, db1)
           | (Inr prepared, db1) \<Rightarrow>
               (case (dr_handle prepared, er_ready prepared) of
                  (Some h, True) \<Rightarrow>
                    (case wire_attempt (registerWaiter h) (wireDispatch h) of
                       (sent, err) \<Rightarrow>
                         withTransaction (observed_complete later t i prepared h sent err) (others db1))
                | _ \<Rightarrow> (Inr prepared, db1))))"

section \<open>Recorded decisions\<close>

record boundary_note =
  bn_device :: string
  bn_operation :: string
  bn_kind :: string
  bn_actor :: string
  bn_reason :: string
  bn_metadata :: "jobj option"

definition recordRejectedEgress :: "boundary_note \<Rightarrow> unit tx" where
  "recordRejectedEgress n = device_event (bn_device n) ''egress_rejected_before_wire'' (bn_actor n) (Some (bn_reason n))
     (jmerge (jwith [] [(''operationId'', jstr (bn_operation n)), (''wireType'', jstr (bn_kind n))])
       (member_metadata (bn_metadata n)))"

text \<open>The control policy: the allowed kinds and whether they may bypass the queue.\<close>

definition control_policy :: "jobj \<Rightarrow> string \<Rightarrow> bool res" where
  "control_policy policy kind =
     (case jget policy ''control'' of
        Some (JObj configured) \<Rightarrow>
          (case (jget configured ''allowedKinds'', boolean_field configured ''mayBypassDeviceQueue'') of
             (Some (JArr kinds), Some bypass) \<Rightarrow>
               if list_all (\<lambda>v. case v of JStr _ \<Rightarrow> True | _ \<Rightarrow> False) kinds \<and> JStr kind \<in> set kinds
               then Inr bypass else Inl ''device execution control kind is not authorized''
           | _ \<Rightarrow> Inl ''device execution control kind is not authorized'')
      | _ \<Rightarrow> Inl ''device execution control policy is not configured'')"

definition recordControlEgress :: "boundary_note \<Rightarrow> unit tx" where
  "recordControlEgress n =
     tx_bind (tx_try (\<lambda>db. res_bind (getResourceLifecyclePolicy (ad_lc db) ''device_execution_roots'' ''state'')
       (\<lambda>policy. control_policy policy (bn_kind n)))) (\<lambda>bypass.
     device_event (bn_device n) ''control_egress_authorized'' (bn_actor n) (Some (bn_kind n))
       (jmerge (jwith [] [(''operationId'', jstr (bn_operation n)), (''controlKind'', jstr (bn_kind n)),
          (''queueBypass'', Some (JBool bypass)), (''mayCarryUiWork'', Some (JBool False))])
         (member_metadata (bn_metadata n))))"

record corrupt_input =
  ci_device :: string
  ci_root :: string
  ci_kind :: string
  ci_generation :: int
  ci_operation :: string
  ci_actor :: string
  ci_reason :: string
  ci_metadata :: "jobj option"

definition markCorruptQueueHead :: "timestamp \<Rightarrow> corrupt_input \<Rightarrow> unit tx" where
  "markCorruptQueueHead now c =
     tx_bind (tx_get (selectRoot (Some (ci_root c)) (Some (ci_kind c)) None)) (\<lambda>found.
     (case (case found of Some r \<Rightarrow> if rt_device r = ci_device c \<and> rt_generation r = ci_generation c then Some r else None
            | None \<Rightarrow> None) of
        None \<Rightarrow> device_event (ci_device c) ''queue_replay_corruption_mark_rejected'' (ci_actor c)
          (Some ''queue_head_identity_changed'')
          (jmerge (jwith [] [(''rootId'', jstr (ci_root c)), (''operationId'', jstr (ci_operation c))])
            (member_metadata (ci_metadata c)))
      | Some r \<Rightarrow>
          tx_bind (updateRootAmbiguous now (rt_id r) (ci_device c) (ci_generation c) blocked_selector (ci_reason c)
            (member_metadata (ci_metadata c))) (\<lambda>b.
          tx_bind (transitionOperationState now ''job'' (ci_operation c) blocked_selector (Some (ci_generation c)) None
            (member_metadata (ci_metadata c))) (\<lambda>_.
          insertEvent \<lparr>ei_root = Some (rt_id r), ei_device = Some (ci_device c),
            ei_type = ''queue_replay_corrupt_head_blocked'', ei_previous = Some (rt_state r),
            ei_new = Some (rt_state (odefault b r)), ei_actor = Some (ci_actor c), ei_reason = Some (ci_reason c),
            ei_metadata = jmerge (jwith [] [(''operationId'', jstr (ci_operation c))])
              (member_metadata (ci_metadata c))\<rparr>))))"

section \<open>Startup\<close>

text \<open>\<^verbatim>\<open>reconcileInFlightAtStartup\<close>: roots in flight and their live operations are blocked.\<close>

definition flight_selector :: LifecycleStateSelector where
  "flight_selector = any_state\<lparr>sel_initial := Some False, sel_terminal := Some False, sel_manual := Some False\<rparr>"

definition manual_selector :: LifecycleStateSelector where
  "manual_selector = any_state\<lparr>sel_manual := Some True, sel_terminal := Some False\<rparr>"

definition in_flight_target :: "lc_db \<Rightarrow> DeviceExecutionRootRow \<Rightarrow> string option res" where
  "in_flight_target lc r =
     (if root_matches lc (rt_state r) flight_selector
      then lifecycle_transition_target lc ''device_execution_roots'' (rt_state r) blocked_selector else Inr None)"

definition block_root :: "timestamp \<Rightarrow> string \<Rightarrow> jobj \<Rightarrow> lc_db \<Rightarrow> DeviceExecutionRootRow \<Rightarrow> DeviceExecutionRootRow" where
  "block_root now reason m lc r =
     (case in_flight_target lc r of Inr (Some s) \<Rightarrow> mark_ambiguous now s reason m r | _ \<Rightarrow> r)"

text \<open>The roots that were blocked, with the state each came from.\<close>

definition blockInFlightRoots :: "timestamp \<Rightarrow> string \<Rightarrow> jobj \<Rightarrow> (string \<times> DeviceExecutionRootRow) list tx" where
  "blockInFlightRoots now reason m db =
     (let lc = ad_lc db in
      if list_ex (\<lambda>r. case in_flight_target lc r of Inl _ \<Rightarrow> True | Inr _ \<Rightarrow> False) (ad_roots db)
      then Inl ''lifecycle transition selector is ambiguous for configured resource''
      else Inr (concat (map (\<lambda>r. case in_flight_target lc r of
                  Inr (Some _) \<Rightarrow> [(rt_state r, block_root now reason m lc r)] | _ \<Rightarrow> []) (ad_roots db)),
                db\<lparr>ad_roots := map (block_root now reason m lc) (ad_roots db)\<rparr>))"

definition block_target :: "lc_db \<Rightarrow> string set \<Rightarrow> DeviceExecutionOperationRow \<Rightarrow> string option res" where
  "block_target lc ids o1 =
     (if op_root o1 \<in> ids \<and> \<not> op_matches lc (op_state o1) terminal_selector
      then lifecycle_transition_target lc ''device_execution_operations'' (op_state o1) blocked_selector else Inr None)"

definition block_operation :: "timestamp \<Rightarrow> jobj \<Rightarrow> lc_db \<Rightarrow> string set \<Rightarrow> DeviceExecutionOperationRow
    \<Rightarrow> DeviceExecutionOperationRow" where
  "block_operation now m lc ids o1 =
     (case block_target lc ids o1 of
        Inr (Some s) \<Rightarrow> o1\<lparr>op_state := s, op_updated := now, op_metadata := jmerge (op_metadata o1) m\<rparr>
      | _ \<Rightarrow> o1)"

definition blockOperationsOf :: "timestamp \<Rightarrow> jobj \<Rightarrow> string set \<Rightarrow> unit tx" where
  "blockOperationsOf now m ids db =
     (let lc = ad_lc db in
      if list_ex (\<lambda>o1. case block_target lc ids o1 of Inl _ \<Rightarrow> True | Inr _ \<Rightarrow> False) (ad_ops db)
      then Inl ''lifecycle transition selector is ambiguous for configured resource''
      else Inr ((), db\<lparr>ad_ops := map (block_operation now m lc ids) (ad_ops db)\<rparr>))"

fun startup_events :: "string \<Rightarrow> string \<Rightarrow> jobj \<Rightarrow> (string \<times> DeviceExecutionRootRow) list \<Rightarrow> unit tx" where
  "startup_events actor reason m [] = tx_return ()"
| "startup_events actor reason m ((previous, r) # rs) =
     tx_bind (insertEvent \<lparr>ei_root = Some (rt_id r), ei_device = Some (rt_device r), ei_type = ''startup_reconciled_root'',
       ei_previous = Some previous, ei_new = Some (rt_state r), ei_actor = Some actor, ei_reason = Some reason,
       ei_metadata = m\<rparr>) (\<lambda>_. startup_events actor reason m rs)"

definition reconcileInFlightAtStartup :: "timestamp \<Rightarrow> string option \<Rightarrow> string option \<Rightarrow> jobj option \<Rightarrow> (nat \<times> nat) tx" where
  "reconcileInFlightAtStartup now actor reason metadata =
     (let a = odefault actor ''startup''; e = odefault reason ''server_startup_reconciliation'';
          m = jwith (member_metadata metadata) [(''failClosed'', Some (JBool True)), (''observeMode'', Some (JBool True))]
      in tx_bind (blockInFlightRoots now e m) (\<lambda>blocked.
         tx_bind (blockOperationsOf now m (rt_id ` snd ` set blocked)) (\<lambda>_.
         tx_bind (startup_events a e m blocked) (\<lambda>_.
         tx_bind (tx_get (\<lambda>db. length (filter (\<lambda>r. root_matches (ad_lc db) (rt_state r) manual_selector) (ad_roots db))))
         (\<lambda>n. tx_return (length blocked, n))))))"

record device_snapshot =
  sn_device :: string
  sn_active :: "DeviceExecutionRoot option"
  sn_queued :: nat
  sn_recent :: "DeviceExecutionRoot list"

definition getDeviceSnapshot :: "string \<Rightarrow> arb_db \<Rightarrow> device_snapshot" where
  "getDeviceSnapshot device db =
     \<lparr>sn_device = device, sn_active = map_option rowToRoot (selectActiveRoot device db),
      sn_queued = length (filter (\<lambda>r. rt_device r = device \<and> root_matches (ad_lc db) (rt_state r) initial_selector) (ad_roots db)),
      sn_recent = map rowToRoot (take 20 (sort_key (\<lambda>r. - int (rt_created r))
        (filter (\<lambda>r. rt_device r = device) (ad_roots db))))\<rparr>"

end
