(* ===== verification/Arbiter_Frame.thy ===== *)
theory Arbiter_Frame imports Arbiter_Egress
begin

text \<open>
  Reasoning about arbiter transactions. \<open>valid P m Q\<close> says that a transaction that
  returns takes states of \<open>P\<close> to states of \<open>Q\<close>. The locale \<open>arbiter_frame\<close> states what
  the handlers need of an assertion on the tables, statement by statement, and proves
  once that every handler keeps it; its assertion carries the set of root rows that were
  read and are still current. The interpretations are in \<open>Arbiter_Facts\<close>.
\<close>

section \<open>Rules for transactions\<close>

definition valid :: "(arb_db \<Rightarrow> bool) \<Rightarrow> 'a tx \<Rightarrow> ('a \<Rightarrow> arb_db \<Rightarrow> bool) \<Rightarrow> bool" where
  "valid P m Q \<longleftrightarrow> (\<forall>db x db'. P db \<longrightarrow> m db = Inr (x, db') \<longrightarrow> Q x db')"

lemma validI: "(\<And>db x db'. P db \<Longrightarrow> m db = Inr (x, db') \<Longrightarrow> Q x db') \<Longrightarrow> valid P m Q"
  by (auto simp: valid_def)

lemma validD: "valid P m Q \<Longrightarrow> P db \<Longrightarrow> m db = Inr (x, db') \<Longrightarrow> Q x db'"
  by (auto simp: valid_def)

lemma valid_bind:
  assumes "valid P m R" "\<And>x. valid (R x) (f x) Q"
  shows "valid P (tx_bind m f) Q"
  using assms by (auto simp: valid_def tx_bind_def split: sum.splits)

lemma valid_weaken: "valid P m Q \<Longrightarrow> (\<And>x db. Q x db \<Longrightarrow> Q' x db) \<Longrightarrow> valid P m Q'"
  by (auto simp: valid_def)

lemma valid_strengthen: "valid P m Q \<Longrightarrow> (\<And>db. P' db \<Longrightarrow> P db) \<Longrightarrow> valid P' m Q"
  by (auto simp: valid_def)

lemma valid_fail: "valid P (tx_fail e) Q"
  by (simp add: valid_def tx_fail_def)

lemma valid_return: "(\<And>db. P db \<Longrightarrow> Q x db) \<Longrightarrow> valid P (tx_return x) Q"
  by (simp add: valid_def tx_return_def)

lemma valid_get: "valid P (tx_get f) (\<lambda>x db. P db \<and> x = f db)"
  by (simp add: valid_def tx_get_def)

lemma valid_try: "valid P (tx_try f) (\<lambda>x db. P db \<and> f db = Inr x)"
  by (simp add: valid_def tx_try_def split: sum.splits)

lemma valid_pure: "(A \<Longrightarrow> valid P m Q) \<Longrightarrow> valid (\<lambda>db. P db \<and> A) m Q"
  by (auto simp: valid_def)

lemma valid_if: "(c \<Longrightarrow> valid P a Q) \<Longrightarrow> (\<not> c \<Longrightarrow> valid P b Q) \<Longrightarrow> valid P (if c then a else b) Q"
  by simp

lemma valid_option:
  "(x = None \<Longrightarrow> valid P a Q) \<Longrightarrow> (\<And>y. x = Some y \<Longrightarrow> valid P (b y) Q) \<Longrightarrow>
     valid P (case x of None \<Rightarrow> a | Some y \<Rightarrow> b y) Q"
  by (cases x) auto

section \<open>Facts about queries\<close>

lemma find_in: "find p xs = Some x \<Longrightarrow> x \<in> set xs \<and> p x"
  by (induction xs) (auto split: if_splits)

lemma selectRoot_in: "selectRoot i k e db = Some r \<Longrightarrow> r \<in> set (ad_roots db)"
  by (auto simp: selectRoot_def root_by_id_def selectRootByExternalId_def dest: find_in split: option.splits)

lemma selectRootByExternalId_in: "selectRootByExternalId k e db = Some r \<Longrightarrow> r \<in> set (ad_roots db)"
  by (auto simp: selectRootByExternalId_def dest: find_in)

lemma selectActiveRoot_in:
  assumes "selectActiveRoot device db = Some r"
  shows "r \<in> set (ad_roots db)" "rt_device r = device" "root_matches (ad_lc db) (rt_state r) active_selector"
  using first_row_in [OF assms [unfolded selectActiveRoot_def]] by auto

lemma selectActiveRoot_None:
  "selectActiveRoot device db = None \<longleftrightarrow>
     (\<forall>r \<in> set (ad_roots db). rt_device r = device \<longrightarrow> \<not> root_matches (ad_lc db) (rt_state r) active_selector)"
proof -
  have s: "sort_key f xs = [] \<longleftrightarrow> xs = []" for f :: "DeviceExecutionRootRow \<Rightarrow> int" and xs
    by (simp flip: set_empty)
  show ?thesis unfolding selectActiveRoot_def first_row_eq_None s filter_empty_conv by blast
qed

lemma selectOldestQueuedRoot_in:
  assumes "selectOldestQueuedRoot unlocked device db = Some r"
  shows "r \<in> set (ad_roots db)" "rt_device r = device" "root_matches (ad_lc db) (rt_state r) initial_selector"
    "unlocked r"
  using first_row_in [OF assms [unfolded selectOldestQueuedRoot_def]] by auto

text \<open>On a valid configuration a status names one state of the bound lifecycle.\<close>

lemma lookup_state:
  assumes wf: "wf_config lc" and s: "s \<in> set (db_states lc)" and b: "bound_keys lc table column = [ls_key s]"
  shows "getResourceLifecycleState lc table (ls_status s) column = Some (rowToState s)"
proof -
  have d: "distinct (map state_identity (db_states lc))" using wf by (simp add: wf_config_def keys_distinct_def)
  have "filter (\<lambda>x. state_identity x = (ls_key s, ls_status s)) (db_states lc) = [s]"
    by (rule filter_distinct_single [OF d s]) (simp add: state_identity_def)
  then have "resource_state_rows lc table (ls_status s) column = [s]"
    by (simp add: resource_state_rows_def b state_identity_def)
  then show ?thesis by (simp add: getResourceLifecycleState_def)
qed

lemma rowToState_fields [simp]:
  "ls_status (rowToState s) = ls_status s" "ls_initial (rowToState s) = ls_initial s"
  "ls_terminal (rowToState s) = ls_terminal s" "ls_dispatchable (rowToState s) = ls_dispatchable s"
  by (simp_all add: rowToState_def LifecycleStateDefinition.truncate_def)

abbreviation root_state :: "lc_db \<Rightarrow> string \<Rightarrow> LifecycleStateDefinition option" where
  "root_state lc status \<equiv> getResourceLifecycleState lc ''device_execution_roots'' status ''state''"

lemma root_matches_iff:
  "root_matches lc status terminal_selector \<longleftrightarrow> (\<exists>s. root_state lc status = Some s \<and> ls_terminal s)"
  "root_matches lc status initial_selector \<longleftrightarrow> (\<exists>s. root_state lc status = Some s \<and> ls_initial s)"
  "root_matches lc status active_selector \<longleftrightarrow>
     (\<exists>s. root_state lc status = Some s \<and> \<not> ls_initial s \<and> \<not> ls_terminal s)"
  by (auto simp: root_matches_def resourceLifecycleStateMatches_def state_satisfies_def terminal_selector_def
      initial_selector_def active_selector_def any_state_def split: option.splits)

text \<open>The target of a selected transition is a configured state that meets the selector.\<close>

lemma selected_target:
  assumes wf: "wf_config lc"
    and sel: "selectResourceLifecycleTransition lc ''device_execution_roots'' from1 sel ''state'' = Inr (Some t)"
  obtains s where "s \<in> set (db_states lc)" "root_state lc (lt_to t) = Some (rowToState s)"
    "lifecycleTransitionSelectorPredicate lc sel t s" "t \<in> set (db_transitions lc)" "ls_key s = lt_key t"
    "ls_status s = lt_to t" "bound_keys lc ''device_execution_roots'' ''state'' = [lt_key t]"
proof -
  obtain s where s: "s \<in> set (db_states lc)" "ls_key s = lt_key t" "ls_status s = lt_to t"
      "lifecycleTransitionSelectorPredicate lc sel t s" "bound_keys lc ''device_execution_roots'' ''state'' = [lt_key t]"
      "t \<in> set (db_transitions lc)"
    using select_target [OF wf sel] by metis
  have "root_state lc (ls_status s) = Some (rowToState s)"
    using lookup_state [OF wf s(1)] s(2,5) by simp
  then show thesis using s that by simp
qed

text \<open>A root in its initial phase waits for the active root of its device.\<close>

definition free :: "DeviceExecutionRootRow \<Rightarrow> arb_db \<Rightarrow> bool" where
  "free r db \<longleftrightarrow> (rootIsInitialPhase r \<longrightarrow>
     (case selectActiveRoot (rt_device r) db of None \<Rightarrow> True | Some a \<Rightarrow> rt_id a = rt_id r))"

section \<open>The contract\<close>

locale arbiter_frame =
  fixes lc :: lc_db and K :: "DeviceExecutionRootRow set \<Rightarrow> arb_db \<Rightarrow> bool"
  assumes K_lc: "K rs db \<Longrightarrow> ad_lc db = lc"
    and K_mono: "K rs db \<Longrightarrow> rs' \<subseteq> rs \<Longrightarrow> K rs' db"
    and K_read: "K rs db \<Longrightarrow> r \<in> set (ad_roots db) \<Longrightarrow> K (insert r rs) db"
    and K_initial: "K rs db \<Longrightarrow> r \<in> set (ad_roots db) \<Longrightarrow> root_matches lc (rt_state r) initial_selector
        \<Longrightarrow> \<not> rootIsTerminal r"
    and K_event: "valid (K rs) (insertEvent e) (\<lambda>_. K rs)"
    and K_workflow: "valid (K rs) (tx_transitionWorkflow now i sel) (\<lambda>_. K rs)"
    and K_upsert: "r \<in> rs \<Longrightarrow> valid (K rs) (upsertOperation now r kind i target lane w m) (\<lambda>_. K rs)"
    and K_operation: "valid (K rs) (updateOperationState now kind i from1 to1 g wh m) (\<lambda>_. K rs)"
    and K_cancel_ops: "valid (K rs) (cancelRegisteredOperationsForRoot now i gen m) (\<lambda>_. K rs)"
    and K_insert: "valid (K rs) (insertRoot now i d k ext q m) (\<lambda>r. K (insert r rs))"
    and K_advance: "r \<in> rs \<Longrightarrow> \<not> rootIsTerminal r \<Longrightarrow> targetTerminal sel = Some False \<Longrightarrow>
        valid (\<lambda>db. K rs db \<and> free r db) (transitionRootState now (rt_id r) sel inc m) (\<lambda>x. K (set_option x))"
    and K_terminal: "root_matches lc to1 terminal_selector \<Longrightarrow>
        valid (K rs) (updateRootTerminal now i d gen to1 reason m) (\<lambda>x. K (set_option x))"
    and K_queued: "valid (K rs) (updateQueuedRootTerminal now i d gen reason m) (\<lambda>x. K (set_option x))"
    and K_block: "r \<in> rs \<Longrightarrow> \<not> rootIsTerminal r \<Longrightarrow> \<not> rootIsInitialPhase r \<Longrightarrow> targetTerminal sel = Some False \<Longrightarrow>
        valid (K rs) (updateRootAmbiguous now (rt_id r) d gen sel reason m) (\<lambda>x. K (set_option x))"
    and K_flight: "valid (K rs) (blockInFlightRoots now reason m) (\<lambda>_. K {})"
    and K_block_ops: "valid (K rs) (blockOperationsOf now m ids) (\<lambda>_. K rs)"
    and K_wf: "wf_config lc"
begin

lemma get_any: "valid (K rs) (tx_get f) (\<lambda>_. K rs)"
  by (simp add: valid_def tx_get_def)

lemma try_any: "valid (K rs) (tx_try f) (\<lambda>_. K rs)"
  by (auto simp: valid_def tx_try_def split: sum.splits)

lemma try_lc: "valid (K rs) (tx_try (\<lambda>db. g (ad_lc db))) (\<lambda>x db. K rs db \<and> g lc = Inr x)"
  by (auto simp: valid_def tx_try_def K_lc split: sum.splits)

lemma get_root: 
  assumes "\<And>db r. f db = Some r \<Longrightarrow> r \<in> set (ad_roots db)"
  shows "valid (K rs) (tx_get f) (\<lambda>x. K (set_option x \<union> rs))"
proof (rule validI)
  fix db x db' assume "K rs db" "tx_get f db = Inr (x, db')"
  then show "K (set_option x \<union> rs) db'"
    using assms K_read by (cases x) (auto simp: tx_get_def)
qed

lemma get_selected:
  "valid (K rs) (tx_get (selectRoot i k ext)) (\<lambda>x. K (set_option x \<union> rs))"
  "valid (K rs) (tx_get (selectRootByExternalId kd external)) (\<lambda>x. K (set_option x \<union> rs))"
  by (rule get_root [OF selectRoot_in], assumption) (rule get_root [OF selectRootByExternalId_in], assumption)

lemma try_definition:
  "valid (K rs) (tx_try (\<lambda>db. terminal_definition (ad_lc db) st sel status))
     (\<lambda>x db. K rs db \<and> terminal_definition lc st sel status = Inr x)"
  "valid (K rs) (tx_try (\<lambda>db. selectResourceLifecycleTransition (ad_lc db) table st sl column))
     (\<lambda>x db. K rs db \<and> selectResourceLifecycleTransition lc table st sl column = Inr x)"
  by (rule try_lc)+

lemma return_K: "valid (K rs) (tx_return x) (\<lambda>_. K {})"
  by (rule valid_return) (rule K_mono, auto)

lemma return_same: "valid (K rs) (tx_return x) (\<lambda>_. K rs)"
  by (rule valid_return)

lemma events:
  "valid (K rs) (note_event r d type actor reason ms) (\<lambda>_. K rs)"
  "valid (K rs) (move_event r r' type actor reason ms) (\<lambda>_. K rs)"
  "valid (K rs) (birth_event r type actor reason ms) (\<lambda>_. K rs)"
  "valid (K rs) (device_event d type actor reason ms) (\<lambda>_. K rs)"
  unfolding note_event_def move_event_def birth_event_def device_event_def by (rule K_event)+

lemma operation_move: "valid (K rs) (transitionOperationState now kind i sel g wh m) (\<lambda>_. K rs)"
  unfolding transitionOperationState_def
  by (intro valid_bind [OF get_any] valid_option return_same valid_bind [OF try_any] K_operation)

lemma policy_of: "valid (K rs) (operation_policy operation) (\<lambda>_. K rs)"
  unfolding operation_policy_def
  by (intro valid_option return_same valid_bind [OF try_any])

lemmas keep = events operation_move policy_of K_operation K_cancel_ops K_workflow

text \<open>A root out of its initial phase needs no free slot.\<close>

lemma advance_started:
  assumes "r \<in> rs" "\<not> rootIsTerminal r" "\<not> rootIsInitialPhase r" "targetTerminal sel = Some False"
  shows "valid (K rs) (transitionRootState now (rt_id r) sel inc m) (\<lambda>x. K (set_option x))"
  by (rule valid_strengthen [OF K_advance [OF assms(1,2,4)]]) (simp add: free_def assms(3))

lemma target_terminal:
  assumes "selectResourceLifecycleTransition lc ''device_execution_roots'' from1 sel ''state'' = Inr (Some t)"
    "targetTerminal sel = Some True"
  shows "root_matches lc (lt_to t) terminal_selector"
  using selected_target [OF K_wf assms(1)] assms(2)
  by (metis lifecycleTransitionSelectorPredicate_def guard_opt_simps(2) root_matches_iff(1) rowToState_fields(3))

lemma state_terminal:
  assumes "getResourceLifecycleState lc ''device_execution_roots'' x ''state'' = Some s" "ls_terminal s"
  shows "root_matches lc (ls_status s) terminal_selector"
proof -
  obtain row where row: "first_row (resource_state_rows lc ''device_execution_roots'' x ''state'') = Some row"
      "s = rowToState row"
    using assms(1) by (auto simp: getResourceLifecycleState_def)
  have "ls_status row = x" using first_row_in [OF row(1)] by (auto simp: resource_state_rows_def)
  then have "ls_status s = x" using row(2) by (simp add: rowToState_def LifecycleStateDefinition.truncate_def)
  then show ?thesis using assms
    by (simp add: root_matches_def resourceLifecycleStateMatches_def state_satisfies_def terminal_selector_def any_state_def)
qed

lemma definition_terminal:
  assumes "terminal_definition lc state sel status = Inr (Some s)" "ls_terminal s"
  shows "root_matches lc (ls_status s) terminal_selector"
proof -
  obtain x where "getResourceLifecycleState lc ''device_execution_roots'' x ''state'' = Some s"
    using assms(1) by (auto simp: terminal_definition_def res_bind_eq_Inr split: option.splits)
  then show ?thesis using assms(2) by (rule state_terminal)
qed

end

end
