(* ===== verification/Arbiter_Handlers.thy ===== *)
theory Arbiter_Handlers imports Arbiter_Frame
begin

text \<open>
  Every handler of the device execution arbiter keeps an assertion that meets the contract
  \<open>arbiter_frame\<close>; \<open>updateRootAmbiguous\<close>, which only \<open>markAmbiguous\<close> uses, has a contract
  of its own that extends it.
\<close>

context arbiter_frame begin

lemma settle:
  assumes "r \<in> rs" "\<not> rootIsTerminal r" "root_matches lc to1 terminal_selector"
  shows "valid (K rs) (settle_root now child r d to1 reason m) (\<lambda>x. K (set_option x))"
  unfolding settle_root_def
proof (intro valid_if)
  assume "rootIsDispatching r"
  then have "\<not> rootIsInitialPhase r" by (simp add: rootIsDispatching_def rootIsInitialPhase_def)
  with assms show "valid (K rs) (transitionRootState now (rt_id r)
      (any_selector\<lparr>targetTerminal := Some False, transitionAutomatic := Some True\<rparr>) False m) (\<lambda>x. K (set_option x))"
    by (intro advance_started) (simp_all add: any_selector_def)
next
  show "valid (K rs) (tx_return (Some r)) (\<lambda>x. K (set_option x))"
    by (rule valid_return) (rule K_mono, use assms(1) in auto)
qed (rule K_terminal [OF assms(3)])

lemma upsert_some:
  "r \<in> rs \<Longrightarrow> valid (K rs) (tx_bind (upsertOperation now r kind i target lane w m) (\<lambda>u. tx_return (Some u))) (\<lambda>_. K rs)"
  by (intro valid_bind [OF K_upsert] return_same)

lemma operation_some:
  "valid (K rs) (tx_bind (updateOperationState now kind i from1 to1 g wh m) (\<lambda>u. tx_return (Some (odefault u o1)))) (\<lambda>_. K rs)"
  by (intro valid_bind [OF K_operation] return_same)

lemma admit_duplicate_keeps: "r \<in> rs \<Longrightarrow> valid (K rs) (admit_duplicate now i kp e r) (\<lambda>_. K {})"
  unfolding admit_duplicate_def
  by (intro valid_bind [OF K_upsert] valid_bind [OF events(1)] return_K)

lemma admit_new_keeps: "valid (K rs) (admit_new now newId i kind kp) (\<lambda>_. K {})"
  unfolding admit_new_def
proof (intro valid_bind [OF get_any] valid_bind [OF K_insert] valid_bind [OF events(3)])
  fix active :: "DeviceExecutionRootRow option" and r and u :: unit
  have ops: "valid (K (insert r rs)) (case nonempty (ai_external i) of None \<Rightarrow> tx_return None
      | Some external \<Rightarrow> tx_bind (upsertOperation now r (kp_op_kind kp) external None ''device_execution'' None
           (jwith [] [(''rootKind'', jstr kind), (''externalId'', jstr external), (''requestKey'', jostr (ai_request i))]))
           (\<lambda>o1. tx_return (Some o1))) (\<lambda>_. K (insert r rs))"
    by (intro valid_option return_same upsert_some) simp
  have event: "valid (K (insert r rs)) (case active of None \<Rightarrow> tx_return ()
      | Some a \<Rightarrow> note_event r (rt_device r) ''observe_would_wait'' (odefault (ai_actor i) ''server'')
           (Some ''device_slot_already_active'')
           (jwith [] [(''activeRootId'', jstr (rt_id a)), (''activeState'', jstr (rt_state a))])) (\<lambda>_. K (insert r rs))"
    by (intro valid_option return_same events(1))
  show "valid (K (insert r rs)) (tx_bind (case nonempty (ai_external i) of None \<Rightarrow> tx_return None
      | Some external \<Rightarrow> tx_bind (upsertOperation now r (kp_op_kind kp) external None ''device_execution'' None
           (jwith [] [(''rootKind'', jstr kind), (''externalId'', jstr external), (''requestKey'', jostr (ai_request i))]))
           (\<lambda>o1. tx_return (Some o1)))
     (\<lambda>operation.
     tx_bind (case active of None \<Rightarrow> tx_return ()
       | Some a \<Rightarrow> note_event r (rt_device r) ''observe_would_wait'' (odefault (ai_actor i) ''server'')
           (Some ''device_slot_already_active'')
           (jwith [] [(''activeRootId'', jstr (rt_id a)), (''activeState'', jstr (rt_state a))]))
     (\<lambda>_. tx_return (admitted_answer active r operation)))) (\<lambda>_. K {})"
    by (intro valid_bind [OF ops] valid_bind [OF event] return_K)
qed

lemma observeAdmission_keeps: "valid (K {}) (observeAdmission now newId i) (\<lambda>_. K {})"
  unfolding observeAdmission_def Let_def
  by (intro valid_bind [OF try_any] valid_option admit_new_keeps valid_bind [OF get_selected(2)]
      admit_duplicate_keeps) auto

lemma dispatch_root_keeps: "valid (K {}) (dispatch_root now newId i kind) (\<lambda>r. K {r})"
  unfolding dispatch_root_def
proof (intro valid_bind [OF get_selected(2)] valid_option)
  fix found and r :: DeviceExecutionRootRow assume "found = Some r"
  then show "valid (K (set_option found \<union> {})) (tx_return r) (\<lambda>r. K {r})"
    by (intro valid_return) simp
next
  fix found :: "DeviceExecutionRootRow option" assume f: "found = None"
  show "valid (K (set_option found \<union> {})) (tx_bind (insertRoot now newId (di_device i) kind (Some (di_external i))
            (Some (odefault (di_request i) (di_external i)))
            (jwith (member_metadata (di_metadata i))
              [(''observeMode'', Some (JBool True)), (''implicitAdmission'', Some (JBool True))]))
          (\<lambda>r.
          tx_bind (birth_event r ''implicit_admission'' (di_by i) (Some ''dispatch_observed_without_root'')
            (jwith [] [(''rootKind'', jstr kind), (''externalId'', jstr (di_external i))]))
          (\<lambda>_. tx_return r))) (\<lambda>r. K {r})"
    by (intro valid_bind [OF K_insert] valid_bind [OF events(3)] valid_return) (simp add: f)
qed

lemma dispatch_exits_keep:
  "valid (K rs) (dispatch_wrong_device i r) (\<lambda>_. K {})"
  "valid (K rs) (dispatch_not_sent now i r operation) (\<lambda>_. K {})"
  "valid (K rs) (dispatch_after_terminal i r operation) (\<lambda>_. K {})"
  "valid (K rs) (dispatch_duplicate now i r operation) (\<lambda>_. K {})"
  "valid (K rs) (dispatch_blocked i r a operation) (\<lambda>_. K {})"
  unfolding dispatch_wrong_device_def dispatch_not_sent_def dispatch_after_terminal_def dispatch_duplicate_def
    dispatch_blocked_def
  by (intro valid_bind [OF events(1)] valid_bind [OF operation_move] return_K)+

lemma dispatch_advance_keeps:
  assumes "r \<in> rs" "\<not> rootIsTerminal r"
  shows "valid (\<lambda>db. K rs db \<and> free r db) (dispatch_advance now i r operation) (\<lambda>_. K {})"
  unfolding dispatch_advance_def Let_def
  by (intro valid_bind [OF K_advance [OF assms]] valid_option valid_bind [OF events(1)] valid_bind [OF operation_move]
      valid_bind [OF events(2)] return_K) (simp add: dispatch_selector_def any_selector_def)

lemma dispatch_owned_keeps:
  assumes "r \<in> rs" "rt_device r = di_device i"
  shows "valid (K rs) (dispatch_owned now i r operation) (\<lambda>_. K {})"
  unfolding dispatch_owned_def
proof (intro valid_if dispatch_exits_keep valid_bind [OF valid_get])
  fix active
  assume t: "\<not> rootIsTerminal r"
  show "valid (\<lambda>db. K rs db \<and> active = selectActiveRoot (di_device i) db)
      (case active of Some a \<Rightarrow> if rt_id a \<noteq> rt_id r \<and> rootIsInitialPhase r then dispatch_blocked i r a operation
                     else dispatch_advance now i r operation
         | None \<Rightarrow> dispatch_advance now i r operation) (\<lambda>_. K {})"
  proof (intro valid_option valid_if)
    assume "active = None"
    then show "valid (\<lambda>db. K rs db \<and> active = selectActiveRoot (di_device i) db)
        (dispatch_advance now i r operation) (\<lambda>_. K {})"
      by (intro valid_strengthen [OF dispatch_advance_keeps [OF assms(1) t]]) (auto simp: free_def assms(2))
  next
    fix a assume a: "active = Some a" "\<not> (rt_id a \<noteq> rt_id r \<and> rootIsInitialPhase r)"
    show "valid (\<lambda>db. K rs db \<and> active = selectActiveRoot (di_device i) db)
        (dispatch_advance now i r operation) (\<lambda>_. K {})"
    proof (rule valid_strengthen [OF dispatch_advance_keeps [OF assms(1) t]])
      fix db assume "K rs db \<and> active = selectActiveRoot (di_device i) db"
      then show "K rs db \<and> free r db" using a unfolding free_def assms(2) by (auto split: option.splits)
    qed
  next
    fix a
    show "valid (\<lambda>db. K rs db \<and> active = selectActiveRoot (di_device i) db) (dispatch_blocked i r a operation) (\<lambda>_. K {})"
      by (rule valid_strengthen [OF dispatch_exits_keep(5) [of rs]]) simp
  qed
qed

lemma observeDispatch_keeps: "valid (K {}) (observeDispatch now newId i) (\<lambda>_. K {})"
  unfolding observeDispatch_def Let_def
  by (intro valid_bind [OF try_any] valid_bind [OF dispatch_root_keeps] valid_if dispatch_exits_keep(1)
      valid_bind [OF K_upsert] dispatch_owned_keeps) simp_all

lemma claimNextRoot_keeps: "valid (K {}) (claimNextRoot now unlocked device actor) (\<lambda>_. K {})"
  unfolding claimNextRoot_def
proof (intro valid_bind [OF valid_get] valid_option)
  fix active :: "DeviceExecutionRootRow option"
  show "valid (\<lambda>db. K {} db \<and> active = selectActiveRoot device db) (tx_return None) (\<lambda>_. K {})"
    by (rule valid_return) simp
next
  fix active :: "DeviceExecutionRootRow option" and queued :: "DeviceExecutionRootRow option"
  show "valid (\<lambda>db. (K {} db \<and> active = selectActiveRoot device db) \<and> queued = selectOldestQueuedRoot unlocked device db)
      (tx_return None) (\<lambda>_. K {})"
    by (rule valid_return) simp
next
  fix active queued :: "DeviceExecutionRootRow option" and n
  assume a: "active = None" and n: "queued = Some n"
  let ?P = "\<lambda>db. (K {} db \<and> active = selectActiveRoot device db) \<and> queued = selectOldestQueuedRoot unlocked device db"
  have adv: "valid ?P (transitionRootState now (rt_id n) claim_selector True []) (\<lambda>x. K (set_option x))"
  proof (cases "rootIsTerminal n")
    case True
    have "\<not> ?P db" for db
    proof
      assume p: "?P db"
      then have "selectOldestQueuedRoot unlocked device db = Some n" using n by simp
      note m = selectOldestQueuedRoot_in [OF this]
      have "ad_lc db = lc" using p K_lc by blast
      then show False using K_initial [of "{}" db n] p m True by simp
    qed
    then show ?thesis unfolding valid_def by blast
  next
    case False
    have s: "targetTerminal claim_selector = Some False" by (simp add: claim_selector_def any_selector_def)
    show ?thesis
    proof (rule valid_strengthen [OF K_advance [OF _ False s, of "{n}"]])
      fix db assume p: "?P db"
      then have q: "selectOldestQueuedRoot unlocked device db = Some n" using n by simp
      note m = selectOldestQueuedRoot_in [OF this]
      have "selectActiveRoot (rt_device n) db = None" using p a m(2) by simp
      then show "K {n} db \<and> free n db" using K_read [of "{}" db n] p m(1) by (simp add: free_def)
    qed simp
  qed
  show "valid ?P (tx_bind (transitionRootState now (rt_id n) claim_selector True []) (\<lambda>claimed.
               (case claimed of
                  None \<Rightarrow> tx_return None
                | Some c \<Rightarrow>
                    tx_bind (move_event n c ''root_claimed'' (odefault actor ''server'') None []) (\<lambda>_.
                    tx_return (Some \<lparr>pm_root = rt_id c, pm_device = rt_device c, pm_generation = rt_generation c,
                      pm_state = ''claimed''\<rparr>))))) (\<lambda>_. K {})"
    by (intro valid_bind [OF adv] valid_option return_K valid_bind [OF events(2)])
qed

lemma terminal_rejected_keeps: "valid (K rs) (terminal_rejected i r operation h type reason ms) (\<lambda>_. K {})"
  unfolding terminal_rejected_def by (intro valid_bind [OF events(1)] return_K)

lemma terminal_apply_keeps:
  assumes "r \<in> rs" "\<not> rootIsTerminal r" "root_matches lc to1 terminal_selector"
  shows "valid (K rs) (terminal_apply now i kind w r operation to1) (\<lambda>_. K {})"
  unfolding terminal_apply_def Let_def
proof (intro valid_bind [OF policy_of] valid_bind [OF settle [OF assms]] valid_option terminal_rejected_keeps)
  fix policy settled terminal assume s: "settled = Some (terminal :: DeviceExecutionRootRow)"
  have step: "valid (K (set_option settled)) (case operation of
         Some o1 \<Rightarrow> tx_bind (updateOperationState now (op_kind o1) (op_id o1) [op_state o1] to1
             (Some (rt_generation r)) None (member_metadata (ti_metadata i))) (\<lambda>u. tx_return (Some (odefault u o1)))
       | None \<Rightarrow>
           (case nonempty (ti_operation_id i) of
              Some oid \<Rightarrow> tx_bind (upsertOperation now terminal kind oid (Some to1) ''device_execution'' w
                  (member_metadata (ti_metadata i))) (\<lambda>u. tx_return (Some u))
            | None \<Rightarrow> tx_return None)) (\<lambda>_. K (set_option settled))"
    by (intro valid_option return_same operation_some upsert_some) (simp add: s)
  show "valid (K (set_option settled)) (tx_bind (case operation of
         Some o1 \<Rightarrow> tx_bind (updateOperationState now (op_kind o1) (op_id o1) [op_state o1] to1
             (Some (rt_generation r)) None (member_metadata (ti_metadata i))) (\<lambda>u. tx_return (Some (odefault u o1)))
       | None \<Rightarrow>
           (case nonempty (ti_operation_id i) of
              Some oid \<Rightarrow> tx_bind (upsertOperation now terminal kind oid (Some to1) ''device_execution'' w
                  (member_metadata (ti_metadata i))) (\<lambda>u. tx_return (Some u))
            | None \<Rightarrow> tx_return None))
     (\<lambda>done. tx_bind (move_event r terminal
        (if rt_kind r = ''server_workflow'' \<and> operation \<noteq> None \<and> child_policy policy
         then ''child_result_accepted'' else ''root_terminal'') (ti_by i)
        (Some (odefault (ti_reason i) to1)) (ti_meta i (ti_names i kind @ [(''handle'', Some (handle_json
          (case done of Some d \<Rightarrow> operationRowToHandle d | None \<Rightarrow> observed_handle i kind operation r)))])))
      (\<lambda>_. tx_return ((answer Terminal (Some terminal))\<lparr>dr_applied := True,
        dr_operation := map_option rowToOperation done,
        dr_handle := Some (case done of Some d \<Rightarrow> operationRowToHandle d | None \<Rightarrow> observed_handle i kind operation r)\<rparr>)))) (\<lambda>_. K {})"
    by (intro valid_bind [OF step] valid_bind [OF events(2)] return_K)
qed

lemma observeTerminal_keeps: "valid (K {}) (observeTerminal now i) (\<lambda>_. K {})"
  unfolding observeTerminal_def Let_def
proof (intro valid_bind [OF try_definition(1)] valid_bind [OF try_any] valid_bind [OF get_selected(1)]
    valid_bind [OF get_any] valid_option valid_pure)
  show "valid (K rs) (terminal_missing i kind) (\<lambda>_. K {})" for rs kind
    unfolding terminal_missing_def by (intro valid_bind [OF events(4)] return_K)
  show "valid (K rs) (tx_return x) (\<lambda>_. K {})" for rs and x :: DeviceExecutionTransitionResult
    by (rule return_K)
  fix kp operation found r target s
  assume f: "found = Some (r :: DeviceExecutionRootRow)" and t: "target = Some (s :: LifecycleStateDefinition)"
    and d: "terminal_definition lc (rt_state r) (ti_selector i) (ti_status i) = Inr target"
  show "valid (K (set_option found \<union> {})) (if ls_terminal s
        then terminal_guarded now i (odefault (map_option hd_op_kind (ti_handle i)) (kp_op_kind kp)) (kp_wire_type kp) r
          operation (ls_status s)
        else tx_return ((answer Rejected (Some r))\<lparr>dr_reason := Some ''unconfigured_terminal_state''\<rparr>)) (\<lambda>_. K {})"
    unfolding terminal_guarded_def terminal_wrong_device_def Let_def
    using definition_terminal [OF d [unfolded t]] f
    by (intro valid_if return_K valid_bind [OF events(1)] terminal_rejected_keeps terminal_apply_keeps) auto
qed

lemma result_exits_keep:
  "valid (K rs) (result_missing i type reason ms) (\<lambda>_. K {})"
  "valid (K rs) (result_objected i r o1 reason) (\<lambda>_. K {})"
  "valid (K rs) (result_not_owner i r o1) (\<lambda>_. K {})"
  unfolding result_missing_def result_objected_def result_not_owner_def
  by (intro valid_bind [OF events(1)] valid_bind [OF events(4)] return_K)+

lemma owner_not_terminal: "is_current_dispatch_owner i r o1 \<Longrightarrow> \<not> rootIsTerminal r"
  by (auto simp: is_current_dispatch_owner_def rootIsTerminal_def rootIsDispatching_def rootIsDispatched_def)

lemma result_apply_keeps:
  assumes "r \<in> rs" "\<not> rootIsTerminal r" "root_matches lc to1 terminal_selector"
  shows "valid (K rs) (result_apply now i r o1 to1) (\<lambda>_. K {})"
  unfolding result_apply_def Let_def
  by (intro valid_bind [OF policy_of] valid_bind [OF settle [OF assms]] valid_option valid_bind [OF events(1)]
      valid_bind [OF K_operation] valid_bind [OF events(2)] return_K)

lemma acceptJobResult_keeps: "valid (K {}) (acceptJobResult now i) (\<lambda>_. K {})"
  unfolding acceptJobResult_def
proof (intro valid_bind [OF get_selected(1)] valid_bind [OF get_any] valid_option result_exits_keep
    valid_bind [OF try_definition(1)] valid_pure)
  show "valid (K rs) (tx_return x) (\<lambda>_. K {})" for rs and x :: DeviceExecutionAcceptedJobResult
    by (rule return_K)
  fix o1 found r target s
  assume f: "found = Some (r :: DeviceExecutionRootRow)" and t: "target = Some (s :: LifecycleStateDefinition)"
    and d: "terminal_definition lc (rt_state r) (Some (result_selector (ri_success i))) None = Inr target"
  show "valid (K (set_option found \<union> {})) (if ls_terminal s then result_guarded now i r o1 (ls_status s)
      else tx_return (result_refused Rejected (Some r) (Some o1) None ''unconfigured_terminal_state'')) (\<lambda>_. K {})"
    unfolding result_guarded_def
    using definition_terminal [OF d [unfolded t]] f owner_not_terminal
    by (intro valid_if valid_option return_K result_exits_keep result_apply_keeps) auto
qed

lemma finish_operation_keeps: "valid (K rs) (finish_operation now i successful g) (\<lambda>_. K rs)"
  unfolding finish_operation_def
  by (intro valid_bind [OF get_any] valid_option return_same valid_bind [OF try_any] operation_some)

lemma finish_accepted_keeps: "valid (K rs) (finish_accepted now i successful r) (\<lambda>_. K {})"
  unfolding finish_accepted_def Let_def
proof (intro valid_bind [OF try_definition(2)] valid_pure valid_option return_K)
  fix transition t
  assume "selectResourceLifecycleTransition lc ''device_execution_roots'' (rt_state r) (finish_selector successful) ''state''
      = Inr transition" and "transition = Some t"
  moreover have "targetTerminal (finish_selector successful) = Some True"
    by (simp add: finish_selector_def any_selector_def)
  ultimately have m: "root_matches lc (lt_to t) terminal_selector" by (intro target_terminal) simp_all
  show "valid (K rs) (tx_bind (updateRootTerminal now (rt_id r) (wi_device i) (rt_generation r) (lt_to t)
      (odefault (wi_reason i) (lt_action t)) (member_metadata (wi_metadata i))) (\<lambda>updated.
           (case updated of
              None \<Rightarrow> tx_return (refuse Rejected (Some r) ''terminal_cas_missed'')
            | Some terminal \<Rightarrow>
                tx_bind (finish_operation now i successful (rt_generation r)) (\<lambda>done.
                tx_bind (move_event r terminal ''server_workflow_root_terminal'' (odefault (wi_actor i) ''workflow_executor'')
                  (Some (odefault (wi_reason i) (lt_action t))) (wi_meta i [])) (\<lambda>_.
                tx_return ((answer Terminal (Some terminal))\<lparr>dr_applied := True,
                  dr_operation := map_option rowToOperation done\<rparr>)))))) (\<lambda>_. K {})"
    by (intro valid_bind [OF K_terminal [OF m]] valid_option return_K valid_bind [OF finish_operation_keeps]
        valid_bind [OF events(2)])
qed

lemma finishServerWorkflowRoot_keeps: "valid (K {}) (finishServerWorkflowRoot now i successful) (\<lambda>_. K {})"
  unfolding finishServerWorkflowRoot_def
  by (intro valid_bind [OF get_selected(2)] valid_option valid_bind [OF events(4)] valid_bind [OF events(1)] return_K
      finish_accepted_keeps)

lemma expireServerWorkflowChild_keeps: "valid (K {}) (expireServerWorkflowChild now i) (\<lambda>_. K {})"
proof -
  have accept: "valid (K rs) (expire_accepted now i r o1) (\<lambda>_. K {})" for rs r o1
    unfolding expire_accepted_def
    by (intro valid_bind [OF operation_move] valid_option return_K valid_bind [OF events(1)])
  have verdict: "valid (K rs) (case v of Some (d, reason) \<Rightarrow> tx_return (expire_answer d r o1 reason)
      | None \<Rightarrow> expire_accepted now i r o1) (\<lambda>_. K {})" for rs v r o1
    by (cases v) (auto simp: accept intro: return_K)
  show ?thesis
    unfolding expireServerWorkflowChild_def Let_def
    by (intro valid_bind [OF get_selected(1)] valid_bind [OF get_any] valid_option return_K
        valid_bind [OF policy_of] verdict)
qed

lemma cancelQueuedServerWorkflowRoot_keeps: "valid (K {}) (cancelQueuedServerWorkflowRoot now i) (\<lambda>_. K {})"
  unfolding cancelQueuedServerWorkflowRoot_def cancel_rejected_def cancel_accepted_def
  by (intro valid_bind [OF get_selected(2)] valid_option valid_if valid_bind [OF events(4)] valid_bind [OF events(1)]
      return_K valid_bind [OF K_queued] valid_bind [OF get_any] valid_bind [OF K_cancel_ops] valid_bind [OF events(2)])

lemma persisted_cancel_keeps: "valid (K rs) (persisted_cancel now i found) (\<lambda>_. K {})"
proof -
  have r: "valid (K rs) (persisted_root_cancel now i found) (\<lambda>_. K {})"
    unfolding persisted_root_cancel_def
    by (intro valid_option return_K valid_bind [OF K_queued] valid_fail valid_bind [OF K_cancel_ops])
  show ?thesis
    unfolding persisted_cancel_def
  proof (intro valid_bind [OF r])
    fix x :: "DeviceExecutionRootRow option \<times> DeviceExecutionOperationRow option"
    obtain a b where [simp]: "x = (a, b)" by (cases x)
    show "valid (K {}) (case x of (terminalRoot, terminalOperation) \<Rightarrow>
       tx_bind (tx_transitionWorkflow now (wi_workflow i) (any_selector\<lparr>targetTerminal := Some True,
         targetAdministrative := Some True, transitionManualAllowed := Some True\<rparr>)) (\<lambda>cancelled.
       (case cancelled of
          None \<Rightarrow> tx_fail (''Queued workflow '' @ wi_workflow i @ '' changed while locked'')
        | Some _ \<Rightarrow>
            tx_bind (insertEvent \<lparr>ei_root = map_option rt_id terminalRoot, ei_device = Some (wi_device i),
              ei_type = (if found = None then ''persisted_workflow_cancelled_before_root_admission''
                         else ''persisted_workflow_and_root_cancelled''),
              ei_previous = Some ''queued'', ei_new = Some ''cancelled'', ei_actor = Some (persisted_by i),
              ei_reason = Some (queued_reason i), ei_metadata = wi_meta i []\<rparr>) (\<lambda>_.
            tx_return ((answer Terminal terminalRoot)\<lparr>dr_applied := True,
              dr_operation := map_option rowToOperation terminalOperation\<rparr>))))) (\<lambda>_. K {})"
      unfolding \<open>x = (a, b)\<close> prod.case
      by (intro valid_bind [OF K_workflow] valid_option valid_fail valid_bind [OF K_event] return_K)
  qed
qed

lemma cancelQueuedPersistedWorkflow_keeps: "valid (K {}) (cancelQueuedPersistedWorkflow now i) (\<lambda>_. K {})"
  unfolding cancelQueuedPersistedWorkflow_def persisted_rejected_def persisted_root_rejected_def
  by (intro valid_bind [OF get_any] valid_bind [OF get_selected(2)] valid_option valid_if valid_bind [OF events(4)]
      valid_bind [OF events(1)] return_K persisted_cancel_keeps)

end

locale arbiter_frame_ambiguity = arbiter_frame +
  assumes K_ambiguous: "targetTerminal sel = Some False \<Longrightarrow>
    valid (K rs) (updateRootAmbiguous now i d gen sel reason m) (\<lambda>x. K (set_option x))"
begin

lemma ambiguity_apply_keeps: "valid (K rs) (ambiguity_apply now i reason kind r operation) (\<lambda>_. K {})"
  unfolding ambiguity_apply_def Let_def
proof (intro valid_bind [OF K_ambiguous] valid_option return_K)
  show "targetTerminal ambiguity_selector = Some False" by (simp add: ambiguity_selector_def any_selector_def)
  fix updated ambiguous
  have step: "valid (K (set_option updated)) (case operation of None \<Rightarrow> tx_return None
            | Some o1 \<Rightarrow> tx_bind (transitionOperationState now (op_kind o1) (op_id o1) ambiguity_selector
                (Some (rt_generation r)) None (member_metadata (ti_metadata i))) (\<lambda>u. tx_return (Some (odefault u o1))))
       (\<lambda>_. K (set_option updated))"
    by (intro valid_option return_same valid_bind [OF operation_move])
  show "valid (K (set_option updated)) (tx_bind (case operation of None \<Rightarrow> tx_return None
            | Some o1 \<Rightarrow> tx_bind (transitionOperationState now (op_kind o1) (op_id o1) ambiguity_selector
                (Some (rt_generation r)) None (member_metadata (ti_metadata i))) (\<lambda>u. tx_return (Some (odefault u o1))))
          (\<lambda>done.
           tx_bind (move_event r ambiguous ''root_ambiguous'' (mi_by i) (Some reason)
             (ti_meta i (ti_names i kind @ [(''handle'', Some (handle_json
               (case done of Some d \<Rightarrow> operationRowToHandle d | None \<Rightarrow> observed_handle i kind operation r)))]))) (\<lambda>_.
           tx_return ((answer Ambiguous (Some ambiguous))\<lparr>dr_applied := True,
             dr_operation := map_option rowToOperation done,
             dr_handle := Some (case done of Some d \<Rightarrow> operationRowToHandle d | None \<Rightarrow> observed_handle i kind operation r),
             dr_reason := Some reason\<rparr>)))) (\<lambda>_. K {})"
    by (intro valid_bind [OF step] valid_bind [OF events(2)] return_K)
qed

lemma markAmbiguous_keeps: "valid (K {}) (markAmbiguous now a) (\<lambda>_. K {})"
  unfolding markAmbiguous_def ambiguity_guarded_def Let_def
  by (intro valid_bind [OF try_any] valid_bind [OF get_selected(1)] valid_bind [OF get_any] valid_option valid_if
      valid_bind [OF events(4)] valid_bind [OF events(1)] return_K ambiguity_apply_keeps)

end

end
