(* ===== verification/Arbiter_Egress_Frame.thy ===== *)
theory Arbiter_Egress_Frame imports Arbiter_Handlers
begin

text \<open>
  The egress runners, the recorded decisions and the startup sweep keep an assertion that
  meets the contract \<open>arbiter_frame\<close>; the unguarded branches of observed egress and of the
  corrupt queue head need the extended contract.
\<close>

lemma selectors_live:
  "targetTerminal root_dispatching_selector = Some False" "targetTerminal sent_selector = Some False"
  "targetTerminal blocked_selector = Some False"
  by (simp_all add: root_dispatching_selector_def dispatching_selector_def sent_selector_def blocked_selector_def
      any_selector_def)

lemma not_initial:
  "rootIsDispatching r \<Longrightarrow> \<not> rootIsInitialPhase r" "rootIsDispatched r \<Longrightarrow> \<not> rootIsInitialPhase r"
  "rootIsClaimed r \<Longrightarrow> \<not> rootIsInitialPhase r"
  by (auto simp: rootIsDispatching_def rootIsDispatched_def rootIsClaimed_def rootIsInitialPhase_def)

lemma live_phases:
  "rootIsDispatching r \<Longrightarrow> \<not> rootIsTerminal r" "rootIsDispatched r \<Longrightarrow> \<not> rootIsTerminal r"
  "rootIsClaimed r \<Longrightarrow> \<not> rootIsTerminal r" "rootIsInitialPhase r \<Longrightarrow> \<not> rootIsTerminal r"
  by (auto simp: rootIsDispatching_def rootIsDispatched_def rootIsClaimed_def rootIsInitialPhase_def rootIsTerminal_def)

lemma find_egress_root_in: "find_egress_root t i db = Some r \<Longrightarrow> r \<in> set (ad_roots db)"
  by (auto simp: find_egress_root_def dest: selectRoot_in selectRootByExternalId_in split: if_splits)

context arbiter_frame begin

lemma egress_exits_keep:
  "valid (K rs) (egress_missing_root t i) (\<lambda>_. K {})"
  "valid (K rs) (egress_wrong_device t i r) (\<lambda>_. K {})"
  "valid (K rs) (egress_stop t r o1 d type reason ms) (\<lambda>_. K {})"
  "valid (K rs) (egress_wait t r o1 w type reason answered ms) (\<lambda>_. K {})"
  "valid (K rs) (egress_busy t r o1 a type answered) (\<lambda>_. K {})"
  "valid (K rs) (completion_lost t i prepared sent ms) (\<lambda>_. K {})"
  "valid (K rs) (standalone_refused t i p sent err r o1) (\<lambda>_. K {})"
  unfolding egress_missing_root_def egress_wrong_device_def egress_stop_def egress_busy_def egress_wait_def
    completion_lost_def standalone_refused_def Let_def
  by (intro valid_bind [OF events(1)] valid_bind [OF events(4)] return_K)+

lemma egress_admit_keeps: "valid (K rs) (egress_admit now newId t i) (\<lambda>r. K {r})"
  unfolding egress_admit_def
  by (intro valid_bind [OF K_insert] valid_bind [OF events(3)] valid_return) (erule K_mono, simp)

lemma egress_enter_keeps:
  assumes go: "\<And>r. rt_device r = eg_device i \<Longrightarrow> valid (K {r}) (go r) (\<lambda>_. K {})"
  shows "valid (K {}) (egress_enter now newId t i go) (\<lambda>_. K {})"
proof -
  have own: "valid (K {r}) (egress_own t i go r) (\<lambda>_. K {})" for r
    unfolding egress_own_def using go by (intro valid_if egress_exits_keep) simp
  have found: "valid (K (set_option x \<union> {})) (egress_own t i go r) (\<lambda>_. K {})" if "x = Some r" for x r
    using own [of r] that by simp
  show ?thesis
    unfolding egress_enter_def
    by (intro valid_bind [OF get_root [OF find_egress_root_in]] valid_option valid_if egress_exits_keep
        valid_bind [OF egress_admit_keeps] own found)
qed

lemma register_keeps: "r \<in> rs \<Longrightarrow> valid (K rs) (register_operation now t i r) (\<lambda>_. K rs)"
  unfolding register_operation_def by (rule K_upsert)

lemma standalone_permit_keeps: "valid (K rs) (standalone_permit now t i o1 r c) (\<lambda>_. K {})"
  unfolding standalone_permit_def Let_def
  by (intro valid_bind [OF operation_move] valid_option valid_bind [OF events(1)] valid_bind [OF events(2)] return_K)

lemma oldest_keeps: "valid (\<lambda>db. K rs db \<and> free r db) (tx_get f) (\<lambda>_ db. K rs db \<and> free r db)"
  by (simp add: valid_def tx_get_def)

lemma standalone_initial_keeps:
  assumes "r \<in> rs" "\<not> rootIsTerminal r"
  shows "valid (\<lambda>db. K rs db \<and> free r db) (standalone_initial now unlocked t i r o1) (\<lambda>_. K {})"
proof -
  have wait: "valid (\<lambda>db. K rs db \<and> free r db) (egress_wait t r o1 w type reason answered ms) (\<lambda>_. K {})"
    for w type reason answered ms
    by (rule valid_strengthen [OF egress_exits_keep(4) [of rs]]) simp
  show ?thesis
    unfolding standalone_initial_def
    by (intro valid_bind [OF oldest_keeps] valid_if wait valid_bind [OF K_advance [OF assms selectors_live(1)]]
        valid_option egress_exits_keep standalone_permit_keeps)
qed

lemma standalone_live_keeps:
  assumes "r \<in> rs"
  shows "valid (\<lambda>db. K rs db \<and> free r db) (standalone_live now unlocked t i r o1) (\<lambda>_. K {})"
proof -
  have weak: "valid (\<lambda>db. K rs db \<and> free r db) m (\<lambda>_. K {})" if "valid (K rs) m (\<lambda>_. K {})" for m :: "egress_result tx"
    by (rule valid_strengthen [OF that]) simp
  show ?thesis
    unfolding standalone_live_def
    by (intro valid_if standalone_initial_keeps [OF assms] weak egress_exits_keep return_K standalone_permit_keeps
        valid_bind [OF advance_started [OF assms _ _ selectors_live(1)]])
      (simp_all add: not_initial live_phases)
qed

text \<open>What the active root of the device tells about the slot.\<close>

lemma active_free:
  assumes "\<And>a. active = Some a \<Longrightarrow> \<not> P a \<Longrightarrow> rt_id a = rt_id r \<or> \<not> rootIsInitialPhase r"
    and "rt_device r = device" "r \<in> rs"
    and go: "valid (\<lambda>db. K rs db \<and> free r db) m (\<lambda>_. K {})" and stop: "\<And>a. valid (K rs) (b a) (\<lambda>_. K {})"
  shows "valid (\<lambda>db. K rs db \<and> active = selectActiveRoot device db)
    (case active of Some a \<Rightarrow> if P a then b a else m | None \<Rightarrow> m) (\<lambda>_. K {})"
proof -
  have f: "free r db" if "active = selectActiveRoot device db" "\<forall>a. active = Some a \<longrightarrow> \<not> P a" for db
    using that assms(1,2) unfolding free_def by (auto split: option.splits)
  have m: "valid (\<lambda>db. K rs db \<and> active = selectActiveRoot device db) m (\<lambda>_. K {})" if "\<forall>a. active = Some a \<longrightarrow> \<not> P a"
    by (rule valid_strengthen [OF go]) (use f that in blast)
  have b: "valid (\<lambda>db. K rs db \<and> active = selectActiveRoot device db) (b a) (\<lambda>_. K {})" for a
    by (rule valid_strengthen [OF stop]) simp
  show ?thesis by (intro valid_option valid_if m b) auto
qed

lemma standalone_owned_keeps:
  assumes "rt_device r = eg_device i"
  shows "valid (K {r}) (standalone_owned now unlocked t i r) (\<lambda>_. K {})"
  unfolding standalone_owned_def
proof (intro valid_bind [OF register_keeps] valid_bind [OF valid_get])
  fix o1 active
  show "valid (\<lambda>db. K {r} db \<and> active = selectActiveRoot (eg_device i) db)
    (case active of
        Some a \<Rightarrow>
          if rt_id a \<noteq> rt_id r
          then egress_busy t r o1 a ''egress_waiting_active_root'' (Some ''device_slot_already_active'')
          else standalone_live now unlocked t i r o1
      | None \<Rightarrow> standalone_live now unlocked t i r o1) (\<lambda>_. K {})"
    by (rule active_free [OF _ assms _ standalone_live_keeps egress_exits_keep(5)]) auto
qed simp

lemma standalone_prepare_keeps: "valid (K {}) (standalone_prepare now newId unlocked t i) (\<lambda>_. K {})"
  unfolding standalone_prepare_def by (rule egress_enter_keeps [OF standalone_owned_keeps])

lemma egress_rows_keeps:
  assumes "\<And>r o1. valid (K {r}) (go r o1) (\<lambda>_. K {})" "\<And>rs. valid (K rs) lost (\<lambda>_. K {})"
  shows "valid (K {}) (egress_rows t i h go lost) (\<lambda>_. K {})"
proof -
  have found: "valid (K (set_option x \<union> {})) (go r o1) (\<lambda>_. K {})" if "x = Some r" for x r o1
    using assms(1) [of r o1] that by simp
  show ?thesis unfolding egress_rows_def
    by (intro valid_bind [OF get_selected(1)] valid_bind [OF get_any] valid_option found assms(2))
qed

lemma standalone_not_sent_keeps:
  assumes "r \<in> rs" "\<not> rootIsTerminal r" "\<not> rootIsInitialPhase r"
  shows "valid (K rs) (standalone_not_sent now t i p err r o1) (\<lambda>_. K {})"
  unfolding standalone_not_sent_def Let_def
  by (intro valid_bind [OF K_block [OF assms selectors_live(3)]] valid_bind [OF operation_move] valid_bind [OF events(2)]
      return_K)

lemma standalone_sent_keeps:
  assumes "r \<in> rs" "\<not> rootIsTerminal r" "\<not> rootIsInitialPhase r"
  shows "valid (K rs) (standalone_sent now t i p r o1) (\<lambda>_. K {})"
proof -
  have same: "valid (K rs) (tx_return (Some r)) (\<lambda>x. K (set_option x))"
    by (rule valid_return) (rule K_mono, use assms(1) in auto)
  show ?thesis
    unfolding standalone_sent_def Let_def
    by (intro valid_bind [OF valid_if [OF same advance_started [OF assms selectors_live(2)]]] valid_option
        valid_bind [OF operation_move] valid_bind [OF events(1)] valid_bind [OF events(2)] return_K)
qed

lemma standalone_complete_keeps: "valid (K {}) (standalone_complete now t i prepared p sent err) (\<lambda>_. K {})"
proof -
  have "valid (K {r}) (standalone_completed now t i p sent err r o1) (\<lambda>_. K {})" for r o1
    unfolding standalone_completed_def
    by (intro valid_if egress_exits_keep valid_bind [OF events(1)] return_K standalone_not_sent_keeps standalone_sent_keeps)
      (use not_initial live_phases in blast)+
  then show ?thesis
    unfolding standalone_complete_def by (intro egress_rows_keeps egress_exits_keep)
qed

lemma observed_prepare_keeps: "valid (K {}) (observed_prepare now newId unlocked t i) (\<lambda>_. K {})"
  unfolding observed_prepare_def
proof (rule egress_enter_keeps)
  fix r :: DeviceExecutionRootRow assume d: "rt_device r = eg_device i"
  have opn: "valid (\<lambda>db. K {r} db \<and> free r db) (observed_open now t i r o1) (\<lambda>_. K {})" if t: "\<not> rootIsTerminal r" for o1
  proof -
    have same: "valid (\<lambda>db. K {r} db \<and> free r db) (tx_return None) (\<lambda>x. K (set_option x))"
      by (rule valid_return) (auto intro: K_mono)
    show ?thesis unfolding observed_open_def Let_def
      by (intro valid_bind [OF valid_if [OF K_advance [OF _ t selectors_live(1)] same]] valid_bind [OF operation_move]
          valid_bind [OF events(2)] return_K) simp
  qed
  have wait: "valid (\<lambda>db. K {r} db \<and> free r db) (egress_wait t r o1 w type reason answered ms) (\<lambda>_. K {})"
    for o1 w type reason answered ms
    by (rule valid_strengthen [OF egress_exits_keep(4) [of "{r}"]]) simp
  have queued: "valid (\<lambda>db. K {r} db \<and> free r db) (observed_queued now unlocked t i r o1) (\<lambda>_. K {})"
    if "\<not> rootIsTerminal r" for o1
    unfolding observed_queued_def by (intro valid_if valid_bind [OF oldest_keeps] wait opn that)
  show "valid (K {r}) (observed_owned now unlocked t i r) (\<lambda>_. K {})"
    unfolding observed_owned_def
  proof (intro valid_if return_K valid_bind [OF register_keeps] valid_bind [OF valid_get])
    fix o1 active assume t: "\<not> rootIsTerminal r"
    show "valid (\<lambda>db. K {r} db \<and> active = selectActiveRoot (eg_device i) db)
      (case active of
           Some a \<Rightarrow>
             if rt_id a \<noteq> rt_id r \<and> rootIsInitialPhase r
             then egress_busy t r o1 a ''observe_would_block_egress'' None
             else observed_queued now unlocked t i r o1
         | None \<Rightarrow> observed_queued now unlocked t i r o1) (\<lambda>_. K {})"
      by (rule active_free [OF _ d _ queued [OF t] egress_exits_keep(5)]) auto
  qed simp
qed

lemma notes_keep:
  "valid (K rs) (recordRejectedEgress n) (\<lambda>_. K rs)" "valid (K rs) (recordControlEgress n) (\<lambda>_. K rs)"
  unfolding recordRejectedEgress_def recordControlEgress_def
  by (rule events(4)) (intro valid_bind [OF try_any] events(4))

lemma startup_events_keep: "valid (K rs) (startup_events actor reason m blocked) (\<lambda>_. K rs)"
  by (induction actor reason m blocked rule: startup_events.induct)
    (simp_all add: return_same valid_bind [OF K_event])

lemma reconcileInFlightAtStartup_keeps: "valid (K {}) (reconcileInFlightAtStartup now actor reason m) (\<lambda>_. K {})"
  unfolding reconcileInFlightAtStartup_def Let_def
  by (intro valid_bind [OF K_flight] valid_bind [OF K_block_ops] valid_bind [OF startup_events_keep]
      valid_bind [OF get_any] return_K)

text \<open>The transactions that respect the device slot.\<close>

lemmas transactions = observeAdmission_keeps observeDispatch_keeps claimNextRoot_keeps observeTerminal_keeps
  acceptJobResult_keeps finishServerWorkflowRoot_keeps expireServerWorkflowChild_keeps
  cancelQueuedServerWorkflowRoot_keeps cancelQueuedPersistedWorkflow_keeps standalone_prepare_keeps
  standalone_complete_keeps observed_prepare_keeps notes_keep reconcileInFlightAtStartup_keeps

end

context arbiter_frame_ambiguity begin

lemma observed_not_sent_keeps: "valid (K rs) (observed_not_sent now t i h err r o1) (\<lambda>_. K {})"
proof -
  have ret: "valid (K rs) (tx_return x) (\<lambda>_. K {})" for rs and x :: egress_result by (rule return_K)
  show ?thesis unfolding observed_not_sent_def
    by (intro valid_bind [OF K_ambiguous [OF selectors_live(3)]] valid_bind [OF operation_move] valid_bind [OF K_event] ret)
qed

lemma observed_complete_keeps: "valid (K {}) (observed_complete now t i prepared h sent err) (\<lambda>_. K {})"
proof -
  have sent: "valid (K {r}) (observed_sent now t i w r o1) (\<lambda>_. K {})" for w r o1
  proof -
    have same: "valid (K {r}) (tx_return (Some r)) (\<lambda>x. K (set_option x))"
      by (rule valid_return) simp
    show ?thesis
      unfolding observed_sent_def Let_def
      by (intro valid_bind [OF valid_if [OF advance_started [OF _ _ _ selectors_live(2)] same]]
          valid_bind [OF operation_move] valid_bind [OF events(2)] return_K)
        (simp_all add: not_initial live_phases)
  qed
  have "valid (K {r}) (observed_completed now t i prepared h ok err r o1) (\<lambda>_. K {})" for r ok o1
    unfolding observed_completed_def
    by (intro valid_if valid_bind [OF events(1)] return_K observed_not_sent_keeps sent)
  then show ?thesis unfolding observed_complete_def by (intro egress_rows_keeps egress_exits_keep)
qed

lemma markCorruptQueueHead_keeps: "valid (K {}) (markCorruptQueueHead now c) (\<lambda>_. K {})"
proof -
  have ev: "valid (K rs) (insertEvent e) (\<lambda>_. K {})" for rs e
    by (rule valid_weaken [OF K_event [of rs]]) (rule K_mono, auto)
  have dv: "valid (K rs) (device_event d a b e m) (\<lambda>_. K {})" for rs d a b e m
    unfolding device_event_def by (rule ev)
  show ?thesis unfolding markCorruptQueueHead_def
    by (intro valid_bind [OF get_selected(1)] valid_option [where a = "device_event _ _ _ _ _"]
        dv valid_bind [OF K_ambiguous [OF selectors_live(3)]] valid_bind [OF operation_move] ev)
qed

end

end
