(* ===== verification/Arbiter_Facts.thy ===== *)
theory Arbiter_Facts imports Arbiter_Egress_Frame
begin

text \<open>
  Two assertions that meet the contract of the arbiter's statements. The first relates the
  tables to an earlier state: rows keep their identity, generations only grow, ended roots
  are frozen, operations that ended stay ended, events are appended. The second is the
  slot discipline of a device: at most one active root.
\<close>

section \<open>Valid configurations and tables\<close>

definition phases_disjoint :: "lc_db \<Rightarrow> bool" where
  "phases_disjoint lc \<longleftrightarrow> (\<forall>s \<in> set (db_states lc). ls_initial s \<longrightarrow> \<not> ls_terminal s)"

definition arb_config :: "lc_db \<Rightarrow> bool" where
  "arb_config lc \<longleftrightarrow> wf_config lc \<and> phases_disjoint lc"

definition op_identity :: "DeviceExecutionOperationRow \<Rightarrow> string \<times> string" where
  "op_identity o1 = (op_kind o1, op_id o1)"

text \<open>An ended root is in a terminal state.\<close>

definition ended_ok :: "lc_db \<Rightarrow> DeviceExecutionRootRow \<Rightarrow> bool" where
  "ended_ok lc r \<longleftrightarrow> (rootIsTerminal r \<longrightarrow> root_matches lc (rt_state r) terminal_selector)"

definition arb_ok :: "arb_db \<Rightarrow> bool" where
  "arb_ok db \<longleftrightarrow> arb_config (ad_lc db) \<and> distinct (map rt_id (ad_roots db))
     \<and> distinct (map op_identity (ad_ops db)) \<and> (\<forall>r \<in> set (ad_roots db). ended_ok (ad_lc db) r)"

section \<open>The history order\<close>

definition root_le :: "DeviceExecutionRootRow \<Rightarrow> DeviceExecutionRootRow \<Rightarrow> bool" where
  "root_le r r' \<longleftrightarrow> rt_id r' = rt_id r \<and> rt_device r' = rt_device r \<and> rt_kind r' = rt_kind r
     \<and> rt_external r' = rt_external r \<and> rt_request r' = rt_request r \<and> rt_fifo r' = rt_fifo r
     \<and> rt_created r' = rt_created r \<and> rt_generation r \<le> rt_generation r' \<and> (rootIsTerminal r \<longrightarrow> r' = r)
     \<and> (rootIsInitialPhase r' \<longrightarrow> rootIsInitialPhase r)"

definition op_le :: "DeviceExecutionOperationRow \<Rightarrow> DeviceExecutionOperationRow \<Rightarrow> bool" where
  "op_le a b \<longleftrightarrow> op_row_id b = op_row_id a \<and> op_identity b = op_identity a \<and> op_root b = op_root a
     \<and> op_device b = op_device a \<and> op_root_kind b = op_root_kind a \<and> op_created b = op_created a
     \<and> (operationIsTerminal a \<longrightarrow> operationIsTerminal b)"

definition rows_le :: "('r \<Rightarrow> 'r \<Rightarrow> bool) \<Rightarrow> 'r list \<Rightarrow> 'r list \<Rightarrow> bool" where
  "rows_le le rows rows' \<longleftrightarrow> (\<forall>r \<in> set rows. \<exists>r' \<in> set rows'. le r r')"

definition history :: "arb_db \<Rightarrow> arb_db \<Rightarrow> bool" where
  "history db db' \<longleftrightarrow> ad_lc db' = ad_lc db \<and> rows_le root_le (ad_roots db) (ad_roots db')
     \<and> rows_le op_le (ad_ops db) (ad_ops db') \<and> (\<exists>es. ad_events db' = ad_events db @ es)"

lemma root_le_refl [simp]: "root_le r r" by (simp add: root_le_def)

lemma op_le_refl [simp]: "op_le a a" by (simp add: op_le_def)

lemma root_le_trans: "root_le a b \<Longrightarrow> root_le b c \<Longrightarrow> root_le a c"
  by (auto simp: root_le_def)

lemma op_le_trans: "op_le a b \<Longrightarrow> op_le b c \<Longrightarrow> op_le a c"
  by (auto simp: op_le_def)

lemma rows_le_refl [simp]: "(\<And>r. le r r) \<Longrightarrow> rows_le le rows rows"
  by (auto simp: rows_le_def)

lemma rows_le_map: "(\<And>r. r \<in> set rows \<Longrightarrow> le r (f r)) \<Longrightarrow> rows_le le rows (map f rows)"
  by (auto simp: rows_le_def)

lemma rows_le_append: "(\<And>r. le r r) \<Longrightarrow> rows_le le rows (rows @ xs)"
  by (auto simp: rows_le_def)

lemma rows_le_trans:
  "rows_le root_le xs ys \<Longrightarrow> rows_le root_le ys zs \<Longrightarrow> rows_le root_le xs zs"
  "rows_le op_le os ps \<Longrightarrow> rows_le op_le ps qs \<Longrightarrow> rows_le op_le os qs"
  unfolding rows_le_def using root_le_trans op_le_trans by blast+

lemma history_refl [simp]: "history db db" by (simp add: history_def)

lemma history_trans:
  assumes "history a b" "history b c"
  shows "history a c"
proof -
  have "rows_le root_le (ad_roots a) (ad_roots c)" "rows_le op_le (ad_ops a) (ad_ops c)"
    using assms unfolding history_def by (auto elim: rows_le_trans)
  then show ?thesis using assms unfolding history_def by auto
qed

section \<open>What each statement does to the tables\<close>

text \<open>A statement that only rewrites operations.\<close>

lemma ops_map_ok:
  assumes "arb_ok db" "\<And>o1. o1 \<in> set (ad_ops db) \<Longrightarrow> op_le o1 (f o1)"
  shows "arb_ok (db\<lparr>ad_ops := map f (ad_ops db)\<rparr>)" "history db (db\<lparr>ad_ops := map f (ad_ops db)\<rparr>)"
proof -
  have "map op_identity (map f (ad_ops db)) = map op_identity (ad_ops db)"
    using assms(2) by (simp add: op_le_def)
  then have "distinct (map op_identity (map f (ad_ops db)))" using assms(1) by (simp only: arb_ok_def)
  then show "arb_ok (db\<lparr>ad_ops := map f (ad_ops db)\<rparr>)" using assms(1) by (simp add: arb_ok_def)
  show "history db (db\<lparr>ad_ops := map f (ad_ops db)\<rparr>)"
    using rows_le_map [of "ad_ops db" op_le f] assms(2) by (simp add: history_def)
qed

lemma advance_operation_le [simp]: "op_le o1 (advance_operation now s g w t d m o1)"
  by (auto simp: op_le_def advance_operation_def op_identity_def operationIsTerminal_def)

lemma merge_operation_le [simp]: "op_le o1 (merge_operation lc now new o1)"
  by (auto simp: op_le_def merge_operation_def op_identity_def operationIsTerminal_def Let_def)

lemma cancel_operation_le [simp]: "op_le o1 (cancel_operation now g m s o1)"
  by (auto simp: op_le_def cancel_operation_def op_identity_def operationIsTerminal_def)

lemma update_operation_ok:
  assumes "updateOperationState now kind i from1 to1 g w m db = Inr (x, db')" "arb_ok db"
  shows "arb_ok db' \<and> history db db' \<and> ad_roots db' = ad_roots db"
proof -
  obtain target :: LifecycleStateDefinition where "db' = db\<lparr>ad_ops := update_where (\<lambda>o1. op_kind o1 = kind \<and> op_id o1 = i \<and> op_state o1 \<in> set from1)
      (advance_operation now to1 g w (ls_terminal target) (ls_dispatchable target) m) (ad_ops db)\<rparr>"
    using assms(1) by (auto simp: updateOperationState_def Let_def split: option.splits)
  then obtain p f where f: "\<And>o1. op_le o1 (f o1)" and d: "db' = db\<lparr>ad_ops := update_where p f (ad_ops db)\<rparr>"
    using advance_operation_le by blast
  show ?thesis unfolding d update_where_def using ops_map_ok [OF assms(2), of "\<lambda>r. if p r then f r else r"] f by simp
qed

lemma upsert_operation_ok:
  assumes u: "upsertOperation now r kind i target lane w m db = Inr (x, db')" and ok: "arb_ok db"
  shows "arb_ok db' \<and> history db db' \<and> ad_roots db' = ad_roots db"
proof -
  obtain state where st: "insert_status (ad_lc db) ''device_execution_operations'' target = Inr state"
    using u by (auto simp: upsertOperation_def split: sum.splits)
  let ?new = "new_operation db now r kind i state lane w m"
  let ?f = "\<lambda>x. if op_kind x = kind \<and> op_id x = i then merge_operation (ad_lc db) now ?new x else x"
  let ?n = "ad_next_op db + 1"
  have next_op: "arb_ok (d\<lparr>ad_next_op := n\<rparr>) = arb_ok d" "history db (d\<lparr>ad_next_op := n\<rparr>) = history db d" for d n
    by (simp_all add: arb_ok_def history_def)
  consider "selectOperationByIdentity kind i db = None" "db' = (db\<lparr>ad_ops := ad_ops db @ [?new]\<rparr>)\<lparr>ad_next_op := ?n\<rparr>"
    | "db' = (db\<lparr>ad_ops := map ?f (ad_ops db)\<rparr>)\<lparr>ad_next_op := ?n\<rparr>"
    | "db' = db\<lparr>ad_next_op := ?n\<rparr>"
    using u by (auto simp: upsertOperation_def st Let_def update_where_def split: option.splits if_splits)
  then show ?thesis
  proof cases
    case 1
    then have "(kind, i) \<notin> op_identity ` set (ad_ops db)"
      by (auto simp: selectOperationByIdentity_def find_None_iff op_identity_def)
    then have "arb_ok (db\<lparr>ad_ops := ad_ops db @ [?new]\<rparr>)"
      using ok by (simp add: arb_ok_def new_operation_def op_identity_def)
    then show ?thesis using rows_le_append [of op_le "ad_ops db" "[?new]"] unfolding 1(2) next_op
      by (simp add: history_def)
  next
    case 2
    show ?thesis using ops_map_ok [OF ok, of ?f] unfolding 2 next_op by simp
  next
    case 3
    show ?thesis using ok unfolding 3 next_op by simp
  qed
qed

lemma cancel_operations_ok:
  assumes "cancelRegisteredOperationsForRoot now i g m db = Inr (x, db')" "arb_ok db"
  shows "arb_ok db' \<and> history db db' \<and> ad_roots db' = ad_roots db"
proof -
  obtain target where "db' = db\<lparr>ad_ops := map (\<lambda>o1. case target o1 of None \<Rightarrow> o1 | Some s \<Rightarrow> cancel_operation now g m s o1) (ad_ops db)\<rparr>"
    using assms(1) unfolding cancelRegisteredOperationsForRoot_def Let_def by (auto split: if_splits)
  moreover have "op_le o1 (case target o1 of None \<Rightarrow> o1 | Some s \<Rightarrow> cancel_operation now g m s o1)" for o1
    by (simp split: option.split)
  ultimately show ?thesis using ops_map_ok [OF assms(2)] by simp
qed

lemma root_unique:
  "arb_ok db \<Longrightarrow> r \<in> set (ad_roots db) \<Longrightarrow> r' \<in> set (ad_roots db) \<Longrightarrow> rt_id r = rt_id r' \<Longrightarrow> r = r'"
  using distinct_key_inj [of rt_id "ad_roots db"] by (simp add: arb_ok_def)

text \<open>A statement on one root either misses or rewrites the one row it addresses.\<close>

definition replace_root :: "arb_db \<Rightarrow> DeviceExecutionRootRow \<Rightarrow> DeviceExecutionRootRow \<Rightarrow> arb_db" where
  "replace_root db r r' = db\<lparr>ad_roots := map (\<lambda>q. if q = r then r' else q) (ad_roots db)\<rparr>"

lemma replace_root_simps [simp]:
  "ad_lc (replace_root db r r') = ad_lc db" "ad_ops (replace_root db r r') = ad_ops db"
  "ad_events (replace_root db r r') = ad_events db"
  "r \<in> set (ad_roots db) \<Longrightarrow> r' \<in> set (ad_roots (replace_root db r r'))"
  by (simp_all add: replace_root_def)

lemma replace_root_ok:
  assumes ok: "arb_ok db" and r: "\<not> rootIsTerminal r" and le: "root_le r r'" and e: "ended_ok (ad_lc db) r'"
  shows "arb_ok (replace_root db r r')" "history db (replace_root db r r')"
proof -
  have "map rt_id (map (\<lambda>q. if q = r then r' else q) (ad_roots db)) = map rt_id (ad_roots db)"
    using le by (simp add: root_le_def)
  then have "distinct (map rt_id (map (\<lambda>q. if q = r then r' else q) (ad_roots db)))" using ok by (simp only: arb_ok_def)
  then show "arb_ok (replace_root db r r')" using ok e by (auto simp: arb_ok_def replace_root_def)
  show "history db (replace_root db r r')"
    using rows_le_map [of "ad_roots db" root_le "\<lambda>q. if q = r then r' else q"] le
    by (simp add: history_def replace_root_def)
qed

lemma update_roots_outcome:
  assumes u: "update_roots p f db = Inr (x, db')" and ok: "arb_ok db" and i: "\<And>q. p q \<Longrightarrow> rt_id q = i"
  shows "(x = None \<and> db' = db) \<or>
    (\<exists>r \<in> set (ad_roots db). p r \<and> x = Some (f r) \<and> db' = replace_root db r (f r))"
proof (cases "find p (ad_roots db)")
  case None
  then have "update_where p f (ad_roots db) = ad_roots db" by (intro update_where_False) (simp add: find_None_iff)
  then show ?thesis using u None by (simp add: update_roots_def)
next
  case (Some r)
  note r = find_in [OF Some]
  have "p q \<longleftrightarrow> q = r" if "q \<in> set (ad_roots db)" for q
    using root_unique [OF ok that] r i by metis
  then have "update_where p f (ad_roots db) = map (\<lambda>q. if q = r then f r else q) (ad_roots db)"
    by (simp add: update_where_def)
  then show ?thesis using u Some r by (auto simp: update_roots_def replace_root_def)
qed

lemma terminal_matches_not_ended:
  "ended_ok lc r \<Longrightarrow> \<not> root_matches lc (rt_state r) terminal_selector \<Longrightarrow> \<not> rootIsTerminal r"
  by (auto simp: ended_ok_def)

lemma arb_ok_ended: "arb_ok db \<Longrightarrow> r \<in> set (ad_roots db) \<Longrightarrow> ended_ok (ad_lc db) r"
  by (simp add: arb_ok_def)

lemma finish_root_le: "\<not> rootIsTerminal r \<Longrightarrow> root_le r (finish_root now to1 reason m r)"
  by (simp add: root_le_def finish_root_def rootIsInitialPhase_def)

lemma terminal_outcome:
  assumes u: "updateRootTerminal now i d g to1 reason m db = Inr (x, db')" and ok: "arb_ok db"
  shows "(x = None \<and> db' = db) \<or> (\<exists>r \<in> set (ad_roots db). rt_id r = i \<and> rt_device r = d \<and> rt_generation r = g
    \<and> \<not> rootIsTerminal r \<and> x = Some (finish_root now to1 reason m r)
    \<and> db' = replace_root db r (finish_root now to1 reason m r))"
  using update_roots_outcome [OF u [unfolded updateRootTerminal_def] ok, of i]
    terminal_matches_not_ended arb_ok_ended [OF ok] by blast

lemma initial_not_terminal:
  assumes "phases_disjoint lc" "root_matches lc st initial_selector"
  shows "\<not> root_matches lc st terminal_selector"
proof
  assume "root_matches lc st terminal_selector"
  then obtain s where s: "root_state lc st = Some s" "ls_initial s" "ls_terminal s"
    using assms(2) by (auto simp: root_matches_iff)
  then obtain row where "first_row (resource_state_rows lc ''device_execution_roots'' st ''state'') = Some row" "s = rowToState row"
    by (auto simp: getResourceLifecycleState_def)
  then have "row \<in> set (db_states lc)" by (auto simp: resource_state_rows_def dest: first_row_in)
  then show False using s \<open>s = rowToState row\<close> assms(1) by (auto simp: phases_disjoint_def)
qed

text \<open>The target the database function names is a configured state that meets the selector.\<close>

lemma target_exit:
  assumes wf: "wf_config lc"
    and t: "lifecycle_transition_target lc ''device_execution_roots'' st sel = Inr (Some to1)"
  obtains tr s where "tr \<in> set (db_transitions lc)" "s \<in> set (db_states lc)" "to1 = lt_to tr" "ls_key s = lt_key tr"
    "ls_status s = lt_to tr" "bound_keys lc ''device_execution_roots'' ''state'' = [lt_key tr]"
    "root_state lc to1 = Some (rowToState s)" "lifecycleTransitionSelectorPredicate lc sel tr s"
proof -
  define ts where "ts = map (\<lambda>(t, s). ls_status s) (filter (\<lambda>(t, s). lifecycleTransitionSelectorPredicate lc sel t s)
      (resource_outgoing lc ''device_execution_roots'' st ''state''))"
  have "ts = [to1]"
    using t unfolding lifecycle_transition_target_def Let_def ts_def [symmetric] by (simp split: list.splits)
  then have "to1 \<in> set ts" by simp
  then obtain k tr s where s: "k \<in> set (bound_keys lc ''device_execution_roots'' ''state'')"
      "(tr, s) \<in> set (outgoing lc k st)" "lifecycleTransitionSelectorPredicate lc sel tr s" "ls_status s = to1"
    unfolding ts_def by (auto simp: resource_outgoing_def)
  then have b: "bound_keys lc ''device_execution_roots'' ''state'' = [ls_key s]" and m: "s \<in> set (db_states lc)"
    using bound_keys_single [OF wf, of "''device_execution_roots''" "''state''"] by (auto simp: set_outgoing)
  show thesis
    using that [of tr s] s lookup_state [OF wf m b] b by (auto simp: set_outgoing)
qed

lemma cancel_target_terminal:
  assumes wf: "wf_config lc"
    and t: "lifecycle_transition_target lc ''device_execution_roots'' st cancel_selector = Inr (Some to1)"
  shows "root_matches lc to1 terminal_selector"
proof (rule target_exit [OF assms])
  fix tr s assume "lifecycleTransitionSelectorPredicate lc cancel_selector tr s" "root_state lc to1 = Some (rowToState s)"
  then show ?thesis
    by (auto simp: root_matches_iff lifecycleTransitionSelectorPredicate_def cancel_selector_def any_selector_def)
qed

lemma queued_outcome:
  assumes u: "updateQueuedRootTerminal now i d g reason m db = Inr (x, db')" and ok: "arb_ok db"
  shows "(x = None \<and> db' = db) \<or> (\<exists>r \<in> set (ad_roots db). \<exists>to1. rt_id r = i \<and> rt_device r = d \<and> rt_generation r = g
    \<and> root_matches (ad_lc db) (rt_state r) initial_selector \<and> root_matches (ad_lc db) to1 terminal_selector
    \<and> \<not> rootIsTerminal r \<and> x = Some (finish_root now to1 reason m r)
    \<and> db' = replace_root db r (finish_root now to1 reason m r))"
proof -
  let ?p = "\<lambda>r. rt_id r = i \<and> rt_device r = d \<and> rt_generation r = g \<and> root_matches (ad_lc db) (rt_state r) initial_selector"
  have wf: "wf_config (ad_lc db)" and pd: "phases_disjoint (ad_lc db)" using ok by (simp_all add: arb_ok_def arb_config_def)
  consider "x = None" "db' = db" | r0 :: DeviceExecutionRootRow and to1 where
      "lifecycle_transition_target (ad_lc db) ''device_execution_roots'' (rt_state r0) cancel_selector = Inr (Some to1)"
      "update_roots ?p (finish_root now to1 reason m) db = Inr (x, db')"
    using u by (auto simp: updateQueuedRootTerminal_def split: option.splits sum.splits)
  then show ?thesis
  proof cases
    case 2
    have "\<not> rootIsTerminal r" if "r \<in> set (ad_roots db)" "?p r" for r
      using terminal_matches_not_ended [OF arb_ok_ended [OF ok that(1)]] initial_not_terminal [OF pd] that(2) by blast
    then show ?thesis
      using update_roots_outcome [OF 2(2) ok, of i] cancel_target_terminal [OF wf 2(1)] by blast
  qed simp
qed

text \<open>A configured state that is not terminal and that some transition enters.\<close>

definition reached :: "lc_db \<Rightarrow> string \<Rightarrow> bool" where
  "reached lc status \<longleftrightarrow> (\<exists>t \<in> set (db_transitions lc). \<exists>s \<in> set (db_states lc). status = lt_to t \<and> ls_key s = lt_key t
     \<and> ls_status s = lt_to t \<and> bound_keys lc ''device_execution_roots'' ''state'' = [lt_key t]
     \<and> root_state lc (lt_to t) = Some (rowToState s) \<and> \<not> ls_terminal s)"

lemma selected_reached:
  assumes wf: "wf_config lc" and nt: "targetTerminal sel = Some False"
    and t: "selectResourceLifecycleTransition lc ''device_execution_roots'' st sel ''state'' = Inr (Some t)"
  shows "reached lc (lt_to t)"
proof -
  obtain s where s: "s \<in> set (db_states lc)" "root_state lc (lt_to t) = Some (rowToState s)"
      "lifecycleTransitionSelectorPredicate lc sel t s" "t \<in> set (db_transitions lc)" "ls_key s = lt_key t"
      "ls_status s = lt_to t" "bound_keys lc ''device_execution_roots'' ''state'' = [lt_key t]"
    using selected_target [OF wf t] by metis
  have "\<not> ls_terminal s" using s(3) nt by (simp add: lifecycleTransitionSelectorPredicate_def)
  then show ?thesis using s unfolding reached_def by blast
qed

text \<open>A root that moved on: claimed, not ended, in a reached state.\<close>

definition moved_on :: "lc_db \<Rightarrow> DeviceExecutionRootRow \<Rightarrow> DeviceExecutionRootRow \<Rightarrow> bool" where
  "moved_on lc r r' \<longleftrightarrow> root_le r r' \<and> rt_claimed r' \<noteq> None \<and> \<not> rootIsTerminal r' \<and> reached lc (rt_state r')"

lemma advance_outcome:
  assumes u: "transitionRootState now (rt_id r) sel inc m db = Inr (x, db')" and ok: "arb_ok db"
    and r: "r \<in> set (ad_roots db)" "\<not> rootIsTerminal r" and nt: "targetTerminal sel = Some False"
  shows "(x = None \<and> db' = db) \<or>
    (\<exists>r'. moved_on (ad_lc db) r r' \<and> x = Some r' \<and> db' = replace_root db r r')"
proof -
  have wf: "wf_config (ad_lc db)" using ok by (simp add: arb_ok_def arb_config_def)
  consider "x = None" "db' = db" | cur :: DeviceExecutionRootRow and t :: LifecycleTransition and s :: LifecycleStateDefinition where "selectRoot (Some (rt_id r)) None None db = Some cur"
      "selectResourceLifecycleTransition (ad_lc db) ''device_execution_roots'' (rt_state cur) sel ''state'' = Inr (Some t)"
      "updateRootState now (rt_id r) [rt_state cur] (lt_to t) inc (lt_mark_started t) (ls_dispatchable s) m db
         = Inr (x, db')"
    using u by (auto simp: transitionRootState_def tx_bind_def tx_get_def tx_try_def tx_return_def tx_fail_def
        split: option.splits sum.splits prod.splits)
  then show ?thesis
  proof cases
    case 2
    let ?f = "advance_root now (lt_to t) inc (lt_mark_started t) (ls_dispatchable s) m"
    have "reached (ad_lc db) (lt_to t)" by (rule selected_reached [OF wf nt 2(2)])
    moreover have "root_le r (?f r)" "rt_claimed (?f r) \<noteq> None" "\<not> rootIsTerminal (?f r)" "rt_state (?f r) = lt_to t"
      using r(2) by (simp_all add: root_le_def advance_root_def rootIsTerminal_def rootIsInitialPhase_def coalesce_def split: option.split)
    ultimately have "moved_on (ad_lc db) r (?f r)" unfolding moved_on_def by simp
    moreover have "(x = None \<and> db' = db) \<or> (\<exists>q \<in> set (ad_roots db). rt_id q = rt_id r \<and> x = Some (?f q) \<and> db' = replace_root db q (?f q))"
      using update_roots_outcome [OF 2(3) [unfolded updateRootState_def] ok, of "rt_id r"] by blast
    ultimately show ?thesis using root_unique [OF ok _ r(1)] by metis
  qed simp
qed

lemma mark_ambiguous_le:
  "\<not> rootIsTerminal r \<Longrightarrow> root_le r (mark_ambiguous now to1 reason m r) \<and> \<not> rootIsTerminal (mark_ambiguous now to1 reason m r)"
  by (simp add: root_le_def rootIsTerminal_def rootIsInitialPhase_def mark_ambiguous_def)

lemma ambiguous_cases:
  assumes u: "updateRootAmbiguous now i d g sel reason m db = Inr (x, db')"
  shows "(x = None \<and> db' = db) \<or> (\<exists>to1. update_roots
     (\<lambda>r. rt_id r = i \<and> rt_device r = d \<and> rt_generation r = g \<and> \<not> root_matches (ad_lc db) (rt_state r) terminal_selector)
     (mark_ambiguous now to1 reason m) db = Inr (x, db'))"
proof (cases "selectRoot (Some i) None None db")
  case None
  then show ?thesis using u by (simp add: updateRootAmbiguous_def tx_bind_def tx_get_def tx_return_def)
next
  case (Some cur)
  note unf = updateRootAmbiguous_def tx_bind_def tx_get_def tx_try_def tx_return_def
  show ?thesis
  proof (cases "rt_device cur \<noteq> d \<or> rt_generation cur \<noteq> g")
    case True
    then show ?thesis using u Some by (simp add: unf)
  next
    case False
    show ?thesis
    proof (cases "selectResourceLifecycleTransition (ad_lc db) ''device_execution_roots'' (rt_state cur) sel ''state''")
      case (Inl e)
      then show ?thesis using u Some False by (simp add: unf)
    next
      case (Inr t)
      then show ?thesis using u Some False by (cases t) (auto simp: unf)
    qed
  qed
qed

lemma ambiguous_outcome:
  assumes u: "updateRootAmbiguous now i d g sel reason m db = Inr (x, db')" and ok: "arb_ok db"
  shows "(x = None \<and> db' = db) \<or> (\<exists>r \<in> set (ad_roots db). \<exists>r'. \<not> rootIsTerminal r \<and> \<not> rootIsTerminal r'
    \<and> root_le r r' \<and> x = Some r' \<and> db' = replace_root db r r')"
proof (cases "x = None \<and> db' = db")
  case False
  then obtain to1 where t: "update_roots
     (\<lambda>r. rt_id r = i \<and> rt_device r = d \<and> rt_generation r = g \<and> \<not> root_matches (ad_lc db) (rt_state r) terminal_selector)
     (mark_ambiguous now to1 reason m) db = Inr (x, db')" using ambiguous_cases [OF u] by blast
  from update_roots_outcome [OF t ok, of i] show ?thesis
    using mark_ambiguous_le terminal_matches_not_ended arb_ok_ended [OF ok] by blast
qed simp

lemma insert_outcome:
  assumes u: "insertRoot now i d k ext q m db = Inr (x, db')" and ok: "arb_ok db"
  shows "arb_ok db'" "history db db'" "ad_roots db' = ad_roots db @ [x]" "rootIsInitialPhase x"
    "root_matches (ad_lc db) (rt_state x) initial_selector"
proof -
  have wf: "wf_config (ad_lc db)" using ok by (simp add: arb_ok_def arb_config_def)
  obtain state where st: "initial_status (ad_lc db) ''device_execution_roots'' = Inr state" "rt_state x = state"
    and x: "rt_id x = i" "i \<notin> rt_id ` set (ad_roots db)" "rootIsInitialPhase x"
    and d: "db' = db\<lparr>ad_roots := ad_roots db @ [x], ad_next_fifo := ad_next_fifo db + 1\<rparr>"
    using u by (auto simp: insertRoot_def Let_def rootIsInitialPhase_def split: option.splits sum.splits if_splits)
  have "ended_ok (ad_lc db) x" using x(3) by (simp add: ended_ok_def rootIsTerminal_def rootIsInitialPhase_def)
  then show "arb_ok db'" using ok x by (simp add: arb_ok_def d)
  show "history db db'" using rows_le_append [of root_le "ad_roots db" "[x]"] by (simp add: history_def d)
  show "ad_roots db' = ad_roots db @ [x]" by (simp add: d)
  show "rootIsInitialPhase x" by (rule x(3))
  obtain key s where key: "getResourceLifecycleKey (ad_lc db) ''device_execution_roots'' ''state'' = Some key"
    and s: "first_row (sort_key state_order (filter (\<lambda>s. ls_key s = key \<and> ls_initial s) (db_states (ad_lc db)))) = Some s"
    and "ls_status s = state"
    using st(1) by (auto simp: initial_status_def split: option.splits)
  have m: "s \<in> set (db_states (ad_lc db))" "ls_key s = key" "ls_initial s" using first_row_in [OF s] by auto
  have b: "bound_keys (ad_lc db) ''device_execution_roots'' ''state'' = [ls_key s]"
    using bound_keys_single [OF wf, of "''device_execution_roots''" "''state''"] key m(2)
    by (auto simp: getResourceLifecycleKey_def)
  show "root_matches (ad_lc db) (rt_state x) initial_selector"
    using lookup_state [OF wf m(1) b] m(3) \<open>ls_status s = state\<close> st(2) by (auto simp: root_matches_iff)
qed

section \<open>Bulk statements\<close>

lemma in_flight_matches:
  "in_flight_target lc r = Inr (Some to1) \<Longrightarrow> root_matches lc (rt_state r) active_selector"
  by (auto simp: in_flight_target_def root_matches_iff root_matches_def resourceLifecycleStateMatches_def
      state_satisfies_def flight_selector_def active_selector_def any_state_def split: if_splits option.splits)

lemma in_flight_reached:
  assumes "wf_config lc" "in_flight_target lc r = Inr (Some to1)"
  shows "reached lc to1"
proof -
  have "lifecycle_transition_target lc ''device_execution_roots'' (rt_state r) blocked_selector = Inr (Some to1)"
    using assms(2) by (simp add: in_flight_target_def split: if_splits)
  then show ?thesis
  proof (rule target_exit [OF assms(1)])
    fix tr s assume "tr \<in> set (db_transitions lc)" "s \<in> set (db_states lc)" "to1 = lt_to tr" "ls_key s = lt_key tr"
      "ls_status s = lt_to tr" "bound_keys lc ''device_execution_roots'' ''state'' = [lt_key tr]"
      "root_state lc to1 = Some (rowToState s)" "lifecycleTransitionSelectorPredicate lc blocked_selector tr s"
    moreover from this have "\<not> ls_terminal s"
      by (simp add: lifecycleTransitionSelectorPredicate_def blocked_selector_def any_selector_def)
    ultimately show ?thesis unfolding reached_def by blast
  qed
qed

lemma block_root_cases:
  "block_root now reason m lc r = r \<or> (\<exists>to1. in_flight_target lc r = Inr (Some to1)
     \<and> block_root now reason m lc r = mark_ambiguous now to1 reason m r)"
  by (auto simp: block_root_def split: sum.splits option.splits)

lemma block_root_le:
  assumes "ended_ok lc r"
  shows "root_le r (block_root now reason m lc r) \<and> ended_ok lc (block_root now reason m lc r)"
proof (cases "block_root now reason m lc r = r")
  case False
  then obtain to1 where t: "in_flight_target lc r = Inr (Some to1)"
      "block_root now reason m lc r = mark_ambiguous now to1 reason m r" using block_root_cases by blast
  have "\<not> rootIsTerminal r"
    using assms in_flight_matches [OF t(1)] by (auto simp: ended_ok_def root_matches_iff)
  then show ?thesis using mark_ambiguous_le t(2) by (simp add: ended_ok_def)
qed (use assms in simp)

lemma block_roots_ok:
  assumes "blockInFlightRoots now reason m db = Inr (x, db')" "arb_ok db"
  shows "arb_ok db' \<and> history db db' \<and> db' = db\<lparr>ad_roots := map (block_root now reason m (ad_lc db)) (ad_roots db)\<rparr>"
proof -
  let ?f = "block_root now reason m (ad_lc db)"
  have d: "db' = db\<lparr>ad_roots := map ?f (ad_roots db)\<rparr>"
    using assms(1) by (auto simp: blockInFlightRoots_def Let_def split: if_splits)
  have le: "root_le r (?f r) \<and> ended_ok (ad_lc db) (?f r)" if "r \<in> set (ad_roots db)" for r
    by (rule block_root_le [OF arb_ok_ended [OF assms(2) that]])
  then have "map rt_id (map ?f (ad_roots db)) = map rt_id (ad_roots db)" by (simp add: root_le_def)
  then have "distinct (map rt_id (map ?f (ad_roots db)))" using assms(2) by (simp only: arb_ok_def)
  then show ?thesis
    using assms(2) le rows_le_map [of "ad_roots db" root_le ?f] by (simp add: d arb_ok_def history_def)
qed

lemma block_operation_le [simp]: "op_le o1 (block_operation now m lc ids o1)"
  by (auto simp: op_le_def block_operation_def op_identity_def operationIsTerminal_def split: sum.split option.split)

lemma block_operations_ok:
  assumes "blockOperationsOf now m ids db = Inr (x, db')" "arb_ok db"
  shows "arb_ok db' \<and> history db db' \<and> ad_roots db' = ad_roots db"
proof -
  have "db' = db\<lparr>ad_ops := map (block_operation now m (ad_lc db) ids) (ad_ops db)\<rparr>"
    using assms(1) by (auto simp: blockOperationsOf_def Let_def split: if_splits)
  then show ?thesis using ops_map_ok [OF assms(2)] by simp
qed

section \<open>First instance: the history of the tables\<close>

text \<open>The rows in \<open>rs\<close> are current and the tables continue \<open>db0\<close>.\<close>

definition continues :: "arb_db \<Rightarrow> DeviceExecutionRootRow set \<Rightarrow> arb_db \<Rightarrow> bool" where
  "continues db0 rs db \<longleftrightarrow> arb_ok db \<and> history db0 db \<and> rs \<subseteq> set (ad_roots db)"

lemma continuesI:
  "continues db0 rs db \<Longrightarrow> arb_ok db' \<Longrightarrow> history db db' \<Longrightarrow> rs' \<subseteq> set (ad_roots db') \<Longrightarrow> continues db0 rs' db'"
  using history_trans by (auto simp: continues_def)

lemma continues_same_roots:
  "continues db0 rs db \<Longrightarrow> arb_ok db' \<and> history db db' \<and> ad_roots db' = ad_roots db \<Longrightarrow> continues db0 rs db'"
  by (rule continuesI) (auto simp: continues_def)

text \<open>The configuration of \<open>db0\<close>, which is valid whenever the assertion holds at all.\<close>

definition config_of :: "arb_db \<Rightarrow> lc_db" where
  "config_of db0 = (if arb_config (ad_lc db0) then ad_lc db0 else fresh_config [] [])"

lemma config_of_ok: "arb_config (config_of db0)"
  using wf_fresh by (simp add: config_of_def arb_config_def phases_disjoint_def fresh_config_def)

lemma continues_config:
  assumes "continues db0 rs db"
  shows "ad_lc db = config_of db0"
proof -
  have "arb_ok db" "history db0 db" using assms by (simp_all add: continues_def)
  then have "arb_config (ad_lc db)" "ad_lc db = ad_lc db0" by (simp_all only: arb_ok_def history_def)
  then have "arb_config (ad_lc db0)" by (simp only:)
  then show ?thesis using \<open>ad_lc db = ad_lc db0\<close> by (simp add: config_of_def)
qed

lemma continues_ok: "continues db0 rs db \<Longrightarrow> arb_ok db"
  by (simp add: continues_def)

text \<open>A root statement: the row it answers is current afterwards.\<close>

lemma continues_root:
  assumes c: "continues db0 rs db"
    and o: "(x = None \<and> db' = db) \<or> (\<exists>r \<in> set (ad_roots db). \<exists>r'. \<not> rootIsTerminal r \<and> root_le r r'
      \<and> ended_ok (ad_lc db) r' \<and> x = Some r' \<and> db' = replace_root db r r')"
  shows "continues db0 (set_option x) db'"
  using o
proof (elim disjE bexE exE conjE)
  assume "x = None" "db' = db"
  then show ?thesis using c by (simp add: continues_def)
next
  fix r r' assume r: "r \<in> set (ad_roots db)" "\<not> rootIsTerminal r" "root_le r r'" "ended_ok (ad_lc db) r'"
    "x = Some r'" "db' = replace_root db r r'"
  show ?thesis using continuesI [OF c replace_root_ok [OF continues_ok [OF c] r(2-4)]] r(1,5,6) by simp
qed

lemma moved_on_ended: "moved_on lc r r' \<Longrightarrow> root_le r r' \<and> ended_ok lc' r'"
  by (simp add: moved_on_def ended_ok_def)

lemma finished_ended:
  "root_matches lc to1 terminal_selector \<Longrightarrow> ended_ok lc (finish_root now to1 reason m r)"
  by (simp add: ended_ok_def finish_root_def)

lemma arb_ok_other [simp]:
  "arb_ok (db\<lparr>ad_events := es\<rparr>) = arb_ok db" "arb_ok (db\<lparr>ad_workflows := ws\<rparr>) = arb_ok db"
  by (simp_all add: arb_ok_def)

lemma continues_ambiguous:
  "valid (continues db0 rs) (updateRootAmbiguous now i d gen sel reason m) (\<lambda>x. continues db0 (set_option x))"
proof (rule validI)
  fix db x db'
  assume c: "continues db0 rs db" and u: "updateRootAmbiguous now i d gen sel reason m db = Inr (x, db')"
  then show "continues db0 (set_option x) db'"
    using ambiguous_outcome [OF u] continues_ok continues_root [of db0 rs db x db'] unfolding ended_ok_def by blast
qed

interpretation hist: arbiter_frame_ambiguity "config_of db0" "continues db0" for db0
proof
  fix rs :: "DeviceExecutionRootRow set" and db
  assume "continues db0 rs db"
  then show "ad_lc db = config_of db0" using continues_config by simp
next
  fix rs rs' :: "DeviceExecutionRootRow set" and db
  assume "continues db0 rs db" "rs' \<subseteq> rs"
  then show "continues db0 rs' db" by (auto simp: continues_def)
next
  fix rs :: "DeviceExecutionRootRow set" and db r
  assume "continues db0 rs db" "r \<in> set (ad_roots db)"
  then show "continues db0 (insert r rs) db" by (auto simp: continues_def)
next
  fix rs :: "DeviceExecutionRootRow set" and db r
  assume a: "continues db0 rs db" "r \<in> set (ad_roots db)"
    "root_matches (config_of db0) (rt_state r) initial_selector"
  have "ended_ok (config_of db0) r" using arb_ok_ended [OF continues_ok [OF a(1)] a(2)] continues_config [OF a(1)] by simp
  then show "\<not> rootIsTerminal r" using initial_not_terminal a(3) config_of_ok by (auto simp: ended_ok_def arb_config_def)
next
  fix rs e
  show "valid (continues db0 rs) (insertEvent e) (\<lambda>_. continues db0 rs)"
    by (rule validI) (auto simp: insertEvent_def intro: continues_same_roots simp: history_def continues_ok)
next
  fix rs now i sel
  show "valid (continues db0 rs) (tx_transitionWorkflow now i sel) (\<lambda>_. continues db0 rs)"
    by (rule validI) (auto simp: tx_transitionWorkflow_def history_def continues_ok intro: continues_same_roots split: prod.splits)
next
  fix r rs now kind i target lane w m
  show "valid (continues db0 rs) (upsertOperation now r kind i target lane w m)
      (\<lambda>_. continues db0 rs)"
    by (rule validI, rule continues_same_roots) (assumption, erule upsert_operation_ok, erule continues_ok)
next
  fix rs now kind i from1 to1 g wh m
  show "valid (continues db0 rs) (updateOperationState now kind i from1 to1 g wh m)
      (\<lambda>_. continues db0 rs)"
    by (rule validI, rule continues_same_roots) (assumption, erule update_operation_ok, erule continues_ok)
next
  fix rs now i gen m
  show "valid (continues db0 rs) (cancelRegisteredOperationsForRoot now i gen m)
      (\<lambda>_. continues db0 rs)"
    by (rule validI, rule continues_same_roots) (assumption, erule cancel_operations_ok, erule continues_ok)
next
  fix rs now i d k ext q m
  show "valid (continues db0 rs) (insertRoot now i d k ext q m)
      (\<lambda>r. continues db0 (insert r rs))"
  proof (rule validI)
    fix db x db'
    assume c: "continues db0 rs db" and u: "insertRoot now i d k ext q m db = Inr (x, db')"
    note o = insert_outcome [OF u continues_ok [OF c]]
    have "insert x rs \<subseteq> set (ad_roots db')" using c o(3) by (auto simp: continues_def)
    then show "continues db0 (insert x rs) db'" using continuesI [OF c o(1,2)] c by blast
  qed
next
  fix r rs now inc m and sel :: LifecycleTransitionSelector
  assume r: "r \<in> rs" "\<not> rootIsTerminal r" "targetTerminal sel = Some False"
  show "valid (\<lambda>db. continues db0 rs db \<and> free r db) (transitionRootState now (rt_id r) sel inc m)
      (\<lambda>x. continues db0 (set_option x))"
  proof (rule validI)
    fix db x db'
    assume c: "continues db0 rs db \<and> free r db"
      and u: "transitionRootState now (rt_id r) sel inc m db = Inr (x, db')"
    have m: "r \<in> set (ad_roots db)" using c r(1) by (auto simp: continues_def)
    from advance_outcome [OF u _ m r(2,3)] c have "(x = None \<and> db' = db) \<or>
      (\<exists>r'. moved_on (ad_lc db) r r' \<and> x = Some r' \<and> db' = replace_root db r r')" by (auto simp: continues_ok)
    then show "continues db0 (set_option x) db'"
      using c continues_root [of db0 rs db x db'] m r(2) moved_on_ended by blast
  qed
next
  fix to1 rs now i d gen reason m
  assume t: "root_matches (config_of db0) to1 terminal_selector"
  show "valid (continues db0 rs) (updateRootTerminal now i d gen to1 reason m)
      (\<lambda>x. continues db0 (set_option x))"
  proof (rule validI)
    fix db x db'
    assume c: "continues db0 rs db" and u: "updateRootTerminal now i d gen to1 reason m db = Inr (x, db')"
    have "root_matches (ad_lc db) to1 terminal_selector" using t c continues_config by metis
    then show "continues db0 (set_option x) db'"
      using terminal_outcome [OF u] c continues_ok continues_root [of db0 rs db x db'] finished_ended finish_root_le by blast
  qed
next
  fix rs now i d gen reason m
  show "valid (continues db0 rs) (updateQueuedRootTerminal now i d gen reason m)
      (\<lambda>x. continues db0 (set_option x))"
  proof (rule validI)
    fix db x db'
    assume c: "continues db0 rs db" and u: "updateQueuedRootTerminal now i d gen reason m db = Inr (x, db')"
    then show "continues db0 (set_option x) db'"
      using queued_outcome [OF u] continues_ok continues_root [of db0 rs db x db'] finished_ended finish_root_le by blast
  qed
next
  fix rs now d gen reason m and r :: DeviceExecutionRootRow and sel :: LifecycleTransitionSelector
  show "valid (continues db0 rs) (updateRootAmbiguous now (rt_id r) d gen sel reason m)
      (\<lambda>x. continues db0 (set_option x))" by (rule continues_ambiguous)
next
  fix rs now i d gen reason m and sel :: LifecycleTransitionSelector
  show "valid (continues db0 rs) (updateRootAmbiguous now i d gen sel reason m)
      (\<lambda>x. continues db0 (set_option x))" by (rule continues_ambiguous)
next
  fix rs now reason m
  show "valid (continues db0 rs) (blockInFlightRoots now reason m) (\<lambda>_. continues db0 {})"
  proof (rule validI)
    fix db x db'
    assume c: "continues db0 rs db" and u: "blockInFlightRoots now reason m db = Inr (x, db')"
    show "continues db0 {} db'" using block_roots_ok [OF u continues_ok [OF c]] by (intro continuesI [OF c]) auto
  qed
next
  fix rs now m ids
  show "valid (continues db0 rs) (blockOperationsOf now m ids) (\<lambda>_. continues db0 rs)"
    by (rule validI, rule continues_same_roots) (assumption, erule block_operations_ok, erule continues_ok)
next
  show "wf_config (config_of db0)" using config_of_ok by (simp add: arb_config_def)
qed

end
