(* ===== verification/Arbiter_Slots.thy ===== *)
theory Arbiter_Slots imports Arbiter_Facts
begin

text \<open>
  The second instance of the arbiter's contract: a device has at most one active root. It
  needs a configuration in which no transition leads back into an initial state, and it
  relates the row timestamps the handlers test to the lifecycle states the queries test.
\<close>

definition initial_unreachable :: "lc_db \<Rightarrow> bool" where
  "initial_unreachable lc \<longleftrightarrow> (\<forall>t \<in> set (db_transitions lc). \<forall>s \<in> set (db_states lc).
     bound_keys lc ''device_execution_roots'' ''state'' = [lt_key t] \<longrightarrow> ls_key s = lt_key t \<longrightarrow> ls_status s = lt_to t
     \<longrightarrow> \<not> ls_initial s)"

definition active :: "lc_db \<Rightarrow> DeviceExecutionRootRow \<Rightarrow> bool" where
  "active lc r \<longleftrightarrow> root_matches lc (rt_state r) active_selector"

definition phase_ok :: "lc_db \<Rightarrow> DeviceExecutionRootRow \<Rightarrow> bool" where
  "phase_ok lc r \<longleftrightarrow> root_state lc (rt_state r) \<noteq> None \<and> (root_matches lc (rt_state r) terminal_selector \<longrightarrow> rootIsTerminal r)
     \<and> (root_matches lc (rt_state r) initial_selector \<longleftrightarrow> rootIsInitialPhase r)"

definition single_active :: "arb_db \<Rightarrow> bool" where
  "single_active db \<longleftrightarrow> (\<forall>r \<in> set (ad_roots db). \<forall>q \<in> set (ad_roots db).
     active (ad_lc db) r \<longrightarrow> active (ad_lc db) q \<longrightarrow> rt_device r = rt_device q \<longrightarrow> r = q)"

definition slots :: "arb_db \<Rightarrow> bool" where
  "slots db \<longleftrightarrow> initial_unreachable (ad_lc db) \<and> single_active db \<and> (\<forall>r \<in> set (ad_roots db). phase_ok (ad_lc db) r)"

lemma slots_cong: "ad_roots db' = ad_roots db \<Longrightarrow> ad_lc db' = ad_lc db \<Longrightarrow> slots db' = slots db"
  by (simp add: slots_def single_active_def)

lemma slots_phase: "slots db \<Longrightarrow> r \<in> set (ad_roots db) \<Longrightarrow> phase_ok (ad_lc db) r"
  by (simp add: slots_def)

lemma active_single: "slots db \<Longrightarrow> r \<in> set (ad_roots db) \<Longrightarrow> q \<in> set (ad_roots db) \<Longrightarrow> active (ad_lc db) r
    \<Longrightarrow> active (ad_lc db) q \<Longrightarrow> rt_device r = rt_device q \<Longrightarrow> r = q"
  unfolding slots_def single_active_def by blast

lemma active_iff: "active lc r \<longleftrightarrow> (\<exists>s. root_state lc (rt_state r) = Some s)
    \<and> \<not> root_matches lc (rt_state r) initial_selector \<and> \<not> root_matches lc (rt_state r) terminal_selector"
  by (auto simp: active_def root_matches_iff)

text \<open>Replacing a root keeps the slots if the new row is alone on its device when active.\<close>

lemma slots_replace:
  assumes s: "slots db" and le: "root_le r r'" and p: "phase_ok (ad_lc db) r'"
    and one: "active (ad_lc db) r' \<Longrightarrow> \<forall>q \<in> set (ad_roots db). active (ad_lc db) q \<longrightarrow> rt_device q = rt_device r \<longrightarrow> q = r"
  shows "slots (replace_root db r r')"
proof -
  have d: "rt_device r' = rt_device r" using le by (simp add: root_le_def)
  have "single_active (replace_root db r r')"
    unfolding single_active_def replace_root_simps
  proof (intro ballI impI)
    fix a b
    assume a: "a \<in> set (ad_roots (replace_root db r r'))" "b \<in> set (ad_roots (replace_root db r r'))"
      and act: "active (ad_lc db) a" "active (ad_lc db) b" and dev: "rt_device a = rt_device b"
    have mem: "x = r' \<or> x \<in> set (ad_roots db) \<and> x \<noteq> r" if "x \<in> set (ad_roots (replace_root db r r'))" for x
      using that by (auto simp: replace_root_def split: if_splits)
    consider "a = r'" "b = r'" | "a = r'" "b \<in> set (ad_roots db)" "b \<noteq> r" | "b = r'" "a \<in> set (ad_roots db)" "a \<noteq> r"
      | "a \<in> set (ad_roots db)" "b \<in> set (ad_roots db)" using mem [OF a(1)] mem [OF a(2)] by blast
    then show "a = b"
    proof cases
      case 2 then show ?thesis using one act dev d by auto
    next
      case 3 then show ?thesis using one act dev d by auto
    next
      case 4 then show ?thesis using active_single [OF s] act dev by blast
    qed simp
  qed
  moreover have "\<forall>x \<in> set (ad_roots (replace_root db r r')). phase_ok (ad_lc db) x"
    using s p by (auto simp: replace_root_def slots_def)
  ultimately show ?thesis using s unfolding slots_def replace_root_simps by blast
qed

lemma slots_finish:
  assumes ok: "arb_ok db" and s: "slots db" and r: "r \<in> set (ad_roots db)" "\<not> rootIsTerminal r"
    and t: "root_matches (ad_lc db) to1 terminal_selector"
  shows "slots (replace_root db r (finish_root now to1 reason m r))"
proof (rule slots_replace [OF s finish_root_le [OF r(2)]])
  have pd: "phases_disjoint (ad_lc db)" using ok by (simp add: arb_ok_def arb_config_def)
  have st: "rt_state (finish_root now to1 reason m r) = to1" "rootIsTerminal (finish_root now to1 reason m r)"
    "\<not> rootIsInitialPhase (finish_root now to1 reason m r)"
    by (simp_all add: finish_root_def rootIsTerminal_def rootIsInitialPhase_def)
  show "phase_ok (ad_lc db) (finish_root now to1 reason m r)"
    using st t initial_not_terminal [OF pd, of to1] by (auto simp: phase_ok_def root_matches_iff)
  show "\<forall>q \<in> set (ad_roots db). active (ad_lc db) q \<longrightarrow> rt_device q = rt_device r \<longrightarrow> q = r"
    if "active (ad_lc db) (finish_root now to1 reason m r)"
    using that t st(1) by (simp add: active_iff)
qed

text \<open>A reached state is neither initial nor terminal.\<close>

lemma reached_phase:
  assumes "initial_unreachable lc" "reached lc (rt_state r)" "\<not> rootIsInitialPhase r"
  shows "phase_ok lc r \<and> active lc r"
proof -
  obtain t st where t: "t \<in> set (db_transitions lc)" "st \<in> set (db_states lc)" "rt_state r = lt_to t"
      "ls_key st = lt_key t" "ls_status st = lt_to t" "bound_keys lc ''device_execution_roots'' ''state'' = [lt_key t]"
      "root_state lc (lt_to t) = Some (rowToState st)" "\<not> ls_terminal st"
    using assms(2) unfolding reached_def by blast
  have "\<not> ls_initial st" using assms(1) t unfolding initial_unreachable_def by blast
  then have "\<not> root_matches lc (rt_state r) initial_selector" "\<not> root_matches lc (rt_state r) terminal_selector"
    using t by (simp_all add: root_matches_iff)
  then show ?thesis using assms(3) t by (simp add: phase_ok_def active_iff)
qed

lemma slots_enter:
  assumes ok: "arb_ok db" and s: "slots db" and r: "r \<in> set (ad_roots db)" "\<not> rootIsTerminal r"
    and f: "free r db" and m: "root_le r r'" "reached (ad_lc db) (rt_state r')" "\<not> rootIsInitialPhase r'"
  shows "slots (replace_root db r r')"
proof (rule slots_replace [OF s m(1)])
  show "phase_ok (ad_lc db) r'" using reached_phase [OF _ m(2,3)] s by (simp add: slots_def)
  show "\<forall>q \<in> set (ad_roots db). active (ad_lc db) q \<longrightarrow> rt_device q = rt_device r \<longrightarrow> q = r"
  proof (cases "rootIsInitialPhase r")
    case True
    show ?thesis
    proof (cases "selectActiveRoot (rt_device r) db")
      case None
      then show ?thesis unfolding selectActiveRoot_None active_def by blast
    next
      case (Some a)
      note a = selectActiveRoot_in [OF this]
      have "rt_id a = rt_id r" using f True Some by (simp add: free_def)
      then have "a = r" using root_unique [OF ok a(1) r(1)] by simp
      then have "active (ad_lc db) r" using a(3) by (simp add: active_def)
      moreover have "root_matches (ad_lc db) (rt_state r) initial_selector"
        using slots_phase [OF s r(1)] True by (simp add: phase_ok_def)
      ultimately show ?thesis by (simp add: active_iff)
    qed
  next
    case False
    have "active (ad_lc db) r"
      using slots_phase [OF s r(1)] False r(2) by (auto simp: active_iff phase_ok_def)
    then show ?thesis using active_single [OF s _ r(1)] by blast
  qed
qed

lemma slots_advance:
  assumes "arb_ok db" "slots db" "r \<in> set (ad_roots db)" "\<not> rootIsTerminal r" "free r db" "moved_on (ad_lc db) r r'"
  shows "slots (replace_root db r r')"
  using slots_enter [OF assms(1-5)] assms(6) by (auto simp: moved_on_def rootIsInitialPhase_def)

text \<open>Changing many roots that were active before.\<close>

lemma slots_map:
  assumes s: "slots db" and f: "\<And>r. r \<in> set (ad_roots db) \<Longrightarrow> rt_device (f r) = rt_device r \<and> phase_ok (ad_lc db) (f r)
      \<and> (active (ad_lc db) (f r) \<longrightarrow> active (ad_lc db) r)"
  shows "slots (db\<lparr>ad_roots := map f (ad_roots db)\<rparr>)"
proof -
  have one: "f r = f q" if "r \<in> set (ad_roots db)" "q \<in> set (ad_roots db)" "active (ad_lc db) (f r)"
      "active (ad_lc db) (f q)" "rt_device (f r) = rt_device (f q)" for r q
  proof -
    have "r = q" using that f [OF that(1)] f [OF that(2)] active_single [OF s that(1,2)] by simp
    then show ?thesis by simp
  qed
  have "single_active (db\<lparr>ad_roots := map f (ad_roots db)\<rparr>)"
    unfolding single_active_def using one by simp
  then show ?thesis using s f by (simp add: slots_def)
qed

lemma slots_block_roots:
  assumes ok: "arb_ok db" and s: "slots db"
  shows "slots (db\<lparr>ad_roots := map (block_root now reason m (ad_lc db)) (ad_roots db)\<rparr>)"
proof (rule slots_map [OF s])
  fix r assume r: "r \<in> set (ad_roots db)"
  let ?f = "block_root now reason m (ad_lc db)"
  have wf: "wf_config (ad_lc db)" using ok by (simp add: arb_ok_def arb_config_def)
  show "rt_device (?f r) = rt_device r \<and> phase_ok (ad_lc db) (?f r) \<and> (active (ad_lc db) (?f r) \<longrightarrow> active (ad_lc db) r)"
  proof (cases "?f r = r")
    case True
    then show ?thesis using slots_phase [OF s r] by simp
  next
    case False
    then obtain to1 where t: "in_flight_target (ad_lc db) r = Inr (Some to1)" "?f r = mark_ambiguous now to1 reason m r"
      using block_root_cases by blast
    have "phase_ok (ad_lc db) (?f r)"
      using reached_phase [of "ad_lc db" "?f r"] in_flight_reached [OF wf t(1)] s
      by (simp add: t(2) slots_def mark_ambiguous_def rootIsInitialPhase_def)
    then show ?thesis using in_flight_matches [OF t(1)] by (simp add: t(2) active_def mark_ambiguous_def)
  qed
qed

text \<open>Blocking a root that holds its device.\<close>

lemma block_outcome:
  assumes u: "updateRootAmbiguous now i d g sel reason m db = Inr (x, db')" and ok: "arb_ok db"
    and nt: "targetTerminal sel = Some False"
  shows "(x = None \<and> db' = db) \<or> (\<exists>r \<in> set (ad_roots db). \<exists>to1. rt_id r = i \<and> \<not> rootIsTerminal r \<and> reached (ad_lc db) to1
    \<and> x = Some (mark_ambiguous now to1 reason m r) \<and> db' = replace_root db r (mark_ambiguous now to1 reason m r))"
proof -
  have wf: "wf_config (ad_lc db)" using ok by (simp add: arb_ok_def arb_config_def)
  let ?p = "\<lambda>r. rt_id r = i \<and> rt_device r = d \<and> rt_generation r = g \<and> \<not> root_matches (ad_lc db) (rt_state r) terminal_selector"
  consider "x = None" "db' = db" | st t where
      "selectResourceLifecycleTransition (ad_lc db) ''device_execution_roots'' st sel ''state'' = Inr (Some t)"
      "update_roots ?p (mark_ambiguous now (lt_to t) reason m) db = Inr (x, db')"
    using u by (auto simp: updateRootAmbiguous_def tx_bind_def tx_get_def tx_try_def tx_return_def
        split: option.splits sum.splits if_splits)
  then show ?thesis
  proof cases
    case 2
    have p: "\<not> rootIsTerminal r" if "r \<in> set (ad_roots db)" "?p r" for r
      using terminal_matches_not_ended [OF arb_ok_ended [OF ok that(1)]] that(2) by blast
    show ?thesis using update_roots_outcome [OF 2(2) ok, of i] selected_reached [OF wf nt 2(1)] p by blast
  qed simp
qed

lemma slots_insert:
  assumes s: "slots db" and o: "ad_roots db' = ad_roots db @ [x]" "ad_lc db' = ad_lc db"
    and i: "rootIsInitialPhase x" "root_matches (ad_lc db) (rt_state x) initial_selector"
    and pd: "phases_disjoint (ad_lc db)"
  shows "slots db'"
proof -
  have na: "\<not> active (ad_lc db) x" using i(2) by (simp add: active_iff)
  have "single_active db'"
    using s na unfolding single_active_def slots_def o by auto
  moreover have "phase_ok (ad_lc db) x"
    using i initial_not_terminal [OF pd i(2)] by (auto simp: phase_ok_def root_matches_iff)
  ultimately show ?thesis using s unfolding slots_def o by auto
qed

section \<open>The instance\<close>

definition slotted :: "arb_db \<Rightarrow> DeviceExecutionRootRow set \<Rightarrow> arb_db \<Rightarrow> bool" where
  "slotted db0 rs db \<longleftrightarrow> continues db0 rs db \<and> slots db"

lemma slottedD:
  assumes "slotted db0 rs db"
  shows "continues db0 rs db" "slots db" "arb_ok db" "ad_lc db = config_of db0"
proof -
  show c: "continues db0 rs db" and "slots db" using assms by (simp_all add: slotted_def)
  show "arb_ok db" "ad_lc db = config_of db0" by (rule continues_ok [OF c], rule continues_config [OF c])
qed

lemma slotted_valid:
  assumes "valid (continues db0 rs) m (\<lambda>x. continues db0 (rs' x))"
    "\<And>db x db'. slotted db0 rs db \<Longrightarrow> m db = Inr (x, db') \<Longrightarrow> slots db'"
  shows "valid (slotted db0 rs) m (\<lambda>x. slotted db0 (rs' x))"
  using assms unfolding slotted_def valid_def by blast

lemma keeps_roots:
  assumes "valid (continues db0 rs) m (\<lambda>_. continues db0 rs)"
    "\<And>db x db'. m db = Inr (x, db') \<Longrightarrow> arb_ok db \<Longrightarrow> ad_roots db' = ad_roots db \<and> ad_lc db' = ad_lc db"
  shows "valid (slotted db0 rs) m (\<lambda>_. slotted db0 rs)"
proof (rule slotted_valid [OF assms(1)])
  fix db x db' assume d: "slotted db0 rs db" "m db = Inr (x, db')"
  show "slots db'" using assms(2) [OF d(2) slottedD(3) [OF d(1)]] slottedD(2) [OF d(1)] slots_cong by blast
qed

lemma history_lc: "history db db' \<Longrightarrow> ad_lc db' = ad_lc db"
  by (simp add: history_def)

interpretation slot: arbiter_frame "config_of db0" "slotted db0" for db0
proof
  show "ad_lc db = config_of db0" if "slotted db0 rs db" for rs db
    by (rule slottedD(4) [OF that])
  show "slotted db0 rs' db" if "slotted db0 rs db" "rs' \<subseteq> rs" for rs rs' db
    using that hist.K_mono by (auto simp: slotted_def)
  show "slotted db0 (insert r rs) db" if "slotted db0 rs db" "r \<in> set (ad_roots db)" for rs db r
    using that hist.K_read by (auto simp: slotted_def)
  show "\<not> rootIsTerminal r" if "slotted db0 rs db" "r \<in> set (ad_roots db)"
    "root_matches (config_of db0) (rt_state r) initial_selector" for rs db r
    using that hist.K_initial by (auto simp: slotted_def)
  show "valid (slotted db0 rs) (insertEvent e) (\<lambda>_. slotted db0 rs)" for rs e
    by (rule keeps_roots [OF hist.K_event]) (auto simp: insertEvent_def)
  show "valid (slotted db0 rs) (tx_transitionWorkflow now i sel) (\<lambda>_. slotted db0 rs)" for rs now i sel
    by (rule keeps_roots [OF hist.K_workflow]) (auto simp: tx_transitionWorkflow_def split: prod.splits)
  show "valid (slotted db0 rs) (upsertOperation now r kind i target lane w m) (\<lambda>_. slotted db0 rs)"
    if "r \<in> rs" for r rs now kind i target lane w m
    by (rule keeps_roots [OF hist.K_upsert [OF that]]) (metis upsert_operation_ok history_lc)
  show "valid (slotted db0 rs) (updateOperationState now kind i from1 to1 g wh m) (\<lambda>_. slotted db0 rs)"
    for rs now kind i from1 to1 g wh m
    by (rule keeps_roots [OF hist.K_operation]) (metis update_operation_ok history_lc)
  show "valid (slotted db0 rs) (cancelRegisteredOperationsForRoot now i gen m) (\<lambda>_. slotted db0 rs)" for rs now i gen m
    by (rule keeps_roots [OF hist.K_cancel_ops]) (metis cancel_operations_ok history_lc)
  show "valid (slotted db0 rs) (insertRoot now i d k ext q m) (\<lambda>r. slotted db0 (insert r rs))" for rs now i d k ext q m
  proof (rule slotted_valid [OF hist.K_insert])
    fix db x db' assume d: "slotted db0 rs db" and u: "insertRoot now i d k ext q m db = Inr (x, db')"
    have ok: "arb_ok db" by (rule slottedD(3) [OF d])
    note o = insert_outcome [OF u ok]
    show "slots db'"
      using slots_insert [OF _ o(3) history_lc [OF o(2)] o(4,5)] d ok by (simp add: slotted_def arb_ok_def arb_config_def)
  qed
  show "valid (\<lambda>db. slotted db0 rs db \<and> free r db) (transitionRootState now (rt_id r) sel inc m) (\<lambda>x. slotted db0 (set_option x))"
    if r: "r \<in> rs" "\<not> rootIsTerminal r" "targetTerminal sel = Some False" for r rs sel now inc m
  proof (rule validI)
    fix db x db' assume d: "slotted db0 rs db \<and> free r db" and u: "transitionRootState now (rt_id r) sel inc m db = Inr (x, db')"
    then have "continues db0 (set_option x) db'" using validD [OF hist.K_advance [OF r]] by (auto simp: slotted_def)
    moreover have ok: "arb_ok db" and m: "r \<in> set (ad_roots db)" using d r(1) by (auto simp: slotted_def continues_def)
    from advance_outcome [OF u ok m r(2,3)] have "slots db'"
      using slots_advance [OF ok _ m r(2)] d by (auto simp: slotted_def)
    ultimately show "slotted db0 (set_option x) db'" by (simp add: slotted_def)
  qed
  show "valid (slotted db0 rs) (updateRootTerminal now i d gen to1 reason m) (\<lambda>x. slotted db0 (set_option x))"
    if t: "root_matches (config_of db0) to1 terminal_selector" for to1 rs now i d gen reason m
  proof (rule slotted_valid [OF hist.K_terminal [OF t]])
    fix db x db' assume d: "slotted db0 rs db" and u: "updateRootTerminal now i d gen to1 reason m db = Inr (x, db')"
    have ok: "arb_ok db" by (rule slottedD(3) [OF d])
    have "root_matches (ad_lc db) to1 terminal_selector" using t slottedD(4) [OF d] by simp
    then show "slots db'" using terminal_outcome [OF u ok] slots_finish [OF ok] d by (auto simp: slotted_def)
  qed
  show "valid (slotted db0 rs) (updateQueuedRootTerminal now i d gen reason m) (\<lambda>x. slotted db0 (set_option x))"
    for rs now i d gen reason m
  proof (rule slotted_valid [OF hist.K_queued])
    fix db x db' assume d: "slotted db0 rs db" and u: "updateQueuedRootTerminal now i d gen reason m db = Inr (x, db')"
    have ok: "arb_ok db" by (rule slottedD(3) [OF d])
    then show "slots db'" using queued_outcome [OF u ok] slots_finish [OF ok] d by (auto simp: slotted_def)
  qed
  show "valid (slotted db0 rs) (updateRootAmbiguous now (rt_id r) d gen sel reason m) (\<lambda>x. slotted db0 (set_option x))"
    if r: "r \<in> rs" "\<not> rootIsTerminal r" "\<not> rootIsInitialPhase r" "targetTerminal sel = Some False" for r rs sel now d gen reason m
  proof (rule slotted_valid [OF hist.K_block [OF r]])
    fix db x db' assume d: "slotted db0 rs db" and u: "updateRootAmbiguous now (rt_id r) d gen sel reason m db = Inr (x, db')"
    have ok: "arb_ok db" by (rule slottedD(3) [OF d])
    have m: "r \<in> set (ad_roots db)" using d r(1) by (auto simp: slotted_def continues_def)
    have f: "free r db" using r(3) by (simp add: free_def)
    show "slots db'"
      using block_outcome [OF u ok r(4)]
    proof (elim disjE bexE exE conjE)
      fix q to1 assume q: "q \<in> set (ad_roots db)" "rt_id q = rt_id r" "reached (ad_lc db) to1"
        "db' = replace_root db q (mark_ambiguous now to1 reason m q)"
      have "q = r" by (rule root_unique [OF ok q(1) m q(2)])
      moreover have "slots (replace_root db r (mark_ambiguous now to1 reason m r))"
        using mark_ambiguous_le [OF r(2)] q(3)
        by (intro slots_enter [OF ok slottedD(2) [OF d] m r(2) f]) (simp_all add: mark_ambiguous_def rootIsInitialPhase_def)
      ultimately show "slots db'" using q(4) by simp
    qed (use slottedD(2) [OF d] in simp)
  qed
  show "valid (slotted db0 rs) (blockInFlightRoots now reason m) (\<lambda>_. slotted db0 {})" for rs now reason m
  proof (rule slotted_valid [OF hist.K_flight])
    fix db x db' assume d: "slotted db0 rs db" and u: "blockInFlightRoots now reason m db = Inr (x, db')"
    show "slots db'"
      using block_roots_ok [OF u slottedD(3) [OF d]] slots_block_roots [OF slottedD(3,2) [OF d]] by simp
  qed
  show "valid (slotted db0 rs) (blockOperationsOf now m ids) (\<lambda>_. slotted db0 rs)" for rs now m ids
    by (rule keeps_roots [OF hist.K_block_ops]) (metis block_operations_ok history_lc)
  show "wf_config (config_of db0)" using config_of_ok by (simp add: arb_config_def)
qed

end
