(* ===== verification/Arbiter_Guards.thy ===== *)
theory Arbiter_Guards imports Arbiter_Slots
begin

text \<open>
  What the guards of the arbiter's handlers promise: equations that take a returned
  transaction apart, and for each guarded handler the rows it leaves alone when it refuses
  and the conditions that held when it accepts.
\<close>

section \<open>Taking a returned transaction apart\<close>

lemma tx_bind_Inr: "tx_bind m f db = Inr (y, db'') \<longleftrightarrow> (\<exists>x db'. m db = Inr (x, db') \<and> f x db' = Inr (y, db''))"
  by (auto simp: tx_bind_def split: sum.splits)

lemma tx_return_Inr: "tx_return v db = Inr (x, db') \<longleftrightarrow> x = v \<and> db' = db"
  by (auto simp: tx_return_def)

lemma tx_get_Inr: "tx_get f db = Inr (x, db') \<longleftrightarrow> x = f db \<and> db' = db"
  by (auto simp: tx_get_def)

lemma tx_try_Inr: "tx_try f db = Inr (x, db') \<longleftrightarrow> f db = Inr x \<and> db' = db"
  by (auto simp: tx_try_def split: sum.splits)

lemma tx_fail_Inr: "tx_fail e db \<noteq> Inr (x, db')"
  by (simp add: tx_fail_def)

lemma tx_option_Inr: "(case x of None \<Rightarrow> a | Some y \<Rightarrow> b y) db = Inr z \<longleftrightarrow>
    (x = None \<and> a db = Inr z) \<or> (\<exists>y. x = Some y \<and> b y db = Inr z)"
  by (cases x) auto

lemmas tx_Inr = tx_option_Inr tx_bind_Inr tx_return_Inr tx_get_Inr tx_try_Inr tx_fail_Inr

definition same_rows :: "arb_db \<Rightarrow> arb_db \<Rightarrow> bool" where
  "same_rows db db' \<longleftrightarrow> ad_lc db' = ad_lc db \<and> ad_roots db' = ad_roots db \<and> ad_ops db' = ad_ops db
     \<and> ad_workflows db' = ad_workflows db"

lemma same_rows_refl [simp]: "same_rows db db" by (simp add: same_rows_def)

lemma insertEvent_rows: "insertEvent e db = Inr (u, db') \<Longrightarrow> same_rows db db'"
  by (auto simp: insertEvent_def same_rows_def)

lemma event_rows:
  "note_event r d t a rs m db = Inr (u, db') \<Longrightarrow> same_rows db db'"
  "device_event d t a rs m db = Inr (u, db') \<Longrightarrow> same_rows db db'"
  "move_event r r' t a rs m db = Inr (u, db') \<Longrightarrow> same_rows db db'"
  by (auto simp: note_event_def device_event_def move_event_def dest: insertEvent_rows)

section \<open>Statements that miss\<close>

lemma update_roots_miss: "update_roots p f db = Inr (None, db') \<Longrightarrow> db' = db"
proof -
  assume u: "update_roots p f db = Inr (None, db')"
  then have "find p (ad_roots db) = None" by (auto simp: update_roots_def)
  then have "update_where p f (ad_roots db) = ad_roots db" by (intro update_where_False) (simp add: find_None_iff)
  then show "db' = db" using u by (simp add: update_roots_def)
qed

lemma root_miss:
  "updateRootTerminal now i d g to1 reason m db = Inr (None, db') \<Longrightarrow> db' = db"
  "transitionRootState now i sel inc m db = Inr (None, db') \<Longrightarrow> db' = db"
  "updateQueuedRootTerminal now i d g reason m db = Inr (None, db') \<Longrightarrow> db' = db"
proof -
  show "updateRootTerminal now i d g to1 reason m db = Inr (None, db') \<Longrightarrow> db' = db"
    unfolding updateRootTerminal_def by (erule update_roots_miss)
  show "transitionRootState now i sel inc m db = Inr (None, db') \<Longrightarrow> db' = db"
    unfolding transitionRootState_def updateRootState_def
    by (auto simp: tx_Inr dest: update_roots_miss split: option.splits)
  show "updateQueuedRootTerminal now i d g reason m db = Inr (None, db') \<Longrightarrow> db' = db"
    unfolding updateQueuedRootTerminal_def by (auto dest: update_roots_miss split: option.splits sum.splits)
qed

lemma settle_miss: "settle_root now c r d to1 reason m db = Inr (None, db') \<Longrightarrow> db' = db"
  by (auto simp: settle_root_def tx_Inr dest: root_miss split: if_splits)

lemma operation_policy_rows: "operation_policy o1 db = Inr (p, db') \<Longrightarrow> db' = db"
  by (auto simp: operation_policy_def tx_Inr split: option.splits)

lemma operation_miss:
  "updateOperationState now k i from1 to1 g w m db = Inr (None, db') \<Longrightarrow> same_rows db db'"
  "transitionOperationState now k i sel g w m db = Inr (None, db') \<Longrightarrow> same_rows db db'"
proof -
  show u: "updateOperationState now k i from1 to1 g w m db = Inr (None, db') \<Longrightarrow> same_rows db db'"
    for now k i from1 to1 g w m db db'
    by (auto simp: updateOperationState_def Let_def same_rows_def find_None_iff split: option.splits)
  show "transitionOperationState now k i sel g w m db = Inr (None, db') \<Longrightarrow> same_rows db db'"
    unfolding transitionOperationState_def by (auto simp: tx_Inr dest: u split: option.splits)
qed

section \<open>Job results\<close>

lemma selectOperationByIdentity_in:
  "selectOperationByIdentity k i db = Some o1 \<Longrightarrow> o1 \<in> set (ad_ops db) \<and> op_kind o1 = k \<and> op_id o1 = i"
  by (auto simp: selectOperationByIdentity_def dest: find_in)

definition result_owner :: "result_input \<Rightarrow> DeviceExecutionRootRow \<Rightarrow> DeviceExecutionOperationRow \<Rightarrow> bool" where
  "result_owner ri r o1 \<longleftrightarrow> is_current_dispatch_owner ri r o1 \<and> (\<forall>h. ri_handle ri = Some h \<longrightarrow> h = operationRowToHandle o1)
     \<and> (case ri_reported ri of Some h \<Rightarrow> h = operationRowToHandle o1 | None \<Rightarrow> ri_allow_legacy ri)"

lemma handle_objection_None:
  "handle_objection ri h = None \<longleftrightarrow> (\<forall>e. ri_handle ri = Some e \<longrightarrow> e = h)
     \<and> (case ri_reported ri of Some e \<Rightarrow> e = h | None \<Rightarrow> ri_allow_legacy ri)"
  by (auto simp: handle_objection_def split: option.splits)

lemma result_apply_refused:
  assumes "result_apply now ri r o1 to1 db = Inr (ja, db')" "\<not> ja_accepted ja"
  shows "same_rows db db'"
proof -
  obtain child x db1 where st: "settle_root now child r (ri_device ri) to1 (odefault (ri_reason ri) to1)
        (member_metadata (ri_metadata ri)) db = Inr (x, db1)"
    and rest: "x = None \<longrightarrow> (\<exists>u. note_event r (rt_device r) ''job_result_rejected_terminal_cas_missed'' (ri_by ri)
        (Some ''terminal_cas_missed'') (ri_meta ri [(''handle'', Some (handle_json (operationRowToHandle o1)))]) db1 = Inr (u, db'))"
      "x \<noteq> None \<longrightarrow> ja_accepted ja"
    using assms(1) unfolding result_apply_def Let_def
    by (auto simp: tx_Inr dest!: operation_policy_rows)
  have "x = None" using rest(2) assms(2) by blast
  with st have "db1 = db" by (blast dest: settle_miss)
  with rest(1) \<open>x = None\<close> show ?thesis by (blast dest: event_rows)
qed

lemma result_guarded_outcome:
  assumes "result_guarded now ri r o1 to1 db = Inr (ja, db')"
  shows "if ja_accepted ja then result_owner ri r o1 else same_rows db db'"
proof (cases "handle_objection ri (operationRowToHandle o1) = None \<and> is_current_dispatch_owner ri r o1")
  case True
  then have "result_guarded now ri r o1 to1 = result_apply now ri r o1 to1" by (simp add: result_guarded_def)
  then show ?thesis using True assms result_apply_refused [of now ri r o1 to1 db ja db']
    unfolding result_owner_def handle_objection_None by simp
next
  case False
  then consider reason where "result_guarded now ri r o1 to1 = result_objected ri r o1 reason"
    | "result_guarded now ri r o1 to1 = result_not_owner ri r o1"
    by (cases "handle_objection ri (operationRowToHandle o1)") (auto simp: result_guarded_def)
  then show ?thesis
    using assms by cases (auto simp: result_objected_def result_not_owner_def result_refused_def tx_Inr dest: event_rows)
qed

lemma accept_outcome:
  assumes "acceptJobResult now ri db = Inr (ja, db')"
  shows "if ja_accepted ja then \<exists>r \<in> set (ad_roots db). \<exists>o1 \<in> set (ad_ops db). result_owner ri r o1 else same_rows db db'"
proof -
  consider
      type reason ms where "result_missing ri type reason ms db = Inr (ja, db')"
    | r o1 where "ja = result_refused Rejected (Some r) (Some o1) None ''unconfigured_terminal_state''" "db' = db"
    | r o1 to1 where "result_guarded now ri r o1 to1 db = Inr (ja, db')" "r \<in> set (ad_roots db)" "o1 \<in> set (ad_ops db)"
    using assms unfolding acceptJobResult_def
    by (auto simp: tx_Inr split: option.splits if_splits dest!: selectRoot_in selectOperationByIdentity_in)
  then show ?thesis
  proof cases
    case 1
    then show ?thesis by (auto simp: result_missing_def tx_Inr result_refused_def dest: event_rows)
  next
    case 2
    then show ?thesis by (simp add: result_refused_def)
  next
    case 3
    then show ?thesis using result_guarded_outcome [OF 3(1)] by (cases "ja_accepted ja") (simp, blast, simp)
  qed
qed

section \<open>Terminal observations\<close>

definition terminal_owner :: "terminal_input \<Rightarrow> DeviceExecutionRootRow \<Rightarrow> DeviceExecutionOperationRow option \<Rightarrow> bool" where
  "terminal_owner i r operation \<longleftrightarrow> rt_device r = ti_device i \<and> \<not> rootIsTerminal r
     \<and> of_int (rt_generation r) = expected_generation i operation r"

lemma terminal_rejected_rows:
  "terminal_rejected i r operation h type reason m db = Inr (res, db') \<Longrightarrow> \<not> dr_applied res \<and> same_rows db db'"
  by (auto simp: terminal_rejected_def tx_Inr answer_def dest: event_rows)

lemma terminal_apply_refused:
  assumes "terminal_apply now i kind w r operation to1 db = Inr (res, db')" "\<not> dr_applied res"
  shows "same_rows db db'"
proof -
  obtain child x db1 h type reason m where st: "settle_root now child r (ti_device i) to1 (odefault (ti_reason i) to1)
        (member_metadata (ti_metadata i)) db = Inr (x, db1)"
    and rest: "x = None \<longrightarrow> terminal_rejected i r operation h type reason m db1 = Inr (res, db')"
      "x \<noteq> None \<longrightarrow> dr_applied res"
    using assms(1) unfolding terminal_apply_def Let_def
    by (simp add: tx_Inr) (elim exE conjE disjE, (force dest: operation_policy_rows)+)
  have "x = None" using rest(2) assms(2) by blast
  with st have "db1 = db" by (blast dest: settle_miss)
  with rest(1) \<open>x = None\<close> show ?thesis by (blast dest: terminal_rejected_rows)
qed

lemma terminal_guarded_outcome:
  assumes "terminal_guarded now i kind w r operation to1 db = Inr (res, db')"
  shows "if dr_applied res then terminal_owner i r operation else same_rows db db'"
proof (cases "terminal_owner i r operation")
  case True
  then have "terminal_guarded now i kind w r operation to1 = terminal_apply now i kind w r operation to1"
    by (simp add: terminal_guarded_def terminal_owner_def Let_def)
  then show ?thesis using True assms terminal_apply_refused [of now i kind w r operation to1 db res db'] by simp
next
  case False
  have "\<not> dr_applied res \<and> same_rows db db'"
    using assms False unfolding terminal_guarded_def terminal_owner_def Let_def
    by (auto simp: terminal_wrong_device_def tx_Inr answer_def dest: event_rows terminal_rejected_rows split: if_splits)
  then show ?thesis by simp
qed

text \<open>The operation a terminal observation looks up.\<close>

definition observed_operation :: "terminal_input \<Rightarrow> root_kind_policy \<Rightarrow> arb_db \<Rightarrow> DeviceExecutionOperationRow option" where
  "observed_operation i kp db = (case nonempty (ti_operation_id i) of None \<Rightarrow> None
     | Some oid \<Rightarrow> selectOperationByIdentity (odefault (map_option hd_op_kind (ti_handle i)) (kp_op_kind kp)) oid db)"

lemma observe_outcome:
  assumes "observeTerminal now i db = Inr (res, db')"
  shows "if dr_applied res then \<exists>kp. getDeviceExecutionRootKindPolicy (ad_lc db) (ti_root_kind i) = Inr kp
      \<and> (\<exists>r \<in> set (ad_roots db). terminal_owner i r (observed_operation i kp db)) else same_rows db db'"
proof -
  obtain kp where kp: "getDeviceExecutionRootKindPolicy (ad_lc db) (ti_root_kind i) = Inr kp"
    using assms unfolding observeTerminal_def by (auto simp: tx_Inr)
  consider
      kind where "terminal_missing i kind db = Inr (res, db')"
    | r where "res = (answer Rejected (Some r))\<lparr>dr_reason := Some ''unconfigured_terminal_state''\<rparr>" "db' = db"
    | r kind to1 where "terminal_guarded now i kind (kp_wire_type kp) r (observed_operation i kp db) to1 db = Inr (res, db')"
        "r \<in> set (ad_roots db)"
    using assms unfolding observeTerminal_def Let_def
    by (auto simp: tx_Inr kp observed_operation_def split: if_splits dest!: selectRoot_in)
  then show ?thesis
  proof cases
    case 1
    then show ?thesis by (auto simp: terminal_missing_def tx_Inr answer_def dest: event_rows)
  next
    case 2
    then show ?thesis by (simp add: answer_def)
  next
    case 3
    then show ?thesis using terminal_guarded_outcome [OF 3(1)] kp by (cases "dr_applied res") (simp, blast, simp)
  qed
qed

section \<open>Claims\<close>

abbreviation root_exit :: "arb_db \<Rightarrow> string \<Rightarrow> LifecycleTransitionSelector \<Rightarrow> LifecycleTransition option res" where
  "root_exit db state sel \<equiv> selectResourceLifecycleTransition (ad_lc db) ''device_execution_roots'' state sel ''state''"

abbreviation advanced :: "timestamp \<Rightarrow> LifecycleTransition \<Rightarrow> LifecycleStateDefinition \<Rightarrow> bool \<Rightarrow> jobj
    \<Rightarrow> DeviceExecutionRootRow \<Rightarrow> DeviceExecutionRootRow" where
  "advanced now t s inc m \<equiv> advance_root now (lt_to t) inc (lt_mark_started t) (ls_dispatchable s) m"

lemma selectRoot_id: "selectRoot (Some i) k e db = Some r \<Longrightarrow> i \<noteq> [] \<Longrightarrow> rt_id r = i"
  by (auto simp: selectRoot_def nonempty_def root_by_id_def dest: find_in)

lemma selectRoot_own:
  assumes "arb_ok db" "r \<in> set (ad_roots db)" "rt_id r \<noteq> []"
  shows "selectRoot (Some (rt_id r)) None None db = Some r"
  using assms find_eq_Some_distinct [of rt_id "ad_roots db" "rt_id r" r]
  by (simp add: selectRoot_def nonempty_def root_by_id_def arb_ok_def)

lemma transition_root_Some:
  assumes u: "transitionRootState now (rt_id r) sel inc m db = Inr (Some c, db')" and ok: "arb_ok db"
    and r: "r \<in> set (ad_roots db)"
  shows "\<exists>t s. root_exit db (rt_state r) sel = Inr (Some t) \<and> root_state (ad_lc db) (lt_to t) = Some s
    \<and> c = advanced now t s inc m r \<and> db' = replace_root db r c"
proof -
  obtain cur :: DeviceExecutionRootRow and t :: LifecycleTransition and s :: LifecycleStateDefinition where
      c: "selectRoot (Some (rt_id r)) None None db = Some cur" "root_exit db (rt_state cur) sel = Inr (Some t)"
      "root_state (ad_lc db) (lt_to t) = Some s"
      "updateRootState now (rt_id r) [rt_state cur] (lt_to t) inc (lt_mark_started t) (ls_dispatchable s) m db = Inr (Some c, db')"
    using u by (auto simp: transitionRootState_def tx_Inr)
  have i: "rt_id r \<noteq> []" using c(1) by (auto simp: selectRoot_def nonempty_def)
  then have "cur = r" using c(1) selectRoot_own [OF ok r] by simp
  moreover obtain q where "q \<in> set (ad_roots db)" "rt_id q = rt_id r"
      "c = advanced now t s inc m q" "db' = replace_root db q c"
    using update_roots_outcome [OF c(4) [unfolded updateRootState_def] ok, of "rt_id r"] by blast
  ultimately show ?thesis using c root_unique [OF ok _ r] by metis
qed

lemma transition_root_hit:
  assumes ok: "arb_ok db" and r: "r \<in> set (ad_roots db)" "rt_id r \<noteq> []"
    and t: "root_exit db (rt_state r) sel = Inr (Some t)"
  shows "\<exists>c db'. transitionRootState now (rt_id r) sel inc m db = Inr (Some c, db')"
proof -
  have wf: "wf_config (ad_lc db)" using ok by (simp add: arb_ok_def arb_config_def)
  obtain s where s: "root_state (ad_lc db) (lt_to t) = Some s" using selected_target [OF wf t] by metis
  have "find (\<lambda>q. rt_id q = rt_id r \<and> rt_state q = rt_state r) (ad_roots db) \<noteq> None"
    using r(1) by (auto simp: find_None_iff)
  then show ?thesis
    using selectRoot_own [OF ok r] t s
    by (auto simp: transitionRootState_def updateRootState_def update_roots_def tx_bind_def tx_get_def tx_try_def)
qed

lemma oldest_first:
  assumes "selectOldestQueuedRoot unlocked device db = Some n" "q \<in> set (ad_roots db)" "rt_device q = device"
    "root_matches (ad_lc db) (rt_state q) initial_selector" "unlocked q"
  shows "rt_fifo n \<le> rt_fifo q"
proof -
  let ?q = "filter (\<lambda>r. rt_device r = device \<and> root_matches (ad_lc db) (rt_state r) initial_selector \<and> unlocked r) (ad_roots db)"
  obtain xs where xs: "sort_key rt_fifo ?q = n # xs"
    using assms(1) unfolding selectOldestQueuedRoot_def by (cases "sort_key rt_fifo ?q") auto
  have "sorted (map rt_fifo (n # xs))" unfolding xs [symmetric] by simp
  moreover have "q \<in> set (n # xs)" using assms(2-5) unfolding xs [symmetric] by simp
  ultimately show ?thesis by auto
qed

definition claimable :: "(DeviceExecutionRootRow \<Rightarrow> bool) \<Rightarrow> string \<Rightarrow> arb_db \<Rightarrow> DeviceExecutionRootRow \<Rightarrow> bool" where
  "claimable unlocked device db r \<longleftrightarrow> r \<in> set (ad_roots db) \<and> rt_device r = device
     \<and> root_matches (ad_lc db) (rt_state r) initial_selector \<and> unlocked r"

lemma claimable_oldest: "selectOldestQueuedRoot unlocked device db = Some n \<Longrightarrow>
    claimable unlocked device db n \<and> (\<forall>q. claimable unlocked device db q \<longrightarrow> rt_fifo n \<le> rt_fifo q)"
  unfolding claimable_def using selectOldestQueuedRoot_in [of unlocked device db n] oldest_first by blast

lemma claimable_exists: "claimable unlocked device db q \<Longrightarrow> \<exists>n. selectOldestQueuedRoot unlocked device db = Some n"
proof -
  assume "claimable unlocked device db q"
  then have "q \<in> set (sort_key rt_fifo (filter (\<lambda>r. rt_device r = device \<and> root_matches (ad_lc db) (rt_state r) initial_selector
      \<and> unlocked r) (ad_roots db)))" (is "q \<in> set ?rows") by (simp add: claimable_def)
  then obtain n ns where "?rows = n # ns" by (cases ?rows) simp_all
  then show ?thesis unfolding selectOldestQueuedRoot_def by simp
qed

lemma claim_Some:
  assumes c: "claimNextRoot now unlocked device actor db = Inr (Some p, db')" and ok: "arb_ok db"
  obtains n t s where "selectActiveRoot device db = None" "selectOldestQueuedRoot unlocked device db = Some n"
    "root_exit db (rt_state n) claim_selector = Inr (Some t)" "root_state (ad_lc db) (lt_to t) = Some s"
    "p = \<lparr>pm_root = rt_id n, pm_device = rt_device n, pm_generation = rt_generation n + 1, pm_state = ''claimed''\<rparr>"
    "same_rows (replace_root db n (advanced now t s True [] n)) db'"
proof -
  obtain n x db1 where n: "selectActiveRoot device db = None" "selectOldestQueuedRoot unlocked device db = Some n"
      "transitionRootState now (rt_id n) claim_selector True [] db = Inr (Some x, db1)"
      "move_event n x ''root_claimed'' (odefault actor ''server'') None [] db1 = Inr ((), db')"
      "p = \<lparr>pm_root = rt_id x, pm_device = rt_device x, pm_generation = rt_generation x, pm_state = ''claimed''\<rparr>"
    using c unfolding claimNextRoot_def by (auto simp: tx_Inr)
  obtain t s where "root_exit db (rt_state n) claim_selector = Inr (Some t)" "root_state (ad_lc db) (lt_to t) = Some s"
      "x = advanced now t s True [] n" "db1 = replace_root db n x"
    using transition_root_Some [OF n(3) ok selectOldestQueuedRoot_in(1) [OF n(2)]] by blast
  then show thesis using n event_rows(3) [OF n(4)] by (intro that) (auto simp: advance_root_def)
qed

section \<open>Child timeouts\<close>

lemma operation_roots:
  "updateOperationState now k i from1 to1 g w m db = Inr (x, db') \<Longrightarrow>
     ad_roots db' = ad_roots db \<and> ad_workflows db' = ad_workflows db"
  "transitionOperationState now k i sel g w m db = Inr (x, db') \<Longrightarrow>
     ad_roots db' = ad_roots db \<and> ad_workflows db' = ad_workflows db"
proof -
  show u: "updateOperationState now k i from1 to1 g w m db = Inr (x, db') \<Longrightarrow>
     ad_roots db' = ad_roots db \<and> ad_workflows db' = ad_workflows db" for now k i from1 to1 g w m db x db'
    by (auto simp: updateOperationState_def Let_def split: option.splits)
  show "transitionOperationState now k i sel g w m db = Inr (x, db') \<Longrightarrow>
     ad_roots db' = ad_roots db \<and> ad_workflows db' = ad_workflows db"
    unfolding transitionOperationState_def by (auto simp: tx_Inr dest: u)
qed

lemma expire_accepted_outcome:
  assumes "expire_accepted now i r o1 db = Inr (res, db')"
  shows "ad_roots db' = ad_roots db \<and> ad_workflows db' = ad_workflows db \<and> (\<not> dr_applied res \<longrightarrow> same_rows db db')"
proof -
  obtain x db1 where t: "transitionOperationState now ''job'' (xi_job i)
       (any_selector\<lparr>targetTerminal := Some True, targetRetryable := Some True, targetAdministrative := Some False,
          transitionAutomatic := Some True\<rparr>)
       (Some (rt_generation r)) None (member_metadata (xi_metadata i)) db = Inr (x, db1)"
    and rest: "(x = None \<and> db' = db1) \<or> (dr_applied res \<and> same_rows db1 db')"
    using assms unfolding expire_accepted_def by (auto simp: tx_Inr expire_answer_def dest: event_rows)
  show ?thesis
    using operation_roots(2) [OF t] operation_miss(2) t rest unfolding same_rows_def by metis
qed

lemma expire_outcome:
  assumes "expireServerWorkflowChild now i db = Inr (res, db')"
  shows "ad_roots db' = ad_roots db \<and> ad_workflows db' = ad_workflows db
    \<and> (if dr_applied res then \<exists>r \<in> set (ad_roots db). \<exists>o1 \<in> set (ad_ops db). op_kind o1 = ''job'' \<and> op_id o1 = xi_job i
         \<and> expire_refusal i True r o1 = None else same_rows db db')"
proof -
  consider "\<not> dr_applied res" "db' = db"
    | r o1 where "expire_accepted now i r o1 db = Inr (res, db')" "r \<in> set (ad_roots db)" "o1 \<in> set (ad_ops db)"
        "op_kind o1 = ''job''" "op_id o1 = xi_job i" "expire_refusal i True r o1 = None"
  proof (cases "selectOperationByIdentity ''job'' (xi_job i) db")
    case None
    then show thesis using assms that(1) by (auto simp: expireServerWorkflowChild_def tx_Inr refuse_def answer_def)
  next
    case (Some o1)
    note o1 = Some selectOperationByIdentity_in [OF Some]
    show thesis
    proof (cases "selectRoot (Some (op_root o1)) (Some ''server_workflow'') None db")
      case None
      then show thesis using assms that(1) o1(1)
        by (auto simp: expireServerWorkflowChild_def tx_bind_def tx_get_def tx_return_def refuse_def answer_def)
    next
      case (Some r)
      obtain policy child where "operation_policy (Some o1) db = Inr (policy, db)" and
          "(case expire_refusal i child r o1 of Some (d, reason) \<Rightarrow> tx_return (expire_answer d r o1 reason)
            | None \<Rightarrow> expire_accepted now i r o1) db = Inr (res, db')"
        using assms o1(1) Some operation_policy_rows
        unfolding expireServerWorkflowChild_def Let_def by (simp add: tx_bind_Inr tx_get_Inr) blast
      moreover have "child" if "expire_refusal i child r o1 = None"
        using that by (cases child) (simp_all add: expire_refusal_def)
      ultimately show thesis using that o1(2) selectRoot_in [OF Some]
        by (cases "expire_refusal i child r o1") (auto simp: tx_return_def expire_answer_def answer_op_def answer_def)
    qed
  qed
  then show ?thesis
  proof cases
    case 1
    then show ?thesis by simp
  next
    case 2
    then show ?thesis using expire_accepted_outcome [OF 2(1)] by (cases "dr_applied res") (simp, blast, simp)
  qed
qed

section \<open>Cancellations of queued workflows\<close>

lemma cancel_operations_roots:
  "cancelRegisteredOperationsForRoot now i g m db = Inr (x, db') \<Longrightarrow>
     ad_roots db' = ad_roots db \<and> ad_workflows db' = ad_workflows db \<and> ad_lc db' = ad_lc db"
  by (auto simp: cancelRegisteredOperationsForRoot_def Let_def split: if_splits)

text \<open>A root that is over, with its identity.\<close>

definition root_ended :: "DeviceExecutionRootRow \<Rightarrow> arb_db \<Rightarrow> bool" where
  "root_ended r db \<longleftrightarrow> (\<exists>r' \<in> set (ad_roots db). rt_id r' = rt_id r \<and> rootIsTerminal r')"

lemma finish_root_ended: "r \<in> set (ad_roots db) \<Longrightarrow> root_ended r (replace_root db r (finish_root now to1 reason m r))"
  by (auto simp: root_ended_def finish_root_def rootIsTerminal_def replace_root_def rev_image_eqI
      intro!: bexI [of _ "r\<lparr>rt_state := to1, rt_terminal_reason := Some reason, rt_terminal := Some now, rt_updated := now,
        rt_metadata := jmerge (rt_metadata r) m\<rparr>"])

lemma queued_ended:
  assumes "updateQueuedRootTerminal now (rt_id r) d g reason m db = Inr (Some x, db')" "arb_ok db" "r \<in> set (ad_roots db)"
  shows "root_ended r db' \<and> ad_workflows db' = ad_workflows db"
proof -
  obtain q to1 where q: "q \<in> set (ad_roots db)" "rt_id q = rt_id r" "db' = replace_root db q (finish_root now to1 reason m q)"
    using queued_outcome [OF assms(1,2)] by blast
  then have "q = r" using root_unique [OF assms(2) _ assms(3)] by blast
  then show ?thesis using q finish_root_ended [OF q(1)] by (simp add: replace_root_def)
qed

lemma root_ended_cong: "ad_roots db' = ad_roots db \<Longrightarrow> root_ended r db' = root_ended r db"
  by (simp add: root_ended_def)

lemma cancel_accepted_outcome:
  assumes c: "cancel_accepted now i r db = Inr (res, db')" and ok: "arb_ok db" and r: "r \<in> set (ad_roots db)"
  shows "if dr_applied res then root_ended r db' else same_rows db db'"
proof -
  consider "updateQueuedRootTerminal now (rt_id r) (wi_device i) (rt_generation r) (queued_reason i)
        (member_metadata (wi_metadata i)) db = Inr (None, db')" "\<not> dr_applied res"
    | x db1 ops db2 where "updateQueuedRootTerminal now (rt_id r) (wi_device i) (rt_generation r) (queued_reason i)
        (member_metadata (wi_metadata i)) db = Inr (Some x, db1)"
        "cancelRegisteredOperationsForRoot now (rt_id r) (rt_generation r) (member_metadata (wi_metadata i)) db1 = Inr (ops, db2)"
        "same_rows db2 db'" "dr_applied res"
    using c unfolding cancel_accepted_def by (auto simp: tx_Inr refuse_def answer_def dest: event_rows)
  then show ?thesis
  proof cases
    case 1
    then show ?thesis by (auto dest: root_miss)
  next
    case 2
    then show ?thesis using queued_ended [OF 2(1) ok r] cancel_operations_roots [OF 2(2)]
      by (simp add: same_rows_def root_ended_def)
  qed
qed

lemma cancel_outcome:
  assumes c: "cancelQueuedServerWorkflowRoot now i db = Inr (res, db')" and ok: "arb_ok db"
  shows "if dr_applied res then \<exists>r. selectRootByExternalId ''server_workflow'' (wi_workflow i) db = Some r
      \<and> rt_device r = wi_device i \<and> rootIsInitialPhase r \<and> root_ended r db' else same_rows db db'"
proof (cases "selectRootByExternalId ''server_workflow'' (wi_workflow i) db")
  case None
  then show ?thesis using c
    by (auto simp: cancelQueuedServerWorkflowRoot_def tx_Inr refuse_def answer_def dest: event_rows)
next
  case (Some r)
  show ?thesis
  proof (cases "rt_device r = wi_device i \<and> rootIsInitialPhase r")
    case True
    then have "cancel_accepted now i r db = Inr (res, db')"
      using c Some by (simp add: cancelQueuedServerWorkflowRoot_def tx_Inr)
    from cancel_accepted_outcome [OF this ok selectRootByExternalId_in [OF Some]] show ?thesis using True Some
      by (cases "dr_applied res") simp_all
  next
    case False
    then obtain reason where "cancel_rejected i r reason db = Inr (res, db')"
      using c Some by (auto simp: cancelQueuedServerWorkflowRoot_def tx_Inr split: if_splits)
    then show ?thesis by (auto simp: cancel_rejected_def tx_Inr refuse_def answer_def dest: event_rows)
  qed
qed

lemma workflow_cancelled:
  assumes "tx_transitionWorkflow now i sel db = Inr (Some w', db')" "targetTerminal sel = Some True"
    "targetAdministrative sel = Some True" "transitionManualAllowed sel = Some True"
  shows "ad_roots db' = ad_roots db \<and> (\<exists>w \<in> set (ad_workflows db). \<exists>t s. wf_id w = i
    \<and> (t, s) \<in> set (outgoing (ad_lc db) (wf_key w) (wf_status w)) \<and> lt_manual_allowed t \<and> ls_terminal s \<and> ls_administrative s
    \<and> w' \<in> set (ad_workflows db') \<and> wf_id w' = i \<and> wf_status w' = lt_to t)"
proof -
  obtain ws where m: "transitionWorkflow (ad_lc db) now i sel no_workflow_patch (ad_workflows db) = (Some w', ws)"
      and d: "db' = db\<lparr>ad_workflows := ws\<rparr>"
    using assms(1) by (auto simp: tx_transitionWorkflow_def split: prod.splits)
  from workflow.move_row_Some [OF m [unfolded transitionWorkflow_def transitionWorkflowWhere_def]]
  obtain w e where w: "w \<in> set (ad_workflows db)" "wf_id w = i" "unique_effect (ad_lc db) sel (wf_key w) (wf_status w) = Some e"
      "w' = apply_workflow (now, no_workflow_patch) e w"
      "ws = update_where (\<lambda>x. wf_id x = wf_id w) (apply_workflow (now, no_workflow_patch) e) (ad_workflows db)"
    by blast
  have "e \<in> effects (ad_lc db) sel (wf_key w) (wf_status w)" using w(3) by (simp add: unique_effect_iff)
  then obtain t s where t: "(t, s) \<in> set (outgoing (ad_lc db) (wf_key w) (wf_status w))" "e = effect_of t"
      "lifecycleTransitionSelectorPredicate (ad_lc db) sel t s" by (auto simp: effects_def)
  have "w' \<in> set ws" using w(1,4,5) by (auto simp: set_update_where)
  moreover have "wf_id w' = i" "wf_status w' = lt_to t" using w(2,4) t(2) by (simp_all add: workflow.upd_id workflow.upd_status)
  moreover have "lt_manual_allowed t" "ls_terminal s" "ls_administrative s"
    using t(3) assms(2-4) by (simp_all add: lifecycleTransitionSelectorPredicate_def)
  ultimately show ?thesis using d w(1,2) t(1) by auto
qed

text \<open>The workflow of an accepted cancellation left its status along a manual exit into an ended state.\<close>

definition workflow_ended :: "string \<Rightarrow> arb_db \<Rightarrow> arb_db \<Rightarrow> bool" where
  "workflow_ended i db db' \<longleftrightarrow> (\<exists>w \<in> set (ad_workflows db). \<exists>w' \<in> set (ad_workflows db'). \<exists>t s. wf_id w = i \<and> wf_id w' = i
     \<and> (t, s) \<in> set (outgoing (ad_lc db) (wf_key w) (wf_status w)) \<and> lt_manual_allowed t \<and> ls_terminal s \<and> ls_administrative s
     \<and> wf_status w' = lt_to t)"

lemma persisted_root_outcome:
  assumes "persisted_root_cancel now i found db = Inr (x, db')" "arb_ok db" "set_option found \<subseteq> set (ad_roots db)"
  shows "(\<forall>r. found = Some r \<longrightarrow> root_ended r db') \<and> ad_workflows db' = ad_workflows db \<and> ad_lc db' = ad_lc db"
proof (cases found)
  case None
  then show ?thesis using assms(1) by (simp add: persisted_root_cancel_def tx_Inr)
next
  case (Some r)
  then obtain y db1 ops where u: "updateQueuedRootTerminal now (rt_id r) (wi_device i) (rt_generation r) (queued_reason i)
        (member_metadata (wi_metadata i)) db = Inr (Some y, db1)"
      "cancelRegisteredOperationsForRoot now (rt_id r) (rt_generation r) (member_metadata (wi_metadata i)) db1 = Inr (ops, db')"
    using assms(1) by (auto simp: persisted_root_cancel_def tx_Inr)
  have "ad_lc db1 = ad_lc db" using queued_outcome [OF u(1) assms(2)] by auto
  then show ?thesis using queued_ended [OF u(1) assms(2)] cancel_operations_roots [OF u(2)] Some assms(3)
    by (simp add: root_ended_def)
qed

lemma persisted_cancel_outcome:
  assumes "persisted_cancel now i found db = Inr (res, db')" "arb_ok db" "set_option found \<subseteq> set (ad_roots db)"
  shows "dr_applied res \<and> workflow_ended (wi_workflow i) db db' \<and> (\<forall>r. found = Some r \<longrightarrow> root_ended r db')"
proof -
  let ?sel = "any_selector\<lparr>targetTerminal := Some True, targetAdministrative := Some True, transitionManualAllowed := Some True\<rparr>"
  obtain x db1 w' db2 where u: "persisted_root_cancel now i found db = Inr (x, db1)"
      "tx_transitionWorkflow now (wi_workflow i) ?sel db1 = Inr (Some w', db2)" "same_rows db2 db'" "dr_applied res"
    using assms(1) unfolding persisted_cancel_def by (auto simp: tx_Inr split: prod.splits dest: insertEvent_rows)
  note r = persisted_root_outcome [OF u(1) assms(2,3)]
  have "ad_roots db2 = ad_roots db1" "workflow_ended (wi_workflow i) db db2"
    using workflow_cancelled [OF u(2)] r by (auto simp: workflow_ended_def)
  then show ?thesis using u(3,4) r by (simp add: same_rows_def root_ended_def workflow_ended_def)
qed

lemma persisted_outcome:
  assumes c: "cancelQueuedPersistedWorkflow now i db = Inr (res, db')" and ok: "arb_ok db"
  shows "if dr_applied res then workflow_ended (wi_workflow i) db db'
      \<and> (\<forall>r. selectRootByExternalId ''server_workflow'' (wi_workflow i) db = Some r \<longrightarrow>
            rt_device r = wi_device i \<and> rootIsInitialPhase r \<and> root_ended r db') else same_rows db db'"
proof -
  let ?found = "selectRootByExternalId ''server_workflow'' (wi_workflow i) db"
  consider d reason ms where "persisted_rejected i d reason ms db = Inr (res, db')"
    | r reason where "persisted_root_rejected i r reason db = Inr (res, db')"
    | "persisted_cancel now i ?found db = Inr (res, db')"
        "\<forall>r. ?found = Some r \<longrightarrow> rt_device r = wi_device i \<and> rootIsInitialPhase r"
    using c unfolding cancelQueuedPersistedWorkflow_def by (auto simp: tx_Inr split: if_splits)
  then show ?thesis
  proof cases
    case 1
    then show ?thesis by (auto simp: persisted_rejected_def tx_Inr refuse_def answer_def dest: event_rows)
  next
    case 2
    then show ?thesis by (auto simp: persisted_root_rejected_def tx_Inr refuse_def answer_def dest: event_rows)
  next
    case 3
    have "set_option ?found \<subseteq> set (ad_roots db)" using selectRootByExternalId_in by auto
    from persisted_cancel_outcome [OF 3(1) ok this] 3(2) show ?thesis by simp
  qed
qed

end
