(* ===== verification/Arbiter_Properties.thy ===== *)
theory Arbiter_Properties imports Arbiter_Guards
begin

text \<open>
  The properties of the device execution arbiter, each with a witness on a concrete
  configuration and tables.
\<close>

section \<open>The arbiter as a transition system\<close>

definition after :: "'a tx \<Rightarrow> arb_db \<Rightarrow> arb_db" where
  "after m db = snd (withTransaction m db)"

lemma valid_after: "valid P m (\<lambda>_. P) \<Longrightarrow> P db \<Longrightarrow> P (after m db)"
  by (auto simp: valid_def after_def withTransaction_def split: sum.splits)

text \<open>The transactions that respect the device slot, and all of them.\<close>

inductive slot_step :: "arb_db \<Rightarrow> arb_db \<Rightarrow> bool" where
  admission: "slot_step db (after (observeAdmission now newId ai) db)"
| dispatch: "slot_step db (after (observeDispatch now newId di) db)"
| claim: "slot_step db (after (claimNextRoot now unlocked device actor) db)"
| terminal: "slot_step db (after (observeTerminal now ti) db)"
| result: "slot_step db (after (acceptJobResult now ri) db)"
| finish: "slot_step db (after (finishServerWorkflowRoot now wi successful) db)"
| expire: "slot_step db (after (expireServerWorkflowChild now xi) db)"
| cancel: "slot_step db (after (cancelQueuedServerWorkflowRoot now wi) db)"
| cancel_persisted: "slot_step db (after (cancelQueuedPersistedWorkflow now wi) db)"
| prepare: "slot_step db (after (standalone_prepare now newId unlocked t i) db)"
| complete: "slot_step db (after (standalone_complete now t i prepared p sent err) db)"
| observe: "slot_step db (after (observed_prepare now newId unlocked t i) db)"
| reject: "slot_step db (after (recordRejectedEgress n) db)"
| control: "slot_step db (after (recordControlEgress n) db)"
| startup: "slot_step db (after (reconcileInFlightAtStartup now actor reason m) db)"

inductive arb_step :: "arb_db \<Rightarrow> arb_db \<Rightarrow> bool" where
  slot: "slot_step db db' \<Longrightarrow> arb_step db db'"
| ambiguous: "arb_step db (after (markAmbiguous now mi) db)"
| observed: "arb_step db (after (observed_complete now t i prepared h sent err) db)"
| corrupt: "arb_step db (after (markCorruptQueueHead now c) db)"

text \<open>Every step keeps an assertion that meets the contract.\<close>

lemma slot_step_keeps:
  assumes "arbiter_frame lc K" "slot_step db db'" "K {} db"
  shows "K {} db'"
  using assms(2)
  by cases (simp_all only:, (rule valid_after [where P = "K {}", OF _ assms(3)],
    rule arbiter_frame.transactions [OF assms(1)])+)

lemma arb_steps_continue:
  assumes "arb_step\<^sup>*\<^sup>* db db'" "arb_ok db"
  shows "continues db {} db'"
  using assms(1)
proof (induction rule: rtranclp_induct)
  case base
  show ?case using assms(2) by (simp add: continues_def)
next
  case (step y z)
  from step.hyps(2) show ?case
  proof cases
    case slot
    show ?thesis by (rule slot_step_keeps [OF hist.arbiter_frame_axioms slot step.IH])
  next
    case (ambiguous now mi)
    show ?thesis unfolding ambiguous by (rule valid_after [OF hist.markAmbiguous_keeps step.IH])
  next
    case (observed now t i prepared h sent err)
    show ?thesis unfolding observed by (rule valid_after [OF hist.observed_complete_keeps step.IH])
  next
    case (corrupt now c)
    show ?thesis unfolding corrupt by (rule valid_after [OF hist.markCorruptQueueHead_keeps step.IH])
  qed
qed

lemma slot_steps_slotted:
  assumes "slot_step\<^sup>*\<^sup>* db db'" "arb_ok db" "slots db"
  shows "slotted db {} db'"
  using assms(1)
proof (induction rule: rtranclp_induct)
  case base
  show ?case using assms(2,3) by (simp add: slotted_def continues_def)
next
  case (step y z)
  show ?case by (rule slot_step_keeps [OF slot.arbiter_frame_axioms step.hyps(2) step.IH])
qed

section \<open>Samples\<close>

definition arbiter_policy :: json where
  "arbiter_policy = JObj [(''observeMode'', JBool True),
     (''rootKinds'', JObj [(''job'', JObj [(''operationKind'', JStr ''job''), (''wireType'', JStr ''execute'')]),
        (''server_workflow'', JObj [(''operationKind'', JStr ''workflow''), (''wireType'', JNull)])]),
     (''boundaries'', JObj [])]"

text \<open>The sample lifecycle without the retry back into its initial state.\<close>

definition arbiter_lc :: lc_db where
  "arbiter_lc = sample_db\<lparr>db_transitions := butlast sample_transitions,
     db_policies := [\<lparr>lp_table = ''device_execution_roots'', lp_column = ''state'', lp_policy = arbiter_policy,
       lp_version = 1, lp_updated_by = None, lp_updated_at = 0\<rparr>]\<rparr>"

definition empty_arbiter :: arb_db where
  "empty_arbiter = \<lparr>ad_lc = arbiter_lc, ad_roots = [], ad_ops = [], ad_events = [], ad_workflows = [],
     ad_next_fifo = 1, ad_next_op = 1\<rparr>"

definition job_admission :: "string \<Rightarrow> admission_input" where
  "job_admission j = \<lparr>ai_device = ''d1'', ai_kind = None, ai_external = Some j, ai_request = None, ai_actor = None,
     ai_metadata = None\<rparr>"

definition job_dispatch :: "string \<Rightarrow> dispatch_input" where
  "job_dispatch j = \<lparr>di_device = ''d1'', di_kind = None, di_external = j, di_request = None, di_sent = True,
     di_actor = None, di_metadata = None\<rparr>"

text \<open>Two admitted jobs, the first one dispatched.\<close>

definition two_jobs :: arb_db where
  "two_jobs = after (observeAdmission 2 ''r2'' (job_admission ''j2'')) (after (observeAdmission 1 ''r1'' (job_admission ''j1'')) empty_arbiter)"

definition one_dispatched :: arb_db where
  "one_dispatched = after (observeDispatch 3 ''x'' (job_dispatch ''j1'')) two_jobs"

lemma arb_config_arbiter_lc: "arb_config arbiter_lc"
proof -
  let ?db = "arbiter_lc"
  have wf: "wf_config ?db"
    using wf_sample_db
    by (auto simp: wf_config_def keys_distinct_def stale_policies_ok_def initial_state_unique_def
        transitions_resolved_def policies_bound_def state_exists_def arbiter_lc_def in_set_butlastD
        map_butlast distinct_butlast policy_identity_def binding_identity_def sample_defs)
  have "phases_disjoint ?db" by (simp add: phases_disjoint_def arbiter_lc_def sample_defs)
  with wf show ?thesis by (simp add: arb_config_def)
qed

lemma arb_ok_empty: "arb_ok empty_arbiter"
  using arb_config_arbiter_lc by (simp add: arb_ok_def empty_arbiter_def)

lemma slots_empty: "slots empty_arbiter"
  by (simp add: slots_def single_active_def empty_arbiter_def initial_unreachable_def arbiter_lc_def sample_defs)

lemma slot_steps_two_jobs: "slot_step\<^sup>*\<^sup>* empty_arbiter two_jobs"
proof -
  let ?one = "after (observeAdmission 1 ''r1'' (job_admission ''j1'')) empty_arbiter"
  have "slot_step empty_arbiter ?one" by (rule slot_step.admission)
  moreover have "slot_step ?one two_jobs" unfolding two_jobs_def by (rule slot_step.admission)
  ultimately show ?thesis by (meson r_into_rtranclp rtranclp.rtrancl_into_rtrancl)
qed

lemma slot_steps_one_dispatched: "slot_step\<^sup>*\<^sup>* empty_arbiter one_dispatched"
proof -
  have "slot_step two_jobs one_dispatched" unfolding one_dispatched_def by (rule slot_step.dispatch)
  with slot_steps_two_jobs show ?thesis by (rule rtranclp.rtrancl_into_rtrancl)
qed

lemma arb_steps_slot: "slot_step\<^sup>*\<^sup>* a b \<Longrightarrow> arb_step\<^sup>*\<^sup>* a b"
  by (induction rule: rtranclp_induct) (auto intro: arb_step.slot rtranclp.rtrancl_into_rtrancl)

lemma arb_ok_one_dispatched: "arb_ok one_dispatched"
  using arb_steps_continue [OF arb_steps_slot [OF slot_steps_one_dispatched] arb_ok_empty]
  by (simp add: continues_def)

section \<open>History\<close>

text \<open>
  C5. Whatever sequence of arbiter transactions runs, an ended root row is never touched
  again: it is in the table afterwards exactly as it was, so no late dispatch, claim,
  result, ambiguity or cancellation can reopen or rewrite it.
\<close>

theorem ended_roots_frozen:
  assumes "arb_step\<^sup>*\<^sup>* db db'" "arb_ok db" "r \<in> set (ad_roots db)" "rootIsTerminal r"
  shows "r \<in> set (ad_roots db')"
  using arb_steps_continue [OF assms(1,2)] assms(3,4) by (auto simp: continues_def history_def rows_le_def root_le_def)

definition finished_one :: arb_db where
  "finished_one = after (observeTerminal 4 \<lparr>ti_device = ''d1'', ti_kind = None, ti_external = Some ''j1'', ti_root = None,
     ti_handle = None, ti_generation = None, ti_status = Some ''done'', ti_selector = None, ti_actor = None,
     ti_reason = None, ti_metadata = None\<rparr>) one_dispatched"

lemma arb_ok_finished_one: "arb_ok finished_one"
proof -
  have "slot_step one_dispatched finished_one" unfolding finished_one_def by (rule slot_step.terminal)
  with slot_steps_one_dispatched have "slot_step\<^sup>*\<^sup>* empty_arbiter finished_one"
    by (rule rtranclp.rtrancl_into_rtrancl)
  then have "arb_step\<^sup>*\<^sup>* empty_arbiter finished_one" by (rule arb_steps_slot)
  from arb_steps_continue [OF this arb_ok_empty] show ?thesis by (simp add: continues_def)
qed

theorem ended_roots_frozen_witness:
  "\<exists>r. r \<in> set (ad_roots finished_one) \<and> rt_id r = ''r1'' \<and> rootIsTerminal r
     \<and> r \<in> set (ad_roots (after (observeDispatch 9 ''x'' (job_dispatch ''j1'')) finished_one))"
proof -
  let ?r = "hd (ad_roots finished_one)"
  have r: "rt_id ?r = ''r1''" "rootIsTerminal ?r" "ad_roots finished_one \<noteq> []" by code_simp+
  then have m: "?r \<in> set (ad_roots finished_one)" by simp
  have "arb_step\<^sup>*\<^sup>* finished_one (after (observeDispatch 9 ''x'' (job_dispatch ''j1'')) finished_one)"
    by (intro r_into_rtranclp arb_step.slot slot_step.dispatch)
  from ended_roots_frozen [OF this arb_ok_finished_one m r(2)] show ?thesis using m r by blast
qed

text \<open>
  C6. Rows keep their identity and the log only grows: after any sequence of transactions
  every root still has its device, kind, external id, request key and queue position, its
  owner generation has not decreased, every operation still belongs to its root and stays
  ended once ended, and the earlier events are a prefix of the event log.
\<close>

theorem arbiter_history_preserved:
  assumes "arb_step\<^sup>*\<^sup>* db db'" "arb_ok db"
  shows "(\<forall>r \<in> set (ad_roots db). \<exists>r' \<in> set (ad_roots db'). rt_id r' = rt_id r \<and> rt_device r' = rt_device r
      \<and> rt_kind r' = rt_kind r \<and> rt_external r' = rt_external r \<and> rt_request r' = rt_request r
      \<and> rt_fifo r' = rt_fifo r \<and> rt_generation r \<le> rt_generation r')
    \<and> (\<forall>a \<in> set (ad_ops db). \<exists>b \<in> set (ad_ops db'). op_kind b = op_kind a \<and> op_id b = op_id a
      \<and> op_root b = op_root a \<and> op_device b = op_device a \<and> (operationIsTerminal a \<longrightarrow> operationIsTerminal b))
    \<and> (\<exists>es. ad_events db' = ad_events db @ es)"
proof -
  have h: "history db db'" using arb_steps_continue [OF assms] by (simp add: continues_def)
  have "\<exists>r' \<in> set (ad_roots db'). root_le r r'" if "r \<in> set (ad_roots db)" for r
    using h that by (simp add: history_def rows_le_def)
  moreover have "\<exists>b \<in> set (ad_ops db'). op_le a b" if "a \<in> set (ad_ops db)" for a
    using h that by (simp add: history_def rows_le_def)
  moreover have "\<exists>es. ad_events db' = ad_events db @ es" using h by (simp add: history_def)
  ultimately show ?thesis unfolding root_le_def op_le_def op_identity_def by (intro conjI ballI) (blast | fastforce)+
qed

theorem arbiter_history_preserved_witness:
  "arb_step\<^sup>*\<^sup>* empty_arbiter one_dispatched \<and> (\<exists>es. ad_events finished_one = ad_events one_dispatched @ es)"
proof -
  have "arb_step\<^sup>*\<^sup>* one_dispatched finished_one"
    unfolding finished_one_def by (intro r_into_rtranclp arb_step.slot slot_step.terminal)
  from arbiter_history_preserved [OF this arb_ok_one_dispatched] show ?thesis
    using arb_steps_slot [OF slot_steps_one_dispatched] by blast
qed

section \<open>The device slot\<close>

text \<open>
  C3. One active root per device: on a lifecycle without transitions back into its initial
  state, every sequence of admissions, dispatch observations, claims, results, finishes,
  timeouts and cancellations keeps at most one root of a device active, starting from
  tables where that holds.
\<close>

theorem one_active_root_per_device:
  assumes "slot_step\<^sup>*\<^sup>* db db'" "arb_ok db" "slots db"
    "r \<in> set (ad_roots db')" "q \<in> set (ad_roots db')" "rt_device r = rt_device q"
    "root_matches (ad_lc db') (rt_state r) active_selector" "root_matches (ad_lc db') (rt_state q) active_selector"
  shows "r = q"
  using slotted_def [of db "{}" db'] slot_steps_slotted [OF assms(1-3)] active_single [of db' r q] assms(4-8)
  by (simp add: active_def)

theorem one_active_root_per_device_witness:
  "slot_step\<^sup>*\<^sup>* empty_arbiter one_dispatched
   \<and> (\<exists>r \<in> set (ad_roots one_dispatched). root_matches arbiter_lc (rt_state r) active_selector
        \<and> (\<forall>q \<in> set (ad_roots one_dispatched). rt_device q = rt_device r \<longrightarrow>
             root_matches arbiter_lc (rt_state q) active_selector \<longrightarrow> q = r))"
proof -
  let ?r = "hd (ad_roots one_dispatched)"
  have r: "root_matches arbiter_lc (rt_state ?r) active_selector" "ad_roots one_dispatched \<noteq> []" by code_simp+
  then have m: "?r \<in> set (ad_roots one_dispatched)" by simp
  have lc: "ad_lc one_dispatched = arbiter_lc" by code_simp
  have "q = ?r" if "q \<in> set (ad_roots one_dispatched)" "rt_device q = rt_device ?r"
      "root_matches arbiter_lc (rt_state q) active_selector" for q
    using one_active_root_per_device [OF slot_steps_one_dispatched arb_ok_empty slots_empty that(1) m that(2)]
      that(3) r(1) lc by simp
  then show ?thesis using slot_steps_one_dispatched r(1) m by blast
qed

section \<open>Job results\<close>

text \<open>
  C9. A job result is accepted only from the current dispatch owner: then a job operation
  of that id and its root exist, both on the reporting device and of one owner
  generation, neither ended, dispatched or dispatching, and every handle that was given
  is the operation's own (a missing device handle only under the explicit legacy flag).
  A refused result leaves the configuration, the roots, the operations and the workflows
  as they were.
\<close>

theorem job_result_fenced:
  assumes "acceptJobResult now ri db = Inr (ja, db')"
  shows "if ja_accepted ja
    then \<exists>r \<in> set (ad_roots db). \<exists>o1 \<in> set (ad_ops db). op_kind o1 = ''job'' \<and> op_id o1 = ri_job ri \<and> op_root o1 = rt_id r
       \<and> rt_device r = ri_device ri \<and> op_device o1 = ri_device ri \<and> rt_generation r = op_generation o1
       \<and> \<not> rootIsTerminal r \<and> \<not> operationIsTerminal o1 \<and> (rootIsDispatching r \<or> rootIsDispatched r)
       \<and> (\<forall>h. ri_handle ri = Some h \<longrightarrow> h = operationRowToHandle o1)
       \<and> (case ri_reported ri of Some h \<Rightarrow> h = operationRowToHandle o1 | None \<Rightarrow> ri_allow_legacy ri)
    else ad_lc db' = ad_lc db \<and> ad_roots db' = ad_roots db \<and> ad_ops db' = ad_ops db \<and> ad_workflows db' = ad_workflows db"
proof (cases "ja_accepted ja")
  case True
  then obtain r o1 where m: "r \<in> set (ad_roots db)" "o1 \<in> set (ad_ops db)" and o1: "result_owner ri r o1"
    using accept_outcome [OF assms] by auto
  then have "\<not> rootIsTerminal r" "\<not> operationIsTerminal o1" "rootIsDispatching r \<or> rootIsDispatched r"
    by (auto simp: result_owner_def is_current_dispatch_owner_def rootIsTerminal_def operationIsTerminal_def
        rootIsDispatching_def rootIsDispatched_def operationIsDispatching_def operationIsDispatched_def)
  then show ?thesis using m o1 True unfolding result_owner_def is_current_dispatch_owner_def by auto
next
  case False
  then show ?thesis using accept_outcome [OF assms] by (simp add: same_rows_def)
qed

definition own_handle :: DeviceExecutionHandle where
  "own_handle = operationRowToHandle (hd (ad_ops one_dispatched))"

definition job_result :: "DeviceExecutionHandle option \<Rightarrow> result_input" where
  "job_result h = \<lparr>ri_device = ''d1'', ri_job = ''j1'', ri_handle = None, ri_reported = h, ri_allow_legacy = False,
     ri_success = True, ri_actor = None, ri_reason = None, ri_metadata = None\<rparr>"

text \<open>What a transaction that returns answers with, for evaluated samples.\<close>

definition answers :: "'a tx \<Rightarrow> arb_db \<Rightarrow> ('a \<Rightarrow> bool) \<Rightarrow> bool" where
  "answers m db p \<longleftrightarrow> (case m db of Inl _ \<Rightarrow> False | Inr (x, _) \<Rightarrow> p x)"

lemma answersE:
  assumes "answers m db p"
  obtains x db' where "m db = Inr (x, db')" "p x"
  using assms by (auto simp: answers_def split: sum.splits)

theorem job_result_fenced_witness:
  "(\<exists>ja db' r o1. acceptJobResult 5 (job_result (Some own_handle)) one_dispatched = Inr (ja, db') \<and> ja_accepted ja
      \<and> r \<in> set (ad_roots one_dispatched) \<and> o1 \<in> set (ad_ops one_dispatched) \<and> own_handle = operationRowToHandle o1)
   \<and> (\<exists>ja db'. acceptJobResult 5 (job_result None) one_dispatched = Inr (ja, db') \<and> \<not> ja_accepted ja
      \<and> ad_ops db' = ad_ops one_dispatched)"
proof
  have "answers (acceptJobResult 5 (job_result (Some own_handle))) one_dispatched ja_accepted" by code_simp
  then obtain ja db' where c: "acceptJobResult 5 (job_result (Some own_handle)) one_dispatched = Inr (ja, db')" "ja_accepted ja"
    by (rule answersE)
  have h: "ri_reported (job_result (Some own_handle)) = Some own_handle" by (simp add: job_result_def)
  show "\<exists>ja db' r o1. acceptJobResult 5 (job_result (Some own_handle)) one_dispatched = Inr (ja, db') \<and> ja_accepted ja
      \<and> r \<in> set (ad_roots one_dispatched) \<and> o1 \<in> set (ad_ops one_dispatched) \<and> own_handle = operationRowToHandle o1"
    using job_result_fenced [OF c(1), unfolded h] c by auto
next
  have "answers (acceptJobResult 5 (job_result None)) one_dispatched (\<lambda>ja. \<not> ja_accepted ja)" by code_simp
  then obtain ja db' where c: "acceptJobResult 5 (job_result None) one_dispatched = Inr (ja, db')" "\<not> ja_accepted ja"
    by (rule answersE)
  then show "\<exists>ja db'. acceptJobResult 5 (job_result None) one_dispatched = Inr (ja, db') \<and> \<not> ja_accepted ja
      \<and> ad_ops db' = ad_ops one_dispatched"
    using job_result_fenced [OF c(1)] by auto
qed

text \<open>
  A terminal observation is applied only to a root that has not ended, on the
  reporting device and of the expected owner generation (the handle's, else the given
  one, else the operation's, else the root's own); otherwise no row changes.
\<close>

theorem terminal_observation_fenced:
  assumes "observeTerminal now ti db = Inr (res, db')"
  shows "if isDeviceExecutionResultTerminal res
    then \<exists>r \<in> set (ad_roots db). \<exists>operation. rt_device r = ti_device ti \<and> \<not> rootIsTerminal r
       \<and> set_option operation \<subseteq> set (ad_ops db)
       \<and> of_int (rt_generation r) = expected_generation ti operation r
    else ad_lc db' = ad_lc db \<and> ad_roots db' = ad_roots db \<and> ad_ops db' = ad_ops db \<and> ad_workflows db' = ad_workflows db"
proof (cases "dr_applied res")
  case True
  then obtain kp r where "r \<in> set (ad_roots db)" "terminal_owner ti r (observed_operation ti kp db)"
    using observe_outcome [OF assms] by auto
  moreover have "set_option (observed_operation ti kp db) \<subseteq> set (ad_ops db)"
    by (auto simp: observed_operation_def dest: selectOperationByIdentity_in split: option.splits)
  ultimately show ?thesis using True unfolding terminal_owner_def isDeviceExecutionResultTerminal_def by auto
next
  case False
  then show ?thesis using observe_outcome [OF assms] by (simp add: same_rows_def isDeviceExecutionResultTerminal_def)
qed

definition stale_report :: terminal_input where
  "stale_report = \<lparr>ti_device = ''d1'', ti_kind = None, ti_external = Some ''j1'', ti_root = None, ti_handle = None,
     ti_generation = Some 7, ti_status = Some ''done'', ti_selector = None, ti_actor = None, ti_reason = None,
     ti_metadata = None\<rparr>"

theorem terminal_observation_fenced_witness:
  "\<exists>res db'. observeTerminal 5 stale_report one_dispatched = Inr (res, db') \<and> ad_roots db' = ad_roots one_dispatched"
proof -
  have "answers (observeTerminal 5 stale_report) one_dispatched (\<lambda>res. \<not> isDeviceExecutionResultTerminal res)" by code_simp
  then obtain res db' where c: "observeTerminal 5 stale_report one_dispatched = Inr (res, db')"
      "\<not> isDeviceExecutionResultTerminal res" by (rule answersE)
  then show ?thesis using terminal_observation_fenced [OF c(1)] by auto
qed

section \<open>Claims\<close>

text \<open>
  C10. A claim takes the oldest queued root of a free device: no root of the device is
  active, the claimed root is queued and unlocked, no other one that could be claimed has
  a smaller queue position, its owner generation grows by one, its claim time is set, it
  moves to the one state its automatic starting transition leads to, and every other root
  and every operation stays as it was.
\<close>

theorem claim_takes_oldest:
  assumes c: "claimNextRoot now unlocked device actor db = Inr (Some p, db')" and ok: "arb_ok db"
  shows "\<exists>n n' t. n \<in> set (ad_roots db) \<and> rt_device n = device \<and> root_matches (ad_lc db) (rt_state n) initial_selector \<and> unlocked n
    \<and> (\<forall>q \<in> set (ad_roots db). rt_device q = device \<longrightarrow> \<not> root_matches (ad_lc db) (rt_state q) active_selector
         \<and> (root_matches (ad_lc db) (rt_state q) initial_selector \<and> unlocked q \<longrightarrow> rt_fifo n \<le> rt_fifo q))
    \<and> selectResourceLifecycleTransition (ad_lc db) ''device_execution_roots'' (rt_state n) claim_selector ''state'' = Inr (Some t)
    \<and> rt_id n' = rt_id n \<and> rt_state n' = lt_to t \<and> rt_generation n' = rt_generation n + 1 \<and> rt_claimed n' \<noteq> None
    \<and> pm_root p = rt_id n \<and> pm_device p = device \<and> pm_generation p = rt_generation n'
    \<and> ad_roots db' = map (\<lambda>q. if q = n then n' else q) (ad_roots db) \<and> ad_ops db' = ad_ops db"
proof -
  obtain n t s where n: "selectActiveRoot device db = None" "selectOldestQueuedRoot unlocked device db = Some n"
    "root_exit db (rt_state n) claim_selector = Inr (Some t)"
    "p = \<lparr>pm_root = rt_id n, pm_device = rt_device n, pm_generation = rt_generation n + 1, pm_state = ''claimed''\<rparr>"
    "same_rows (replace_root db n (advanced now t s True [] n)) db'" by (rule claim_Some [OF c ok])
  let ?n = "advanced now t s True [] n"
  note in1 = selectOldestQueuedRoot_in [OF n(2)]
  have new: "rt_id ?n = rt_id n" "rt_state ?n = lt_to t" "rt_generation ?n = rt_generation n + 1" "rt_claimed ?n \<noteq> None"
    by (simp_all add: advance_root_def coalesce_def split: option.splits)
  have rows: "ad_roots db' = map (\<lambda>q. if q = n then ?n else q) (ad_roots db)" "ad_ops db' = ad_ops db"
    using n(5) by (simp_all add: same_rows_def replace_root_def)
  have permit: "pm_root p = rt_id n" "pm_device p = device" "pm_generation p = rt_generation ?n"
    using n(4) in1(2) new(3) by simp_all
  have oldest: "\<forall>q \<in> set (ad_roots db). rt_device q = device \<longrightarrow> \<not> root_matches (ad_lc db) (rt_state q) active_selector
      \<and> (root_matches (ad_lc db) (rt_state q) initial_selector \<and> unlocked q \<longrightarrow> rt_fifo n \<le> rt_fifo q)"
    using n(1)[unfolded selectActiveRoot_None] oldest_first [OF n(2)] by blast
  show ?thesis by (intro exI conjI, rule in1(1)) (fact in1 oldest n(3) new permit rows)+
qed

definition any_root :: "DeviceExecutionRootRow \<Rightarrow> bool" where
  "any_root r \<longleftrightarrow> True"

lemma arb_ok_two_jobs: "arb_ok two_jobs"
  using arb_steps_continue [OF arb_steps_slot [OF slot_steps_two_jobs] arb_ok_empty] by (simp add: continues_def)

theorem claim_takes_oldest_witness:
  "\<exists>p db' n n'. claimNextRoot 5 any_root ''d1'' None two_jobs = Inr (Some p, db') \<and> n \<in> set (ad_roots two_jobs)
     \<and> pm_root p = rt_id n \<and> rt_generation n' = rt_generation n + 1
     \<and> ad_roots db' = map (\<lambda>q. if q = n then n' else q) (ad_roots two_jobs)"
proof -
  have "answers (claimNextRoot 5 any_root ''d1'' None) two_jobs (\<lambda>x. x \<noteq> None)" by code_simp
  then obtain p db' where c: "claimNextRoot 5 any_root ''d1'' None two_jobs = Inr (Some p, db')"
    by (rule answersE) auto
  from claim_takes_oldest [OF c arb_ok_two_jobs] c show ?thesis by blast
qed

text \<open>
  C11. A free device with waiting work is not stuck: when no root of the device is active,
  some queued root is unlocked, and every state a claimable root is in has its one
  automatic starting transition, the next claim succeeds.
\<close>

theorem claim_progress:
  assumes ok: "arb_ok db"
    and "\<forall>r \<in> set (ad_roots db). rt_device r = device \<longrightarrow> \<not> root_matches (ad_lc db) (rt_state r) active_selector"
    and "q \<in> set (ad_roots db)" "rt_device q = device" "root_matches (ad_lc db) (rt_state q) initial_selector" "unlocked q"
    and ids: "\<forall>r \<in> set (ad_roots db). rt_id r \<noteq> []"
    and exits: "\<forall>r \<in> set (ad_roots db). root_matches (ad_lc db) (rt_state r) initial_selector \<longrightarrow>
      (\<exists>t. selectResourceLifecycleTransition (ad_lc db) ''device_execution_roots'' (rt_state r) claim_selector ''state'' = Inr (Some t))"
  shows "\<exists>p db'. claimNextRoot now unlocked device actor db = Inr (Some p, db')"
proof -
  have free: "selectActiveRoot device db = None" using assms(2) by (simp add: selectActiveRoot_None)
  have "claimable unlocked device db q" using assms(3-6) by (simp add: claimable_def)
  then obtain n where n: "selectOldestQueuedRoot unlocked device db = Some n" using claimable_exists by blast
  note in1 = selectOldestQueuedRoot_in [OF n]
  obtain t where "root_exit db (rt_state n) claim_selector = Inr (Some t)" using exits in1(1,3) by blast
  then obtain c db' where "transitionRootState now (rt_id n) claim_selector True [] db = Inr (Some c, db')"
    using transition_root_hit [OF ok in1(1)] ids in1(1) by blast
  then show ?thesis
    using free n by (simp add: claimNextRoot_def tx_bind_def tx_get_def tx_return_def move_event_def insertEvent_def)
qed

theorem claim_progress_witness:
  "\<exists>p db'. claimNextRoot 5 any_root ''d1'' None two_jobs = Inr (Some p, db')"
proof -
  let ?q = "hd (ad_roots two_jobs)"
  have a: "list_all (\<lambda>r. rt_device r = ''d1'' \<longrightarrow> \<not> root_matches (ad_lc two_jobs) (rt_state r) active_selector) (ad_roots two_jobs)"
    "list_all (\<lambda>r. rt_id r \<noteq> []) (ad_roots two_jobs)" by code_simp+
  have e: "list_all (\<lambda>r. case root_exit two_jobs (rt_state r) claim_selector of Inr (Some _) \<Rightarrow> True | _ \<Rightarrow> False) (ad_roots two_jobs)"
    by code_simp
  have q: "ad_roots two_jobs \<noteq> []" "rt_device ?q = ''d1''" "root_matches (ad_lc two_jobs) (rt_state ?q) initial_selector"
    by code_simp+
  have "\<exists>t. x = Inr (Some t)" if "case x of Inr (Some _) \<Rightarrow> True | _ \<Rightarrow> False" for x :: "LifecycleTransition option res"
    using that by (simp split: sum.splits option.splits)
  then have "\<forall>r \<in> set (ad_roots two_jobs). \<exists>t. root_exit two_jobs (rt_state r) claim_selector = Inr (Some t)"
    using e unfolding list_all_iff by blast
  then show ?thesis
    using a unfolding list_all_iff by (intro claim_progress [OF arb_ok_two_jobs _ hd_in_set [OF q(1)] q(2,3)]) (auto simp: any_root_def)
qed

section \<open>Child timeouts\<close>

text \<open>
  A child timeout never touches a root: whatever it answers, the roots and the
  workflows stay as they are, so the workflow keeps the device slot. It records the
  timeout only for the operation whose exact handle was presented, in the current owner
  generation, on a root that neither ended nor is ambiguous; otherwise no operation
  changes either.
\<close>

theorem child_timeout_retains_root:
  assumes "expireServerWorkflowChild now xi db = Inr (res, db')"
  shows "ad_roots db' = ad_roots db \<and> ad_workflows db' = ad_workflows db
    \<and> (if isDeviceExecutionResultTerminal res
        then \<exists>r \<in> set (ad_roots db). \<exists>o1 \<in> set (ad_ops db). op_kind o1 = ''job'' \<and> op_id o1 = xi_job xi
           \<and> xi_handle xi = operationRowToHandle o1 \<and> op_root o1 = rt_id r \<and> op_generation o1 = rt_generation r
           \<and> \<not> operationIsTerminal o1 \<and> \<not> rootIsTerminal r \<and> rt_reconciliation r = None
        else ad_ops db' = ad_ops db)"
proof (cases "dr_applied res")
  case True
  then obtain r o1 where "r \<in> set (ad_roots db)" "o1 \<in> set (ad_ops db)" "op_kind o1 = ''job''" "op_id o1 = xi_job xi"
      and g: "expire_refusal xi True r o1 = None"
    using expire_outcome [OF assms] by auto
  moreover have "xi_handle xi = operationRowToHandle o1 \<and> op_root o1 = rt_id r \<and> op_generation o1 = rt_generation r
      \<and> \<not> operationIsTerminal o1 \<and> \<not> rootIsTerminal r \<and> rt_reconciliation r = None"
    using g unfolding expire_refusal_def handlesEqual_iff by (simp split: if_split_asm)
  ultimately show ?thesis using True expire_outcome [OF assms] unfolding isDeviceExecutionResultTerminal_def by auto
next
  case False
  then show ?thesis using expire_outcome [OF assms] by (simp add: same_rows_def isDeviceExecutionResultTerminal_def)
qed

definition child_expiry :: "DeviceExecutionHandle \<Rightarrow> expire_input" where
  "child_expiry h = \<lparr>xi_device = ''d1'', xi_job = ''j1'', xi_handle = h, xi_actor = None, xi_reason = None, xi_metadata = None\<rparr>"

theorem child_timeout_retains_root_witness:
  "\<exists>res db'. expireServerWorkflowChild 9 (child_expiry own_handle) one_dispatched = Inr (res, db')
     \<and> ad_roots db' = ad_roots one_dispatched"
proof -
  have "answers (expireServerWorkflowChild 9 (child_expiry own_handle)) one_dispatched (\<lambda>_. True)" by code_simp
  then obtain res db' where c: "expireServerWorkflowChild 9 (child_expiry own_handle) one_dispatched = Inr (res, db')"
    by (rule answersE)
  then show ?thesis using child_timeout_retains_root [OF c] by blast
qed

section \<open>Cancellations\<close>

text \<open>
  Only a queued workflow root is cancelled: an applied cancellation found the
  workflow's own root on the requesting device, never claimed, dispatched, ended or
  ambiguous, and that root is ended afterwards; every other answer leaves all rows alone.
\<close>

theorem cancel_only_queued:
  assumes "cancelQueuedServerWorkflowRoot now wi db = Inr (res, db')" "arb_ok db"
  shows "if isDeviceExecutionResultTerminal res
    then \<exists>r \<in> set (ad_roots db). \<exists>r' \<in> set (ad_roots db'). rt_kind r = ''server_workflow'' \<and> rt_external r = Some (wi_workflow wi)
       \<and> rt_device r = wi_device wi \<and> rootIsInitialPhase r \<and> rt_id r' = rt_id r \<and> rootIsTerminal r'
    else ad_lc db' = ad_lc db \<and> ad_roots db' = ad_roots db \<and> ad_ops db' = ad_ops db \<and> ad_workflows db' = ad_workflows db"
proof (cases "dr_applied res")
  case True
  then obtain r where r: "selectRootByExternalId ''server_workflow'' (wi_workflow wi) db = Some r" "rt_device r = wi_device wi"
      "rootIsInitialPhase r" "root_ended r db'"
    using cancel_outcome [OF assms] by auto
  have "r \<in> set (ad_roots db) \<and> rt_kind r = ''server_workflow'' \<and> rt_external r = Some (wi_workflow wi)"
    using r(1) by (auto simp: selectRootByExternalId_def dest: find_in)
  then show ?thesis using True r(2-4) unfolding root_ended_def isDeviceExecutionResultTerminal_def by auto
next
  case False
  then show ?thesis using cancel_outcome [OF assms] by (simp add: same_rows_def isDeviceExecutionResultTerminal_def)
qed

definition workflow_admission :: admission_input where
  "workflow_admission = \<lparr>ai_device = ''d1'', ai_kind = Some ''server_workflow'', ai_external = Some ''w1'', ai_request = None,
     ai_actor = None, ai_metadata = None\<rparr>"

definition workflow_cancel :: workflow_input where
  "workflow_cancel = \<lparr>wi_device = ''d1'', wi_workflow = ''w1'', wi_actor = None, wi_reason = None, wi_metadata = None\<rparr>"

text \<open>One admitted workflow with its persisted row.\<close>

definition one_workflow :: arb_db where
  "one_workflow = (after (observeAdmission 1 ''r1'' workflow_admission) empty_arbiter)\<lparr>ad_workflows :=
     [\<lparr>wf_id = ''w1'', wf_key = ''flow'', wf_device = Some ''d1'', wf_status = ''queued'', wf_started = None,
       wf_completed = None, wf_checkpoint = None, wf_current_step = None, wf_total_steps = None, wf_error = None\<rparr>]\<rparr>"

lemma arb_ok_one_workflow: "arb_ok one_workflow"
proof -
  let ?db = "after (observeAdmission 1 ''r1'' workflow_admission) empty_arbiter"
  have "slot_step empty_arbiter ?db" by (rule slot_step.admission)
  then have "slot_step\<^sup>*\<^sup>* empty_arbiter ?db" by (rule r_into_rtranclp)
  from arb_steps_continue [OF arb_steps_slot [OF this] arb_ok_empty] have "arb_ok ?db" by (simp add: continues_def)
  then show ?thesis by (simp add: one_workflow_def arb_ok_def)
qed

theorem cancel_only_queued_witness:
  "\<exists>res db' r'. cancelQueuedServerWorkflowRoot 5 workflow_cancel one_workflow = Inr (res, db')
     \<and> r' \<in> set (ad_roots db') \<and> rootIsTerminal r'"
proof -
  have "answers (cancelQueuedServerWorkflowRoot 5 workflow_cancel) one_workflow isDeviceExecutionResultTerminal" by code_simp
  then obtain res db' where c: "cancelQueuedServerWorkflowRoot 5 workflow_cancel one_workflow = Inr (res, db')"
      "isDeviceExecutionResultTerminal res" by (rule answersE)
  then show ?thesis using cancel_only_queued [OF c(1) arb_ok_one_workflow] by auto
qed

text \<open>
  C12. Cancelling a persisted workflow is atomic across both tables: either the workflow
  row left its status along a manual exit into a terminal administrative state and its
  root, when it has one, was queued on the requesting device and is ended, or no row of
  any table changed.
\<close>

theorem persisted_cancel_atomic:
  assumes "cancelQueuedPersistedWorkflow now wi db = Inr (res, db')" "arb_ok db"
  shows "if isDeviceExecutionResultTerminal res
    then (\<exists>w \<in> set (ad_workflows db). \<exists>w' \<in> set (ad_workflows db'). \<exists>t s. wf_id w = wi_workflow wi \<and> wf_id w' = wi_workflow wi
         \<and> (t, s) \<in> set (outgoing (ad_lc db) (wf_key w) (wf_status w)) \<and> lt_manual_allowed t
         \<and> ls_terminal s \<and> ls_administrative s \<and> wf_status w' = lt_to t)
      \<and> (\<forall>r. selectRootByExternalId ''server_workflow'' (wi_workflow wi) db = Some r \<longrightarrow> rt_device r = wi_device wi
         \<and> rootIsInitialPhase r \<and> (\<exists>r' \<in> set (ad_roots db'). rt_id r' = rt_id r \<and> rootIsTerminal r'))
    else ad_lc db' = ad_lc db \<and> ad_roots db' = ad_roots db \<and> ad_ops db' = ad_ops db \<and> ad_workflows db' = ad_workflows db"
  using persisted_outcome [OF assms]
  unfolding isDeviceExecutionResultTerminal_def same_rows_def workflow_ended_def root_ended_def .

theorem persisted_cancel_atomic_witness:
  "\<exists>res db' w' r'. cancelQueuedPersistedWorkflow 5 workflow_cancel one_workflow = Inr (res, db')
     \<and> w' \<in> set (ad_workflows db') \<and> wf_id w' = ''w1'' \<and> r' \<in> set (ad_roots db') \<and> rootIsTerminal r'"
proof -
  have "answers (cancelQueuedPersistedWorkflow 5 workflow_cancel) one_workflow isDeviceExecutionResultTerminal" by code_simp
  then obtain res db' where c: "cancelQueuedPersistedWorkflow 5 workflow_cancel one_workflow = Inr (res, db')"
      "isDeviceExecutionResultTerminal res" by (rule answersE)
  have "selectRootByExternalId ''server_workflow'' (wi_workflow workflow_cancel) one_workflow = Some (hd (ad_roots one_workflow))"
    by code_simp
  moreover have "wi_workflow workflow_cancel = ''w1''" by (simp add: workflow_cancel_def)
  ultimately show ?thesis using persisted_cancel_atomic [OF c(1) arb_ok_one_workflow] c by metis
qed

section \<open>Handles on the wire\<close>

text \<open>
  A handle survives its trip over the wire: decoding the encoded form of a handle gives
  the handle back, and two handles count as equal exactly when they are the same.
\<close>

theorem wire_handle_roundtrip:
  "decodeDeviceExecutionHandle (wire_json (encodeDeviceExecutionHandle h)) = Some h
   \<and> (deviceExecutionHandlesEqual h h' \<longleftrightarrow> h = h')"
  by (simp add: decodeDeviceExecutionHandle_def wire_json_def encodeDeviceExecutionHandle_def string_member_def
      number_member_def jget_def)

end
