(* ===== verification/Arbiter_Lease.thy ===== *)
theory Arbiter_Lease imports Arbiter_Properties
begin

text \<open>
  The contract of the arbiter as an abstract machine: roots wait, hold their device or are
  over, and a device is held by one root at a time. Every transaction that respects the
  slot is simulated by steps of this machine.
\<close>

section \<open>The abstract machine\<close>

datatype lease_phase = Waiting | Holding | Over

type_synonym lease = "string \<Rightarrow> (string \<times> lease_phase) option"

inductive lease_step :: "lease \<Rightarrow> lease \<Rightarrow> bool" where
  enqueue: "a i = None \<Longrightarrow> lease_step a (a(i \<mapsto> (d, Waiting)))"
| acquire: "a i = Some (d, Waiting) \<Longrightarrow> \<forall>j. a j \<noteq> Some (d, Holding) \<Longrightarrow> lease_step a (a(i \<mapsto> (d, Holding)))"
| release: "a i = Some (d, p) \<Longrightarrow> p \<noteq> Over \<Longrightarrow> lease_step a (a(i \<mapsto> (d, Over)))"

text \<open>The machine keeps the lease exclusive.\<close>

definition exclusive :: "lease \<Rightarrow> bool" where
  "exclusive a \<longleftrightarrow> (\<forall>i j d. a i = Some (d, Holding) \<longrightarrow> a j = Some (d, Holding) \<longrightarrow> i = j)"

lemma lease_step_exclusive: "lease_step a b \<Longrightarrow> exclusive a \<Longrightarrow> exclusive b"
  by (induction rule: lease_step.induct) (auto simp: exclusive_def split: if_splits)

section \<open>Steps between two states\<close>

definition patch :: "string set \<Rightarrow> lease \<Rightarrow> lease \<Rightarrow> lease" where
  "patch S b a = (\<lambda>i. if i \<in> S then b i else a i)"

lemma patch_insert: "patch (insert i S) b a = (patch S b a)(i := b i)"
  by (auto simp: patch_def)

text \<open>Changing the roots of a finite set one by one.\<close>

lemma steps_on:
  assumes "finite S" "\<And>i T. T \<subseteq> S \<Longrightarrow> i \<in> S \<Longrightarrow> i \<notin> T \<Longrightarrow> lease_step (patch T b a) ((patch T b a)(i := b i))"
  shows "lease_step\<^sup>*\<^sup>* a (patch S b a)"
  using assms
proof (induction S rule: finite_induct)
  case empty
  then show ?case by (simp add: patch_def)
next
  case (insert i S)
  have "lease_step\<^sup>*\<^sup>* a (patch S b a)" by (rule insert.IH) (rule insert.prems, auto)
  moreover have "lease_step (patch S b a) (patch (insert i S) b a)"
    unfolding patch_insert by (rule insert.prems) (use insert.hyps in auto)
  ultimately show ?case by (metis rtranclp.rtrancl_into_rtrancl)
qed

fun phase_le :: "lease_phase \<Rightarrow> lease_phase \<Rightarrow> bool" where
  "phase_le Waiting q = True"
| "phase_le Holding q = (q \<noteq> Waiting)"
| "phase_le Over q = (q = Over)"

text \<open>
  From one state to a later one: release what is over, enqueue what is new, let the new
  holders acquire, release the new roots that are over already.
\<close>

lemma lease_steps_between:
  assumes fin: "finite (dom b)"
    and mono: "\<And>i d p. a i = Some (d, p) \<Longrightarrow> \<exists>q. b i = Some (d, q) \<and> phase_le p q" and excl: "exclusive b"
  shows "lease_step\<^sup>*\<^sup>* a b"
proof -
  define E where "E = {i. \<exists>d p. a i = Some (d, p) \<and> p \<noteq> Over \<and> b i = Some (d, Over)}"
  define N where "N = dom b - dom a"
  define w where "w i = (case b i of Some (d, _) \<Rightarrow> Some (d, Waiting) | None \<Rightarrow> None)" for i
  define H where "H = {i. \<exists>d. b i = Some (d, Holding) \<and> (i \<in> N \<or> a i = Some (d, Waiting))}"
  define F where "F = {i \<in> N. \<exists>d. b i = Some (d, Over)}"
  define c1 where "c1 = patch E b a"
  define c2 where "c2 = patch N w c1"
  define c3 where "c3 = patch H b c2"
  have sub: "E \<subseteq> dom b" "N \<subseteq> dom b" "H \<subseteq> dom b" "F \<subseteq> dom b" by (auto simp: E_def N_def H_def F_def)
  note finite = sub [THEN finite_subset, OF fin]
  have wait: "c2 i = Some (d, Waiting)" if "i \<in> H" "b i = Some (d, q)" for i d q
    using that by (auto simp: c2_def c1_def H_def E_def w_def patch_def)
  have held: "b j = Some (d, Holding) \<and> c2 j = a j" if "c2 j = Some (d, Holding)" for j d
  proof (cases "j \<in> N")
    case True
    then show ?thesis using that by (auto simp: c2_def w_def patch_def split: option.splits prod.splits)
  next
    case False
    then have c1: "c1 j = Some (d, Holding)" using that by (simp add: c2_def patch_def)
    then have "j \<notin> E" by (auto simp: c1_def E_def patch_def)
    then have j: "a j = Some (d, Holding)" using c1 by (simp add: c1_def patch_def)
    obtain q where q: "b j = Some (d, q)" "phase_le Holding q" using mono [OF j] by auto
    then have "q \<noteq> Over" using \<open>j \<notin> E\<close> j by (auto simp: E_def)
    then have "q = Holding" using q(2) by (cases q) auto
    then show ?thesis using q(1) False \<open>j \<notin> E\<close> by (simp add: c2_def c1_def patch_def)
  qed
  have "lease_step\<^sup>*\<^sup>* a c1" unfolding c1_def
  proof (rule steps_on [OF finite(1)])
    fix i T assume i: "i \<in> E" "i \<notin> T"
    then obtain d p where "a i = Some (d, p)" "p \<noteq> Over" "b i = Some (d, Over)" by (auto simp: E_def)
    then show "lease_step (patch T b a) ((patch T b a)(i := b i))"
      using i(2) release [of "patch T b a" i d p] by (simp add: patch_def)
  qed
  moreover have "lease_step\<^sup>*\<^sup>* c1 c2" unfolding c2_def
  proof (rule steps_on [OF finite(2)])
    fix i T assume i: "i \<in> N" "i \<notin> T"
    then obtain d q where b: "b i = Some (d, q)" by (auto simp: N_def)
    have "c1 i = None" using i by (cases "a i") (auto simp: c1_def E_def N_def patch_def)
    then show "lease_step (patch T w c1) ((patch T w c1)(i := w i))"
      using i(2) b enqueue [of "patch T w c1" i d] by (simp add: patch_def w_def)
  qed
  moreover have "lease_step\<^sup>*\<^sup>* c2 c3" unfolding c3_def
  proof (rule steps_on [OF finite(3)])
    fix i T assume T: "T \<subseteq> H" and i: "i \<in> H" "i \<notin> T"
    then obtain d where b: "b i = Some (d, Holding)" by (auto simp: H_def)
    have "patch T b c2 j \<noteq> Some (d, Holding)" for j
    proof
      assume "patch T b c2 j = Some (d, Holding)"
      then have "b j = Some (d, Holding)" "j \<in> T \<or> c2 j = Some (d, Holding)"
        using held by (auto simp: patch_def split: if_splits)
      moreover from this have "j = i" using excl b by (auto simp: exclusive_def)
      ultimately show False using i(2) wait [OF i(1) b] by simp
    qed
    then show "lease_step (patch T b c2) ((patch T b c2)(i := b i))"
      using b wait [OF i(1) b] i(2) acquire [of "patch T b c2" i d] by (simp add: patch_def)
  qed
  moreover have "lease_step\<^sup>*\<^sup>* c3 (patch F b c3)"
  proof (rule steps_on [OF finite(4)])
    fix i T assume i: "i \<in> F" "i \<notin> T"
    then obtain d where b: "b i = Some (d, Over)" "i \<in> N" by (auto simp: F_def)
    then have "c3 i = Some (d, Waiting)" by (auto simp: c3_def c2_def w_def H_def patch_def)
    then show "lease_step (patch T b c3) ((patch T b c3)(i := b i))"
      using i(2) b release [of "patch T b c3" i d Waiting] by (simp add: patch_def)
  qed
  moreover have "patch F b c3 = b"
  proof
    fix i
    show "patch F b c3 i = b i"
    proof (cases "i \<in> N")
      case True
      then obtain d q where "b i = Some (d, q)" by (auto simp: N_def)
      then show ?thesis using True by (cases q) (auto simp: F_def H_def c3_def c2_def w_def patch_def)
    next
      case False
      show ?thesis
      proof (cases "a i")
        case None
        then show ?thesis using False by (cases "b i") (auto simp: F_def H_def E_def N_def c3_def c2_def c1_def patch_def)
      next
        case (Some x)
        then obtain d p where a: "a i = Some (d, p)" by (cases x) auto
        obtain q where "b i = Some (d, q)" "phase_le p q" using mono [OF a] by auto
        then show ?thesis using False a
          by (cases p; cases q) (auto simp: F_def H_def E_def c3_def c2_def c1_def patch_def)
      qed
    qed
  qed
  ultimately show ?thesis by simp
qed

section \<open>The abstraction\<close>

definition root_phase :: "DeviceExecutionRootRow \<Rightarrow> lease_phase" where
  "root_phase r = (if rootIsTerminal r then Over else if rootIsInitialPhase r then Waiting else Holding)"

definition lease_of :: "arb_db \<Rightarrow> lease" where
  "lease_of db = map_of (map (\<lambda>r. (rt_id r, (rt_device r, root_phase r))) (ad_roots db))"

lemma lease_of_Some:
  assumes "arb_ok db"
  shows "lease_of db i = Some (d, p) \<longleftrightarrow> (\<exists>r \<in> set (ad_roots db). rt_id r = i \<and> rt_device r = d \<and> root_phase r = p)"
proof -
  have "distinct (map fst (map (\<lambda>r. (rt_id r, (rt_device r, root_phase r))) (ad_roots db)))"
    using assms by (simp add: arb_ok_def comp_def)
  from map_of_eq_Some_iff [OF this] show ?thesis by (auto simp: lease_of_def)
qed

lemma root_le_phase: "root_le r r' \<Longrightarrow> rt_id r' = rt_id r \<and> rt_device r' = rt_device r \<and> phase_le (root_phase r) (root_phase r')"
  by (auto simp: root_le_def root_phase_def)

lemma holding_active: "slots db \<Longrightarrow> r \<in> set (ad_roots db) \<Longrightarrow> root_phase r = Holding \<Longrightarrow> active (ad_lc db) r"
  using slots_phase [of db r] by (auto simp: root_phase_def phase_ok_def active_iff split: if_splits)

lemma lease_exclusive: "arb_ok db \<Longrightarrow> slots db \<Longrightarrow> exclusive (lease_of db)"
  unfolding exclusive_def lease_of_Some using active_single holding_active by blast

lemma history_lease:
  assumes "arb_ok db" "arb_ok db'" "slots db'" "history db db'"
  shows "lease_step\<^sup>*\<^sup>* (lease_of db) (lease_of db')"
proof (rule lease_steps_between)
  show "finite (dom (lease_of db'))" by (simp add: lease_of_def finite_dom_map_of)
  show "exclusive (lease_of db')" by (rule lease_exclusive [OF assms(2,3)])
  fix i d p assume "lease_of db i = Some (d, p)"
  then obtain r where r: "r \<in> set (ad_roots db)" "rt_id r = i" "rt_device r = d" "root_phase r = p"
    by (auto simp: lease_of_Some [OF assms(1)])
  obtain r' where "r' \<in> set (ad_roots db')" "root_le r r'"
    using assms(4) r(1) by (auto simp: history_def rows_le_def)
  then show "\<exists>q. lease_of db' i = Some (d, q) \<and> phase_le p q"
    using root_le_phase [of r r'] r unfolding lease_of_Some [OF assms(2)] by blast
qed

section \<open>Refinement\<close>

text \<open>
  C4. The arbiter refines the lease machine: every admission, dispatch observation, claim,
  terminal observation, job result, finish, timeout and cancellation takes the tables from
  one state to another as a sequence of steps in which roots are enqueued, acquire a device
  that no root holds, or are released; and the tables stay in the domain of the simulation.
\<close>

theorem arbiter_refines_lease:
  assumes "slot_step db db'" "arb_ok db" "slots db"
  shows "lease_step\<^sup>*\<^sup>* (lease_of db) (lease_of db') \<and> arb_ok db' \<and> slots db' \<and> exclusive (lease_of db')"
proof -
  have "slotted db {} db'" by (rule slot_steps_slotted [OF r_into_rtranclp [of slot_step, OF assms(1)] assms(2,3)])
  then have n: "arb_ok db'" "slots db'" "history db db'" by (simp_all add: slotted_def continues_def)
  then show ?thesis using history_lease [OF assms(2) n] lease_exclusive by blast
qed

theorem arbiter_refines_lease_witness:
  "lease_of two_jobs = [''r1'' \<mapsto> (''d1'', Waiting), ''r2'' \<mapsto> (''d1'', Waiting)]
   \<and> lease_of one_dispatched = [''r1'' \<mapsto> (''d1'', Holding), ''r2'' \<mapsto> (''d1'', Waiting)]
   \<and> lease_step\<^sup>*\<^sup>* (lease_of two_jobs) (lease_of one_dispatched)"
proof -
  have s: "slot_step two_jobs one_dispatched" unfolding one_dispatched_def by (rule slot_step.dispatch)
  have "slotted empty_arbiter {} two_jobs" by (rule slot_steps_slotted [OF slot_steps_two_jobs arb_ok_empty slots_empty])
  then have ok: "arb_ok two_jobs" "slots two_jobs" by (simp_all add: slotted_def continues_def)
  have "map (\<lambda>r. (rt_id r, (rt_device r, root_phase r))) (ad_roots two_jobs)
      = [(''r1'', (''d1'', Waiting)), (''r2'', (''d1'', Waiting))]" by code_simp
  moreover have "map (\<lambda>r. (rt_id r, (rt_device r, root_phase r))) (ad_roots one_dispatched)
      = [(''r1'', (''d1'', Holding)), (''r2'', (''d1'', Waiting))]" by code_simp
  ultimately show ?thesis using arbiter_refines_lease [OF s ok] by (auto simp: lease_of_def)
qed

end
