(* ===== verification/Arbiter_Egress_Properties.thy ===== *)
theory Arbiter_Egress_Properties imports Arbiter_Lease
begin

text \<open>
  What the two transactions of the egress runners promise: a permit is issued only after
  the intent to dispatch is recorded and its root holds the device, and a completion
  changes only the root and the operation its permit names.
\<close>

section \<open>The first transaction\<close>

lemma egress_fields [simp]:
  "er_permit (egress r) = None" "dr_decision (egress r) = dr_decision r"
  "dr_decision (answer d x) = d" "dr_decision (answer_op d y o1 reason) = d"
  by (simp_all add: egress_def egress_result.fields_def DeviceExecutionTransitionResult.extend_def answer_def answer_op_def)

lemma no_permit:
  "egress_missing_root t i db = Inr (res, db') \<Longrightarrow> er_permit res = None"
  "egress_wrong_device t i r db = Inr (res, db') \<Longrightarrow> er_permit res = None"
  "egress_stop t r o1 d type reason ms db = Inr (res, db') \<Longrightarrow> er_permit res = None"
  "egress_wait t r o1 w type reason answered ms db = Inr (res, db') \<Longrightarrow> er_permit res = None"
  "egress_busy t r o1 a type answered db = Inr (res, db') \<Longrightarrow> er_permit res = None"
  by (auto simp: egress_missing_root_def egress_wrong_device_def egress_stop_def egress_wait_def egress_busy_def
      Let_def tx_Inr)

text \<open>The operation of the request has recorded its dispatch under the generation of the root.\<close>

definition intent :: "egress_terms \<Rightarrow> egress_input \<Rightarrow> DeviceExecutionJobDispatchPermit \<Rightarrow> DeviceExecutionRootRow
    \<Rightarrow> arb_db \<Rightarrow> bool" where
  "intent t i p c db \<longleftrightarrow> (\<exists>o1 \<in> set (ad_ops db). op_kind o1 = et_op_kind t \<and> op_id o1 = eg_item i
     \<and> op_dispatching o1 \<noteq> None \<and> op_generation o1 = rt_generation c
     \<and> op_wire_handle o1 = encodeDeviceExecutionHandle (rootToHandle c (et_op_kind t) (eg_item i) (of_int (rt_generation c)))
     \<and> jp_handle p = operationRowToHandle o1 \<and> jp_wire p = encodeDeviceExecutionHandle (jp_handle p))
   \<and> ad_events db \<noteq> [] \<and> ev_root (last (ad_events db)) = Some (rt_id c) \<and> ev_type (last (ad_events db)) = ''root_dispatching''"

lemma selected_op_target:
  assumes wf: "wf_config lc" and nt: "targetTerminal sel = Some False"
    and t: "selectResourceLifecycleTransition lc ''device_execution_operations'' st sel ''state'' = Inr (Some t)"
    and s: "getResourceLifecycleState lc ''device_execution_operations'' (lt_to t) ''state'' = Some s"
  shows "\<not> ls_terminal s"
proof -
  obtain row where row: "row \<in> set (db_states lc)" "ls_key row = lt_key t" "ls_status row = lt_to t"
      "lifecycleTransitionSelectorPredicate lc sel t row" "bound_keys lc ''device_execution_operations'' ''state'' = [lt_key t]"
    using select_target [OF wf t] by metis
  have "getResourceLifecycleState lc ''device_execution_operations'' (ls_status row) ''state'' = Some (rowToState row)"
    by (rule lookup_state [OF wf row(1)]) (simp add: row)
  then show ?thesis using s row(3,4) nt by (auto simp: lifecycleTransitionSelectorPredicate_def)
qed

lemma operation_recorded:
  assumes u: "transitionOperationState now kind i sel (Some g) (Some w) m db = Inr (Some o2, db')"
    and nt: "targetTerminal sel = Some False" and wf: "wf_config (ad_lc db)"
  shows "o2 \<in> set (ad_ops db') \<and> op_kind o2 = kind \<and> op_id o2 = i \<and> op_dispatching o2 \<noteq> None \<and> op_generation o2 = g
    \<and> op_wire_handle o2 = w \<and> ad_roots db' = ad_roots db \<and> ad_lc db' = ad_lc db"
proof -
  obtain cur :: DeviceExecutionOperationRow and t :: LifecycleTransition and s :: LifecycleStateDefinition where
      t: "selectResourceLifecycleTransition (ad_lc db) ''device_execution_operations'' (op_state cur) sel ''state'' = Inr (Some t)"
      "getResourceLifecycleState (ad_lc db) ''device_execution_operations'' (lt_to t) ''state'' = Some s"
    and o: "map_option (advance_operation now (lt_to t) (Some g) (Some w) (ls_terminal s) (ls_dispatchable s) m)
        (find (\<lambda>o1. op_kind o1 = kind \<and> op_id o1 = i \<and> op_state o1 \<in> {op_state cur}) (ad_ops db)) = Some o2"
      "db' = db\<lparr>ad_ops := update_where (\<lambda>o1. op_kind o1 = kind \<and> op_id o1 = i \<and> op_state o1 \<in> {op_state cur})
        (advance_operation now (lt_to t) (Some g) (Some w) (ls_terminal s) (ls_dispatchable s) m) (ad_ops db)\<rparr>"
    using u by (auto simp: transitionOperationState_def updateOperationState_def Let_def tx_Inr split: option.splits)
  obtain q where q: "find (\<lambda>o1. op_kind o1 = kind \<and> op_id o1 = i \<and> op_state o1 \<in> {op_state cur}) (ad_ops db) = Some q"
      "o2 = advance_operation now (lt_to t) (Some g) (Some w) (ls_terminal s) (ls_dispatchable s) m q"
    using o(1) by auto
  have "o2 \<in> set (ad_ops db')" using find_in [OF q(1)] by (auto simp: o(2) q(2) update_where_def)
  moreover have "op_dispatching o2 \<noteq> None"
    using selected_op_target [OF wf nt t] by (simp add: q(2) advance_operation_def coalesce_def split: option.split)
  ultimately show ?thesis
    using find_in [OF q(1)] by (simp add: o(2)) (simp add: q(2) advance_operation_def odefault_def)
qed

lemma permit_outcome:
  assumes u: "standalone_permit now t i o1 r c db = Inr (res, db')" and p: "er_permit res = Some p"
    and wf: "wf_config (ad_lc db)"
  shows "intent t i p c db' \<and> ad_roots db' = ad_roots db \<and> ad_lc db' = ad_lc db"
proof -
  let ?h = "rootToHandle c (et_op_kind t) (eg_item i) (of_int (rt_generation c))"
  obtain o2 :: DeviceExecutionOperationRow and db1 m es where m: "transitionOperationState now (et_op_kind t) (eg_item i) dispatching_selector
        (Some (rt_generation c)) (Some (encodeDeviceExecutionHandle ?h)) m db = Inr (Some o2, db1)"
      and e: "move_event r c ''root_dispatching'' (et_actor t) None es db1 = Inr ((), db')"
      and "p = \<lparr>jp_handle = operationRowToHandle o2, jp_wire = encodeDeviceExecutionHandle (operationRowToHandle o2)\<rparr>"
    using u p by (auto simp: standalone_permit_def Let_def tx_Inr)
  moreover have "targetTerminal dispatching_selector = Some False" by (simp add: dispatching_selector_def any_selector_def)
  moreover note operation_recorded [OF m this wf]
  ultimately show ?thesis by (auto simp: intent_def move_event_def insertEvent_def)
qed

text \<open>The root a permit is issued for: where it came from and what it is now.\<close>

definition opened :: "(DeviceExecutionRootRow \<Rightarrow> bool) \<Rightarrow> string \<Rightarrow> arb_db \<Rightarrow> DeviceExecutionRootRow \<Rightarrow> DeviceExecutionRootRow \<Rightarrow> bool" where
  "opened unlocked device db r c \<longleftrightarrow> root_le r c \<and> \<not> rootIsInitialPhase c \<and> \<not> rootIsTerminal c \<and> rt_reconciliation r = None
     \<and> (rootIsInitialPhase r \<longrightarrow> (\<forall>q. claimable unlocked device db q \<longrightarrow> rt_fifo r \<le> rt_fifo q))"

lemma moved_opened:
  assumes u: "transitionRootState now (rt_id r) root_dispatching_selector inc m db = Inr (Some d, db')"
    and ok: "arb_ok db" and r: "r \<in> set (ad_roots db)" "\<not> rootIsTerminal r"
  shows "d \<in> set (ad_roots db') \<and> root_le r d \<and> \<not> rootIsInitialPhase d \<and> \<not> rootIsTerminal d
    \<and> ad_lc db' = ad_lc db \<and> arb_ok db'"
  using advance_outcome [OF u ok r selectors_live(1)] r replace_root_ok [OF ok r(2)]
  by (auto simp: moved_on_def rootIsInitialPhase_def ended_ok_def)

lemma live_outcome:
  assumes u: "standalone_live now unlocked t i r o1 db = Inr (res, db')" and p: "er_permit res = Some p"
    and ok: "arb_ok db" and r: "r \<in> set (ad_roots db)"
  shows "\<exists>c \<in> set (ad_roots db'). opened unlocked (eg_device i) db r c \<and> intent t i p c db'"
proof -
  have permit: "\<exists>c \<in> set (ad_roots db'). opened unlocked (eg_device i) db r c \<and> intent t i p c db'"
    if "standalone_permit now t i o1 r c db1 = Inr (res, db')" "arb_ok db1" "c \<in> set (ad_roots db1)"
      "opened unlocked (eg_device i) db r c" for c db1
  proof -
    have "wf_config (ad_lc db1)" using that(2) by (simp add: arb_ok_def arb_config_def)
    then show ?thesis using permit_outcome [OF that(1) p] that(3,4) by auto
  qed
  consider (initial) "rootIsInitialPhase r" "standalone_initial now unlocked t i r o1 db = Inr (res, db')"
    | (claimed) moved db1 where "rootIsClaimed r" "rt_reconciliation r = None"
        "transitionRootState now (rt_id r) root_dispatching_selector False (et_metadata t) db = Inr (moved, db1)"
        "standalone_permit now t i o1 r (odefault moved r) db1 = Inr (res, db')"
    | (open1) "rootIsDispatching r \<or> rootIsDispatched r" "rt_reconciliation r = None"
        "standalone_permit now t i o1 r r db = Inr (res, db')"
    using u p unfolding standalone_live_def by (auto simp: tx_Inr dest: no_permit split: if_splits)
  then show ?thesis
  proof cases
    case initial
    have rec: "rt_reconciliation r = None" using initial(1) by (simp add: rootIsInitialPhase_def)
    obtain d db1 n where o: "selectOldestQueuedRoot unlocked (eg_device i) db = Some n" "rt_id n = rt_id r"
        and d: "transitionRootState now (rt_id r) root_dispatching_selector True (et_metadata t) db = Inr (Some d, db1)"
        "standalone_permit now t i o1 r d db1 = Inr (res, db')"
      using initial(2) p unfolding standalone_initial_def by (auto simp: tx_Inr dest: no_permit split: if_splits)
    have "n = r" using root_unique [OF ok selectOldestQueuedRoot_in(1) [OF o(1)] r o(2)] .
    then have "\<forall>q. claimable unlocked (eg_device i) db q \<longrightarrow> rt_fifo r \<le> rt_fifo q"
      using oldest_first [OF o(1)] by (auto simp: claimable_def)
    then show ?thesis
      using permit [OF d(2)] moved_opened [OF d(1) ok r live_phases(4) [OF initial(1)]] rec by (simp add: opened_def)
  next
    case claimed
    note np = not_initial(3) [OF claimed(1)] live_phases(3) [OF claimed(1)]
    show ?thesis
    proof (cases moved)
      case None
      then have "db1 = db" using root_miss(2) claimed(3) by blast
      then show ?thesis using permit [OF claimed(4)] None ok r np claimed(2) by (simp add: opened_def odefault_def)
    next
      case (Some d)
      then show ?thesis
        using permit [OF claimed(4)] moved_opened [OF claimed(3) [unfolded Some] ok r np(2)] np claimed(2)
        by (simp add: opened_def odefault_def)
    qed
  next
    case open1
    then have "opened unlocked (eg_device i) db r r"
      using not_initial(1,2) live_phases(1,2) by (auto simp: opened_def)
    then show ?thesis by (rule permit [OF open1(3) ok r])
  qed
qed

lemma owned_outcome:
  assumes u: "standalone_owned now unlocked t i r db = Inr (res, db')" and p: "er_permit res = Some p"
    and ok: "arb_ok db" and r: "r \<in> set (ad_roots db)"
  shows "\<exists>c \<in> set (ad_roots db'). opened unlocked (eg_device i) db r c \<and> intent t i p c db'"
proof -
  obtain o1 db1 where d: "register_operation now t i r db = Inr (o1, db1)" "standalone_live now unlocked t i r o1 db1 = Inr (res, db')"
    using u p unfolding standalone_owned_def by (auto simp: tx_Inr dest: no_permit split: if_splits)
  note k = upsert_operation_ok [OF d(1) [unfolded register_operation_def] ok]
  have same: "ad_roots db1 = ad_roots db" "ad_lc db1 = ad_lc db" using k by (simp_all add: history_def)
  have "opened unlocked (eg_device i) db1 = opened unlocked (eg_device i) db"
    by (simp add: fun_eq_iff opened_def claimable_def same)
  then show ?thesis using live_outcome [OF d(2) p] k r same(1) by simp
qed

text \<open>The root was there, or it was admitted by this very transaction.\<close>

lemma prepare_outcome:
  assumes u: "standalone_prepare now newId unlocked t i db = Inr (res, db')" and p: "er_permit res = Some p" and ok: "arb_ok db"
  shows "\<exists>c \<in> set (ad_roots db'). rt_device c = eg_device i \<and> \<not> rootIsInitialPhase c \<and> \<not> rootIsTerminal c \<and> intent t i p c db'
    \<and> ((\<forall>r \<in> set (ad_roots db). rt_id r = rt_id c \<longrightarrow> rootIsInitialPhase r)
       \<longrightarrow> (\<forall>q. claimable unlocked (eg_device i) db q \<longrightarrow> rt_fifo c \<le> rt_fifo q))"
proof -
  have own: ?thesis if "egress_own t i (standalone_owned now unlocked t i) r db1 = Inr (res, db')" "arb_ok db1"
      "r \<in> set (ad_roots db1)" "set (ad_roots db) \<subseteq> set (ad_roots db1)" "ad_lc db1 = ad_lc db"
      "r \<in> set (ad_roots db) \<or> rootIsInitialPhase r" for r db1
  proof -
    note a = that
    have d: "rt_device r = eg_device i" "standalone_owned now unlocked t i r db1 = Inr (res, db')"
      using a(1) p by (auto simp: egress_own_def dest: no_permit split: if_splits)
    obtain c where c: "c \<in> set (ad_roots db')" "opened unlocked (eg_device i) db1 r c" "intent t i p c db'"
      using owned_outcome [OF d(2) p a(2,3)] by blast
    moreover have "claimable unlocked (eg_device i) db1 q" if "claimable unlocked (eg_device i) db q" for q
      using that a(4,5) by (auto simp: claimable_def)
    ultimately show ?thesis using d(1) a(6) by (intro bexI [OF _ c(1)]) (auto simp: opened_def root_le_def)
  qed
  consider (found) r where "r \<in> set (ad_roots db)" "egress_own t i (standalone_owned now unlocked t i) r db = Inr (res, db')"
    | (admitted) r db1 where "egress_admit now newId t i db = Inr (r, db1)"
        "egress_own t i (standalone_owned now unlocked t i) r db1 = Inr (res, db')"
    using u p unfolding standalone_prepare_def egress_enter_def
    by (auto simp: tx_Inr dest: no_permit find_egress_root_in split: if_splits)
  then show ?thesis
  proof cases
    case found
    then show ?thesis using own ok by blast
  next
    case admitted
    obtain dbi ext q m where ins: "insertRoot now newId (eg_device i) (et_kind t) ext q m db = Inr (r, dbi)"
        "same_rows dbi db1" "arb_ok db1"
      using admitted(1) insert_outcome(1) ok
      by (fastforce simp: egress_admit_def birth_event_def insertEvent_def same_rows_def tx_Inr)
    note o = insert_outcome [OF ins(1) ok]
    show ?thesis
      by (rule own [OF admitted(2) ins(3)]) (use ins(2) o in \<open>auto simp: same_rows_def history_def\<close>)
  qed
qed

section \<open>Samples\<close>

text \<open>A lifecycle with a dispatching and a blocked status, and one request.\<close>

definition egress_policy :: json where
  "egress_policy = JObj [(''observeMode'', JBool True),
     (''rootKinds'', JObj [(''job'', JObj [(''operationKind'', JStr ''job''), (''wireType'', JStr ''execute'')])]),
     (''boundaries'', JObj [(''standalone_job'', JObj [(''rootKind'', JStr ''job''), (''operationKind'', JStr ''job''),
        (''retainsRootUntilTerminal'', JBool False), (''requiresExistingRootHandle'', JBool False),
        (''egressLane'', JStr ''device_execution''), (''mayBypassDeviceQueue'', JBool False)])])]"

definition egress_lc :: lc_db where
  "egress_lc = arbiter_lc\<lparr>
     db_policies := [\<lparr>lp_table = ''device_execution_roots'', lp_column = ''state'', lp_policy = egress_policy,
       lp_version = 1, lp_updated_by = None, lp_updated_at = 0\<rparr>],
     db_states := [(plain_state ''queued'' 0)\<lparr>ls_initial := True\<rparr>, plain_state ''dispatching'' 1,
       (plain_state ''dispatched'' 2)\<lparr>ls_dispatchable := True\<rparr>, (plain_state ''blocked'' 3)\<lparr>ls_manual := True\<rparr>,
       (plain_state ''done'' 4)\<lparr>ls_terminal := True\<rparr>],
     db_transitions := [(plain_transition ''prepare'' ''queued'' ''dispatching'')\<lparr>lt_automatic := True\<rparr>,
       (plain_transition ''send'' ''dispatching'' ''dispatched'')\<lparr>lt_automatic := True\<rparr>,
       (plain_transition ''block'' ''dispatching'' ''blocked'')\<lparr>lt_automatic := True\<rparr>,
       (plain_transition ''complete'' ''dispatched'' ''done'')
         \<lparr>lt_automatic := True, lt_external_allowed := True, lt_mark_completed := True\<rparr>]\<rparr>"

lemma arb_config_egress_lc: "arb_config egress_lc"
proof -
  have "keys_distinct egress_lc" by (simp add: keys_distinct_def egress_lc_def arbiter_lc_def sample_defs state_identity_def
        transition_identity_def binding_identity_def policy_identity_def)
  moreover have "stale_policies_ok egress_lc"
    by (simp add: stale_policies_ok_def egress_lc_def arbiter_lc_def sample_defs stale_check_def sql_btrim_def trim_by_def)
  moreover have "initial_state_unique egress_lc"
    by (simp add: initial_state_unique_def egress_lc_def arbiter_lc_def sample_defs state_identity_def)
  moreover have "transitions_resolved egress_lc"
    by (simp add: transitions_resolved_def state_exists_def egress_lc_def arbiter_lc_def sample_defs state_identity_def)
  moreover have "policies_bound egress_lc"
    by (simp add: policies_bound_def egress_lc_def arbiter_lc_def sample_defs policy_identity_def binding_identity_def)
  moreover have "phases_disjoint egress_lc" by (simp add: phases_disjoint_def egress_lc_def sample_defs)
  ultimately show ?thesis by (simp add: arb_config_def wf_config_def)
qed

definition egress_db :: arb_db where
  "egress_db = empty_arbiter\<lparr>ad_lc := egress_lc\<rparr>"

definition job_egress :: egress_input where
  "job_egress = \<lparr>eg_device = ''d1'', eg_item = ''j1'', eg_root = None, eg_root_external = None, eg_root_kind = None,
     eg_op_kind = None, eg_boundary = None, eg_wire_type = None, eg_request = None, eg_actor = None, eg_metadata = None\<rparr>"

definition job_terms :: egress_terms where
  "job_terms = (case standalone_terms egress_lc job_egress of Inr t \<Rightarrow> t)"

lemma egress_db_ok: "arb_ok egress_db" "slots egress_db"
proof -
  show "arb_ok egress_db" using arb_config_egress_lc by (simp add: arb_ok_def egress_db_def empty_arbiter_def)
  show "slots egress_db"
    by (simp add: slots_def single_active_def egress_db_def empty_arbiter_def initial_unreachable_def egress_lc_def sample_defs)
qed

section \<open>A permit stands for a recorded intent\<close>

lemma step_slotted:
  assumes "m db = Inr (x, db')" "slot_step db (after m db)" "arb_ok db" "slots db"
  shows "arb_ok db' \<and> slots db'"
proof -
  have "slot_step db db'" using assms(1,2) by (simp add: after_def withTransaction_def)
  then have "slotted db {} db'" using slot_steps_slotted [OF r_into_rtranclp assms(3,4)] by blast
  then show ?thesis by (simp add: slotted_def continues_def)
qed

text \<open>
  C7. A permit to dispatch a standalone job is issued only after its intent is recorded: the
  tables then hold the one active root of the device, the operation of the request with the
  time of its dispatch, the generation of that root and the wire handle the root stands for,
  the permit is the handle of that operation, and the last event says that the root is
  dispatching. A root that was queued, or that this call admitted, is the oldest unlocked
  queued root of its device.
\<close>

theorem permit_after_intent:
  assumes "standalone_prepare now newId unlocked t i db = Inr (res, db')" "er_permit res = Some p" "arb_ok db" "slots db"
  shows "\<exists>c \<in> set (ad_roots db'). rt_device c = eg_device i
    \<and> root_matches (ad_lc db') (rt_state c) active_selector
    \<and> (\<forall>a \<in> set (ad_roots db'). rt_device a = eg_device i \<longrightarrow> root_matches (ad_lc db') (rt_state a) active_selector \<longrightarrow> a = c)
    \<and> (\<exists>o1 \<in> set (ad_ops db'). op_kind o1 = et_op_kind t \<and> op_id o1 = eg_item i \<and> op_dispatching o1 \<noteq> None
        \<and> op_generation o1 = rt_generation c
        \<and> op_wire_handle o1 = encodeDeviceExecutionHandle (rootToHandle c (et_op_kind t) (eg_item i) (of_int (rt_generation c)))
        \<and> jp_handle p = operationRowToHandle o1 \<and> jp_wire p = encodeDeviceExecutionHandle (jp_handle p))
    \<and> ad_events db' \<noteq> [] \<and> ev_root (last (ad_events db')) = Some (rt_id c)
    \<and> ev_type (last (ad_events db')) = ''root_dispatching''
    \<and> ((\<forall>r \<in> set (ad_roots db). rt_id r = rt_id c \<longrightarrow> rootIsInitialPhase r)
       \<longrightarrow> (\<forall>q \<in> set (ad_roots db). rt_device q = eg_device i \<longrightarrow> root_matches (ad_lc db) (rt_state q) initial_selector
          \<longrightarrow> unlocked q \<longrightarrow> rt_fifo c \<le> rt_fifo q))"
proof -
  obtain c where c: "c \<in> set (ad_roots db')" "rt_device c = eg_device i" "\<not> rootIsInitialPhase c" "\<not> rootIsTerminal c"
      "intent t i p c db'" "(\<forall>r \<in> set (ad_roots db). rt_id r = rt_id c \<longrightarrow> rootIsInitialPhase r)
        \<longrightarrow> (\<forall>q. claimable unlocked (eg_device i) db q \<longrightarrow> rt_fifo c \<le> rt_fifo q)"
    using prepare_outcome [OF assms(1-3)] by blast
  have ok: "slots db'" using step_slotted [OF assms(1) slot_step.prepare assms(3,4)] ..
  have "active (ad_lc db') c"
    using slots_phase [OF ok c(1)] c(3,4) by (auto simp: active_iff phase_ok_def)
  then have act: "root_matches (ad_lc db') (rt_state c) active_selector"
    and one: "\<forall>a \<in> set (ad_roots db'). rt_device a = eg_device i
      \<longrightarrow> root_matches (ad_lc db') (rt_state a) active_selector \<longrightarrow> a = c"
    using active_single [OF ok _ c(1)] c(2) by (auto simp: active_def)
  have fifo: "(\<forall>r \<in> set (ad_roots db). rt_id r = rt_id c \<longrightarrow> rootIsInitialPhase r)
       \<longrightarrow> (\<forall>q \<in> set (ad_roots db). rt_device q = eg_device i \<longrightarrow> root_matches (ad_lc db) (rt_state q) initial_selector
          \<longrightarrow> unlocked q \<longrightarrow> rt_fifo c \<le> rt_fifo q)"
    using c(6) unfolding claimable_def by blast
  note i = c(5) [unfolded intent_def]
  show ?thesis
    by (rule bexI [OF _ c(1)], intro conjI, rule c(2), rule act, rule one, rule i [THEN conjunct1],
      rule i [THEN conjunct2, THEN conjunct1], rule i [THEN conjunct2, THEN conjunct2, THEN conjunct1],
      rule i [THEN conjunct2, THEN conjunct2, THEN conjunct2], rule fifo)
qed

theorem permit_after_intent_witness:
  "\<exists>res db' p. standalone_prepare 1 ''r1'' any_root job_terms job_egress egress_db = Inr (res, db') \<and> er_permit res = Some p
     \<and> (\<exists>c \<in> set (ad_roots db'). rt_device c = ''d1'' \<and> root_matches (ad_lc db') (rt_state c) active_selector)"
proof -
  have "answers (standalone_prepare 1 ''r1'' any_root job_terms job_egress) egress_db (\<lambda>r. er_permit r \<noteq> None)" by code_simp
  then obtain res db' p where p: "standalone_prepare 1 ''r1'' any_root job_terms job_egress egress_db = Inr (res, db')"
      "er_permit res = Some p" by (auto elim: answersE)
  moreover have "eg_device job_egress = ''d1''" by (simp add: job_egress_def)
  ultimately show ?thesis using permit_after_intent [OF p egress_db_ok] by metis
qed

section \<open>The second transaction\<close>

definition completes :: "egress_terms \<Rightarrow> egress_input \<Rightarrow> DeviceExecutionHandle \<Rightarrow> DeviceExecutionRootRow
    \<Rightarrow> DeviceExecutionOperationRow \<Rightarrow> bool" where
  "completes t i h r o1 \<longleftrightarrow> same_owner i h r o1 \<and> (rootIsDispatching r \<or> et_requires t \<and> rootIsDispatched r)"

lemma permit_answer_decision [simp]: "dr_decision (permit_answer p sent d r o1 reason) = d"
  by (simp add: permit_answer_def egress_def DeviceExecutionTransitionResult.extend_def answer_op_def answer_def)

lemma replaced_roots:
  "x \<in> set (ad_roots db) \<Longrightarrow> rt_id x \<noteq> rt_id q \<Longrightarrow> x \<in> set (ad_roots (replace_root db q q'))"
  "y \<in> set (ad_roots (replace_root db q q')) \<Longrightarrow> y = q' \<or> y \<in> set (ad_roots db)"
  by (auto simp: replace_root_def)

text \<open>
  Only the root \<open>r\<close> and the operation \<open>o1\<close> may have changed, and these keep their identity, owner
  and generation; the operation may have got its time of dispatch.
\<close>

definition touches_only :: "timestamp \<Rightarrow> DeviceExecutionRootRow \<Rightarrow> DeviceExecutionOperationRow \<Rightarrow> arb_db \<Rightarrow> arb_db \<Rightarrow> bool" where
  "touches_only now r o1 db db' \<longleftrightarrow> ad_lc db' = ad_lc db \<and> ad_workflows db' = ad_workflows db
     \<and> map rt_id (ad_roots db') = map rt_id (ad_roots db) \<and> map op_identity (ad_ops db') = map op_identity (ad_ops db)
     \<and> (\<forall>q \<in> set (ad_roots db). q \<noteq> r \<longrightarrow> q \<in> set (ad_roots db'))
     \<and> (\<forall>q' \<in> set (ad_roots db'). q' \<in> set (ad_roots db)
        \<or> rt_id q' = rt_id r \<and> rt_device q' = rt_device r \<and> rt_generation q' = rt_generation r)
     \<and> (\<forall>q \<in> set (ad_ops db). q \<noteq> o1 \<longrightarrow> q \<in> set (ad_ops db'))
     \<and> (\<forall>q' \<in> set (ad_ops db'). q' \<in> set (ad_ops db)
        \<or> op_identity q' = op_identity o1 \<and> op_root q' = op_root o1 \<and> op_device q' = op_device o1
          \<and> op_generation q' = op_generation o1
          \<and> (op_dispatched q' = op_dispatched o1 \<or> op_dispatched o1 = None \<and> op_dispatched q' = Some now))"

lemma touches_onlyI:
  assumes "ad_roots db' = ad_roots db \<or> (\<exists>r'. ad_roots db' = ad_roots (replace_root db r r') \<and> rt_id r' = rt_id r
      \<and> rt_device r' = rt_device r \<and> rt_generation r' = rt_generation r)"
    and "ad_ops db' = ad_ops db \<or> (\<exists>o2. ad_ops db' = map (\<lambda>q. if q = o1 then o2 else q) (ad_ops db) \<and> op_identity o2 = op_identity o1
      \<and> op_root o2 = op_root o1 \<and> op_device o2 = op_device o1 \<and> op_generation o2 = op_generation o1
      \<and> (op_dispatched o2 = op_dispatched o1 \<or> op_dispatched o1 = None \<and> op_dispatched o2 = Some now))"
    and "ad_lc db' = ad_lc db" "ad_workflows db' = ad_workflows db"
  shows "touches_only now r o1 db db'"
  unfolding touches_only_def
proof (intro conjI assms(3,4))
  show "map rt_id (ad_roots db') = map rt_id (ad_roots db)" using assms(1) by (auto simp: replace_root_def)
  show "map op_identity (ad_ops db') = map op_identity (ad_ops db)" using assms(2) by auto
  show "\<forall>q \<in> set (ad_roots db). q \<noteq> r \<longrightarrow> q \<in> set (ad_roots db')" using assms(1) by (auto simp: replace_root_def)
  show "\<forall>q' \<in> set (ad_roots db'). q' \<in> set (ad_roots db)
      \<or> rt_id q' = rt_id r \<and> rt_device q' = rt_device r \<and> rt_generation q' = rt_generation r"
    using assms(1) by (auto simp: replace_root_def)
  show "\<forall>q \<in> set (ad_ops db). q \<noteq> o1 \<longrightarrow> q \<in> set (ad_ops db')" using assms(2) by auto
  show "\<forall>q' \<in> set (ad_ops db'). q' \<in> set (ad_ops db)
      \<or> op_identity q' = op_identity o1 \<and> op_root q' = op_root o1 \<and> op_device q' = op_device o1
        \<and> op_generation q' = op_generation o1
        \<and> (op_dispatched q' = op_dispatched o1 \<or> op_dispatched o1 = None \<and> op_dispatched q' = Some now)"
    using assms(2) by auto
qed

text \<open>An operation that the statement addresses is rewritten alone.\<close>

lemma operation_outcome:
  assumes u: "transitionOperationState now k i sel (Some (op_generation o1)) w m db = Inr (x, db')"
    and d: "distinct (map op_identity (ad_ops db))" and o1: "o1 \<in> set (ad_ops db)" "op_kind o1 = k" "op_id o1 = i"
  shows "ad_lc db' = ad_lc db \<and> (ad_ops db' = ad_ops db \<or> (\<exists>o2. ad_ops db' = map (\<lambda>q. if q = o1 then o2 else q) (ad_ops db)
      \<and> op_identity o2 = op_identity o1 \<and> op_root o2 = op_root o1 \<and> op_device o2 = op_device o1 \<and> op_generation o2 = op_generation o1
      \<and> (op_dispatched o2 = op_dispatched o1 \<or> op_dispatched o1 = None \<and> op_dispatched o2 = Some now)))"
proof -
  have only: "(op_kind q = k \<and> op_id q = i \<and> P q) = (q = o1 \<and> P o1)" if "q \<in> set (ad_ops db)" for q P
    using distinct_key_inj [OF d that o1(1)] o1(2,3) by (auto simp: op_identity_def)
  consider "db' = db" | from1 to1 where "updateOperationState now k i [from1] to1 (Some (op_generation o1)) w m db = Inr (x, db')"
    using u by (auto simp: transitionOperationState_def tx_Inr)
  then show ?thesis
  proof cases
    case 2
    then obtain t dsp where "ad_lc db' = ad_lc db" "ad_ops db' = update_where (\<lambda>q. op_kind q = k \<and> op_id q = i \<and> op_state q \<in> set [from1])
        (advance_operation now to1 (Some (op_generation o1)) w t dsp m) (ad_ops db)"
      by (auto simp: updateOperationState_def Let_def split: option.splits)
    moreover have "update_where (\<lambda>q. op_kind q = k \<and> op_id q = i \<and> op_state q \<in> set [from1]) f (ad_ops db)
        = (if op_state o1 = from1 then map (\<lambda>q. if q = o1 then f o1 else q) (ad_ops db) else ad_ops db)" for f
    proof -
      have "map (\<lambda>q. if op_kind q = k \<and> op_id q = i \<and> op_state q \<in> set [from1] then f q else q) (ad_ops db)
          = map (\<lambda>q. if q = o1 \<and> op_state o1 \<in> set [from1] then f q else q) (ad_ops db)"
        by (intro map_cong refl) (simp only: only [where P = "\<lambda>q. op_state q \<in> set [from1]"])
      also have "\<dots> = (if op_state o1 = from1 then map (\<lambda>q. if q = o1 then f o1 else q) (ad_ops db) else ad_ops db)"
        by (auto intro: map_cong)
      finally show ?thesis unfolding update_where_def .
    qed
    ultimately show ?thesis
      by (auto simp: advance_operation_def op_identity_def coalesce_def intro!: exI [of _ "advance_operation now to1 (Some (op_generation o1)) w t dsp m o1"]
          split: option.splits)
  qed simp
qed

text \<open>A root that moves without a new owner keeps its generation.\<close>

lemma owned_advance:
  assumes u: "transitionRootState now (rt_id r) sel False m db = Inr (x, db')" and ok: "arb_ok db"
    and r: "r \<in> set (ad_roots db)" "\<not> rootIsTerminal r" and nt: "targetTerminal sel = Some False"
  shows "db' = db \<or> (\<exists>r'. db' = replace_root db r r' \<and> rt_id r' = rt_id r \<and> rt_device r' = rt_device r \<and> rt_generation r' = rt_generation r)"
proof -
  consider "db' = db" | r' where "moved_on (ad_lc db) r r'" "db' = replace_root db r r'"
    using advance_outcome [OF u ok r nt] by blast
  then show ?thesis
  proof cases
    case 2
    then have id: "rt_id r' = rt_id r" "rt_device r' = rt_device r" by (simp_all add: moved_on_def root_le_def)
    have "db' = db \<or> (\<exists>p to1 ms dsp. ad_roots db' = update_where p (advance_root now to1 False ms dsp m) (ad_roots db))"
      using u by (auto simp: transitionRootState_def updateRootState_def update_roots_def tx_Inr) blast
    then have "set (ad_roots db') \<subseteq> set (ad_roots db) \<or> (\<exists>p to1 ms dsp. ad_roots db' = update_where p (advance_root now to1 False ms dsp m) (ad_roots db))"
      by blast
    moreover have "r' \<in> set (ad_roots db')" using 2(2) r(1) by simp
    ultimately have "\<exists>q \<in> set (ad_roots db). rt_id q = rt_id r' \<and> rt_generation q = rt_generation r'"
      by (auto simp: set_update_where advance_root_def) blast+
    then have "rt_generation r' = rt_generation r" using root_unique [OF ok _ r(1)] id by metis
    then show ?thesis using 2(2) id by blast
  qed simp
qed

text \<open>What a completion that is not an event only does to the rows.\<close>

definition addressed :: "egress_terms \<Rightarrow> egress_input \<Rightarrow> DeviceExecutionJobDispatchPermit \<Rightarrow> DeviceExecutionOperationRow \<Rightarrow> arb_db \<Rightarrow> bool" where
  "addressed t i p o1 db \<longleftrightarrow> o1 \<in> set (ad_ops db) \<and> op_kind o1 = et_op_kind t \<and> op_id o1 = eg_item i
     \<and> handle_generation (jp_handle p) = op_generation o1"

lemma moved_rows:
  assumes op: "transitionOperationState now (et_op_kind t) (eg_item i) sel (Some (handle_generation (jp_handle p))) w m db1 = Inr (x, db2)"
    and ok: "arb_ok db" and o1: "addressed t i p o1 db" and ev: "same_rows db2 db'"
    and root: "db1 = db \<or> (\<exists>r'. db1 = replace_root db r r' \<and> rt_id r' = rt_id r \<and> rt_device r' = rt_device r \<and> rt_generation r' = rt_generation r)"
  shows "touches_only now r o1 db db'" "ad_roots db' = ad_roots db1"
proof -
  have same: "ad_ops db1 = ad_ops db" "ad_lc db1 = ad_lc db" "ad_workflows db1 = ad_workflows db"
    using root by (auto simp: replace_root_def)
  have ids: "distinct (map op_identity (ad_ops db1))" using ok same(1) by (simp add: arb_ok_def)
  have o: "o1 \<in> set (ad_ops db1)" "op_kind o1 = et_op_kind t" "op_id o1 = eg_item i" "handle_generation (jp_handle p) = op_generation o1"
    using o1 same(1) by (simp_all add: addressed_def)
  note out = operation_outcome [OF op [unfolded o(4)] ids o(1-3), unfolded same]
  note rows = operation_roots(2) [OF op] ev [unfolded same_rows_def]
  show "ad_roots db' = ad_roots db1" using rows by simp
  show "touches_only now r o1 db db'"
    by (rule touches_onlyI) (use out rows root same in auto)
qed

lemma not_sent_outcome:
  assumes u: "standalone_not_sent now t i p err r o1 db = Inr (res, db')" and ok: "arb_ok db" and r: "r \<in> set (ad_roots db)"
    and o1: "addressed t i p o1 db"
  shows "dr_decision res = Offline \<and> touches_only now r o1 db db'
    \<and> (\<forall>q' \<in> set (ad_roots db'). \<exists>q \<in> set (ad_roots db). rt_id q = rt_id q' \<and> rt_dispatched q = rt_dispatched q')"
proof -
  from u [unfolded standalone_not_sent_def Let_def tx_bind_Inr]
  obtain b db1 o2 db2 g e m w m2 r' ty ac rs ms where
      d: "updateRootAmbiguous now (rt_id r) (eg_device i) g blocked_selector e m db = Inr (b, db1)"
      "transitionOperationState now (et_op_kind t) (eg_item i) blocked_selector (Some (handle_generation (jp_handle p))) w m2 db1 = Inr (o2, db2)"
      "move_event r r' ty ac rs ms db2 = Inr ((), db')" "dr_decision res = Offline"
    by (elim exE conjE) (rule that, assumption, assumption, simp_all add: tx_return_Inr)
  consider "db1 = db" | to1 where "db1 = replace_root db r (mark_ambiguous now to1 e m r)"
    using block_outcome [OF d(1) ok selectors_live(3)] root_unique [OF ok _ r] by metis
  then have root: "db1 = db \<or> (\<exists>r'. db1 = replace_root db r r' \<and> rt_id r' = rt_id r \<and> rt_device r' = rt_device r
      \<and> rt_generation r' = rt_generation r \<and> rt_dispatched r' = rt_dispatched r)"
    by cases (auto simp: mark_ambiguous_def)
  then have "\<forall>y \<in> set (ad_roots db1). \<exists>x \<in> set (ad_roots db). rt_id x = rt_id y \<and> rt_dispatched x = rt_dispatched y"
    using r replaced_roots(2) [where db = db and q = r] by metis
  moreover have "touches_only now r o1 db db'" "ad_roots db' = ad_roots db1"
    using moved_rows [OF d(2) ok o1 event_rows(3) [OF d(3)], of r] root by blast+
  ultimately show ?thesis using d(4) by simp
qed

lemma sent_outcome:
  assumes u: "standalone_sent now t i p r o1 db = Inr (res, db')" and ok: "arb_ok db"
    and r: "r \<in> set (ad_roots db)" "\<not> rootIsTerminal r" and o1: "addressed t i p o1 db"
  shows "(dr_decision res = Rejected \<and> same_rows db db') \<or> (dr_decision res = Dispatched \<and> touches_only now r o1 db db')"
proof -
  let ?meta = "jwith (et_metadata t) (permit_members p)"
  from u [unfolded standalone_sent_def Let_def tx_bind_Inr]
  obtain x db1 where x: "(if rootIsDispatched r then tx_return (Some r)
        else transitionRootState now (rt_id r) sent_selector False ?meta) db = Inr (x, db1)"
    and rest: "(case x of None \<Rightarrow>
           tx_bind (note_event r (rt_device r) ''dispatch_cas_missed'' (et_actor t)
             (Some ''state_changed_before_dispatched'') ?meta)
           (\<lambda>_. tx_return (permit_answer p True Rejected r o1 (Some ''state_changed_before_dispatched'')))
       | Some d \<Rightarrow>
           tx_bind (transitionOperationState now (et_op_kind t) (eg_item i) sent_selector
             (Some (handle_generation (jp_handle p))) (Some (jp_wire p)) ?meta) (\<lambda>o2.
           tx_bind (move_event r d (if et_requires t then ''child_dispatched_under_root'' else ''root_dispatched'')
             (et_actor t) None ?meta)
           (\<lambda>_. tx_return (permit_answer p True Dispatched d (odefault o2 o1) None)))) db1 = Inr (res, db')"
    by blast
  show ?thesis
  proof (cases x)
    case None
    then have "db1 = db" using x root_miss(2) by (auto simp: tx_return_Inr split: if_splits)
    then show ?thesis using rest None by (auto simp: tx_Inr dest: event_rows(1))
  next
    case (Some d)
    from rest [unfolded Some option.case tx_bind_Inr]
    obtain o2 db2 u2 db3 where e: "transitionOperationState now (et_op_kind t) (eg_item i) sent_selector
             (Some (handle_generation (jp_handle p))) (Some (jp_wire p)) ?meta db1 = Inr (o2, db2)"
        "move_event r d (if et_requires t then ''child_dispatched_under_root'' else ''root_dispatched'')
             (et_actor t) None ?meta db2 = Inr (u2, db3)"
        "tx_return (permit_answer p True Dispatched d (odefault o2 o1) None) db3 = Inr (res, db')" by blast
    have "db1 = db \<or> (\<exists>r'. db1 = replace_root db r r' \<and> rt_id r' = rt_id r \<and> rt_device r' = rt_device r \<and> rt_generation r' = rt_generation r)"
    proof (cases "rootIsDispatched r")
      case False
      then have "transitionRootState now (rt_id r) sent_selector False ?meta db = Inr (x, db1)" using x by simp
      from owned_advance [OF this ok r selectors_live(2)] show ?thesis .
    qed (use x in \<open>simp add: tx_return_Inr\<close>)
    moreover have "same_rows db2 db'" "dr_decision res = Dispatched"
      using event_rows(3) [OF e(2)] e(3) by (simp_all add: tx_return_Inr)
    ultimately show ?thesis using moved_rows(1) [OF e(1) ok o1] by blast
  qed
qed

lemma completed_outcome:
  assumes u: "standalone_completed now t i p sent err r o1 db = Inr (res, db')" and ok: "arb_ok db"
    and r: "r \<in> set (ad_roots db)" and o1: "o1 \<in> set (ad_ops db)" "op_kind o1 = et_op_kind t" "op_id o1 = eg_item i"
  shows "(dr_decision res \<notin> {Dispatched, Offline} \<and> same_rows db db') \<or>
    (dr_decision res = (if sent then Dispatched else Offline) \<and> completes t i (jp_handle p) r o1 \<and> touches_only now r o1 db db'
      \<and> (\<not> sent \<longrightarrow> (\<forall>q' \<in> set (ad_roots db'). \<exists>q \<in> set (ad_roots db). rt_id q = rt_id q' \<and> rt_dispatched q = rt_dispatched q')))"
proof -
  let ?own = "same_owner i (jp_handle p) r o1"
  consider (ended) "dr_decision res = Terminal" "same_rows db db'"
    | (refused) "standalone_refused t i p sent err r o1 db = Inr (res, db')"
    | (blocked) "completes t i (jp_handle p) r o1" "\<not> sent" "standalone_not_sent now t i p err r o1 db = Inr (res, db')"
    | (sent) "completes t i (jp_handle p) r o1" "sent" "standalone_sent now t i p r o1 db = Inr (res, db')"
    using u unfolding standalone_completed_def completes_def
    by (auto simp: tx_Inr dest: event_rows(1) split: if_splits)
  moreover have op: "addressed t i p o1 db" if "completes t i (jp_handle p) r o1"
    using that o1 by (auto simp: addressed_def completes_def same_owner_def handle_generation_def dest: sym)
  ultimately show ?thesis
  proof cases
    case refused
    then show ?thesis unfolding standalone_refused_def by (auto simp: tx_Inr dest: event_rows(1))
  next
    case blocked
    then show ?thesis using not_sent_outcome [OF blocked(3) ok r op [OF blocked(1)]] by simp
  next
    case sent
    have "\<not> rootIsTerminal r" using sent(1) live_phases by (auto simp: completes_def)
    then show ?thesis using sent_outcome [OF sent(3) ok r _ op [OF sent(1)]] sent(1,2) by auto
  qed simp
qed

text \<open>
  C8. A completion touches only what its permit names: the answers dispatched and offline are
  given exactly for a confirmed and an unconfirmed send, and only when the root the permit's handle
  names and the operation of the request are still on the device, belong together, carry the
  permit's generation and the root is dispatching (or, for a child, dispatched). Then no other root
  and no other operation changes and none is added; the two rows keep their identity, device and
  generation, the operation its root, and the operation's time of dispatch changes at most from unset to the time of
  the completion, which happens on an unconfirmed send as well. Every other answer leaves all rows
  as they were. Without a confirmed send no root ever gets a time of dispatch.
\<close>

theorem completion_fenced:
  assumes "standalone_complete now t i prepared p sent err db = Inr (res, db')" "arb_ok db" "dr_decision prepared = Claimed"
  shows "(if dr_decision res \<in> {Dispatched, Offline}
      then dr_decision res = (if sent then Dispatched else Offline)
        \<and> (\<exists>r \<in> set (ad_roots db). \<exists>o1 \<in> set (ad_ops db). rt_id r = hd_root (jp_handle p) \<and> rt_device r = eg_device i
            \<and> op_kind o1 = et_op_kind t \<and> op_id o1 = eg_item i \<and> op_root o1 = rt_id r
            \<and> of_int (rt_generation r) = hd_generation (jp_handle p) \<and> op_generation o1 = rt_generation r
            \<and> (rootIsDispatching r \<or> et_requires t \<and> rootIsDispatched r)
            \<and> touches_only now r o1 db db')
      else ad_lc db' = ad_lc db \<and> ad_roots db' = ad_roots db \<and> ad_ops db' = ad_ops db \<and> ad_workflows db' = ad_workflows db)
    \<and> (\<not> sent \<longrightarrow> (\<forall>q' \<in> set (ad_roots db'). \<exists>q \<in> set (ad_roots db). rt_id q = rt_id q' \<and> rt_dispatched q = rt_dispatched q'))"
proof -
  consider (lost) "completion_lost t i prepared sent (wire_members sent err) db = Inr (res, db')"
    | (found) r o1 where "selectRoot (Some (hd_root (jp_handle p))) (Some (et_kind t)) None db = Some r"
        "selectOperationByIdentity (et_op_kind t) (eg_item i) db = Some o1"
        "standalone_completed now t i p sent err r o1 db = Inr (res, db')"
    using assms(1) unfolding standalone_complete_def egress_rows_def by (auto simp: tx_Inr)
  then show ?thesis
  proof cases
    case lost
    then have "dr_decision res = Claimed" "same_rows db db'"
      using assms(3) unfolding completion_lost_def by (auto simp: tx_Inr dest: event_rows(2))
    then show ?thesis by (auto simp: same_rows_def)
  next
    case found
    note r = selectRoot_in [OF found(1)] and o1 = selectOperationByIdentity_in [OF found(2)]
    have "hd_root (jp_handle p) \<noteq> []" using found(1) by (auto simp: selectRoot_def nonempty_def)
    then have i: "rt_id r = hd_root (jp_handle p)" using selectRoot_id [OF found(1)] by simp
    from o1 have o1': "o1 \<in> set (ad_ops db)" "op_kind o1 = et_op_kind t" "op_id o1 = eg_item i" by simp_all
    from completed_outcome [OF found(3) assms(2) r o1'] show ?thesis
    proof (elim disjE conjE)
      assume "same_rows db db'" "dr_decision res \<notin> {Dispatched, Offline}"
      then show ?thesis by (auto simp: same_rows_def)
    next
      assume a: "dr_decision res = (if sent then Dispatched else Offline)" "completes t i (jp_handle p) r o1"
        "touches_only now r o1 db db'"
        "\<not> sent \<longrightarrow> (\<forall>q' \<in> set (ad_roots db'). \<exists>q \<in> set (ad_roots db). rt_id q = rt_id q' \<and> rt_dispatched q = rt_dispatched q')"
      have "op_generation o1 = rt_generation r"
        using a(2) unfolding completes_def same_owner_def by (metis of_int_eq_iff)
      then have e: "\<exists>r \<in> set (ad_roots db). \<exists>o1 \<in> set (ad_ops db). rt_id r = hd_root (jp_handle p) \<and> rt_device r = eg_device i
            \<and> op_kind o1 = et_op_kind t \<and> op_id o1 = eg_item i \<and> op_root o1 = rt_id r
            \<and> of_int (rt_generation r) = hd_generation (jp_handle p) \<and> op_generation o1 = rt_generation r
            \<and> (rootIsDispatching r \<or> et_requires t \<and> rootIsDispatched r) \<and> touches_only now r o1 db db'"
        using a(2,3) i r o1' unfolding completes_def same_owner_def by blast
      have "dr_decision res \<in> {Dispatched, Offline}" by (cases sent) (simp_all add: a(1))
      then show ?thesis using a(1,4) e by (simp only: if_True simp_thms)
    qed
  qed
qed

text \<open>The tables after the first transaction of the sample, and its permit.\<close>

definition job_prepared :: "egress_result \<times> arb_db" where
  "job_prepared = (case standalone_prepare 1 ''r1'' any_root job_terms job_egress egress_db of Inr y \<Rightarrow> y)"

definition job_permit :: DeviceExecutionJobDispatchPermit where
  "job_permit = (case er_permit (fst job_prepared) of Some p \<Rightarrow> p)"

lemma job_prepared_ok: "arb_ok (snd job_prepared) \<and> slots (snd job_prepared)"
proof -
  have "answers (standalone_prepare 1 ''r1'' any_root job_terms job_egress) egress_db (\<lambda>r. er_permit r \<noteq> None)" by code_simp
  then obtain res db' where p: "standalone_prepare 1 ''r1'' any_root job_terms job_egress egress_db = Inr (res, db')"
    by (auto elim: answersE)
  then show ?thesis using step_slotted [OF p slot_step.prepare egress_db_ok] by (simp add: job_prepared_def)
qed

theorem completion_fenced_witness:
  "\<exists>res db'. standalone_complete 2 job_terms job_egress (fst job_prepared) job_permit False (Some ''offline'') (snd job_prepared)
      = Inr (res, db') \<and> dr_decision res = Offline
    \<and> (\<forall>q' \<in> set (ad_roots db'). \<exists>q \<in> set (ad_roots (snd job_prepared)). rt_id q = rt_id q' \<and> rt_dispatched q = rt_dispatched q')"
proof -
  have "answers (standalone_complete 2 job_terms job_egress (fst job_prepared) job_permit False (Some ''offline''))
      (snd job_prepared) (\<lambda>r. dr_decision r = Offline)" by code_simp
  then obtain res db' where c: "standalone_complete 2 job_terms job_egress (fst job_prepared) job_permit False
      (Some ''offline'') (snd job_prepared) = Inr (res, db')" "dr_decision res = Offline" by (rule answersE)
  have "dr_decision (fst job_prepared) = Claimed" by code_simp
  from completion_fenced [OF c(1) conjunct1 [OF job_prepared_ok] this] c show ?thesis by auto
qed

text \<open>The operation of a job that was never sent gets a time of dispatch when it is blocked.\<close>

lemma unsent_operation_dispatched:
  "(case standalone_complete 2 job_terms job_egress (fst job_prepared) job_permit False (Some ''offline'') (snd job_prepared) of
      Inl e \<Rightarrow> False
    | Inr (res, db') \<Rightarrow> map op_dispatched (ad_ops (snd job_prepared)) = [None] \<and> map op_dispatched (ad_ops db') = [Some 2]
        \<and> map rt_dispatched (ad_roots db') = [None])"
  by code_simp

section \<open>The whole runner\<close>

text \<open>
  The runner is two transactions with the steps of others in between, so the device slot
  survives any interleaving of runners.
\<close>

lemma run_steps:
  assumes "runStandaloneJobEgress now later newId unlocked rw wd others i db = (x, db')"
    and "\<And>db1. slot_step\<^sup>*\<^sup>* db1 (others db1)"
  shows "slot_step\<^sup>*\<^sup>* db db'"
proof (cases "standalone_terms (ad_lc db) i")
  case (Inr t)
  let ?m = "standalone_prepare now newId unlocked t i"
  have one: "slot_step\<^sup>*\<^sup>* db (snd (withTransaction ?m db))"
    using slot_step.prepare [of db now newId unlocked t i] by (auto simp: after_def)
  have two: "slot_step\<^sup>*\<^sup>* db2 (snd (withTransaction (standalone_complete later t i prepared p sent err) db2))"
    for db2 prepared p sent err
    using slot_step.complete [of db2 later t i prepared p sent err] by (auto simp: after_def)
  obtain y db1 where y: "withTransaction ?m db = (y, db1)" by fastforce
  with one have d1: "slot_step\<^sup>*\<^sup>* db db1" by simp
  show ?thesis
  proof (cases y)
    case (Inl e)
    then show ?thesis using assms(1) d1 by (simp add: runStandaloneJobEgress_def Inr y)
  next
    case pr: (Inr prepared)
    show ?thesis
    proof (cases "er_permit prepared")
      case None
      then show ?thesis using assms(1) d1 by (simp add: runStandaloneJobEgress_def Inr y pr)
    next
      case (Some p)
      then obtain sent err where "withTransaction (standalone_complete later t i prepared p sent err) (others db1) = (x, db')"
        using assms(1) by (auto simp: runStandaloneJobEgress_def Inr y pr split: prod.splits)
      then have "slot_step\<^sup>*\<^sup>* (others db1) db'" using two [of "others db1" prepared p sent err] by simp
      then show ?thesis using d1 assms(2) [of db1] by (meson rtranclp_trans)
    qed
  qed
qed (use assms(1) in \<open>simp add: runStandaloneJobEgress_def\<close>)

section \<open>A rejected request may keep the device\<close>

text \<open>
  A request for a waiting root whose operation was recorded and ended under another root is
  rejected, but the transaction commits: the root stays in its dispatching status and is the
  active root of the device, although no permit was issued.
\<close>

definition ended_job :: arb_db where
  "ended_job = after (observeTerminal 4 \<lparr>ti_device = ''d1'', ti_kind = None, ti_external = Some ''j1'', ti_root = None,
     ti_handle = None, ti_generation = None, ti_status = Some ''done'', ti_selector = None, ti_actor = None,
     ti_reason = None, ti_metadata = None\<rparr>)
     (snd (runStandaloneJobEgress 1 2 ''r1'' any_root (\<lambda>_. None) (\<lambda>_. Inr True) id job_egress egress_db))"

definition waiting_job :: arb_db where
  "waiting_job = after (observeAdmission 5 ''r2'' (job_admission ''j2'')) ended_job"

lemma rejected_request_keeps_device:
  "case standalone_prepare 6 ''r3'' any_root job_terms (job_egress\<lparr>eg_root := Some ''r2''\<rparr>) waiting_job of
     Inr (res, db') \<Rightarrow> dr_decision res = Rejected \<and> er_permit res = None
       \<and> map_option rt_id (selectActiveRoot ''d1'' db') = Some ''r2''
   | Inl _ \<Rightarrow> False"
  by code_simp

end
