(* ===== verification/Workflow_Expression.thy ===== *)
theory Workflow_Expression imports Arbiter_Data
begin

text \<open>
  The expression language of workflow conditions, the parameter bindings of workflow
  actions and the result assertions of action policies
  (\<^verbatim>\<open>src/src/modules/workflows/workflow.executor.ts\<close> and
  \<^verbatim>\<open>src/src/modules/dispatcher/dispatcher.service.ts\<close>). Numbers are rationals: the
  rounding of a numeric literal to a double is not modelled, its overflow to infinity is.
  Paths name own members of JSON objects only, not those of \<^verbatim>\<open>Object.prototype\<close>.
\<close>

section \<open>Splitting\<close>

text \<open>\<^verbatim>\<open>s.split(c)\<close> for a single character, and the nonempty segments of a path.\<close>

fun split_char :: "char \<Rightarrow> string \<Rightarrow> string list" where
  "split_char c [] = [[]]"
| "split_char c (x # xs) =
     (if x = c then [] # split_char c xs
      else case split_char c xs of [] \<Rightarrow> [[x]] | p # ps \<Rightarrow> (x # p) # ps)"

definition path_segments :: "string \<Rightarrow> string list" where
  "path_segments p = filter (\<lambda>s. s \<noteq> []) (split_char CHR ''.'' p)"

text \<open>A match of \<^verbatim>\<open>\s+cc\s+\<close> at the front of a text answers what follows it.\<close>

definition match_operator :: "char \<Rightarrow> string \<Rightarrow> string option" where
  "match_operator c s =
     (case s of
        [] \<Rightarrow> None
      | x # _ \<Rightarrow>
          if js_space x
          then (case dropWhile js_space s of
                  a # b # y # r \<Rightarrow> if a = c \<and> b = c \<and> js_space y then Some (dropWhile js_space r) else None
                | _ \<Rightarrow> None)
          else None)"

lemma length_dropWhile_less: "length (dropWhile p xs) \<le> length xs"
  by (rule length_dropWhile_le)

lemma match_operator_shorter: "match_operator c s = Some r \<Longrightarrow> length r + 4 \<le> length s"
proof (cases s)
  case (Cons x xs)
  assume m: "match_operator c s = Some r"
  then have x: "js_space x" using Cons by (simp add: match_operator_def split: if_splits)
  obtain a b y r0 where d: "dropWhile js_space s = a # b # y # r0" and r: "r = dropWhile js_space r0"
    using m Cons x by (auto simp: match_operator_def split: list.splits if_splits)
  have "length (dropWhile js_space s) \<le> length xs"
    using Cons x length_dropWhile_le[of js_space xs] by simp
  then show ?thesis using d r Cons length_dropWhile_le[of js_space r0] by simp
qed (simp add: match_operator_def)

lemma match_operator_suffix: "match_operator c s = Some r \<Longrightarrow> \<exists>w. s = w @ r"
proof (cases s)
  case (Cons x xs)
  assume m: "match_operator c s = Some r"
  then have x: "js_space x" using Cons by (simp add: match_operator_def split: if_splits)
  obtain a b y r0 where d: "dropWhile js_space s = a # b # y # r0" and r: "r = dropWhile js_space r0"
    using m Cons x by (auto simp: match_operator_def split: list.splits if_splits)
  have "s = takeWhile js_space s @ [a, b, y] @ takeWhile js_space r0 @ r"
    using d r by (metis append_Cons append_Nil takeWhile_dropWhile_id)
  then show ?thesis by (metis append.assoc)
qed (simp add: match_operator_def)

text \<open>\<^verbatim>\<open>s.split(/\s+cc\s+/)\<close>; the first argument holds the current piece reversed.\<close>

function split_operator :: "char \<Rightarrow> string \<Rightarrow> string \<Rightarrow> string list" where
  "split_operator c piece s =
     (case match_operator c s of
        Some r \<Rightarrow> rev piece # split_operator c [] r
      | None \<Rightarrow> (case s of [] \<Rightarrow> [rev piece] | x # xs \<Rightarrow> split_operator c (x # piece) xs))"
  by pat_completeness auto
termination
  by (relation "measure (\<lambda>(c, piece, s). length s)") (auto dest: match_operator_shorter)

declare split_operator.simps [simp del]

section \<open>Values\<close>

text \<open>
  \<^verbatim>\<open>Number(s)\<close> on a text, \<open>None\<close> when the result is not finite: decimal literals with sign,
  fraction and exponent, and the unsigned radix literals.
\<close>

definition digit_of :: "nat \<Rightarrow> char \<Rightarrow> nat option" where
  "digit_of base c =
     (let n = of_char c :: nat;
          v = (if 48 \<le> n \<and> n \<le> 57 then Some (n - 48)
               else if 97 \<le> n \<and> n \<le> 122 then Some (n - 87)
               else if 65 \<le> n \<and> n \<le> 90 then Some (n - 55) else None)
      in case v of None \<Rightarrow> None | Some d \<Rightarrow> if d < base then Some d else None)"

definition digits_value :: "nat \<Rightarrow> string \<Rightarrow> nat option" where
  "digits_value base s =
     (if s \<noteq> [] \<and> list_all (\<lambda>c. digit_of base c \<noteq> None) s
      then Some (foldl (\<lambda>a c. a * base + the (digit_of base c)) 0 s) else None)"

definition signed :: "string \<Rightarrow> bool \<times> string" where
  "signed s = (case s of
      CHR ''-'' # r \<Rightarrow> (True, r)
    | CHR ''+'' # r \<Rightarrow> (False, r)
    | _ \<Rightarrow> (False, s))"

definition power10 :: "bool \<Rightarrow> nat \<Rightarrow> rat" where
  "power10 negative n = (if negative then 1 / 10 ^ n else 10 ^ n)"

text \<open>The factor of \<^verbatim>\<open>e<digits>\<close>.\<close>

definition exponent_factor :: "string \<Rightarrow> rat option" where
  "exponent_factor s = (case s of
      [] \<Rightarrow> Some 1
    | _ # r \<Rightarrow> (case signed r of (negative, d) \<Rightarrow> map_option (power10 negative) (digits_value 10 d)))"

definition decimal_value :: "string \<Rightarrow> rat option" where
  "decimal_value s =
     (let mantissa = takeWhile (\<lambda>c. c \<noteq> CHR ''e'' \<and> c \<noteq> CHR ''E'') s;
          whole = takeWhile (\<lambda>c. c \<noteq> CHR ''.'') mantissa;
          fraction = drop 1 (dropWhile (\<lambda>c. c \<noteq> CHR ''.'') mantissa)
      in case (digits_value 10 (whole @ fraction), exponent_factor (drop (length mantissa) s)) of
           (Some n, Some f) \<Rightarrow> Some (of_nat n / 10 ^ length fraction * f)
         | _ \<Rightarrow> None)"

definition radix_value :: "string \<Rightarrow> rat option" where
  "radix_value s = (case s of
      CHR ''0'' # k # r \<Rightarrow>
        map_option of_nat
          (if k = CHR ''x'' \<or> k = CHR ''X'' then digits_value 16 r
           else if k = CHR ''o'' \<or> k = CHR ''O'' then digits_value 8 r
           else if k = CHR ''b'' \<or> k = CHR ''B'' then digits_value 2 r else None)
    | _ \<Rightarrow> None)"

definition finite_double :: "rat \<Rightarrow> bool" where
  "finite_double x \<longleftrightarrow> \<bar>x\<bar> < 2 ^ 1024 - 2 ^ 970"

definition js_number :: "string \<Rightarrow> rat option" where
  "js_number s =
     (let t = js_trim s
      in if t = [] then Some 0
         else case radix_value t of
                Some x \<Rightarrow> if finite_double x then Some x else None
              | None \<Rightarrow>
                  (case signed t of (negative, d) \<Rightarrow>
                     (case decimal_value d of
                        None \<Rightarrow> None
                      | Some x \<Rightarrow> if finite_double x then Some (if negative then - x else x) else None)))"

text \<open>
  What an operand denotes: nothing, a scalar, or an object or array of the variables,
  which \<^verbatim>\<open>===\<close> compares by identity, so it is named by its path.
\<close>

datatype expr_value =
    Undefined
  | Scalar json
  | Reference "string list" json

fun read_path :: "json \<Rightarrow> string list \<Rightarrow> json option" where
  "read_path v [] = Some v"
| "read_path v (k # ks) =
     (case v of
        JObj o1 \<Rightarrow> (case jget o1 k of None \<Rightarrow> None | Some w \<Rightarrow> read_path w ks)
      | _ \<Rightarrow> None)"

definition readObjectPath :: "json \<Rightarrow> string \<Rightarrow> json option" where
  "readObjectPath v p = read_path v (path_segments p)"

definition denote :: "string list \<Rightarrow> json \<Rightarrow> expr_value" where
  "denote p v = (case v of JObj _ \<Rightarrow> Reference p v | JArr _ \<Rightarrow> Reference p v | _ \<Rightarrow> Scalar v)"

definition quoted :: "char \<Rightarrow> string \<Rightarrow> bool" where
  "quoted q s \<longleftrightarrow> s \<noteq> [] \<and> hd s = q \<and> last s = q"

definition resolveWorkflowExpressionValue :: "jobj \<Rightarrow> string \<Rightarrow> expr_value" where
  "resolveWorkflowExpressionValue variables source =
     (let value = js_trim source
      in if quoted (CHR 0x22) value \<or> quoted (CHR 0x27) value
         then Scalar (JStr (take (length value - 2) (drop 1 value)))
         else if value = ''true'' then Scalar (JBool True)
         else if value = ''false'' then Scalar (JBool False)
         else if value = ''null'' then Scalar JNull
         else case (if value = [] then None else js_number value) of
           Some n \<Rightarrow> Scalar (JNum n)
         | None \<Rightarrow>
             (let path = path_segments (if value \<noteq> [] \<and> hd value = CHR ''$'' then tl value else value)
              in case read_path (JObj variables) path of None \<Rightarrow> Undefined | Some v \<Rightarrow> denote path v))"

definition isTruthy :: "expr_value \<Rightarrow> bool" where
  "isTruthy v = (case v of
      Undefined \<Rightarrow> False
    | Reference _ _ \<Rightarrow> True
    | Scalar j \<Rightarrow> (case j of JBool b \<Rightarrow> b | JNum n \<Rightarrow> n \<noteq> 0 | JStr s \<Rightarrow> s \<noteq> [] | JNull \<Rightarrow> False | _ \<Rightarrow> True))"

section \<open>Comparisons\<close>

datatype comparison_operator = OpEq | OpNe | OpGe | OpLe | OpGt | OpLt

definition operator_at :: "string \<Rightarrow> (comparison_operator \<times> string) option" where
  "operator_at s = (case s of
      CHR ''='' # CHR ''='' # r \<Rightarrow> Some (OpEq, r)
    | CHR ''!'' # CHR ''='' # r \<Rightarrow> Some (OpNe, r)
    | CHR ''>'' # CHR ''='' # r \<Rightarrow> Some (OpGe, r)
    | CHR ''<'' # CHR ''='' # r \<Rightarrow> Some (OpLe, r)
    | CHR ''>'' # r \<Rightarrow> Some (OpGt, r)
    | CHR ''<'' # r \<Rightarrow> Some (OpLt, r)
    | _ \<Rightarrow> None)"

definition line_end :: "char \<Rightarrow> bool" where
  "line_end c \<longleftrightarrow> of_char c \<in> {10, 13 :: nat}"

text \<open>
  \<^verbatim>\<open>/^(.*?)\s*(==|!=|>=|<=|>|<)\s*(.*?)$/\<close>: the shortest left part without line ends after
  which blanks, an operator, blanks and a rest without line ends follow.
\<close>

fun match_comparison :: "string \<Rightarrow> string \<Rightarrow> (string \<times> comparison_operator \<times> string) option" where
  "match_comparison left s =
     (case operator_at (dropWhile js_space s) of
        Some (cmp, r) \<Rightarrow>
          if list_ex line_end (dropWhile js_space r)
          then (case s of [] \<Rightarrow> None | x # xs \<Rightarrow> if line_end x then None else match_comparison (x # left) xs)
          else Some (rev left, cmp, dropWhile js_space r)
      | None \<Rightarrow>
          (case s of [] \<Rightarrow> None | x # xs \<Rightarrow> if line_end x then None else match_comparison (x # left) xs))"

declare match_comparison.simps [simp del]

definition compare_numbers :: "comparison_operator \<Rightarrow> rat \<Rightarrow> rat \<Rightarrow> bool" where
  "compare_numbers cmp a b = (case cmp of
      OpGt \<Rightarrow> b < a | OpLt \<Rightarrow> a < b | OpGe \<Rightarrow> b \<le> a | OpLe \<Rightarrow> a \<le> b | OpEq \<Rightarrow> a = b | OpNe \<Rightarrow> a \<noteq> b)"

definition compare_values :: "comparison_operator \<Rightarrow> expr_value \<Rightarrow> expr_value \<Rightarrow> bool" where
  "compare_values cmp l r =
     (if cmp = OpEq then l = r
      else if cmp = OpNe then l \<noteq> r
      else case (l, r) of
        (Scalar (JNum a), Scalar (JNum b)) \<Rightarrow> compare_numbers cmp a b
      | _ \<Rightarrow> False)"

text \<open>A source without disjunction and conjunction.\<close>

definition evaluate_atom :: "jobj \<Rightarrow> string \<Rightarrow> bool" where
  "evaluate_atom variables source =
     (case match_comparison [] source of
        None \<Rightarrow> isTruthy (resolveWorkflowExpressionValue variables source)
      | Some (l, cmp, r) \<Rightarrow>
          compare_values cmp (resolveWorkflowExpressionValue variables l) (resolveWorkflowExpressionValue variables r))"

section \<open>Pieces of a split\<close>

text \<open>A text has an operator when a match starts somewhere in it.\<close>

definition has_operator :: "char \<Rightarrow> string \<Rightarrow> bool" where
  "has_operator c s \<longleftrightarrow> (\<exists>a b. s = a @ b \<and> match_operator c b \<noteq> None)"

lemma has_operator_Nil [simp]: "\<not> has_operator c []"
  by (simp add: has_operator_def match_operator_def)

lemma has_operator_Cons: "has_operator c (x # xs) \<longleftrightarrow> match_operator c (x # xs) \<noteq> None \<or> has_operator c xs"
proof
  assume "has_operator c (x # xs)"
  then obtain a b where ab: "x # xs = a @ b" and m: "match_operator c b \<noteq> None" by (auto simp: has_operator_def)
  show "match_operator c (x # xs) \<noteq> None \<or> has_operator c xs"
    using ab m by (cases a) (auto simp: has_operator_def)
next
  assume "match_operator c (x # xs) \<noteq> None \<or> has_operator c xs"
  then show "has_operator c (x # xs)"
  proof
    assume "match_operator c (x # xs) \<noteq> None"
    then show ?thesis unfolding has_operator_def by (intro exI[of _ "[]"] exI[of _ "x # xs"]) simp
  next
    assume "has_operator c xs"
    then obtain a b where "xs = a @ b" "match_operator c b \<noteq> None" by (auto simp: has_operator_def)
    then show ?thesis unfolding has_operator_def by (intro exI[of _ "x # a"] exI[of _ b]) simp
  qed
qed

lemma match_operator_append: "match_operator c s \<noteq> None \<Longrightarrow> match_operator c (s @ t) \<noteq> None"
proof (cases s)
  case (Cons x xs)
  assume m: "match_operator c s \<noteq> None"
  then have x: "js_space x" using Cons by (simp add: match_operator_def split: if_splits)
  obtain a b y r0 where d: "dropWhile js_space s = a # b # y # r0" and c: "a = c" "b = c" "js_space y"
    using m Cons x by (auto simp: match_operator_def split: list.splits if_splits)
  have "\<exists>z \<in> set s. \<not> js_space z" using d by (metis dropWhile_eq_Nil_conv list.distinct(1))
  then have "dropWhile js_space (s @ t) = dropWhile js_space s @ t" by (metis dropWhile_append1)
  then show ?thesis using d c x Cons by (simp add: match_operator_def)
qed (simp add: match_operator_def)

lemma has_operator_sub: "has_operator c s \<Longrightarrow> has_operator c (u @ s @ v)"
proof -
  assume "has_operator c s"
  then obtain a b where "s = a @ b" "match_operator c b \<noteq> None" by (auto simp: has_operator_def)
  then have "u @ s @ v = (u @ a) @ (b @ v)" "match_operator c (b @ v) \<noteq> None"
    by (simp_all add: match_operator_append)
  then show ?thesis unfolding has_operator_def by blast
qed

lemma trim_by_sub: "\<exists>u v. s = u @ trim_by p s @ v"
proof -
  define d where "d = dropWhile p s"
  have s: "s = takeWhile p s @ d" by (simp add: d_def)
  have "rev d = takeWhile p (rev d) @ dropWhile p (rev d)" by simp
  then have "d = rev (dropWhile p (rev d)) @ rev (takeWhile p (rev d))" by (metis rev_append rev_rev_ident)
  then show ?thesis using s unfolding trim_by_def d_def by metis
qed

lemma has_operator_trim: "\<not> has_operator c s \<Longrightarrow> \<not> has_operator c (js_trim s)"
  using trim_by_sub[of s js_space] has_operator_sub unfolding js_trim_def by metis

lemma split_operator_none: "\<not> has_operator c s \<Longrightarrow> split_operator c piece s = [rev piece @ s]"
proof (induction s arbitrary: piece)
  case Nil
  then show ?case by (simp add: split_operator.simps match_operator_def)
next
  case (Cons x xs)
  then show ?case by (subst split_operator.simps) (simp add: has_operator_Cons)
qed

lemma split_operator_nonempty [simp]: "split_operator c piece s \<noteq> []"
  by (induction c piece s rule: split_operator.induct)
    (subst split_operator.simps, auto split: option.splits list.splits)

lemma split_operator_two: "has_operator c s \<Longrightarrow> 2 \<le> length (split_operator c piece s)"
proof (induction s arbitrary: piece)
  case (Cons x xs)
  show ?case
  proof (cases "match_operator c (x # xs)")
    case None
    then show ?thesis using Cons by (subst split_operator.simps) (simp add: has_operator_Cons)
  next
    case (Some r)
    have "1 \<le> length (split_operator c [] r)" by (simp add: Suc_le_eq)
    then show ?thesis using Some by (subst split_operator.simps) simp
  qed
qed simp

lemma split_operator_sub:
  "q \<in> set (split_operator c piece s) \<Longrightarrow> \<exists>u v. rev piece @ s = u @ q @ v"
proof (induction c piece s rule: split_operator.induct)
  case (1 c piece s)
  show ?case
  proof (cases "match_operator c s")
    case None
    show ?thesis
    proof (cases s)
      case Nil
      then have "rev piece @ s = [] @ q @ []" using 1(3) None by (simp add: split_operator.simps)
      then show ?thesis by blast
    next
      case (Cons x xs)
      then have "q \<in> set (split_operator c (x # piece) xs)"
        using 1(3) None by (simp add: split_operator.simps[of c piece "x # xs"])
      then show ?thesis using 1(1)[OF None Cons] Cons by simp
    qed
  next
    case (Some r)
    then have "q = rev piece \<or> q \<in> set (split_operator c [] r)"
      using 1(3) by (simp add: split_operator.simps[of c piece s])
    then show ?thesis
    proof
      assume "q = rev piece"
      then have "rev piece @ s = [] @ q @ s" by simp
      then show ?thesis by blast
    next
      assume q: "q \<in> set (split_operator c [] r)"
      obtain u v where "r = u @ q @ v" using 1(2)[OF Some q] by auto
      moreover have "\<exists>w. s = w @ r" by (rule match_operator_suffix[OF Some])
      ultimately have "\<exists>w. rev piece @ s = (rev piece @ w @ u) @ q @ v" by auto
      then show ?thesis by blast
    qed
  qed
qed

lemma split_operator_clean:
  "q \<in> set (split_operator c piece s) \<Longrightarrow>
     (\<And>a b. rev piece = a @ b \<Longrightarrow> b \<noteq> [] \<Longrightarrow> match_operator c (b @ s) = None) \<Longrightarrow> \<not> has_operator c q"
proof (induction c piece s rule: split_operator.induct)
  case (1 c piece s)
  have here: "\<not> has_operator c (rev piece)"
  proof
    assume "has_operator c (rev piece)"
    then obtain a b where ab: "rev piece = a @ b" and m: "match_operator c b \<noteq> None" by (auto simp: has_operator_def)
    have "b \<noteq> []" using m by (auto simp: match_operator_def)
    then have "match_operator c (b @ s) = None" by (rule 1(4)[OF ab])
    then show False using match_operator_append[OF m, of s] by simp
  qed
  show ?case
  proof (cases "match_operator c s")
    case None
    show ?thesis
    proof (cases s)
      case Nil
      then show ?thesis using 1(3) None here by (simp add: split_operator.simps)
    next
      case (Cons x xs)
      have q: "q \<in> set (split_operator c (x # piece) xs)"
        using 1(3) None Cons by (simp add: split_operator.simps[of c piece "x # xs"])
      show ?thesis
      proof (rule 1(1)[OF None Cons q])
        fix a b assume ab: "rev (x # piece) = a @ b" and b: "b \<noteq> []"
        then obtain b' where b': "b = b' @ [x]" "rev piece = a @ b'"
          by (cases b rule: rev_cases) auto
        show "match_operator c (b @ xs) = None"
          using 1(4)[of a b'] b' None Cons by (cases "b' = []") auto
      qed
    qed
  next
    case (Some r)
    then have "q = rev piece \<or> q \<in> set (split_operator c [] r)"
      using 1(3) by (simp add: split_operator.simps[of c piece s])
    then show ?thesis using here 1(2)[OF Some] by auto
  qed
qed

lemma split_operator_shorter:
  "q \<in> set (split_operator c piece s) \<Longrightarrow> 2 \<le> length (split_operator c piece s) \<Longrightarrow>
     length q < length piece + length s"
proof (induction s arbitrary: piece)
  case Nil
  then show ?case by (simp add: split_operator.simps match_operator_def)
next
  case (Cons x xs)
  show ?case
  proof (cases "match_operator c (x # xs)")
    case None
    then show ?thesis using Cons.IH[of "x # piece"] Cons.prems by (simp add: split_operator.simps[of c piece "x # xs"])
  next
    case (Some r)
    then have "q = rev piece \<or> q \<in> set (split_operator c [] r)"
      using Cons.prems(1) by (simp add: split_operator.simps[of c piece "x # xs"])
    then show ?thesis
    proof
      assume "q \<in> set (split_operator c [] r)"
      then have "length q \<le> length r" using split_operator_sub[of q c "[]" r] by auto
      then show ?thesis using match_operator_shorter[OF Some] by simp
    qed simp
  qed
qed

lemma length_trim [simp]: "length (js_trim s) \<le> length s"
  using trim_by_sub[of s js_space] unfolding js_trim_def by (metis length_append le_add1 le_add2 le_trans)

section \<open>Evaluation\<close>

function evaluateWorkflowExpression :: "jobj \<Rightarrow> string \<Rightarrow> bool" where
  "evaluateWorkflowExpression variables expression =
     (let source = js_trim expression;
          orParts = split_operator CHR ''|'' [] source
      in if 1 < length orParts then list_ex (\<lambda>part. evaluateWorkflowExpression variables part) orParts
         else (let andParts = split_operator CHR ''&'' [] source
               in if 1 < length andParts then list_all (\<lambda>part. evaluateWorkflowExpression variables part) andParts
                  else evaluate_atom variables source))"
  by pat_completeness auto
termination
proof (relation "measure (\<lambda>(variables, expression). length expression)", goal_cases)
  case (2 variables expression source orParts part)
  then show ?case using split_operator_shorter[of part "CHR ''|''" "[]" source] less_le_trans[OF _ length_trim[of expression]] by simp
next
  case (3 variables expression source orParts andParts part)
  then show ?case using split_operator_shorter[of part "CHR ''&''" "[]" source] less_le_trans[OF _ length_trim[of expression]] by simp
qed simp

declare evaluateWorkflowExpression.simps [simp del]

text \<open>
  A reference definition: the disjunction of the conjunctions of the atoms of the text, each
  operator splitting once.
\<close>

definition conjunction_of :: "jobj \<Rightarrow> string \<Rightarrow> bool" where
  "conjunction_of variables s =
     list_all (\<lambda>atom. evaluate_atom variables (js_trim atom)) (split_operator CHR ''&'' [] (js_trim s))"

definition disjunction_of :: "jobj \<Rightarrow> string \<Rightarrow> bool" where
  "disjunction_of variables s = list_ex (conjunction_of variables) (split_operator CHR ''|'' [] (js_trim s))"

lemma pieces_clean: "q \<in> set (split_operator c [] s) \<Longrightarrow> \<not> has_operator c q"
  by (rule split_operator_clean) auto

lemma pieces_inherit: "q \<in> set (split_operator c [] s) \<Longrightarrow> \<not> has_operator d s \<Longrightarrow> \<not> has_operator d q"
  using split_operator_sub[of q c "[]" s] has_operator_sub[of d q] by auto

lemma split_single: "length (split_operator c [] s) \<le> 1 \<Longrightarrow> \<not> has_operator c s"
  using split_operator_two[of c s "[]"] by auto

lemma evaluate_clean_atom:
  "\<not> has_operator CHR ''|'' s \<Longrightarrow> \<not> has_operator CHR ''&'' s \<Longrightarrow>
     evaluateWorkflowExpression variables s = evaluate_atom variables (js_trim s)"
  by (subst evaluateWorkflowExpression.simps) (simp add: has_operator_trim split_operator_none)

lemma evaluate_clean_conjunction:
  assumes "\<not> has_operator CHR ''|'' s"
  shows "evaluateWorkflowExpression variables s = conjunction_of variables s"
proof -
  let ?parts = "split_operator CHR ''&'' [] (js_trim s)"
  have bar: "\<not> has_operator CHR ''|'' (js_trim s)" using assms by (rule has_operator_trim)
  have parts: "evaluateWorkflowExpression variables p = evaluate_atom variables (js_trim p)" if "p \<in> set ?parts" for p
    using that pieces_clean pieces_inherit[OF that bar] evaluate_clean_atom by blast
  show ?thesis
  proof (cases "1 < length ?parts")
    case True
    then show ?thesis
      by (subst evaluateWorkflowExpression.simps)
        (simp add: split_operator_none[OF bar] conjunction_of_def list_all_iff parts)
  next
    case False
    then have amp: "\<not> has_operator CHR ''&'' (js_trim s)" by (intro split_single) simp
    then show ?thesis
      by (subst evaluateWorkflowExpression.simps)
        (simp add: split_operator_none[OF bar] split_operator_none[OF amp] conjunction_of_def)
  qed
qed

text \<open>
  C21. The recursive evaluation of a condition is the reference reading: a disjunction of
  conjunctions of atoms, where \<^verbatim>\<open>||\<close> binds weaker than \<^verbatim>\<open>&&\<close> and both need blanks
  around them.
\<close>

theorem expression_is_disjunction:
  "evaluateWorkflowExpression variables s = disjunction_of variables s"
proof -
  let ?parts = "split_operator CHR ''|'' [] (js_trim s)"
  have parts: "evaluateWorkflowExpression variables p = conjunction_of variables p" if "p \<in> set ?parts" for p
    using pieces_clean[OF that] by (rule evaluate_clean_conjunction)
  show ?thesis
  proof (cases "1 < length ?parts")
    case True
    then show ?thesis
      by (subst evaluateWorkflowExpression.simps) (simp add: disjunction_of_def list_ex_iff parts cong: bex_cong)
  next
    case False
    then have bar: "\<not> has_operator CHR ''|'' (js_trim s)" by (intro split_single) simp
    have "evaluateWorkflowExpression variables s = evaluateWorkflowExpression variables (js_trim s)"
      by (subst (1 2) evaluateWorkflowExpression.simps) (simp add: split_operator_none[OF bar])
    then show ?thesis
      using evaluate_clean_conjunction[OF bar] by (simp add: disjunction_of_def split_operator_none[OF bar])
  qed
qed

section \<open>Parameter bindings\<close>

definition jset :: "jobj \<Rightarrow> string \<Rightarrow> json \<Rightarrow> jobj" where
  "jset o1 k v = jmerge o1 [(k, v)]"

lemma jget_jset [simp]: "jget (jset o1 k v) k' = (if k' = k then Some v else jget o1 k')"
  by (simp add: jset_def) (simp add: jget_def)

text \<open>The entries of a policy list that are objects; other entries are skipped.\<close>

definition policy_entries :: "jobj \<Rightarrow> string \<Rightarrow> jobj list" where
  "policy_entries policy k =
     (case jget policy k of
        Some (JArr items) \<Rightarrow> concat (map (\<lambda>v. case v of JObj o1 \<Rightarrow> [o1] | _ \<Rightarrow> []) items)
      | _ \<Rightarrow> [])"

definition text_member :: "jobj \<Rightarrow> string \<Rightarrow> string" where
  "text_member o1 k = odefault (string_member o1 k) []"

text \<open>\<open>a ?? b\<close> on values: \<^verbatim>\<open>null\<close> and undefined fall through.\<close>

definition nullish :: "json option \<Rightarrow> json option" where
  "nullish v = (if v = Some JNull then None else v)"

definition unavailable :: "string \<Rightarrow> string" where
  "unavailable name = ''Required workflow variable '' @ [CHR 0x27] @ name @ [CHR 0x27] @ '' is unavailable''"

definition bind_parameter :: "jobj \<Rightarrow> jobj \<Rightarrow> jobj \<Rightarrow> jobj res" where
  "bind_parameter variables binding params =
     (let sourceParam = text_member binding ''sourceParam''; targetParam = text_member binding ''targetParam''
      in if sourceParam = [] \<or> targetParam = [] \<or> jhas params targetParam then Inr params
         else case string_member params sourceParam of
           None \<Rightarrow> Inr params
         | Some variableName \<Rightarrow>
             (let resolved = readObjectPath (JObj variables) variableName
              in if resolved = None \<and> boolean_field binding ''required'' = Some True then Inl (unavailable variableName)
                 else (let bound = jset params targetParam
                            (odefault (coalesce (nullish resolved) (nullish (jget binding ''defaultValue''))) JNull)
                       in Inr (if boolean_field binding ''removeSource'' = Some False then bound
                               else jdel sourceParam bound))))"

definition fall_back_parameter :: "jobj \<Rightarrow> jobj \<Rightarrow> jobj \<Rightarrow> jobj res" where
  "fall_back_parameter variables fallback params =
     (let targetParam = text_member fallback ''targetParam''; variablePath = text_member fallback ''variablePath''
      in if targetParam = [] \<or> variablePath = [] \<or> jhas params targetParam then Inr params
         else case readObjectPath (JObj variables) variablePath of
           None \<Rightarrow> if boolean_field fallback ''required'' = Some True then Inl (unavailable variablePath) else Inr params
         | Some v \<Rightarrow> Inr (jset params targetParam v))"

fun each_entry :: "(jobj \<Rightarrow> jobj \<Rightarrow> jobj res) \<Rightarrow> jobj list \<Rightarrow> jobj \<Rightarrow> jobj res" where
  "each_entry f [] params = Inr params"
| "each_entry f (e # es) params = res_bind (f e params) (each_entry f es)"

definition applyWorkflowParameterBindings :: "jobj \<Rightarrow> jobj \<Rightarrow> jobj \<Rightarrow> jobj res" where
  "applyWorkflowParameterBindings params variables policy =
     res_bind (each_entry (bind_parameter variables) (policy_entries policy ''parameterBindings'') params)
       (each_entry (fall_back_parameter variables) (policy_entries policy ''parameterFallbacks''))"

section \<open>Result assertions\<close>

record JobStepResult =
  jr_successful :: bool
  jr_output :: "json option"
  jr_error :: "string option"
  jr_duration :: rat
  jr_verification :: "json option"

definition result_object :: "JobStepResult \<Rightarrow> jobj" where
  "result_object r = jwith [] [(''successful'', Some (JBool (jr_successful r))), (''output'', jr_output r),
     (''error'', jostr (jr_error r)), (''durationMs'', Some (JNum (jr_duration r))),
     (''verification'', jr_verification r)]"

text \<open>\<open>===\<close> between a part of the result and a value of the policy: objects are never identical.\<close>

definition same_scalar :: "json option \<Rightarrow> json option \<Rightarrow> bool" where
  "same_scalar a b \<longleftrightarrow> a = b \<and> (case a of Some (JObj _) \<Rightarrow> False | Some (JArr _) \<Rightarrow> False | _ \<Rightarrow> True)"

definition assertion_holds :: "jobj \<Rightarrow> jobj \<Rightarrow> bool" where
  "assertion_holds result assertion =
     (let actual = readObjectPath (JObj result) (text_member assertion ''path'')
      in if jhas assertion ''equals'' then same_scalar actual (jget assertion ''equals'')
         else if boolean_field assertion ''exists'' = Some True then actual \<noteq> None
         else if boolean_field assertion ''exists'' = Some False then actual = None
         else False)"

definition assertion_error :: "string \<Rightarrow> jobj \<Rightarrow> string" where
  "assertion_error context_name assertion =
     odefault (string_member assertion ''error'')
       (context_name @ '' result policy failed at '' @ [CHR 0x27] @ text_member assertion ''path'' @ [CHR 0x27])"

definition assertJobActionResultPolicy :: "JobStepResult \<Rightarrow> jobj \<Rightarrow> string \<Rightarrow> unit res" where
  "assertJobActionResultPolicy result policy context_name =
     (case find (\<lambda>a. text_member a ''path'' \<noteq> [] \<and> \<not> assertion_holds (result_object result) a)
             (policy_entries policy ''resultAssertions'') of
        None \<Rightarrow> Inr ()
      | Some a \<Rightarrow> Inl (assertion_error context_name a))"

end
