(* ===== verification/Workflow_Checkpoint.thy ===== *)
theory Workflow_Checkpoint imports Workflow_Expression
begin

text \<open>
  The data of server workflow execution (\<^verbatim>\<open>src/src/modules/workflows/types.ts\<close>): steps,
  templates, the execution statistics and the checkpoint, with the JSON of the
  \<^verbatim>\<open>checkpoint\<close> column, and the recovery policy of generated templates as the executor
  reads it (\<^verbatim>\<open>generatedWorkflowRuntimeRecoveryPolicy\<close> of \<^verbatim>\<open>workflow.executor.ts\<close>).
\<close>

section \<open>Steps and templates\<close>

record FixedDurationSpec =
  fd_min :: rat
  fd_max :: rat
  fd_opcode :: "int option"
  fd_mean :: "rat option"

record LoopCountSpec =
  lo_min :: rat
  lo_max :: rat
  lo_opcode :: "int option"

record action_fields =
  as_id :: "string option"
  as_action :: string
  as_params :: jobj
  as_verification :: "string option"
  as_retries :: "rat option"
  as_delay :: "rat option"
  as_timeout :: "rat option"

record condition_fields =
  cs_id :: "string option"
  cs_opcode :: "int option"
  cs_expression :: "string option"
  cs_probability :: "rat option"

text \<open>\<open>OtherStep\<close> is a step whose \<^verbatim>\<open>type\<close> the executor does not know.\<close>

datatype ExecutableStep =
    ActionStep action_fields
  | WaitStep "string option" "FixedDurationSpec option"
  | ConditionStep condition_fields "ExecutableStep list" "ExecutableStep list"
  | LoopStep "string option" LoopCountSpec "ExecutableStep list"
  | CheckpointStep string
  | OtherStep "string option" string

record WorkflowTemplate =
  tp_id :: string
  tp_name :: string
  tp_platform :: string
  tp_description :: string
  tp_version :: string
  tp_intent :: "string option"
  tp_safety_class :: "string option"
  tp_output_schema :: "json option"
  tp_allowed_requests :: "string list option"
  tp_recovery :: "jobj option"
  tp_steps :: "ExecutableStep list"
  tp_verification :: string
  tp_retention_days :: int

section \<open>Checkpoints\<close>

record WorkflowExecutionStats =
  es_compile_llm :: nat
  es_recovery_llm :: nat
  es_creative_llm :: nat
  es_runtime_llm :: nat
  es_vlm :: nat
  es_deterministic :: nat
  es_batched :: nat
  es_failed :: nat
  es_retried :: nat
  es_recovery_attempts :: nat
  es_budget_exhausted :: nat
  es_mode :: "string option"

definition defaultExecutionStats :: "string \<Rightarrow> WorkflowExecutionStats" where
  "defaultExecutionStats mode = \<lparr>es_compile_llm = 0, es_recovery_llm = 0, es_creative_llm = 0,
     es_runtime_llm = 0, es_vlm = 0, es_deterministic = 0, es_batched = 0, es_failed = 0, es_retried = 0,
     es_recovery_attempts = 0, es_budget_exhausted = 0, es_mode = Some mode\<rparr>"

record loop_entry =
  le_step :: nat
  le_current :: nat
  le_total :: int

record WorkflowCheckpoint =
  wc_step :: nat
  wc_loops :: "loop_entry list"
  wc_variables :: jobj
  wc_hbe :: jobj
  wc_stats :: "WorkflowExecutionStats option"
  wc_at :: string

definition executionStats :: "WorkflowCheckpoint \<Rightarrow> WorkflowExecutionStats" where
  "executionStats c = odefault (wc_stats c) (defaultExecutionStats ''server'')"

text \<open>\<open>executionStats(checkpoint).k++\<close> and the like.\<close>

definition with_stats :: "(WorkflowExecutionStats \<Rightarrow> WorkflowExecutionStats) \<Rightarrow> WorkflowCheckpoint \<Rightarrow> WorkflowCheckpoint" where
  "with_stats f c = c\<lparr>wc_stats := Some (f (executionStats c))\<rparr>"

definition set_variable :: "string \<Rightarrow> json \<Rightarrow> WorkflowCheckpoint \<Rightarrow> WorkflowCheckpoint" where
  "set_variable k v c = c\<lparr>wc_variables := jset (wc_variables c) k v\<rparr>"

section \<open>The checkpoint column\<close>

definition jnat :: "nat \<Rightarrow> json" where
  "jnat n = JNum (of_nat n)"

definition stats_json :: "WorkflowExecutionStats \<Rightarrow> json" where
  "stats_json s = JObj (jwith [] [(''compileLlmCalls'', Some (jnat (es_compile_llm s))),
     (''recoveryLlmCalls'', Some (jnat (es_recovery_llm s))), (''creativeLlmCalls'', Some (jnat (es_creative_llm s))),
     (''runtimeLlmCalls'', Some (jnat (es_runtime_llm s))), (''vlmCalls'', Some (jnat (es_vlm s))),
     (''deterministicSteps'', Some (jnat (es_deterministic s))), (''batchedSteps'', Some (jnat (es_batched s))),
     (''failedSteps'', Some (jnat (es_failed s))), (''retriedSteps'', Some (jnat (es_retried s))),
     (''recoveryAttempts'', Some (jnat (es_recovery_attempts s))),
     (''recoveryBudgetExhausted'', Some (jnat (es_budget_exhausted s))), (''mode'', jostr (es_mode s))])"

definition loop_json :: "loop_entry \<Rightarrow> json" where
  "loop_json e = JObj [(''stepIndex'', jnat (le_step e)), (''currentIteration'', jnat (le_current e)),
     (''totalIterations'', JNum (of_int (le_total e)))]"

definition checkpoint_json :: "WorkflowCheckpoint \<Rightarrow> json" where
  "checkpoint_json c = JObj (jwith [] [(''stepIndex'', Some (jnat (wc_step c))),
     (''loopStack'', Some (JArr (map loop_json (wc_loops c)))), (''variables'', Some (JObj (wc_variables c))),
     (''hbeParams'', Some (JObj (wc_hbe c))), (''executionStats'', map_option stats_json (wc_stats c)),
     (''checkpointAt'', jstr (wc_at c))])"

definition is_integer :: "rat \<Rightarrow> bool" where
  "is_integer x \<longleftrightarrow> of_int \<lfloor>x\<rfloor> = x"

definition nat_member :: "jobj \<Rightarrow> string \<Rightarrow> nat option" where
  "nat_member o1 k = (case jget o1 k of
      Some (JNum x) \<Rightarrow> if is_integer x \<and> 0 \<le> x then Some (nat \<lfloor>x\<rfloor>) else None
    | _ \<Rightarrow> None)"

definition int_member :: "jobj \<Rightarrow> string \<Rightarrow> int option" where
  "int_member o1 k = (case jget o1 k of Some (JNum x) \<Rightarrow> if is_integer x then Some \<lfloor>x\<rfloor> else None | _ \<Rightarrow> None)"

definition object_member :: "jobj \<Rightarrow> string \<Rightarrow> jobj option" where
  "object_member o1 k = (case jget o1 k of Some (JObj v) \<Rightarrow> Some v | _ \<Rightarrow> None)"

definition stats_of_object :: "jobj \<Rightarrow> WorkflowExecutionStats option" where
  "stats_of_object o1 =
     (case those (map (nat_member o1) [''compileLlmCalls'', ''recoveryLlmCalls'', ''creativeLlmCalls'',
         ''runtimeLlmCalls'', ''vlmCalls'', ''deterministicSteps'', ''batchedSteps'', ''failedSteps'',
         ''retriedSteps'', ''recoveryAttempts'', ''recoveryBudgetExhausted'']) of
        Some [a, b, c, d, e, f, g, h, i, j, k] \<Rightarrow>
          Some \<lparr>es_compile_llm = a, es_recovery_llm = b, es_creative_llm = c, es_runtime_llm = d, es_vlm = e,
            es_deterministic = f, es_batched = g, es_failed = h, es_retried = i, es_recovery_attempts = j,
            es_budget_exhausted = k, es_mode = string_member o1 ''mode''\<rparr>
      | _ \<Rightarrow> None)"

definition loop_of_json :: "json \<Rightarrow> loop_entry option" where
  "loop_of_json v = (case v of
      JObj o1 \<Rightarrow>
        (case (nat_member o1 ''stepIndex'', nat_member o1 ''currentIteration'', int_member o1 ''totalIterations'') of
           (Some s, Some c, Some t) \<Rightarrow> Some \<lparr>le_step = s, le_current = c, le_total = t\<rparr>
         | _ \<Rightarrow> None)
    | _ \<Rightarrow> None)"

definition loops_of :: "json option \<Rightarrow> loop_entry list option" where
  "loops_of v = (case nullish v of
      None \<Rightarrow> Some []
    | Some (JArr es) \<Rightarrow> those (map loop_of_json es)
    | Some _ \<Rightarrow> None)"

definition stats_of :: "json option \<Rightarrow> WorkflowExecutionStats option option" where
  "stats_of v = (case nullish v of
      None \<Rightarrow> Some None
    | Some (JObj o1) \<Rightarrow> map_option Some (stats_of_object o1)
    | Some _ \<Rightarrow> None)"

text \<open>
  The checkpoint as \<^verbatim>\<open>runWorkflow\<close> takes it from the row: \<^verbatim>\<open>stepIndex\<close> and
  \<^verbatim>\<open>loopStack\<close> have defaults. \<open>None\<close> stands for a value that is not of the declared type.
\<close>

definition checkpoint_of_json :: "json \<Rightarrow> WorkflowCheckpoint option" where
  "checkpoint_of_json v = (case v of
      JObj o1 \<Rightarrow>
        (case (if nullish (jget o1 ''stepIndex'') = None then Some 0 else nat_member o1 ''stepIndex'',
               loops_of (jget o1 ''loopStack''), object_member o1 ''variables'', stats_of (jget o1 ''executionStats'')) of
           (Some step, Some loops, Some variables, Some stats) \<Rightarrow>
             Some \<lparr>wc_step = step, wc_loops = loops, wc_variables = variables,
               wc_hbe = odefault (object_member o1 ''hbeParams'') [], wc_stats = stats,
               wc_at = text_member o1 ''checkpointAt''\<rparr>
         | _ \<Rightarrow> None)
    | _ \<Rightarrow> None)"

subsection \<open>Reading what was written\<close>

lemma is_integer_simps [simp]: "is_integer (of_int i)" "is_integer (of_nat n)"
  by (simp_all add: is_integer_def)

lemma jget_pair: "jget [(k, v)] k' = (if k' = k then Some v else None)"
  by (simp add: jget_def)

lemma jget_Nil [simp]: "jget [] k = None"
  by (simp add: jget_def)

lemma jget_jwith: "jget (jwith o1 ms) k = (case map_of (rev ms) k of None \<Rightarrow> jget o1 k | Some v \<Rightarrow> v)"
  by (induction o1 ms rule: jwith.induct) (auto split: option.splits simp: map_add_def jget_pair)

lemma nat_member_jnat: "jget o1 k = Some (jnat n) \<Longrightarrow> nat_member o1 k = Some n"
  by (simp add: nat_member_def jnat_def)

lemma loop_of_loop_json [simp]: "loop_of_json (loop_json e) = Some e"
  by (simp add: loop_of_json_def loop_json_def nat_member_def int_member_def jnat_def jget_def)

lemma those_map_Some: "(\<And>x. x \<in> set xs \<Longrightarrow> f x = Some (g x)) \<Longrightarrow> those (map f xs) = Some (map g xs)"
  by (induction xs) auto

lemma stats_of_stats_json:
  "\<exists>o1. stats_json s = JObj o1 \<and> stats_of_object o1 = Some s"
  unfolding stats_json_def
  by (intro exI conjI, rule refl)
    (simp add: stats_of_object_def nat_member_def jnat_def jget_jwith string_member_def jostr_def
      split: option.split del: jwith.simps)

theorem checkpoint_json_roundtrip: "checkpoint_of_json (checkpoint_json c) = Some c"
proof -
  have stats: "stats_of (map_option stats_json (wc_stats c)) = Some (wc_stats c)"
    using stats_of_stats_json by (cases "wc_stats c") (auto simp: stats_of_def nullish_def stats_json_def)
  have loops: "loops_of (Some (JArr (map loop_json (wc_loops c)))) = Some (wc_loops c)"
    by (simp add: loops_of_def nullish_def comp_def those_map_Some [where g = id, simplified])
  show ?thesis
    by (simp add: checkpoint_json_def checkpoint_of_json_def jget_jwith jstr_def stats loops nat_member_def
        object_member_def jnat_def nullish_def text_member_def string_member_def del: jwith.simps)
qed

end
