(* ===== verification/UI_Tree.thy ===== *)
theory UI_Tree imports Prelude
begin

text \<open>
  UI trees as the devices report them (\<^verbatim>\<open>app-mapping/schema.ts\<close>), their text normalisation
  and their page signature (\<^verbatim>\<open>app-mapping/page-fingerprint.ts\<close>), under \<^verbatim>\<open>src/src/modules\<close>.
  Strings have the 256 code points of \<^typ>\<open>char\<close>; the digest is a parameter.
\<close>

section \<open>String functions of the source\<close>

text \<open>\<^verbatim>\<open>String.prototype.toLowerCase\<close> on Latin-1.\<close>

definition js_lower_char :: "char \<Rightarrow> char" where
  "js_lower_char c = (let n = of_char c :: nat in
     if (65 \<le> n \<and> n \<le> 90) \<or> (192 \<le> n \<and> n \<le> 222 \<and> n \<noteq> 215) then char_of (n + 32) else c)"

definition js_lower :: "string \<Rightarrow> string" where
  "js_lower s = map js_lower_char s"

text \<open>\<^verbatim>\<open>replace(/\s+/g, " ")\<close>.\<close>

fun collapse_spaces :: "bool \<Rightarrow> string \<Rightarrow> string" where
  "collapse_spaces after [] = []"
| "collapse_spaces after (c # cs) =
     (if js_space c then (if after then [] else [CHR '' '']) @ collapse_spaces True cs else c # collapse_spaces False cs)"

definition clean :: "string option \<Rightarrow> string" where
  "clean v = collapse_spaces False (js_lower (js_trim (odefault v [])))"

text \<open>\<^verbatim>\<open>split(sep).pop()\<close>: what follows the last separator.\<close>

definition after_last :: "char \<Rightarrow> string \<Rightarrow> string" where
  "after_last c s = rev (takeWhile (\<lambda>x. x \<noteq> c) (rev s))"

definition js_includes :: "string \<Rightarrow> string \<Rightarrow> bool" where
  "js_includes s p \<longleftrightarrow> list_ex (\<lambda>i. take (length p) (drop i s) = p) [0..<Suc (length s)]"

text \<open>\<^verbatim>\<open>a || b\<close> on optional strings: an empty one counts as absent.\<close>

definition or_string :: "string option \<Rightarrow> string option \<Rightarrow> string option" where
  "or_string a b = (case a of Some s \<Rightarrow> if s = [] then b else Some s | None \<Rightarrow> b)"

fun intercalate :: "string \<Rightarrow> string list \<Rightarrow> string" where
  "intercalate sep [] = []"
| "intercalate sep [x] = x"
| "intercalate sep (x # y # zs) = x @ sep @ intercalate sep (y # zs)"

section \<open>Nodes\<close>

record ui_bounds =
  ub_left :: rat
  ub_top :: rat
  ub_right :: rat
  ub_bottom :: rat

datatype UiTreeNode = UiTreeNode
  (un_package: "string option") (un_resource: "string option") (un_text: "string option")
  (un_description: "string option") (un_class: "string option") (un_bounds: "ui_bounds option")
  (un_clickable: "bool option") (un_visible: "bool option") (un_enabled: "bool option")
  (un_children: "UiTreeNode list")

lemma size_children [termination_simp]: "size_list size (un_children n) < Suc (size n + k)"
  by (cases n) simp

section \<open>Page signature\<close>

definition isGenericContainer :: "string \<Rightarrow> bool" where
  "isGenericContainer c \<longleftrightarrow> js_includes c ''FrameLayout'' \<or> js_includes c ''LinearLayout'' \<or> js_includes c ''RelativeLayout''
     \<or> js_includes c ''ConstraintLayout'' \<or> js_includes c ''ViewGroup'' \<or> c = ''android.view.View''"

definition simplifyClassName :: "string \<Rightarrow> string" where
  "simplifyClassName c = (let l = after_last (CHR ''.'') c in if l = [] then c else l)"

definition nodeSignature :: "UiTreeNode \<Rightarrow> string option" where
  "nodeSignature n =
     (let rid = odefault (map_option js_trim (un_resource n)) [];
          cls = odefault (map_option js_trim (un_class n)) []
      in if rid = [] \<and> (cls = [] \<or> isGenericContainer cls) then None
         else Some (rid @ '':'' @ simplifyClassName cls))"

text \<open>The signatures of the nodes down to depth two, in document order.\<close>

fun collectTopLevel :: "nat \<Rightarrow> UiTreeNode list \<Rightarrow> string list" where
  "collectTopLevel depth [] = []"
| "collectTopLevel depth (n # ns) =
     (case nodeSignature n of None \<Rightarrow> [] | Some s \<Rightarrow> [s])
     @ (if depth < 2 then collectTopLevel (depth + 1) (un_children n) else [])
     @ collectTopLevel depth ns"

definition computePageSignature :: "(string \<Rightarrow> string) \<Rightarrow> UiTreeNode list \<Rightarrow> string" where
  "computePageSignature sha256 tree = take 16 (sha256 (intercalate ''|'' (sort (collectTopLevel 0 tree))))"

section \<open>Anchors of a tree\<close>

definition token :: "string \<Rightarrow> string option \<Rightarrow> string option" where
  "token kind v = (let n = clean v in if n = [] then None else Some (kind @ '':'' @ n))"

definition node_anchors :: "UiTreeNode \<Rightarrow> string list" where
  "node_anchors n = concat (map (\<lambda>t. case t of None \<Rightarrow> [] | Some a \<Rightarrow> [a])
     [token ''resourceid'' (un_resource n), token ''contentdescription'' (un_description n), token ''text'' (un_text n),
      token ''class'' (map_option (after_last (CHR ''.'')) (un_class n)), token ''package'' (un_package n)])"

fun uiTreeAnchorSet :: "UiTreeNode list \<Rightarrow> string list" where
  "uiTreeAnchorSet [] = []"
| "uiTreeAnchorSet (n # ns) = node_anchors n @ uiTreeAnchorSet (un_children n) @ uiTreeAnchorSet ns"

end
