(* ===== verification/Workflow_Budget.thy ===== *)
theory Workflow_Budget imports Workflow_Checkpoint UI_Tree
begin

text \<open>
  The recovery policy of generated workflow templates and the recovery budget kept in the
  variables of the checkpoint (\<^verbatim>\<open>generatedWorkflowRuntimeRecoveryPolicy\<close>,
  \<^verbatim>\<open>recordGeneratedWorkflowRecoveryFailure\<close> and their helpers in
  \<^verbatim>\<open>src/src/modules/workflows/workflow.executor.ts\<close>). The attempts per step are numbers, as
  their declared type says.
\<close>

section \<open>Policy\<close>

record GeneratedWorkflowRuntimeRecoveryPolicy =
  gp_autonomy :: "string option"
  gp_ai_enabled :: bool
  gp_per_step :: int
  gp_per_workflow :: int
  gp_per_attempt :: int
  gp_allowed :: "json list"
  gp_verify_state :: bool
  gp_learn :: bool
  gp_instruction :: string
  gp_execute :: string
  gp_retry :: string
  gp_abort :: string
  gp_probe :: string
  gp_probe_timeout :: int
  gp_system :: string
  gp_max_tokens :: int
  gp_planner_timeout :: int

definition explicit_policy :: "WorkflowTemplate \<Rightarrow> jobj" where
  "explicit_policy t = odefault (tp_recovery t) []"

definition safe_integer_member :: "jobj \<Rightarrow> string \<Rightarrow> int option" where
  "safe_integer_member o1 k = (case jget o1 k of
      Some (JNum x) \<Rightarrow> if is_safe_integer x then Some \<lfloor>x\<rfloor> else None
    | _ \<Rightarrow> None)"

definition requiredString :: "bool \<Rightarrow> jobj \<Rightarrow> string \<Rightarrow> string res" where
  "requiredString enabled explicit k =
     (let normalized = js_trim (text_member explicit k)
      in if enabled \<and> normalized = [] then Inl (''AI recovery policy requires '' @ k) else Inr normalized)"

definition requiredPositiveInteger :: "bool \<Rightarrow> jobj \<Rightarrow> string \<Rightarrow> int res" where
  "requiredPositiveInteger enabled explicit k =
     (case safe_integer_member explicit k of
        None \<Rightarrow> if enabled then Inl (''AI recovery policy requires positive integer '' @ k) else Inr 0
      | Some n \<Rightarrow>
          if enabled \<and> n \<le> 0 then Inl (''AI recovery policy requires positive integer '' @ k) else Inr n)"

definition requiredNonnegativeInteger :: "jobj \<Rightarrow> string \<Rightarrow> int res" where
  "requiredNonnegativeInteger explicit k =
     (case safe_integer_member explicit k of
        Some n \<Rightarrow> if n < 0 then Inl (''PostgreSQL recovery policy requires nonnegative integer '' @ k) else Inr n
      | None \<Rightarrow> Inl (''PostgreSQL recovery policy requires nonnegative integer '' @ k))"

definition allowed_requests :: "WorkflowTemplate \<Rightarrow> json list" where
  "allowed_requests t =
     (case jget (explicit_policy t) ''allowedRecoveryRequests'' of
        Some (JArr (r # rs)) \<Rightarrow> r # rs
      | _ \<Rightarrow> map JStr (odefault (tp_allowed_requests t) []))"

definition generatedWorkflowRuntimeRecoveryPolicy :: "WorkflowTemplate \<Rightarrow> GeneratedWorkflowRuntimeRecoveryPolicy res" where
  "generatedWorkflowRuntimeRecoveryPolicy t =
     (let explicit = explicit_policy t;
          enabled = (boolean_field explicit ''aiRecoveryEnabled'' = Some True)
      in res_bind (requiredNonnegativeInteger explicit ''maxAttemptsPerStep'') (\<lambda>perStep.
         res_bind (requiredNonnegativeInteger explicit ''maxAttemptsPerWorkflow'') (\<lambda>perWorkflow.
         res_bind (requiredNonnegativeInteger explicit ''maxRecoveryActionsPerAttempt'') (\<lambda>perAttempt.
         res_bind (requiredString enabled explicit ''plannerInstruction'') (\<lambda>instruction.
         res_bind (requiredString enabled explicit ''executeDecisionKey'') (\<lambda>execute.
         res_bind (requiredString enabled explicit ''retryDecisionKey'') (\<lambda>retry.
         res_bind (requiredString enabled explicit ''abortDecisionKey'') (\<lambda>abort.
         res_bind (requiredString enabled explicit ''probeActionKey'') (\<lambda>probe.
         res_bind (requiredPositiveInteger enabled explicit ''probeTimeoutMs'') (\<lambda>probeTimeout.
         res_bind (requiredString enabled explicit ''plannerSystem'') (\<lambda>system.
         res_bind (requiredPositiveInteger enabled explicit ''plannerMaxTokens'') (\<lambda>maxTokens.
         res_bind (requiredPositiveInteger enabled explicit ''plannerTimeoutMs'') (\<lambda>plannerTimeout.
         Inr \<lparr>gp_autonomy = string_member explicit ''autonomy'', gp_ai_enabled = enabled, gp_per_step = perStep,
           gp_per_workflow = perWorkflow, gp_per_attempt = perAttempt, gp_allowed = allowed_requests t,
           gp_verify_state = (boolean_field explicit ''requireStateVerification'' = Some True),
           gp_learn = (boolean_field explicit ''learnFromFailure'' = Some True), gp_instruction = instruction,
           gp_execute = execute, gp_retry = retry, gp_abort = abort, gp_probe = probe,
           gp_probe_timeout = probeTimeout, gp_system = system, gp_max_tokens = maxTokens,
           gp_planner_timeout = plannerTimeout\<rparr>)))))))))))))"

definition truthy_text :: "string option \<Rightarrow> bool" where
  "truthy_text s \<longleftrightarrow> s \<noteq> None \<and> s \<noteq> Some []"

definition isGeneratedWorkflowTemplate :: "WorkflowTemplate \<Rightarrow> bool" where
  "isGeneratedWorkflowTemplate t \<longleftrightarrow>
     truthy_text (tp_intent t) \<or> truthy_text (tp_safety_class t)
   \<or> nullish (tp_output_schema t) \<noteq> None \<or> tp_allowed_requests t \<noteq> None"

definition generatedWorkflowPlatform :: "WorkflowTemplate \<Rightarrow> string" where
  "generatedWorkflowPlatform t =
     (let platform = js_trim (js_lower (tp_platform t))
      in if platform \<noteq> [] \<and> platform \<noteq> ''*'' then platform else ''unknown'')"

definition recoveryReasonFromError :: "string \<Rightarrow> string" where
  "recoveryReasonFromError message =
     (if js_includes message ''Screen mismatch'' then ''screen_mismatch''
      else if js_includes message ''Cascade tap failed'' then ''cascade_failed''
      else if js_includes message ''JOB_RESULT timeout'' then ''job_timeout''
      else if js_includes message ''failed'' then ''action_failed''
      else ''deterministic_failure'')"

section \<open>Budget\<close>

definition attempts_key :: string where "attempts_key = ''_generatedWorkflowRecoveryAttemptsByStep''"
definition total_key :: string where "total_key = ''_generatedWorkflowRecoveryTotalAttempts''"
definition events_key :: string where "events_key = ''_generatedWorkflowRecoveryEvents''"

definition RECOVERY_BUDGET_EXCEEDED :: string where
  "RECOVERY_BUDGET_EXCEEDED = ''RECOVERY_BUDGET_EXCEEDED''"

definition generatedWorkflowRecoveryAttemptsByStep :: "WorkflowCheckpoint \<Rightarrow> jobj" where
  "generatedWorkflowRecoveryAttemptsByStep c = odefault (object_member (wc_variables c) attempts_key) []"

definition step_attempts :: "WorkflowCheckpoint \<Rightarrow> nat \<Rightarrow> rat" where
  "step_attempts c i =
     odefault (number_member (generatedWorkflowRecoveryAttemptsByStep c) (show_nat i)) 0"

definition generatedWorkflowRecoveryTotalAttempts :: "WorkflowCheckpoint \<Rightarrow> rat" where
  "generatedWorkflowRecoveryTotalAttempts c =
     (case number_member (wc_variables c) total_key of Some n \<Rightarrow> if 0 \<le> n then n else 0 | None \<Rightarrow> 0)"

definition recovery_event :: "string \<Rightarrow> WorkflowTemplate \<Rightarrow> nat \<Rightarrow> string \<Rightarrow> GeneratedWorkflowRuntimeRecoveryPolicy
    \<Rightarrow> rat \<Rightarrow> rat \<Rightarrow> json" where
  "recovery_event stamp t i err p stepAttempt workflowAttempt = JObj
     [(''at'', JStr stamp), (''platform'', JStr (generatedWorkflowPlatform t)),
      (''safetyClass'', jnullable (tp_safety_class t)), (''autonomy'', jnullable (gp_autonomy p)),
      (''stepIndex'', jnat i), (''reason'', JStr (recoveryReasonFromError err)), (''error'', JStr err),
      (''stepAttempt'', JNum stepAttempt), (''workflowAttempt'', JNum workflowAttempt),
      (''maxAttemptsPerStep'', JNum (of_int (gp_per_step p))),
      (''maxAttemptsPerWorkflow'', JNum (of_int (gp_per_workflow p))),
      (''maxRecoveryActionsPerAttempt'', JNum (of_int (gp_per_attempt p))),
      (''allowedRecoveryRequests'', JArr (gp_allowed p)),
      (''requireStateVerification'', JBool (gp_verify_state p))]"

definition last_items :: "nat \<Rightarrow> 'a list \<Rightarrow> 'a list" where
  "last_items n xs = drop (length xs - n) xs"

definition array_member :: "jobj \<Rightarrow> string \<Rightarrow> json list" where
  "array_member o1 k = (case jget o1 k of Some (JArr vs) \<Rightarrow> vs | _ \<Rightarrow> [])"

definition recordGeneratedWorkflowRecoveryEvent :: "string \<Rightarrow> WorkflowTemplate \<Rightarrow> nat \<Rightarrow> string
    \<Rightarrow> GeneratedWorkflowRuntimeRecoveryPolicy \<Rightarrow> rat \<Rightarrow> rat \<Rightarrow> WorkflowCheckpoint \<Rightarrow> WorkflowCheckpoint" where
  "recordGeneratedWorkflowRecoveryEvent stamp t i err p stepAttempt workflowAttempt c =
     (if gp_learn p
      then set_variable events_key (JArr (last_items 20
             (array_member (wc_variables c) events_key @ [recovery_event stamp t i err p stepAttempt workflowAttempt]))) c
      else c)"

text \<open>The answer is the budget error, if any; the policy itself may throw.\<close>

definition recordGeneratedWorkflowRecoveryFailure :: "string \<Rightarrow> WorkflowTemplate \<Rightarrow> nat \<Rightarrow> string \<Rightarrow> WorkflowCheckpoint
    \<Rightarrow> (string option \<times> WorkflowCheckpoint) res" where
  "recordGeneratedWorkflowRecoveryFailure stamp t i err c =
     (if \<not> isGeneratedWorkflowTemplate t then Inr (None, c)
      else res_bind (generatedWorkflowRuntimeRecoveryPolicy t) (\<lambda>p.
        let c1 = with_stats id c;
            attempts = generatedWorkflowRecoveryAttemptsByStep c1;
            c2 = set_variable attempts_key (JObj attempts) c1;
            prior = step_attempts c1 i;
            priorTotal = generatedWorkflowRecoveryTotalAttempts c1
        in if of_int (gp_per_step p) \<le> prior \<or> of_int (gp_per_workflow p) \<le> priorTotal
           then Inr (Some RECOVERY_BUDGET_EXCEEDED,
             with_stats (\<lambda>s. s\<lparr>es_budget_exhausted := Suc (es_budget_exhausted s)\<rparr>) c2)
           else (let c3 = set_variable attempts_key (JObj (jset attempts (show_nat i) (JNum (prior + 1)))) c2;
                     c4 = set_variable total_key (JNum (priorTotal + 1)) c3;
                     c5 = with_stats (\<lambda>s. s\<lparr>es_recovery_attempts := Suc (es_recovery_attempts s)\<rparr>) c4
                 in Inr (None, recordGeneratedWorkflowRecoveryEvent stamp t i err p (prior + 1) (priorTotal + 1) c5))))"

section \<open>Bounds\<close>

text \<open>The budget of a policy is respected by a checkpoint.\<close>

definition within_budget :: "GeneratedWorkflowRuntimeRecoveryPolicy \<Rightarrow> WorkflowCheckpoint \<Rightarrow> bool" where
  "within_budget p c \<longleftrightarrow>
     is_integer (generatedWorkflowRecoveryTotalAttempts c)
   \<and> generatedWorkflowRecoveryTotalAttempts c \<le> of_int (gp_per_workflow p)
   \<and> (\<forall>i. is_integer (step_attempts c i) \<and> step_attempts c i \<le> of_int (gp_per_step p))"

lemma member_jset [simp]:
  "number_member (jset o1 k v) k' = (if k' = k then (case v of JNum n \<Rightarrow> Some n | _ \<Rightarrow> None) else number_member o1 k')"
  "object_member (jset o1 k v) k' = (if k' = k then (case v of JObj w \<Rightarrow> Some w | _ \<Rightarrow> None) else object_member o1 k')"
  by (auto simp: number_member_def object_member_def split: json.splits)

lemma budget_keys [simp]:
  "attempts_key \<noteq> total_key" "total_key \<noteq> attempts_key" "events_key \<noteq> total_key" "total_key \<noteq> events_key"
  "events_key \<noteq> attempts_key" "attempts_key \<noteq> events_key"
  by (simp_all add: attempts_key_def total_key_def events_key_def)

lemma counters_with_stats [simp]:
  "wc_variables (with_stats f c) = wc_variables c"
  "generatedWorkflowRecoveryAttemptsByStep (with_stats f c) = generatedWorkflowRecoveryAttemptsByStep c"
  "step_attempts (with_stats f c) = step_attempts c"
  "generatedWorkflowRecoveryTotalAttempts (with_stats f c) = generatedWorkflowRecoveryTotalAttempts c"
  by (simp_all add: with_stats_def generatedWorkflowRecoveryAttemptsByStep_def step_attempts_def
      generatedWorkflowRecoveryTotalAttempts_def fun_eq_iff)

lemma counters_set_variable:
  "k \<noteq> attempts_key \<Longrightarrow> step_attempts (set_variable k v c) = step_attempts c"
  "k \<noteq> total_key \<Longrightarrow> generatedWorkflowRecoveryTotalAttempts (set_variable k v c) = generatedWorkflowRecoveryTotalAttempts c"
  by (simp_all add: set_variable_def generatedWorkflowRecoveryAttemptsByStep_def step_attempts_def
      generatedWorkflowRecoveryTotalAttempts_def fun_eq_iff)

lemma step_attempts_set:
  "step_attempts (set_variable attempts_key (JObj o1) c) j = odefault (number_member o1 (show_nat j)) 0"
  by (simp add: set_variable_def generatedWorkflowRecoveryAttemptsByStep_def step_attempts_def)

lemma total_set:
  "0 \<le> n \<Longrightarrow> generatedWorkflowRecoveryTotalAttempts (set_variable total_key (JNum n) c) = n"
  by (simp add: set_variable_def generatedWorkflowRecoveryTotalAttempts_def)

lemma counters_event [simp]:
  "step_attempts (recordGeneratedWorkflowRecoveryEvent stamp t i err p a b c) = step_attempts c"
  "generatedWorkflowRecoveryTotalAttempts (recordGeneratedWorkflowRecoveryEvent stamp t i err p a b c)
     = generatedWorkflowRecoveryTotalAttempts c"
  by (simp_all add: recordGeneratedWorkflowRecoveryEvent_def counters_set_variable)

lemma total_nonneg: "0 \<le> generatedWorkflowRecoveryTotalAttempts c"
  by (simp add: generatedWorkflowRecoveryTotalAttempts_def split: option.split)

text \<open>Decimal digits determine the number.\<close>

definition digits_number :: "string \<Rightarrow> nat" where
  "digits_number s = foldl (\<lambda>a c. a * 10 + (of_char c - 48)) 0 s"

lemma digits_number_show [simp]: "digits_number (show_nat n) = n"
proof (induction n rule: show_nat.induct)
  case (1 n)
  show ?case
  proof (cases "n < 10")
    case True
    then have "(of_char (char_of (n + 48) :: char) :: nat) = n + 48"
      by (simp add: of_char_of)
    then show ?thesis using True by (subst show_nat.simps) (simp add: digits_number_def)
  next
    case False
    have "(of_char (char_of (n mod 10 + 48) :: char) :: nat) = n mod 10 + 48"
      by (simp add: of_char_of)
    then show ?thesis using 1 False by (subst show_nat.simps) (simp add: digits_number_def)
  qed
qed

lemma show_nat_inj [simp]: "show_nat m = show_nat n \<longleftrightarrow> m = n"
  by (metis digits_number_show)

lemma integer_below:
  fixes x :: rat
  assumes "is_integer x" "\<not> of_int m \<le> x"
  shows "x + 1 \<le> of_int m" "is_integer (x + 1)"
proof -
  obtain k where k: "x = of_int k" using assms(1) unfolding is_integer_def by metis
  then show "x + 1 \<le> of_int m" using assms(2) by (simp flip: of_int_add add: add1_zle_eq)
  show "is_integer (x + 1)" unfolding k by (metis is_integer_simps(1) of_int_1 of_int_add)
qed

text \<open>
  C20. A failure of a generated workflow is either charged to the budget, which then still
  respects the policy, or refused with the budget error when the step or the workflow has
  used its attempts; nothing else changes the counters.
\<close>

theorem recovery_budget_respected:
  assumes generated: "isGeneratedWorkflowTemplate t"
    and policy: "generatedWorkflowRuntimeRecoveryPolicy t = Inr p"
    and budget: "within_budget p c"
  shows "case recordGeneratedWorkflowRecoveryFailure stamp t i err c of
      Inl e \<Rightarrow> False
    | Inr (None, c') \<Rightarrow>
        step_attempts c i < of_int (gp_per_step p)
      \<and> generatedWorkflowRecoveryTotalAttempts c < of_int (gp_per_workflow p)
      \<and> step_attempts c' i = step_attempts c i + 1
      \<and> (\<forall>j. j \<noteq> i \<longrightarrow> step_attempts c' j = step_attempts c j)
      \<and> generatedWorkflowRecoveryTotalAttempts c' = generatedWorkflowRecoveryTotalAttempts c + 1
      \<and> within_budget p c'
    | Inr (Some e, c') \<Rightarrow>
        e = RECOVERY_BUDGET_EXCEEDED
      \<and> (of_int (gp_per_step p) \<le> step_attempts c i
          \<or> of_int (gp_per_workflow p) \<le> generatedWorkflowRecoveryTotalAttempts c)
      \<and> step_attempts c' = step_attempts c
      \<and> generatedWorkflowRecoveryTotalAttempts c' = generatedWorkflowRecoveryTotalAttempts c"
proof -
  let ?attempts = "generatedWorkflowRecoveryAttemptsByStep c"
  have step: "odefault (number_member ?attempts (show_nat j)) 0 = step_attempts c j" for j
    by (simp add: step_attempts_def)
  have same: "step_attempts (set_variable attempts_key (JObj ?attempts) c1) = step_attempts c" for c1
    by (simp add: step_attempts_set fun_eq_iff step)
  have charged: "step_attempts (set_variable attempts_key (JObj (jset ?attempts (show_nat i) (JNum n))) c1) j
      = (if j = i then n else step_attempts c j)" for n c1 j
    by (simp add: step_attempts_set step)
  show ?thesis
  proof (cases "of_int (gp_per_step p) \<le> step_attempts c i
      \<or> of_int (gp_per_workflow p) \<le> generatedWorkflowRecoveryTotalAttempts c")
    case True
    then show ?thesis
      by (simp add: recordGeneratedWorkflowRecoveryFailure_def generated policy Let_def same counters_set_variable)
  next
    case False
    then have "\<not> of_int (gp_per_step p) \<le> step_attempts c i"
      "\<not> of_int (gp_per_workflow p) \<le> generatedWorkflowRecoveryTotalAttempts c" by auto
    then show ?thesis
      using budget total_nonneg[of c]
      by (auto simp: recordGeneratedWorkflowRecoveryFailure_def generated policy Let_def counters_set_variable
          charged total_set within_budget_def integer_below)
  qed
qed

end
