(* ===== verification/Workflow_World.thy ===== *)
theory Workflow_World imports Workflow_Budget Arbiter_Workflow
begin

text \<open>
  What the server workflow executor
  (\<^verbatim>\<open>src/src/modules/workflows/workflow.executor.ts\<close>) runs on: computations that read
  and write the tables and the checkpoint of the run and may throw, the world that answers
  them, and the operations of \<^verbatim>\<open>workflow.service.ts\<close> the executor calls. The world is
  indexed by the number of questions asked so far, so every answer may differ from the
  one before; \<open>ww_others\<close> is what the other sessions have committed since the previous
  access. The dispatcher, the transport, the planner and the template validator are
  arbitrary functions of the world.
\<close>

section \<open>The world\<close>

record child_request =
  cq_device :: string
  cq_type :: string
  cq_params :: jobj
  cq_timeout :: int
  cq_confirm_root :: bool
  cq_workflow :: string
  cq_step :: nat
  cq_verification :: "string option"

text \<open>\<open>dc_native\<close> holds the native engine fields, which are forwarded unread.\<close>

record dispatched_child =
  dc_job :: string
  dc_timeout :: int
  dc_policy :: jobj
  dc_params :: jobj
  dc_native :: json

record child_payload =
  pl_job :: string
  pl_type :: string
  pl_native :: json
  pl_params :: jobj
  pl_timeout :: int

record send_result =
  sr_decision :: string
  sr_sent :: bool
  sr_queued :: bool
  sr_reason :: "string option"

record recovery_prompt =
  pm_template :: string
  pm_platform :: string
  pm_safety :: json
  pm_intent :: json
  pm_step :: ExecutableStep
  pm_index :: nat
  pm_failure :: string
  pm_ui :: string
  pm_policy :: GeneratedWorkflowRuntimeRecoveryPolicy

record planner_reply =
  pr_decision :: "json option"
  pr_rationale :: "json option"
  pr_expected :: "json option"
  pr_steps :: "ExecutableStep list option"

record workflow_world =
  ww_others :: "nat \<Rightarrow> arb_db \<Rightarrow> arb_db"
  ww_db_error :: "nat \<Rightarrow> string option"
  ww_now :: "nat \<Rightarrow> timestamp"
  ww_iso :: "timestamp \<Rightarrow> string"
  ww_new_id :: "nat \<Rightarrow> string"
  ww_online :: "nat \<Rightarrow> bool"
  ww_random :: "nat \<Rightarrow> rat"
  ww_gauss :: "nat \<Rightarrow> rat"
  ww_log_normal :: "nat \<Rightarrow> rat \<Rightarrow> rat"
  ww_dispatch :: "nat \<Rightarrow> child_request \<Rightarrow> dispatched_child res"
  ww_send :: "nat \<Rightarrow> child_payload \<Rightarrow> send_result res"
  ww_result :: "nat \<Rightarrow> string \<Rightarrow> JobStepResult option"
  ww_planner :: "nat \<Rightarrow> recovery_prompt \<Rightarrow> planner_reply option res"
  ww_validate :: "WorkflowTemplate \<Rightarrow> string list"
  ww_stringify :: "json \<Rightarrow> string"
  ww_sha256 :: "string \<Rightarrow> string"
  ww_template_of :: "string \<Rightarrow> string option"
  ww_template :: "nat \<Rightarrow> string \<Rightarrow> WorkflowTemplate option res"
  ww_hydrate :: "nat \<Rightarrow> WorkflowTemplate \<Rightarrow> WorkflowTemplate res"
  ww_enforced :: bool
  ww_job_result_timeout :: int

section \<open>Computations\<close>

text \<open>
  The effects a run leaves outside the tables, in order, together with the outcome of every
  checkpoint write.
\<close>

datatype workflow_effect =
    CommandLogged string string
  | JobEvent string string nat
  | ResultAccepted string nat string bool
  | Slept rat
  | Planned nat
  | CheckpointSaved nat nat bool

record exec_state =
  xs_db :: arb_db
  xs_checkpoint :: WorkflowCheckpoint
  xs_tick :: nat
  xs_log :: "workflow_effect list"

type_synonym 'a ex = "exec_state \<Rightarrow> 'a res \<times> exec_state"

definition ex_return :: "'a \<Rightarrow> 'a ex" where
  "ex_return x = (\<lambda>s. (Inr x, s))"

definition ex_throw :: "string \<Rightarrow> 'a ex" where
  "ex_throw e = (\<lambda>s. (Inl e, s))"

definition ex_bind :: "'a ex \<Rightarrow> ('a \<Rightarrow> 'b ex) \<Rightarrow> 'b ex" where
  "ex_bind m f = (\<lambda>s. case m s of (Inl e, s') \<Rightarrow> (Inl e, s') | (Inr x, s') \<Rightarrow> f x s')"

text \<open>\<open>try { m } catch (e) { h }\<close>: what the failed part did to the state remains.\<close>

definition ex_catch :: "'a ex \<Rightarrow> (string \<Rightarrow> 'a ex) \<Rightarrow> 'a ex" where
  "ex_catch m h = (\<lambda>s. case m s of (Inl e, s') \<Rightarrow> h e s' | (Inr x, s') \<Rightarrow> (Inr x, s'))"

definition ex_then :: "unit ex \<Rightarrow> 'a ex \<Rightarrow> 'a ex" where
  "ex_then m k = ex_bind m (\<lambda>_. k)"

definition ex_lift :: "'a res \<Rightarrow> 'a ex" where
  "ex_lift r = (\<lambda>s. (r, s))"

definition ex_when :: "bool \<Rightarrow> unit ex \<Rightarrow> unit ex" where
  "ex_when b m = (if b then m else ex_return ())"

definition ex_log :: "workflow_effect \<Rightarrow> unit ex" where
  "ex_log e = (\<lambda>s. (Inr (), s\<lparr>xs_log := xs_log s @ [e]\<rparr>))"

definition ex_checkpoint :: "WorkflowCheckpoint ex" where
  "ex_checkpoint = (\<lambda>s. (Inr (xs_checkpoint s), s))"

definition ex_modify :: "(WorkflowCheckpoint \<Rightarrow> WorkflowCheckpoint) \<Rightarrow> unit ex" where
  "ex_modify f = (\<lambda>s. (Inr (), s\<lparr>xs_checkpoint := f (xs_checkpoint s)\<rparr>))"

definition ex_ask :: "(nat \<Rightarrow> 'a) \<Rightarrow> 'a ex" where
  "ex_ask f = (\<lambda>s. (Inr (f (xs_tick s)), s\<lparr>xs_tick := Suc (xs_tick s)\<rparr>))"

text \<open>A question whose answer may be an exception.\<close>

definition ex_try :: "(nat \<Rightarrow> 'a res) \<Rightarrow> 'a ex" where
  "ex_try f = ex_bind (ex_ask f) ex_lift"

text \<open>
  An access to the tables: the other sessions first, then either the driver throws or times
  out, or the statements run.
\<close>

definition ex_db :: "workflow_world \<Rightarrow> (timestamp \<Rightarrow> arb_db \<Rightarrow> 'a res \<times> arb_db) \<Rightarrow> 'a ex" where
  "ex_db w f = (\<lambda>s.
     let n = xs_tick s; db = ww_others w n (xs_db s); s1 = s\<lparr>xs_tick := Suc n, xs_db := db\<rparr>
     in case ww_db_error w n of
          Some e \<Rightarrow> (Inl e, s1)
        | None \<Rightarrow> (case f (ww_now w n) db of (r, db') \<Rightarrow> (r, s1\<lparr>xs_db := db'\<rparr>)))"

definition ex_stamp :: "workflow_world \<Rightarrow> string ex" where
  "ex_stamp w = ex_ask (\<lambda>n. ww_iso w (ww_now w n))"

section \<open>The workflow service\<close>

text \<open>\<^verbatim>\<open>get\<close>: the row joined with the definition of its status.\<close>

definition workflow_get :: "string \<Rightarrow> arb_db \<Rightarrow> (workflow_row \<times> lc_state_row) option" where
  "workflow_get i db =
     (case find (\<lambda>r. wf_id r = i) (ad_workflows db) of
        None \<Rightarrow> None
      | Some r \<Rightarrow> map_option (Pair r)
          (find (\<lambda>s. ls_key s = wf_key r \<and> ls_status s = wf_status r) (db_states (ad_lc db))))"

definition service_get :: "workflow_world \<Rightarrow> string \<Rightarrow> (workflow_row \<times> lc_state_row) option ex" where
  "service_get w i = ex_db w (\<lambda>_ db. (Inr (workflow_get i db), db))"

definition service_transition :: "workflow_world \<Rightarrow> string \<Rightarrow> LifecycleTransitionSelector \<Rightarrow> WorkflowLifecyclePatch
    \<Rightarrow> (workflow_row \<Rightarrow> bool) \<Rightarrow> bool ex" where
  "service_transition w i sel p extra = ex_db w (\<lambda>now db.
     case transitionWorkflowWhere (ad_lc db) now i sel p extra (ad_workflows db) of
       (r, ws) \<Rightarrow> (Inr (r \<noteq> None), db\<lparr>ad_workflows := ws\<rparr>))"

definition running_selector :: LifecycleTransitionSelector where
  "running_selector = any_selector\<lparr>targetTerminal := Some False, targetAdministrative := Some False,
     targetDispatchable := Some False, transitionMarkStarted := Some True, transitionMarkCompleted := Some False\<rparr>"

definition completed_selector :: LifecycleTransitionSelector where
  "completed_selector = any_selector\<lparr>targetTerminal := Some True, targetRetryable := Some False,
     targetAdministrative := Some False, transitionMarkCompleted := Some True, transitionClearFailure := Some True\<rparr>"

definition failed_selector :: LifecycleTransitionSelector where
  "failed_selector = any_selector\<lparr>targetTerminal := Some True, targetRetryable := Some True,
     targetAdministrative := Some False, transitionMarkCompleted := Some True, transitionClearFailure := Some False\<rparr>"

definition paused_selector :: LifecycleTransitionSelector where
  "paused_selector = any_selector\<lparr>targetTerminal := Some False, targetAdministrative := Some True,
     transitionManualAllowed := Some True\<rparr>"

text \<open>\<^verbatim>\<open>saveCheckpoint\<close> swallows exceptions; its guard is the expected step.\<close>

definition saveCheckpoint :: "workflow_world \<Rightarrow> string \<Rightarrow> WorkflowCheckpoint \<Rightarrow> nat \<Rightarrow> nat \<Rightarrow> bool ex" where
  "saveCheckpoint w i c newStep expectedStep =
     ex_bind (ex_catch
        (service_transition w i running_selector
           (no_workflow_patch\<lparr>wp_checkpoint := Some (checkpoint_json c), wp_current_step := Some (int newStep)\<rparr>)
           (\<lambda>r. wf_current_step r = Some (int expectedStep)))
        (\<lambda>_. ex_return False)) (\<lambda>ok.
     ex_then (ex_log (CheckpointSaved newStep expectedStep ok)) (ex_return ok))"

definition markRunning :: "workflow_world \<Rightarrow> string \<Rightarrow> bool ex" where
  "markRunning w i = service_transition w i running_selector no_workflow_patch (\<lambda>_. True)"

definition markCompleted :: "workflow_world \<Rightarrow> string \<Rightarrow> unit ex" where
  "markCompleted w i =
     ex_bind (service_transition w i completed_selector no_workflow_patch (\<lambda>_. True)) (\<lambda>_. ex_return ())"

definition markFailed :: "workflow_world \<Rightarrow> string \<Rightarrow> string \<Rightarrow> unit ex" where
  "markFailed w i err =
     ex_bind (service_transition w i failed_selector (no_workflow_patch\<lparr>wp_error := Some (Some err)\<rparr>) (\<lambda>_. True))
       (\<lambda>_. ex_return ())"

definition markPaused :: "workflow_world \<Rightarrow> string \<Rightarrow> unit ex" where
  "markPaused w i =
     ex_bind (service_transition w i paused_selector no_workflow_patch (\<lambda>_. True)) (\<lambda>_. ex_return ())"

section \<open>Triples\<close>

text \<open>
  \<open>ex_sat P m Q R\<close>: from states of \<open>P\<close> the computation \<open>m\<close> returns in \<open>Q\<close> or throws in \<open>R\<close>.
\<close>

definition ex_sat :: "(exec_state \<Rightarrow> bool) \<Rightarrow> 'a ex \<Rightarrow> ('a \<Rightarrow> exec_state \<Rightarrow> bool) \<Rightarrow> (string \<Rightarrow> exec_state \<Rightarrow> bool) \<Rightarrow> bool" where
  "ex_sat P m Q R \<longleftrightarrow> (\<forall>s. P s \<longrightarrow> (case m s of (Inl e, s') \<Rightarrow> R e s' | (Inr x, s') \<Rightarrow> Q x s'))"

named_theorems ex_rules "rules for computations of the executor"

lemma ex_satI:
  "(\<And>s e s'. P s \<Longrightarrow> m s = (Inl e, s') \<Longrightarrow> R e s') \<Longrightarrow> (\<And>s x s'. P s \<Longrightarrow> m s = (Inr x, s') \<Longrightarrow> Q x s') \<Longrightarrow>
     ex_sat P m Q R"
  by (auto simp: ex_sat_def split: prod.splits sum.splits)

lemma ex_satD_Inr: "ex_sat P m Q R \<Longrightarrow> P s \<Longrightarrow> m s = (Inr x, s') \<Longrightarrow> Q x s'"
  by (auto simp: ex_sat_def dest!: spec[of _ s])

lemma ex_satD_Inl: "ex_sat P m Q R \<Longrightarrow> P s \<Longrightarrow> m s = (Inl e, s') \<Longrightarrow> R e s'"
  by (auto simp: ex_sat_def dest!: spec[of _ s])

lemma ex_sat_weaken:
  "ex_sat P m Q R \<Longrightarrow> (\<And>s. P' s \<Longrightarrow> P s) \<Longrightarrow> (\<And>x s. Q x s \<Longrightarrow> Q' x s) \<Longrightarrow> (\<And>e s. R e s \<Longrightarrow> R' e s) \<Longrightarrow>
     ex_sat P' m Q' R'"
  by (fastforce simp: ex_sat_def split: prod.splits sum.splits)

lemma ex_sat_bind:
  "ex_sat P m Q' R \<Longrightarrow> (\<And>x. ex_sat (Q' x) (f x) Q R) \<Longrightarrow> ex_sat P (ex_bind m f) Q R"
  unfolding ex_sat_def ex_bind_def by (fastforce split: prod.splits sum.splits)

lemma ex_sat_then:
  "ex_sat P m (\<lambda>_. Q') R \<Longrightarrow> ex_sat Q' k Q R \<Longrightarrow> ex_sat P (ex_then m k) Q R"
  unfolding ex_then_def by (rule ex_sat_bind)

lemma ex_sat_catch:
  "ex_sat P m Q R' \<Longrightarrow> (\<And>e. ex_sat (R' e) (h e) Q R) \<Longrightarrow> ex_sat P (ex_catch m h) Q R"
  unfolding ex_sat_def ex_catch_def by (fastforce split: prod.splits sum.splits)

lemma ex_sat_return: "(\<And>s. P s \<Longrightarrow> Q x s) \<Longrightarrow> ex_sat P (ex_return x) Q R"
  by (simp add: ex_sat_def ex_return_def)

lemma ex_sat_throw: "(\<And>s. P s \<Longrightarrow> R e s) \<Longrightarrow> ex_sat P (ex_throw e) Q R"
  by (simp add: ex_sat_def ex_throw_def)

lemma ex_sat_lift:
  "(\<And>s x. P s \<Longrightarrow> r = Inr x \<Longrightarrow> Q x s) \<Longrightarrow> (\<And>s e. P s \<Longrightarrow> r = Inl e \<Longrightarrow> R e s) \<Longrightarrow> ex_sat P (ex_lift r) Q R"
  by (simp add: ex_sat_def ex_lift_def split: sum.splits)

end
