(* ===== verification/Workflow_Executor.thy ===== *)
theory Workflow_Executor imports Workflow_World
begin

text \<open>
  The server workflow executor (\<^verbatim>\<open>src/src/modules/workflows/workflow.executor.ts\<close>): one
  action with its retries, the other steps, the traversal of nested and of top-level
  steps with checkpoints and recovery, the run of a workflow as one attempt of the queue,
  and the handler of failed attempts. Console output, metrics and the extension of the
  queue lock are not modelled.
\<close>

record run_context =
  rx_workflow :: string
  rx_device :: string
  rx_template :: WorkflowTemplate

section \<open>Waits, loops and conditions\<close>

definition show_int :: "int \<Rightarrow> string" where
  "show_int i = (if i < 0 then ''-'' @ show_nat (nat (- i)) else show_nat (nat i))"

definition show_opcode :: "int option \<Rightarrow> string" where
  "show_opcode v = (case v of None \<Rightarrow> ''undefined'' | Some i \<Rightarrow> show_int i)"

definition clamp :: "rat \<Rightarrow> rat \<Rightarrow> rat \<Rightarrow> rat" where
  "clamp v lo hi = max lo (min hi v)"

definition uniform :: "workflow_world \<Rightarrow> rat \<Rightarrow> rat \<Rightarrow> rat ex" where
  "uniform w lo hi = ex_ask (\<lambda>n. lo + ww_random w n * (hi - lo))"

definition normal :: "workflow_world \<Rightarrow> rat \<Rightarrow> rat \<Rightarrow> rat ex" where
  "normal w mean sigma = ex_ask (\<lambda>n. mean + sigma * ww_gauss w n)"

definition resolveWaitDuration :: "workflow_world \<Rightarrow> FixedDurationSpec option \<Rightarrow> rat ex" where
  "resolveWaitDuration w duration =
     (case duration of
        None \<Rightarrow> ex_return 0
      | Some d \<Rightarrow>
          (let lo = fd_min d; hi = fd_max d; baseMean = odefault (fd_mean d) ((lo + hi) / 2)
           in if fd_opcode d = Some 0 then uniform w lo hi
              else if fd_opcode d = Some 1 then ex_ask (\<lambda>n. clamp (ww_log_normal w n baseMean) lo hi)
              else if fd_opcode d = Some 2 then
                ex_bind (normal w baseMean ((hi - lo) / 6)) (\<lambda>v. ex_return (clamp v lo hi))
              else ex_throw (''Unknown PostgreSQL distribution opcode: '' @ show_opcode (fd_opcode d))))"

text \<open>\<^verbatim>\<open>Math.round\<close>.\<close>

definition js_round :: "rat \<Rightarrow> int" where
  "js_round x = \<lfloor>x + 1 / 2\<rfloor>"

definition resolveLoopCount :: "workflow_world \<Rightarrow> LoopCountSpec \<Rightarrow> int ex" where
  "resolveLoopCount w l =
     (let lo = lo_min l; hi = lo_max l
      in if lo_opcode l = Some 0 then ex_bind (uniform w lo hi) (\<lambda>v. ex_return (js_round v))
         else if lo_opcode l = Some 2 then
           ex_bind (normal w ((lo + hi) / 2) ((hi - lo) / 6)) (\<lambda>v. ex_return (js_round (clamp v lo hi)))
         else ex_throw (''Unknown PostgreSQL loop distribution opcode: '' @ show_opcode (lo_opcode l)))"

definition evaluateCondition :: "workflow_world \<Rightarrow> condition_fields \<Rightarrow> bool ex" where
  "evaluateCondition w c =
     (if cs_opcode c = Some 0 then
        (case cs_probability c of
           None \<Rightarrow> ex_throw ''PostgreSQL-hydrated probability is missing''
         | Some p \<Rightarrow> ex_ask (\<lambda>n. ww_random w n < p))
      else if cs_opcode c = Some 1 then
        (case cs_expression c of
           None \<Rightarrow> ex_throw ''PostgreSQL condition opcode requires an expression''
         | Some e \<Rightarrow>
             if js_trim e = [] then ex_throw ''PostgreSQL condition opcode requires an expression''
             else ex_bind ex_checkpoint (\<lambda>c1. ex_return (evaluateWorkflowExpression (wc_variables c1) e)))
      else ex_throw (''Unknown PostgreSQL condition opcode: '' @ show_opcode (cs_opcode c)))"

definition sleep :: "rat \<Rightarrow> unit ex" where
  "sleep ms = ex_log (Slept ms)"

section \<open>Results\<close>

definition LEGACY_GENERATED_WORKFLOW_RESULT_GRACE_MS :: int where
  "LEGACY_GENERATED_WORKFLOW_RESULT_GRACE_MS = 5000"

definition generatedChildResultTimeoutMs :: "workflow_world \<Rightarrow> int \<Rightarrow> bool \<Rightarrow> int" where
  "generatedChildResultTimeoutMs w executionTimeoutMs queued =
     (let graceTimeoutMs = executionTimeoutMs + LEGACY_GENERATED_WORKFLOW_RESULT_GRACE_MS
      in if queued then max graceTimeoutMs (ww_job_result_timeout w) else graceTimeoutMs)"

definition timeout_message :: "int \<Rightarrow> string \<Rightarrow> string" where
  "timeout_message ms jobId = ''JOB_RESULT timeout after '' @ show_int ms @ ''ms (jobId='' @ jobId @ '')''"

definition isJobResultTimeoutError :: "string \<Rightarrow> bool" where
  "isJobResultTimeoutError message \<longleftrightarrow> js_includes message ''JOB_RESULT timeout''"

text \<open>
  A dispatch that neither reached the device nor was queued throws at once
  (\<open>assert_dispatched\<close>); otherwise the prepared waiter resolves with the result or rejects at
  its deadline.
\<close>

definition assert_dispatched :: "send_result \<Rightarrow> unit ex" where
  "assert_dispatched d =
     ex_when (\<not> sr_sent d \<and> \<not> sr_queued d)
       (ex_throw (''Failed to send job to device: '' @ odefault (sr_reason d) (sr_decision d)))"

definition awaitGeneratedChildJobResult :: "workflow_world \<Rightarrow> string \<Rightarrow> int \<Rightarrow> JobStepResult ex" where
  "awaitGeneratedChildJobResult w jobId resultTimeoutMs =
     ex_bind (ex_ask (\<lambda>n. ww_result w n jobId)) (\<lambda>answer.
     (case answer of
        None \<Rightarrow> ex_throw (timeout_message resultTimeoutMs jobId)
      | Some r \<Rightarrow> ex_return r))"

definition byte_length_base64 :: "string \<Rightarrow> nat" where
  "byte_length_base64 s =
     (let n = length s;
          n1 = (if n \<noteq> 0 \<and> s ! (n - 1) = CHR ''='' then n - 1 else n);
          n2 = (if n1 > 1 \<and> s ! (n1 - 1) = CHR ''='' then n1 - 1 else n1)
      in n2 * 3 div 4)"

definition jnumber :: "rat option \<Rightarrow> json" where
  "jnumber v = (case v of None \<Rightarrow> JNull | Some x \<Rightarrow> JNum x)"

definition screenshot_artifact :: "workflow_world \<Rightarrow> string \<Rightarrow> string \<Rightarrow> jobj \<Rightarrow> json" where
  "screenshot_artifact w stamp jobId output =
     (let image = string_member output ''image_base64''; present = truthy_text image; bytes = odefault image []
      in JObj [(''jobId'', JStr jobId), (''jobEndpoint'', JStr (''/api/jobs/'' @ jobId)), (''capturedAt'', JStr stamp),
          (''hasImage'', JBool present), (''width'', jnumber (number_member output ''width'')),
          (''height'', jnumber (number_member output ''height'')),
          (''originalWidth'', jnumber (number_member output ''original_width'')),
          (''originalHeight'', jnumber (number_member output ''original_height'')),
          (''format'', jnullable (string_member output ''format'')),
          (''bytes'', jnat (if present then byte_length_base64 bytes else 0)),
          (''sha256'', if present then JStr (ww_sha256 w bytes) else JNull)])"

definition materializeScreenshotArtifact :: "workflow_world \<Rightarrow> string \<Rightarrow> jobj \<Rightarrow> unit ex" where
  "materializeScreenshotArtifact w jobId output =
     ex_bind (ex_stamp w) (\<lambda>stamp.
     (let artifact = screenshot_artifact w stamp jobId output
      in ex_modify (\<lambda>c. set_variable ''screenshotArtifacts''
           (JArr (last_items 5 (array_member (wc_variables c) ''screenshotArtifacts'' @ [artifact])))
           (set_variable ''lastScreenshotArtifact'' artifact c))))"

text \<open>The output object of a result that carries an image.\<close>

definition image_output :: "JobStepResult \<Rightarrow> jobj option" where
  "image_output r = (case jr_output r of
      Some (JObj o1) \<Rightarrow> if string_member o1 ''image_base64'' \<noteq> None then Some o1 else None
    | _ \<Rightarrow> None)"

section \<open>Actions\<close>

definition step_name :: "nat \<Rightarrow> string" where
  "step_name i = ''Step '' @ show_nat i"

definition child_of_action :: "run_context \<Rightarrow> action_fields \<Rightarrow> nat \<Rightarrow> int \<Rightarrow> child_request" where
  "child_of_action rc a i timeoutMs = \<lparr>cq_device = rx_device rc, cq_type = as_action a, cq_params = as_params a,
     cq_timeout = timeoutMs, cq_confirm_root = True, cq_workflow = rx_workflow rc, cq_step = i,
     cq_verification = Some (odefault (as_verification a) (tp_verification (rx_template rc)))\<rparr>"

text \<open>\<^verbatim>\<open>Number.isSafeInteger(v)\<close> with a lower bound.\<close>

definition safe_integer_from :: "rat \<Rightarrow> rat option \<Rightarrow> int option" where
  "safe_integer_from lo v = (case v of
      Some x \<Rightarrow> if is_safe_integer x \<and> lo \<le> x then Some \<lfloor>x\<rfloor> else None
    | None \<Rightarrow> None)"

text \<open>From the dispatch of the child to the result the device answered.\<close>

definition transmit_action :: "workflow_world \<Rightarrow> run_context \<Rightarrow> action_fields \<Rightarrow> nat \<Rightarrow> dispatched_child \<Rightarrow> jobj
    \<Rightarrow> JobStepResult ex" where
  "transmit_action w rc a i d finalParams =
     (let jobId = dc_job d; resultTimeoutMs = generatedChildResultTimeoutMs w (dc_timeout d) False
      in ex_then (ex_log (JobEvent jobId ''result_wait_registered'' i))
         (ex_bind (ex_catch
            (ex_try (\<lambda>n. ww_send w n \<lparr>pl_job = jobId, pl_type = as_action a, pl_native = dc_native d,
               pl_params = finalParams, pl_timeout = dc_timeout d\<rparr>))
            (\<lambda>e. ex_then (ex_log (JobEvent jobId ''dispatch_failed'' i)) (ex_throw e))) (\<lambda>dispatch.
         ex_then (ex_log (JobEvent jobId
            (if sr_sent dispatch then ''dispatch_sent'' else if sr_queued dispatch then ''dispatch_queued''
             else ''dispatch_rejected'') i))
         (ex_then (assert_dispatched dispatch)
         (ex_bind (ex_catch (awaitGeneratedChildJobResult w jobId resultTimeoutMs)
            (\<lambda>e. ex_then (ex_log (JobEvent jobId
                (if isJobResultTimeoutError e then ''result_wait_timeout'' else ''result_wait_failed'') i))
              (ex_throw e))) (\<lambda>result.
          ex_then (ex_log (ResultAccepted (as_action a) i jobId (jr_successful result)))
          (ex_return result)))))))"

text \<open>One attempt up to the result, with the dispatched child and the parameters it was sent.\<close>

definition attempt_action :: "workflow_world \<Rightarrow> run_context \<Rightarrow> action_fields \<Rightarrow> nat
    \<Rightarrow> (dispatched_child \<times> jobj \<times> JobStepResult) ex" where
  "attempt_action w rc a i =
     ex_bind (ex_ask (ww_online w)) (\<lambda>online.
     if \<not> online then
       ex_then (markPaused w (rx_workflow rc))
         (ex_throw (''Device '' @ rx_device rc @ '' offline at step '' @ show_nat i))
     else case safe_integer_from 1 (as_timeout a) of
       None \<Rightarrow> ex_throw (step_name i @ '' is missing its PostgreSQL-hydrated timeoutMs'')
     | Some timeoutMs \<Rightarrow>
         ex_bind (ex_try (\<lambda>n. ww_dispatch w n (child_of_action rc a i timeoutMs))) (\<lambda>d.
         ex_bind ex_checkpoint (\<lambda>c.
         ex_bind (ex_lift (applyWorkflowParameterBindings (dc_params d) (wc_variables c) (dc_policy d))) (\<lambda>finalParams.
         ex_bind (ex_db w (\<lambda>_ db. (Inr (), db))) (\<lambda>_.
         ex_then (ex_log (CommandLogged (dc_job d) (as_action a)))
         (ex_bind (transmit_action w rc a i d finalParams) (\<lambda>result.
         ex_return (d, finalParams, result))))))))"

text \<open>A successful result: the assertions of the action policy, the variables and the pause.\<close>

definition accept_action :: "workflow_world \<Rightarrow> action_fields \<Rightarrow> nat \<Rightarrow> dispatched_child \<Rightarrow> jobj \<Rightarrow> JobStepResult \<Rightarrow> unit ex" where
  "accept_action w a i d finalParams result =
     ex_then (ex_lift (assertJobActionResultPolicy result (dc_policy d) (step_name i)))
     (ex_then (case image_output result of
         None \<Rightarrow> ex_return ()
       | Some o1 \<Rightarrow> materializeScreenshotArtifact w (dc_job d) o1)
     (let outputVariable = js_trim (text_member finalParams ''outputVariable'')
      in ex_then (ex_when (outputVariable \<noteq> [])
           (ex_modify (set_variable outputVariable (odefault (jr_output result) JNull))))
         (case safe_integer_from 0 (as_delay a) of
            None \<Rightarrow> ex_throw (step_name i @ '' is missing its PostgreSQL-hydrated delayAfterMs'')
          | Some ms \<Rightarrow> ex_when (0 < ms) (sleep (of_int ms)))))"

definition action_failure :: "action_fields \<Rightarrow> nat \<Rightarrow> JobStepResult \<Rightarrow> string" where
  "action_failure a i result = step_name i @ '' ('' @ as_action a @ '') failed: ''
     @ odefault (jr_error result) ''device reported failure''"

definition settle_action :: "workflow_world \<Rightarrow> action_fields \<Rightarrow> nat \<Rightarrow> (string \<Rightarrow> unit ex)
    \<Rightarrow> dispatched_child \<times> jobj \<times> JobStepResult \<Rightarrow> unit ex" where
  "settle_action w a i failed x =
     (case x of (d, finalParams, result) \<Rightarrow>
        if \<not> jr_successful result then failed (action_failure a i result)
        else accept_action w a i d finalParams result)"

text \<open>The last argument counts the retries left.\<close>

primrec executeActionStep :: "workflow_world \<Rightarrow> run_context \<Rightarrow> action_fields \<Rightarrow> nat \<Rightarrow> nat \<Rightarrow> unit ex" where
  "executeActionStep w rc a i 0 = ex_bind (attempt_action w rc a i) (settle_action w a i ex_throw)"
| "executeActionStep w rc a i (Suc retries) =
     ex_bind (attempt_action w rc a i) (settle_action w a i (\<lambda>_. executeActionStep w rc a i retries))"

text \<open>\<^verbatim>\<open>step.retries ?? 0\<close>, decremented while positive.\<close>

definition retry_count :: "action_fields \<Rightarrow> nat" where
  "retry_count a = nat \<lceil>odefault (as_retries a) 0\<rceil>"

section \<open>Loops\<close>

definition loop_entry_of :: "nat \<Rightarrow> WorkflowCheckpoint \<Rightarrow> loop_entry option" where
  "loop_entry_of i c = find (\<lambda>e. le_step e = i) (wc_loops c)"

text \<open>The first entry of the step is replaced.\<close>

fun replace_entry :: "loop_entry \<Rightarrow> loop_entry list \<Rightarrow> loop_entry list option" where
  "replace_entry e [] = None"
| "replace_entry e (x # xs) =
     (if le_step x = le_step e then Some (e # xs) else map_option (Cons x) (replace_entry e xs))"

definition enter_iteration :: "nat \<Rightarrow> nat \<Rightarrow> int \<Rightarrow> WorkflowCheckpoint \<Rightarrow> WorkflowCheckpoint" where
  "enter_iteration i k count c =
     (let e = \<lparr>le_step = i, le_current = k, le_total = count\<rparr>
      in c\<lparr>wc_loops := odefault (replace_entry e (wc_loops c)) (wc_loops c @ [e])\<rparr>)"

definition leave_iteration :: "nat \<Rightarrow> nat \<Rightarrow> int \<Rightarrow> WorkflowCheckpoint \<Rightarrow> WorkflowCheckpoint" where
  "leave_iteration i k count c =
     (let e = \<lparr>le_step = i, le_current = Suc k, le_total = count\<rparr>
      in c\<lparr>wc_step := i, wc_loops := odefault (replace_entry e (wc_loops c)) (wc_loops c)\<rparr>)"

definition leave_loop :: "nat \<Rightarrow> WorkflowCheckpoint \<Rightarrow> WorkflowCheckpoint" where
  "leave_loop i c = c\<lparr>wc_loops := filter (\<lambda>e. le_step e \<noteq> i) (wc_loops c)\<rparr>"

text \<open>The iterations from \<open>k\<close> on, as many as the second argument says.\<close>

primrec iterate_loop :: "workflow_world \<Rightarrow> run_context \<Rightarrow> nat \<Rightarrow> int \<Rightarrow> unit ex \<Rightarrow> nat \<Rightarrow> nat \<Rightarrow> unit ex" where
  "iterate_loop w rc i count body k 0 = ex_return ()"
| "iterate_loop w rc i count body k (Suc n) =
     ex_then (ex_modify (enter_iteration i k count))
     (ex_bind ex_checkpoint (\<lambda>c.
      ex_bind (saveCheckpoint w (rx_workflow rc) c i i) (\<lambda>_.
      ex_then body
     (ex_then (ex_modify (leave_iteration i k count))
      (iterate_loop w rc i count body (Suc k) n)))))"

definition executeLoop :: "workflow_world \<Rightarrow> run_context \<Rightarrow> LoopCountSpec \<Rightarrow> nat \<Rightarrow> unit ex \<Rightarrow> unit ex" where
  "executeLoop w rc l i body =
     ex_bind (resolveLoopCount w l) (\<lambda>count.
     ex_bind ex_checkpoint (\<lambda>c.
     (let startIter = (case loop_entry_of i c of None \<Rightarrow> 0 | Some e \<Rightarrow> le_current e)
      in ex_then (iterate_loop w rc i count body startIter (nat (count - int startIter)))
           (ex_modify (leave_loop i)))))"

section \<open>Steps\<close>

text \<open>Before every step the row is read: a terminal workflow stops the traversal silently.\<close>

definition proceed :: "workflow_world \<Rightarrow> run_context \<Rightarrow> nat \<Rightarrow> bool ex" where
  "proceed w rc i =
     ex_bind (service_get w (rx_workflow rc)) (\<lambda>current.
     (case current of
        None \<Rightarrow> ex_return True
      | Some (_, st) \<Rightarrow>
          if ls_terminal st then ex_return False
          else if ls_administrative st then ex_throw (''Workflow paused at step '' @ show_nat i)
          else ex_return True))"

definition count_deterministic :: "unit ex" where
  "count_deterministic = ex_modify (with_stats (\<lambda>s. s\<lparr>es_deterministic := Suc (es_deterministic s)\<rparr>))"

definition count_failed :: "unit ex" where
  "count_failed = ex_modify (with_stats (\<lambda>s. s\<lparr>es_failed := Suc (es_failed s)\<rparr>))"

definition count_retried :: "unit ex" where
  "count_retried = ex_modify (with_stats (\<lambda>s. s\<lparr>es_retried := Suc (es_retried s)\<rparr>))"

text \<open>The body of the loop over nested steps; \<open>rest\<close> is the remainder of the traversal.\<close>

definition nested_iteration :: "workflow_world \<Rightarrow> run_context \<Rightarrow> nat \<Rightarrow> unit ex \<Rightarrow> unit ex \<Rightarrow> unit ex" where
  "nested_iteration w rc i step rest =
     ex_bind (proceed w rc i) (\<lambda>go.
     if \<not> go then ex_return ()
     else ex_then (ex_catch (ex_then step count_deterministic) (\<lambda>e. ex_then count_failed (ex_throw e))) rest)"

fun executeStep :: "workflow_world \<Rightarrow> run_context \<Rightarrow> ExecutableStep \<Rightarrow> nat \<Rightarrow> unit ex"
  and executeNested :: "workflow_world \<Rightarrow> run_context \<Rightarrow> ExecutableStep list \<Rightarrow> nat \<Rightarrow> unit ex" where
  "executeStep w rc (ActionStep a) i = executeActionStep w rc a i (retry_count a)"
| "executeStep w rc (WaitStep _ duration) i =
     ex_bind (resolveWaitDuration w duration) (\<lambda>ms. ex_when (0 < ms) (sleep ms))"
| "executeStep w rc (ConditionStep c if_true if_false) i =
     ex_bind (evaluateCondition w c) (\<lambda>taken.
       if taken then executeNested w rc if_true 0 else executeNested w rc if_false 0)"
| "executeStep w rc (LoopStep _ l steps) i = executeLoop w rc l i (executeNested w rc steps 0)"
| "executeStep w rc (CheckpointStep _) i = ex_return ()"
| "executeStep w rc (OtherStep _ _) i = ex_return ()"
| "executeNested w rc [] i = ex_return ()"
| "executeNested w rc (s # ss) i =
     nested_iteration w rc i (executeStep w rc s i) (executeNested w rc ss (Suc i))"

section \<open>Recovery\<close>

text \<open>The observation before and after a recovery; every exception means no observation.\<close>

definition dispatchGeneratedWorkflowProbe :: "workflow_world \<Rightarrow> run_context \<Rightarrow> nat \<Rightarrow> string \<Rightarrow> int
    \<Rightarrow> JobStepResult option ex" where
  "dispatchGeneratedWorkflowProbe w rc i type timeoutMs =
     ex_catch
       (ex_bind (ex_try (\<lambda>n. ww_dispatch w n \<lparr>cq_device = rx_device rc, cq_type = type, cq_params = [],
          cq_timeout = timeoutMs, cq_confirm_root = False, cq_workflow = rx_workflow rc, cq_step = i,
          cq_verification = None\<rparr>)) (\<lambda>d.
        ex_bind (ex_try (\<lambda>n. ww_send w n \<lparr>pl_job = dc_job d, pl_type = type, pl_native = dc_native d,
          pl_params = dc_params d, pl_timeout = timeoutMs\<rparr>)) (\<lambda>dispatch.
        if \<not> sr_sent dispatch \<and> \<not> sr_queued dispatch then ex_return None
        else ex_bind (awaitGeneratedChildJobResult w (dc_job d)
               (max (generatedChildResultTimeoutMs w timeoutMs False) (ww_job_result_timeout w)))
             (\<lambda>r. ex_return (Some r)))))
       (\<lambda>_. ex_return None)"

definition summarizeRecoveryOutput :: "workflow_world \<Rightarrow> json option \<Rightarrow> nat \<Rightarrow> string" where
  "summarizeRecoveryOutput w output maxLength =
     (case nullish output of
        None \<Rightarrow> ''not available''
      | Some v \<Rightarrow> take maxLength (ww_stringify w v))"

text \<open>The prompt as a record of what its text is built from.\<close>

definition buildGeneratedWorkflowRecoveryPrompt :: "WorkflowTemplate \<Rightarrow> ExecutableStep \<Rightarrow> nat \<Rightarrow> string
    \<Rightarrow> GeneratedWorkflowRuntimeRecoveryPolicy \<Rightarrow> string \<Rightarrow> recovery_prompt" where
  "buildGeneratedWorkflowRecoveryPrompt t s i err p uiState = \<lparr>pm_template = tp_id t, pm_platform = tp_platform t,
     pm_safety = jnullable (tp_safety_class t), pm_intent = jnullable (tp_intent t), pm_step = s, pm_index = i,
     pm_failure = err, pm_ui = uiState, pm_policy = p\<rparr>"

record GeneratedWorkflowRecoveryPlan =
  pn_decision :: string
  pn_rationale :: "string option"
  pn_expected :: "string option"
  pn_steps :: "ExecutableStep list option"

definition text_of :: "json option \<Rightarrow> string option" where
  "text_of v = (case v of Some (JStr s) \<Rightarrow> Some s | _ \<Rightarrow> None)"

definition normalizeGeneratedWorkflowRecoveryPlan :: "planner_reply option \<Rightarrow> GeneratedWorkflowRuntimeRecoveryPolicy
    \<Rightarrow> GeneratedWorkflowRecoveryPlan" where
  "normalizeGeneratedWorkflowRecoveryPlan raw p =
     (case raw of
        None \<Rightarrow> \<lparr>pn_decision = gp_retry p, pn_rationale = None, pn_expected = None, pn_steps = None\<rparr>
      | Some r \<Rightarrow>
          \<lparr>pn_decision = (case text_of (pr_decision r) of
               Some d \<Rightarrow> if d \<in> {gp_execute p, gp_retry p, gp_abort p} then d else gp_retry p
             | None \<Rightarrow> gp_retry p),
           pn_rationale = map_option (take 1000) (text_of (pr_rationale r)),
           pn_expected = map_option (take 1000) (text_of (pr_expected r)),
           pn_steps = pr_steps r\<rparr>)"

definition step_id_default :: "nat \<Rightarrow> string option \<Rightarrow> string option" where
  "step_id_default index v = Some (odefault v (''ai_recovery_step_'' @ show_nat (Suc index)))"

definition normalizeGeneratedWorkflowRecoveryStep :: "nat \<Rightarrow> ExecutableStep \<Rightarrow> ExecutableStep" where
  "normalizeGeneratedWorkflowRecoveryStep index s =
     (case s of
        ActionStep a \<Rightarrow> ActionStep (a\<lparr>as_id := step_id_default index (as_id a)\<rparr>)
      | WaitStep v d \<Rightarrow> WaitStep (step_id_default index v) d
      | ConditionStep c t f \<Rightarrow> ConditionStep (c\<lparr>cs_id := step_id_default index (cs_id c)\<rparr>) t f
      | LoopStep v l ss \<Rightarrow> LoopStep (step_id_default index v) l ss
      | CheckpointStep v \<Rightarrow> CheckpointStep v
      | OtherStep v k \<Rightarrow> OtherStep (step_id_default index v) k)"

fun number_from :: "nat \<Rightarrow> 'a list \<Rightarrow> (nat \<times> 'a) list" where
  "number_from n [] = []"
| "number_from n (x # xs) = (n, x) # number_from (Suc n) xs"

definition recovery_candidate :: "WorkflowTemplate \<Rightarrow> ExecutableStep list \<Rightarrow> WorkflowTemplate" where
  "recovery_candidate t bounded = \<lparr>tp_id = tp_id t @ ''_ai_recovery_plan'', tp_name = tp_name t @ '' AI recovery plan'',
     tp_platform = tp_platform t, tp_description = ''Bounded AI-generated recovery workflow'', tp_version = tp_version t,
     tp_intent = None, tp_safety_class = tp_safety_class t, tp_output_schema = None, tp_allowed_requests = None,
     tp_recovery = Some (jmerge (explicit_policy t) [(''aiRecoveryEnabled'', JBool False),
       (''maxAttemptsPerStep'', JNum 0), (''maxAttemptsPerWorkflow'', JNum 0)]),
     tp_steps = bounded, tp_verification = tp_verification t, tp_retention_days = tp_retention_days t\<rparr>"

definition validateGeneratedWorkflowRecoverySteps :: "workflow_world \<Rightarrow> WorkflowTemplate
    \<Rightarrow> GeneratedWorkflowRuntimeRecoveryPolicy \<Rightarrow> ExecutableStep list \<Rightarrow> ExecutableStep list res" where
  "validateGeneratedWorkflowRecoverySteps w t p steps =
     (let bounded = map (\<lambda>(index, s). normalizeGeneratedWorkflowRecoveryStep index s)
            (number_from 0 (take (nat (gp_per_attempt p)) steps));
          errors = ww_validate w (recovery_candidate t bounded)
      in if errors = [] then Inr bounded else Inl (intercalate ''; '' errors))"

definition plan_variable :: "string \<Rightarrow> nat \<Rightarrow> GeneratedWorkflowRecoveryPlan \<Rightarrow> json" where
  "plan_variable stamp i plan = JObj [(''at'', JStr stamp), (''stepIndex'', jnat i),
     (''decision'', JStr (pn_decision plan)), (''rationale'', jnullable (pn_rationale plan)),
     (''expectedState'', jnullable (pn_expected plan)),
     (''stepCount'', jnat (length (odefault (pn_steps plan) [])))]"

text \<open>The validated plan runs as nested steps before the failed step is tried again.\<close>

definition run_recovery_plan :: "workflow_world \<Rightarrow> run_context \<Rightarrow> GeneratedWorkflowRuntimeRecoveryPolicy \<Rightarrow> nat
    \<Rightarrow> ExecutableStep list \<Rightarrow> bool ex" where
  "run_recovery_plan w rc p i steps =
     ex_catch
       (ex_then (executeNested w rc steps 0)
       (ex_then (ex_when (gp_verify_state p)
           (ex_bind (dispatchGeneratedWorkflowProbe w rc i (gp_probe p) (gp_probe_timeout p)) (\<lambda>_. ex_return ())))
         (ex_return True)))
       (\<lambda>e. ex_then (ex_modify (set_variable ''_lastAiRecoveryExecutionError'' (JStr e))) (ex_return False))"

definition follow_plan :: "workflow_world \<Rightarrow> run_context \<Rightarrow> GeneratedWorkflowRuntimeRecoveryPolicy \<Rightarrow> nat
    \<Rightarrow> GeneratedWorkflowRecoveryPlan \<Rightarrow> bool ex" where
  "follow_plan w rc p i plan =
     (if pn_decision plan = gp_abort p then
        ex_then (ex_modify (set_variable ''_lastAiRecoveryAbort''
            (JStr (odefault (pn_rationale plan) ''AI recovery planner aborted''))))
          (ex_return False)
      else if pn_decision plan = gp_retry p then ex_return True
      else case validateGeneratedWorkflowRecoverySteps w (rx_template rc) p (odefault (pn_steps plan) []) of
        Inl e \<Rightarrow> ex_then (ex_modify (set_variable ''_lastAiRecoveryValidationError'' (JStr e))) (ex_return True)
      | Inr steps \<Rightarrow> run_recovery_plan w rc p i steps)"

definition count_planner_call :: "unit ex" where
  "count_planner_call = ex_modify (with_stats (\<lambda>s. s\<lparr>es_recovery_llm := Suc (es_recovery_llm s),
     es_runtime_llm := Suc (es_runtime_llm s)\<rparr>))"

definition consult_planner :: "workflow_world \<Rightarrow> run_context \<Rightarrow> ExecutableStep \<Rightarrow> nat \<Rightarrow> string
    \<Rightarrow> GeneratedWorkflowRuntimeRecoveryPolicy \<Rightarrow> planner_reply option res ex" where
  "consult_planner w rc s i err p =
     ex_bind (dispatchGeneratedWorkflowProbe w rc i (gp_probe p) (gp_probe_timeout p)) (\<lambda>uiDump.
     (let uiState = summarizeRecoveryOutput w (case uiDump of None \<Rightarrow> None | Some r \<Rightarrow> jr_output r) 6000;
          prompt = buildGeneratedWorkflowRecoveryPrompt (rx_template rc) s i err p uiState
      in ex_then (ex_log (Planned i)) (ex_ask (\<lambda>n. ww_planner w n prompt))))"

definition attemptGeneratedWorkflowAiRecovery :: "workflow_world \<Rightarrow> run_context \<Rightarrow> ExecutableStep \<Rightarrow> nat \<Rightarrow> string \<Rightarrow> bool ex" where
  "attemptGeneratedWorkflowAiRecovery w rc s i err =
     ex_bind (ex_lift (generatedWorkflowRuntimeRecoveryPolicy (rx_template rc))) (\<lambda>p.
     if \<not> gp_ai_enabled p then ex_return True
     else ex_then count_planner_call
       (ex_bind (consult_planner w rc s i err p) (\<lambda>reply.
        (case reply of
           Inl e \<Rightarrow> ex_then (ex_modify (set_variable ''_lastAiRecoveryPlannerError'' (JStr e))) (ex_return True)
         | Inr raw \<Rightarrow>
             (let plan = normalizeGeneratedWorkflowRecoveryPlan raw p
              in ex_bind (ex_stamp w) (\<lambda>stamp.
                 ex_then (ex_modify (set_variable ''_lastAiRecoveryPlan'' (plan_variable stamp i plan)))
                   (follow_plan w rc p i plan)))))))"

section \<open>Top-level steps\<close>

text \<open>\<^verbatim>\<open>saveCheckpoint({ ...checkpoint, checkpointAt }, i, i)\<close> after a failure.\<close>

definition save_failure :: "workflow_world \<Rightarrow> run_context \<Rightarrow> nat \<Rightarrow> unit ex" where
  "save_failure w rc i =
     ex_bind (ex_stamp w) (\<lambda>stamp.
     ex_bind ex_checkpoint (\<lambda>c.
     ex_bind (saveCheckpoint w (rx_workflow rc) (c\<lparr>wc_at := stamp\<rparr>) i i) (\<lambda>_. ex_return ())))"

definition record_failure :: "workflow_world \<Rightarrow> run_context \<Rightarrow> nat \<Rightarrow> string \<Rightarrow> string option ex" where
  "record_failure w rc i err =
     ex_bind (ex_stamp w) (\<lambda>stamp.
     ex_bind ex_checkpoint (\<lambda>c.
     ex_bind (ex_lift (recordGeneratedWorkflowRecoveryFailure stamp (rx_template rc) i err c)) (\<lambda>(budget, c').
     ex_then (ex_modify (\<lambda>_. c')) (ex_return budget))))"

definition retry_step :: "workflow_world \<Rightarrow> run_context \<Rightarrow> nat \<Rightarrow> unit ex \<Rightarrow> unit ex" where
  "retry_step w rc i step =
     ex_catch (ex_then count_retried (ex_then step count_deterministic))
       (\<lambda>e. ex_then (save_failure w rc i) (ex_throw e))"

definition recover_step :: "workflow_world \<Rightarrow> run_context \<Rightarrow> ExecutableStep \<Rightarrow> nat \<Rightarrow> string \<Rightarrow> unit ex" where
  "recover_step w rc s i err =
     ex_then count_failed
     (ex_bind (record_failure w rc i err) (\<lambda>budget.
      ex_then (save_failure w rc i)
      (case budget of
         Some e \<Rightarrow> ex_throw e
       | None \<Rightarrow>
           ex_bind (attemptGeneratedWorkflowAiRecovery w rc s i err) (\<lambda>recovered.
           if \<not> recovered then ex_throw err
           else retry_step w rc i (executeStep w rc s i)))))"

definition attempt_step :: "workflow_world \<Rightarrow> run_context \<Rightarrow> ExecutableStep \<Rightarrow> nat \<Rightarrow> unit ex" where
  "attempt_step w rc s i =
     ex_catch (ex_then (executeStep w rc s i) count_deterministic) (recover_step w rc s i)"

text \<open>The dash of the message is written with a plain character.\<close>

definition advance_checkpoint :: "workflow_world \<Rightarrow> run_context \<Rightarrow> nat \<Rightarrow> unit ex" where
  "advance_checkpoint w rc i =
     ex_bind (ex_stamp w) (\<lambda>stamp.
     ex_bind ex_checkpoint (\<lambda>c.
     ex_bind (saveCheckpoint w (rx_workflow rc) (c\<lparr>wc_step := Suc i, wc_at := stamp\<rparr>) (Suc i) i) (\<lambda>saved.
     if \<not> saved then ex_throw (''Checkpoint conflict at step '' @ show_nat i @ '' - aborting'')
     else ex_modify (\<lambda>c. c\<lparr>wc_step := Suc i\<rparr>))))"

text \<open>The remaining top-level steps, the first of which has index \<open>i\<close>.\<close>

primrec executeSteps :: "workflow_world \<Rightarrow> run_context \<Rightarrow> nat \<Rightarrow> ExecutableStep list \<Rightarrow> unit ex" where
  "executeSteps w rc i [] = ex_return ()"
| "executeSteps w rc i (s # ss) =
     ex_bind (proceed w rc i) (\<lambda>go.
     if \<not> go then ex_return ()
     else ex_then (attempt_step w rc s i) (ex_then (advance_checkpoint w rc i) (executeSteps w rc (Suc i) ss)))"

section \<open>Runs\<close>

text \<open>A transaction of the device execution arbiter.\<close>

definition ex_arbiter :: "workflow_world \<Rightarrow> (timestamp \<Rightarrow> 'a tx) \<Rightarrow> 'a ex" where
  "ex_arbiter w m = ex_db w (\<lambda>now. withTransaction (m now))"

definition finish_root_input :: "string \<Rightarrow> string \<Rightarrow> string \<Rightarrow> string option \<Rightarrow> workflow_input" where
  "finish_root_input device i actor reason =
     \<lparr>wi_device = device, wi_workflow = i, wi_actor = Some actor, wi_reason = reason, wi_metadata = None\<rparr>"

definition finish_workflow_root :: "workflow_world \<Rightarrow> string \<Rightarrow> string \<Rightarrow> bool \<Rightarrow> string \<Rightarrow> string option \<Rightarrow> unit ex" where
  "finish_workflow_root w device i successful actor reason =
     ex_bind (ex_arbiter w (\<lambda>now. finishServerWorkflowRoot now (finish_root_input device i actor reason) successful))
       (\<lambda>_. ex_return ())"

definition reconcileTerminalWorkflowRoot :: "workflow_world \<Rightarrow> workflow_row \<times> lc_state_row \<Rightarrow> string \<Rightarrow> unit ex" where
  "reconcileTerminalWorkflowRoot w x actor =
     (case x of (r, st) \<Rightarrow>
        (case nonempty (wf_device r) of
           None \<Rightarrow> ex_return ()
         | Some device \<Rightarrow>
             if \<not> ls_terminal st then ex_return ()
             else finish_workflow_root w device (wf_id r) (\<not> ls_retryable st \<and> \<not> ls_administrative st) actor
               (Some (''persisted_workflow_already_'' @ wf_status r))))"

definition decision_text :: "DeviceExecutionDecision \<Rightarrow> string" where
  "decision_text d = (case d of
      Admitted \<Rightarrow> ''admitted'' | Duplicate \<Rightarrow> ''duplicate'' | Claimed \<Rightarrow> ''claimed'' | Dispatched \<Rightarrow> ''dispatched''
    | WouldWait \<Rightarrow> ''would_wait'' | Offline \<Rightarrow> ''offline'' | Terminal \<Rightarrow> ''terminal'' | Ambiguous \<Rightarrow> ''ambiguous''
    | Rejected \<Rightarrow> ''rejected'' | Ignored \<Rightarrow> ''ignored'' | Missing \<Rightarrow> ''missing'')"

definition server_workflow_admission :: "string \<Rightarrow> string \<Rightarrow> admission_input" where
  "server_workflow_admission device i = \<lparr>ai_device = device, ai_kind = Some ''server_workflow'', ai_external = Some i,
     ai_request = Some i, ai_actor = Some ''workflow_executor'',
     ai_metadata = Some [(''observeSource'', JStr ''workflowExecutor.runWorkflow'')]\<rparr>"

text \<open>The root is admitted before the row is marked running; the answer is the decision.\<close>

definition admit_workflow :: "workflow_world \<Rightarrow> string \<Rightarrow> string \<Rightarrow> DeviceExecutionDecision ex" where
  "admit_workflow w device i =
     ex_bind (ex_ask (ww_new_id w)) (\<lambda>newId.
     ex_bind (ex_arbiter w (\<lambda>now. observeAdmission now newId (server_workflow_admission device i))) (\<lambda>a.
     if dr_decision a \<in> {Admitted, Duplicate, WouldWait} then ex_return (dr_decision a)
     else ex_throw (''Workflow '' @ i @ '' PNQ admission failed: ''
       @ odefault (dr_reason a) (decision_text (dr_decision a)))))"

text \<open>Whether the run goes on after the workflow was claimed; a terminal row is reconciled.\<close>

definition claim_workflow :: "workflow_world \<Rightarrow> string \<Rightarrow> bool ex" where
  "claim_workflow w i =
     ex_bind (markRunning w i) (\<lambda>started.
     if started then ex_return True
     else ex_bind (service_get w i) (\<lambda>latest.
       (case latest of
          None \<Rightarrow> ex_throw (''Workflow '' @ i @ '' disappeared while transitioning to running'')
        | Some (r, st) \<Rightarrow>
            if ls_terminal st then
              ex_then (reconcileTerminalWorkflowRoot w (r, st) ''workflow_executor.transition_reconcile'')
                (ex_return False)
            else ex_throw (''Workflow '' @ i @ '' could not transition to running; persisted status='' @ wf_status r))))"

definition start_workflow :: "workflow_world \<Rightarrow> string \<Rightarrow> string \<Rightarrow> lc_state_row \<Rightarrow> bool ex" where
  "start_workflow w device i st =
     (if \<not> ls_initial st then ex_return True
      else ex_bind (admit_workflow w device i) (\<lambda>decision.
        if \<not> ww_enforced w \<or> decision \<noteq> WouldWait then claim_workflow w i else ex_return True))"

definition load_template :: "workflow_world \<Rightarrow> string \<Rightarrow> WorkflowTemplate ex" where
  "load_template w i =
     (case nonempty (ww_template_of w i) of
        None \<Rightarrow> ex_throw (''Workflow '' @ i @ '' has no template'')
      | Some template \<Rightarrow>
          ex_bind (ex_try (\<lambda>n. ww_template w n template)) (\<lambda>persisted.
          (case persisted of
             None \<Rightarrow> ex_throw (''Template '' @ template @ '' not found'')
           | Some t \<Rightarrow> ex_try (\<lambda>n. ww_hydrate w n t))))"

definition load_checkpoint :: "workflow_row \<Rightarrow> WorkflowCheckpoint ex" where
  "load_checkpoint r =
     (case wf_checkpoint r of
        None \<Rightarrow> ex_throw ''checkpoint is missing''
      | Some v \<Rightarrow> (case checkpoint_of_json v of None \<Rightarrow> ex_throw ''checkpoint is malformed'' | Some c \<Rightarrow> ex_return c))"

definition runWorkflow :: "workflow_world \<Rightarrow> string \<Rightarrow> unit ex" where
  "runWorkflow w i =
     ex_bind (service_get w i) (\<lambda>found.
     (case found of
        None \<Rightarrow> ex_throw (''Workflow '' @ i @ '' not found'')
      | Some (r, st) \<Rightarrow>
          if ls_terminal st then reconcileTerminalWorkflowRoot w (r, st) ''workflow_executor.retry_reconcile''
          else ex_bind (load_template w i) (\<lambda>t.
            (case nonempty (wf_device r) of
               None \<Rightarrow> ex_throw (''Workflow '' @ i @ '' has no deviceId'')
             | Some device \<Rightarrow>
                 ex_bind (start_workflow w device i st) (\<lambda>go.
                 if \<not> go then ex_return ()
                 else ex_bind (load_checkpoint r) (\<lambda>c.
                   ex_then (ex_modify (\<lambda>_. c))
                   (ex_then (executeSteps w \<lparr>rx_workflow = i, rx_device = device, rx_template = t\<rparr> (wc_step c)
                       (drop (wc_step c) (tp_steps t)))
                   (ex_then (markCompleted w i)
                     (finish_workflow_root w device i True ''workflow_executor'' None)))))))))"

section \<open>The worker\<close>

definition shouldTerminallyFailWorkflowJob :: "nat \<Rightarrow> string \<Rightarrow> nat \<Rightarrow> bool" where
  "shouldTerminallyFailWorkflowJob attemptsMade err configuredAttempts \<longleftrightarrow>
     configuredAttempts \<le> attemptsMade \<or> err = RECOVERY_BUDGET_EXCEEDED"

text \<open>The handler of a failed attempt.\<close>

definition attempt_failed :: "workflow_world \<Rightarrow> string \<Rightarrow> nat \<Rightarrow> nat \<Rightarrow> string \<Rightarrow> unit ex" where
  "attempt_failed w i attemptsMade configuredAttempts err =
     (if \<not> shouldTerminallyFailWorkflowJob attemptsMade err configuredAttempts then ex_return ()
      else ex_then (markFailed w i err)
        (ex_bind (service_get w i) (\<lambda>found.
         (case found of
            None \<Rightarrow> ex_return ()
          | Some (r, _) \<Rightarrow>
              (case nonempty (wf_device r) of
                 None \<Rightarrow> ex_return ()
               | Some device \<Rightarrow> finish_workflow_root w device i False ''workflow_worker'' (Some err))))))"

text \<open>
  The queue runs the job until an attempt returns or the configured attempts are used; \<open>k\<close>
  attempts were made before. The answer says whether an attempt returned.
\<close>

primrec run_job :: "workflow_world \<Rightarrow> string \<Rightarrow> nat \<Rightarrow> nat \<Rightarrow> nat \<Rightarrow> bool ex" where
  "run_job w i configuredAttempts k 0 = ex_return False"
| "run_job w i configuredAttempts k (Suc n) =
     ex_catch (ex_then (runWorkflow w i) (ex_return True))
       (\<lambda>e. ex_then (attempt_failed w i (Suc k) configuredAttempts e) (run_job w i configuredAttempts (Suc k) n))"

end
