(* ===== verification/Workflow_Executor_Frame.thy ===== *)
theory Workflow_Executor_Frame imports Workflow_Executor Arbiter_Egress_Frame
begin

text \<open>
  What a run of the server workflow executor keeps: rules for computations, the locale
  \<open>executor_frame\<close> with the laws an assertion on the tables and the effect history has to
  meet, and the proof that every part of the executor keeps such an assertion, up to the
  whole sequence of attempts the queue makes. The interpretations follow in the theories
  that use them.
\<close>

section \<open>Keeping an assertion\<close>

definition keeps :: "(arb_db \<Rightarrow> workflow_effect list \<Rightarrow> bool) \<Rightarrow> 'a ex \<Rightarrow> bool" where
  "keeps J m \<longleftrightarrow> (\<forall>s. J (xs_db s) (xs_log s) \<longrightarrow> J (xs_db (snd (m s))) (xs_log (snd (m s))))"

lemma keepsI: "(\<And>s. J (xs_db s) (xs_log s) \<Longrightarrow> J (xs_db (snd (m s))) (xs_log (snd (m s)))) \<Longrightarrow> keeps J m"
  by (simp add: keeps_def)

lemma keepsD: "keeps J m \<Longrightarrow> J (xs_db s) (xs_log s) \<Longrightarrow> J (xs_db (snd (m s))) (xs_log (snd (m s)))"
  by (simp add: keeps_def)

lemma keeps_result: "keeps J m \<Longrightarrow> J (xs_db s) (xs_log s) \<Longrightarrow> m s = (r, s') \<Longrightarrow> J (xs_db s') (xs_log s')"
  using keepsD[of J m s] by simp

named_theorems keeping "rules for computations that keep an assertion"

lemma keeps_bind [keeping]: "keeps J m \<Longrightarrow> (\<And>x. keeps J (f x)) \<Longrightarrow> keeps J (ex_bind m f)"
  by (rule keepsI) (auto simp: ex_bind_def split: prod.splits sum.splits dest!: keeps_result intro: keepsD)

lemma keeps_then [keeping]: "keeps J m \<Longrightarrow> keeps J k \<Longrightarrow> keeps J (ex_then m k)"
  by (simp add: ex_then_def keeps_bind)

lemma keeps_catch [keeping]: "keeps J m \<Longrightarrow> (\<And>e. keeps J (h e)) \<Longrightarrow> keeps J (ex_catch m h)"
  by (rule keepsI) (auto simp: ex_catch_def split: prod.splits sum.splits dest!: keeps_result intro: keepsD)

lemma keeps_pure [keeping]:
  "keeps J (ex_return x)" "keeps J (ex_throw e)" "keeps J (ex_lift r)" "keeps J ex_checkpoint"
  "keeps J (ex_modify f)" "keeps J (ex_ask g)"
  by (simp_all add: keeps_def ex_return_def ex_throw_def ex_lift_def ex_checkpoint_def ex_modify_def ex_ask_def)

lemma keeps_try [keeping]: "keeps J (ex_try f)"
  unfolding ex_try_def by (intro keeping)

lemma keeps_when [keeping]: "keeps J m \<Longrightarrow> keeps J (ex_when b m)"
  unfolding ex_when_def by (auto intro: keeping)

lemma keeps_if [keeping]: "(c \<Longrightarrow> keeps J a) \<Longrightarrow> (\<not> c \<Longrightarrow> keeps J b) \<Longrightarrow> keeps J (if c then a else b)"
  by simp

lemma keeps_option [keeping]:
  "keeps J a \<Longrightarrow> (\<And>y. keeps J (b y)) \<Longrightarrow> keeps J (case x of None \<Rightarrow> a | Some y \<Rightarrow> b y)"
  by (cases x) auto

lemma keeps_sum [keeping]:
  "(\<And>y. keeps J (a y)) \<Longrightarrow> (\<And>y. keeps J (b y)) \<Longrightarrow> keeps J (case x of Inl y \<Rightarrow> a y | Inr y \<Rightarrow> b y)"
  by (cases x) auto

lemma keeps_pair [keeping]: "(\<And>a b. keeps J (f a b)) \<Longrightarrow> keeps J (case x of (a, b) \<Rightarrow> f a b)"
  by (cases x) auto

lemma keeps_stamp [keeping]: "keeps J (ex_stamp w)"
  unfolding ex_stamp_def by (intro keeping)

section \<open>The laws\<close>

definition is_save :: "workflow_effect \<Rightarrow> bool" where
  "is_save e \<longleftrightarrow> (case e of CheckpointSaved _ _ _ \<Rightarrow> True | _ \<Rightarrow> False)"

lemma is_save_simps [simp]:
  "\<not> is_save (CommandLogged a b)" "\<not> is_save (JobEvent a b n)" "\<not> is_save (ResultAccepted a n b c)"
  "\<not> is_save (Slept r)" "\<not> is_save (Planned n)" "is_save (CheckpointSaved n m c)"
  by (simp_all add: is_save_def)

text \<open>
  \<open>J\<close> survives what the other sessions do, every effect, the pause of the workflow, and a
  checkpoint write whatever its outcome. A write keeps the step or, where \<open>advancing\<close> allows
  it, advances it by one.
\<close>

locale executor_frame =
  fixes w :: workflow_world and workflow :: string and advancing :: bool
    and J :: "arb_db \<Rightarrow> workflow_effect list \<Rightarrow> bool"
  assumes J_others: "J db l \<Longrightarrow> J (ww_others w n db) l"
    and J_effect: "J db l \<Longrightarrow> \<not> is_save e \<Longrightarrow> J db (l @ [e])"
    and J_paused: "J db l \<Longrightarrow>
      transitionWorkflowWhere (ad_lc db) now workflow paused_selector no_workflow_patch (\<lambda>_. True) (ad_workflows db)
        = (r, ws) \<Longrightarrow> J (db\<lparr>ad_workflows := ws\<rparr>) l"
    and J_saved: "J db l \<Longrightarrow> new = old \<or> advancing \<and> new = Suc old \<Longrightarrow>
      transitionWorkflowWhere (ad_lc db) now workflow running_selector
        (no_workflow_patch\<lparr>wp_checkpoint := Some v, wp_current_step := Some (int new)\<rparr>)
        (\<lambda>r. wf_current_step r = Some (int old)) (ad_workflows db) = (r, ws) \<Longrightarrow>
      J (db\<lparr>ad_workflows := ws\<rparr>) (l @ [CheckpointSaved new old (r \<noteq> None)])"
    and J_lost: "J db l \<Longrightarrow> new = old \<or> advancing \<and> new = Suc old \<Longrightarrow> J db (l @ [CheckpointSaved new old False])"

context executor_frame begin

lemma log_keeps [keeping]: "\<not> is_save e \<Longrightarrow> keeps J (ex_log e)"
  by (rule keepsI) (simp add: ex_log_def J_effect)

lemma db_keeps:
  assumes "\<And>now db l. J db l \<Longrightarrow> J (snd (f now db)) l"
  shows "keeps J (ex_db w f)"
proof (rule keepsI)
  fix s :: exec_state
  assume "J (xs_db s) (xs_log s)"
  then have o1: "J (ww_others w (xs_tick s) (xs_db s)) (xs_log s)" by (rule J_others)
  show "J (xs_db (snd (ex_db w f s))) (xs_log (snd (ex_db w f s)))"
    using o1 assms[OF o1, of "ww_now w (xs_tick s)"]
    by (auto simp: ex_db_def Let_def split: option.splits prod.splits)
qed

lemma read_keeps [keeping]: "keeps J (ex_db w (\<lambda>_ db. (g db, db)))"
  by (rule db_keeps) simp

lemma service_get_keeps [keeping]: "keeps J (service_get w i)"
  unfolding service_get_def by (rule read_keeps)

lemma markPaused_keeps [keeping]: "keeps J (markPaused w workflow)"
  unfolding markPaused_def service_transition_def
  by (intro keeping db_keeps) (auto split: prod.splits intro: J_paused)

lemma saveCheckpoint_keeps [keeping]:
  assumes "new = old \<or> advancing \<and> new = Suc old"
  shows "keeps J (saveCheckpoint w workflow c new old)"
proof (rule keepsI)
  fix s :: exec_state
  assume "J (xs_db s) (xs_log s)"
  then have "J (ww_others w (xs_tick s) (xs_db s)) (xs_log s)" by (rule J_others)
  then show "J (xs_db (snd (saveCheckpoint w workflow c new old s))) (xs_log (snd (saveCheckpoint w workflow c new old s)))"
    using assms J_saved J_lost
    by (auto simp: saveCheckpoint_def service_transition_def ex_db_def Let_def ex_bind_def ex_catch_def ex_then_def
        ex_return_def ex_log_def split: option.splits prod.splits sum.splits)
qed

lemma draw_keeps [keeping]: "keeps J (uniform w lo hi)" "keeps J (normal w lo hi)"
  unfolding uniform_def normal_def by (intro keeping)+

lemma resolveWaitDuration_keeps [keeping]: "keeps J (resolveWaitDuration w d)"
  unfolding resolveWaitDuration_def Let_def by (intro keeping)

lemma resolveLoopCount_keeps [keeping]: "keeps J (resolveLoopCount w d)"
  unfolding resolveLoopCount_def Let_def by (intro keeping)

lemma evaluateCondition_keeps [keeping]: "keeps J (evaluateCondition w c)"
  unfolding evaluateCondition_def by (intro keeping)

lemma sleep_keeps [keeping]: "keeps J (sleep ms)"
  unfolding sleep_def by (intro keeping) simp

lemma await_keeps [keeping]: "keeps J (awaitGeneratedChildJobResult w jobId ms)"
  unfolding awaitGeneratedChildJobResult_def by (intro keeping)

lemma assert_dispatched_keeps [keeping]: "keeps J (assert_dispatched d)"
  unfolding assert_dispatched_def by (intro keeping)

lemma screenshot_keeps [keeping]: "keeps J (materializeScreenshotArtifact w jobId o1)"
  unfolding materializeScreenshotArtifact_def Let_def by (intro keeping)

lemma transmit_keeps [keeping]: "keeps J (transmit_action w rc a i d p)"
  unfolding transmit_action_def Let_def by (intro keeping) simp_all

lemma accept_keeps [keeping]: "keeps J (accept_action w a i d p r)"
  unfolding accept_action_def Let_def by (intro keeping)

lemma attempt_keeps [keeping]:
  assumes "rx_workflow rc = workflow"
  shows "keeps J (attempt_action w rc a i)"
  unfolding attempt_action_def assms by (intro keeping) simp_all

lemma executeActionStep_keeps [keeping]:
  assumes "rx_workflow rc = workflow"
  shows "keeps J (executeActionStep w rc a i n)"
proof (induction n)
  case 0
  show ?case using assms by (auto simp: settle_action_def intro!: keeping)
next
  case (Suc n)
  then show ?case using assms by (auto simp: settle_action_def intro!: keeping)
qed

lemma iterate_loop_keeps [keeping]:
  assumes "rx_workflow rc = workflow" "keeps J body"
  shows "keeps J (iterate_loop w rc i count body k n)"
proof (induction n arbitrary: k)
  case 0
  show ?case by (auto intro: keeping)
next
  case (Suc n)
  show ?case unfolding iterate_loop.simps assms(1) by (intro keeping assms(2) Suc.IH) simp
qed

lemma executeLoop_keeps [keeping]:
  "rx_workflow rc = workflow \<Longrightarrow> keeps J body \<Longrightarrow> keeps J (executeLoop w rc l i body)"
  unfolding executeLoop_def Let_def by (intro keeping)

lemma proceed_keeps [keeping]: "keeps J (proceed w rc i)"
  unfolding proceed_def by (intro keeping)

lemma counts_keep [keeping]:
  "keeps J count_deterministic" "keeps J count_failed" "keeps J count_retried" "keeps J count_planner_call"
  unfolding count_deterministic_def count_failed_def count_retried_def count_planner_call_def by (intro keeping)+

lemma nested_iteration_keeps [keeping]:
  "keeps J step \<Longrightarrow> keeps J rest \<Longrightarrow> keeps J (nested_iteration w rc i step rest)"
  unfolding nested_iteration_def by (intro keeping)

lemma steps_keep:
  "w' = w \<Longrightarrow> rx_workflow rc = workflow \<Longrightarrow> keeps J (executeStep w' rc s i)"
  "w' = w \<Longrightarrow> rx_workflow rc = workflow \<Longrightarrow> keeps J (executeNested w' rc ss i)"
proof (induction w' rc s i and w' rc ss i rule: executeStep_executeNested.induct)
  case (3 w' rc c if_true if_false i)
  then show ?case unfolding executeStep.simps 3(3) by (intro keeping) simp_all
qed (auto intro!: keeping)

lemmas executeStep_keeps [keeping] = steps_keep(1)[OF refl]
lemmas executeNested_keeps [keeping] = steps_keep(2)[OF refl]

section \<open>Recovery and the top level\<close>

lemma probe_keeps [keeping]: "keeps J (dispatchGeneratedWorkflowProbe w rc i type ms)"
  unfolding dispatchGeneratedWorkflowProbe_def by (intro keeping)

lemma run_recovery_plan_keeps [keeping]:
  "rx_workflow rc = workflow \<Longrightarrow> keeps J (run_recovery_plan w rc p i steps)"
  unfolding run_recovery_plan_def by (intro keeping)

lemma follow_plan_keeps [keeping]:
  "rx_workflow rc = workflow \<Longrightarrow> keeps J (follow_plan w rc p i plan)"
  unfolding follow_plan_def by (intro keeping)

lemma consult_planner_keeps [keeping]: "keeps J (consult_planner w rc s i err p)"
  unfolding consult_planner_def Let_def by (intro keeping) simp

lemma recovery_keeps [keeping]:
  "rx_workflow rc = workflow \<Longrightarrow> keeps J (attemptGeneratedWorkflowAiRecovery w rc s i err)"
  unfolding attemptGeneratedWorkflowAiRecovery_def Let_def by (intro keeping)

lemma save_failure_keeps [keeping]:
  assumes "rx_workflow rc = workflow"
  shows "keeps J (save_failure w rc i)"
  unfolding save_failure_def assms by (intro keeping) simp_all

lemma record_failure_keeps [keeping]: "keeps J (record_failure w rc i err)"
  unfolding record_failure_def by (intro keeping)

lemma retry_step_keeps [keeping]:
  "rx_workflow rc = workflow \<Longrightarrow> keeps J step \<Longrightarrow> keeps J (retry_step w rc i step)"
  unfolding retry_step_def by (intro keeping)

lemma recover_step_keeps [keeping]: "rx_workflow rc = workflow \<Longrightarrow> keeps J (recover_step w rc s i err)"
  unfolding recover_step_def by (intro keeping)

lemma attempt_step_keeps [keeping]: "rx_workflow rc = workflow \<Longrightarrow> keeps J (attempt_step w rc s i)"
  unfolding attempt_step_def by (intro keeping)

lemma advance_checkpoint_keeps:
  assumes "rx_workflow rc = workflow" advancing
  shows "keeps J (advance_checkpoint w rc i)"
  unfolding advance_checkpoint_def assms(1) by (intro keeping) (simp_all add: assms(2))

lemma executeSteps_keeps: "rx_workflow rc = workflow \<Longrightarrow> advancing \<Longrightarrow> keeps J (executeSteps w rc i ss)"
  by (induction ss arbitrary: i) (auto intro!: keeping advance_checkpoint_keeps)

end

section \<open>Whole runs\<close>

text \<open>
  For a run the assertion also has to survive the status transitions of the workflow row and
  the two arbiter transactions of the executor.
\<close>

locale executor_run_frame = executor_frame +
  assumes J_advancing: advancing
    and J_service: "J db l \<Longrightarrow> wp_current_step p = None \<Longrightarrow>
      transitionWorkflowWhere (ad_lc db) now workflow sel p (\<lambda>_. True) (ad_workflows db) = (r, ws) \<Longrightarrow>
      J (db\<lparr>ad_workflows := ws\<rparr>) l"
    and J_admission: "J db l \<Longrightarrow> J (snd (withTransaction (observeAdmission now newId ai) db)) l"
    and J_finish: "J db l \<Longrightarrow> J (snd (withTransaction (finishServerWorkflowRoot now wi successful) db)) l"

context executor_run_frame begin

lemma service_transition_keeps:
  "wp_current_step p = None \<Longrightarrow> keeps J (service_transition w workflow sel p (\<lambda>_. True))"
  unfolding service_transition_def by (rule db_keeps) (auto split: prod.splits intro: J_service)

lemma marks_keep [keeping]:
  "keeps J (markRunning w workflow)" "keeps J (markCompleted w workflow)" "keeps J (markFailed w workflow err)"
  unfolding markRunning_def markCompleted_def markFailed_def
  by (intro keeping service_transition_keeps, simp add: no_workflow_patch_def)+

lemma finish_keeps [keeping]: "keeps J (finish_workflow_root w device i successful actor reason)"
  unfolding finish_workflow_root_def ex_arbiter_def by (intro keeping db_keeps) (rule J_finish)

lemma reconcile_keeps [keeping]: "keeps J (reconcileTerminalWorkflowRoot w x actor)"
  unfolding reconcileTerminalWorkflowRoot_def by (intro keeping)

lemma admit_keeps [keeping]: "keeps J (admit_workflow w device i)"
  unfolding admit_workflow_def ex_arbiter_def by (intro keeping db_keeps) (rule J_admission)

lemma claim_keeps [keeping]: "keeps J (claim_workflow w workflow)"
  unfolding claim_workflow_def by (intro keeping)

lemma start_keeps [keeping]: "keeps J (start_workflow w device workflow st)"
  unfolding start_workflow_def by (intro keeping)

lemma load_keeps [keeping]: "keeps J (load_template w i)" "keeps J (load_checkpoint r)"
  unfolding load_template_def load_checkpoint_def by (intro keeping)+

lemma runWorkflow_keeps [keeping]: "keeps J (runWorkflow w workflow)"
  unfolding runWorkflow_def by (intro keeping executeSteps_keeps) (simp_all add: J_advancing)

lemma attempt_failed_keeps [keeping]: "keeps J (attempt_failed w workflow made configured err)"
  unfolding attempt_failed_def by (intro keeping)

theorem run_job_keeps: "keeps J (run_job w workflow configured k n)"
  by (induction n arbitrary: k) (auto intro!: keeping)

end

end
