(* ===== verification/Workflow_Progress.thy ===== *)
theory Workflow_Progress imports Workflow_Executor_Frame Arbiter_Properties
begin

text \<open>
  The interpretations of \<open>executor_frame\<close> on the executor: the step persisted in the workflow
  row counts the advances of the effect history, nothing but the top level advances, and a
  run keeps the device slots. Then the facts on the history of one step that the
  properties use.
\<close>

section \<open>The workflow rows and the arbiter\<close>

definition rows_kept :: "'a tx \<Rightarrow> bool" where
  "rows_kept m \<longleftrightarrow> (\<forall>db x db'. m db = Inr (x, db') \<longrightarrow> ad_workflows db' = ad_workflows db)"

named_theorems row_keeping "transactions that leave the workflow rows alone"

lemma rows_kept_bind [row_keeping]: "rows_kept m \<Longrightarrow> (\<And>x. rows_kept (f x)) \<Longrightarrow> rows_kept (tx_bind m f)"
  unfolding rows_kept_def tx_bind_def by (fastforce split: sum.splits prod.splits)

lemma rows_kept_pure [row_keeping]:
  "rows_kept (tx_return x)" "rows_kept (tx_fail e)" "rows_kept (tx_get g)" "rows_kept (tx_try h)"
  by (auto simp: rows_kept_def tx_return_def tx_fail_def tx_get_def tx_try_def split: sum.splits)

lemma rows_kept_option [row_keeping]:
  "rows_kept a \<Longrightarrow> (\<And>y. rows_kept (b y)) \<Longrightarrow> rows_kept (case x of None \<Rightarrow> a | Some y \<Rightarrow> b y)"
  by (cases x) auto

lemma rows_kept_if [row_keeping]: "rows_kept a \<Longrightarrow> rows_kept b \<Longrightarrow> rows_kept (if c then a else b)"
  by simp

lemma rows_kept_statements [row_keeping]:
  "rows_kept (insertEvent e)" "rows_kept (insertRoot now newId device kind external request m)"
  "rows_kept (upsertOperation now r kind i target lane wt m)"
  "rows_kept (updateRootTerminal now i device g to1 reason m)"
  "rows_kept (updateOperationState now kind i from1 to1 g' wh m)"
  by (auto simp: rows_kept_def insertEvent_def insertRoot_def upsertOperation_def updateRootTerminal_def
      update_roots_def updateOperationState_def Let_def split: option.splits sum.splits if_splits)

lemma rows_kept_events [row_keeping]:
  "rows_kept (note_event r d type actor reason ms)" "rows_kept (move_event r r' type actor reason ms)"
  "rows_kept (birth_event r type actor reason ms)" "rows_kept (device_event d type actor reason ms)"
  unfolding note_event_def move_event_def birth_event_def device_event_def by (rule row_keeping)+

lemma observeAdmission_rows: "rows_kept (observeAdmission now newId i)"
  unfolding observeAdmission_def admit_new_def admit_duplicate_def Let_def by (intro row_keeping)

lemma finishServerWorkflowRoot_rows: "rows_kept (finishServerWorkflowRoot now i successful)"
  unfolding finishServerWorkflowRoot_def finish_accepted_def finish_operation_def Let_def by (intro row_keeping)

lemma rows_kept_commit: "rows_kept m \<Longrightarrow> ad_workflows (snd (withTransaction m db)) = ad_workflows db"
  by (auto simp: rows_kept_def withTransaction_def split: sum.splits)

section \<open>The persisted step\<close>

definition persisted_steps :: "string \<Rightarrow> workflow_row list \<Rightarrow> int option list" where
  "persisted_steps i rows = map wf_current_step (filter (\<lambda>r. wf_id r = i) rows)"

text \<open>The steps a history has advanced over, in order.\<close>

definition advances :: "workflow_effect list \<Rightarrow> nat list" where
  "advances l = concat (map (\<lambda>e. case e of
      CheckpointSaved new old ok \<Rightarrow> if ok \<and> new = Suc old then [old] else []
    | _ \<Rightarrow> []) l)"

lemma advances_append [simp]: "advances (l @ l') = advances l @ advances l'"
  by (simp add: advances_def)

lemma advances_Nil [simp]: "advances [] = []"
  by (simp add: advances_def)

lemma advances_effect [simp]: "\<not> is_save e \<Longrightarrow> advances [e] = []"
  by (cases e) (simp_all add: advances_def)

lemma advances_save [simp]:
  "advances [CheckpointSaved new old ok] = (if ok \<and> new = Suc old then [old] else [])"
  by (simp add: advances_def)

text \<open>What a transition of the workflow does to the persisted step.\<close>

lemma transition_persisted:
  assumes "transitionWorkflowWhere lc now i sel p extra rows = (r, ws)"
  shows "r = None \<and> ws = rows \<or>
    (\<exists>q e. q \<in> set rows \<and> wf_id q = i \<and> extra q \<and> r = Some (apply_workflow (now, p) e q)
       \<and> ws = update_where (\<lambda>x. wf_id x = i) (apply_workflow (now, p) e) rows)"
proof (cases "first_row (filter (\<lambda>w. wf_id w = i \<and> extra w) rows)")
  case None
  then show ?thesis using assms unfolding transitionWorkflowWhere_def move_row_def by simp
next
  case (Some q)
  then have q: "q \<in> set rows" "wf_id q = i" "extra q" using first_row_in[OF Some] by auto
  show ?thesis using assms Some q unfolding transitionWorkflowWhere_def move_row_def
    by (auto split: option.splits)
qed

lemma persisted_update:
  assumes "\<And>x. wf_id (f x) = wf_id x"
  shows "persisted_steps i (update_where (\<lambda>x. wf_id x = i) f rows)
    = map (\<lambda>x. wf_current_step (f x)) (filter (\<lambda>x. wf_id x = i) rows)"
  using assms by (induction rows) (auto simp: persisted_steps_def update_where_def)

lemma apply_workflow_step [simp]:
  "wf_current_step (apply_workflow (now, p) e q) = coalesce (wp_current_step p) (wf_current_step q)"
  by (simp add: apply_workflow_def)

lemma transition_step_unchanged:
  assumes "transitionWorkflowWhere lc now i sel p extra rows = (r, ws)" "wp_current_step p = None"
  shows "persisted_steps i ws = persisted_steps i rows"
  using transition_persisted[OF assms(1)] assms(2)
  by (auto simp: persisted_update row_laws) (simp add: persisted_steps_def)

lemma transition_step_saved:
  assumes "transitionWorkflowWhere lc now i sel p (\<lambda>q. wf_current_step q = Some (int old)) rows = (r, ws)"
    and "wp_current_step p = Some (int new)" "persisted_steps i rows = [Some (int n)]"
  shows "persisted_steps i ws = [Some (int (if r \<noteq> None then new else n))] \<and> (r \<noteq> None \<longrightarrow> old = n)"
  using transition_persisted[OF assms(1)]
proof
  assume "r = None \<and> ws = rows"
  then show ?thesis using assms(3) by simp
next
  assume "\<exists>q e. q \<in> set rows \<and> wf_id q = i \<and> wf_current_step q = Some (int old)
    \<and> r = Some (apply_workflow (now, p) e q)
    \<and> ws = update_where (\<lambda>x. wf_id x = i) (apply_workflow (now, p) e) rows"
  then obtain q e where q: "q \<in> set rows" "wf_id q = i" "wf_current_step q = Some (int old)"
    and r: "r = Some (apply_workflow (now, p) e q)"
    and ws: "ws = update_where (\<lambda>x. wf_id x = i) (apply_workflow (now, p) e) rows" by auto
  have "Some (int old) \<in> set (persisted_steps i rows)"
    using q by (auto simp: persisted_steps_def intro: rev_image_eqI)
  then have "old = n" using assms(3) by simp
  moreover have "persisted_steps i ws = map (\<lambda>_. Some (int new)) (persisted_steps i rows)"
    unfolding ws by (simp add: persisted_update row_laws assms(2)) (simp add: persisted_steps_def)
  ultimately show ?thesis using r assms(3) by simp
qed

text \<open>
  The assertion of the interpretation: while the other sessions leave the persisted step
  alone, it is the step at the start plus the number of advances.
\<close>

definition step_untouched :: "workflow_world \<Rightarrow> string \<Rightarrow> bool" where
  "step_untouched w i \<longleftrightarrow>
     (\<forall>n db. persisted_steps i (ad_workflows (ww_others w n db)) = persisted_steps i (ad_workflows db))"

definition step_counts :: "workflow_world \<Rightarrow> string \<Rightarrow> nat \<Rightarrow> nat \<Rightarrow> arb_db \<Rightarrow> workflow_effect list \<Rightarrow> bool" where
  "step_counts w i n0 k0 db l \<longleftrightarrow> (step_untouched w i \<longrightarrow>
     (\<exists>n. persisted_steps i (ad_workflows db) = [Some (int n)] \<and> n + k0 = n0 + length (advances l)))"

interpretation progress: executor_run_frame w i True "step_counts w i n0 k0" for w i n0 k0
proof
  show "step_counts w i n0 k0 (ww_others w n db) l" if "step_counts w i n0 k0 db l" for n db l
    using that by (simp add: step_counts_def step_untouched_def)
  show "step_counts w i n0 k0 db (l @ [e])" if "step_counts w i n0 k0 db l" "\<not> is_save e" for db l e
    using that by (simp add: step_counts_def)
  show "step_counts w i n0 k0 (db\<lparr>ad_workflows := ws\<rparr>) l"
    if "step_counts w i n0 k0 db l" "transitionWorkflowWhere (ad_lc db) now i paused_selector no_workflow_patch
      (\<lambda>_. True) (ad_workflows db) = (r, ws)" for db l now r ws
    using that(1) transition_step_unchanged[OF that(2)] by (simp add: step_counts_def no_workflow_patch_def)
  show "step_counts w i n0 k0 (db\<lparr>ad_workflows := ws\<rparr>) (l @ [CheckpointSaved new old (r \<noteq> None)])"
    if "step_counts w i n0 k0 db l" "new = old \<or> True \<and> new = Suc old"
      "transitionWorkflowWhere (ad_lc db) now i running_selector
        (no_workflow_patch\<lparr>wp_checkpoint := Some v, wp_current_step := Some (int new)\<rparr>)
        (\<lambda>r. wf_current_step r = Some (int old)) (ad_workflows db) = (r, ws)" for db l new old now v r ws
    unfolding step_counts_def
  proof
    note a = that
    assume "step_untouched w i"
    then obtain n where n: "persisted_steps i (ad_workflows db) = [Some (int n)]" "n + k0 = n0 + length (advances l)"
      using a(1) by (auto simp: step_counts_def)
    have "persisted_steps i ws = [Some (int (if r \<noteq> None then new else n))]" "r \<noteq> None \<longrightarrow> old = n"
      using transition_step_saved[OF a(3), of new n] n(1) by simp_all
    then show "\<exists>m. persisted_steps i (ad_workflows (db\<lparr>ad_workflows := ws\<rparr>)) = [Some (int m)]
        \<and> m + k0 = n0 + length (advances (l @ [CheckpointSaved new old (r \<noteq> None)]))"
      using n(2) a(2) by (cases "r = None") auto
  qed
  show "step_counts w i n0 k0 db (l @ [CheckpointSaved new old False])"
    if "step_counts w i n0 k0 db l" for db l new old
    using that by (simp add: step_counts_def)
  show True by simp
  show "step_counts w i n0 k0 (db\<lparr>ad_workflows := ws\<rparr>) l"
    if "step_counts w i n0 k0 db l" "wp_current_step p = None"
      "transitionWorkflowWhere (ad_lc db) now i sel p (\<lambda>_. True) (ad_workflows db) = (r, ws)" for db l p now sel r ws
    using that(1) transition_step_unchanged[OF that(3,2)] by (simp add: step_counts_def)
  show "step_counts w i n0 k0 (snd (withTransaction (observeAdmission now newId ai) db)) l"
    if "step_counts w i n0 k0 db l" for db l now newId ai
    using that by (simp add: step_counts_def rows_kept_commit[OF observeAdmission_rows])
  show "step_counts w i n0 k0 (snd (withTransaction (finishServerWorkflowRoot now wi successful) db)) l"
    if "step_counts w i n0 k0 db l" for db l now wi successful
    using that by (simp add: step_counts_def rows_kept_commit[OF finishServerWorkflowRoot_rows])
qed

end
