(* ===== verification/Workflow_History.thy ===== *)
theory Workflow_History imports Workflow_Progress
begin

text \<open>
  Further interpretations of \<open>executor_frame\<close> (only the top level advances; a run keeps the
  device slots) and the effect history of a step: an action step that returns ends with an
  accepted successful result of its own action.
\<close>

section \<open>Only the top level advances\<close>

definition quiet_since :: "workflow_effect list \<Rightarrow> arb_db \<Rightarrow> workflow_effect list \<Rightarrow> bool" where
  "quiet_since l0 db l \<longleftrightarrow> (\<exists>l'. l = l0 @ l' \<and> advances l' = [])"

interpretation quiet: executor_frame w i False "quiet_since l0" for w i l0
proof
  show "quiet_since l0 (ww_others w n db) l" if "quiet_since l0 db l" for n db l
    using that by (simp add: quiet_since_def)
  show "quiet_since l0 db (l @ [e])" if "quiet_since l0 db l" "\<not> is_save e" for db l e
    using that by (force simp: quiet_since_def)
  show "quiet_since l0 (db\<lparr>ad_workflows := ws\<rparr>) l" if "quiet_since l0 db l" for db l ws
    using that by (simp add: quiet_since_def)
  show "quiet_since l0 (db\<lparr>ad_workflows := ws\<rparr>) (l @ [CheckpointSaved new old (r \<noteq> None)])"
    if "quiet_since l0 db l" "new = old \<or> False \<and> new = Suc old" for db l new old ws r
    using that by (force simp: quiet_since_def)
  show "quiet_since l0 db (l @ [CheckpointSaved new old False])" if "quiet_since l0 db l" for db l new old
    using that by (force simp: quiet_since_def)
qed

section \<open>Device slots\<close>

text \<open>
  The other sessions run slot-respecting arbiter transactions and change workflow rows as they
  like.
\<close>

definition others_respect_slots :: "workflow_world \<Rightarrow> bool" where
  "others_respect_slots w \<longleftrightarrow>
     (\<forall>n db. \<exists>db' ws. slot_step\<^sup>*\<^sup>* db db' \<and> ww_others w n db = db'\<lparr>ad_workflows := ws\<rparr>)"

lemma slotted_rows: "slotted db0 rs db \<Longrightarrow> slotted db0 rs (db\<lparr>ad_workflows := ws\<rparr>)"
  using slots_cong[of "db\<lparr>ad_workflows := ws\<rparr>" db]
  by (auto simp: slotted_def continues_def arb_ok_def history_def)

lemma slotted_steps:
  assumes "slot_step\<^sup>*\<^sup>* db db'" "slotted db0 {} db"
  shows "slotted db0 {} db'"
  using assms
proof (induction rule: rtranclp_induct)
  case (step y z)
  then show ?case using slot_step_keeps[OF slot.arbiter_frame_axioms] by blast
qed

definition slots_kept :: "workflow_world \<Rightarrow> arb_db \<Rightarrow> arb_db \<Rightarrow> workflow_effect list \<Rightarrow> bool" where
  "slots_kept w db0 db l \<longleftrightarrow> (others_respect_slots w \<longrightarrow> slotted db0 {} db)"

interpretation owner: executor_run_frame w i True "slots_kept w db0" for w i db0
proof
  show "slots_kept w db0 (ww_others w n db) l" if "slots_kept w db0 db l" for n db l
  proof -
    note a = that
    show ?thesis unfolding slots_kept_def
    proof
      assume o1: "others_respect_slots w"
      then obtain db' ws where "slot_step\<^sup>*\<^sup>* db db'" "ww_others w n db = db'\<lparr>ad_workflows := ws\<rparr>"
        unfolding others_respect_slots_def by blast
      then show "slotted db0 {} (ww_others w n db)"
        using a o1 slotted_rows slotted_steps by (simp add: slots_kept_def)
    qed
  qed
  show "slots_kept w db0 db (l @ [e])" if "slots_kept w db0 db l" for db l e
    using that by (simp add: slots_kept_def)
  show "slots_kept w db0 (db\<lparr>ad_workflows := ws\<rparr>) l" if "slots_kept w db0 db l" for db l ws
    using that slotted_rows by (simp add: slots_kept_def)
  then show "slots_kept w db0 (db\<lparr>ad_workflows := ws\<rparr>) l" if "slots_kept w db0 db l" for db l ws
    using that .
  show "slots_kept w db0 (db\<lparr>ad_workflows := ws\<rparr>) (l @ [CheckpointSaved new old (r \<noteq> None)])"
    if "slots_kept w db0 db l" for db l new old ws r
    using that slotted_rows by (simp add: slots_kept_def)
  show "slots_kept w db0 db (l @ [CheckpointSaved new old False])" if "slots_kept w db0 db l" for db l new old
    using that by (simp add: slots_kept_def)
  show True by simp
  show "slots_kept w db0 (snd (withTransaction (observeAdmission now newId ai) db)) l"
    if "slots_kept w db0 db l" for db l now newId ai
    using that slot_step_keeps[OF slot.arbiter_frame_axioms slot_step.admission] by (simp add: slots_kept_def after_def)
  show "slots_kept w db0 (snd (withTransaction (finishServerWorkflowRoot now wi successful) db)) l"
    if "slots_kept w db0 db l" for db l now wi successful
    using that slot_step_keeps[OF slot.arbiter_frame_axioms slot_step.finish] by (simp add: slots_kept_def after_def)
qed

section \<open>Histories\<close>

definition accepted_results :: "workflow_effect list \<Rightarrow> (string \<times> nat \<times> bool) list" where
  "accepted_results l = concat (map (\<lambda>e. case e of ResultAccepted a i _ ok \<Rightarrow> [(a, i, ok)] | _ \<Rightarrow> []) l)"

definition last_accepted :: "workflow_effect list \<Rightarrow> (string \<times> nat \<times> bool) option" where
  "last_accepted l = first_row (rev (accepted_results l))"

definition is_accept :: "workflow_effect \<Rightarrow> bool" where
  "is_accept e \<longleftrightarrow> (case e of ResultAccepted _ _ _ _ \<Rightarrow> True | _ \<Rightarrow> False)"

lemma last_accepted_simps [simp]:
  "last_accepted (l @ [ResultAccepted a i j ok]) = Some (a, i, ok)"
  "\<not> is_accept e \<Longrightarrow> last_accepted (l @ [e]) = last_accepted l"
  by (cases e; simp add: last_accepted_def accepted_results_def is_accept_def)+

text \<open>Triples whose assertions only read the history.\<close>

definition log_sat :: "(workflow_effect list \<Rightarrow> bool) \<Rightarrow> 'a ex \<Rightarrow> ('a \<Rightarrow> workflow_effect list \<Rightarrow> bool)
    \<Rightarrow> (string \<Rightarrow> workflow_effect list \<Rightarrow> bool) \<Rightarrow> bool" where
  "log_sat P m Q R \<longleftrightarrow> ex_sat (\<lambda>s. P (xs_log s)) m (\<lambda>x s. Q x (xs_log s)) (\<lambda>e s. R e (xs_log s))"

lemma log_sat_bind: "log_sat P m Q' R \<Longrightarrow> (\<And>x. log_sat (Q' x) (f x) Q R) \<Longrightarrow> log_sat P (ex_bind m f) Q R"
  unfolding log_sat_def by (rule ex_sat_bind)

lemma log_sat_then: "log_sat P m (\<lambda>_. Q') R \<Longrightarrow> log_sat Q' k Q R \<Longrightarrow> log_sat P (ex_then m k) Q R"
  unfolding log_sat_def by (rule ex_sat_then)

lemma log_sat_catch: "log_sat P m Q R' \<Longrightarrow> (\<And>e. log_sat (R' e) (h e) Q R) \<Longrightarrow> log_sat P (ex_catch m h) Q R"
  unfolding log_sat_def by (rule ex_sat_catch)

lemma log_sat_weaken:
  "log_sat P m Q R \<Longrightarrow> (\<And>l. P' l \<Longrightarrow> P l) \<Longrightarrow> (\<And>x l. Q x l \<Longrightarrow> Q' x l) \<Longrightarrow> (\<And>e l. R e l \<Longrightarrow> R' e l) \<Longrightarrow>
     log_sat P' m Q' R'"
  unfolding log_sat_def by (erule ex_sat_weaken) auto

lemma log_sat_return: "(\<And>l. P l \<Longrightarrow> Q x l) \<Longrightarrow> log_sat P (ex_return x) Q R"
  unfolding log_sat_def by (rule ex_sat_return)

lemma log_sat_throw: "(\<And>l. P l \<Longrightarrow> R e l) \<Longrightarrow> log_sat P (ex_throw e) Q R"
  unfolding log_sat_def by (rule ex_sat_throw)

lemma log_sat_log: "(\<And>l. P l \<Longrightarrow> Q () (l @ [e])) \<Longrightarrow> log_sat P (ex_log e) Q R"
  by (simp add: log_sat_def ex_sat_def ex_log_def)

text \<open>Computations that add nothing to the history.\<close>

definition silent :: "'a ex \<Rightarrow> bool" where
  "silent m \<longleftrightarrow> (\<forall>s. xs_log (snd (m s)) = xs_log s)"

lemma silent_simps [simp]:
  "silent (ex_return x)" "silent (ex_throw e)" "silent (ex_lift r)" "silent ex_checkpoint"
  "silent (ex_modify f)" "silent (ex_ask g)" "silent (ex_db w h)"
  by (auto simp: silent_def ex_return_def ex_throw_def ex_lift_def ex_checkpoint_def ex_modify_def ex_ask_def
      ex_db_def Let_def split: option.splits prod.splits)

lemma silent_bind: "silent m \<Longrightarrow> (\<And>x. silent (f x)) \<Longrightarrow> silent (ex_bind m f)"
  unfolding silent_def ex_bind_def
  by (auto split: prod.splits sum.splits) (metis snd_conv)+

lemma silent_more [simp]:
  "silent (ex_try t)" "silent (ex_stamp w)" "silent count_deterministic" "silent count_failed" "silent count_retried"
  by (simp_all add: ex_try_def ex_stamp_def count_deterministic_def count_failed_def count_retried_def silent_bind)

lemma silent_result: "silent m \<Longrightarrow> m s = (r, s') \<Longrightarrow> xs_log s' = xs_log s"
  unfolding silent_def by (metis snd_conv)

lemma log_sat_silent: "silent m \<Longrightarrow> log_sat P m (\<lambda>_. P) (\<lambda>_. P)"
  unfolding log_sat_def by (rule ex_satI) (auto dest: silent_result)

lemma log_sat_keeps: "keeps (\<lambda>_. P) m \<Longrightarrow> log_sat P m (\<lambda>_. P) (\<lambda>_. P)"
  unfolding log_sat_def by (rule ex_satI) (auto dest: keeps_result)

section \<open>The history of a step\<close>

definition grown :: "workflow_effect list \<Rightarrow> workflow_effect list \<Rightarrow> bool" where
  "grown l0 l \<longleftrightarrow> (\<exists>l'. l = l0 @ l')"

lemma grown_snoc [simp]: "grown l0 l \<Longrightarrow> grown l0 (l @ [e])"
  by (auto simp: grown_def)

interpretation growth: executor_frame w i True "\<lambda>_. grown l0" for w i l0
  by unfold_locales simp_all

text \<open>The last result accepted since \<open>l0\<close> is for the action and the index, with the given outcome.\<close>

definition last_result :: "workflow_effect list \<Rightarrow> string \<Rightarrow> nat \<Rightarrow> bool \<Rightarrow> workflow_effect list \<Rightarrow> bool" where
  "last_result l0 a i ok l \<longleftrightarrow> (\<exists>l'. l = l0 @ l' \<and> last_accepted l' = Some (a, i, ok))"

lemma last_result_grown: "last_result l0 a i ok l \<Longrightarrow> grown l0 l"
  by (auto simp: last_result_def grown_def)

lemma last_result_accept: "grown l0 l \<Longrightarrow> last_result l0 a i ok (l @ [ResultAccepted a i j ok])"
  by (auto simp: grown_def last_result_def)

lemma last_result_other: "last_result l0 a i ok l \<Longrightarrow> \<not> is_accept e \<Longrightarrow> last_result l0 a i ok (l @ [e])"
  by (force simp: last_result_def)

lemma transmit_history:
  "log_sat (grown l0) (transmit_action w rc a i d p) (\<lambda>r. last_result l0 (as_action a) i (jr_successful r)) (\<lambda>_. grown l0)"
  unfolding transmit_action_def Let_def
proof (intro log_sat_then log_sat_bind)
  show "log_sat (grown l0) (ex_log e) (\<lambda>_. grown l0) (\<lambda>_. grown l0)" for e by (rule log_sat_log) simp
  then show "log_sat (grown l0) (ex_log e) (\<lambda>_. grown l0) (\<lambda>_. grown l0)" for e .
  show "log_sat (grown l0) (ex_catch (ex_try t) (\<lambda>e. ex_then (ex_log (JobEvent j k i)) (ex_throw e)))
      (\<lambda>_. grown l0) (\<lambda>_. grown l0)" for t :: "nat \<Rightarrow> send_result res" and j k
    by (rule log_sat_keeps) (intro keeping growth.log_keeps, simp)
  show "log_sat (grown l0) (assert_dispatched x) (\<lambda>_. grown l0) (\<lambda>_. grown l0)" for x
    by (rule log_sat_keeps) (rule growth.assert_dispatched_keeps)
  show "log_sat (grown l0) (ex_catch (awaitGeneratedChildJobResult w j ms)
      (\<lambda>e. ex_then (ex_log (JobEvent j (f e) i)) (ex_throw e))) (\<lambda>_. grown l0) (\<lambda>_. grown l0)" for j ms f
    by (rule log_sat_keeps) (intro keeping growth.log_keeps growth.await_keeps, simp)
  show "log_sat (grown l0) (ex_log (ResultAccepted (as_action a) i (dc_job d) (jr_successful x)))
      (\<lambda>_. last_result l0 (as_action a) i (jr_successful x)) (\<lambda>_. grown l0)" for x
    by (rule log_sat_log) (rule last_result_accept)
  show "log_sat (last_result l0 (as_action a) i (jr_successful x)) (ex_return x)
      (\<lambda>r. last_result l0 (as_action a) i (jr_successful r)) (\<lambda>_. grown l0)" for x
    by (rule log_sat_return)
qed

lemma log_sat_if: "(c \<Longrightarrow> log_sat P a Q R) \<Longrightarrow> (\<not> c \<Longrightarrow> log_sat P b Q R) \<Longrightarrow> log_sat P (if c then a else b) Q R"
  by simp

lemma log_sat_option:
  "log_sat P a Q R \<Longrightarrow> (\<And>y. log_sat P (b y) Q R) \<Longrightarrow> log_sat P (case x of None \<Rightarrow> a | Some y \<Rightarrow> b y) Q R"
  by (cases x) auto

text \<open>A computation that keeps the growth and never returns normally here.\<close>

lemma log_sat_pass: "silent m \<Longrightarrow> (\<And>x. log_sat P (f x) Q R) \<Longrightarrow> (\<And>l. P l \<Longrightarrow> R' l) \<Longrightarrow> (\<And>e l. R' l \<Longrightarrow> R e l)
    \<Longrightarrow> log_sat P (ex_bind m f) Q R"
  by (rule log_sat_bind [where Q' = "\<lambda>_. P"], rule log_sat_weaken [OF log_sat_silent [of m P]]) auto

lemma log_sat_grown:
  "keeps (\<lambda>_. grown l0) m \<Longrightarrow> (\<And>x. log_sat (grown l0) (f x) Q (\<lambda>_. grown l0)) \<Longrightarrow>
     log_sat (grown l0) (ex_bind m f) Q (\<lambda>_. grown l0)"
  by (rule log_sat_bind [OF log_sat_keeps])

lemma log_sat_grown_then:
  "keeps (\<lambda>_. grown l0) m \<Longrightarrow> log_sat (grown l0) k Q (\<lambda>_. grown l0) \<Longrightarrow>
     log_sat (grown l0) (ex_then m k) Q (\<lambda>_. grown l0)"
  unfolding ex_then_def by (rule log_sat_grown)

lemma log_sat_stop: "log_sat (grown l0) (ex_throw e) Q (\<lambda>_. grown l0)"
  by (rule log_sat_throw)

lemma attempt_history:
  "log_sat (grown l0) (attempt_action w rc a i)
     (\<lambda>x. last_result l0 (as_action a) i (jr_successful (snd (snd x)))) (\<lambda>_. grown l0)"
proof -
  have sent: "log_sat (grown l0) (ex_bind (transmit_action w rc a i d p) (\<lambda>result. ex_return (d, p, result)))
      (\<lambda>x. last_result l0 (as_action a) i (jr_successful (snd (snd x)))) (\<lambda>_. grown l0)" for d p
    by (rule log_sat_bind [OF transmit_history]) (rule log_sat_return, simp)
  show ?thesis unfolding attempt_action_def
    by (intro log_sat_grown log_sat_grown_then log_sat_if log_sat_option log_sat_stop sent keeping
        growth.log_keeps growth.read_keeps growth.markPaused_keeps) simp
qed

lemma accept_history:
  "log_sat (last_result l0 b j True) (accept_action w a i d p r) (\<lambda>_. last_result l0 b j True) (\<lambda>_. grown l0)"
proof -
  have pass: "log_sat (last_result l0 b j True) m (\<lambda>_. last_result l0 b j True) (\<lambda>_. grown l0)"
    if "silent m" for m :: "unit ex"
    by (rule log_sat_weaken [OF log_sat_silent [OF that, of "last_result l0 b j True"]]) (auto intro: last_result_grown)
  have artifact: "silent (materializeScreenshotArtifact w x o1)" for x o1
    unfolding materializeScreenshotArtifact_def Let_def by (intro silent_bind) simp_all
  have slept: "log_sat (last_result l0 b j True) (sleep ms) (\<lambda>_. last_result l0 b j True) (\<lambda>_. grown l0)" for ms
    unfolding sleep_def by (rule log_sat_log) (simp add: last_result_other is_accept_def)
  show ?thesis unfolding accept_action_def Let_def ex_when_def
    by (intro log_sat_then [where Q' = "last_result l0 b j True"] log_sat_option log_sat_if pass slept artifact) simp_all
qed

lemma settle_history:
  assumes "\<And>e l. log_sat (grown l0) (failed e) (\<lambda>_. last_result l0 (as_action a) i True) (\<lambda>_. grown l0)"
  shows "log_sat (last_result l0 (as_action a) i (jr_successful (snd (snd x)))) (settle_action w a i failed x)
    (\<lambda>_. last_result l0 (as_action a) i True) (\<lambda>_. grown l0)"
proof (cases x)
  case (fields d p r)
  show ?thesis
  proof (cases "jr_successful r")
    case True
    then show ?thesis using accept_history by (simp add: fields settle_action_def)
  next
    case False
    have "log_sat (last_result l0 (as_action a) i ok) (failed e) (\<lambda>_. last_result l0 (as_action a) i True)
        (\<lambda>_. grown l0)" for ok e
      by (rule log_sat_weaken [OF assms]) (auto dest: last_result_grown)
    then show ?thesis using False by (simp add: fields settle_action_def)
  qed
qed

lemma action_history:
  "log_sat (grown l0) (executeActionStep w rc a i n) (\<lambda>_. last_result l0 (as_action a) i True) (\<lambda>_. grown l0)"
proof (induction n)
  case 0
  show ?case unfolding executeActionStep.simps
    by (rule log_sat_bind [OF attempt_history settle_history]) (rule log_sat_stop)
next
  case (Suc n)
  show ?case unfolding executeActionStep.simps
    by (rule log_sat_bind [OF attempt_history settle_history]) (rule Suc.IH)
qed

lemma counted_history: "log_sat P count_deterministic (\<lambda>_. P) R"
  unfolding log_sat_def by (rule ex_satI) (auto simp: count_deterministic_def ex_modify_def)

lemma retry_history:
  assumes "log_sat (grown l0) step (\<lambda>_. T) (\<lambda>_. grown l0)"
  shows "log_sat (grown l0) (retry_step w rc i step) (\<lambda>_. T) (\<lambda>_. grown l0)"
  unfolding retry_step_def
proof (rule log_sat_catch)
  show "log_sat (grown l0) (ex_then count_retried (ex_then step count_deterministic)) (\<lambda>_. T) (\<lambda>_. grown l0)"
    by (intro log_sat_grown_then growth.counts_keep log_sat_then [OF assms] counted_history)
  show "log_sat (grown l0) (ex_then (save_failure w rc i) (ex_throw e)) (\<lambda>_. T) (\<lambda>_. grown l0)" for e
    by (intro log_sat_grown_then growth.save_failure_keeps log_sat_stop) simp
qed

lemma recover_history:
  assumes "log_sat (grown l0) (executeStep w rc s i) (\<lambda>_. T) (\<lambda>_. grown l0)"
  shows "log_sat (grown l0) (recover_step w rc s i err) (\<lambda>_. T) (\<lambda>_. grown l0)"
  unfolding recover_step_def
  by (intro log_sat_grown_then log_sat_grown log_sat_option log_sat_if log_sat_stop retry_history assms
      growth.counts_keep growth.record_failure_keeps growth.save_failure_keeps growth.recovery_keeps) simp_all

lemma attempt_step_history:
  assumes "log_sat (grown l0) (executeStep w rc s i) (\<lambda>_. T) (\<lambda>_. grown l0)"
  shows "log_sat (grown l0) (attempt_step w rc s i) (\<lambda>_. T) (\<lambda>_. grown l0)"
  unfolding attempt_step_def
  by (rule log_sat_catch [OF log_sat_then [OF assms counted_history] recover_history [OF assms]])

end
