(* ===== verification/Workflow_Executor_Properties.thy ===== *)
theory Workflow_Executor_Properties imports Workflow_History
begin

text \<open>
  The properties of the server workflow executor, with samples for the witnesses and the
  behaviours that deviate from what the executor means to do.
\<close>

section \<open>One iteration of the top level\<close>

lemma first_row_append: "first_row xs = Some v \<Longrightarrow> first_row (xs @ ys) = Some v"
  by (cases xs) auto

lemma last_accepted_append: "last_accepted l' = Some v \<Longrightarrow> last_accepted (l @ l') = Some v"
  by (simp add: last_accepted_def accepted_results_def first_row_append)

lemma advances_mem: "CheckpointSaved (Suc j) j True \<in> set l \<Longrightarrow> advances l \<noteq> []"
  by (force simp: advances_def)

lemma proceed_log: "proceed w rc i s = (r, s') \<Longrightarrow> xs_log s' = xs_log s"
proof (rule silent_result [of "proceed w rc i"])
  show "silent (proceed w rc i)" unfolding proceed_def service_get_def
    by (intro silent_bind) (auto split: option.splits)
qed

definition terminal_in :: "string \<Rightarrow> arb_db \<Rightarrow> bool" where
  "terminal_in i db \<longleftrightarrow> (case workflow_get i db of None \<Rightarrow> False | Some (_, st) \<Rightarrow> ls_terminal st)"

lemma proceed_False: "proceed w rc i s = (Inr False, s') \<Longrightarrow> terminal_in (rx_workflow rc) (xs_db s')"
  by (auto simp: proceed_def service_get_def ex_db_def ex_bind_def ex_return_def ex_throw_def Let_def terminal_in_def
      split: option.splits prod.splits sum.splits if_splits)

lemma attempt_step_log:
  assumes "attempt_step w rc s i st = (r, st')"
  shows "\<exists>l. xs_log st' = xs_log st @ l \<and> advances l = []
    \<and> (r = Inr () \<longrightarrow> (\<forall>a. s = ActionStep a \<longrightarrow> last_accepted l = Some (as_action a, i, True)))"
proof -
  have "quiet_since (xs_log st) (xs_db st') (xs_log st')"
    by (rule keeps_result [OF quiet.attempt_step_keeps [OF refl] _ assms]) (simp add: quiet_since_def)
  then obtain l where l: "xs_log st' = xs_log st @ l" "advances l = []" by (auto simp: quiet_since_def)
  have "last_accepted l = Some (as_action a, i, True)" if a: "s = ActionStep a" and r: "r = Inr ()" for a
  proof -
    have "log_sat (grown (xs_log st)) (attempt_step w rc s i) (\<lambda>_. last_result (xs_log st) (as_action a) i True)
        (\<lambda>_. grown (xs_log st))"
      unfolding a by (rule attempt_step_history) (simp add: action_history)
    then have "last_result (xs_log st) (as_action a) i True (xs_log st')"
      using ex_satD_Inr assms unfolding log_sat_def r by (fastforce simp: grown_def)
    then show ?thesis using l(1) by (simp add: last_result_def)
  qed
  then show ?thesis using l by blast
qed

lemma save_log:
  "\<exists>ok s1. saveCheckpoint w v c new old s = (Inr ok, s1) \<and> xs_log s1 = xs_log s @ [CheckpointSaved new old ok]"
  by (auto simp: saveCheckpoint_def service_transition_def ex_db_def Let_def ex_bind_def ex_catch_def ex_then_def
      ex_return_def ex_log_def split: option.splits prod.splits sum.splits)

lemma advance_log:
  assumes "advance_checkpoint w rc i st = (r, st')"
  shows "xs_log st' = xs_log st @ [CheckpointSaved (Suc i) i (r = Inr ())]"
proof -
  define s0 where "s0 = st\<lparr>xs_tick := Suc (xs_tick st)\<rparr>"
  define c where "c = (xs_checkpoint st)\<lparr>wc_step := Suc i, wc_at := ww_iso w (ww_now w (xs_tick st))\<rparr>"
  obtain ok s1 where s1: "saveCheckpoint w (rx_workflow rc) c (Suc i) i s0 = (Inr ok, s1)"
      "xs_log s1 = xs_log st @ [CheckpointSaved (Suc i) i ok]"
    using save_log[of w "rx_workflow rc" c "Suc i" i s0] by (auto simp: s0_def)
  show ?thesis
    using assms s1 unfolding advance_checkpoint_def ex_stamp_def
    by (cases ok) (auto simp: ex_bind_def ex_ask_def ex_checkpoint_def ex_throw_def ex_modify_def c_def s0_def)
qed

text \<open>Every advance of the history over an action follows its accepted successful result.\<close>

definition justified :: "(nat \<Rightarrow> ExecutableStep) \<Rightarrow> workflow_effect list \<Rightarrow> bool" where
  "justified step l \<longleftrightarrow> (\<forall>pre j post. l = pre @ CheckpointSaved (Suc j) j True # post \<longrightarrow>
     (\<forall>a. step j = ActionStep a \<longrightarrow> last_accepted pre = Some (as_action a, j, True)))"

lemma justified_quiet: "advances l = [] \<Longrightarrow> justified step l"
  unfolding justified_def using advances_mem by (metis in_set_conv_decomp)

lemma justified_step:
  assumes l1: "advances l1 = []" "\<forall>a. step i = ActionStep a \<longrightarrow> last_accepted l1 = Some (as_action a, i, True)"
    and l2: "justified step l2"
  shows "justified step (l1 @ CheckpointSaved (Suc i) i True # l2)"
  unfolding justified_def
proof (intro allI impI)
  fix pre j post a
  assume eq: "l1 @ CheckpointSaved (Suc i) i True # l2 = pre @ CheckpointSaved (Suc j) j True # post"
    and a: "step j = ActionStep a"
  have no: "CheckpointSaved (Suc j) j True \<notin> set l1" using advances_mem l1(1) by metis
  consider "pre = l1" "j = i" | u where "pre = l1 @ CheckpointSaved (Suc i) i True # u"
      "l2 = u @ CheckpointSaved (Suc j) j True # post"
    using eq no by (auto simp: append_eq_append_conv2 append_eq_Cons_conv Cons_eq_append_conv)
  then show "last_accepted pre = Some (as_action a, j, True)"
  proof cases
    case 1
    then show ?thesis using l1(2) a by simp
  next
    case 2
    have "last_accepted u = Some (as_action a, j, True)" using l2 2(2) a unfolding justified_def by blast
    then show ?thesis
      using last_accepted_append[of u _ "l1 @ [CheckpointSaved (Suc i) i True]"] 2(1) by simp
  qed
qed

text \<open>
  C17. A run advances over its steps one by one from where it starts, without gaps; it advances
  over an action only after the last result it accepted is a successful result of that very
  action; and when it returns it has advanced over every step, unless the workflow is
  terminal in the tables by then.
\<close>

theorem checkpoint_needs_result:
  "\<exists>l k. xs_log (snd (executeSteps w rc i ss s)) = xs_log s @ l
     \<and> k \<le> length ss \<and> advances l = [i..<i + k]
     \<and> justified (\<lambda>j. ss ! (j - i)) l
     \<and> (fst (executeSteps w rc i ss s) = Inr () \<longrightarrow>
          k = length ss \<or> terminal_in (rx_workflow rc) (xs_db (snd (executeSteps w rc i ss s))))"
proof (induction ss arbitrary: i s)
  case Nil
  show ?case by (auto simp: ex_return_def justified_quiet)
next
  case (Cons x xs)
  obtain p s1 where p: "proceed w rc i s = (p, s1)" by fastforce
  obtain r2 s2 where r2: "attempt_step w rc x i s1 = (r2, s2)" by fastforce
  obtain r3 s3 where r3: "advance_checkpoint w rc i s2 = (r3, s3)" by fastforce
  obtain l1 where l1: "xs_log s2 = xs_log s @ l1" "advances l1 = []"
      "r2 = Inr () \<longrightarrow> (\<forall>a. x = ActionStep a \<longrightarrow> last_accepted l1 = Some (as_action a, i, True))"
    using attempt_step_log[OF r2] proceed_log[OF p] by auto
  have stop: ?case if "executeSteps w rc i (x # xs) s = (r, s')" "xs_log s' = xs_log s @ l" "advances l = []"
      "r = Inr () \<longrightarrow> terminal_in (rx_workflow rc) (xs_db s')" for r s' l
    using that justified_quiet[of l] by (intro exI[of _ l] exI[of _ 0]) simp
  consider e where "p = Inl e" | "p = Inr False" | e where "p = Inr True" "r2 = Inl e"
    | e where "p = Inr True" "r2 = Inr ()" "r3 = Inl e" | "p = Inr True" "r2 = Inr ()" "r3 = Inr ()"
    by (cases p; cases r2; cases r3) auto
  then show ?case
  proof cases
    case 1
    then show ?thesis using p proceed_log[OF p] by (intro stop[of "Inl e" s1 "[]"]) (simp_all add: ex_bind_def)
  next
    case 2
    then show ?thesis using p proceed_log[OF p] proceed_False[of w rc i s s1]
      by (intro stop[of "Inr ()" s1 "[]"]) (simp_all add: ex_bind_def ex_return_def)
  next
    case 3
    then show ?thesis using p r2 l1
      by (intro stop[of "Inl e" s2 l1]) (simp_all add: ex_bind_def ex_then_def)
  next
    case 4
    then show ?thesis using p r2 r3 l1 advance_log[OF r3]
      by (intro stop[of "Inl e" s3 "l1 @ [CheckpointSaved (Suc i) i False]"]) (simp_all add: ex_bind_def ex_then_def)
  next
    case 5
    let ?step = "\<lambda>j. (x # xs) ! (j - i)"
    have run: "executeSteps w rc i (x # xs) s = executeSteps w rc (Suc i) xs s3"
      using 5 p r2 r3 by (simp add: ex_bind_def ex_then_def)
    obtain l k where l: "xs_log (snd (executeSteps w rc (Suc i) xs s3)) = xs_log s3 @ l" "k \<le> length xs"
        "advances l = [Suc i..<Suc i + k]" "justified (\<lambda>j. xs ! (j - Suc i)) l"
        "fst (executeSteps w rc (Suc i) xs s3) = Inr () \<longrightarrow>
          k = length xs \<or> terminal_in (rx_workflow rc) (xs_db (snd (executeSteps w rc (Suc i) xs s3)))"
      using Cons.IH by blast
    have in_l: "Suc i \<le> j" if "l = pre @ CheckpointSaved (Suc j) j True # post" for pre j post
    proof -
      have "j \<in> set (advances l)" unfolding that by (simp add: advances_def)
      then show ?thesis unfolding l(3) set_upt by (simp only: atLeastLessThan_iff)
    qed
    have "justified ?step l"
      unfolding justified_def
    proof (intro allI impI)
      fix pre j post a
      assume eq: "l = pre @ CheckpointSaved (Suc j) j True # post" and a: "?step j = ActionStep a"
      have "j - i = Suc (j - Suc i)" using in_l[OF eq] by arith
      then have "?step j = xs ! (j - Suc i)" by simp
      then show "last_accepted pre = Some (as_action a, j, True)"
        using l(4) eq a unfolding justified_def by simp
    qed
    then have "justified ?step (l1 @ CheckpointSaved (Suc i) i True # l)"
      using l1(2,3) 5 by (intro justified_step) simp_all
    moreover have "xs_log (snd (executeSteps w rc i (x # xs) s)) = xs_log s @ l1 @ CheckpointSaved (Suc i) i True # l"
      using l(1) advance_log[OF r3] l1(1) 5 unfolding run by simp
    moreover have "advances (l1 @ CheckpointSaved (Suc i) i True # l) = [i..<i + Suc k]"
      using l1(2) l(3) advances_append[of "[CheckpointSaved (Suc i) i True]" l] by (simp add: upt_conv_Cons)
    ultimately show ?thesis using l(2,5) unfolding run
      by (intro exI[of _ "l1 @ CheckpointSaved (Suc i) i True # l"] exI[of _ "Suc k"]) simp
  qed
qed

section \<open>Samples\<close>

definition wf_state :: "string \<Rightarrow> lc_state_row" where
  "wf_state s = (plain_state s 1)\<lparr>ls_key := ''wflow''\<rparr>"

definition wf_move :: "string \<Rightarrow> string \<Rightarrow> string \<Rightarrow> LifecycleTransition" where
  "wf_move a f t = (plain_transition a f t)\<lparr>lt_key := ''wflow''\<rparr>"

definition workflow_lc :: lc_db where
  "workflow_lc = arbiter_lc\<lparr>
     db_states := [(wf_state ''waiting'')\<lparr>ls_initial := True\<rparr>, wf_state ''running'',
       (wf_state ''completed'')\<lparr>ls_terminal := True\<rparr>,
       (wf_state ''broken'')\<lparr>ls_terminal := True, ls_retryable := True\<rparr>],
     db_transitions := [(wf_move ''start'' ''waiting'' ''running'')\<lparr>lt_mark_started := True\<rparr>,
       (wf_move ''progress'' ''running'' ''running'')\<lparr>lt_mark_started := True\<rparr>,
       (wf_move ''complete'' ''running'' ''completed'')\<lparr>lt_mark_completed := True, lt_clear_failure := True\<rparr>,
       (wf_move ''fail'' ''running'' ''broken'')\<lparr>lt_mark_completed := True\<rparr>]\<rparr>"

definition first_checkpoint :: WorkflowCheckpoint where
  "first_checkpoint = \<lparr>wc_step = 0, wc_loops = [], wc_variables = [], wc_hbe = [], wc_stats = None, wc_at = []\<rparr>"

definition running_row :: workflow_row where
  "running_row = \<lparr>wf_id = ''w1'', wf_key = ''wflow'', wf_device = Some ''d1'', wf_status = ''running'',
     wf_started = Some 0, wf_completed = None, wf_checkpoint = Some (checkpoint_json first_checkpoint),
     wf_current_step = Some 0, wf_total_steps = Some 2, wf_error = None\<rparr>"

definition tap_action :: "string \<Rightarrow> ExecutableStep" where
  "tap_action a = ActionStep \<lparr>as_id = None, as_action = a, as_params = [], as_verification = None, as_retries = None,
     as_delay = Some 0, as_timeout = Some 1000\<rparr>"

definition repeat_twice :: "ExecutableStep list \<Rightarrow> ExecutableStep" where
  "repeat_twice ss = LoopStep None \<lparr>lo_min = 2, lo_max = 2, lo_opcode = Some 0\<rparr> ss"

definition always :: "ExecutableStep list \<Rightarrow> ExecutableStep" where
  "always ss = ConditionStep \<lparr>cs_id = None, cs_opcode = Some 0, cs_expression = None, cs_probability = Some 1\<rparr> ss []"

definition sample_template :: "ExecutableStep list \<Rightarrow> WorkflowTemplate" where
  "sample_template ss = \<lparr>tp_id = ''t1'', tp_name = ''Sample'', tp_platform = ''*'', tp_description = [],
     tp_version = ''1'', tp_intent = None, tp_safety_class = None, tp_output_schema = None,
     tp_allowed_requests = None,
     tp_recovery = Some [(''maxAttemptsPerStep'', JNum 1), (''maxAttemptsPerWorkflow'', JNum 2),
       (''maxRecoveryActionsPerAttempt'', JNum 0)],
     tp_steps = ss, tp_verification = ''none'', tp_retention_days = 1\<rparr>"

text \<open>A quiet world in which every action but \<^verbatim>\<open>bad\<close> succeeds.\<close>

definition sample_world :: "ExecutableStep list \<Rightarrow> workflow_world" where
  "sample_world ss = \<lparr>ww_others = (\<lambda>_ db. db), ww_db_error = (\<lambda>_. None), ww_now = (\<lambda>n. n), ww_iso = show_nat,
     ww_new_id = (\<lambda>_. ''r1''), ww_online = (\<lambda>_. True), ww_random = (\<lambda>_. 0), ww_gauss = (\<lambda>_. 0),
     ww_log_normal = (\<lambda>_ m. m),
     ww_dispatch = (\<lambda>_ q. Inr \<lparr>dc_job = cq_type q, dc_timeout = cq_timeout q, dc_policy = [],
       dc_params = cq_params q, dc_native = JNull\<rparr>),
     ww_send = (\<lambda>_ _. Inr \<lparr>sr_decision = ''dispatched'', sr_sent = True, sr_queued = False, sr_reason = None\<rparr>),
     ww_result = (\<lambda>_ j. Some \<lparr>jr_successful = (j \<noteq> ''bad''), jr_output = None, jr_error = None, jr_duration = 1,
       jr_verification = None\<rparr>),
     ww_planner = (\<lambda>_ _. Inr None), ww_validate = (\<lambda>_. []), ww_stringify = (\<lambda>_. []), ww_sha256 = (\<lambda>s. s),
     ww_template_of = (\<lambda>_. Some ''t1''), ww_template = (\<lambda>_ _. Inr (Some (sample_template ss))),
     ww_hydrate = (\<lambda>_ t. Inr t), ww_enforced = True, ww_job_result_timeout = 300000\<rparr>"

definition sample_run :: "ExecutableStep list \<Rightarrow> run_context" where
  "sample_run ss = \<lparr>rx_workflow = ''w1'', rx_device = ''d1'', rx_template = sample_template ss\<rparr>"

definition row_at :: "nat \<Rightarrow> json \<Rightarrow> workflow_row" where
  "row_at n v = running_row\<lparr>wf_current_step := Some (int n), wf_checkpoint := Some v\<rparr>"

definition sample_state :: "nat \<Rightarrow> json \<Rightarrow> WorkflowCheckpoint \<Rightarrow> nat \<Rightarrow> workflow_effect list \<Rightarrow> exec_state" where
  "sample_state n v c t l = \<lparr>xs_db = empty_arbiter\<lparr>ad_lc := workflow_lc, ad_workflows := [row_at n v]\<rparr>,
     xs_checkpoint = c, xs_tick = t, xs_log = l\<rparr>"

definition sample_start :: exec_state where
  "sample_start = sample_state 0 (checkpoint_json first_checkpoint) first_checkpoint 0 []"

lemmas ex_evals = ex_return_def ex_throw_def ex_bind_def ex_catch_def ex_then_def ex_lift_def ex_when_def ex_log_def
  ex_checkpoint_def ex_modify_def ex_ask_def ex_try_def ex_db_def ex_stamp_def Let_def

lemma sample_world_simps [simp]:
  "ww_others (sample_world ss) n db = db" "ww_db_error (sample_world ss) n = None" "ww_now (sample_world ss) n = n"
  "ww_online (sample_world ss) n" "ww_random (sample_world ss) n = 0"
  "ww_dispatch (sample_world ss) n q = Inr \<lparr>dc_job = cq_type q, dc_timeout = cq_timeout q, dc_policy = [],
     dc_params = cq_params q, dc_native = JNull\<rparr>"
  "ww_send (sample_world ss) n q' = Inr \<lparr>sr_decision = ''dispatched'', sr_sent = True, sr_queued = False, sr_reason = None\<rparr>"
  "ww_result (sample_world ss) n j = Some \<lparr>jr_successful = (j \<noteq> ''bad''), jr_output = None, jr_error = None,
     jr_duration = 1, jr_verification = None\<rparr>"
  by (simp_all add: sample_world_def)

lemma sample_timeouts: "safe_integer_from 1 (Some 1000) = Some 1000" "safe_integer_from 0 (Some 0) = Some 0"
  by code_simp+

lemma no_bindings [simp]: "applyWorkflowParameterBindings p v [] = Inr p"
  by (simp add: applyWorkflowParameterBindings_def policy_entries_def)

lemma no_assertions [simp]: "assertJobActionResultPolicy r [] e = Inr ()"
  by (simp add: assertJobActionResultPolicy_def policy_entries_def)

lemma no_output_variable [simp]: "js_trim (text_member [] k) = []"
  by (simp add: text_member_def string_member_def js_trim_def trim_by_def)

text \<open>An action of the sample world, good or bad.\<close>

lemma tap_runs:
  "executeStep (sample_world ss) rc (tap_action a) i s =
     (if a \<noteq> ''bad'' then Inr () else Inl (step_name i @ '' (bad) failed: device reported failure''),
      s\<lparr>xs_tick := xs_tick s + 5,
        xs_log := xs_log s @ [CommandLogged a a, JobEvent a ''result_wait_registered'' i, JobEvent a ''dispatch_sent'' i,
          ResultAccepted a i a (a \<noteq> ''bad'')]\<rparr>)"
  by (simp add: tap_action_def retry_count_def attempt_action_def transmit_action_def settle_action_def accept_action_def
      awaitGeneratedChildJobResult_def assert_dispatched_def image_output_def child_of_action_def sample_timeouts
      action_failure_def ex_evals)

lemma sample_state_simps [simp]:
  "xs_log (sample_state n v c t l) = l" "xs_checkpoint (sample_state n v c t l) = c"
  "xs_tick (sample_state n v c t l) = t"
  "sample_state n v c t l\<lparr>xs_tick := t', xs_log := l'\<rparr> = sample_state n v c t' l'"
  "sample_state n v c t l\<lparr>xs_checkpoint := c'\<rparr> = sample_state n v c' t l"
  by (simp_all add: sample_state_def)

lemma sample_rows [simp]: "ad_workflows (xs_db (sample_state n v c t l)) = [row_at n v]" "wf_checkpoint (row_at n v) = Some v"
  by (simp_all add: sample_state_def row_at_def)

declare checkpoint_json_roundtrip [simp]

lemma tap_sample:
  "executeStep (sample_world ss) rc (tap_action a) i (sample_state n v c t l) =
     (if a \<noteq> ''bad'' then Inr () else Inl (step_name i @ '' (bad) failed: device reported failure''),
      sample_state n v c (t + 5) (l @ [CommandLogged a a, JobEvent a ''result_wait_registered'' i,
        JobEvent a ''dispatch_sent'' i, ResultAccepted a i a (a \<noteq> ''bad'')]))"
  by (simp add: tap_runs)

lemma row_at_simps [simp]: "wf_id (row_at n v) = ''w1''" "wf_key (row_at n v) = ''wflow''"
  "wf_status (row_at n v) = ''running''" "wf_current_step (row_at n v) = Some (int n)"
  by (simp_all add: row_at_def running_row_def)

lemma running_state: "find (\<lambda>s. ls_key s = ''wflow'' \<and> ls_status s = ''running'') (db_states workflow_lc)
    = Some (wf_state ''running'')"
  by (simp add: workflow_lc_def wf_state_def plain_state_def)

lemma proceed_sample:
  "proceed (sample_world ss) (sample_run ts) i (sample_state n v c t l) = (Inr True, sample_state n v c (Suc t) l)"
proof -
  have "workflow_get ''w1'' (xs_db (sample_state n v c t l)) = Some (row_at n v, wf_state ''running'')"
    by (simp add: workflow_get_def sample_state_def running_state)
  then show ?thesis
    by (simp add: proceed_def service_get_def ex_evals sample_run_def)
      (simp add: sample_state_def wf_state_def plain_state_def)
qed

definition progress_effect :: lc_effect where
  "progress_effect = effect_of ((wf_move ''progress'' ''running'' ''running'')\<lparr>lt_mark_started := True\<rparr>)"

lemma running_effect: "unique_effect workflow_lc running_selector ''wflow'' ''running'' = Some progress_effect"
  by code_simp

lemma apply_progress:
  "apply_workflow (now, no_workflow_patch\<lparr>wp_checkpoint := Some v', wp_current_step := Some (int m)\<rparr>) progress_effect
     (row_at n v) = row_at m v'"
  by (simp add: apply_workflow_def progress_effect_def effect_of_def row_at_def running_row_def no_workflow_patch_def
      wf_move_def plain_transition_def started_mark_def completed_mark_def failure_mark_def patched_def)

lemma save_sample:
  "saveCheckpoint (sample_world ss) ''w1'' c' new old (sample_state n v c t l) =
     (Inr (n = old), sample_state (if n = old then new else n) (if n = old then checkpoint_json c' else v) c (Suc t)
        (l @ [CheckpointSaved new old (n = old)]))"
proof -
  have "transitionWorkflowWhere workflow_lc now ''w1'' running_selector
      (no_workflow_patch\<lparr>wp_checkpoint := Some w', wp_current_step := Some (int new)\<rparr>)
      (\<lambda>r. wf_current_step r = Some (int old)) [row_at n v]
    = (if n = old then (Some (row_at new w'), [row_at new w']) else (None, [row_at n v]))" for now w'
    by (simp add: transitionWorkflowWhere_def move_row_def running_effect apply_progress update_where_def)
  then show ?thesis
    by (simp add: saveCheckpoint_def service_transition_def ex_evals sample_state_def)
qed

lemma first_checkpoint_simps [simp]: "wc_loops first_checkpoint = []" "wc_step first_checkpoint = 0"
  by (simp_all add: first_checkpoint_def)

lemma with_stats_simps [simp]: "wc_loops (with_stats f c) = wc_loops c" "wc_step (with_stats f c) = wc_step c"
  by (simp_all add: with_stats_def)

lemma modify_sample:
  "ex_modify f (sample_state n v c t l) = (Inr (), sample_state n v (f c) t l)"
  "count_deterministic (sample_state n v c t l)
     = (Inr (), sample_state n v (with_stats (\<lambda>s. s\<lparr>es_deterministic := Suc (es_deterministic s)\<rparr>) c) t l)"
  "count_failed (sample_state n v c t l)
     = (Inr (), sample_state n v (with_stats (\<lambda>s. s\<lparr>es_failed := Suc (es_failed s)\<rparr>) c) t l)"
  "ex_checkpoint (sample_state n v c t l) = (Inr c, sample_state n v c t l)"
  by (simp_all add: ex_modify_def count_deterministic_def count_failed_def ex_checkpoint_def)

lemma advance_sample:
  "advance_checkpoint (sample_world ss) (sample_run ts) i (sample_state n v c t l) =
     (if n = i
      then (Inr (), sample_state (Suc i) (checkpoint_json (c\<lparr>wc_step := Suc i, wc_at := show_nat t\<rparr>))
             (c\<lparr>wc_step := Suc i\<rparr>) (t + 2) (l @ [CheckpointSaved (Suc i) i True]))
      else (Inl (''Checkpoint conflict at step '' @ show_nat i @ '' - aborting''),
            sample_state n v c (t + 2) (l @ [CheckpointSaved (Suc i) i False])))"
proof -
  have "ex_stamp (sample_world ss) (sample_state n v c t l) = (Inr (show_nat t), sample_state n v c (Suc t) l)"
    by (simp add: ex_stamp_def ex_ask_def sample_state_def) (simp add: sample_world_def)
  then show ?thesis
    by (simp add: advance_checkpoint_def ex_bind_def modify_sample save_sample sample_run_def ex_throw_def)
qed

lemma sample_run_simps [simp]: "rx_workflow (sample_run ts) = ''w1''" "rx_template (sample_run ts) = sample_template ts"
  by (simp_all add: sample_run_def)

lemma round_two: "js_round 2 = 2"
  unfolding js_round_def by (rule floor_unique) auto

lemma twice_sample:
  "resolveLoopCount (sample_world ss) \<lparr>lo_min = 2, lo_max = 2, lo_opcode = Some 0\<rparr> (sample_state n v c t l)
     = (Inr 2, sample_state n v c (Suc t) l)"
  by (simp add: resolveLoopCount_def uniform_def ex_evals sample_state_def round_two)

lemmas sample_evals = tap_sample proceed_sample save_sample modify_sample advance_sample twice_sample

lemma sample_not_terminal: "\<not> terminal_in ''w1'' (xs_db (sample_state n v c t l))"
  by (simp add: terminal_in_def workflow_get_def sample_state_def running_state)
    (simp add: wf_state_def plain_state_def)

theorem checkpoint_needs_result_witness:
  "\<exists>s. executeSteps (sample_world []) (sample_run []) 0 [tap_action ''a'', tap_action ''b''] sample_start = (Inr (), s)
     \<and> advances (xs_log s) = [0, 1] \<and> justified (\<lambda>j. [tap_action ''a'', tap_action ''b''] ! j) (xs_log s)"
proof -
  let ?run = "executeSteps (sample_world []) (sample_run []) 0 [tap_action ''a'', tap_action ''b''] sample_start"
  obtain s where s: "?run = (Inr (), s)" "\<not> terminal_in ''w1'' (xs_db s)"
    by (auto simp: sample_start_def sample_evals attempt_step_def ex_bind_def ex_then_def ex_catch_def ex_return_def
        sample_not_terminal)
  obtain l k where l: "xs_log s = l" "advances l = [0..<0 + k]" "justified (\<lambda>j. [tap_action ''a'', tap_action ''b''] ! (j - 0)) l" "k = 2"
    using checkpoint_needs_result [of "sample_world []" "sample_run []" 0 "[tap_action ''a'', tap_action ''b'']" sample_start]
    unfolding s(1) using s(2) by (auto simp: sample_start_def)
  then show ?thesis using s(1) by (intro exI[of _ s]) (simp add: upt_rec)
qed

lemma nested_loop_sample:
  "accepted_results (xs_log (snd (executeSteps (sample_world ss) (sample_run ts) 0
     [repeat_twice [repeat_twice [tap_action ''a'']]] sample_start))) = replicate 3 (''a'', 0, True)"
  by (simp add: sample_start_def sample_evals attempt_step_def ex_bind_def ex_then_def ex_catch_def ex_return_def
      repeat_twice_def executeLoop_def Let_def loop_entry_of_def enter_iteration_def leave_iteration_def leave_loop_def
      nested_iteration_def accepted_results_def numeral_2_eq_2 numeral_3_eq_3)

definition sample_policy :: "GeneratedWorkflowRuntimeRecoveryPolicy" where
  "sample_policy = \<lparr>gp_autonomy = None, gp_ai_enabled = False, gp_per_step = 1, gp_per_workflow = 2,
     gp_per_attempt = 0, gp_allowed = [], gp_verify_state = False, gp_learn = False, gp_instruction = [],
     gp_execute = [], gp_retry = [], gp_abort = [], gp_probe = [], gp_probe_timeout = 0, gp_system = [],
     gp_max_tokens = 0, gp_planner_timeout = 0\<rparr>"

lemma sample_policy_read: "generatedWorkflowRuntimeRecoveryPolicy (sample_template ss) = Inr sample_policy"
  by code_simp

lemma show_zero: "show_nat 0 = ''0''"
  by code_simp

lemma stamp_sample: "ex_stamp (sample_world ss) (sample_state n v c t l) = (Inr (show_nat t), sample_state n v c (Suc t) l)"
  by (simp add: ex_stamp_def ex_ask_def sample_state_def) (simp add: sample_world_def)

lemma failure_sample:
  "record_failure (sample_world ss) (sample_run ts) i err (sample_state n v c t l) = (Inr None, sample_state n v c (Suc t) l)"
  "save_failure (sample_world ss) (sample_run ts) i (sample_state n v c t l) =
     (Inr (), sample_state n (if n = i then checkpoint_json (c\<lparr>wc_at := show_nat t\<rparr>) else v) c (t + 2)
        (l @ [CheckpointSaved i i (n = i)]))"
  "attemptGeneratedWorkflowAiRecovery (sample_world ss) (sample_run ts) st i err (sample_state n v c t l)
     = (Inr True, sample_state n v c t l)"
  "count_retried (sample_state n v c t l)
     = (Inr (), sample_state n v (with_stats (\<lambda>s. s\<lparr>es_retried := Suc (es_retried s)\<rparr>) c) t l)"
proof -
  have "\<not> isGeneratedWorkflowTemplate (sample_template ts)"
    by (simp add: isGeneratedWorkflowTemplate_def sample_template_def truthy_text_def nullish_def)
  then show "record_failure (sample_world ss) (sample_run ts) i err (sample_state n v c t l)
      = (Inr None, sample_state n v c (Suc t) l)"
    by (simp add: record_failure_def recordGeneratedWorkflowRecoveryFailure_def ex_bind_def stamp_sample modify_sample
        ex_lift_def ex_then_def ex_return_def)
qed (auto simp: save_failure_def attemptGeneratedWorkflowAiRecovery_def ex_bind_def stamp_sample modify_sample save_sample
    sample_policy_read ex_lift_def ex_return_def sample_policy_def count_retried_def)

lemma always_sample:
  "evaluateCondition (sample_world ss) \<lparr>cs_id = None, cs_opcode = Some 0, cs_expression = None, cs_probability = Some 1\<rparr>
     (sample_state n v c t l) = (Inr True, sample_state n v c (Suc t) l)"
  by (simp add: evaluateCondition_def ex_ask_def sample_state_def)

definition failing_branch :: "ExecutableStep list" where
  "failing_branch = [tap_action ''a'', always [repeat_twice [tap_action ''b''], tap_action ''bad'']]"

lemmas run_evals = sample_evals failure_sample always_sample attempt_step_def recover_step_def retry_step_def
  ex_bind_def ex_then_def ex_catch_def ex_return_def ex_throw_def repeat_twice_def always_def executeLoop_def Let_def
  loop_entry_of_def enter_iteration_def leave_iteration_def leave_loop_def nested_iteration_def numeral_2_eq_2
  numeral_3_eq_3

text \<open>
  A loop nested in a branch leaves its own index in the checkpoint. When the branch fails
  afterwards, the row is persisted with the current step 1 and a checkpoint that resumes at
  step 0.
\<close>

lemma failing_branch_persists:
  "\<exists>e s. executeSteps (sample_world ss) (sample_run ts) 0 failing_branch sample_start = (Inl e, s)
     \<and> persisted_steps ''w1'' (ad_workflows (xs_db s)) = [Some 1]
     \<and> map (\<lambda>r. map_option wc_step (checkpoint_of_json (the (wf_checkpoint r)))) (ad_workflows (xs_db s)) = [Some 0]"
  by (simp add: failing_branch_def sample_start_def run_evals persisted_steps_def)

text \<open>
  The next attempt therefore executes the first action again and then stops at a checkpoint
  conflict, and so does every attempt after it: the row stays as it is.
\<close>

theorem resumed_branch_repeats:
  assumes "wc_loops c = []"
  shows "\<exists>s. executeSteps (sample_world ss) (sample_run ts) 0 failing_branch (sample_state 1 v c t [])
      = (Inl ''Checkpoint conflict at step 0 - aborting'', s)
    \<and> accepted_results (xs_log s) = [(''a'', 0, True)]
    \<and> ad_workflows (xs_db s) = [row_at 1 v]"
  using assms by (simp add: failing_branch_def run_evals accepted_results_def show_zero)

section \<open>Whole jobs\<close>

text \<open>
  C18. Through all attempts of the queue the step persisted in the workflow row grows exactly
  with the advances of the effect history, as long as no other session writes it: failed
  attempts, retries, loops and recoveries never move it.
\<close>

theorem persisted_step_counts_advances:
  assumes "step_untouched w i" "persisted_steps i (ad_workflows (xs_db s)) = [Some (int n)]"
  shows "\<exists>n'. persisted_steps i (ad_workflows (xs_db (snd (run_job w i configured k m s)))) = [Some (int n')]
    \<and> n' + length (advances (xs_log s)) = n + length (advances (xs_log (snd (run_job w i configured k m s))))"
proof -
  have "step_counts w i n (length (advances (xs_log s))) (xs_db s) (xs_log s)"
    using assms(2) by (simp add: step_counts_def)
  from keepsD [OF progress.run_job_keeps this] show ?thesis using assms(1) by (simp add: step_counts_def)
qed

theorem persisted_step_counts_advances_witness:
  "\<exists>n'. persisted_steps ''w1'' (ad_workflows (xs_db (snd (run_job (sample_world [tap_action ''a'', tap_action ''b'']) ''w1'' 3 0 3
       sample_start)))) = [Some (int n')]
    \<and> n' = length (advances (xs_log (snd (run_job (sample_world [tap_action ''a'', tap_action ''b'']) ''w1'' 3 0 3 sample_start))))"
  using persisted_step_counts_advances [of "sample_world [tap_action ''a'', tap_action ''b'']" "''w1''" sample_start 0 3 0 3]
  by (simp add: step_untouched_def persisted_steps_def sample_start_def)

text \<open>
  A workflow job, with all its attempts, admissions and terminal handling, keeps the
  device execution slots: while the other sessions run slot-respecting arbiter transactions,
  no device has two active roots afterwards, and no row of the arbiter loses its history.
\<close>

theorem job_keeps_device_slots:
  assumes "others_respect_slots w" "arb_ok (xs_db s)" "slots (xs_db s)"
  shows "single_active (xs_db (snd (run_job w i configured k m s)))
    \<and> history (xs_db s) (xs_db (snd (run_job w i configured k m s)))"
proof -
  have "slots_kept w (xs_db s) (xs_db s) (xs_log s)"
    using assms by (simp add: slots_kept_def slotted_def continues_def)
  from keepsD [OF owner.run_job_keeps this] show ?thesis
    using assms(1) by (simp add: slots_kept_def slotted_def slots_def continues_def)
qed

definition busy_start :: exec_state where
  "busy_start = \<lparr>xs_db = two_jobs\<lparr>ad_workflows := [running_row\<lparr>wf_key := ''flow'', wf_status := ''queued''\<rparr>]\<rparr>,
     xs_checkpoint = first_checkpoint, xs_tick = 0, xs_log = []\<rparr>"

theorem job_keeps_device_slots_witness:
  "single_active (xs_db (snd (run_job (sample_world [tap_action ''a'']) ''w1'' 2 0 2 busy_start)))
   \<and> history (xs_db busy_start) (xs_db (snd (run_job (sample_world [tap_action ''a'']) ''w1'' 2 0 2 busy_start)))"
proof (rule job_keeps_device_slots)
  have "slotted empty_arbiter {} two_jobs" by (rule slot_steps_slotted [OF slot_steps_two_jobs arb_ok_empty slots_empty])
  then have "slotted empty_arbiter {} (xs_db busy_start)" unfolding busy_start_def by (simp add: slotted_rows)
  then show "arb_ok (xs_db busy_start)" "slots (xs_db busy_start)" by (auto dest: slottedD)
  show "others_respect_slots (sample_world [tap_action ''a''])"
    unfolding others_respect_slots_def
  proof (intro allI)
    fix n and db :: arb_db
    have "slot_step\<^sup>*\<^sup>* db db \<and> ww_others (sample_world [tap_action ''a'']) n db = db\<lparr>ad_workflows := ad_workflows db\<rparr>" by simp
    then show "\<exists>db' ws. slot_step\<^sup>*\<^sup>* db db' \<and> ww_others (sample_world [tap_action ''a'']) n db = db'\<lparr>ad_workflows := ws\<rparr>"
      by blast
  qed
qed

section \<open>Recovery\<close>

definition generated_template :: WorkflowTemplate where
  "generated_template = (sample_template [])\<lparr>tp_safety_class := Some ''read_only''\<rparr>"

theorem recovery_budget_respected_witness:
  "\<exists>c'. recordGeneratedWorkflowRecoveryFailure ''now'' generated_template 0 ''Step 0 failed'' first_checkpoint = Inr (None, c')
     \<and> step_attempts c' 0 = 1 \<and> within_budget sample_policy c'"
proof -
  have generated: "isGeneratedWorkflowTemplate generated_template"
    by (simp add: isGeneratedWorkflowTemplate_def generated_template_def truthy_text_def)
  have policy: "generatedWorkflowRuntimeRecoveryPolicy generated_template = Inr sample_policy" by code_simp
  have zero: "step_attempts first_checkpoint = (\<lambda>_. 0)" "generatedWorkflowRecoveryTotalAttempts first_checkpoint = 0"
    by (simp_all add: step_attempts_def generatedWorkflowRecoveryAttemptsByStep_def object_member_def number_member_def
        generatedWorkflowRecoveryTotalAttempts_def first_checkpoint_def fun_eq_iff)
  have budget: "within_budget sample_policy first_checkpoint"
    by (simp add: within_budget_def zero sample_policy_def is_integer_def)
  show ?thesis
    using recovery_budget_respected [OF generated policy budget, where stamp = "''now''" and i = 0
        and err = "''Step 0 failed''"] zero
    by (auto simp: sample_policy_def split: sum.splits prod.splits option.splits)
qed

text \<open>
  A failed step of a template without a readable recovery policy ends with the error of the
  policy: the error of the step itself is lost.
\<close>

lemma save_failure_returns: "\<exists>s'. save_failure w rc i s = (Inr (), s')"
proof -
  obtain ok s1 where "saveCheckpoint w (rx_workflow rc) ((xs_checkpoint s)\<lparr>wc_at := ww_iso w (ww_now w (xs_tick s))\<rparr>) i i
      (s\<lparr>xs_tick := Suc (xs_tick s)\<rparr>) = (Inr ok, s1)"
    using save_log by blast
  then show ?thesis
    by (simp add: save_failure_def ex_stamp_def ex_ask_def ex_bind_def ex_checkpoint_def ex_return_def)
qed

lemma policy_error_masks_failure:
  assumes "executeStep w rc x i s = (Inl err, s1)" "\<not> isGeneratedWorkflowTemplate (rx_template rc)"
    and "generatedWorkflowRuntimeRecoveryPolicy (rx_template rc) = Inl policy_error"
  shows "fst (attempt_step w rc x i s) = Inl policy_error"
proof -
  have recorded: "\<exists>s2. record_failure w rc i err t = (Inr None, s2)" for t
    using assms(2) by (simp add: record_failure_def recordGeneratedWorkflowRecoveryFailure_def ex_bind_def ex_stamp_def
        ex_ask_def ex_checkpoint_def ex_lift_def ex_then_def ex_modify_def ex_return_def)
  obtain s2 where s2: "count_failed s1 = (Inr (), s2)" by (simp add: count_failed_def ex_modify_def)
  obtain s3 where s3: "record_failure w rc i err s2 = (Inr None, s3)" using recorded by blast
  obtain s4 where s4: "save_failure w rc i s3 = (Inr (), s4)" using save_failure_returns by blast
  show ?thesis
    using assms(1,3) s2 s3 s4
    by (simp add: attempt_step_def recover_step_def ex_catch_def ex_then_def ex_bind_def
        attemptGeneratedWorkflowAiRecovery_def ex_lift_def)
qed

end
