(* ===== verification/Workflow_Waiters.thy ===== *)
theory Workflow_Waiters imports Workflow_Executor
begin

text \<open>
  The registry of pending job results (\<^verbatim>\<open>pendingJobResults\<close>,
  \<^verbatim>\<open>prepareGeneratedChildJobResult\<close>, \<^verbatim>\<open>resolveJobResult\<close> of
  \<^verbatim>\<open>src/src/modules/workflows/workflow.executor.ts\<close>) as a state machine. A waiter is
  a promise with its timer; the registry maps a job to the waiter registered last. A timer
  whose waiter was replaced or removed finds another entry and does nothing. Both callers of
  \<^verbatim>\<open>awaitGeneratedChildJobResult\<close> pass a prepared waiter, so that \<^verbatim>\<open>awaitJobResult\<close>, whose
  timer has no such check, is not reached and is no event here.
\<close>

section \<open>Registry\<close>

datatype settlement = Resolved JobStepResult | Rejected string

text \<open>
  \<open>wr_pending\<close> maps jobs to waiters, \<open>wr_timer\<close> waiters to the job, the delay and the
  deadline of their timer.
\<close>

record waiter_registry =
  wr_pending :: "string \<Rightarrow> nat option"
  wr_timer :: "nat \<Rightarrow> (string \<times> int \<times> int) option"
  wr_settled :: "nat \<Rightarrow> settlement option"
  wr_next :: nat

definition no_waiters :: waiter_registry where
  "no_waiters = \<lparr>wr_pending = (\<lambda>_. None), wr_timer = (\<lambda>_. None), wr_settled = (\<lambda>_. None), wr_next = 0\<rparr>"

text \<open>A promise settles once; later calls of its functions do nothing.\<close>

definition settle_waiter :: "nat \<Rightarrow> settlement \<Rightarrow> waiter_registry \<Rightarrow> waiter_registry" where
  "settle_waiter p v g = (if wr_settled g p = None then g\<lparr>wr_settled := (wr_settled g)(p \<mapsto> v)\<rparr> else g)"

definition prepareGeneratedChildJobResult :: "int \<Rightarrow> string \<Rightarrow> int \<Rightarrow> waiter_registry \<Rightarrow> nat \<times> waiter_registry" where
  "prepareGeneratedChildJobResult now jobId initialTimeoutMs g =
     (let p = wr_next g
      in (p, g\<lparr>wr_pending := (wr_pending g)(jobId \<mapsto> p),
            wr_timer := (wr_timer g)(p \<mapsto> (jobId, initialTimeoutMs, now + initialTimeoutMs)), wr_next := Suc p\<rparr>))"

definition armTimeout :: "int \<Rightarrow> string \<Rightarrow> nat \<Rightarrow> int \<Rightarrow> waiter_registry \<Rightarrow> waiter_registry" where
  "armTimeout now jobId p timeoutMs g =
     (if wr_pending g jobId \<noteq> Some p then g
      else g\<lparr>wr_timer := (wr_timer g)(p \<mapsto> (jobId, timeoutMs, now + timeoutMs))\<rparr>)"

definition cancel :: "string \<Rightarrow> nat \<Rightarrow> waiter_registry \<Rightarrow> waiter_registry" where
  "cancel jobId p g =
     (if wr_pending g jobId \<noteq> Some p then g
      else g\<lparr>wr_timer := (wr_timer g)(p := None), wr_pending := (wr_pending g)(jobId := None)\<rparr>)"

definition resolveJobResult :: "string \<Rightarrow> JobStepResult \<Rightarrow> waiter_registry \<Rightarrow> bool \<times> waiter_registry" where
  "resolveJobResult jobId result g =
     (case wr_pending g jobId of
        None \<Rightarrow> (False, g)
      | Some p \<Rightarrow> (True, settle_waiter p (Resolved result)
          (g\<lparr>wr_timer := (wr_timer g)(p := None), wr_pending := (wr_pending g)(jobId := None)\<rparr>)))"

text \<open>The callback of the timer of the waiter \<open>p\<close>, which runs at its deadline.\<close>

definition timer_fires :: "nat \<Rightarrow> waiter_registry \<Rightarrow> waiter_registry" where
  "timer_fires p g =
     (case wr_timer g p of
        None \<Rightarrow> g
      | Some (jobId, delay, _) \<Rightarrow>
          (let g1 = g\<lparr>wr_timer := (wr_timer g)(p := None)\<rparr>
           in if wr_pending g1 jobId \<noteq> Some p then g1
              else settle_waiter p (Rejected (timeout_message delay jobId))
                (g1\<lparr>wr_pending := (wr_pending g1)(jobId := None)\<rparr>)))"

section \<open>Steps\<close>

text \<open>What the executor, the transport and the clock do with the registry, in any order.\<close>

inductive waiter_step :: "waiter_registry \<Rightarrow> waiter_registry \<Rightarrow> bool" where
  prepare: "waiter_step g (snd (prepareGeneratedChildJobResult now jobId ms g))"
| arm: "waiter_step g (armTimeout now jobId p ms g)"
| cancelled: "waiter_step g (cancel jobId p g)"
| resolve: "waiter_step g (snd (resolveJobResult jobId result g))"
| timer: "waiter_step g (timer_fires p g)"

text \<open>Registered waiters are unsettled and have a running timer of the job they are registered for.\<close>

definition waiters_ok :: "waiter_registry \<Rightarrow> bool" where
  "waiters_ok g \<longleftrightarrow>
     (\<forall>j p. wr_pending g j = Some p \<longrightarrow>
        p < wr_next g \<and> wr_settled g p = None \<and> map_option fst (wr_timer g p) = Some j)
   \<and> (\<forall>p. wr_next g \<le> p \<longrightarrow> wr_settled g p = None \<and> wr_timer g p = None)"

lemma waiters_okI:
  assumes "\<And>j p. wr_pending g j = Some p \<Longrightarrow>
      p < wr_next g \<and> wr_settled g p = None \<and> map_option fst (wr_timer g p) = Some j"
    and "\<And>p. wr_next g \<le> p \<Longrightarrow> wr_settled g p = None \<and> wr_timer g p = None"
  shows "waiters_ok g"
  using assms by (simp add: waiters_ok_def)

lemma waiters_okD:
  assumes "waiters_ok g"
  shows "wr_pending g j = Some p \<Longrightarrow> p < wr_next g"
    "wr_pending g j = Some p \<Longrightarrow> wr_settled g p = None"
    "wr_pending g j = Some p \<Longrightarrow> map_option fst (wr_timer g p) = Some j"
    "wr_next g \<le> p \<Longrightarrow> wr_settled g p = None" "wr_next g \<le> p \<Longrightarrow> wr_timer g p = None"
  using assms by (auto simp: waiters_ok_def)

lemma waiters_distinct: "waiters_ok g \<Longrightarrow> wr_pending g j = Some p \<Longrightarrow> wr_pending g k = Some p \<Longrightarrow> j = k"
  using waiters_okD(3) by (metis option.inject)

text \<open>Removing the waiter of a job and settling it keeps the invariant.\<close>

lemma waiters_ok_remove:
  assumes "waiters_ok g" "wr_pending g j = Some p"
  shows "waiters_ok (g\<lparr>wr_timer := (wr_timer g)(p := None), wr_pending := (wr_pending g)(j := None)\<rparr>)"
    "waiters_ok (settle_waiter p v (g\<lparr>wr_timer := (wr_timer g)(p := None), wr_pending := (wr_pending g)(j := None)\<rparr>))"
proof -
  let ?g = "g\<lparr>wr_timer := (wr_timer g)(p := None), wr_pending := (wr_pending g)(j := None)\<rparr>"
  have other: "q \<noteq> p \<and> wr_pending g k = Some q" if "wr_pending ?g k = Some q" for k q
    using that waiters_distinct [OF assms(1), of k q j] assms(2) by (auto split: if_splits)
  have p: "p < wr_next g" using waiters_okD(1) [OF assms] .
  show "waiters_ok ?g"
  proof (rule waiters_okI)
    fix k q
    assume "wr_pending ?g k = Some q"
    from other [OF this] show "q < wr_next ?g \<and> wr_settled ?g q = None \<and> map_option fst (wr_timer ?g q) = Some k"
      using waiters_okD(1-3) [OF assms(1), of k q] by simp
  qed (simp add: waiters_okD(4,5) [OF assms(1)])
  show "waiters_ok (settle_waiter p v ?g)"
  proof (rule waiters_okI)
    fix k q
    assume "wr_pending (settle_waiter p v ?g) k = Some q"
    then have "wr_pending ?g k = Some q" by (simp add: settle_waiter_def split: if_splits)
    from other [OF this] show "q < wr_next (settle_waiter p v ?g) \<and> wr_settled (settle_waiter p v ?g) q = None
        \<and> map_option fst (wr_timer (settle_waiter p v ?g) q) = Some k"
      using waiters_okD(1-3) [OF assms(1), of k q] by (simp add: settle_waiter_def)
  next
    fix q
    assume "wr_next (settle_waiter p v ?g) \<le> q"
    then have "wr_next g \<le> q" by (simp add: settle_waiter_def split: if_splits)
    then show "wr_settled (settle_waiter p v ?g) q = None \<and> wr_timer (settle_waiter p v ?g) q = None"
      using waiters_okD(4,5) [OF assms(1)] p by (simp add: settle_waiter_def)
  qed
qed

lemma waiters_ok_arm:
  assumes "waiters_ok g" "wr_pending g j = Some p"
  shows "waiters_ok (g\<lparr>wr_timer := (wr_timer g)(p \<mapsto> (j, x))\<rparr>)"
proof (rule waiters_okI)
  fix k q
  assume a: "wr_pending (g\<lparr>wr_timer := (wr_timer g)(p \<mapsto> (j, x))\<rparr>) k = Some q"
  then show "q < wr_next (g\<lparr>wr_timer := (wr_timer g)(p \<mapsto> (j, x))\<rparr>)
      \<and> wr_settled (g\<lparr>wr_timer := (wr_timer g)(p \<mapsto> (j, x))\<rparr>) q = None
      \<and> map_option fst (wr_timer (g\<lparr>wr_timer := (wr_timer g)(p \<mapsto> (j, x))\<rparr>) q) = Some k"
    using waiters_okD(1-3) [OF assms(1), of k q] waiters_distinct [OF assms(1) assms(2), of k] by simp
next
  fix q
  assume "wr_next (g\<lparr>wr_timer := (wr_timer g)(p \<mapsto> (j, x))\<rparr>) \<le> q"
  then show "wr_settled (g\<lparr>wr_timer := (wr_timer g)(p \<mapsto> (j, x))\<rparr>) q = None
      \<and> wr_timer (g\<lparr>wr_timer := (wr_timer g)(p \<mapsto> (j, x))\<rparr>) q = None"
    using waiters_okD(4,5) [OF assms(1), of q] waiters_okD(1) [OF assms] by simp
qed

lemma waiters_ok_expire:
  assumes "waiters_ok g" "\<And>j. wr_pending g j \<noteq> Some p"
  shows "waiters_ok (g\<lparr>wr_timer := (wr_timer g)(p := None)\<rparr>)"
  by (rule waiters_okI) (use assms in \<open>auto simp: waiters_ok_def\<close>)

lemma waiters_ok_step: "waiter_step g g' \<Longrightarrow> waiters_ok g \<Longrightarrow> waiters_ok g'"
proof (induction rule: waiter_step.induct)
  case (prepare g now jobId ms)
  note d = waiters_okD [OF prepare]
  have fresh: "wr_pending g k \<noteq> Some (wr_next g)" for k using d(1) by fastforce
  show ?case unfolding prepareGeneratedChildJobResult_def Let_def snd_conv
  proof (rule waiters_okI, goal_cases)
    case (1 k q)
    then show ?case using d(1-3) [of k q] d(4) [of q] fresh [of k] by (auto split: if_splits)
  next
    case (2 q)
    then show ?case using d(4,5) [of q] by simp
  qed
next
  case (arm g now jobId p ms)
  then show ?case using waiters_ok_arm by (simp add: armTimeout_def)
next
  case (cancelled g jobId p)
  then show ?case using waiters_ok_remove(1) by (auto simp: cancel_def)
next
  case (resolve g jobId result)
  then show ?case using waiters_ok_remove(2) by (auto simp: resolveJobResult_def split: option.splits)
next
  case (timer g p)
  note d = waiters_okD [OF timer]
  show ?case
  proof (cases "wr_timer g p")
    case (Some x)
    then obtain jobId delay at1 where x: "wr_timer g p = Some (jobId, delay, at1)" by (cases x) auto
    show ?thesis
    proof (cases "wr_pending g jobId = Some p")
      case True
      then show ?thesis using waiters_ok_remove(2) [OF timer] x by (simp add: timer_fires_def Let_def)
    next
      case False
      have "wr_pending g k \<noteq> Some p" for k using d(3) [of k p] x False by auto
      then have "waiters_ok (g\<lparr>wr_timer := (wr_timer g)(p := None)\<rparr>)" by (rule waiters_ok_expire [OF timer])
      then show ?thesis using x False by (simp add: timer_fires_def Let_def)
    qed
  qed (simp add: timer_fires_def timer)
qed

lemma reachable_waiters_ok: "waiter_step\<^sup>*\<^sup>* no_waiters g \<Longrightarrow> waiters_ok g"
  by (induction rule: rtranclp_induct) (auto simp: waiters_ok_def no_waiters_def dest: waiters_ok_step [unfolded waiters_ok_def])

lemma settled_step:
  "waiter_step g g' \<Longrightarrow> wr_settled g p = Some v \<Longrightarrow> wr_settled g' p = Some v"
  by (induction rule: waiter_step.induct)
    (auto simp: prepareGeneratedChildJobResult_def armTimeout_def cancel_def resolveJobResult_def timer_fires_def
      settle_waiter_def Let_def split: option.splits)

lemma settled_steps:
  "waiter_step\<^sup>*\<^sup>* g g' \<Longrightarrow> wr_settled g p = Some v \<Longrightarrow> wr_settled g' p = Some v"
  by (induction rule: rtranclp_induct) (auto dest: settled_step)

section \<open>Histories\<close>

text \<open>
  The events of the registry by name. \<open>Elapsed p\<close> is the callback of the timer that runs for the
  waiter \<open>p\<close>; it may come at any time, also long after \<open>p\<close> was replaced.
\<close>

datatype registry_event =
    Registered int string int
  | Armed int string nat int
  | Withdrawn string nat
  | Arrived string JobStepResult
  | Elapsed nat

fun run_event :: "registry_event \<Rightarrow> waiter_registry \<Rightarrow> waiter_registry" where
  "run_event (Registered now jobId ms) g = snd (prepareGeneratedChildJobResult now jobId ms g)"
| "run_event (Armed now jobId p ms) g = armTimeout now jobId p ms g"
| "run_event (Withdrawn jobId p) g = cancel jobId p g"
| "run_event (Arrived jobId r) g = snd (resolveJobResult jobId r g)"
| "run_event (Elapsed p) g = timer_fires p g"

definition run_events :: "registry_event list \<Rightarrow> waiter_registry \<Rightarrow> waiter_registry" where
  "run_events es g = fold run_event es g"

lemma run_events_simps [simp]:
  "run_events [] g = g" "run_events (e # es) g = run_events es (run_event e g)"
  "run_events (es @ fs) g = run_events fs (run_events es g)"
  by (simp_all add: run_events_def)

lemma run_event_step: "waiter_step g (run_event e g)"
  by (cases e) (simp_all add: waiter_step.intros)

lemma run_events_steps: "waiter_step\<^sup>*\<^sup>* g (run_events es g)"
  by (induction es arbitrary: g) (auto intro: converse_rtranclp_into_rtranclp run_event_step)

lemma run_events_ok: "waiters_ok g \<Longrightarrow> waiters_ok (run_events es g)"
  by (induction es arbitrary: g) (auto dest: waiters_ok_step[OF run_event_step])

text \<open>Events that register the job anew, and events that leave its waiter \<open>p\<close> where it is.\<close>

fun registers :: "string \<Rightarrow> registry_event \<Rightarrow> bool" where
  "registers j (Registered _ k _) \<longleftrightarrow> k = j"
| "registers j _ \<longleftrightarrow> False"

fun leaves :: "string \<Rightarrow> nat \<Rightarrow> registry_event \<Rightarrow> bool" where
  "leaves j p (Registered _ k _) \<longleftrightarrow> k \<noteq> j"
| "leaves j p (Armed _ _ _ _) \<longleftrightarrow> True"
| "leaves j p (Withdrawn k q) \<longleftrightarrow> k \<noteq> j \<or> q \<noteq> p"
| "leaves j p (Arrived k _) \<longleftrightarrow> k \<noteq> j"
| "leaves j p (Elapsed q) \<longleftrightarrow> q \<noteq> p"

named_theorems registry_defs "the operations of the registry"
lemmas [registry_defs] = prepareGeneratedChildJobResult_def armTimeout_def cancel_def resolveJobResult_def
  timer_fires_def settle_waiter_def Let_def

lemma left_pending:
  "leaves j p e \<Longrightarrow> wr_pending g j = Some p \<Longrightarrow> wr_pending (run_event e g) j = Some p"
  by (cases e) (auto simp: registry_defs split: option.splits)

lemma left_pending_events:
  "list_all (leaves j p) es \<Longrightarrow> wr_pending g j = Some p \<Longrightarrow> wr_pending (run_events es g) j = Some p"
  by (induction es arbitrary: g) (auto simp: left_pending)

lemma none_pending:
  "\<not> registers j e \<Longrightarrow> wr_pending g j = None \<Longrightarrow> wr_pending (run_event e g) j = None"
  by (cases e) (auto simp: registry_defs split: option.splits)

lemma none_pending_events:
  "list_all (\<lambda>e. \<not> registers j e) es \<Longrightarrow> wr_pending g j = None \<Longrightarrow> wr_pending (run_events es g) j = None"
  by (induction es arbitrary: g) (auto simp: none_pending)

text \<open>A waiter that is not registered never comes back, and nobody settles it.\<close>

definition unregistered :: "nat \<Rightarrow> waiter_registry \<Rightarrow> bool" where
  "unregistered q g \<longleftrightarrow> q < wr_next g \<and> (\<forall>k. wr_pending g k \<noteq> Some q)"

lemma unregistered_event:
  "unregistered q g \<Longrightarrow> unregistered q (run_event e g) \<and> wr_settled (run_event e g) q = wr_settled g q"
  by (cases e) (auto simp: registry_defs unregistered_def split: option.splits)

lemma unregistered_events: "unregistered q g \<Longrightarrow> wr_settled (run_events es g) q = wr_settled g q"
  by (induction es arbitrary: g) (simp_all add: unregistered_event)

text \<open>
  C19. In every history of the registry a result is handed to the waiter registered last for
  its job: from its registration on, whatever other jobs do and whatever late timers,
  extensions and cancellations of earlier waiters of the same job come, until the waiter itself is
  withdrawn, has expired or is replaced, the next result of the job settles this waiter and
  nobody else, also when it arrives before the send has returned; no later event changes what it
  was given, and a second result finds nobody until the job is registered again. When it is
  withdrawn instead it is never settled, and when its timer fires it is rejected with the timeout of
  its job for good. The waiter it replaced is never settled at all, and no event settles a waiter that
  is not in the registry any more.
\<close>

theorem result_reaches_its_waiter:
  assumes "prepareGeneratedChildJobResult now j ms (run_events es no_waiters) = (p, g1)"
    and "list_all (leaves j p) later" and "g = run_events later g1"
  shows "\<exists>g'. resolveJobResult j r g = (True, g')
    \<and> wr_settled g p = None \<and> wr_settled g' = (wr_settled g)(p \<mapsto> Resolved r)
    \<and> (\<forall>k. k \<noteq> j \<longrightarrow> wr_pending g' k = wr_pending g k)
    \<and> (\<forall>more. wr_settled (run_events more g') p = Some (Resolved r))
    \<and> (\<forall>more r'. list_all (\<lambda>e. \<not> registers j e) more \<longrightarrow> resolveJobResult j r' (run_events more g') = (False, run_events more g'))
    \<and> (\<forall>more. wr_settled (run_events more (run_event (Withdrawn j p) g)) p = None)
    \<and> (\<exists>delay. \<forall>more. wr_settled (run_events more (run_event (Elapsed p) g)) p = Some (Rejected (timeout_message delay j)))
    \<and> (\<forall>q more. wr_pending (run_events es no_waiters) j = Some q \<longrightarrow> q \<noteq> p \<and> wr_settled (run_events more g1) q = None)
    \<and> (\<forall>q more. unregistered q g \<longrightarrow> wr_settled (run_events more g) q = wr_settled g q)"
proof -
  let ?before = "run_events es no_waiters"
  let ?g = "settle_waiter p (Resolved r) (g\<lparr>wr_timer := (wr_timer g)(p := None), wr_pending := (wr_pending g)(j := None)\<rparr>)"
  have ok0: "waiters_ok ?before" by (rule reachable_waiters_ok[OF run_events_steps])
  have g1: "g1 = run_event (Registered now j ms) ?before" "p = wr_next ?before" "wr_pending g1 j = Some p"
    using assms(1) by (auto simp: prepareGeneratedChildJobResult_def Let_def)
  have ok: "waiters_ok g" unfolding assms(3) g1(1) by (rule run_events_ok[OF waiters_ok_step[OF run_event_step ok0]])
  have p: "wr_pending g j = Some p" unfolding assms(3) by (rule left_pending_events[OF assms(2) g1(3)])
  have none: "wr_settled g p = None" by (rule waiters_okD(2)[OF ok p])
  then have s: "resolveJobResult j r g = (True, ?g)" "wr_settled ?g = (wr_settled g)(p \<mapsto> Resolved r)"
      "wr_pending ?g = (wr_pending g)(j := None)"
    using p by (simp_all add: settle_waiter_def resolveJobResult_def)
  have kept: "wr_settled (run_events more ?g) p = Some (Resolved r)" for more
    using settled_steps[OF run_events_steps, of ?g p "Resolved r" more] s(2) by simp
  have again: "resolveJobResult j r' (run_events more ?g) = (False, run_events more ?g)"
    if "list_all (\<lambda>e. \<not> registers j e) more" for more r'
    using none_pending_events[OF that, of ?g] s(3) by (simp add: resolveJobResult_def)
  have old: "q \<noteq> p \<and> wr_settled (run_events more g1) q = None" if q: "wr_pending ?before j = Some q" for q more
  proof -
    have "wr_pending ?before k \<noteq> Some q" if "k \<noteq> j" for k using waiters_distinct[OF ok0 q] that by blast
    moreover have "q < wr_next ?before" "wr_settled ?before q = None" using waiters_okD(1,2)[OF ok0 q] by simp_all
    ultimately have "unregistered q g1" "wr_settled g1 q = None" "q \<noteq> p"
      using g1(2) by (auto simp: g1(1) unregistered_def prepareGeneratedChildJobResult_def Let_def)
    then show ?thesis by (simp add: unregistered_events)
  qed
  have only: "wr_pending g k \<noteq> Some p" if "k \<noteq> j" for k using waiters_distinct[OF ok p] that by blast
  have "unregistered p (run_event (Withdrawn j p) g)" "wr_settled (run_event (Withdrawn j p) g) p = None"
    using p none only waiters_okD(1)[OF ok p] by (auto simp: unregistered_def cancel_def)
  then have withdrawn: "wr_settled (run_events more (run_event (Withdrawn j p) g)) p = None" for more
    by (simp add: unregistered_events)
  obtain delay at1 where "wr_timer g p = Some (j, delay, at1)"
    using waiters_okD(3)[OF ok p] by (cases "wr_timer g p") auto
  then have "unregistered p (run_event (Elapsed p) g)"
      "wr_settled (run_event (Elapsed p) g) p = Some (Rejected (timeout_message delay j))"
    using p none only waiters_okD(1)[OF ok p] by (auto simp: unregistered_def timer_fires_def settle_waiter_def)
  then have expired: "\<exists>delay. \<forall>more. wr_settled (run_events more (run_event (Elapsed p) g)) p = Some (Rejected (timeout_message delay j))"
    by (metis unregistered_events)
  show ?thesis by (intro exI[of _ ?g]) (use s none kept again withdrawn expired old unregistered_events in simp)
qed

definition sample_result :: JobStepResult where
  "sample_result = \<lparr>jr_successful = True, jr_output = None, jr_error = None, jr_duration = 1, jr_verification = None\<rparr>"

text \<open>The timer of a replaced waiter fires and the job's result still reaches the new one.\<close>

theorem result_reaches_its_waiter_witness:
  "\<exists>g'. resolveJobResult ''j1'' sample_result (run_events [Registered 0 ''j1'' 10, Registered 5 ''j1'' 1000, Elapsed 0] no_waiters) = (True, g')
    \<and> wr_settled g' 1 = Some (Resolved sample_result) \<and> wr_settled g' 0 = None"
proof -
  let ?es = "[Registered 0 ''j1'' 10]"
  obtain p g1 where p: "prepareGeneratedChildJobResult 5 ''j1'' 1000 (run_events ?es no_waiters) = (p, g1)" by fastforce
  then have "p = 1" "wr_pending (run_events ?es no_waiters) ''j1'' = Some 0"
    by (auto simp: prepareGeneratedChildJobResult_def no_waiters_def Let_def)
  moreover have g: "run_events [Registered 0 ''j1'' 10, Registered 5 ''j1'' 1000, Elapsed 0] no_waiters = run_events [Elapsed 0] g1"
    using p by simp
  moreover have "list_all (leaves ''j1'' p) [Elapsed 0]" using \<open>p = 1\<close> by simp
  ultimately show ?thesis
    using result_reaches_its_waiter[OF p \<open>list_all (leaves ''j1'' p) [Elapsed 0]\<close> refl, of sample_result]
    by (metis fun_upd_other fun_upd_same run_events_simps(1,2) zero_neq_one)
qed

end
