(* ===== verification/Graph_Planner.thy ===== *)
theory Graph_Planner imports Prelude
begin

text \<open>
  The route planner of the UI graph, \<^verbatim>\<open>ui-graph/graph-planner.ts\<close>, with the transition
  and route types of \<^verbatim>\<open>ui-graph/types.ts\<close> (both under \<^verbatim>\<open>src/src/modules\<close>). Costs and
  confidences are rationals where the code has doubles. The search loop is a partial
  function: a planner call that would not return is \<open>None\<close>.
\<close>

section \<open>Types\<close>

record UiTransitionDefinition =
  ut_id :: string
  ut_key :: string
  ut_app :: string
  ut_source :: string
  ut_target :: string
  ut_element :: "string option"
  ut_action :: jobj
  ut_cost :: rat
  ut_safety :: string
  ut_confidence :: rat
  ut_pre :: "jobj option"
  ut_post :: "jobj option"

text \<open>The total cost of a route; \<open>None\<close> is \<^verbatim>\<open>Infinity\<close>.\<close>

record GraphRoute =
  gr_found :: bool
  gr_transitions :: "UiTransitionDefinition list"
  gr_cost :: "rat option"
  gr_reason :: "string option"

record GraphPlanningPolicy =
  pp_safety :: "string list"
  pp_confidence :: rat
  pp_budget :: int

text \<open>The maps and the pending set of the search; the set keeps its insertion order.\<close>

record plan_state =
  ps_dist :: "string \<Rightarrow> rat option"
  ps_prev :: "string \<Rightarrow> UiTransitionDefinition option"
  ps_depth :: "string \<Rightarrow> nat option"
  ps_pending :: "string list"

section \<open>The search\<close>

definition hop_cost :: "UiTransitionDefinition \<Rightarrow> rat" where
  "hop_cost t = ut_cost t + max 0 (1 - ut_confidence t)"

definition eligible :: "GraphPlanningPolicy \<Rightarrow> UiTransitionDefinition list \<Rightarrow> UiTransitionDefinition list" where
  "eligible p ts = filter (\<lambda>t. ut_confidence t \<ge> pp_confidence p \<and> ut_safety t \<in> set (pp_safety p)) ts"

definition start_state :: "string \<Rightarrow> plan_state" where
  "start_state source = \<lparr>ps_dist = [source \<mapsto> 0], ps_prev = Map.empty, ps_depth = [source \<mapsto> 0], ps_pending = [source]\<rparr>"

text \<open>The order of the pending states: by distance, a missing one last.\<close>

definition rank :: "plan_state \<Rightarrow> string \<Rightarrow> bool \<times> rat" where
  "rank st v = (case ps_dist st v of Some d \<Rightarrow> (False, d) | None \<Rightarrow> (True, 0))"

definition relax :: "string \<Rightarrow> nat \<Rightarrow> UiTransitionDefinition \<Rightarrow> plan_state \<Rightarrow> plan_state" where
  "relax current depth t st =
     (case ps_dist st current of
        None \<Rightarrow> st
      | Some d \<Rightarrow>
          (let n = d + hop_cost t in
           if (case ps_dist st (ut_target t) of None \<Rightarrow> False | Some e \<Rightarrow> e \<le> n) then st
           else st\<lparr>ps_dist := (ps_dist st)(ut_target t \<mapsto> n), ps_prev := (ps_prev st)(ut_target t \<mapsto> t),
                ps_depth := (ps_depth st)(ut_target t \<mapsto> depth + 1),
                ps_pending := (if ut_target t \<in> set (ps_pending st) then ps_pending st
                  else ps_pending st @ [ut_target t])\<rparr>))"

definition expand :: "UiTransitionDefinition list \<Rightarrow> int \<Rightarrow> string \<Rightarrow> plan_state \<Rightarrow> plan_state" where
  "expand ts budget current st =
     (let depth = odefault (ps_depth st current) 0 in
      if budget \<le> int depth then st
      else fold (relax current depth) (filter (\<lambda>t. ut_source t = current) ts) st)"

definition pop :: "string \<Rightarrow> plan_state \<Rightarrow> plan_state" where
  "pop current st = st\<lparr>ps_pending := remove1 current (ps_pending st)\<rparr>"

partial_function (option) search :: "string \<Rightarrow> UiTransitionDefinition list \<Rightarrow> int \<Rightarrow> plan_state \<Rightarrow> plan_state option" where
  [code]: "search target ts budget st =
     (case first_row (sort_key (rank st) (ps_pending st)) of
        None \<Rightarrow> Some st
      | Some current \<Rightarrow>
          if current = target then Some (pop current st)
          else search target ts budget (expand ts budget current (pop current st)))"

section \<open>The route\<close>

function rebuild :: "(string \<Rightarrow> UiTransitionDefinition option) \<Rightarrow> string \<Rightarrow> int \<Rightarrow> string
    \<Rightarrow> UiTransitionDefinition list \<Rightarrow> UiTransitionDefinition list res" where
  "rebuild prev source budget cursor route =
     (if cursor = source then Inr route
      else case prev cursor of
        None \<Rightarrow> Inl ''Route reconstruction failed''
      | Some t \<Rightarrow>
          if int (length (t # route)) > budget then Inl ''Route exceeds transition budget''
          else rebuild prev source budget (ut_source t) (t # route))"
  by pat_completeness auto
termination by (relation "measure (\<lambda>(_, _, budget, _, route). nat (budget - int (length route)))") auto

declare rebuild.simps [simp del]

definition no_route :: "string \<Rightarrow> GraphRoute" where
  "no_route reason = \<lparr>gr_found = False, gr_transitions = [], gr_cost = None, gr_reason = Some reason\<rparr>"

definition read_route :: "string \<Rightarrow> string \<Rightarrow> int \<Rightarrow> plan_state \<Rightarrow> GraphRoute" where
  "read_route source target budget st =
     (if ps_prev st target = None then no_route ''No promoted route satisfies confidence and safety policy''
      else case rebuild (ps_prev st) source budget target [] of
        Inl reason \<Rightarrow> no_route reason
      | Inr route \<Rightarrow> \<lparr>gr_found = True, gr_transitions = route, gr_cost = Some (odefault (ps_dist st target) 0),
          gr_reason = None\<rparr>)"

definition planGraphRoute :: "string \<Rightarrow> string \<Rightarrow> UiTransitionDefinition list \<Rightarrow> GraphPlanningPolicy \<Rightarrow> GraphRoute option" where
  "planGraphRoute source target ts policy =
     (if source = target then Some \<lparr>gr_found = True, gr_transitions = [], gr_cost = Some 0, gr_reason = None\<rparr>
      else map_option (read_route source target (pp_budget policy))
        (search target (eligible policy ts) (pp_budget policy) (start_state source)))"

section \<open>Routes of a graph\<close>

fun chain :: "string \<Rightarrow> UiTransitionDefinition list \<Rightarrow> string \<Rightarrow> bool" where
  "chain a [] b \<longleftrightarrow> a = b"
| "chain a (t # ts) b \<longleftrightarrow> ut_source t = a \<and> chain (ut_target t) ts b"

definition route_cost :: "UiTransitionDefinition list \<Rightarrow> rat" where
  "route_cost ts = sum_list (map hop_cost ts)"

lemma chain_append: "chain a (xs @ ys) c \<longleftrightarrow> (\<exists>b. chain a xs b \<and> chain b ys c)"
  by (induction xs arbitrary: a) auto

lemma chain_snoc: "chain a (xs @ [t]) c \<longleftrightarrow> chain a xs (ut_source t) \<and> ut_target t = c"
  by (auto simp: chain_append)

lemma route_cost_simps [simp]:
  "route_cost [] = 0" "route_cost (xs @ [t]) = route_cost xs + hop_cost t" "route_cost (t # xs) = hop_cost t + route_cost xs"
  by (simp_all add: route_cost_def)

section \<open>Soundness of the reconstruction\<close>

definition prev_sound :: "UiTransitionDefinition list \<Rightarrow> plan_state \<Rightarrow> bool" where
  "prev_sound ts st \<longleftrightarrow> (\<forall>v t. ps_prev st v = Some t \<longrightarrow> t \<in> set ts \<and> ut_target t = v)"

lemma prev_sound_relax: "prev_sound ts st \<Longrightarrow> t \<in> set ts \<Longrightarrow> prev_sound ts (relax c d t st)"
  by (auto simp: prev_sound_def relax_def Let_def split: option.splits)

lemma prev_sound_fold: "prev_sound ts st \<Longrightarrow> set es \<subseteq> set ts \<Longrightarrow> prev_sound ts (fold (relax c d) es st)"
  by (induction es arbitrary: st) (auto intro: prev_sound_relax)

lemma prev_sound_pop: "prev_sound ts (pop c st) = prev_sound ts st"
  by (simp add: prev_sound_def pop_def)

lemma prev_sound_expand: "prev_sound ts st \<Longrightarrow> prev_sound ts (expand ts b c (pop c st))"
  by (auto simp: expand_def Let_def prev_sound_pop intro!: prev_sound_fold)

text \<open>What every pass of the loop keeps holds of a result.\<close>

lemma search_keeps:
  assumes "search target ts budget st = Some r"
    and pop: "\<And>st c. I st \<Longrightarrow> I (pop c st)" and expand: "\<And>st c. I st \<Longrightarrow> I (expand ts budget c (pop c st))"
    and "I st"
  shows "I r"
proof -
  have "es = ts \<longrightarrow> b = budget \<longrightarrow> I st \<longrightarrow> I r" if "search target es b st = Some r" for target es b st r
    using that
  proof (rule search.raw_induct [rotated])
    fix search' and target' es' b' st' r'
    assume IH: "\<And>target es b st r. search' target es b st = Some r \<Longrightarrow> es = ts \<longrightarrow> b = budget \<longrightarrow> I st \<longrightarrow> I r"
      and r': "(case first_row (sort_key (rank st') (ps_pending st')) of None \<Rightarrow> Some st'
         | Some current \<Rightarrow> if current = target' then Some (pop current st')
             else search' target' es' b' (expand es' b' current (pop current st'))) = Some r'"
    show "es' = ts \<longrightarrow> b' = budget \<longrightarrow> I st' \<longrightarrow> I r'"
    proof (cases "first_row (sort_key (rank st') (ps_pending st'))")
      case None
      then show ?thesis using r' by simp
    next
      case (Some c)
      then show ?thesis using r' IH [of target' es' b' "expand es' b' c (pop c st')" r'] pop expand
        by (cases "c = target'") auto
    qed
  qed
  then show ?thesis using assms(1,4) by blast
qed

lemma plan_search_sound:
  assumes "search target (eligible policy ts) b (start_state source) = Some r"
  shows "prev_sound (eligible policy ts) r"
proof -
  have "prev_sound (eligible policy ts) (start_state source)" by (simp add: prev_sound_def start_state_def)
  then show ?thesis using search_keeps [OF assms, of "prev_sound (eligible policy ts)"] prev_sound_expand
    by (simp add: prev_sound_pop)
qed

lemma rebuild_chain:
  "rebuild prev source budget cursor route = Inr p \<Longrightarrow> chain cursor route target \<Longrightarrow>
    (\<And>v t. prev v = Some t \<Longrightarrow> t \<in> set ts \<and> ut_target t = v) \<Longrightarrow> set route \<subseteq> set ts \<Longrightarrow>
    int (length route) \<le> budget \<or> route = [] \<Longrightarrow>
    chain source p target \<and> set p \<subseteq> set ts \<and> (int (length p) \<le> budget \<or> p = [])"
proof (induction prev source budget cursor route rule: rebuild.induct)
  case (1 prev source budget cursor route)
  show ?case
  proof (cases "cursor = source")
    case True
    then show ?thesis using 1(2-) by (simp add: rebuild.simps)
  next
    case False
    then obtain t where t: "prev cursor = Some t" "int (length (t # route)) \<le> budget"
        "rebuild prev source budget (ut_source t) (t # route) = Inr p"
      using 1(2) by (subst (asm) rebuild.simps) (auto split: option.splits if_splits)
    moreover have "t \<in> set ts" "ut_target t = cursor" using 1(4) [OF t(1)] by simp_all
    ultimately show ?thesis using 1(1) [OF False t(1) _ t(3)] 1(3-) by simp
  qed
qed

text \<open>Whatever the costs, a route that is found leads from the source to the target.\<close>

lemma plan_sound:
  assumes p: "planGraphRoute source target ts policy = Some r" and f: "gr_found r"
  shows "chain source (gr_transitions r) target \<and> set (gr_transitions r) \<subseteq> set (eligible policy ts)
    \<and> (int (length (gr_transitions r)) \<le> pp_budget policy \<or> gr_transitions r = [])"
proof (cases "source = target")
  case True
  then show ?thesis using p by (auto simp: planGraphRoute_def)
next
  case False
  then obtain st where st: "search target (eligible policy ts) (pp_budget policy) (start_state source) = Some st"
      "r = read_route source target (pp_budget policy) st"
    using p by (auto simp: planGraphRoute_def)
  obtain q where q: "rebuild (ps_prev st) source (pp_budget policy) target [] = Inr q" "gr_transitions r = q"
    using f st(2) by (auto simp: read_route_def no_route_def split: sum.splits if_splits)
  show ?thesis unfolding q(2)
    using rebuild_chain [OF q(1), of target "eligible policy ts"] plan_search_sound [OF st(1)] by (simp add: prev_sound_def)
qed

end
