(* ===== verification/Graph_Optimal.thy ===== *)
theory Graph_Optimal imports Graph_Planner
begin

text \<open>
  Completeness and optimality of the route planner on graphs whose costs are not negative
  (the column has \<^verbatim>\<open>CHECK (cost > 0)\<close>): the invariant of the search, its termination,
  and the comparison with every route of the graph.
\<close>

section \<open>The invariant\<close>

definition closed :: "plan_state \<Rightarrow> string \<Rightarrow> bool" where
  "closed st v \<longleftrightarrow> ps_dist st v \<noteq> None \<and> v \<notin> set (ps_pending st)"

text \<open>Where a reached state was reached from: a closed state one hop before.\<close>

definition reached_by :: "UiTransitionDefinition list \<Rightarrow> int \<Rightarrow> plan_state \<Rightarrow> string \<Rightarrow> UiTransitionDefinition \<Rightarrow> bool" where
  "reached_by es budget st v t \<longleftrightarrow> t \<in> set es \<and> ut_target t = v \<and> closed st (ut_source t)
     \<and> (\<exists>d k. ps_dist st (ut_source t) = Some d \<and> ps_dist st v = Some (d + hop_cost t)
          \<and> ps_depth st (ut_source t) = Some k \<and> ps_depth st v = Some (k + 1) \<and> int k < budget)"

text \<open>The transition has been used: its target is at most one hop further.\<close>

definition relaxed :: "plan_state \<Rightarrow> UiTransitionDefinition \<Rightarrow> bool" where
  "relaxed st t \<longleftrightarrow> (\<exists>d e. ps_dist st (ut_source t) = Some d \<and> ps_dist st (ut_target t) = Some e \<and> e \<le> d + hop_cost t)"

definition source_ok :: "string \<Rightarrow> plan_state \<Rightarrow> bool" where
  "source_ok source st \<longleftrightarrow> ps_dist st source = Some 0 \<and> ps_depth st source = Some 0 \<and> ps_prev st source = None"

definition pending_ok :: "plan_state \<Rightarrow> bool" where
  "pending_ok st \<longleftrightarrow> distinct (ps_pending st) \<and> (\<forall>v \<in> set (ps_pending st). ps_dist st v \<noteq> None)"

definition ordered :: "plan_state \<Rightarrow> bool" where
  "ordered st \<longleftrightarrow> (\<forall>u v d e. closed st u \<longrightarrow> v \<in> set (ps_pending st) \<longrightarrow> ps_dist st u = Some d \<longrightarrow> ps_dist st v = Some e \<longrightarrow> d \<le> e)"

definition traced :: "string \<Rightarrow> UiTransitionDefinition list \<Rightarrow> int \<Rightarrow> plan_state \<Rightarrow> bool" where
  "traced source es budget st \<longleftrightarrow> (\<forall>v. v \<noteq> source \<longrightarrow>
     (case ps_prev st v of None \<Rightarrow> ps_dist st v = None | Some t \<Rightarrow> reached_by es budget st v t))"

text \<open>\<open>todo\<close> holds the transitions of the state under expansion that were not used yet.\<close>

definition done_but :: "UiTransitionDefinition list \<Rightarrow> int \<Rightarrow> UiTransitionDefinition set \<Rightarrow> plan_state \<Rightarrow> bool" where
  "done_but es budget todo st \<longleftrightarrow> (\<forall>t \<in> set es - todo. closed st (ut_source t) \<longrightarrow>
     (\<exists>k. ps_depth st (ut_source t) = Some k \<and> budget \<le> int k) \<or> relaxed st t)"

definition nonneg :: "plan_state \<Rightarrow> bool" where
  "nonneg st \<longleftrightarrow> (\<forall>v d. ps_dist st v = Some d \<longrightarrow> 0 \<le> d)"

definition inv :: "string \<Rightarrow> UiTransitionDefinition list \<Rightarrow> int \<Rightarrow> UiTransitionDefinition set \<Rightarrow> plan_state \<Rightarrow> bool" where
  "inv source es budget todo st \<longleftrightarrow> source_ok source st \<and> pending_ok st \<and> ordered st \<and> traced source es budget st
     \<and> done_but es budget todo st \<and> nonneg st"

lemma inv_start: "inv source es budget {} (start_state source)"
  by (auto simp: inv_def start_state_def source_ok_def pending_ok_def ordered_def closed_def traced_def done_but_def nonneg_def)

lemma traced_at: "inv source es budget todo st \<Longrightarrow> v \<noteq> source \<Longrightarrow>
    case ps_prev st v of None \<Rightarrow> ps_dist st v = None | Some t \<Rightarrow> reached_by es budget st v t"
  unfolding inv_def traced_def by blast

section \<open>Relaxing one transition\<close>

text \<open>
  Using a transition of a closed state at least as far out as every closed state: closed
  states keep their labels, the target's label only improves.
\<close>

lemma relax_frame:
  assumes hop: "0 \<le> hop_cost t" and d: "ps_dist st c = Some d" and far: "\<forall>u e. closed st u \<longrightarrow> ps_dist st u = Some e \<longrightarrow> e \<le> d"
    and st'_def: "st' = relax c k t st"
  shows "closed st' u = closed st u"
    and "closed st u \<Longrightarrow> ps_dist st' u = ps_dist st u \<and> ps_prev st' u = ps_prev st u \<and> ps_depth st' u = ps_depth st u"
    and "ps_dist st u = Some e \<Longrightarrow> \<exists>e'. ps_dist st' u = Some e' \<and> e' \<le> e"
    and "\<exists>e. ps_dist st' (ut_target t) = Some e \<and> e \<le> d + hop_cost t"
    and "st' = st \<or> (\<not> closed st (ut_target t) \<and> st' = st\<lparr>ps_dist := (ps_dist st)(ut_target t \<mapsto> d + hop_cost t),
        ps_prev := (ps_prev st)(ut_target t \<mapsto> t), ps_depth := (ps_depth st)(ut_target t \<mapsto> k + 1),
        ps_pending := (if ut_target t \<in> set (ps_pending st) then ps_pending st else ps_pending st @ [ut_target t])\<rparr>)"
proof -
  let ?n = "d + hop_cost t"
  let ?new = "st\<lparr>ps_dist := (ps_dist st)(ut_target t \<mapsto> ?n), ps_prev := (ps_prev st)(ut_target t \<mapsto> t),
    ps_depth := (ps_depth st)(ut_target t \<mapsto> k + 1),
    ps_pending := (if ut_target t \<in> set (ps_pending st) then ps_pending st else ps_pending st @ [ut_target t])\<rparr>"
  let ?keep = "case ps_dist st (ut_target t) of None \<Rightarrow> False | Some e \<Rightarrow> e \<le> ?n"
  have st': "st' = (if ?keep then st else ?new)" unfolding st'_def relax_def d by (simp add: Let_def)
  have open1: "\<not> closed st (ut_target t)" if "\<not> ?keep"
  proof
    assume c: "closed st (ut_target t)"
    then obtain e where e: "ps_dist st (ut_target t) = Some e" by (auto simp: closed_def)
    then have "e \<le> d" using far c by blast
    then have "e \<le> ?n" using hop by simp
    then show False using that e by simp
  qed
  show st'_cases: "st' = st \<or> (\<not> closed st (ut_target t) \<and> st' = ?new)" using st' open1 by (cases ?keep) simp_all
  show "closed st' u = closed st u"
  proof (cases "st' = st")
    case False
    then have "\<not> closed st (ut_target t)" and n: "st' = ?new" using st'_cases by simp_all
    then show ?thesis by (cases "u = ut_target t") (auto simp: closed_def n)
  qed simp
  show "closed st u \<Longrightarrow> ps_dist st' u = ps_dist st u \<and> ps_prev st' u = ps_prev st u \<and> ps_depth st' u = ps_depth st u"
    using st'_cases by auto
  show "ps_dist st u = Some e \<Longrightarrow> \<exists>e'. ps_dist st' u = Some e' \<and> e' \<le> e"
    using st' by (auto split: if_splits)
  show "\<exists>e. ps_dist st' (ut_target t) = Some e \<and> e \<le> ?n"
    using st' by (auto split: option.splits if_splits)
qed

text \<open>What the search loop keeps while it expands \<open>c\<close>, which is closed and furthest out.\<close>

definition frontier :: "plan_state \<Rightarrow> string \<Rightarrow> nat \<Rightarrow> bool" where
  "frontier st c k \<longleftrightarrow> closed st c \<and> ps_depth st c = Some k
     \<and> (\<forall>u d e. closed st u \<longrightarrow> ps_dist st u = Some e \<longrightarrow> ps_dist st c = Some d \<longrightarrow> e \<le> d)"

lemma inv_relax:
  assumes i: "inv source es budget todo st" and f: "frontier st c k" and t: "t \<in> set es" "ut_source t = c" "0 \<le> hop_cost t"
    and k: "int k < budget"
  shows "inv source es budget (todo - {t}) (relax c k t st)" "frontier (relax c k t st) c k"
    "closed (relax c k t st) u = closed st u"
proof -
  let ?st = "relax c k t st"
  obtain d where d: "ps_dist st c = Some d" using f by (auto simp: frontier_def closed_def)
  have far: "\<forall>u e. closed st u \<longrightarrow> ps_dist st u = Some e \<longrightarrow> e \<le> d" using f d by (auto simp: frontier_def)
  note frame = relax_frame [OF t(3) d far refl, where k = k]
  show cl: "closed ?st u = closed st u" for u by (rule frame(1))
  have c: "closed st c" "ps_depth st c = Some k" using f by (auto simp: frontier_def)
  show "frontier ?st c k"
    unfolding frontier_def cl
  proof (intro conjI allI impI)
    show "closed st c" by (rule c(1))
    show "ps_depth ?st c = Some k" using frame(2) [OF c(1)] c(2) by simp
    fix u x e
    assume u: "closed st u" "ps_dist ?st u = Some e" "ps_dist ?st c = Some x"
    then have "ps_dist st u = Some e" "x = d" using frame(2) [OF u(1)] frame(2) [OF c(1)] d by simp_all
    then show "e \<le> x" using far u(1) by simp
  qed
  show "inv source es budget (todo - {t}) ?st"
  proof (cases "?st = st")
    case True
    have "relaxed st t" using frame(4) d t(2) True by (auto simp: relaxed_def)
    then show ?thesis using i True by (auto simp: inv_def done_but_def)
  next
    case False
    let ?v = "ut_target t" and ?n = "d + hop_cost t"
    have v: "\<not> closed st ?v" and st': "?st = st\<lparr>ps_dist := (ps_dist st)(?v \<mapsto> ?n), ps_prev := (ps_prev st)(?v \<mapsto> t),
        ps_depth := (ps_depth st)(?v \<mapsto> k + 1),
        ps_pending := (if ?v \<in> set (ps_pending st) then ps_pending st else ps_pending st @ [?v])\<rparr>"
      using frame(5) False by blast+
    have ii: "source_ok source st" "pending_ok st" "ordered st" "traced source es budget st" "done_but es budget todo st" "nonneg st"
      using i by (simp_all add: inv_def)
    have d0: "0 \<le> d" using ii(6) d by (auto simp: nonneg_def)
    have vs: "?v \<noteq> source"
    proof
      assume "?v = source"
      then have "ps_dist st ?v = Some 0" using ii(1) by (simp add: source_ok_def)
      then have "relax c k t st = st" using d d0 t(3) by (simp add: relax_def)
      then show False using False by simp
    qed
    have "source_ok source ?st" using ii(1) vs unfolding st' by (simp add: source_ok_def)
    moreover have "pending_ok ?st" using ii(2) unfolding st' by (auto simp: pending_ok_def)
    moreover have "nonneg ?st" using ii(6) d0 t(3) unfolding st' by (auto simp: nonneg_def)
    moreover have "ordered ?st" unfolding ordered_def cl
    proof (intro allI impI)
      fix u w x y
      assume a: "closed st u" "w \<in> set (ps_pending ?st)" "ps_dist ?st u = Some x" "ps_dist ?st w = Some y"
      have x: "ps_dist st u = Some x" using a(1,3) frame(2) by simp
      show "x \<le> y"
      proof (cases "w = ?v")
        case True
        then have "y = ?n" using a(4) unfolding st' by simp
        moreover have "x \<le> d" using far a(1) x by blast
        ultimately show ?thesis using t(3) by simp
      next
        case False
        then have "w \<in> set (ps_pending st)" "ps_dist st w = Some y" using a(2,4) unfolding st' by (auto split: if_splits)
        then show ?thesis using ii(3) a(1) x by (auto simp: ordered_def)
      qed
    qed
    moreover have "traced source es budget ?st" unfolding traced_def
    proof (intro allI impI)
      fix w assume w: "w \<noteq> source"
      show "case ps_prev ?st w of None \<Rightarrow> ps_dist ?st w = None | Some t \<Rightarrow> reached_by es budget ?st w t"
      proof (cases "w = ?v")
        case True
        have "reached_by es budget ?st ?v t" using t c d k v unfolding reached_by_def cl unfolding st' by auto
        then show ?thesis using True unfolding st' by simp
      next
        case False
        then have same: "ps_prev ?st w = ps_prev st w" "ps_dist ?st w = ps_dist st w" "ps_depth ?st w = ps_depth st w"
          unfolding st' by simp_all
        have "reached_by es budget ?st w s" if r: "reached_by es budget st w s" for s
          using r same frame(2) [of "ut_source s"] unfolding reached_by_def cl by auto
        moreover have "case ps_prev st w of None \<Rightarrow> ps_dist st w = None | Some t \<Rightarrow> reached_by es budget st w t"
          using ii(4) w unfolding traced_def by blast
        ultimately show ?thesis unfolding same by (cases "ps_prev st w") simp_all
      qed
    qed
    moreover have "done_but es budget (todo - {t}) ?st" unfolding done_but_def cl
    proof (intro ballI impI)
      fix s assume s: "s \<in> set es - (todo - {t})" and cs: "closed st (ut_source s)"
      note own = frame(2) [OF cs]
      show "(\<exists>k. ps_depth ?st (ut_source s) = Some k \<and> budget \<le> int k) \<or> relaxed ?st s"
      proof (cases "s = t")
        case True
        then show ?thesis using frame(4) d t(2) own by (auto simp: relaxed_def)
      next
        case False
        then have "(\<exists>k. ps_depth st (ut_source s) = Some k \<and> budget \<le> int k) \<or> relaxed st s"
          using ii(5) s cs by (auto simp: done_but_def)
        moreover have "relaxed ?st s" if "relaxed st s"
          using that frame(3) own unfolding relaxed_def by (metis order_trans)
        ultimately show ?thesis using own by auto
      qed
    qed
    ultimately show ?thesis by (simp add: inv_def)
  qed
qed

lemma inv_relax_all:
  assumes "inv source es budget todo st" "frontier st c k" "int k < budget" "set xs \<subseteq> set es"
    "\<And>t. t \<in> set xs \<Longrightarrow> ut_source t = c \<and> 0 \<le> hop_cost t"
  shows "inv source es budget (todo - set xs) (fold (relax c k) xs st)" "closed (fold (relax c k) xs st) u = closed st u"
proof -
  have "inv source es budget (todo - set xs) (fold (relax c k) xs st) \<and> (\<forall>u. closed (fold (relax c k) xs st) u = closed st u)"
    using assms
  proof (induction xs arbitrary: st todo)
    case (Cons t xs)
    have t: "t \<in> set es" "ut_source t = c" "0 \<le> hop_cost t" using Cons.prems(4,5) by auto
    note r = inv_relax [OF Cons.prems(1,2) t Cons.prems(3)]
    have "inv source es budget (todo - {t} - set xs) (fold (relax c k) xs (relax c k t st))
        \<and> (\<forall>u. closed (fold (relax c k) xs (relax c k t st)) u = closed (relax c k t st) u)"
      using Cons.prems(4,5) by (intro Cons.IH [OF r(1,2) Cons.prems(3)]) auto
    moreover have "todo - {t} - set xs = todo - set (t # xs)" by auto
    ultimately show ?case using r(3) by simp
  qed simp
  then show "inv source es budget (todo - set xs) (fold (relax c k) xs st)" "closed (fold (relax c k) xs st) u = closed st u"
    by blast+
qed

section \<open>One pass of the loop\<close>

definition nodes :: "string \<Rightarrow> UiTransitionDefinition list \<Rightarrow> string set" where
  "nodes source es = insert source (ut_target ` set es)"

lemma finite_nodes [simp]: "finite (nodes source es)"
  by (simp add: nodes_def)

lemma inv_node: "inv source es budget todo st \<Longrightarrow> ps_dist st v \<noteq> None \<Longrightarrow> v \<in> nodes source es"
proof (rule ccontr)
  assume i: "inv source es budget todo st" and d: "ps_dist st v \<noteq> None" and n: "v \<notin> nodes source es"
  then have "case ps_prev st v of None \<Rightarrow> ps_dist st v = None | Some t \<Rightarrow> reached_by es budget st v t"
    by (intro traced_at [OF i]) (simp add: nodes_def)
  then show False using d n by (cases "ps_prev st v") (auto simp: reached_by_def nodes_def)
qed

lemma rank_first:
  assumes p: "pending_ok st" and c: "first_row (sort_key (rank st) (ps_pending st)) = Some c" and v: "v \<in> set (ps_pending st)"
  shows "\<exists>d e. ps_dist st c = Some d \<and> ps_dist st v = Some e \<and> d \<le> e"
proof -
  obtain xs where xs: "sort_key (rank st) (ps_pending st) = c # xs" using c by (cases "sort_key (rank st) (ps_pending st)") auto
  have "sorted (map (rank st) (c # xs))" unfolding xs [symmetric] by simp
  moreover have m: "set (c # xs) = set (ps_pending st)" unfolding xs [symmetric] by simp
  ultimately have "rank st c \<le> rank st v" using v by auto
  moreover obtain d e where "ps_dist st c = Some d" "ps_dist st v = Some e" using p v m unfolding pending_ok_def
    by (metis list.set_intros(1) not_None_eq)
  ultimately show ?thesis by (simp add: rank_def)
qed

text \<open>Taking the nearest pending state closes it; nothing else closes or opens.\<close>

lemma inv_pop:
  assumes i: "inv source es budget {} st" and c: "first_row (sort_key (rank st) (ps_pending st)) = Some c"
  shows "inv source es budget {t \<in> set es. ut_source t = c} (pop c st)"
    "\<exists>k. frontier (pop c st) c k" "closed (pop c st) u \<longleftrightarrow> closed st u \<or> u = c" "\<not> closed st c" "c \<in> nodes source es"
    "\<forall>v \<in> set (ps_pending (pop c st)). \<exists>d e. ps_dist st c = Some d \<and> ps_dist st v = Some e \<and> d \<le> e"
proof -
  have ii: "source_ok source st" "pending_ok st" "ordered st" "traced source es budget st" "done_but es budget {} st" "nonneg st"
    using i by (simp_all add: inv_def)
  note near = rank_first [OF ii(2) c]
  have m: "c \<in> set (ps_pending st)" using first_row_in [OF c] by simp
  then obtain d where d: "ps_dist st c = Some d" using ii(2) by (auto simp: pending_ok_def)
  show "\<not> closed st c" using m by (simp add: closed_def)
  show "c \<in> nodes source es" using inv_node [OF i] d by simp
  have pend: "set (ps_pending (pop c st)) = set (ps_pending st) - {c}" using ii(2) by (simp add: pop_def pending_ok_def)
  have same: "ps_dist (pop c st) = ps_dist st" "ps_prev (pop c st) = ps_prev st" "ps_depth (pop c st) = ps_depth st"
    by (simp_all add: pop_def)
  show cl: "closed (pop c st) u \<longleftrightarrow> closed st u \<or> u = c" for u using d unfolding closed_def pend same by auto
  show "\<forall>v \<in> set (ps_pending (pop c st)). \<exists>d e. ps_dist st c = Some d \<and> ps_dist st v = Some e \<and> d \<le> e"
    using near unfolding pend by blast
  have r: "reached_by es budget (pop c st) v t" if "reached_by es budget st v t" for v t
    using that unfolding reached_by_def cl same by blast
  have k: "\<exists>k. ps_depth st c = Some k"
  proof (cases "c = source")
    case True
    then show ?thesis using ii(1) by (simp add: source_ok_def)
  next
    case False
    then have "case ps_prev st c of None \<Rightarrow> ps_dist st c = None | Some t \<Rightarrow> reached_by es budget st c t"
      by (rule traced_at [OF i])
    then show ?thesis using d by (cases "ps_prev st c") (auto simp: reached_by_def)
  qed
  have far: "e \<le> d" if "closed st u" "ps_dist st u = Some e" for u e
    using ii(3) that m d unfolding ordered_def by blast
  show "\<exists>k. frontier (pop c st) c k" using k far d unfolding frontier_def cl same by auto
  have "ordered (pop c st)" unfolding ordered_def cl same pend
  proof (intro allI impI)
    fix u v x y
    assume a: "closed st u \<or> u = c" "v \<in> set (ps_pending st) - {c}" "ps_dist st u = Some x" "ps_dist st v = Some y"
    show "x \<le> y"
    proof (cases "closed st u")
      case True
      then show ?thesis using ii(3) a unfolding ordered_def by blast
    next
      case False
      then have "u = c" using a(1) by simp
      then show ?thesis using near [of v] a by auto
    qed
  qed
  moreover have "traced source es budget (pop c st)" unfolding traced_def same
  proof (intro allI impI)
    fix v assume "v \<noteq> source"
    then have "case ps_prev st v of None \<Rightarrow> ps_dist st v = None | Some t \<Rightarrow> reached_by es budget st v t"
      by (rule traced_at [OF i])
    then show "case ps_prev st v of None \<Rightarrow> ps_dist st v = None | Some t \<Rightarrow> reached_by es budget (pop c st) v t"
      using r by (cases "ps_prev st v") simp_all
  qed
  moreover have "done_but es budget {t \<in> set es. ut_source t = c} (pop c st)"
    using ii(5) unfolding done_but_def relaxed_def cl same by auto
  moreover have "pending_ok (pop c st)" using ii(2) pend by (auto simp: pending_ok_def pop_def)
  ultimately show "inv source es budget {t \<in> set es. ut_source t = c} (pop c st)"
    using ii(1,6) by (simp add: inv_def source_ok_def nonneg_def same)
qed

lemma inv_expand:
  assumes i: "inv source es budget {t \<in> set es. ut_source t = c} st" and f: "frontier st c k"
    and hops: "\<forall>t \<in> set es. 0 \<le> hop_cost t"
  shows "inv source es budget {} (expand es budget c st)" "closed (expand es budget c st) u = closed st u"
proof -
  have k: "ps_depth st c = Some k" using f by (simp add: frontier_def)
  let ?xs = "filter (\<lambda>t. ut_source t = c) es"
  have e: "expand es budget c st = (if budget \<le> int k then st else fold (relax c k) ?xs st)"
    using k by (simp add: expand_def)
  have all: "inv source es budget ({t \<in> set es. ut_source t = c} - set ?xs) (fold (relax c k) ?xs st)"
    "closed (fold (relax c k) ?xs st) u = closed st u" if "\<not> budget \<le> int k" for u
  proof -
    have lt: "int k < budget" using that by simp
    have s: "set ?xs \<subseteq> set es" by auto
    have h: "ut_source t = c \<and> 0 \<le> hop_cost t" if "t \<in> set ?xs" for t using that hops by auto
    show "inv source es budget ({t \<in> set es. ut_source t = c} - set ?xs) (fold (relax c k) ?xs st)"
      by (rule inv_relax_all(1) [OF i f lt s h])
    show "closed (fold (relax c k) ?xs st) u = closed st u"
      by (rule inv_relax_all(2) [OF i f lt s h])
  qed
  show "inv source es budget {} (expand es budget c st)"
  proof (cases "budget \<le> int k")
    case True
    then show ?thesis using i k unfolding e inv_def done_but_def by auto
  next
    case False
    have "{t \<in> set es. ut_source t = c} - set ?xs = {}" by auto
    then show ?thesis using all(1) [OF False] False unfolding e by simp
  qed
  show "closed (expand es budget c st) u = closed st u" using all(2) unfolding e by simp
qed

section \<open>Termination and the shape of the result\<close>

definition finished :: "string \<Rightarrow> string \<Rightarrow> UiTransitionDefinition list \<Rightarrow> int \<Rightarrow> plan_state \<Rightarrow> bool" where
  "finished source target es budget st \<longleftrightarrow>
     (inv source es budget {} st \<and> ps_pending st = [])
   \<or> (inv source es budget {t \<in> set es. ut_source t = target} st \<and> closed st target
      \<and> (\<forall>v \<in> set (ps_pending st). \<exists>d e. ps_dist st target = Some d \<and> ps_dist st v = Some e \<and> d \<le> e))"

lemma search_finishes:
  assumes hops: "\<forall>t \<in> set es. 0 \<le> hop_cost t" and "inv source es budget {} st"
  shows "\<exists>r. search target es budget st = Some r \<and> finished source target es budget r"
  using assms(2)
proof (induction "card {v \<in> nodes source es. \<not> closed st v}" arbitrary: st rule: less_induct)
  case less
  show ?case
  proof (cases "first_row (sort_key (rank st) (ps_pending st))")
    case None
    then have "ps_pending st = []" by (simp flip: set_empty)
    then show ?thesis using None less.prems by (subst search.simps) (simp add: finished_def)
  next
    case (Some c)
    note p = inv_pop [OF less.prems Some]
    show ?thesis
    proof (cases "c = target")
      case True
      have "finished source target es budget (pop target st)"
        using p(1,3,6) True by (auto simp: finished_def pop_def)
      then show ?thesis using True Some by (subst search.simps) simp
    next
      case False
      obtain k where f: "frontier (pop c st) c k" using p(2) by blast
      note e = inv_expand [OF p(1) f hops]
      let ?st = "expand es budget c (pop c st)"
      have "{v \<in> nodes source es. \<not> closed ?st v} \<subset> {v \<in> nodes source es. \<not> closed st v}"
        using e(2) p(3,4,5) by auto
      then have "card {v \<in> nodes source es. \<not> closed ?st v} < card {v \<in> nodes source es. \<not> closed st v}"
        by (intro psubset_card_mono) simp_all
      from less.hyps [OF this e(1)] show ?thesis using False Some by (subst search.simps) simp
    qed
  qed
qed

section \<open>Reading the route\<close>

lemma traced_cases:
  assumes "inv source es budget todo st" "ps_dist st v = Some d" "ps_depth st v = Some k"
  shows "(v = source \<and> d = 0 \<and> k = 0)
    \<or> (v \<noteq> source \<and> (\<exists>t k' d'. ps_prev st v = Some t \<and> t \<in> set es \<and> ut_target t = v \<and> k = Suc k' \<and> int k' < budget
         \<and> ps_depth st (ut_source t) = Some k' \<and> ps_dist st (ut_source t) = Some d' \<and> d = d' + hop_cost t))"
proof (cases "v = source")
  case True
  then show ?thesis using assms by (auto simp: inv_def source_ok_def)
next
  case False
  then have "case ps_prev st v of None \<Rightarrow> ps_dist st v = None | Some t \<Rightarrow> reached_by es budget st v t"
    by (rule traced_at [OF assms(1)])
  then show ?thesis using False assms(2,3) by (cases "ps_prev st v") (auto simp: reached_by_def)
qed

lemma dist_depth:
  assumes "inv source es budget todo st" "ps_dist st v = Some d"
  shows "\<exists>k. ps_depth st v = Some k"
proof (cases "v = source")
  case True
  then show ?thesis using assms by (auto simp: inv_def source_ok_def)
next
  case False
  then have "case ps_prev st v of None \<Rightarrow> ps_dist st v = None | Some t \<Rightarrow> reached_by es budget st v t"
    by (rule traced_at [OF assms(1)])
  then show ?thesis using assms(2) by (cases "ps_prev st v") (auto simp: reached_by_def)
qed

lemma rebuild_traced:
  assumes "inv source es budget todo st" "ps_dist st v = Some d" "ps_depth st v = Some k"
    "int k + int (length route) \<le> budget \<or> k = 0"
  shows "\<exists>p. rebuild (ps_prev st) source budget v route = Inr (p @ route) \<and> chain source p v \<and> set p \<subseteq> set es
    \<and> route_cost p = d \<and> length p = k"
  using assms(2-4)
proof (induction k arbitrary: v d route)
  case 0
  then have "v = source \<and> d = 0" using traced_cases [OF assms(1) 0(1,2)] by simp
  then show ?case by (intro exI [of _ "[]"]) (simp add: rebuild.simps)
next
  case (Suc k)
  obtain t d' where t: "v \<noteq> source" "ps_prev st v = Some t" "t \<in> set es" "ut_target t = v" "ps_depth st (ut_source t) = Some k"
      "ps_dist st (ut_source t) = Some d'" "d = d' + hop_cost t"
    using traced_cases [OF assms(1) Suc.prems(1,2)] by auto
  have "int k + int (length (t # route)) \<le> budget" using Suc.prems(3) by simp
  then obtain p where p: "rebuild (ps_prev st) source budget (ut_source t) (t # route) = Inr (p @ t # route)"
      "chain source p (ut_source t)" "set p \<subseteq> set es" "route_cost p = d'" "length p = k"
    using Suc.IH [OF t(6,5)] by blast
  have "rebuild (ps_prev st) source budget v route = Inr ((p @ [t]) @ route)"
    using t(1,2) p(1) Suc.prems(3) by (subst rebuild.simps) simp
  then show ?case using p t by (intro exI [of _ "p @ [t]"]) (simp add: chain_snoc)
qed

lemma depths_below:
  assumes "inv source es budget todo st" "ps_dist st v = Some d" "ps_depth st v = Some k" "j \<le> k"
  shows "\<exists>u \<in> nodes source es. ps_depth st u = Some j"
  using assms(2-4)
proof (induction k arbitrary: v d)
  case 0
  then show ?case using inv_node [OF assms(1), of v] by auto
next
  case (Suc k)
  show ?case
  proof (cases "j = Suc k")
    case True
    then show ?thesis using Suc.prems inv_node [OF assms(1), of v] by auto
  next
    case False
    then show ?thesis using traced_cases [OF assms(1) Suc.prems(1,2)] Suc.IH Suc.prems(3) by auto
  qed
qed

text \<open>A reached state is fewer hops away than there are states.\<close>

lemma depth_small:
  assumes "inv source es budget todo st" "ps_dist st v = Some d" "ps_depth st v = Some k"
  shows "k < card (nodes source es)"
proof -
  have "{..k} \<subseteq> (\<lambda>u. the (ps_depth st u)) ` nodes source es"
    using depths_below [OF assms] by (force simp: image_iff)
  then have "card {..k} \<le> card (nodes source es)" by (rule surj_card_le [OF finite_nodes])
  then show ?thesis by simp
qed

section \<open>Every route is beaten\<close>

definition at_most :: "plan_state \<Rightarrow> string \<Rightarrow> rat \<Rightarrow> bool" where
  "at_most st v c \<longleftrightarrow> (\<exists>d. ps_dist st v = Some d \<and> d \<le> c)"

lemma at_most_mono: "at_most st v c \<Longrightarrow> c \<le> c' \<Longrightarrow> at_most st v c'"
  by (auto simp: at_most_def)

lemma route_bound:
  assumes i: "inv source es budget todo st" and todo: "todo \<subseteq> {t. ut_source t = target}"
    and hops: "\<forall>t \<in> set es. 0 \<le> hop_cost t" and b: "int (card (nodes source es)) \<le> budget"
  shows "chain source p v \<Longrightarrow> set p \<subseteq> set es \<Longrightarrow>
    at_most st v (route_cost p) \<or> (\<exists>x \<in> set (ps_pending st). at_most st x (route_cost p)) \<or> at_most st target (route_cost p)"
proof (induction p arbitrary: v rule: rev_induct)
  case Nil
  then show ?case using i by (auto simp: at_most_def inv_def source_ok_def)
next
  case (snoc t p)
  let ?u = "ut_source t"
  have t: "t \<in> set es" "ut_target t = v" "chain source p ?u" "set p \<subseteq> set es" using snoc.prems by (auto simp: chain_snoc)
  have h: "0 \<le> hop_cost t" using hops t(1) by blast
  then have le: "route_cost p \<le> route_cost (p @ [t])" by simp
  from snoc.IH [OF t(3,4)] show ?case
  proof (elim disjE)
    assume u: "at_most st ?u (route_cost p)"
    then obtain d where d: "ps_dist st ?u = Some d" "d \<le> route_cost p" by (auto simp: at_most_def)
    obtain k where k: "ps_depth st ?u = Some k" using dist_depth [OF i d(1)] by blast
    have small: "\<not> budget \<le> int k" using depth_small [OF i d(1) k] b by simp
    consider "?u \<in> set (ps_pending st)" | "t \<in> todo" | "closed st ?u" "t \<notin> todo" using d(1) by (auto simp: closed_def)
    then show ?thesis
    proof cases
      case 1
      then show ?thesis using at_most_mono [OF u le] by blast
    next
      case 2
      then have "?u = target" using todo by blast
      then show ?thesis using at_most_mono [OF u le] by simp
    next
      case 3
      then have "relaxed st t" using i t(1) k small unfolding inv_def done_but_def by auto
      then have "at_most st v (route_cost (p @ [t]))" using d t(2) by (auto simp: relaxed_def at_most_def)
      then show ?thesis by blast
    qed
  qed (use at_most_mono le in blast)+
qed

lemma finished_bound:
  assumes f: "finished source target es budget st" and hops: "\<forall>t \<in> set es. 0 \<le> hop_cost t"
    and b: "int (card (nodes source es)) \<le> budget" and p: "chain source p target" "set p \<subseteq> set es"
  shows "at_most st target (route_cost p)"
  using f unfolding finished_def
proof (elim disjE conjE)
  assume "inv source es budget {} st" "ps_pending st = []"
  then show ?thesis using route_bound [OF _ _ hops b p] by fastforce
next
  assume i: "inv source es budget {t \<in> set es. ut_source t = target} st"
    and near: "\<forall>v \<in> set (ps_pending st). \<exists>d e. ps_dist st target = Some d \<and> ps_dist st v = Some e \<and> d \<le> e"
  have "at_most st target c" if "x \<in> set (ps_pending st)" "at_most st x c" for x c
    using near that by (fastforce simp: at_most_def)
  then show ?thesis using route_bound [OF i _ hops b p] by blast
qed

section \<open>The planner\<close>

lemma finished_inv: "finished source target es budget st \<Longrightarrow> \<exists>todo. inv source es budget todo st"
  by (auto simp: finished_def)

lemma read_route_outcome:
  assumes f: "finished source target es budget st" and st: "source \<noteq> target"
  shows "case ps_dist st target of
      None \<Rightarrow> read_route source target budget st = no_route ''No promoted route satisfies confidence and safety policy''
    | Some d \<Rightarrow> \<exists>p. read_route source target budget st = \<lparr>gr_found = True, gr_transitions = p, gr_cost = Some d, gr_reason = None\<rparr>
        \<and> chain source p target \<and> set p \<subseteq> set es \<and> route_cost p = d \<and> int (length p) \<le> budget"
proof -
  obtain todo where i: "inv source es budget todo st" using finished_inv [OF f] by blast
  have tr: "case ps_prev st target of None \<Rightarrow> ps_dist st target = None | Some t \<Rightarrow> reached_by es budget st target t"
    by (rule traced_at [OF i]) (use st in simp)
  show ?thesis
  proof (cases "ps_dist st target")
    case None
    then have "ps_prev st target = None" using tr by (cases "ps_prev st target") (auto simp: reached_by_def)
    then show ?thesis using None by (simp add: read_route_def)
  next
    case (Some d)
    then obtain k where k: "ps_depth st target = Some k" using dist_depth [OF i] by blast
    have lim: "int k \<le> budget" "ps_prev st target \<noteq> None" using traced_cases [OF i Some k] st by auto
    obtain p where "rebuild (ps_prev st) source budget target [] = Inr p" "chain source p target" "set p \<subseteq> set es"
        "route_cost p = d" "length p = k"
      using rebuild_traced [OF i Some k, of "[]"] lim(1) by auto
    then show ?thesis using Some lim by (auto simp: read_route_def)
  qed
qed

lemma eligible_hops: "\<forall>t \<in> set ts. 0 \<le> ut_cost t \<Longrightarrow> \<forall>t \<in> set (eligible policy ts). 0 \<le> hop_cost t"
  by (simp add: eligible_def hop_cost_def)

lemma plan_finishes:
  assumes "\<forall>t \<in> set ts. 0 \<le> ut_cost t" "source \<noteq> target"
  obtains st where "planGraphRoute source target ts policy = Some (read_route source target (pp_budget policy) st)"
    "finished source target (eligible policy ts) (pp_budget policy) st"
proof -
  obtain st where "search target (eligible policy ts) (pp_budget policy) (start_state source) = Some st"
      "finished source target (eligible policy ts) (pp_budget policy) st"
    using search_finishes [OF eligible_hops [OF assms(1)] inv_start] by blast
  then show thesis using assms(2) by (intro that) (simp_all add: planGraphRoute_def)
qed

lemma card_eligible_nodes: "card (nodes source (eligible policy ts)) \<le> card (insert source (ut_target ` set ts))"
  by (rule card_mono) (auto simp: nodes_def eligible_def)

end
