(* ===== verification/Graph_Properties.thy ===== *)
theory Graph_Properties imports Graph_Optimal
begin

text \<open>The properties of the route planner, with their samples.\<close>

section \<open>Samples\<close>

definition hop :: "string \<Rightarrow> string \<Rightarrow> string \<Rightarrow> rat \<Rightarrow> UiTransitionDefinition" where
  "hop i a b c = \<lparr>ut_id = i, ut_key = i, ut_app = ''app'', ut_source = a, ut_target = b, ut_element = None, ut_action = [],
     ut_cost = c, ut_safety = ''navigation'', ut_confidence = 1, ut_pre = None, ut_post = None\<rparr>"

definition sample_graph :: "UiTransitionDefinition list" where
  "sample_graph = [hop ''direct'' ''home'' ''comments'' 4, hop ''open'' ''home'' ''post'' 1, hop ''read'' ''post'' ''comments'' 1]"

definition planning :: "int \<Rightarrow> GraphPlanningPolicy" where
  "planning n = \<lparr>pp_safety = [''navigation''], pp_confidence = 7/10, pp_budget = n\<rparr>"

section \<open>Claims\<close>

text \<open>
  C27. A planned route is safe to follow, whatever the costs: it leads from the source to
  the target hop by hop, every hop is one of the given transitions with an allowed safety
  class and at least the minimum confidence, and it does not exceed the transition budget.
\<close>

theorem planned_route_sound:
  assumes "planGraphRoute source target ts policy = Some r" "gr_found r" "source \<noteq> target"
  shows "chain source (gr_transitions r) target \<and> int (length (gr_transitions r)) \<le> pp_budget policy
    \<and> (\<forall>t \<in> set (gr_transitions r). t \<in> set ts \<and> ut_safety t \<in> set (pp_safety policy) \<and> pp_confidence policy \<le> ut_confidence t)"
  using plan_sound [OF assms(1,2)] assms(3) by (auto simp: eligible_def)

theorem planned_route_sound_witness:
  "\<exists>r. planGraphRoute ''home'' ''comments'' sample_graph (planning 20) = Some r
     \<and> map ut_id (gr_transitions r) = [''open'', ''read''] \<and> chain ''home'' (gr_transitions r) ''comments''"
proof -
  let ?p = "planGraphRoute ''home'' ''comments'' sample_graph (planning 20)"
  have "case ?p of None \<Rightarrow> False | Some r \<Rightarrow> gr_found r \<and> map ut_id (gr_transitions r) = [''open'', ''read'']" by code_simp
  then obtain r where r: "?p = Some r" "gr_found r" "map ut_id (gr_transitions r) = [''open'', ''read'']"
    by (cases ?p) auto
  show ?thesis using planned_route_sound [OF r(1,2)] r by auto
qed

text \<open>
  The planner always returns when no cost is negative, and its only negative answer is
  that no route satisfies the policy: the failures of the reconstruction cannot happen. A
  found route costs exactly what the answer says.
\<close>

theorem planner_returns:
  assumes "\<forall>t \<in> set ts. 0 \<le> ut_cost t"
  shows "\<exists>r. planGraphRoute source target ts policy = Some r
    \<and> (if gr_found r then gr_cost r = Some (route_cost (gr_transitions r)) \<and> gr_reason r = None
       else gr_transitions r = [] \<and> gr_cost r = None
         \<and> gr_reason r = Some ''No promoted route satisfies confidence and safety policy'')"
proof (cases "source = target")
  case True
  then show ?thesis by (simp add: planGraphRoute_def)
next
  case False
  obtain st where st: "planGraphRoute source target ts policy = Some (read_route source target (pp_budget policy) st)"
    "finished source target (eligible policy ts) (pp_budget policy) st" by (rule plan_finishes [OF assms False])
  show ?thesis
    using read_route_outcome [OF st(2) False] unfolding st(1) by (cases "ps_dist st target") (auto simp: no_route_def)
qed

theorem planner_returns_witness: "\<exists>r. planGraphRoute ''comments'' ''home'' sample_graph (planning 20) = Some r"
proof -
  have "\<forall>t \<in> set sample_graph. 0 \<le> ut_cost t" by (simp add: sample_graph_def hop_def)
  from planner_returns [OF this] show ?thesis by blast
qed

text \<open>
  C28. When no cost is negative and the transition budget is not smaller than the number of
  states, the planner is complete and optimal: it finds a route exactly when the eligible
  transitions connect the source to the target, and no route of them is cheaper.
\<close>

theorem planner_optimal:
  assumes c: "\<forall>t \<in> set ts. 0 \<le> ut_cost t" and b: "int (card (insert source (ut_target ` set ts))) \<le> pp_budget policy"
  shows "\<exists>r. planGraphRoute source target ts policy = Some r
    \<and> (gr_found r \<longleftrightarrow> (\<exists>p. chain source p target \<and> set p \<subseteq> set (eligible policy ts)))
    \<and> (\<forall>p. chain source p target \<and> set p \<subseteq> set (eligible policy ts) \<longrightarrow> route_cost (gr_transitions r) \<le> route_cost p)"
proof -
  let ?es = "eligible policy ts"
  note hops = eligible_hops [OF c]
  have pos: "0 \<le> route_cost p" if "set p \<subseteq> set ?es" for p
    using that hops[of policy] by (induction p) auto
  show ?thesis
  proof (cases "source = target")
    case True
    have "chain source [] target" using True by simp
    then have "\<exists>p. chain source p target \<and> set p \<subseteq> set ?es" by (metis empty_set empty_subsetI)
    then show ?thesis using True pos by (simp add: planGraphRoute_def)
  next
    case False
    obtain st where st: "planGraphRoute source target ts policy = Some (read_route source target (pp_budget policy) st)"
      "finished source target ?es (pp_budget policy) st" by (rule plan_finishes [OF c False])
    have "card (nodes source ?es) \<le> card (insert source (ut_target ` set ts))" by (rule card_eligible_nodes)
    with b have b': "int (card (nodes source ?es)) \<le> pp_budget policy" by linarith
    note best = finished_bound [OF st(2) hops b']
    show ?thesis
    proof (cases "ps_dist st target")
      case None
      then have "\<not> (chain source p target \<and> set p \<subseteq> set ?es)" for p using best by (auto simp: at_most_def)
      then show ?thesis using read_route_outcome [OF st(2) False] None unfolding st(1) by (auto simp: no_route_def)
    next
      case (Some d)
      then obtain q where q: "read_route source target (pp_budget policy) st
            = \<lparr>gr_found = True, gr_transitions = q, gr_cost = Some d, gr_reason = None\<rparr>"
          "chain source q target" "set q \<subseteq> set ?es" "route_cost q = d"
        using read_route_outcome [OF st(2) False] by auto
      have "d \<le> route_cost p" if "chain source p target" "set p \<subseteq> set ?es" for p
        using best [OF that] Some by (simp add: at_most_def)
      then show ?thesis using q unfolding st(1) by auto
    qed
  qed
qed

theorem planner_optimal_witness:
  "\<exists>r. planGraphRoute ''home'' ''comments'' sample_graph (planning 20) = Some r \<and> gr_found r
     \<and> route_cost (gr_transitions r) \<le> route_cost [hop ''direct'' ''home'' ''comments'' 4]"
proof -
  have c: "\<forall>t \<in> set sample_graph. 0 \<le> ut_cost t" by (simp add: sample_graph_def hop_def)
  have "card (insert ''home'' (ut_target ` set sample_graph)) \<le> 20" by code_simp
  then have b: "int (card (insert ''home'' (ut_target ` set sample_graph))) \<le> pp_budget (planning 20)"
    by (simp add: planning_def)
  have "chain ''home'' [hop ''direct'' ''home'' ''comments'' 4] ''comments''
      \<and> set [hop ''direct'' ''home'' ''comments'' 4] \<subseteq> set (eligible (planning 20) sample_graph)"
    by (simp add: sample_graph_def hop_def eligible_def planning_def)
  with planner_optimal [OF c b, of "''comments''"] show ?thesis by blast
qed

text \<open>
  With a tighter budget the search is not complete: the cheapest way to an intermediate
  state may use up the budget, and the state is then not expanded although a dearer way
  with fewer hops would still reach the target in time.
\<close>

lemma budget_hides_route:
  fixes ts :: "UiTransitionDefinition list"
  defines "ts \<equiv> [hop ''slow'' ''home'' ''menu'' 5, hop ''a'' ''home'' ''tab'' 1, hop ''b'' ''tab'' ''menu'' 1, hop ''c'' ''menu'' ''goal'' 1]"
  shows "map_option gr_found (planGraphRoute ''home'' ''goal'' ts (planning 2)) = Some False
    \<and> chain ''home'' [hop ''slow'' ''home'' ''menu'' 5, hop ''c'' ''menu'' ''goal'' 1] ''goal''"
  unfolding ts_def by code_simp

end
