(* ===== verification/State_Resolver.thy ===== *)
theory State_Resolver imports UI_Tree
begin

text \<open>
  Recognition of the current UI state: \<^verbatim>\<open>ui-graph/state-resolver.ts\<close> with the state types of
  \<^verbatim>\<open>ui-graph/types.ts\<close>. Parameters are the digest of the page signature and the engine
  behind \<^verbatim>\<open>new RegExp(pattern, "i").test(value)\<close>: \<open>regex pattern value\<close> is \<open>None\<close> where the
  constructor throws. Weights, scores and confidences are rationals.
\<close>

section \<open>Types\<close>

record UiGraphContext =
  uc_app :: string
  uc_app_version :: "string option"
  uc_android :: "string option"
  uc_locale :: "string option"
  uc_device_class :: "string option"
  uc_width :: "rat option"
  uc_height :: "rat option"
  uc_state :: "string option"
  uc_variant :: "string option"
  uc_branch :: "string option"

record UiStateVariantDefinition =
  uv_id :: string
  uv_key :: string
  uv_hash :: "string option"
  uv_required :: "string list"
  uv_optional :: "string list"
  uv_forbidden :: "string list"
  uv_version_pattern :: "string option"
  uv_locale_pattern :: "string option"
  uv_device_class :: "string option"
  uv_threshold :: "rat option"

record UiStateDefinition =
  us_id :: string
  us_app :: string
  us_key :: string
  us_name :: string
  us_kind :: string
  us_safety :: string
  us_variants :: "UiStateVariantDefinition list"

datatype ResolutionMethod = ExactHash | Anchors | Fuzzy | UnknownMethod

record StateResolution =
  sr_state :: "string option"
  sr_state_key :: "string option"
  sr_variant :: "string option"
  sr_variant_key :: "string option"
  sr_method :: ResolutionMethod
  sr_confidence :: rat
  sr_fingerprint :: string
  sr_matched :: "string list"
  sr_missing :: "string list"
  sr_unexpected :: "string list"
  sr_ambiguous :: "(string \<times> string \<times> rat) list"

record StateResolutionPolicy =
  rp_weights :: "(string \<times> rat) list"
  rp_default_weight :: rat
  rp_empty_required :: rat
  rp_max_fuzzy :: rat
  rp_required_part :: rat
  rp_optional_part :: rat
  rp_margin :: rat

section \<open>Anchors\<close>

definition before_colon :: "string \<Rightarrow> string" where
  "before_colon s = takeWhile (\<lambda>c. c \<noteq> CHR '':'') s"

definition after_colon :: "string \<Rightarrow> string" where
  "after_colon s = drop 1 (dropWhile (\<lambda>c. c \<noteq> CHR '':'') s)"

text \<open>
  The alias table is an object literal, so the inherited member \<^verbatim>\<open>constructor\<close> is found as
  well and prints as the source text of a native function.
\<close>

definition anchor_alias :: "string \<Rightarrow> string" where
  "anchor_alias k = odefault (map_of
     [(''id'', ''resourceid''), (''rid'', ''resourceid''), (''resource'', ''resourceid''), (''resourceid'', ''resourceid''),
      (''cd'', ''contentdescription''), (''desc'', ''contentdescription''), (''contentdesc'', ''contentdescription''),
      (''contentdescription'', ''contentdescription''), (''text'', ''text''), (''class'', ''class''), (''classname'', ''class''),
      (''package'', ''package''), (''packagename'', ''package''), (''semantic'', ''semantic''), (''semanticid'', ''semantic''),
      (''constructor'', ''function Object() { [native code] }'')] k) k"

definition normalizeAnchor :: "string \<Rightarrow> string" where
  "normalizeAnchor a =
     (if CHR '':'' \<notin> set a then clean (Some a)
      else anchor_alias (filter (\<lambda>c. c \<noteq> CHR ''_'' \<and> c \<noteq> CHR ''-'') (clean (Some (before_colon a))))
        @ '':'' @ clean (Some (after_colon a)))"

definition anchorWeight :: "StateResolutionPolicy \<Rightarrow> string \<Rightarrow> rat" where
  "anchorWeight p a =
     (case map_of (rp_weights p) (if CHR '':'' \<in> set a then before_colon a else []) of
        Some w \<Rightarrow> if w > 0 then w else rp_default_weight p
      | None \<Rightarrow> rp_default_weight p)"

section \<open>Context guards\<close>

type_synonym regex = "string \<Rightarrow> string \<Rightarrow> bool option"

definition matchesPattern :: "regex \<Rightarrow> string option \<Rightarrow> string option \<Rightarrow> bool" where
  "matchesPattern regex value pattern =
     (case or_string pattern None of
        None \<Rightarrow> True
      | Some p \<Rightarrow>
          (case or_string value None of
             None \<Rightarrow> False
           | Some v \<Rightarrow> (case regex p v of Some b \<Rightarrow> b | None \<Rightarrow> clean (Some v) = clean (Some p))))"

definition variantContextMatches :: "regex \<Rightarrow> UiStateVariantDefinition \<Rightarrow> UiGraphContext \<Rightarrow> bool" where
  "variantContextMatches regex v c \<longleftrightarrow>
     (or_string (uc_app_version c) None = None \<or> matchesPattern regex (uc_app_version c) (uv_version_pattern v))
   \<and> (or_string (uc_locale c) None = None \<or> matchesPattern regex (uc_locale c) (uv_locale_pattern v))
   \<and> (or_string (uv_device_class v) None = None \<or> clean (uv_device_class v) = clean (uc_device_class c))"

section \<open>Scoring\<close>

record ScoredVariant =
  sv_state :: UiStateDefinition
  sv_variant :: UiStateVariantDefinition
  sv_confidence :: rat
  sv_exact :: bool
  sv_matched :: "string list"
  sv_missing :: "string list"
  sv_forbidden :: "string list"

definition weight_sum :: "StateResolutionPolicy \<Rightarrow> string list \<Rightarrow> rat" where
  "weight_sum p as = sum_list (map (anchorWeight p) as)"

text \<open>The weighted share of the anchors that were observed.\<close>

definition fuzzy_confidence :: "StateResolutionPolicy \<Rightarrow> string list \<Rightarrow> string list \<Rightarrow> string list \<Rightarrow> rat" where
  "fuzzy_confidence p observed required optional =
     (let requiredScore = (if weight_sum p required > 0
            then weight_sum p (filter (\<lambda>a. a \<in> set observed) required) / weight_sum p required
            else rp_empty_required p);
          optionalScore = (if weight_sum p optional > 0
            then weight_sum p (filter (\<lambda>a. a \<in> set observed) optional) / weight_sum p optional else 0)
      in max 0 (min (rp_max_fuzzy p) (requiredScore * rp_required_part p + optionalScore * rp_optional_part p)))"

definition scoreVariant :: "regex \<Rightarrow> UiStateDefinition \<Rightarrow> UiStateVariantDefinition \<Rightarrow> string \<Rightarrow> string list
    \<Rightarrow> UiGraphContext \<Rightarrow> StateResolutionPolicy \<Rightarrow> ScoredVariant option" where
  "scoreVariant regex s v fingerprint observed context p =
     (if \<not> variantContextMatches regex v context then None
      else let required = map normalizeAnchor (uv_required v);
               optional = map normalizeAnchor (uv_optional v);
               forbidden = filter (\<lambda>a. a \<in> set observed) (map normalizeAnchor (uv_forbidden v));
               matched = filter (\<lambda>a. a \<in> set observed) required @ filter (\<lambda>a. a \<in> set observed) optional;
               missing = filter (\<lambda>a. a \<notin> set observed) required;
               exact = (or_string (uv_hash v) None = Some fingerprint \<and> missing = [] \<and> forbidden = [])
           in Some \<lparr>sv_state = s, sv_variant = v,
                sv_confidence = (if forbidden \<noteq> [] then 0 else if exact then 1
                  else fuzzy_confidence p observed required optional),
                sv_exact = (forbidden = [] \<and> exact),
                sv_matched = matched, sv_missing = missing, sv_forbidden = forbidden\<rparr>)"

section \<open>Resolution\<close>

definition unknown :: "string \<Rightarrow> StateResolution" where
  "unknown fingerprint = \<lparr>sr_state = None, sr_state_key = None, sr_variant = None, sr_variant_key = None,
     sr_method = UnknownMethod, sr_confidence = 0, sr_fingerprint = fingerprint, sr_matched = [], sr_missing = [],
     sr_unexpected = [], sr_ambiguous = []\<rparr>"

text \<open>The candidates of the context's app, most confident first.\<close>

definition scored_variants :: "regex \<Rightarrow> string \<Rightarrow> string list \<Rightarrow> UiStateDefinition list \<Rightarrow> UiGraphContext
    \<Rightarrow> StateResolutionPolicy \<Rightarrow> ScoredVariant list" where
  "scored_variants regex fingerprint observed states context p =
     sort_key (\<lambda>x. - sv_confidence x)
       (concat (map (\<lambda>s. concat (map (\<lambda>v. case scoreVariant regex s v fingerprint observed context p of
           None \<Rightarrow> [] | Some x \<Rightarrow> [x]) (us_variants s)))
         (filter (\<lambda>s. us_app s = uc_app context) states)))"

definition ambiguous_with :: "StateResolutionPolicy \<Rightarrow> ScoredVariant \<Rightarrow> ScoredVariant list \<Rightarrow> (string \<times> string \<times> rat) list" where
  "ambiguous_with p best others =
     map (\<lambda>c. (us_id (sv_state c), uv_id (sv_variant c), sv_confidence c))
       (filter (\<lambda>c. sv_confidence best - sv_confidence c < rp_margin p) others)"

definition resolve_scored :: "StateResolutionPolicy \<Rightarrow> string \<Rightarrow> ScoredVariant list \<Rightarrow> StateResolution" where
  "resolve_scored p fingerprint scored =
     (case scored of
        [] \<Rightarrow> unknown fingerprint
      | best # others \<Rightarrow>
          (case uv_threshold (sv_variant best) of
             None \<Rightarrow> unknown fingerprint
           | Some threshold \<Rightarrow>
               if sv_confidence best < threshold \<or> ambiguous_with p best others \<noteq> []
               then (unknown fingerprint)\<lparr>sr_confidence := sv_confidence best, sr_matched := sv_matched best,
                 sr_missing := sv_missing best, sr_unexpected := sv_forbidden best,
                 sr_ambiguous := ambiguous_with p best others\<rparr>
               else \<lparr>sr_state = Some (us_id (sv_state best)), sr_state_key = Some (us_key (sv_state best)),
                 sr_variant = Some (uv_id (sv_variant best)), sr_variant_key = Some (uv_key (sv_variant best)),
                 sr_method = (if sv_exact best then ExactHash else if sv_missing best = [] then Anchors else Fuzzy),
                 sr_confidence = sv_confidence best, sr_fingerprint = fingerprint, sr_matched = sv_matched best,
                 sr_missing = sv_missing best, sr_unexpected = sv_forbidden best, sr_ambiguous = []\<rparr>))"

definition resolveUiState :: "(string \<Rightarrow> string) \<Rightarrow> regex \<Rightarrow> UiTreeNode list \<Rightarrow> UiStateDefinition list \<Rightarrow> UiGraphContext
    \<Rightarrow> StateResolutionPolicy \<Rightarrow> StateResolution" where
  "resolveUiState sha256 regex tree states context p =
     (let fingerprint = computePageSignature sha256 tree
      in resolve_scored p fingerprint (scored_variants regex fingerprint (uiTreeAnchorSet tree) states context p))"

section \<open>Facts\<close>

lemma scored_variants_in:
  assumes "x \<in> set (scored_variants regex fingerprint observed states context p)"
  shows "sv_state x \<in> set states \<and> us_app (sv_state x) = uc_app context \<and> sv_variant x \<in> set (us_variants (sv_state x))
    \<and> scoreVariant regex (sv_state x) (sv_variant x) fingerprint observed context p = Some x"
proof -
  obtain s v where s: "s \<in> set states" "us_app s = uc_app context" "v \<in> set (us_variants s)"
      "scoreVariant regex s v fingerprint observed context p = Some x"
    using assms by (auto simp: scored_variants_def split: option.splits)
  moreover have "sv_state x = s \<and> sv_variant x = v"
    using s(4) by (auto simp: scoreVariant_def Let_def split: if_splits)
  ultimately show ?thesis by auto
qed

lemma fuzzy_bounds:
  assumes "rp_max_fuzzy p \<le> 1"
  shows "0 \<le> fuzzy_confidence p observed required optional \<and> fuzzy_confidence p observed required optional \<le> 1"
  using assms by (auto simp: fuzzy_confidence_def Let_def max_def min_def)

lemma score_bounds:
  assumes "scoreVariant regex s v fingerprint observed context p = Some x" "rp_max_fuzzy p \<le> 1"
  shows "0 \<le> sv_confidence x \<and> sv_confidence x \<le> 1"
  using assms(1) fuzzy_bounds [OF assms(2)] by (auto simp: scoreVariant_def Let_def split: if_splits)

text \<open>What the score of a variant says of its anchors.\<close>

lemma scoreVariant_known:
  assumes "scoreVariant regex s v fingerprint observed context p = Some x"
  shows "variantContextMatches regex v context" "sv_missing x = filter (\<lambda>a. a \<notin> set observed) (map normalizeAnchor (uv_required v))"
    "sv_forbidden x = filter (\<lambda>a. a \<in> set observed) (map normalizeAnchor (uv_forbidden v))"
    "sv_forbidden x \<noteq> [] \<Longrightarrow> sv_confidence x = 0"
    "sv_exact x \<Longrightarrow> uv_hash v = Some fingerprint \<and> sv_missing x = [] \<and> sv_forbidden x = []"
  using assms by (auto simp: scoreVariant_def Let_def or_string_def split: if_splits option.splits)

text \<open>What a known state rests on: the best candidate, above its threshold and ahead of all others.\<close>

lemma resolve_scored_known:
  assumes "resolve_scored p fingerprint scored = r" "sr_state r \<noteq> None"
  obtains best others threshold where "scored = best # others" "uv_threshold (sv_variant best) = Some threshold"
    "threshold \<le> sv_confidence best" "\<forall>c \<in> set others. rp_margin p \<le> sv_confidence best - sv_confidence c"
    "sr_state r = Some (us_id (sv_state best))" "sr_variant r = Some (uv_id (sv_variant best))"
    "sr_confidence r = sv_confidence best" "sr_method r = ExactHash \<longleftrightarrow> sv_exact best"
    "sr_method r = Anchors \<longleftrightarrow> \<not> sv_exact best \<and> sv_missing best = []"
proof -
  obtain best others where s: "scored = best # others"
    using assms by (cases scored) (auto simp: resolve_scored_def unknown_def)
  obtain threshold where t: "uv_threshold (sv_variant best) = Some threshold"
    using assms s by (cases "uv_threshold (sv_variant best)") (auto simp: resolve_scored_def unknown_def)
  have ok: "\<not> (sv_confidence best < threshold \<or> ambiguous_with p best others \<noteq> [])"
  proof
    assume "sv_confidence best < threshold \<or> ambiguous_with p best others \<noteq> []"
    then have "sr_state r = None" using assms(1) s t by (auto simp: resolve_scored_def unknown_def)
    then show False using assms(2) by simp
  qed
  then have m: "\<forall>c \<in> set others. rp_margin p \<le> sv_confidence best - sv_confidence c"
    by (auto simp: ambiguous_with_def filter_empty_conv)
  show thesis by (rule that [OF s t _ m]) (use assms(1) ok s t in \<open>auto simp: resolve_scored_def split: if_splits\<close>)
qed

end
