(* ===== verification/Target_Resolver.thy ===== *)
theory Target_Resolver imports State_Resolver
begin

text \<open>
  Resolution of a UI target to coordinates: \<^verbatim>\<open>ui-graph/target-resolver.ts\<close> with the
  selector types of \<^verbatim>\<open>ui-graph/types.ts\<close>.
\<close>

section \<open>Types\<close>

datatype SelectorStrategy = ResourceId | ContentDescription | SemanticId | TextIs | TextContains | Structural | NormalizedCoords

datatype TargetResolutionMethod = ByDirect | ByResourceId | ByContentDescription | BySemanticId | ByText | ByStructure | ByCoordCache | ByOcr | ByVlm | ByUnknown

record UiSelectorDefinition =
  sl_id :: string
  sl_state :: string
  sl_element :: string
  sl_strategy :: SelectorStrategy
  sl_value :: "string option"
  sl_path :: "string list option"
  sl_coords :: "(rat \<times> rat) option"
  sl_priority :: rat
  sl_dynamic :: bool
  sl_confidence :: rat
  sl_version_pattern :: "string option"
  sl_device_class :: "string option"
  sl_variant :: "string option"

record TargetResolution =
  tr_found :: bool
  tr_method :: TargetResolutionMethod
  tr_selector :: "string option"
  tr_coords :: "(rat \<times> rat) option"
  tr_node :: "UiTreeNode option"
  tr_confidence :: rat
  tr_reason :: "string option"
  tr_attempted :: "TargetResolutionMethod list"

section \<open>Candidates\<close>

definition path_part :: "UiTreeNode \<Rightarrow> nat \<Rightarrow> string" where
  "path_part n i =
     odefault (or_string (map_option (after_last (CHR ''.'')) (un_class n)) None) ''node'' @ ''['' @ show_nat i @ '']''"

text \<open>The nodes in document order with their paths; \<open>i\<close> is the index of the first one.\<close>

fun flatten :: "nat \<Rightarrow> string list \<Rightarrow> UiTreeNode list \<Rightarrow> (UiTreeNode \<times> string list) list" where
  "flatten i path [] = []"
| "flatten i path (n # ns) =
     (n, path @ [path_part n i]) # flatten 0 (path @ [path_part n i]) (un_children n) @ flatten (Suc i) path ns"

text \<open>\<^verbatim>\<open>replace(/[^a-z0-9]+/g, "_").replace(/^_+|_+$/g, "").slice(0, 64)\<close>.\<close>

definition word_char :: "char \<Rightarrow> bool" where
  "word_char c = (let n = of_char c :: nat in (97 \<le> n \<and> n \<le> 122) \<or> (48 \<le> n \<and> n \<le> 57))"

fun underscore_runs :: "bool \<Rightarrow> string \<Rightarrow> string" where
  "underscore_runs after [] = []"
| "underscore_runs after (c # cs) =
     (if word_char c then c # underscore_runs False cs
      else (if after then [] else [CHR ''_'']) @ underscore_runs True cs)"

definition semanticId :: "UiTreeNode \<Rightarrow> string" where
  "semanticId n =
     (let source = odefault (or_string (un_resource n) (or_string (un_description n) (un_text n))) []
      in take 64 (trim_by (\<lambda>c. c = CHR ''_'') (underscore_runs False (js_lower (js_trim (after_last (CHR ''/'') source))))))"

text \<open>The centre of a node in screen fractions.\<close>

definition clamp01 :: "rat \<Rightarrow> rat" where
  "clamp01 x = max 0 (min 1 x)"

definition nodeCenter :: "UiTreeNode \<Rightarrow> UiGraphContext \<Rightarrow> (rat \<times> rat) option" where
  "nodeCenter n c =
     (case un_bounds n of
        None \<Rightarrow> None
      | Some b \<Rightarrow>
          (let width = odefault (uc_width c) (max (ub_right b) 1); height = odefault (uc_height c) (max (ub_bottom b) 1)
           in if width \<le> 0 \<or> height \<le> 0 \<or> ub_right b \<le> ub_left b \<or> ub_bottom b \<le> ub_top b then None
              else Some (clamp01 ((ub_left b + (ub_right b - ub_left b) / 2) / width),
                         clamp01 ((ub_top b + (ub_bottom b - ub_top b) / 2) / height))))"

section \<open>Selectors\<close>

definition contextMatches :: "regex \<Rightarrow> UiSelectorDefinition \<Rightarrow> UiGraphContext \<Rightarrow> bool" where
  "contextMatches regex s c \<longleftrightarrow>
     (sl_state s = [] \<or> or_string (uc_state c) None = None \<or> uc_state c = Some (sl_state s))
   \<and> (or_string (sl_variant s) None = None \<or> sl_variant s = uc_variant c)
   \<and> (or_string (sl_device_class s) None = None \<or> clean (sl_device_class s) = clean (uc_device_class c))
   \<and> (case or_string (sl_version_pattern s) None of
        None \<Rightarrow> True
      | Some p \<Rightarrow>
          (case or_string (uc_app_version c) None of
             Some v \<Rightarrow> (case regex p v of Some b \<Rightarrow> b | None \<Rightarrow> clean (Some p) = clean (Some v))
           | None \<Rightarrow> or_string (sl_variant s) None \<noteq> None \<and> sl_variant s = uc_variant c))"

definition selectorMethod :: "UiSelectorDefinition \<Rightarrow> TargetResolutionMethod" where
  "selectorMethod s = (case sl_strategy s of ResourceId \<Rightarrow> ByResourceId | ContentDescription \<Rightarrow> ByContentDescription
     | SemanticId \<Rightarrow> BySemanticId | TextIs \<Rightarrow> ByText | TextContains \<Rightarrow> ByText | Structural \<Rightarrow> ByStructure
     | NormalizedCoords \<Rightarrow> ByCoordCache)"

definition selector_match :: "UiSelectorDefinition \<Rightarrow> UiTreeNode \<times> string list \<Rightarrow> bool" where
  "selector_match s cand =
     (let value = clean (sl_value s); n = fst cand in
      case sl_strategy s of
        ResourceId \<Rightarrow> clean (un_resource n) = value
      | ContentDescription \<Rightarrow> clean (un_description n) = value
      | SemanticId \<Rightarrow> semanticId n = value
      | TextIs \<Rightarrow> clean (un_text n) = value
      | TextContains \<Rightarrow> value \<noteq> [] \<and> js_includes (clean (un_text n)) value
      | Structural \<Rightarrow> (case sl_path s of None \<Rightarrow> False
          | Some p \<Rightarrow> p \<noteq> [] \<and> intercalate ''/'' p = intercalate ''/'' (snd cand))
      | NormalizedCoords \<Rightarrow> False)"

section \<open>Resolution\<close>

text \<open>Applicable selectors: by priority, then the more confident first.\<close>

definition applicable :: "regex \<Rightarrow> UiSelectorDefinition list \<Rightarrow> UiGraphContext \<Rightarrow> UiSelectorDefinition list" where
  "applicable regex selectors c =
     sort_key (\<lambda>s. (sl_priority s, - sl_confidence s)) (filter (\<lambda>s. contextMatches regex s c) selectors)"

definition attempt :: "TargetResolutionMethod \<Rightarrow> TargetResolutionMethod list \<Rightarrow> TargetResolutionMethod list" where
  "attempt m ms = (if m \<in> set ms then ms else ms @ [m])"

text \<open>The one candidate a selector names, with its centre.\<close>

definition unique_hit :: "UiGraphContext \<Rightarrow> (UiTreeNode \<times> string list) list \<Rightarrow> UiSelectorDefinition
    \<Rightarrow> (UiTreeNode \<times> rat \<times> rat) option" where
  "unique_hit c candidates s =
     (case filter (selector_match s) candidates of
        [(n, _)] \<Rightarrow> map_option (\<lambda>xy. (n, xy)) (nodeCenter n c)
      | _ \<Rightarrow> None)"

fun try_selectors :: "UiGraphContext \<Rightarrow> (UiTreeNode \<times> string list) list \<Rightarrow> UiSelectorDefinition list
    \<Rightarrow> TargetResolutionMethod list \<Rightarrow> TargetResolution option \<times> TargetResolutionMethod list" where
  "try_selectors c candidates [] attempted = (None, attempted)"
| "try_selectors c candidates (s # ss) attempted =
     (let attempted' = attempt (selectorMethod s) attempted in
      case unique_hit c candidates s of
        None \<Rightarrow> try_selectors c candidates ss attempted'
      | Some (n, xy) \<Rightarrow> (Some \<lparr>tr_found = True, tr_method = selectorMethod s, tr_selector = Some (sl_id s), tr_coords = Some xy,
          tr_node = Some n, tr_confidence = sl_confidence s, tr_reason = None, tr_attempted = attempted'\<rparr>, attempted'))"

definition cache_usable :: "UiGraphContext \<Rightarrow> UiSelectorDefinition \<Rightarrow> bool" where
  "cache_usable c s \<longleftrightarrow> sl_coords s \<noteq> None \<and> sl_confidence s \<ge> 7/10 \<and> or_string (sl_variant s) None \<noteq> None
     \<and> sl_variant s = uc_variant c"

fun try_cache :: "UiGraphContext \<Rightarrow> UiSelectorDefinition list \<Rightarrow> TargetResolutionMethod list
    \<Rightarrow> TargetResolution option \<times> TargetResolutionMethod list" where
  "try_cache c [] attempted = (None, attempted)"
| "try_cache c (s # ss) attempted =
     (let attempted' = attempt ByCoordCache attempted in
      if cache_usable c s
      then (Some \<lparr>tr_found = True, tr_method = ByCoordCache, tr_selector = Some (sl_id s), tr_coords = sl_coords s,
          tr_node = None, tr_confidence = sl_confidence s, tr_reason = None, tr_attempted = attempted'\<rparr>, attempted')
      else try_cache c ss attempted')"

definition resolveUiTarget :: "regex \<Rightarrow> UiTreeNode list \<Rightarrow> UiSelectorDefinition list \<Rightarrow> UiGraphContext \<Rightarrow> TargetResolution" where
  "resolveUiTarget regex tree selectors c =
     (let eligible = applicable regex selectors c in
      case try_selectors c (flatten 0 [] tree) (filter (\<lambda>s. sl_strategy s \<noteq> NormalizedCoords) eligible) [] of
        (Some r, _) \<Rightarrow> r
      | (None, attempted) \<Rightarrow>
          (case try_cache c (filter (\<lambda>s. sl_strategy s = NormalizedCoords \<and> \<not> sl_dynamic s) eligible) attempted of
             (Some r, _) \<Rightarrow> r
           | (None, attempted') \<Rightarrow> \<lparr>tr_found = False, tr_method = ByUnknown, tr_selector = None, tr_coords = None,
               tr_node = None, tr_confidence = 0,
               tr_reason = Some ''No unique selector match or guarded coordinate cache entry'', tr_attempted = attempted'\<rparr>))"

section \<open>Facts\<close>

lemma clamp01_bounds [simp]: "0 \<le> clamp01 x" "clamp01 x \<le> 1"
  by (auto simp: clamp01_def)

lemma nodeCenter_bounds: "nodeCenter n c = Some (x, y) \<Longrightarrow> 0 \<le> x \<and> x \<le> 1 \<and> 0 \<le> y \<and> y \<le> 1"
  by (auto simp: nodeCenter_def Let_def split: option.splits if_splits)

lemma unique_hit_Some:
  assumes "unique_hit c candidates s = Some (n, xy)"
  shows "(\<exists>path. filter (selector_match s) candidates = [(n, path)]) \<and> nodeCenter n c = Some xy"
  using assms by (auto simp: unique_hit_def split: list.splits prod.splits)

text \<open>The first selector with a unique hit decides.\<close>

lemma try_selectors_Some:
  assumes "try_selectors c candidates ss attempted = (Some r, ms)"
  shows "\<exists>before s after n xy. ss = before @ s # after \<and> (\<forall>b \<in> set before. unique_hit c candidates b = None)
    \<and> unique_hit c candidates s = Some (n, xy) \<and> tr_found r \<and> tr_selector r = Some (sl_id s) \<and> tr_node r = Some n
    \<and> tr_coords r = Some xy \<and> tr_method r = selectorMethod s"
  using assms
proof (induction ss arbitrary: attempted)
  case (Cons s ss)
  show ?case
  proof (cases "unique_hit c candidates s")
    case None
    then have "try_selectors c candidates ss (attempt (selectorMethod s) attempted) = (Some r, ms)"
      using Cons.prems by (simp add: Let_def)
    from Cons.IH [OF this] obtain before s' after n xy where "ss = before @ s' # after"
        "\<forall>b \<in> set before. unique_hit c candidates b = None" "unique_hit c candidates s' = Some (n, xy)" "tr_found r"
        "tr_selector r = Some (sl_id s')" "tr_node r = Some n" "tr_coords r = Some xy" "tr_method r = selectorMethod s'" by blast
    then show ?thesis using None by (intro exI [of _ "s # before"] exI [of _ s'] exI [of _ after]) auto
  next
    case (Some hit)
    then show ?thesis using Cons.prems by (intro exI [of _ "[]"] exI [of _ s] exI [of _ ss]) (auto simp: Let_def split: prod.splits)
  qed
qed simp

lemma try_selectors_None:
  "try_selectors c candidates ss attempted = (None, ms) \<Longrightarrow> \<forall>s \<in> set ss. unique_hit c candidates s = None"
  by (induction ss arbitrary: attempted) (auto simp: Let_def split: option.splits)

lemma try_cache_Some:
  "try_cache c ss attempted = (Some r, ms) \<Longrightarrow> \<exists>s \<in> set ss. cache_usable c s \<and> tr_found r \<and> tr_selector r = Some (sl_id s)
     \<and> tr_coords r = sl_coords s \<and> tr_method r = ByCoordCache \<and> tr_confidence r = sl_confidence s"
  by (induction ss arbitrary: attempted) (auto simp: Let_def split: if_splits)

lemma try_cache_None: "try_cache c ss attempted = (None, ms) \<Longrightarrow> \<forall>s \<in> set ss. \<not> cache_usable c s"
  by (induction ss arbitrary: attempted) (auto simp: Let_def split: if_splits)

section \<open>The three outcomes\<close>

text \<open>A selector that reads the tree and applies in the context; and whether it hits one usable node.\<close>

definition reads_tree :: "regex \<Rightarrow> UiGraphContext \<Rightarrow> UiSelectorDefinition \<Rightarrow> bool" where
  "reads_tree regex c s \<longleftrightarrow> contextMatches regex s c \<and> sl_strategy s \<noteq> NormalizedCoords"

definition static_cache :: "regex \<Rightarrow> UiGraphContext \<Rightarrow> UiSelectorDefinition \<Rightarrow> bool" where
  "static_cache regex c s \<longleftrightarrow> contextMatches regex s c \<and> sl_strategy s = NormalizedCoords \<and> \<not> sl_dynamic s \<and> cache_usable c s"

definition hits :: "UiTreeNode list \<Rightarrow> UiGraphContext \<Rightarrow> UiSelectorDefinition \<Rightarrow> bool" where
  "hits tree c s \<longleftrightarrow> unique_hit c (flatten 0 [] tree) s \<noteq> None"

definition precedes :: "UiSelectorDefinition \<Rightarrow> UiSelectorDefinition \<Rightarrow> bool" where
  "precedes s' s \<longleftrightarrow> sl_priority s' < sl_priority s \<or> sl_priority s' = sl_priority s \<and> sl_confidence s < sl_confidence s'"

definition found_in_tree :: "regex \<Rightarrow> UiTreeNode list \<Rightarrow> UiSelectorDefinition list \<Rightarrow> UiGraphContext \<Rightarrow> TargetResolution \<Rightarrow> bool" where
  "found_in_tree regex tree selectors c r \<longleftrightarrow> tr_found r \<and> (\<exists>s \<in> set selectors. \<exists>n path x y.
       reads_tree regex c s \<and> filter (selector_match s) (flatten 0 [] tree) = [(n, path)]
     \<and> tr_method r = selectorMethod s \<and> tr_selector r = Some (sl_id s) \<and> tr_node r = Some n
     \<and> tr_coords r = Some (x, y) \<and> nodeCenter n c = Some (x, y) \<and> 0 \<le> x \<and> x \<le> 1 \<and> 0 \<le> y \<and> y \<le> 1
     \<and> (\<forall>s' \<in> set selectors. reads_tree regex c s' \<and> precedes s' s \<longrightarrow> \<not> hits tree c s'))"

definition found_in_cache :: "regex \<Rightarrow> UiTreeNode list \<Rightarrow> UiSelectorDefinition list \<Rightarrow> UiGraphContext \<Rightarrow> TargetResolution \<Rightarrow> bool" where
  "found_in_cache regex tree selectors c r \<longleftrightarrow> tr_found r \<and> tr_method r = ByCoordCache
     \<and> (\<exists>s \<in> set selectors. static_cache regex c s \<and> tr_selector r = Some (sl_id s) \<and> tr_coords r = sl_coords s)
     \<and> (\<forall>s \<in> set selectors. reads_tree regex c s \<longrightarrow> \<not> hits tree c s)"

definition not_found :: "regex \<Rightarrow> UiTreeNode list \<Rightarrow> UiSelectorDefinition list \<Rightarrow> UiGraphContext \<Rightarrow> TargetResolution \<Rightarrow> bool" where
  "not_found regex tree selectors c r \<longleftrightarrow> \<not> tr_found r \<and> tr_coords r = None
     \<and> (\<forall>s \<in> set selectors. \<not> static_cache regex c s \<and> (reads_tree regex c s \<longrightarrow> \<not> hits tree c s))"

lemma applicable_set [simp]: "set (applicable regex selectors c) = {s \<in> set selectors. contextMatches regex s c}"
  by (simp add: applicable_def)

text \<open>Whatever precedes a selector in the order of the search stands before it in the list.\<close>

lemma precedes_before:
  assumes "filter P (applicable regex selectors c) = before @ s # after" "s' \<in> set selectors" "contextMatches regex s' c" "P s'"
    "precedes s' s"
  shows "s' \<in> set before"
proof -
  let ?k = "\<lambda>s. (sl_priority s, - sl_confidence s)"
  have "s' \<in> set (before @ s # after)" unfolding assms(1) [symmetric] using assms(2-4) by simp
  moreover have "sorted (map ?k (filter P (applicable regex selectors c)))"
    by (simp add: applicable_def sorted_filter)
  then have "\<forall>x \<in> set after. ?k s \<le> ?k x" unfolding assms(1) by (auto simp: sorted_append)
  then have "s' \<notin> set after" using assms(5) by (auto simp: precedes_def)
  moreover have "s' \<noteq> s" using assms(5) by (auto simp: precedes_def)
  ultimately show ?thesis by simp
qed

lemma target_outcome:
  assumes "resolveUiTarget regex tree selectors c = r"
  shows "found_in_tree regex tree selectors c r \<or> found_in_cache regex tree selectors c r \<or> not_found regex tree selectors c r"
proof -
  let ?P = "\<lambda>s. sl_strategy s \<noteq> NormalizedCoords"
  let ?ss = "filter ?P (applicable regex selectors c)"
  let ?cs = "filter (\<lambda>s. sl_strategy s = NormalizedCoords \<and> \<not> sl_dynamic s) (applicable regex selectors c)"
  obtain x ms where t: "try_selectors c (flatten 0 [] tree) ?ss [] = (x, ms)" by fastforce
  show ?thesis
  proof (cases x)
    case (Some r')
    then have r: "r' = r" using assms t by (simp add: resolveUiTarget_def Let_def)
    from t Some r have "try_selectors c (flatten 0 [] tree) ?ss [] = (Some r, ms)" by simp
    from try_selectors_Some [OF this] obtain before s after n xy where s: "?ss = before @ s # after"
        "\<forall>b \<in> set before. unique_hit c (flatten 0 [] tree) b = None" "unique_hit c (flatten 0 [] tree) s = Some (n, xy)"
        "tr_found r" "tr_selector r = Some (sl_id s)" "tr_node r = Some n" "tr_coords r = Some xy" "tr_method r = selectorMethod s"
      by blast
    obtain x y where xy: "xy = (x, y)" by (cases xy)
    have "s \<in> set ?ss" unfolding s(1) by simp
    then have in_set: "s \<in> set selectors" "reads_tree regex c s" by (simp_all add: reads_tree_def)
    obtain path where path: "filter (selector_match s) (flatten 0 [] tree) = [(n, path)]" "nodeCenter n c = Some (x, y)"
      using unique_hit_Some [OF s(3)] xy by auto
    have "\<not> hits tree c s'" if "s' \<in> set selectors" "reads_tree regex c s'" "precedes s' s" for s'
      using precedes_before [OF s(1) that(1) _ _ that(3)] that(2) s(2) by (simp add: reads_tree_def hits_def)
    then have "found_in_tree regex tree selectors c r"
      unfolding found_in_tree_def using in_set path s(4-8) xy nodeCenter_bounds [OF path(2)] by blast
    then show ?thesis by simp
  next
    case None
    have miss: "\<forall>s \<in> set ?ss. unique_hit c (flatten 0 [] tree) s = None" by (rule try_selectors_None [OF t [unfolded None]])
    then have no_hit: "\<not> hits tree c s" if "s \<in> set selectors" "reads_tree regex c s" for s
      using that by (simp add: reads_tree_def hits_def)
    obtain y ms' where y: "try_cache c ?cs ms = (y, ms')" by fastforce
    show ?thesis
    proof (cases y)
      case (Some r')
      then have r: "r' = r" using assms t y None by (simp add: resolveUiTarget_def Let_def)
      from try_cache_Some [OF y [unfolded Some r]] have "found_in_cache regex tree selectors c r"
        using no_hit by (auto simp: found_in_cache_def static_cache_def)
      then show ?thesis by simp
    next
      case y_None: None
      then have "\<not> tr_found r \<and> tr_coords r = None" using assms t y None by (auto simp: resolveUiTarget_def Let_def)
      moreover have "\<not> static_cache regex c s" if "s \<in> set selectors" for s
        using try_cache_None [OF y [unfolded y_None]] that by (auto simp: static_cache_def)
      ultimately have "not_found regex tree selectors c r" using no_hit by (simp add: not_found_def)
      then show ?thesis by simp
    qed
  qed
qed

end
