(* ===== verification/Graph_Runtime.thy ===== *)
theory Graph_Runtime imports Graph_Optimal Target_Resolver
begin

text \<open>
  The graph runtime, \<^verbatim>\<open>ui-graph/graph-runtime.ts\<close>: the loop that captures the UI, resolves
  the state, plans and executes one transition at a time. The dependencies the engine is
  constructed with are the fields of an environment, indexed by the pass of the loop; what
  it asks of them is returned as a log of effects.
\<close>

section \<open>Types\<close>

record GraphRuntimeBudget =
  gb_transitions :: int
  gb_replans :: int
  gb_duration :: nat

record GraphRuntimeCheckpoint =
  gc_target :: string
  gc_current :: "string option"
  gc_completed :: "string list"
  gc_executed :: int
  gc_replans :: int
  gc_updated :: timestamp

text \<open>
  \<open>ge_elapsed k\<close> is the time since the start at pass \<open>k\<close>, \<open>ge_recover\<close> the optional
  callback for unknown states, \<open>ge_stamp k b\<close> the time of a checkpoint before (\<open>False\<close>) and
  after (\<open>True\<close>) the transition.
\<close>

record graph_env =
  ge_elapsed :: "nat \<Rightarrow> nat"
  ge_stamp :: "nat \<Rightarrow> bool \<Rightarrow> timestamp"
  ge_tree :: "nat \<Rightarrow> UiTreeNode list"
  ge_execute :: "nat \<Rightarrow> UiTransitionDefinition \<Rightarrow> string option + unit"
  ge_recover :: "(nat \<Rightarrow> StateResolution \<Rightarrow> bool) option"

record graph_engine =
  gn_resolve :: "UiTreeNode list \<Rightarrow> StateResolution"
  gn_transitions :: "UiTransitionDefinition list"
  gn_policy :: GraphPlanningPolicy
  gn_budget :: GraphRuntimeBudget

text \<open>The engine on its constructor arguments.\<close>

definition graph_engine_of :: "(string \<Rightarrow> string) \<Rightarrow> regex \<Rightarrow> UiStateDefinition list \<Rightarrow> UiTransitionDefinition list
    \<Rightarrow> UiGraphContext \<Rightarrow> GraphPlanningPolicy \<Rightarrow> StateResolutionPolicy \<Rightarrow> GraphRuntimeBudget \<Rightarrow> graph_engine" where
  "graph_engine_of sha256 regex states ts context policy resolution budget =
     \<lparr>gn_resolve = (\<lambda>tree. resolveUiState sha256 regex tree states context resolution), gn_transitions = ts,
      gn_policy = policy, gn_budget = budget\<rparr>"

datatype graph_effect =
    Saved GraphRuntimeCheckpoint
  | AskedRecovery StateResolution
  | Executed StateResolution UiTransitionDefinition

record GraphRuntimeResult =
  gr_ok :: bool
  gr_aborted :: bool
  gr_checkpoint :: GraphRuntimeCheckpoint
  gr_resolution :: StateResolution
  gr_error :: "string option"

section \<open>Planning from the current state\<close>

definition planCurrentRoute :: "graph_engine \<Rightarrow> UiTreeNode list \<Rightarrow> string \<Rightarrow> (StateResolution \<times> GraphRoute) option" where
  "planCurrentRoute e tree target =
     (let r = gn_resolve e tree in
      case or_string (sr_state r) None of
        None \<Rightarrow> Some (r, no_route ''Current state is unknown'')
      | Some current \<Rightarrow> map_option (Pair r) (planGraphRoute current target (gn_transitions e)
          ((gn_policy e)\<lparr>pp_budget := min (pp_budget (gn_policy e)) (gb_transitions (gn_budget e))\<rparr>)))"

section \<open>The loop\<close>

definition failure :: "string \<Rightarrow> GraphRuntimeCheckpoint \<Rightarrow> StateResolution \<Rightarrow> bool \<Rightarrow> GraphRuntimeResult" where
  "failure err cp r aborted = \<lparr>gr_ok = False, gr_aborted = aborted, gr_checkpoint = cp, gr_resolution = r, gr_error = Some err\<rparr>"

text \<open>The budget checks at the head of a pass.\<close>

definition exhausted :: "graph_engine \<Rightarrow> nat \<Rightarrow> GraphRuntimeCheckpoint \<Rightarrow> string option" where
  "exhausted e elapsed cp =
     (if elapsed > gb_duration (gn_budget e) then Some ''Graph runtime duration budget exceeded''
      else if gc_executed cp \<ge> gb_transitions (gn_budget e) then Some ''Graph runtime transition budget exceeded''
      else if gc_replans cp > gb_replans (gn_budget e) then Some ''Graph runtime replan budget exceeded''
      else None)"

definition execution_error :: "UiTransitionDefinition \<Rightarrow> string option \<Rightarrow> string" where
  "execution_error t err = odefault err (''Transition '' @ ut_key t @ '' failed'')"

text \<open>One pass: it ends the run, or hands the next checkpoint on; \<open>None\<close> when the planner does not return.\<close>

datatype pass_result = Ended GraphRuntimeResult | Continue GraphRuntimeCheckpoint StateResolution

definition pass_step :: "graph_engine \<Rightarrow> graph_env \<Rightarrow> string \<Rightarrow> nat \<Rightarrow> GraphRuntimeCheckpoint
    \<Rightarrow> StateResolution \<Rightarrow> (pass_result \<times> graph_effect list) option" where
  "pass_step e env target k cp r =
     (case or_string (sr_state r) None of
        None \<Rightarrow>
          (case ge_recover env of
             None \<Rightarrow> Some (Ended (failure ''Current UI state is unknown'' cp r False), [])
           | Some ask \<Rightarrow>
               if ask k r then Some (Continue (cp\<lparr>gc_replans := gc_replans cp + 1\<rparr>) r, [AskedRecovery r])
               else Some (Ended (failure ''Current UI state is unknown'' cp r False), [AskedRecovery r]))
      | Some current \<Rightarrow>
          if current = target
          then Some (Ended \<lparr>gr_ok = True, gr_aborted = False, gr_checkpoint = cp, gr_resolution = r, gr_error = None\<rparr>, [])
          else map_option (\<lambda>route.
            (case (gr_found route, gr_transitions route) of
               (True, t # _) \<Rightarrow>
                 (let cp1 = cp\<lparr>gc_executed := gc_executed cp + 1\<rparr> in
                  case ge_execute env k t of
                    Inl err \<Rightarrow> (Ended (failure (execution_error t err) cp1 r False), [Executed r t])
                  | Inr _ \<Rightarrow>
                      (let cp2 = cp1\<lparr>gc_completed := gc_completed cp1 @ [ut_id t], gc_replans := gc_replans cp1 + 1,
                         gc_updated := ge_stamp env k True\<rparr>
                       in (Continue cp2 r, [Executed r t, Saved cp2])))
             | _ \<Rightarrow> (Ended (failure (odefault (gr_reason route) ''No graph route'') cp r False), [])))
            (planGraphRoute current target (gn_transitions e) (gn_policy e)))"

lemma pass_step_continue:
  "pass_step e env target k cp r = Some (Continue cp2 r2, effs) \<Longrightarrow> gc_replans cp2 = gc_replans cp + 1"
  by (auto simp: pass_step_def Let_def split: option.splits if_splits prod.splits bool.splits list.splits sum.splits)

lemma exhausted_None: "exhausted e elapsed cp = None \<longleftrightarrow> elapsed \<le> gb_duration (gn_budget e)
    \<and> gc_executed cp < gb_transitions (gn_budget e) \<and> gc_replans cp \<le> gb_replans (gn_budget e)"
  by (auto simp: exhausted_def not_less not_le)

function run_loop :: "graph_engine \<Rightarrow> graph_env \<Rightarrow> string \<Rightarrow> nat \<Rightarrow> GraphRuntimeCheckpoint \<Rightarrow> StateResolution
    \<Rightarrow> (GraphRuntimeResult \<times> graph_effect list) option" where
  "run_loop e env target k cp prev =
     (case exhausted e (ge_elapsed env k) cp of
        Some err \<Rightarrow> Some (failure err cp prev True, [])
      | None \<Rightarrow>
          (let r = gn_resolve e (ge_tree env k);
               cp1 = cp\<lparr>gc_current := sr_state r, gc_updated := ge_stamp env k False\<rparr>
           in case pass_step e env target k cp1 r of
                None \<Rightarrow> None
              | Some (Ended res, effs) \<Rightarrow> Some (res, Saved cp1 # effs)
              | Some (Continue cp2 r2, effs) \<Rightarrow>
                  map_option (map_prod id (\<lambda>rest. Saved cp1 # effs @ rest)) (run_loop e env target (Suc k) cp2 r2)))"
  by pat_completeness auto

termination
proof (relation "measure (\<lambda>(e, env, target, k, cp, prev). nat (gb_replans (gn_budget e) + 1 - gc_replans cp))", goal_cases)
  case (2 e env target k cp prev r cp1 res p effs cp2 r2)
  then have "gc_replans cp2 = gc_replans cp + 1" using pass_step_continue by fastforce
  moreover have "gc_replans cp \<le> gb_replans (gn_budget e)" using 2(1) by (simp add: exhausted_None)
  ultimately show ?case by simp
qed simp

declare run_loop.simps [simp del]

definition no_resolution :: StateResolution where
  "no_resolution = unknown []"

text \<open>\<open>resume\<close> is the checkpoint to continue from; only its given fields count.\<close>

record GraphRuntimeResume =
  gs_current :: "string option"
  gs_completed :: "string list option"
  gs_executed :: "int option"
  gs_replans :: "int option"

definition start_checkpoint :: "string \<Rightarrow> GraphRuntimeResume option \<Rightarrow> timestamp \<Rightarrow> GraphRuntimeCheckpoint" where
  "start_checkpoint target resume now = \<lparr>gc_target = target, gc_current = Option.bind resume gs_current,
     gc_completed = odefault (Option.bind resume gs_completed) [], gc_executed = odefault (Option.bind resume gs_executed) 0,
     gc_replans = odefault (Option.bind resume gs_replans) 0, gc_updated = now\<rparr>"

definition run_graph :: "graph_engine \<Rightarrow> graph_env \<Rightarrow> string \<Rightarrow> GraphRuntimeResume option \<Rightarrow> timestamp
    \<Rightarrow> (GraphRuntimeResult \<times> graph_effect list) option" where
  "run_graph e env target resume now = run_loop e env target 0 (start_checkpoint target resume now) no_resolution"

end
