(* ===== verification/Graph_Runs.thy ===== *)
theory Graph_Runs imports Graph_Runtime
begin

text \<open>
  What a run of the graph runtime does, as predicates on its log: every transition is
  executed from the state just saved, and only transitions the policy admits are executed.
\<close>

section \<open>Safe logs\<close>

text \<open>\<open>prev\<close> is the checkpoint the preceding effect saved, if it saved one.\<close>

fun log_safe :: "graph_engine \<Rightarrow> GraphRuntimeCheckpoint option \<Rightarrow> graph_effect list \<Rightarrow> bool" where
  "log_safe e prev [] \<longleftrightarrow> True"
| "log_safe e prev (Saved cp # out) \<longleftrightarrow> log_safe e (Some cp) out"
| "log_safe e prev (AskedRecovery r # out) \<longleftrightarrow> log_safe e None out"
| "log_safe e prev (Executed r t # out) \<longleftrightarrow>
     (case prev of None \<Rightarrow> False | Some cp \<Rightarrow> gc_current cp = Some (ut_source t))
     \<and> sr_state r = Some (ut_source t) \<and> t \<in> set (eligible (gn_policy e) (gn_transitions e)) \<and> log_safe e None out"

fun executions :: "graph_effect list \<Rightarrow> nat" where
  "executions [] = 0"
| "executions (Executed r t # out) = Suc (executions out)"
| "executions (Saved cp # out) = executions out"
| "executions (AskedRecovery r # out) = executions out"

lemma executions_append [simp]: "executions (xs @ ys) = executions xs + executions ys"
  by (induction xs rule: executions.induct) auto

section \<open>One pass\<close>

lemma or_string_Some: "or_string v None = Some s \<longleftrightarrow> v = Some s \<and> s \<noteq> []"
  by (auto simp: or_string_def split: option.splits if_splits)

lemma chain_Cons_source: "chain a (t # p) b \<Longrightarrow> ut_source t = a"
  by simp

text \<open>The shapes of a pass: it ends, asks for recovery and goes on, or executes and goes on.\<close>

lemma pass_step_cases:
  assumes "pass_step e env target k cp r = Some (res, effs)"
  obtains (arrived) "res = Ended \<lparr>gr_ok = True, gr_aborted = False, gr_checkpoint = cp, gr_resolution = r, gr_error = None\<rparr>"
      "sr_state r = Some target" "effs = []"
  | (gave_up) err where "res = Ended (failure err cp r False)" "effs = [] \<or> effs = [AskedRecovery r]"
  | (recovered) "res = Continue (cp\<lparr>gc_replans := gc_replans cp + 1\<rparr>) r" "effs = [AskedRecovery r]"
  | (failed) t err where "res = Ended (failure err (cp\<lparr>gc_executed := gc_executed cp + 1\<rparr>) r False)"
      "effs = [Executed r t]" "sr_state r = Some (ut_source t)" "t \<in> set (eligible (gn_policy e) (gn_transitions e))"
  | (moved) t cp2 where "res = Continue cp2 r" "effs = [Executed r t, Saved cp2]" "sr_state r = Some (ut_source t)"
      "t \<in> set (eligible (gn_policy e) (gn_transitions e))" "gc_executed cp2 = gc_executed cp + 1"
      "gc_replans cp2 = gc_replans cp + 1"
proof (cases "or_string (sr_state r) None")
  case None
  show thesis
  proof (cases "ge_recover env")
    case recover: None
    with None assms show thesis by (intro gave_up) (auto simp: pass_step_def)
  next
    case (Some ask)
    show thesis
    proof (cases "ask k r")
      case True
      with None Some assms show thesis by (intro recovered) (auto simp: pass_step_def)
    next
      case False
      with None Some assms show thesis by (intro gave_up) (auto simp: pass_step_def)
    qed
  qed
next
  case (Some current)
  then have r: "sr_state r = Some current" by (simp add: or_string_Some)
  show thesis
  proof (cases "current = target")
    case True
    with Some r assms show thesis by (intro arrived) (auto simp: pass_step_def)
  next
    case False
    obtain route where route: "planGraphRoute current target (gn_transitions e) (gn_policy e) = Some route"
      using assms Some False by (auto simp: pass_step_def)
    show thesis
    proof (cases "gr_found route \<and> gr_transitions route \<noteq> []")
      case no: False
      then have "res = Ended (failure (odefault (gr_reason route) ''No graph route'') cp r False) \<and> effs = []"
        using assms Some False route by (cases "gr_found route"; cases "gr_transitions route") (auto simp: pass_step_def)
      then show thesis by (intro gave_up) auto
    next
      case yes: True
      then obtain t p where t: "gr_transitions route = t # p" "gr_found route" by (cases "gr_transitions route") auto
      have s: "ut_source t = current" "t \<in> set (eligible (gn_policy e) (gn_transitions e))"
        using plan_sound [OF route t(2)] t(1) False by auto
      show thesis
      proof (cases "ge_execute env k t")
        case (Inl err)
        with assms Some False route t s r show thesis by (intro failed [of "execution_error t err" t]) (auto simp: pass_step_def Let_def)
      next
        case (Inr u)
        with assms Some False route t s r show thesis by (intro moved [of _ t]) (auto simp: pass_step_def Let_def)
      qed
    qed
  qed
qed

section \<open>The loop\<close>

text \<open>Unfolding of one iteration that did not stop at a budget.\<close>

lemma run_loop_open:
  assumes "run_loop e env target k cp prev = Some (res, out)" "exhausted e (ge_elapsed env k) cp = None"
  defines "r \<equiv> gn_resolve e (ge_tree env k)"
  defines "cp1 \<equiv> cp\<lparr>gc_current := sr_state r, gc_updated := ge_stamp env k False\<rparr>"
  obtains (ends) effs where "pass_step e env target k cp1 r = Some (Ended res, effs)" "out = Saved cp1 # effs"
  | (continues) cp2 r2 effs rest where "pass_step e env target k cp1 r = Some (Continue cp2 r2, effs)"
      "run_loop e env target (Suc k) cp2 r2 = Some (res, rest)" "out = Saved cp1 # effs @ rest"
proof -
  have run: "(case pass_step e env target k cp1 r of
                None \<Rightarrow> None
              | Some (Ended res, effs) \<Rightarrow> Some (res, Saved cp1 # effs)
              | Some (Continue cp2 r2, effs) \<Rightarrow>
                  map_option (map_prod id (\<lambda>rest. Saved cp1 # effs @ rest)) (run_loop e env target (Suc k) cp2 r2)) = Some (res, out)"
    using assms(1,2) unfolding cp1_def r_def by (subst (asm) run_loop.simps) (simp add: Let_def)
  obtain p effs where p: "pass_step e env target k cp1 r = Some (p, effs)"
    using run by (cases "pass_step e env target k cp1 r") auto
  show thesis
  proof (cases p)
    case (Ended res')
    with p run show thesis by (intro ends) auto
  next
    case (Continue cp2 r2)
    with p run obtain rest where "run_loop e env target (Suc k) cp2 r2 = Some (res, rest)" "out = Saved cp1 # effs @ rest" by auto
    with p Continue show thesis by (intro continues) auto
  qed
qed

lemma run_loop_closed:
  assumes "run_loop e env target k cp prev = Some (res, out)" "exhausted e (ge_elapsed env k) cp = Some err"
  shows "res = failure err cp prev True \<and> out = []"
  using assms by (subst (asm) run_loop.simps) simp

lemma run_loop_safe:
  "run_loop e env target k cp prev = Some (res, out) \<Longrightarrow> log_safe e p out \<and> (gr_ok res \<longrightarrow> sr_state (gr_resolution res) = Some target)
     \<and> gc_executed (gr_checkpoint res) = gc_executed cp + int (executions out)"
proof (induction e env target k cp prev arbitrary: res out p rule: run_loop.induct)
  case (1 e env target k cp prev)
  show ?case
  proof (cases "exhausted e (ge_elapsed env k) cp")
    case (Some err)
    from run_loop_closed [OF "1.prems" this] show ?thesis by (simp add: failure_def)
  next
    case None
    from "1.prems" None show ?thesis
    proof (cases rule: run_loop_open)
      case (ends effs)
      from ends(1) show ?thesis by (cases rule: pass_step_cases) (auto simp: ends(2) failure_def)
    next
      case (continues cp2 r2 effs rest)
      have ih: "log_safe e p rest \<and> (gr_ok res \<longrightarrow> sr_state (gr_resolution res) = Some target)
          \<and> gc_executed (gr_checkpoint res) = gc_executed cp2 + int (executions rest)" for p
        by (rule "1.IH" [OF None refl refl continues(1) refl refl continues(2)])
      from continues(1) show ?thesis by (cases rule: pass_step_cases) (use ih in \<open>auto simp: continues(3)\<close>)
    qed
  qed
qed

text \<open>The budgets bound the work, whatever the environment answers.\<close>

lemma run_loop_bounds:
  "run_loop e env target k cp prev = Some (res, out) \<Longrightarrow>
     int (executions out) \<le> max 0 (gb_transitions (gn_budget e) - gc_executed cp)
   \<and> int (executions out) \<le> max 0 (gb_replans (gn_budget e) + 1 - gc_replans cp)"
proof (induction e env target k cp prev arbitrary: res out rule: run_loop.induct)
  case (1 e env target k cp prev)
  show ?case
  proof (cases "exhausted e (ge_elapsed env k) cp")
    case (Some err)
    from run_loop_closed [OF "1.prems" this] show ?thesis by simp
  next
    case None
    then have room: "gc_executed cp < gb_transitions (gn_budget e)" "gc_replans cp \<le> gb_replans (gn_budget e)"
      by (simp_all add: exhausted_None)
    from "1.prems" None show ?thesis
    proof (cases rule: run_loop_open)
      case (ends effs)
      from ends(1) show ?thesis by (cases rule: pass_step_cases) (use room in \<open>auto simp: ends(2)\<close>)
    next
      case (continues cp2 r2 effs rest)
      have ih: "int (executions rest) \<le> max 0 (gb_transitions (gn_budget e) - gc_executed cp2)
          \<and> int (executions rest) \<le> max 0 (gb_replans (gn_budget e) + 1 - gc_replans cp2)"
        by (rule "1.IH" [OF None refl refl continues(1) refl refl continues(2)])
      from continues(1) show ?thesis by (cases rule: pass_step_cases) (use ih room in \<open>auto simp: continues(3)\<close>)
    qed
  qed
qed

text \<open>A pass answers when the planner does, and the planner does when no cost is negative.\<close>

lemma plan_answers:
  assumes "\<forall>t \<in> set ts. 0 \<le> ut_cost t"
  shows "\<exists>r. planGraphRoute source target ts policy = Some r"
proof (cases "source = target")
  case True
  then show ?thesis by (simp add: planGraphRoute_def)
next
  case False
  from plan_finishes [OF assms False] show ?thesis by blast
qed

lemma pass_step_answers:
  assumes "\<forall>t \<in> set (gn_transitions e). 0 \<le> ut_cost t"
  shows "pass_step e env target k cp r \<noteq> None"
proof -
  have "planGraphRoute current target (gn_transitions e) (gn_policy e) \<noteq> None" for current
    using plan_answers [OF assms] by auto
  then show ?thesis by (simp add: pass_step_def split: option.splits del: not_None_eq)
qed

lemma run_loop_answers:
  "\<forall>t \<in> set (gn_transitions e). 0 \<le> ut_cost t \<Longrightarrow> run_loop e env target k cp prev \<noteq> None"
proof (induction e env target k cp prev rule: run_loop.induct)
  case (1 e env target k cp prev)
  show ?case
  proof (cases "exhausted e (ge_elapsed env k) cp")
    case (Some err)
    then show ?thesis by (subst run_loop.simps) simp
  next
    case None
    let ?r = "gn_resolve e (ge_tree env k)"
    let ?cp = "cp\<lparr>gc_current := sr_state ?r, gc_updated := ge_stamp env k False\<rparr>"
    obtain p effs where p: "pass_step e env target k ?cp ?r = Some (p, effs)"
      using pass_step_answers [OF "1.prems", of env target k ?cp ?r] by auto
    show ?thesis
    proof (cases p)
      case (Ended res)
      with None p show ?thesis by (subst run_loop.simps) (simp add: Let_def)
    next
      case (Continue cp2 r2)
      with p have step: "pass_step e env target k ?cp ?r = Some (Continue cp2 r2, effs)" by simp
      have "run_loop e env target (Suc k) cp2 r2 \<noteq> None"
        by (rule "1.IH" [OF None refl refl step refl refl "1.prems"])
      with None step show ?thesis by (subst run_loop.simps) (simp add: Let_def)
    qed
  qed
qed

end
