(* ===== verification/UI_Recovery.thy ===== *)
theory UI_Recovery imports Graph_Runtime
begin

text \<open>
  Recovery from failed UI actions, \<^verbatim>\<open>ui-graph/recovery-orchestrator.ts\<close>, and the promotion
  policy of learned candidates, the pure part of \<^verbatim>\<open>ui-graph/learning-loop.ts\<close>. The injected
  dependencies of the orchestrator are an environment; the log holds the actions sent, the
  proposals learned and the telemetry outcomes, in order.
\<close>

section \<open>Recovery proposals\<close>

record RecoveryProposal =
  rv_type :: string
  rv_source :: "string option"
  rv_expected :: "string option"
  rv_actions :: "jobj list"
  rv_confidence :: rat
  rv_reason :: string
  rv_learning :: bool
  rv_vision :: bool

record RecoveryBudget =
  rb_actions :: nat
  rb_attempts :: int
  rb_duration :: nat
  rb_safety :: "string list"
  rb_types :: "string list"
  rb_actionless :: "string list"

definition actionSafety :: "jobj \<Rightarrow> string option" where
  "actionSafety a = (case jget a ''safetyClass'' of Some (JStr s) \<Rightarrow> if js_trim s = [] then None else Some s | _ \<Rightarrow> None)"

definition action_allowed :: "RecoveryBudget \<Rightarrow> jobj \<Rightarrow> bool" where
  "action_allowed b a \<longleftrightarrow> (case actionSafety a of None \<Rightarrow> False | Some s \<Rightarrow> s \<in> set (rb_safety b))"

definition validateRecoveryProposal :: "RecoveryProposal \<Rightarrow> RecoveryBudget \<Rightarrow> string list" where
  "validateRecoveryProposal p b =
     remdups ((if rv_type p = [] \<or> rv_type p \<notin> set (rb_types b) then [''invalid_recovery_type''] else [])
       @ (if rv_confidence p < 0 \<or> 1 < rv_confidence p then [''invalid_confidence''] else [])
       @ (if length (rv_actions p) > rb_actions b then [''recovery_action_budget_exceeded''] else [])
       @ (if rv_actions p = [] \<and> rv_type p \<notin> set (rb_actionless b) then [''recovery_actions_required''] else [])
       @ concat (map (\<lambda>a. if action_allowed b a then [] else [''recovery_safety_escalation_forbidden'']) (rv_actions p)))"

section \<open>The orchestrator\<close>

text \<open>Dependencies: \<open>re_elapsed\<close> at the checks of the clock, \<open>re_execute\<close> by the number of actions sent before.\<close>

record recovery_env =
  re_elapsed :: "nat \<Rightarrow> nat"
  re_from_tree :: "RecoveryProposal option"
  re_screenshot :: "string option"
  re_from_vision :: "string \<Rightarrow> RecoveryProposal option"
  re_execute :: "nat \<Rightarrow> jobj \<Rightarrow> string option + unit"
  re_verify :: "RecoveryProposal \<Rightarrow> jobj option"
  re_learns :: bool

datatype recovery_level = Deterministic | UiTreeLlm | Vlm

datatype recovery_effect =
    Sent RecoveryProposal jobj
  | Learned RecoveryProposal jobj
  | Observed recovery_level string

record RecoveryResult =
  rr_ok :: bool
  rr_proposal :: "RecoveryProposal option"
  rr_attempts :: int
  rr_executed :: nat
  rr_vision :: bool
  rr_error :: "string option"

text \<open>The actions of a proposal until one fails: how many were sent, and the failure.\<close>

fun send_actions :: "recovery_env \<Rightarrow> nat \<Rightarrow> jobj list \<Rightarrow> nat \<times> string option option" where
  "send_actions env k [] = (0, None)"
| "send_actions env k (a # as) =
     (case re_execute env k a of
        Inl err \<Rightarrow> (1, Some err)
      | Inr _ \<Rightarrow> (case send_actions env (Suc k) as of (n, f) \<Rightarrow> (Suc n, f)))"

text \<open>\<^verbatim>\<open>a || b\<close> on the joined error list.\<close>

definition tried :: "bool \<Rightarrow> RecoveryProposal \<Rightarrow> recovery_level \<Rightarrow> nat \<Rightarrow> string option \<Rightarrow> RecoveryResult" where
  "tried ok p level n err = \<lparr>rr_ok = ok, rr_proposal = Some p, rr_attempts = 1, rr_executed = n,
     rr_vision = (level = Vlm), rr_error = err\<rparr>"

definition tryProposal :: "recovery_env \<Rightarrow> RecoveryBudget \<Rightarrow> nat \<Rightarrow> recovery_level \<Rightarrow> RecoveryProposal
    \<Rightarrow> RecoveryResult \<times> recovery_effect list" where
  "tryProposal env b k level p =
     (let errors = validateRecoveryProposal p b in
      if errors \<noteq> [] \<or> rv_type p = ''abort''
      then (tried False p level 0 (Some (if errors = [] then rv_reason p else intercalate '','' errors)), [Observed level ''aborted''])
      else (case send_actions env k (rv_actions p) of
          (n, Some err) \<Rightarrow> (tried False p level n (Some (odefault err ''Recovery action failed'')),
             map (Sent p) (take n (rv_actions p)) @ [Observed level ''failed''])
        | (n, None) \<Rightarrow>
            (case re_verify env p of
               None \<Rightarrow> (tried False p level n (Some ''Recovery postcondition failed''),
                 map (Sent p) (rv_actions p) @ [Observed level ''failed''])
             | Some evidence \<Rightarrow> (tried True p level n None,
                 map (Sent p) (rv_actions p) @ (if rv_learning p \<and> re_learns env then [Learned p evidence] else [])
                   @ [Observed level ''completed'']))))"

text \<open>The running totals: clock checks, attempts, actions.\<close>

record recovery_run =
  rn_checks :: nat
  rn_attempts :: int
  rn_executed :: nat
  rn_log :: "recovery_effect list"

definition recovery_open :: "recovery_env \<Rightarrow> RecoveryBudget \<Rightarrow> recovery_run \<Rightarrow> bool" where
  "recovery_open env b s \<longleftrightarrow> rn_attempts s < rb_attempts b \<and> re_elapsed env (rn_checks s) \<le> rb_duration b"

text \<open>One attempt: the totals after it and, when it succeeded, the answer.\<close>

definition recovery_attempt :: "recovery_env \<Rightarrow> RecoveryBudget \<Rightarrow> recovery_level \<Rightarrow> RecoveryProposal \<Rightarrow> recovery_run
    \<Rightarrow> RecoveryResult option \<times> recovery_run" where
  "recovery_attempt env b level p s =
     (case tryProposal env b (rn_executed s) level p of
        (r, effs) \<Rightarrow>
          (let s' = \<lparr>rn_checks = Suc (rn_checks s), rn_attempts = rn_attempts s + 1,
                 rn_executed = rn_executed s + rr_executed r, rn_log = rn_log s @ effs\<rparr>
           in (if rr_ok r then Some (r\<lparr>rr_attempts := rn_attempts s', rr_executed := rn_executed s'\<rparr>) else None, s')))"

definition checked :: "recovery_run \<Rightarrow> recovery_run" where
  "checked s = s\<lparr>rn_checks := Suc (rn_checks s)\<rparr>"

fun try_deterministic :: "recovery_env \<Rightarrow> RecoveryBudget \<Rightarrow> RecoveryProposal list \<Rightarrow> recovery_run
    \<Rightarrow> RecoveryResult option \<times> recovery_run" where
  "try_deterministic env b [] s = (None, s)"
| "try_deterministic env b (p # ps) s =
     (if \<not> recovery_open env b s then (None, checked s)
      else case recovery_attempt env b Deterministic p s of
        (Some r, s') \<Rightarrow> (Some r, s')
      | (None, s') \<Rightarrow> try_deterministic env b ps s')"

definition try_tree :: "recovery_env \<Rightarrow> RecoveryBudget \<Rightarrow> recovery_run \<Rightarrow> RecoveryResult option \<times> recovery_run" where
  "try_tree env b s =
     (if \<not> recovery_open env b s then (None, checked s)
      else case re_from_tree env of
        None \<Rightarrow> (None, checked s)
      | Some p \<Rightarrow> recovery_attempt env b UiTreeLlm p s)"

definition try_vision :: "recovery_env \<Rightarrow> RecoveryBudget \<Rightarrow> recovery_run \<Rightarrow> RecoveryResult option \<times> recovery_run" where
  "try_vision env b s =
     (if \<not> recovery_open env b s then (None, checked s)
      else case or_string (re_screenshot env) None of
        None \<Rightarrow> (None, checked s)
      | Some shot \<Rightarrow>
          (case re_from_vision env shot of
             None \<Rightarrow> (None, checked s)
           | Some p \<Rightarrow>
               (case recovery_attempt env b Vlm (p\<lparr>rv_vision := True\<rparr>) s of
                  (r, s') \<Rightarrow> (map_option (\<lambda>x. x\<lparr>rr_vision := True\<rparr>) r, s'))))"

definition recover :: "recovery_env \<Rightarrow> RecoveryBudget \<Rightarrow> RecoveryProposal list \<Rightarrow> RecoveryResult \<times> recovery_run" where
  "recover env b ps =
     (case try_deterministic env b ps \<lparr>rn_checks = 0, rn_attempts = 0, rn_executed = 0, rn_log = []\<rparr> of
        (Some r, s) \<Rightarrow> (r, s)
      | (None, s) \<Rightarrow>
          (case try_tree env b s of
             (Some r, s') \<Rightarrow> (r, s')
           | (None, s') \<Rightarrow>
               (case try_vision env b s' of
                  (Some r, s'') \<Rightarrow> (r, s'')
                | (None, s'') \<Rightarrow>
                    (\<lparr>rr_ok = False, rr_proposal = None, rr_attempts = rn_attempts s'', rr_executed = rn_executed s'',
                      rr_vision = (recovery_open env b s' \<and> or_string (re_screenshot env) None \<noteq> None),
                      rr_error = Some ''Recovery budget exhausted or no verified proposal succeeded''\<rparr>, s''))))"

section \<open>Promotion of learned candidates\<close>

record UiGraphPromotionPolicy =
  up_successes :: int
  up_devices :: int
  up_branches :: int
  up_environments :: int
  up_failures :: int
  up_recoveries :: int
  up_safety :: "string list"
  up_types :: "string list"

record promotion_input =
  pi_type :: string
  pi_safety :: string
  pi_successes :: int
  pi_failures :: int
  pi_verified :: bool
  pi_devices :: "int option"
  pi_branches :: "int option"
  pi_environments :: "int option"
  pi_recoveries :: "int option"
  pi_state :: string

record PromotionDecision =
  pd_ready :: bool
  pd_auto :: bool
  pd_required :: int
  pd_stage :: string
  pd_blockers :: "string list"

definition promotion_blockers :: "promotion_input \<Rightarrow> UiGraphPromotionPolicy \<Rightarrow> string list" where
  "promotion_blockers i p =
     (if pi_successes i < up_successes p then [''insufficient_successes''] else [])
   @ (if \<not> pi_verified i then [''destination_state_not_verified''] else [])
   @ (if odefault (pi_devices i) 0 < up_devices p then [''insufficient_device_coverage''] else [])
   @ (if odefault (pi_branches i) 0 < up_branches p then [''insufficient_branch_coverage''] else [])
   @ (if odefault (pi_environments i) 0 < up_environments p then [''insufficient_environment_coverage''] else [])
   @ (if odefault (pi_recoveries i) 0 > up_recoveries p then [''recovery_policy_exceeded''] else [])
   @ (if pi_failures i > up_failures p then [''failure_policy_exceeded''] else [])
   @ (if pi_safety i \<notin> set (up_safety p) then [''manual_review_required_for_safety_class''] else [])
   @ (if pi_type i \<notin> set (up_types p) then [''candidate_type_requires_manual_review''] else [])"

definition promotionDecision :: "promotion_input \<Rightarrow> UiGraphPromotionPolicy \<Rightarrow> PromotionDecision" where
  "promotionDecision i p = \<lparr>pd_ready = (up_successes p \<le> pi_successes i \<and> pi_verified i),
     pd_auto = (promotion_blockers i p = []), pd_required = up_successes p, pd_stage = pi_state i,
     pd_blockers = promotion_blockers i p\<rparr>"

definition candidateEnvironmentKey :: "UiGraphContext \<Rightarrow> string" where
  "candidateEnvironmentKey c = intercalate ''|'' [uc_app c, odefault (uc_app_version c) ''unknown'',
     odefault (uc_android c) ''unknown'', odefault (uc_locale c) ''unknown'', odefault (uc_device_class c) ''unknown'',
     odefault (uc_branch c) ''default'']"

definition enteredRetryableLifecycleState :: "string \<Rightarrow> string \<Rightarrow> bool \<Rightarrow> bool" where
  "enteredRetryableLifecycleState previous current retryable \<longleftrightarrow> retryable \<and> previous \<noteq> current"

end
