(* ===== verification/Recovery_Runs.thy ===== *)
theory Recovery_Runs imports UI_Recovery
begin

text \<open>The invariant of a recovery: what it has sent, learned and counted so far.\<close>

section \<open>Valid proposals\<close>

text \<open>The rules a proposal has to satisfy, as one predicate.\<close>

definition proposal_ok :: "RecoveryBudget \<Rightarrow> RecoveryProposal \<Rightarrow> bool" where
  "proposal_ok b p \<longleftrightarrow> rv_type p \<noteq> [] \<and> rv_type p \<in> set (rb_types b) \<and> 0 \<le> rv_confidence p \<and> rv_confidence p \<le> 1
     \<and> length (rv_actions p) \<le> rb_actions b \<and> (rv_actions p = [] \<longrightarrow> rv_type p \<in> set (rb_actionless b))
     \<and> (\<forall>a \<in> set (rv_actions p). action_allowed b a)"

lemma remdups_eq_Nil: "remdups xs = [] \<longleftrightarrow> xs = []"
  by (metis remdups_eq_nil_iff)

lemma valid_proposal: "validateRecoveryProposal p b = [] \<longleftrightarrow> proposal_ok b p"
  by (auto simp: validateRecoveryProposal_def remdups_eq_Nil proposal_ok_def not_less split: if_splits)

section \<open>One attempt\<close>

fun sends :: "recovery_effect list \<Rightarrow> nat" where
  "sends [] = 0"
| "sends (Sent p a # out) = Suc (sends out)"
| "sends (Learned p ev # out) = sends out"
| "sends (Observed l o1 # out) = sends out"

lemma sends_append [simp]: "sends (xs @ ys) = sends xs + sends ys"
  by (induction xs rule: sends.induct) auto

lemma sends_map [simp]: "sends (map (Sent p) as) = length as"
  by (induction as) auto

definition effects_ok :: "recovery_env \<Rightarrow> RecoveryBudget \<Rightarrow> recovery_effect list \<Rightarrow> bool" where
  "effects_ok env b out \<longleftrightarrow>
     (\<forall>p a. Sent p a \<in> set out \<longrightarrow> proposal_ok b p \<and> rv_type p \<noteq> ''abort'' \<and> a \<in> set (rv_actions p))
   \<and> (\<forall>p ev. Learned p ev \<in> set out \<longrightarrow> rv_learning p \<and> proposal_ok b p \<and> re_verify env p = Some ev)"

lemma effects_ok_Nil [simp]: "effects_ok env b []"
  by (simp add: effects_ok_def)

lemma effects_ok_append [simp]: "effects_ok env b (xs @ ys) \<longleftrightarrow> effects_ok env b xs \<and> effects_ok env b ys"
  by (auto simp: effects_ok_def)

lemma effects_ok_Observed [simp]: "effects_ok env b [Observed l o1]"
  by (simp add: effects_ok_def)

lemma effects_ok_sent:
  assumes "proposal_ok b p" "rv_type p \<noteq> ''abort''" "set as \<subseteq> set (rv_actions p)"
  shows "effects_ok env b (map (Sent p) as)"
  using assms by (auto simp: effects_ok_def)

lemma send_actions_le: "send_actions env k as = (n, f) \<Longrightarrow> n \<le> length as \<and> (f = None \<longrightarrow> n = length as)"
  by (induction as arbitrary: k n f) (auto split: sum.splits prod.splits)

lemma tryProposal_cases:
  assumes "tryProposal env b k level p = (r, effs)"
  obtains (refused) err where "r = tried False p level 0 err" "effs = [Observed level ''aborted'']"
    "\<not> proposal_ok b p \<or> rv_type p = ''abort''"
  | (failed) n err where "r = tried False p level n err" "n \<le> length (rv_actions p)" "proposal_ok b p" "rv_type p \<noteq> ''abort''"
      "effs = map (Sent p) (take n (rv_actions p)) @ [Observed level ''failed'']"
  | (verified) ev where "r = tried True p level (length (rv_actions p)) None" "proposal_ok b p" "rv_type p \<noteq> ''abort''"
      "re_verify env p = Some ev"
      "effs = map (Sent p) (rv_actions p) @ (if rv_learning p \<and> re_learns env then [Learned p ev] else []) @ [Observed level ''completed'']"
proof (cases "validateRecoveryProposal p b \<noteq> [] \<or> rv_type p = ''abort''")
  case True
  then show thesis using assms valid_proposal [of p b] by (intro refused) (auto simp: tryProposal_def Let_def)
next
  case False
  then have ok: "proposal_ok b p" "rv_type p \<noteq> ''abort''" by (simp_all add: valid_proposal)
  obtain n f where s: "send_actions env k (rv_actions p) = (n, f)" by fastforce
  note n = send_actions_le [OF s]
  show thesis
  proof (cases f)
    case (Some err)
    with False assms s n ok show thesis by (intro failed [of n "Some (odefault err ''Recovery action failed'')"]) (auto simp: tryProposal_def)
  next
    case None
    show thesis
    proof (cases "re_verify env p")
      case verify: None
      with None False assms s n ok show thesis
        by (intro failed [of n "Some ''Recovery postcondition failed''"]) (auto simp: tryProposal_def)
    next
      case (Some ev)
      with None False assms s n ok show thesis by (intro verified [of ev]) (auto simp: tryProposal_def)
    qed
  qed
qed

section \<open>The invariant of the totals\<close>

definition recovery_inv :: "recovery_env \<Rightarrow> RecoveryBudget \<Rightarrow> recovery_run \<Rightarrow> bool" where
  "recovery_inv env b s \<longleftrightarrow> 0 \<le> rn_attempts s \<and> rn_attempts s \<le> max 0 (rb_attempts b)
     \<and> rn_executed s = sends (rn_log s) \<and> int (rn_executed s) \<le> int (rb_actions b) * rn_attempts s
     \<and> effects_ok env b (rn_log s)"

text \<open>An answer: verified, on its way counted in the totals.\<close>

definition answer_ok :: "recovery_env \<Rightarrow> RecoveryBudget \<Rightarrow> recovery_run \<Rightarrow> RecoveryResult \<Rightarrow> bool" where
  "answer_ok env b s r \<longleftrightarrow> rr_attempts r = rn_attempts s \<and> rr_executed r = rn_executed s
     \<and> (rr_ok r \<longrightarrow> (\<exists>p. rr_proposal r = Some p \<and> proposal_ok b p \<and> rv_type p \<noteq> ''abort'' \<and> re_verify env p \<noteq> None
          \<and> (\<forall>a \<in> set (rv_actions p). Sent p a \<in> set (rn_log s))))"

lemma recovery_attempt_keeps:
  assumes "recovery_inv env b s" "recovery_open env b s" "recovery_attempt env b level p s = (answer, s')"
  shows "recovery_inv env b s' \<and> (\<forall>r. answer = Some r \<longrightarrow> answer_ok env b s' r)"
proof -
  obtain r effs where t: "tryProposal env b (rn_executed s) level p = (r, effs)" by fastforce
  have inv: "0 \<le> rn_attempts s" "rn_executed s = sends (rn_log s)" "int (rn_executed s) \<le> int (rb_actions b) * rn_attempts s"
      "effects_ok env b (rn_log s)" using assms(1) by (simp_all add: recovery_inv_def)
  have room: "rn_attempts s + 1 \<le> max 0 (rb_attempts b)" using assms(2) by (auto simp: recovery_open_def)
  have s': "s' = \<lparr>rn_checks = Suc (rn_checks s), rn_attempts = rn_attempts s + 1,
      rn_executed = rn_executed s + rr_executed r, rn_log = rn_log s @ effs\<rparr>"
    and a: "answer = (if rr_ok r then Some (r\<lparr>rr_attempts := rn_attempts s', rr_executed := rn_executed s'\<rparr>) else None)"
    using assms(3) t by (auto simp: recovery_attempt_def Let_def)
  have effs: "rr_executed r = sends effs \<and> sends effs \<le> rb_actions b \<and> effects_ok env b effs"
    using t
  proof (cases rule: tryProposal_cases)
    case (failed n err)
    moreover have "length (rv_actions p) \<le> rb_actions b" using failed(3) by (simp add: proposal_ok_def)
    moreover have "set (take n (rv_actions p)) \<subseteq> set (rv_actions p)" by (rule set_take_subset)
    ultimately show ?thesis by (auto simp: tried_def intro: effects_ok_sent)
  next
    case (verified ev)
    moreover have "length (rv_actions p) \<le> rb_actions b" using verified(2) by (simp add: proposal_ok_def)
    moreover have "effects_ok env b (if rv_learning p \<and> re_learns env then [Learned p ev] else [])"
      using verified by (simp add: effects_ok_def)
    ultimately show ?thesis by (auto simp: tried_def intro: effects_ok_sent)
  qed (simp add: tried_def)
  have "int (rn_executed s + sends effs) \<le> int (rb_actions b) * (rn_attempts s + 1)"
    using inv(3) effs by (simp add: algebra_simps)
  then have "recovery_inv env b s'" using inv room effs by (simp add: recovery_inv_def s')
  moreover have "answer_ok env b s' x" if "answer = Some x" for x
  proof -
    from that a have x: "rr_ok r" "x = r\<lparr>rr_attempts := rn_attempts s', rr_executed := rn_executed s'\<rparr>"
      by (auto split: if_splits)
    from t show ?thesis by (cases rule: tryProposal_cases) (use x s' in \<open>auto simp: tried_def answer_ok_def\<close>)
  qed
  ultimately show ?thesis by blast
qed

lemma checked_inv [simp]: "recovery_inv env b (checked s) \<longleftrightarrow> recovery_inv env b s"
  by (simp add: recovery_inv_def checked_def)

lemma try_deterministic_keeps:
  "recovery_inv env b s \<Longrightarrow> try_deterministic env b ps s = (answer, s') \<Longrightarrow>
     recovery_inv env b s' \<and> (\<forall>r. answer = Some r \<longrightarrow> answer_ok env b s' r)"
proof (induction ps arbitrary: s)
  case (Cons p ps)
  show ?case
  proof (cases "recovery_open env b s")
    case True
    obtain x s1 where x: "recovery_attempt env b Deterministic p s = (x, s1)" by fastforce
    note keeps = recovery_attempt_keeps [OF Cons.prems(1) True x]
    show ?thesis
    proof (cases x)
      case None
      then show ?thesis using Cons.prems(2) True x keeps Cons.IH [of s1] by simp
    next
      case (Some r)
      then show ?thesis using Cons.prems(2) True x keeps by simp
    qed
  next
    case False
    then show ?thesis using Cons.prems by auto
  qed
qed simp

lemma try_tree_keeps:
  assumes "recovery_inv env b s" "try_tree env b s = (answer, s')"
  shows "recovery_inv env b s' \<and> (\<forall>r. answer = Some r \<longrightarrow> answer_ok env b s' r)"
  using assms recovery_attempt_keeps [OF assms(1)] by (auto simp: try_tree_def split: if_splits option.splits)

lemma try_vision_keeps:
  assumes "recovery_inv env b s" "try_vision env b s = (answer, s')"
  shows "recovery_inv env b s' \<and> (\<forall>r. answer = Some r \<longrightarrow> answer_ok env b s' r)"
proof (cases "recovery_open env b s \<and> (\<exists>shot p. or_string (re_screenshot env) None = Some shot \<and> re_from_vision env shot = Some p)")
  case False
  then show ?thesis using assms by (auto simp: try_vision_def split: if_splits option.splits)
next
  case True
  then obtain shot p where o1: "recovery_open env b s" "or_string (re_screenshot env) None = Some shot"
    "re_from_vision env shot = Some p" by blast
  obtain x s1 where x: "recovery_attempt env b Vlm (p\<lparr>rv_vision := True\<rparr>) s = (x, s1)" by fastforce
  have "answer = map_option (\<lambda>x. x\<lparr>rr_vision := True\<rparr>) x" "s' = s1"
    using assms(2) o1 x by (auto simp: try_vision_def)
  then show ?thesis using recovery_attempt_keeps [OF assms(1) o1(1) x] by (auto simp: answer_ok_def)
qed

lemma recover_keeps:
  assumes "recover env b ps = (r, s)"
  shows "recovery_inv env b s \<and> answer_ok env b s r"
proof -
  let ?s0 = "\<lparr>rn_checks = 0, rn_attempts = 0, rn_executed = 0, rn_log = []\<rparr>"
  have i0: "recovery_inv env b ?s0" by (simp add: recovery_inv_def)
  obtain x1 s1 where 1: "try_deterministic env b ps ?s0 = (x1, s1)" by fastforce
  note k1 = try_deterministic_keeps [OF i0 1]
  obtain x2 s2 where 2: "try_tree env b s1 = (x2, s2)" by fastforce
  note k2 = try_tree_keeps [OF conjunct1 [OF k1] 2]
  obtain x3 s3 where 3: "try_vision env b s2 = (x3, s3)" by fastforce
  note k3 = try_vision_keeps [OF conjunct1 [OF k2] 3]
  show ?thesis
  proof (cases x1)
    case (Some y)
    then show ?thesis using assms 1 k1 by (simp add: recover_def)
  next
    case x1: None
    show ?thesis
    proof (cases x2)
      case (Some y)
      then show ?thesis using assms 1 2 x1 k2 by (simp add: recover_def)
    next
      case x2: None
      show ?thesis
      proof (cases x3)
        case (Some y)
        then show ?thesis using assms 1 2 3 x1 x2 k3 by (simp add: recover_def)
      next
        case None
        then have "s = s3" "\<not> rr_ok r" "rr_attempts r = rn_attempts s3" "rr_executed r = rn_executed s3"
          using assms 1 2 3 x1 x2 by (auto simp: recover_def)
        then show ?thesis using k3 by (simp add: answer_ok_def)
      qed
    qed
  qed
qed

end
