(* ===== verification/UI_Properties.thy ===== *)
theory UI_Properties imports Graph_Properties Graph_Runs Recovery_Runs
begin

text \<open>The properties of the UI graph: recognition, targets, runs, recovery and promotion.\<close>

section \<open>Samples\<close>

definition node :: "string \<Rightarrow> string \<Rightarrow> UiTreeNode list \<Rightarrow> UiTreeNode" where
  "node rid txt children = UiTreeNode (Some ''com.app'') (Some rid) (Some txt) None (Some ''android.widget.Button'')
     (Some \<lparr>ub_left = 0, ub_top = 100, ub_right = 200, ub_bottom = 300\<rparr>) None None None children"

definition home_tree :: "UiTreeNode list" where
  "home_tree = [node ''app:id/root'' ''Home'' [node ''app:id/post'' ''Post'' [], node ''app:id/menu'' ''Menu'' []]]"

definition ui_context :: UiGraphContext where
  "ui_context = \<lparr>uc_app = ''app'', uc_app_version = None, uc_android = None, uc_locale = None, uc_device_class = None,
     uc_width = Some 400, uc_height = Some 800, uc_state = None, uc_variant = Some ''v1'', uc_branch = None\<rparr>"

definition variant_with :: "string \<Rightarrow> string list \<Rightarrow> UiStateVariantDefinition" where
  "variant_with i required = \<lparr>uv_id = i, uv_key = i, uv_hash = None, uv_required = required, uv_optional = [],
     uv_forbidden = [''text:sign in''], uv_version_pattern = None, uv_locale_pattern = None, uv_device_class = None,
     uv_threshold = Some (7/10)\<rparr>"

definition state_with :: "string \<Rightarrow> string list \<Rightarrow> UiStateDefinition" where
  "state_with i required = \<lparr>us_id = i, us_app = ''app'', us_key = i, us_name = i, us_kind = ''screen'', us_safety = ''read'',
     us_variants = [variant_with (i @ ''-v'') required]\<rparr>"

definition ui_states :: "UiStateDefinition list" where
  "ui_states = [state_with ''comments'' [''text:comments''], state_with ''home'' [''text:home'', ''id:app:id/menu'']]"

definition resolution_policy :: StateResolutionPolicy where
  "resolution_policy = \<lparr>rp_weights = [(''resourceid'', 2)], rp_default_weight = 1, rp_empty_required = 0, rp_max_fuzzy = 95/100,
     rp_required_part = 9/10, rp_optional_part = 1/10, rp_margin = 1/10\<rparr>"

definition plain_regex :: regex where
  "plain_regex p v = Some (js_includes v p)"

section \<open>Recognition\<close>

text \<open>
  C31. A UI state is recognised only on evidence: the answer is a variant of a state of the
  context's app whose context guards hold, its confidence reaches the threshold of the
  variant, every other candidate is at least the ambiguity margin behind, a positive
  threshold excludes every forbidden anchor that was observed, and the methods
  \<open>ExactHash\<close> and \<open>Anchors\<close> mean that every required anchor was observed.
\<close>

theorem state_recognition_sound:
  assumes "resolveUiState sha256 regex tree states context p = r" "sr_state r = Some i"
  shows "\<exists>s \<in> set states. \<exists>v \<in> set (us_variants s). \<exists>threshold x.
      us_id s = i \<and> us_app s = uc_app context \<and> sr_variant r = Some (uv_id v) \<and> variantContextMatches regex v context
    \<and> uv_threshold v = Some threshold \<and> threshold \<le> sr_confidence r
    \<and> scoreVariant regex s v (computePageSignature sha256 tree) (uiTreeAnchorSet tree) context p = Some x \<and> sv_confidence x = sr_confidence r
    \<and> (0 < threshold \<longrightarrow> (\<forall>a \<in> set (uv_forbidden v). normalizeAnchor a \<notin> set (uiTreeAnchorSet tree)))
    \<and> (sr_method r \<in> {ExactHash, Anchors} \<longrightarrow> (\<forall>a \<in> set (uv_required v). normalizeAnchor a \<in> set (uiTreeAnchorSet tree)))
    \<and> (sr_method r = ExactHash \<longrightarrow> uv_hash v = Some (computePageSignature sha256 tree))
    \<and> (\<forall>s' \<in> set states. \<forall>v' \<in> set (us_variants s'). \<forall>x'. us_app s' = uc_app context
         \<and> scoreVariant regex s' v' (computePageSignature sha256 tree) (uiTreeAnchorSet tree) context p = Some x' \<and> x' \<noteq> x \<longrightarrow> sv_confidence x' \<le> sr_confidence r - rp_margin p)"
proof -
  let ?f = "computePageSignature sha256 tree" and ?o = "uiTreeAnchorSet tree"
  let ?scored = "scored_variants regex ?f ?o states context p"
  have "resolve_scored p ?f ?scored = r" using assms(1) by (simp add: resolveUiState_def Let_def)
  then obtain x others threshold where k: "?scored = x # others" "uv_threshold (sv_variant x) = Some threshold"
      "threshold \<le> sv_confidence x" "\<forall>c \<in> set others. rp_margin p \<le> sv_confidence x - sv_confidence c"
      "sr_state r = Some (us_id (sv_state x))" "sr_variant r = Some (uv_id (sv_variant x))"
      "sr_confidence r = sv_confidence x" "sr_method r = ExactHash \<longleftrightarrow> sv_exact x"
      "sr_method r = Anchors \<longleftrightarrow> \<not> sv_exact x \<and> sv_missing x = []"
    using assms(2) by (elim resolve_scored_known) auto
  have x: "sv_state x \<in> set states" "us_app (sv_state x) = uc_app context" "sv_variant x \<in> set (us_variants (sv_state x))"
      "scoreVariant regex (sv_state x) (sv_variant x) ?f ?o context p = Some x"
    using scored_variants_in [of x regex "?f" "?o" states "context" p] k(1) by simp_all
  note score = scoreVariant_known [OF x(4)]
  have others: "sv_confidence x' \<le> sv_confidence x - rp_margin p"
    if "s' \<in> set states" "v' \<in> set (us_variants s')" "us_app s' = uc_app context"
      "scoreVariant regex s' v' ?f ?o context p = Some x'" "x' \<noteq> x" for s' v' x'
  proof -
    have "x' \<in> set ?scored" using that by (force simp: scored_variants_def)
    then have "x' \<in> set others" using k(1) that(5) by simp
    then have "rp_margin p \<le> sv_confidence x - sv_confidence x'" using k(4) by blast
    then show ?thesis by linarith
  qed
  have forbidden: "\<forall>a \<in> set (uv_forbidden (sv_variant x)). normalizeAnchor a \<notin> set ?o" if "0 < threshold"
    using k(3) that score(3,4) by (auto simp: filter_empty_conv)
  have required: "\<forall>a \<in> set (uv_required (sv_variant x)). normalizeAnchor a \<in> set ?o" if "sr_method r \<in> {ExactHash, Anchors}"
  proof -
    have "sv_missing x = []" using that k(8,9) score(5) by auto
    then show ?thesis by (auto simp: score(2) filter_empty_conv)
  qed
  have exact: "uv_hash (sv_variant x) = Some ?f" if "sr_method r = ExactHash"
    using that k(8) score(5) by blast
  show ?thesis
    by (intro bexI [OF _ x(1)] bexI [OF _ x(3)] exI [of _ threshold] exI [of _ x] conjI)
      (use k(2,3,5-7) assms(2) x score(1) others forbidden required exact in simp_all)
qed

text \<open>The home screen of the samples is recognised by its anchors.\<close>

definition home_resolution :: StateResolution where
  "home_resolution = resolveUiState id plain_regex home_tree ui_states ui_context resolution_policy"

theorem state_recognition_sound_witness:
  "sr_state home_resolution = Some ''home'' \<and> sr_method home_resolution = Anchors
     \<and> (\<exists>s \<in> set ui_states. us_id s = ''home'' \<and> us_app s = ''app''
         \<and> (\<exists>v \<in> set (us_variants s). \<forall>a \<in> set (uv_required v). normalizeAnchor a \<in> set (uiTreeAnchorSet home_tree)))"
proof -
  have e: "sr_state home_resolution = Some ''home'' \<and> sr_method home_resolution = Anchors" by code_simp
  have "uc_app ui_context = ''app''" by (simp add: ui_context_def)
  with e state_recognition_sound [OF home_resolution_def [symmetric], of "''home''"] show ?thesis by fastforce
qed

text \<open>
  The confidence of a state resolution is a value between 0 and 1 when the configured
  maximum of the fuzzy score is at most 1, known state or not.
\<close>

theorem recognition_confidence_bounds:
  assumes "rp_max_fuzzy p \<le> 1"
  shows "0 \<le> sr_confidence (resolveUiState sha256 regex tree states context p)
    \<and> sr_confidence (resolveUiState sha256 regex tree states context p) \<le> 1"
proof -
  let ?f = "computePageSignature sha256 tree"
  let ?scored = "scored_variants regex ?f (uiTreeAnchorSet tree) states context p"
  show ?thesis
  proof (cases ?scored)
    case Nil
    then show ?thesis by (simp add: resolveUiState_def resolve_scored_def unknown_def Let_def)
  next
    case (Cons x others)
    then have "scoreVariant regex (sv_state x) (sv_variant x) ?f (uiTreeAnchorSet tree) context p = Some x"
      using scored_variants_in [of x regex "?f" "uiTreeAnchorSet tree" states "context" p] by simp
    from score_bounds [OF this assms] Cons show ?thesis
      by (auto simp: resolveUiState_def resolve_scored_def unknown_def Let_def split: option.split)
  qed
qed

theorem recognition_confidence_bounds_witness:
  "0 \<le> sr_confidence (resolveUiState id plain_regex [] ui_states ui_context resolution_policy)
     \<and> sr_confidence (resolveUiState id plain_regex [] ui_states ui_context resolution_policy) \<le> 1"
  by (rule recognition_confidence_bounds) (simp add: resolution_policy_def)

section \<open>Targets\<close>

text \<open>
  C32. A target is resolved by the first selector, in the order of priority and then of
  confidence, that applies in the context and matches exactly one node of the tree with
  usable bounds; the coordinates are the centre of that node, inside the unit square. The
  coordinate cache answers only when no selector does, with a static entry of the current
  variant whose confidence is at least 7/10; nothing is found only when there is no such
  entry either.
\<close>

theorem target_resolution_exact:
  "found_in_tree regex tree selectors c (resolveUiTarget regex tree selectors c)
   \<or> found_in_cache regex tree selectors c (resolveUiTarget regex tree selectors c)
   \<or> not_found regex tree selectors c (resolveUiTarget regex tree selectors c)"
  by (rule target_outcome) simp

section \<open>Runs\<close>

definition sample_engine :: graph_engine where
  "sample_engine = \<lparr>gn_resolve = (\<lambda>tree. if tree = [] then (unknown [])\<lparr>sr_state := Some ''post''\<rparr>
       else resolveUiState id plain_regex tree ui_states ui_context resolution_policy),
     gn_transitions = sample_graph, gn_policy = planning 20,
     gn_budget = \<lparr>gb_transitions = 5, gb_replans = 5, gb_duration = 1000\<rparr>\<rparr>"

definition comments_tree :: "UiTreeNode list" where
  "comments_tree = [node ''app:id/root'' ''Comments'' []]"

definition sample_env :: graph_env where
  "sample_env = \<lparr>ge_elapsed = (\<lambda>k. 10 * k), ge_stamp = (\<lambda>k b. k),
     ge_tree = (\<lambda>k. if k = 0 then home_tree else if k = 1 then [] else comments_tree),
     ge_execute = (\<lambda>k t. Inr ()), ge_recover = None\<rparr>"

text \<open>
  C29. A run of the graph engine only executes what it may and only from where it is: every
  transition executed is an eligible one of the policy, leads away from the state just
  recognised, and the checkpoint with that state was saved immediately before. The run
  reports success only at the target, and its checkpoint counts every execution.
\<close>

theorem graph_run_safe:
  assumes "run_graph e env target resume now = Some (res, out)"
  shows "log_safe e None out \<and> (gr_ok res \<longrightarrow> sr_state (gr_resolution res) = Some target)
    \<and> gc_executed (gr_checkpoint res) = gc_executed (start_checkpoint target resume now) + int (executions out)"
  using run_loop_safe [OF assms [unfolded run_graph_def]] .

theorem graph_run_safe_witness:
  "\<exists>res out. run_graph sample_engine sample_env ''comments'' None 0 = Some (res, out) \<and> gr_ok res \<and> executions out = 2
     \<and> log_safe sample_engine None out \<and> gc_executed (gr_checkpoint res) = 2"
proof -
  let ?r = "run_graph sample_engine sample_env ''comments'' None 0"
  have "case ?r of None \<Rightarrow> False | Some (res, out) \<Rightarrow> gr_ok res \<and> executions out = 2" by code_simp
  then obtain res out where r: "?r = Some (res, out)" "gr_ok res" "executions out = 2" by (auto split: option.splits)
  have "gc_executed (start_checkpoint ''comments'' None 0) = 0" by (simp add: start_checkpoint_def)
  with graph_run_safe [OF r(1)] r show ?thesis by (intro exI [of _ res] exI [of _ out]) simp
qed

text \<open>
  C30. A run always ends when no transition has a negative cost, whatever the device and the
  recovery callback answer, and it executes at most as many transitions as the transition
  budget and the replan budget leave it.
\<close>

theorem graph_run_ends:
  assumes "\<forall>t \<in> set (gn_transitions e). 0 \<le> ut_cost t"
  shows "\<exists>res out. run_graph e env target resume now = Some (res, out)
    \<and> int (executions out) \<le> max 0 (gb_transitions (gn_budget e) - gc_executed (start_checkpoint target resume now))
    \<and> int (executions out) \<le> max 0 (gb_replans (gn_budget e) + 1 - gc_replans (start_checkpoint target resume now))"
proof -
  obtain res out where "run_loop e env target 0 (start_checkpoint target resume now) no_resolution = Some (res, out)"
    using run_loop_answers [OF assms, of env target 0 "start_checkpoint target resume now" no_resolution] by auto
  then show ?thesis using run_loop_bounds by (auto simp: run_graph_def)
qed

theorem graph_run_ends_witness:
  "\<exists>res out. run_graph sample_engine sample_env ''nowhere'' None 0 = Some (res, out) \<and> executions out \<le> 5"
proof -
  have "\<forall>t \<in> set (gn_transitions sample_engine). 0 \<le> ut_cost t" by (simp add: sample_engine_def sample_graph_def hop_def)
  from graph_run_ends [OF this, of sample_env "''nowhere''" None 0] show ?thesis
    by (auto simp: sample_engine_def start_checkpoint_def)
qed

section \<open>Recovery\<close>

text \<open>
  C33. A recovery cannot escalate: every action it sends belongs to a proposal that passes
  all the rules of the budget - an allowed type other than \<open>abort\<close>, a confidence between 0
  and 1, at most the allowed number of actions, each with an allowed safety class of its
  own. What it learns is a proposal whose postcondition was verified, and it reports
  success only for such a proposal with all its actions sent.
\<close>

theorem recovery_cannot_escalate:
  assumes "recover env b ps = (r, s)"
  shows "(\<forall>p a. Sent p a \<in> set (rn_log s) \<longrightarrow> proposal_ok b p \<and> rv_type p \<noteq> ''abort'' \<and> a \<in> set (rv_actions p)
        \<and> (\<exists>c. actionSafety a = Some c \<and> c \<in> set (rb_safety b)))
    \<and> (\<forall>p ev. Learned p ev \<in> set (rn_log s) \<longrightarrow> rv_learning p \<and> proposal_ok b p \<and> re_verify env p = Some ev)
    \<and> (rr_ok r \<longrightarrow> (\<exists>p. rr_proposal r = Some p \<and> proposal_ok b p \<and> re_verify env p \<noteq> None
          \<and> (\<forall>a \<in> set (rv_actions p). Sent p a \<in> set (rn_log s))))"
proof -
  have e: "effects_ok env b (rn_log s)" and a: "answer_ok env b s r"
    using recover_keeps [OF assms] by (simp_all add: recovery_inv_def)
  have "\<exists>c. actionSafety x = Some c \<and> c \<in> set (rb_safety b)" if "proposal_ok b p" "x \<in> set (rv_actions p)" for p x
    using that by (auto simp: proposal_ok_def action_allowed_def split: option.splits)
  then show ?thesis using e a unfolding effects_ok_def answer_ok_def by blast
qed

definition tap :: "string \<Rightarrow> jobj" where
  "tap c = [(''type'', JStr ''tap''), (''safetyClass'', JStr c)]"

definition proposal :: "string \<Rightarrow> string \<Rightarrow> RecoveryProposal" where
  "proposal t c = \<lparr>rv_type = t, rv_source = None, rv_expected = Some ''home'', rv_actions = [tap c], rv_confidence = 9/10,
     rv_reason = ''overlay'', rv_learning = True, rv_vision = False\<rparr>"

definition recovery_budget :: RecoveryBudget where
  "recovery_budget = \<lparr>rb_actions = 2, rb_attempts = 3, rb_duration = 1000, rb_safety = [''navigation''],
     rb_types = [''dismiss''], rb_actionless = []\<rparr>"

definition recovery_sample :: recovery_env where
  "recovery_sample = \<lparr>re_elapsed = (\<lambda>k. k), re_from_tree = Some (proposal ''dismiss'' ''navigation''), re_screenshot = None,
     re_from_vision = (\<lambda>_. None), re_execute = (\<lambda>k a. Inr ()), re_verify = (\<lambda>p. Some []), re_learns = True\<rparr>"

text \<open>A purchase proposed first is refused; the proposal from the tree succeeds.\<close>

theorem recovery_cannot_escalate_witness:
  "\<exists>r s. recover recovery_sample recovery_budget [proposal ''dismiss'' ''purchase''] = (r, s) \<and> rr_ok r \<and> rr_attempts r = 2
     \<and> sends (rn_log s) = 1 \<and> (\<exists>p. rr_proposal r = Some p \<and> proposal_ok recovery_budget p)"
proof -
  let ?r = "recover recovery_sample recovery_budget [proposal ''dismiss'' ''purchase'']"
  have "case ?r of (r, s) \<Rightarrow> rr_ok r \<and> rr_attempts r = 2 \<and> sends (rn_log s) = 1" by code_simp
  then obtain r s where r: "?r = (r, s)" "rr_ok r" "rr_attempts r = 2" "sends (rn_log s) = 1" by auto
  with recovery_cannot_escalate [OF r(1)] show ?thesis by blast
qed

text \<open>
  A recovery stays within its budget: it makes at most the allowed number of attempts,
  sends at most the allowed number of actions in each, and reports exactly the attempts
  made and the actions sent.
\<close>

theorem recovery_within_budget:
  "case recover env b ps of (r, s) \<Rightarrow>
     0 \<le> rr_attempts r \<and> rr_attempts r \<le> max 0 (rb_attempts b) \<and> rr_attempts r = rn_attempts s
   \<and> rr_executed r = sends (rn_log s) \<and> int (rr_executed r) \<le> int (rb_actions b) * rr_attempts r"
proof -
  obtain r s where r: "recover env b ps = (r, s)" by fastforce
  from recover_keeps [OF r] show ?thesis by (simp add: r recovery_inv_def answer_ok_def)
qed

section \<open>Promotion\<close>

text \<open>
  A learned candidate is promoted without review exactly when it meets every threshold
  of the policy and its safety class and type are listed for automatic promotion; such a
  candidate is also ready. A coverage count that is not given counts as none.
\<close>

theorem auto_promotion_exact:
  "(pd_auto (promotionDecision i p) \<longleftrightarrow> pd_ready (promotionDecision i p) \<and> pi_failures i \<le> up_failures p
      \<and> up_devices p \<le> odefault (pi_devices i) 0 \<and> up_branches p \<le> odefault (pi_branches i) 0
      \<and> up_environments p \<le> odefault (pi_environments i) 0 \<and> odefault (pi_recoveries i) 0 \<le> up_recoveries p
      \<and> pi_safety i \<in> set (up_safety p) \<and> pi_type i \<in> set (up_types p))
   \<and> (pd_ready (promotionDecision i p) \<longleftrightarrow> up_successes p \<le> pi_successes i \<and> pi_verified i)
   \<and> (pd_auto (promotionDecision i p) \<longleftrightarrow> pd_blockers (promotionDecision i p) = [])"
  by (auto simp: promotionDecision_def promotion_blockers_def not_less not_le)

end
