(* ===== verification/Segment_Types.thy ===== *)
theory Segment_Types imports UI_Tree
begin

text \<open>
  The data of workflow compositions, \<^verbatim>\<open>src/src/modules/workflow-segments/types.ts\<close>, as far as
  composing reads it, and the object lookups of JavaScript. A \<^verbatim>\<open>Record\<close> is an association
  list with distinct keys, as \<^verbatim>\<open>JSON.parse\<close> makes it.
\<close>

section \<open>Property lookup\<close>

text \<open>
  The members every object inherits, printed as a template literal prints them. Reading
  \<^verbatim>\<open>o[key]\<close> finds them where the object has no member of its own.
\<close>

definition native_function :: "string \<Rightarrow> string" where
  "native_function n = ''function '' @ n @ ''() { [native code] }''"

definition js_inherited :: "string \<Rightarrow> string option" where
  "js_inherited k =
     (if k = ''constructor'' then Some (native_function ''Object'')
      else if k = ''__proto__'' then Some ''[object Object]''
      else if k \<in> {''__defineGetter__'', ''__defineSetter__'', ''__lookupGetter__'', ''__lookupSetter__'', ''hasOwnProperty'',
        ''isPrototypeOf'', ''propertyIsEnumerable'', ''toLocaleString'', ''toString'', ''valueOf''}
      then Some (native_function k) else None)"

text \<open>\<^verbatim>\<open>o[key]\<close> of a record of strings, and whether a record of objects has something there.\<close>

definition member :: "(string \<times> string) list \<Rightarrow> string \<Rightarrow> string option" where
  "member o1 k = (case map_of o1 k of Some v \<Rightarrow> Some v | None \<Rightarrow> js_inherited k)"

definition truthy_member :: "(string \<times> string) list \<Rightarrow> string \<Rightarrow> string option" where
  "truthy_member o1 k = or_string (member o1 k) None"

definition declared :: "(string \<times> 'a) list \<Rightarrow> string \<Rightarrow> bool" where
  "declared o1 k \<longleftrightarrow> map_of o1 k \<noteq> None \<or> js_inherited k \<noteq> None"

section \<open>Loops that may throw\<close>

type_synonym comp_error = "string \<times> string"

text \<open>\<^verbatim>\<open>for (const x of xs) f(x)\<close>: the first exception ends the loop.\<close>

fun each :: "('a \<Rightarrow> 'e + unit) \<Rightarrow> 'a list \<Rightarrow> 'e + unit" where
  "each f [] = Inr ()"
| "each f (x # xs) = (case f x of Inl e \<Rightarrow> Inl e | Inr _ \<Rightarrow> each f xs)"

definition require :: "bool \<Rightarrow> 'e \<Rightarrow> 'e + unit" where
  "require b e = (if b then Inr () else Inl e)"

lemma each_Inr [simp]: "each f xs = Inr u \<longleftrightarrow> (\<forall>x \<in> set xs. f x = Inr ())"
  by (induction xs) (auto split: sum.splits)

lemma each_Inl: "each f xs = Inl e \<Longrightarrow> \<exists>x \<in> set xs. f x = Inl e"
  by (induction xs) (auto split: sum.splits)

lemma require_simps [simp]: "require b e = Inr u \<longleftrightarrow> b" "require b e = Inl e' \<longleftrightarrow> \<not> b \<and> e' = e"
  by (auto simp: require_def)

text \<open>Statements in sequence.\<close>

definition andthen :: "'e + unit \<Rightarrow> 'e + 'b \<Rightarrow> 'e + 'b" where
  "andthen a b = (case a of Inl e \<Rightarrow> Inl e | Inr _ \<Rightarrow> b)"

lemma andthen_Inr [simp]: "andthen a b = Inr y \<longleftrightarrow> a = Inr () \<and> b = Inr y"
  by (auto simp: andthen_def split: sum.splits)

lemma andthen_Inl: "andthen a b = Inl e \<longleftrightarrow> a = Inl e \<or> a = Inr () \<and> b = Inl e"
  by (auto simp: andthen_def split: sum.splits)

definition sum_bind :: "'e + 'a \<Rightarrow> ('a \<Rightarrow> 'e + 'b) \<Rightarrow> 'e + 'b" where
  "sum_bind r f = (case r of Inl e \<Rightarrow> Inl e | Inr x \<Rightarrow> f x)"

lemma sum_bind_Inr [simp]: "sum_bind r f = Inr y \<longleftrightarrow> (\<exists>x. r = Inr x \<and> f x = Inr y)"
  by (auto simp: sum_bind_def split: sum.splits)

section \<open>Schemas, segments, compositions\<close>

datatype SegmentPropertyType = StringType | NumberType | BooleanType | ObjectType | ArrayType

datatype SegmentFormat = UriFormat | UuidFormat

record SegmentInputSchemaProperty =
  pr_type :: SegmentPropertyType
  pr_format :: "SegmentFormat option"
  pr_enum :: "json list option"
  pr_pattern :: "string option"
  pr_min :: "rat option"
  pr_max :: "rat option"
  pr_secret :: bool

record SegmentInputSchema =
  is_type :: string
  is_required :: "string list"
  is_properties :: "(string \<times> SegmentInputSchemaProperty) list"
  is_additional :: "bool option"

record WorkflowOutputSchema =
  os_required :: "string list"
  os_properties :: "(string \<times> string) list"

record WorkflowCompositionNodeRecord =
  cn_key :: string
  cn_ordinal :: rat
  cn_segment :: string
  cn_version :: string
  cn_inputs :: "(string \<times> string) list"
  cn_outputs :: "(string \<times> string) list"
  cn_depends :: "string list"

text \<open>Of a segment version and a composition: what the graph check reads.\<close>

record WorkflowSegmentVersionRecord =
  sg_inputs :: SegmentInputSchema
  sg_outputs :: "WorkflowOutputSchema option"

record WorkflowCompositionRecord =
  cp_inputs :: SegmentInputSchema
  cp_outputs :: WorkflowOutputSchema
  cp_nodes :: "WorkflowCompositionNodeRecord list"

text \<open>The segment map, by \<^verbatim>\<open>`${segmentKey}@${segmentVersion}`\<close>.\<close>

type_synonym segments = "(string \<times> WorkflowSegmentVersionRecord) list"

definition segment_of :: "segments \<Rightarrow> WorkflowCompositionNodeRecord \<Rightarrow> WorkflowSegmentVersionRecord option" where
  "segment_of segs n = map_of segs (cn_segment n @ ''@'' @ cn_version n)"

end
