(* ===== verification/Segment_Graph.thy ===== *)
theory Segment_Graph imports Segment_Types
begin

text \<open>
  The check of a composition graph, \<open>validateCompositionGraph\<close> of
  \<^verbatim>\<open>workflow-segments/composer.ts\<close>, and the declarative reading of it. Ordinals are
  printed by a parameter, the only use of number formatting in an error message.
\<close>

section \<open>The check\<close>

definition graph_invalid :: "string \<Rightarrow> comp_error" where
  "graph_invalid msg = (''WORKFLOW_COMPOSITION_GRAPH_INVALID'', msg)"

definition binding_invalid :: "string \<Rightarrow> comp_error" where
  "binding_invalid msg = (''WORKFLOW_COMPOSITION_BINDING_INVALID'', msg)"

text \<open>First loop: node keys and ordinals are new; \<open>seen\<close> are the nodes before.\<close>

fun check_keys :: "(rat \<Rightarrow> string) \<Rightarrow> WorkflowCompositionNodeRecord list \<Rightarrow> WorkflowCompositionNodeRecord list
    \<Rightarrow> comp_error + unit" where
  "check_keys show_number seen [] = Inr ()"
| "check_keys show_number seen (n # ns) =
     (if cn_key n \<in> cn_key ` set seen then Inl (graph_invalid (''duplicate composition node: '' @ cn_key n))
      else if cn_ordinal n \<in> cn_ordinal ` set seen
      then Inl (graph_invalid (''duplicate composition ordinal: '' @ show_number (cn_ordinal n)))
      else check_keys show_number (seen @ [n]) ns)"

definition check_dependency :: "WorkflowCompositionNodeRecord list \<Rightarrow> WorkflowCompositionNodeRecord \<Rightarrow> string \<Rightarrow> comp_error + unit" where
  "check_dependency nodes n d =
     require (case find (\<lambda>m. cn_key m = d) nodes of None \<Rightarrow> False | Some m \<Rightarrow> cn_ordinal m < cn_ordinal n)
       (graph_invalid (''invalid dependency '' @ d @ '' for node '' @ cn_key n))"

text \<open>\<^verbatim>\<open>/^[a-zA-Z][a-zA-Z0-9_]*$/\<close>.\<close>

definition ascii_letter :: "char \<Rightarrow> bool" where
  "ascii_letter c = (let n = of_char c :: nat in (65 \<le> n \<and> n \<le> 90) \<or> (97 \<le> n \<and> n \<le> 122))"

definition ascii_digit :: "char \<Rightarrow> bool" where
  "ascii_digit c = (let n = of_char c :: nat in 48 \<le> n \<and> n \<le> 57)"

definition valid_output_name :: "string \<Rightarrow> bool" where
  "valid_output_name s = (case s of [] \<Rightarrow> False
     | c # cs \<Rightarrow> ascii_letter c \<and> list_all (\<lambda>x. ascii_letter x \<or> ascii_digit x \<or> x = CHR ''_'') cs)"

definition segment_outputs :: "WorkflowSegmentVersionRecord \<Rightarrow> (string \<times> string) list" where
  "segment_outputs s = (case sg_outputs s of None \<Rightarrow> [] | Some o1 \<Rightarrow> os_properties o1)"

text \<open>The outputs of a node, added to the producers of composition outputs.\<close>

fun register_outputs :: "WorkflowSegmentVersionRecord \<Rightarrow> WorkflowCompositionNodeRecord \<Rightarrow> (string \<times> string) list
    \<Rightarrow> (string \<times> string) list \<Rightarrow> comp_error + (string \<times> string) list" where
  "register_outputs s n producers [] = Inr producers"
| "register_outputs s n producers ((from1, to1) # bs) =
     (if \<not> declared (segment_outputs s) from1
      then Inl (binding_invalid (''node '' @ cn_key n @ '' output is not declared by segment: '' @ from1))
      else if \<not> valid_output_name to1
      then Inl (binding_invalid (''node '' @ cn_key n @ '' output target is invalid: '' @ to1))
      else if to1 \<in> fst ` set producers
      then Inl (binding_invalid (''composition output target is produced more than once: '' @ to1))
      else register_outputs s n (producers @ [(to1, cn_key n)]) bs)"

definition composition_input :: "string \<Rightarrow> string" where
  "composition_input source = (if take 7 source = ''inputs.'' then drop 7 source else source)"

definition from_dependency :: "(string \<times> string) list \<Rightarrow> WorkflowCompositionNodeRecord \<Rightarrow> string \<Rightarrow> bool" where
  "from_dependency producers n source \<longleftrightarrow>
     (case map_of producers source of None \<Rightarrow> False | Some producer \<Rightarrow> producer \<noteq> [] \<and> producer \<in> set (cn_depends n))"

definition check_input :: "WorkflowCompositionRecord \<Rightarrow> WorkflowSegmentVersionRecord \<Rightarrow> (string \<times> string) list
    \<Rightarrow> WorkflowCompositionNodeRecord \<Rightarrow> string \<times> string \<Rightarrow> comp_error + unit" where
  "check_input c s producers n b =
     require (declared (is_properties (sg_inputs s)) (fst b)
         \<and> (declared (is_properties (cp_inputs c)) (composition_input (snd b)) \<or> from_dependency producers n (snd b)))
       (binding_invalid (''invalid input binding '' @ cn_key n @ ''.'' @ fst b @ '' -> '' @ snd b))"

definition check_required_input :: "WorkflowCompositionNodeRecord \<Rightarrow> string \<Rightarrow> comp_error + unit" where
  "check_required_input n i = require (truthy_member (cn_inputs n) i \<noteq> None)
     (binding_invalid (''node '' @ cn_key n @ '' does not bind required input '' @ i))"

text \<open>Second loop: one node, and all of them, with the producers so far.\<close>

definition check_node :: "WorkflowCompositionRecord \<Rightarrow> segments \<Rightarrow> (string \<times> string) list \<Rightarrow> WorkflowCompositionNodeRecord
    \<Rightarrow> comp_error + (string \<times> string) list" where
  "check_node c segs producers n =
     (case segment_of segs n of
        None \<Rightarrow> Inr producers
      | Some s \<Rightarrow>
          andthen (each (check_dependency (cp_nodes c) n) (cn_depends n))
            (case register_outputs s n producers (cn_outputs n) of
               Inl e \<Rightarrow> Inl e
             | Inr producers' \<Rightarrow>
                 andthen (each (check_required_input n) (is_required (sg_inputs s)))
                   (andthen (each (check_input c s producers' n) (cn_inputs n)) (Inr producers'))))"

fun check_nodes :: "WorkflowCompositionRecord \<Rightarrow> segments \<Rightarrow> (string \<times> string) list \<Rightarrow> WorkflowCompositionNodeRecord list
    \<Rightarrow> comp_error + (string \<times> string) list" where
  "check_nodes c segs producers [] = Inr producers"
| "check_nodes c segs producers (n # ns) =
     (case check_node c segs producers n of Inl e \<Rightarrow> Inl e | Inr producers' \<Rightarrow> check_nodes c segs producers' ns)"

definition check_required_output :: "(string \<times> string) list \<Rightarrow> string \<Rightarrow> comp_error + unit" where
  "check_required_output producers o1 = require (o1 \<in> fst ` set producers)
     (binding_invalid (''composition required output is not produced: '' @ o1))"

definition validateCompositionGraph :: "(rat \<Rightarrow> string) \<Rightarrow> WorkflowCompositionRecord \<Rightarrow> segments \<Rightarrow> comp_error + unit" where
  "validateCompositionGraph show_number c segs =
     andthen (check_keys show_number [] (cp_nodes c))
       (case check_nodes c segs [] (cp_nodes c) of
          Inl e \<Rightarrow> Inl e
        | Inr producers \<Rightarrow> each (check_required_output producers) (os_required (cp_outputs c)))"

section \<open>The declarative reading\<close>

text \<open>What a list of nodes produces: composition output and producing node.\<close>

definition outputs_of :: "segments \<Rightarrow> WorkflowCompositionNodeRecord \<Rightarrow> (string \<times> string) list" where
  "outputs_of segs n = (if segment_of segs n = None then [] else map (\<lambda>b. (snd b, cn_key n)) (cn_outputs n))"

definition produced :: "segments \<Rightarrow> WorkflowCompositionNodeRecord list \<Rightarrow> (string \<times> string) list" where
  "produced segs ns = concat (map (outputs_of segs) ns)"

text \<open>A node in its place: \<open>ps\<close> is what it and the nodes before it produce.\<close>

definition node_valid :: "WorkflowCompositionRecord \<Rightarrow> (string \<times> string) list \<Rightarrow> WorkflowCompositionNodeRecord
    \<Rightarrow> WorkflowSegmentVersionRecord \<Rightarrow> bool" where
  "node_valid c ps n s \<longleftrightarrow>
     (\<forall>d \<in> set (cn_depends n). \<exists>m \<in> set (cp_nodes c). cn_key m = d \<and> cn_ordinal m < cn_ordinal n)
   \<and> (\<forall>b \<in> set (cn_outputs n). declared (segment_outputs s) (fst b) \<and> valid_output_name (snd b))
   \<and> (\<forall>i \<in> set (is_required (sg_inputs s)). truthy_member (cn_inputs n) i \<noteq> None)
   \<and> (\<forall>b \<in> set (cn_inputs n). declared (is_properties (sg_inputs s)) (fst b)
        \<and> (declared (is_properties (cp_inputs c)) (composition_input (snd b)) \<or> from_dependency ps n (snd b)))"

definition composition_valid :: "WorkflowCompositionRecord \<Rightarrow> segments \<Rightarrow> bool" where
  "composition_valid c segs \<longleftrightarrow>
     distinct (map cn_key (cp_nodes c)) \<and> distinct (map cn_ordinal (cp_nodes c))
   \<and> distinct (map fst (produced segs (cp_nodes c)))
   \<and> (\<forall>i < length (cp_nodes c). \<forall>s. segment_of segs (cp_nodes c ! i) = Some s
        \<longrightarrow> node_valid c (produced segs (take (Suc i) (cp_nodes c))) (cp_nodes c ! i) s)
   \<and> set (os_required (cp_outputs c)) \<subseteq> fst ` set (produced segs (cp_nodes c))"

section \<open>The check decides it\<close>

lemma check_keys_Inr: "check_keys f seen ns = Inr u \<longleftrightarrow>
    distinct (map cn_key ns) \<and> distinct (map cn_ordinal ns) \<and> cn_key ` set seen \<inter> cn_key ` set ns = {}
    \<and> cn_ordinal ` set seen \<inter> cn_ordinal ` set ns = {}"
  by (induction ns arbitrary: seen) (auto simp: image_iff)

lemma find_unique_key: "distinct (map cn_key ns) \<Longrightarrow>
    (case find (\<lambda>m. cn_key m = d) ns of None \<Rightarrow> False | Some m \<Rightarrow> P m) \<longleftrightarrow> (\<exists>m \<in> set ns. cn_key m = d \<and> P m)"
  by (induction ns) (auto simp: image_iff)

lemma register_Inr: "register_outputs s n ps bs = Inr qs \<longleftrightarrow>
    qs = ps @ map (\<lambda>b. (snd b, cn_key n)) bs \<and> distinct (map snd bs) \<and> fst ` set ps \<inter> snd ` set bs = {}
    \<and> (\<forall>b \<in> set bs. declared (segment_outputs s) (fst b) \<and> valid_output_name (snd b))"
  by (induction s n ps bs rule: register_outputs.induct) (auto simp: image_iff)

lemma check_node_Inr:
  assumes "distinct (map cn_key (cp_nodes c))"
  shows "check_node c segs ps n = Inr qs \<longleftrightarrow> qs = ps @ outputs_of segs n
    \<and> distinct (map fst (outputs_of segs n)) \<and> fst ` set ps \<inter> fst ` set (outputs_of segs n) = {}
    \<and> (\<forall>s. segment_of segs n = Some s \<longrightarrow> node_valid c (ps @ outputs_of segs n) n s)"
proof (cases "segment_of segs n")
  case None
  then show ?thesis by (auto simp: check_node_def outputs_of_def)
next
  case (Some s)
  let ?new = "map (\<lambda>b. (snd b, cn_key n)) (cn_outputs n)"
  have deps: "check_dependency (cp_nodes c) n d = Inr () \<longleftrightarrow> (\<exists>m \<in> set (cp_nodes c). cn_key m = d \<and> cn_ordinal m < cn_ordinal n)" for d
    by (simp add: check_dependency_def find_unique_key [OF assms])
  show ?thesis
  proof (cases "register_outputs s n ps (cn_outputs n)")
    case (Inl e)
    then have "\<not> (distinct (map snd (cn_outputs n)) \<and> fst ` set ps \<inter> snd ` set (cn_outputs n) = {}
        \<and> (\<forall>b \<in> set (cn_outputs n). declared (segment_outputs s) (fst b) \<and> valid_output_name (snd b)))"
      using register_Inr [of s n ps "cn_outputs n" "ps @ ?new"] by auto
    then show ?thesis using Inl Some
      by (auto simp: check_node_def outputs_of_def node_valid_def comp_def image_image)
  next
    case (Inr ps')
    then have r: "ps' = ps @ ?new" "distinct (map snd (cn_outputs n))" "fst ` set ps \<inter> snd ` set (cn_outputs n) = {}"
        "\<forall>b \<in> set (cn_outputs n). declared (segment_outputs s) (fst b) \<and> valid_output_name (snd b)"
      using register_Inr [of s n ps "cn_outputs n" ps'] by simp_all
    have "check_node c segs ps n = Inr qs \<longleftrightarrow> node_valid c ps' n s \<and> qs = ps'"
      using r(4) by (auto simp: check_node_def Some Inr node_valid_def deps check_required_input_def check_input_def)
    then show ?thesis using r(1-3) by (auto simp: Some outputs_of_def comp_def image_image)
  qed
qed

lemma produced_simps [simp]: "produced segs [] = []" "produced segs (n # ns) = outputs_of segs n @ produced segs ns"
  by (simp_all add: produced_def)

lemma check_nodes_Inr:
  assumes "distinct (map cn_key (cp_nodes c))"
  shows "check_nodes c segs ps ns = Inr qs \<longleftrightarrow> qs = ps @ produced segs ns
    \<and> distinct (map fst (produced segs ns)) \<and> fst ` set ps \<inter> fst ` set (produced segs ns) = {}
    \<and> (\<forall>i < length ns. \<forall>s. segment_of segs (ns ! i) = Some s
         \<longrightarrow> node_valid c (ps @ produced segs (take (Suc i) ns)) (ns ! i) s)"
proof (induction ns arbitrary: ps)
  case (Cons n ns)
  show ?case
  proof (cases "check_node c segs ps n")
    case (Inl e)
    then have "\<not> (distinct (map fst (outputs_of segs n)) \<and> fst ` set ps \<inter> fst ` set (outputs_of segs n) = {}
        \<and> (\<forall>s. segment_of segs n = Some s \<longrightarrow> node_valid c (ps @ outputs_of segs n) n s))"
      using check_node_Inr [OF assms, of segs ps n "ps @ outputs_of segs n"] by auto
    moreover have "\<forall>s. segment_of segs n = Some s \<longrightarrow> node_valid c (ps @ outputs_of segs n) n s"
      if "\<forall>i < length (n # ns). \<forall>s. segment_of segs ((n # ns) ! i) = Some s
         \<longrightarrow> node_valid c (ps @ produced segs (take (Suc i) (n # ns))) ((n # ns) ! i) s"
      using that by (auto dest: spec [of _ 0])
    ultimately show ?thesis using Inl by (auto simp: image_Un)
  next
    case (Inr ps')
    then have r: "ps' = ps @ outputs_of segs n" "distinct (map fst (outputs_of segs n))"
        "fst ` set ps \<inter> fst ` set (outputs_of segs n) = {}"
        "\<forall>s. segment_of segs n = Some s \<longrightarrow> node_valid c (ps @ outputs_of segs n) n s"
      using check_node_Inr [OF assms, of segs ps n ps'] by simp_all
    have all: "(\<forall>i < length (n # ns). P i) \<longleftrightarrow> P 0 \<and> (\<forall>i < length ns. P (Suc i))" for P
      by (auto simp: less_Suc_eq_0_disj)
    show ?thesis using r(2-4) unfolding all
      by (simp add: Inr Cons.IH r(1) image_Un) blast
  qed
qed auto

end
