(* ===== verification/Segment_Steps.thy ===== *)
theory Segment_Steps imports Segment_Types
begin

text \<open>
  The rewriting of segment steps into a composition, \<open>rewriteBindings\<close> and \<open>prefixStep\<close>
  of \<^verbatim>\<open>workflow-segments/composer.ts\<close>, on the step types of \<^verbatim>\<open>workflows/types.ts\<close>. The members
  of a step that composing does not name are its \<open>rest\<close>, a JSON object.
\<close>

section \<open>Bindings in strings\<close>

definition key_char :: "char \<Rightarrow> bool" where
  "key_char c = (let n = of_char c :: nat in (65 \<le> n \<and> n \<le> 90) \<or> (97 \<le> n \<and> n \<le> 122) \<or> (48 \<le> n \<and> n \<le> 57)
     \<or> c = CHR ''_'' \<or> c = CHR ''.'' \<or> c = CHR ''-'')"

text \<open>
  A match of \<^verbatim>\<open>/\{\{inputs\.([a-zA-Z0-9_.-]+)\}\}/\<close> at the head: the key and what follows.
\<close>

definition placeholder :: "string \<Rightarrow> (string \<times> string) option" where
  "placeholder s =
     (let key = takeWhile key_char (drop 9 s); rest = drop (9 + length key) s in
      if take 9 s = ''{{inputs.'' \<and> key \<noteq> [] \<and> take 2 rest = ''}}'' then Some (key, drop 2 rest) else None)"

definition braces :: "string \<Rightarrow> string" where
  "braces t = ''{{'' @ t @ ''}}''"

lemma placeholder_eq: "placeholder s = Some (key, r) \<longleftrightarrow> s = ''{{inputs.'' @ key @ ''}}'' @ r \<and> key \<noteq> [] \<and> list_all key_char key"
proof
  assume p: "placeholder s = Some (key, r)"
  define k where "k = takeWhile key_char (drop 9 s)"
  have "take 9 s = ''{{inputs.''" "k \<noteq> []" "take 2 (drop (9 + length k) s) = ''}}''" "key = k" "r = drop 2 (drop (9 + length k) s)"
    using p by (auto simp: placeholder_def Let_def k_def split: if_splits)
  moreover have "s = take 9 s @ k @ drop (9 + length k) s"
    unfolding k_def by (metis append_take_drop_id drop_drop add.commute takeWhile_dropWhile_id dropWhile_eq_drop)
  moreover have "drop (9 + length k) s = take 2 (drop (9 + length k) s) @ drop 2 (drop (9 + length k) s)" by (metis append_take_drop_id)
  moreover have "list_all key_char k" by (auto simp: k_def list_all_iff dest: set_takeWhileD)
  ultimately show "s = ''{{inputs.'' @ key @ ''}}'' @ r \<and> key \<noteq> [] \<and> list_all key_char key" by metis
next
  assume s: "s = ''{{inputs.'' @ key @ ''}}'' @ r \<and> key \<noteq> [] \<and> list_all key_char key"
  have "takeWhile key_char (key @ ''}}'' @ r) = key"
    using s by (subst takeWhile_append2) (auto simp: list_all_iff key_char_def)
  moreover have "drop (9 + length key) s = ''}}'' @ r" using s by (simp add: numeral_eq_Suc)
  moreover have "take 9 s = ''{{inputs.''" "drop 9 s = key @ ''}}'' @ r" using s by simp_all
  ultimately show "placeholder s = Some (key, r)" using s by (simp add: placeholder_def Let_def del: drop_drop)
qed

lemma placeholder_shorter: "placeholder s = Some (key, r) \<Longrightarrow> length r < length s"
  by (simp add: placeholder_eq)

text \<open>\<^verbatim>\<open>value.replace(...)\<close>: every placeholder of a bound key becomes its target.\<close>

function rewrite_string :: "(string \<times> string) list \<Rightarrow> string \<Rightarrow> string" where
  "rewrite_string bs s =
     (case placeholder s of
        Some (key, r) \<Rightarrow> braces (odefault (truthy_member bs key) (''inputs.'' @ key)) @ rewrite_string bs r
      | None \<Rightarrow> (case s of [] \<Rightarrow> [] | c # cs \<Rightarrow> c # rewrite_string bs cs))"
  by pat_completeness auto
termination
  by (relation "measure (\<lambda>(_, s). length s)") (auto dest: placeholder_shorter)

declare rewrite_string.simps [simp del]

section \<open>Bindings in values\<close>

text \<open>The key of \<^verbatim>\<open>/^inputs\.([a-zA-Z0-9_.-]+)$/\<close>.\<close>

definition bind_key :: "string \<Rightarrow> string option" where
  "bind_key s = (if take 7 s = ''inputs.'' \<and> drop 7 s \<noteq> [] \<and> list_all key_char (drop 7 s) then Some (drop 7 s) else None)"

text \<open>
  \<^verbatim>\<open>{ $bind: target }\<close>. An inherited member is not a string there: a function is dropped
  when the step is serialised, the prototype becomes an empty object.
\<close>

definition bind_object :: "(string \<times> string) list \<Rightarrow> string \<Rightarrow> json" where
  "bind_object bs v =
     (let same = JObj [(''$bind'', JStr v)] in
      case bind_key v of
        None \<Rightarrow> same
      | Some k \<Rightarrow>
          (case map_of bs k of
             Some t \<Rightarrow> if t = [] then same else JObj [(''$bind'', JStr t)]
           | None \<Rightarrow> if k = ''__proto__'' then JObj [(''$bind'', JObj [])] else if js_inherited k \<noteq> None then JObj [] else same))"

fun rewriteBindings :: "(string \<times> string) list \<Rightarrow> json \<Rightarrow> json" and
    rewrite_items :: "(string \<times> string) list \<Rightarrow> json list \<Rightarrow> json list" and
    rewrite_members :: "(string \<times> string) list \<Rightarrow> jobj \<Rightarrow> jobj" where
  "rewriteBindings bs (JArr xs) = JArr (rewrite_items bs xs)"
| "rewriteBindings bs (JStr s) = JStr (rewrite_string bs s)"
| "rewriteBindings bs (JObj o1) =
     (case o1 of
        [(k, JStr v)] \<Rightarrow> if k = ''$bind'' then bind_object bs v else JObj (rewrite_members bs o1)
      | _ \<Rightarrow> JObj (rewrite_members bs o1))"
| "rewriteBindings bs JNull = JNull"
| "rewriteBindings bs (JBool b) = JBool b"
| "rewriteBindings bs (JNum x) = JNum x"
| "rewrite_items bs [] = []"
| "rewrite_items bs (x # xs) = rewriteBindings bs x # rewrite_items bs xs"
| "rewrite_members bs [] = []"
| "rewrite_members bs ((k, v) # o1) = (k, rewriteBindings bs v) # rewrite_members bs o1"

section \<open>Steps\<close>

datatype WorkflowStep =
    ActionStep (st_id: "string option") (action: string) (params: "json option") (saveOutputAs: "string option")
      (onFailureSteps: "WorkflowStep list option") (rest: jobj)
  | WaitStep (st_id: "string option") (rest: jobj)
  | ConditionStep (st_id: "string option") (if_true: "WorkflowStep list") (if_false: "WorkflowStep list option") (rest: jobj)
  | LoopStep (st_id: "string option") (steps: "WorkflowStep list") (rest: jobj)
  | CheckpointStep (st_id: "string option") (rest: jobj)

text \<open>\<open>rewriteBindings\<close> on a step: all of its members, nested steps included.\<close>

primrec rewriteStep :: "(string \<times> string) list \<Rightarrow> WorkflowStep \<Rightarrow> WorkflowStep" where
  "rewriteStep bs (ActionStep i a p s f r) = ActionStep (map_option (rewrite_string bs) i) (rewrite_string bs a)
     (map_option (rewriteBindings bs) p) (map_option (rewrite_string bs) s) (map_option (map (rewriteStep bs)) f) (rewrite_members bs r)"
| "rewriteStep bs (WaitStep i r) = WaitStep (map_option (rewrite_string bs) i) (rewrite_members bs r)"
| "rewriteStep bs (ConditionStep i t f r) = ConditionStep (map_option (rewrite_string bs) i) (map (rewriteStep bs) t)
     (map_option (map (rewriteStep bs)) f) (rewrite_members bs r)"
| "rewriteStep bs (LoopStep i ss r) = LoopStep (map_option (rewrite_string bs) i) (map (rewriteStep bs) ss) (rewrite_members bs r)"
| "rewriteStep bs (CheckpointStep i r) = CheckpointStep (map_option (rewrite_string bs) i) (rewrite_members bs r)"

primrec step_nodes :: "WorkflowStep \<Rightarrow> nat" where
  "step_nodes (ActionStep i a p s f r) = Suc (case map_option (map step_nodes) f of None \<Rightarrow> 0 | Some ns \<Rightarrow> sum_list ns)"
| "step_nodes (WaitStep i r) = 1"
| "step_nodes (ConditionStep i t f r) = Suc (sum_list (map step_nodes t)
     + (case map_option (map step_nodes) f of None \<Rightarrow> 0 | Some ns \<Rightarrow> sum_list ns))"
| "step_nodes (LoopStep i ss r) = Suc (sum_list (map step_nodes ss))"
| "step_nodes (CheckpointStep i r) = 1"

text \<open>\<^verbatim>\<open>Object.fromEntries\<close>: a later entry of a key wins.\<close>

definition from_entries :: "(string \<times> json) list \<Rightarrow> jobj" where
  "from_entries es = fold (\<lambda>(k, v) o1. AList.update k v o1) es []"

definition rename_params :: "WorkflowCompositionNodeRecord \<Rightarrow> json \<Rightarrow> json" where
  "rename_params n p =
     (case p of
        JObj o1 \<Rightarrow> JObj (jmerge (jmerge o1
          (case jget o1 ''outputs'' of
             Some (JObj outs) \<Rightarrow> [(''outputs'', JObj (from_entries (map (\<lambda>(k, v). (odefault (member (cn_outputs n) k) k, v)) outs)))]
           | _ \<Rightarrow> []))
          (case jget o1 ''outputVariable'' of
             Some (JStr v) \<Rightarrow> (case truthy_member (cn_outputs n) v of Some t \<Rightarrow> [(''outputVariable'', JStr t)] | None \<Rightarrow> [])
           | _ \<Rightarrow> []))
      | _ \<Rightarrow> p)"

definition rename_id :: "WorkflowCompositionNodeRecord \<Rightarrow> string option \<Rightarrow> string option" where
  "rename_id n i = (case or_string i None of None \<Rightarrow> i | Some x \<Rightarrow> Some (cn_key n @ ''__'' @ x))"

definition rename_output :: "WorkflowCompositionNodeRecord \<Rightarrow> string option \<Rightarrow> string option" where
  "rename_output n s = (case or_string s None of None \<Rightarrow> s
     | Some v \<Rightarrow> (case truthy_member (cn_outputs n) v of Some t \<Rightarrow> Some t | None \<Rightarrow> s))"

text \<open>The renaming of one step, its nested steps untouched.\<close>

fun rename_step :: "WorkflowCompositionNodeRecord \<Rightarrow> WorkflowStep \<Rightarrow> WorkflowStep" where
  "rename_step n (ActionStep i a p s f r) =
     ActionStep (rename_id n i) a (map_option (rename_params n) p) (rename_output n s) f r"
| "rename_step n (WaitStep i r) = WaitStep (rename_id n i) r"
| "rename_step n (ConditionStep i t f r) = ConditionStep (rename_id n i) t f r"
| "rename_step n (LoopStep i ss r) = LoopStep (rename_id n i) ss r"
| "rename_step n (CheckpointStep i r) = CheckpointStep (rename_id n i) r"

lemma step_nodes_rewrite [simp]: "step_nodes (rewriteStep bs s) = step_nodes s"
  by (induction s) (auto simp: comp_def option.map_comp cong: map_cong split: option.split)

lemma step_nodes_rename [simp]: "step_nodes (rename_step n s) = step_nodes s"
  by (cases s) auto

lemma nested_smaller: "x \<in> set ss \<Longrightarrow> step_nodes x < Suc (sum_list (map step_nodes ss) + k)"
  using member_le_sum_list [of "step_nodes x" "map step_nodes ss"] by fastforce

function prefixStep :: "WorkflowCompositionNodeRecord \<Rightarrow> (string \<times> string) list \<Rightarrow> WorkflowStep \<Rightarrow> WorkflowStep" where
  "prefixStep n bs step =
     (case rename_step n (rewriteStep bs step) of
        ActionStep i a p s f r \<Rightarrow> ActionStep i a p s (map_option (map (prefixStep n bs)) f) r
      | ConditionStep i t f r \<Rightarrow> ConditionStep i (map (prefixStep n bs) t) (map_option (map (prefixStep n bs)) f) r
      | LoopStep i ss r \<Rightarrow> LoopStep i (map (prefixStep n bs) ss) r
      | x \<Rightarrow> x)"
  by pat_completeness auto
termination
proof (relation "measure (\<lambda>(_, _, s). step_nodes s)", goal_cases)
  case (2 n bs step i a p s f r ss x)
  then show ?case using step_nodes_rename [of n "rewriteStep bs step"] nested_smaller [of x ss 0] by auto
next
  case (3 n bs step i t f r x)
  then show ?case using step_nodes_rename [of n "rewriteStep bs step"] nested_smaller [of x t "case f of None \<Rightarrow> 0 | Some ss \<Rightarrow> sum_list (map step_nodes ss)"]
    by (cases f) auto
next
  case (4 n bs step i t f r ss x)
  then show ?case using step_nodes_rename [of n "rewriteStep bs step"] nested_smaller [of x ss "sum_list (map step_nodes t)"]
    by (auto simp: add.commute)
next
  case (5 n bs step i ss r x)
  then show ?case using step_nodes_rename [of n "rewriteStep bs step"] nested_smaller [of x ss 0] by auto
qed simp

declare prefixStep.simps [simp del]

text \<open>The steps of a composition, with the bindings of every node.\<close>

definition step_bindings :: "WorkflowCompositionRecord \<Rightarrow> WorkflowCompositionNodeRecord \<Rightarrow> (string \<times> string) list" where
  "step_bindings c n = map (\<lambda>(i, source). (i, if declared (is_properties (cp_inputs c)) source then ''inputs.'' @ source else source))
     (cn_inputs n)"

definition compose_steps :: "WorkflowCompositionRecord \<Rightarrow> (WorkflowCompositionNodeRecord \<Rightarrow> WorkflowStep list) \<Rightarrow> WorkflowStep list" where
  "compose_steps c template_steps =
     concat (map (\<lambda>n. map (prefixStep n (step_bindings c n)) (template_steps n)) (cp_nodes c))"

end
