(* ===== verification/Segment_Once.thy ===== *)
theory Segment_Once imports Segment_Steps
begin

text \<open>
  When rewriting a nested step twice is harmless: bindings whose targets do not name other
  bound inputs make the rewriting idempotent, and the steps are then rewritten as if once.
\<close>

section \<open>Stable bindings\<close>

definition stable :: "(string \<times> string) list \<Rightarrow> bool" where
  "stable bs \<longleftrightarrow> (\<forall>(k, t) \<in> set bs. t \<noteq> [] \<longrightarrow> list_all key_char t
     \<and> (case bind_key t of None \<Rightarrow> True | Some k2 \<Rightarrow> map_of bs k2 \<in> {None, Some [], Some t} \<and> js_inherited k2 = None))"

section \<open>Strings\<close>

text \<open>Text without two braces in a row that does not end in one.\<close>

fun no_braces :: "string \<Rightarrow> bool" where
  "no_braces [] \<longleftrightarrow> True"
| "no_braces [c] \<longleftrightarrow> c \<noteq> CHR ''{''"
| "no_braces (c # d # cs) \<longleftrightarrow> \<not> (c = CHR ''{'' \<and> d = CHR ''{'') \<and> no_braces (d # cs)"

lemma placeholder_None_head: "take 2 s \<noteq> ''{{'' \<Longrightarrow> placeholder s = None"
  by (cases "placeholder s") (auto simp: placeholder_eq)

lemma rewrite_cons: "placeholder (c # cs) = None \<Longrightarrow> rewrite_string bs (c # cs) = c # rewrite_string bs cs"
  by (subst rewrite_string.simps) simp

lemma rewrite_Nil [simp]: "rewrite_string bs [] = []"
  by (subst rewrite_string.simps) (simp add: placeholder_def Let_def)

lemma rewrite_match: "placeholder s = Some (key, r) \<Longrightarrow>
    rewrite_string bs s = braces (odefault (truthy_member bs key) (''inputs.'' @ key)) @ rewrite_string bs r"
  by (subst rewrite_string.simps) simp

lemma rewrite_plain: "no_braces xs \<Longrightarrow> rewrite_string bs (xs @ r) = xs @ rewrite_string bs r"
proof (induction xs rule: no_braces.induct)
  case (2 c)
  then have "placeholder (c # r) = None" by (intro placeholder_None_head) (simp add: numeral_eq_Suc)
  then show ?case by (simp add: rewrite_cons)
next
  case (3 c d cs)
  then have "placeholder (c # d # cs @ r) = None" by (intro placeholder_None_head) (auto simp: numeral_eq_Suc)
  then show ?case using 3 by (simp add: rewrite_cons)
qed simp

text \<open>What the rewriting emits without a brace was there before.\<close>

lemma rewrite_emits:
  assumes "rewrite_string bs x = p @ q" "CHR ''{'' \<notin> set p"
  shows "\<exists>x'. x = p @ x' \<and> rewrite_string bs x' = q"
  using assms
proof (induction p arbitrary: x)
  case (Cons a p)
  show ?case
  proof (cases "placeholder x")
    case (Some m)
    obtain key r where "m = (key, r)" by (cases m)
    then have "rewrite_string bs x = CHR ''{'' # tl (rewrite_string bs x)"
      using Some by (simp add: rewrite_match braces_def)
    then show ?thesis using Cons.prems by (metis append_Cons list.inject list.set_intros(1))
  next
    case None
    then obtain y ys where x: "x = y # ys" using Cons.prems(1) by (cases x) auto
    then have "y = a" "rewrite_string bs ys = p @ q" using Cons.prems(1) None by (simp_all add: rewrite_cons)
    then show ?thesis using Cons.IH [of ys] Cons.prems(2) x by auto
  qed
qed simp

lemma rewrite_no_new:
  assumes "placeholder (c # cs) = None"
  shows "placeholder (c # rewrite_string bs cs) = None"
proof (rule ccontr)
  assume "placeholder (c # rewrite_string bs cs) \<noteq> None"
  then obtain key r where "placeholder (c # rewrite_string bs cs) = Some (key, r)" by auto
  then have m: "c = CHR ''{''" "rewrite_string bs cs = CHR ''{'' # (''inputs.'' @ key @ ''}}'') @ r" "key \<noteq> []" "list_all key_char key"
    by (simp_all add: placeholder_eq)
  have plain: "CHR ''{'' \<notin> set (''inputs.'' @ key @ ''}}'')"
    using m(4) by (auto simp: list_all_iff key_char_def)
  show False
  proof (cases "placeholder cs")
    case None
    then obtain y ys where cs: "cs = y # ys" using m(2) by (cases cs) auto
    then have "y = CHR ''{''" "rewrite_string bs ys = (''inputs.'' @ key @ ''}}'') @ r" using m(2) None by (simp_all add: rewrite_cons)
    then obtain x' where "ys = (''inputs.'' @ key @ ''}}'') @ x'" using rewrite_emits [OF _ plain] by blast
    then have "placeholder (c # cs) = Some (key, x')" using m(1,3,4) cs \<open>y = CHR ''{''\<close> by (simp add: placeholder_eq)
    then show False using assms by simp
  next
    case (Some k)
    then have "rewrite_string bs cs = CHR ''{'' # CHR ''{'' # tl (tl (rewrite_string bs cs))"
      by (cases k) (simp add: rewrite_match braces_def)
    then have "rewrite_string bs cs ! 1 = CHR ''{''" by (metis One_nat_def nth_Cons_0 nth_Cons_Suc)
    then show False using m(2) by simp
  qed
qed

lemma bind_key_eq: "bind_key t = Some k \<longleftrightarrow> t = ''inputs.'' @ k \<and> k \<noteq> [] \<and> list_all key_char k"
proof
  assume "bind_key t = Some k"
  then have "take 7 t = ''inputs.''" "k = drop 7 t" "k \<noteq> []" "list_all key_char k"
    by (auto simp: bind_key_def split: if_splits)
  then show "t = ''inputs.'' @ k \<and> k \<noteq> [] \<and> list_all key_char k" by (metis append_take_drop_id)
qed (simp add: bind_key_def)

lemma no_braces_key:
  assumes "list_all key_char t"
  shows "no_braces (CHR ''{'' # t @ ''}}'')"
proof -
  have "no_braces (t @ ''}}'')"
    using assms
  proof (induction t)
    case (Cons x xs)
    then have "x \<noteq> CHR ''{''" by (auto simp: key_char_def)
    then show ?case using Cons by (cases xs) auto
  qed simp
  moreover have "t = [] \<or> hd t \<noteq> CHR ''{''" using assms by (cases t) (auto simp: key_char_def)
  ultimately show ?thesis by (cases t) simp_all
qed

text \<open>A target in braces is rewritten to itself, whatever follows.\<close>

definition settled :: "(string \<times> string) list \<Rightarrow> string \<Rightarrow> bool" where
  "settled bs t \<longleftrightarrow> (\<forall>r. rewrite_string bs (braces t @ r) = braces t @ rewrite_string bs r)"

lemma settledI:
  assumes "no_braces (CHR ''{'' # t @ ''}}'')" "\<And>r. placeholder (braces t @ r) = None"
  shows "settled bs t"
  unfolding settled_def
proof
  fix r
  have "rewrite_string bs (braces t @ r) = CHR ''{'' # rewrite_string bs ((CHR ''{'' # t @ ''}}'') @ r)"
    using assms(2) [of r] by (simp add: braces_def rewrite_cons)
  then show "rewrite_string bs (braces t @ r) = braces t @ rewrite_string bs r"
    unfolding rewrite_plain [OF assms(1)] by (simp add: braces_def)
qed

lemma inherited_texts:
  assumes "js_inherited k = Some t"
  shows "no_braces (CHR ''{'' # t @ ''}}'') \<and> t \<noteq> [] \<and> hd t \<noteq> CHR ''i''"
proof -
  let ?names = "[''constructor'', ''__proto__'', ''__defineGetter__'', ''__defineSetter__'', ''__lookupGetter__'', ''__lookupSetter__'',
      ''hasOwnProperty'', ''isPrototypeOf'', ''propertyIsEnumerable'', ''toLocaleString'', ''toString'', ''valueOf'']"
  let ?good = "\<lambda>k. case js_inherited k of None \<Rightarrow> True
      | Some t \<Rightarrow> no_braces (CHR ''{'' # t @ ''}}'') \<and> t \<noteq> [] \<and> hd t \<noteq> CHR ''i''"
  have "list_all ?good ?names" by code_simp
  moreover have "k \<in> set ?names"
    using assms by (rule contrapos_pp) (simp add: js_inherited_def)
  ultimately have "?good k" unfolding list_all_iff by blast
  then show ?thesis using assms by simp
qed

lemma settled_inherited:
  assumes "js_inherited k = Some t"
  shows "settled bs t"
proof (rule settledI)
  note t = inherited_texts [OF assms]
  show "no_braces (CHR ''{'' # t @ ''}}'')" using t by simp
  show "placeholder (braces t @ r) = None" for r
    using t by (cases "placeholder (braces t @ r)"; cases t) (auto simp: placeholder_eq braces_def)
qed

lemma placeholder_braces:
  assumes "list_all key_char t" "t \<noteq> []"
  shows "placeholder (braces t @ r) = map_option (\<lambda>k. (k, r)) (bind_key t)"
proof (cases "bind_key t")
  case (Some k)
  then have "placeholder (braces t @ r) = Some (k, r)" by (auto simp: bind_key_eq placeholder_eq braces_def)
  then show ?thesis using Some by simp
next
  case None
  have "placeholder (braces t @ r) = None"
  proof (rule ccontr)
    assume "placeholder (braces t @ r) \<noteq> None"
    then obtain key r' where p: "t @ ''}}'' @ r = ''inputs.'' @ key @ ''}}'' @ r'" "key \<noteq> []" "list_all key_char key"
      by (auto simp: placeholder_eq braces_def)
    have stop: "takeWhile key_char (x @ ''}}'' @ y) = x" if "list_all key_char x" for x y
      using that by (subst takeWhile_append2) (auto simp: list_all_iff key_char_def)
    have "list_all key_char (''inputs.'' @ key)" using p(3) by (simp add: key_char_def)
    from stop [OF this, of r'] stop [OF assms(1), of r] p(1) have "t = ''inputs.'' @ key" by simp
    then show False using None p by (auto simp: bind_key_def)
  qed
  then show ?thesis using None by simp
qed

lemma settled_bound:
  assumes "stable bs" "truthy_member bs k = Some t"
  shows "settled bs t"
proof (cases "map_of bs k")
  case None
  then have "js_inherited k = Some t" using assms(2) by (auto simp: truthy_member_def member_def or_string_def split: option.splits if_splits)
  then show ?thesis by (rule settled_inherited)
next
  case (Some u)
  then have u: "u = t" "t \<noteq> []" using assms(2) by (auto simp: truthy_member_def member_def or_string_def split: if_splits)
  then have "(k, t) \<in> set bs" using Some by (simp add: map_of_SomeD)
  then have t: "list_all key_char t"
      "case bind_key t of None \<Rightarrow> True | Some k2 \<Rightarrow> map_of bs k2 \<in> {None, Some [], Some t} \<and> js_inherited k2 = None"
    using assms(1) u(2) unfolding stable_def by fast+
  show ?thesis
  proof (cases "bind_key t")
    case None
    then show ?thesis using placeholder_braces [OF t(1) u(2)] by (intro settledI no_braces_key [OF t(1)]) simp
  next
    case (Some k2)
    then have "truthy_member bs k2 \<in> {None, Some t}"
      using t(2) u(2) by (auto simp: truthy_member_def member_def or_string_def)
    moreover have "t = ''inputs.'' @ k2" using Some by (simp add: bind_key_eq)
    ultimately have "odefault (truthy_member bs k2) (''inputs.'' @ k2) = t" by auto
    then show ?thesis unfolding settled_def
      using placeholder_braces [OF t(1) u(2)] Some by (simp add: rewrite_match)
  qed
qed

lemma rewrite_string_idem:
  assumes "stable bs"
  shows "rewrite_string bs (rewrite_string bs s) = rewrite_string bs s"
proof (induction "length s" arbitrary: s rule: less_induct)
  case less
  show ?case
  proof (cases "placeholder s")
    case (Some m)
    then obtain key r where p: "placeholder s = Some (key, r)" by (cases m) auto
    have ih: "rewrite_string bs (rewrite_string bs r) = rewrite_string bs r"
      by (rule less) (rule placeholder_shorter [OF p])
    show ?thesis
    proof (cases "truthy_member bs key")
      case None
      have "placeholder (braces (''inputs.'' @ key) @ rewrite_string bs r) = Some (key, rewrite_string bs r)"
        using p by (simp add: placeholder_eq braces_def)
      from rewrite_match [OF this] None show ?thesis by (simp add: rewrite_match [OF p] ih)
    next
      case (Some t)
      from settled_bound [OF assms Some] show ?thesis by (simp add: rewrite_match [OF p] Some settled_def ih)
    qed
  next
    case None
    show ?thesis
    proof (cases s)
      case (Cons c cs)
      have "rewrite_string bs (rewrite_string bs cs) = rewrite_string bs cs" by (rule less) (simp add: Cons)
      moreover have "placeholder (c # rewrite_string bs cs) = None" using rewrite_no_new None Cons by blast
      ultimately show ?thesis using None Cons by (simp add: rewrite_cons)
    qed simp
  qed
qed

section \<open>Values and steps\<close>

lemma bind_object_idem:
  assumes "stable bs"
  shows "rewriteBindings bs (bind_object bs v) = bind_object bs v"
proof (cases "bind_key v")
  case None
  then show ?thesis by (simp add: bind_object_def)
next
  case (Some k)
  show ?thesis
  proof (cases "map_of bs k")
    case map: None
    then show ?thesis using Some by (simp add: bind_object_def Let_def)
  next
    case map: (Some t)
    show ?thesis
    proof (cases "t = []")
      case True
      then show ?thesis using Some map by (simp add: bind_object_def)
    next
      case False
      have "(k, t) \<in> set bs" using map by (rule map_of_SomeD)
      then have t: "case bind_key t of None \<Rightarrow> True | Some k2 \<Rightarrow> map_of bs k2 \<in> {None, Some [], Some t} \<and> js_inherited k2 = None"
        using assms False unfolding stable_def by fast
      have "bind_object bs t = JObj [(''$bind'', JStr t)]"
      proof (cases "bind_key t")
        case (Some k2)
        then have "map_of bs k2 \<in> {None, Some [], Some t}" "js_inherited k2 = None" using t by simp_all
        moreover from this(2) have "k2 \<noteq> ''__proto__''" by (auto simp: js_inherited_def)
        ultimately show ?thesis using Some by (auto simp: bind_object_def)
      qed (simp add: bind_object_def)
      then show ?thesis using Some map False by (simp add: bind_object_def)
    qed
  qed
qed

lemma bind_object_JObj: "\<exists>o1. bind_object bs v = JObj o1"
  by (auto simp: bind_object_def Let_def split: option.split)

text \<open>The object case of the rewriting.\<close>

definition binds :: "jobj \<Rightarrow> string option" where
  "binds o1 = (case o1 of [(k, JStr v)] \<Rightarrow> if k = ''$bind'' then Some v else None | _ \<Rightarrow> None)"

lemma rewrite_JObj: "rewriteBindings bs (JObj o1) =
    (case binds o1 of Some v \<Rightarrow> bind_object bs v | None \<Rightarrow> JObj (rewrite_members bs o1))"
  by (simp add: binds_def split: list.split json.split)

lemma binds_eq: "binds o1 = Some v \<longleftrightarrow> o1 = [(''$bind'', JStr v)]"
  by (auto simp: binds_def split: list.splits json.splits if_splits prod.splits)

lemma rewrite_JStr: "rewriteBindings bs w = JStr v \<Longrightarrow> \<exists>u. w = JStr u"
  using bind_object_JObj [of bs "the (binds (case w of JObj o1 \<Rightarrow> o1 | _ \<Rightarrow> []))"]
  by (cases w) (auto simp: rewrite_JObj simp del: rewriteBindings.simps(3) split: option.splits)

lemma binds_rewritten: "binds o1 = None \<Longrightarrow> binds (rewrite_members bs o1) = None"
proof (rule ccontr)
  assume n: "binds o1 = None" and "binds (rewrite_members bs o1) \<noteq> None"
  then obtain v where v: "rewrite_members bs o1 = [(''$bind'', JStr v)]" by (auto simp: binds_eq)
  then obtain w where "o1 = [(''$bind'', w)]" "rewriteBindings bs w = JStr v"
    by (cases o1; cases "tl o1") auto
  then show False using n rewrite_JStr [of bs w v] by (auto simp: binds_def)
qed

lemma rewrite_maps: "rewrite_items bs xs = map (rewriteBindings bs) xs"
    "rewrite_members bs o1 = map (\<lambda>(k, v). (k, rewriteBindings bs v)) o1"
  by (induction xs, simp_all) (induction o1, auto)

lemma rewrite_value_idem:
  assumes "stable bs"
  shows "rewriteBindings bs (rewriteBindings bs x) = rewriteBindings bs x"
proof (induction x)
  case (JArr xs)
  then show ?case by (simp add: rewrite_maps)
next
  case (JObj o1)
  show ?case
  proof (cases "binds o1")
    case None
    have "rewrite_members bs (rewrite_members bs o1) = rewrite_members bs o1"
      using JObj by (force simp: rewrite_maps)
    then show ?thesis using None by (simp add: rewrite_JObj binds_rewritten del: rewriteBindings.simps(3))
  next
    case (Some v)
    then show ?thesis using bind_object_idem [OF assms] by (simp add: rewrite_JObj del: rewriteBindings.simps(3))
  qed
qed (simp_all add: rewrite_string_idem [OF assms])

lemma rewrite_members_idem: "stable bs \<Longrightarrow> rewrite_members bs (rewrite_members bs o1) = rewrite_members bs o1"
  by (simp add: rewrite_maps rewrite_value_idem split_def)

lemma rewriteStep_idem:
  assumes "stable bs"
  shows "rewriteStep bs (rewriteStep bs s) = rewriteStep bs s"
  by (induction s) (auto simp: rewrite_string_idem [OF assms] rewrite_value_idem [OF assms] rewrite_members_idem [OF assms]
      option.map_comp comp_def intro: option.map_cong)

section \<open>Once\<close>

text \<open>The renaming of a step and of all steps nested in it, without rewriting anything.\<close>

primrec rename_all :: "WorkflowCompositionNodeRecord \<Rightarrow> WorkflowStep \<Rightarrow> WorkflowStep" where
  "rename_all n (ActionStep i a p s f r) = ActionStep (rename_id n i) a (map_option (rename_params n) p) (rename_output n s)
     (map_option (map (rename_all n)) f) r"
| "rename_all n (WaitStep i r) = WaitStep (rename_id n i) r"
| "rename_all n (ConditionStep i t f r) =
     ConditionStep (rename_id n i) (map (rename_all n) t) (map_option (map (rename_all n)) f) r"
| "rename_all n (LoopStep i ss r) = LoopStep (rename_id n i) (map (rename_all n) ss) r"
| "rename_all n (CheckpointStep i r) = CheckpointStep (rename_id n i) r"

lemma prefixStep_rewritten:
  assumes "stable bs"
  shows "prefixStep n bs (rewriteStep bs x) = prefixStep n bs x"
  by (subst (1 2) prefixStep.simps) (simp add: rewriteStep_idem [OF assms])

lemma prefixStep_once:
  assumes "stable bs"
  shows "prefixStep n bs s = rename_all n (rewriteStep bs s)"
proof (induction s)
  case (ActionStep i a p s f r)
  then show ?case using prefixStep_rewritten [OF assms]
    by (subst prefixStep.simps) (auto simp: option.map_comp comp_def intro!: option.map_cong)
next
  case (ConditionStep i t f r)
  then show ?case using prefixStep_rewritten [OF assms]
    by (subst prefixStep.simps) (auto simp: option.map_comp comp_def intro!: option.map_cong)
next
  case (LoopStep i ss r)
  then show ?case using prefixStep_rewritten [OF assms] by (subst prefixStep.simps) auto
qed (simp_all add: prefixStep.simps)

end
