(* ===== verification/Segment_Inputs.thy ===== *)
theory Segment_Inputs imports Segment_Types
begin

text \<open>
  The inputs of a composition: \<^verbatim>\<open>workflow-segments/input-resolver.ts\<close>. The regular
  expression engine and the URL parser are parameters; the restrictions the code puts on
  patterns are computed. An exception is its code and message, the code empty for one that
  has none.
\<close>

section \<open>Types\<close>

datatype SegmentInputTransform =
    Trim | Lowercase | Uppercase
  | PrefixUnless string string
  | Replace string string "string option"
  | OtherTransform string

datatype InputSource =
    RegexSource string "nat option" "string option"
  | LiteralSource json
  | OtherSource string

record SegmentInputResolverField =
  rf_sources :: "InputSource list"
  rf_transforms :: "SegmentInputTransform list"

record SegmentInputResolver =
  ir_version :: string
  ir_fields :: "(string \<times> SegmentInputResolverField) list"

text \<open>
  \<open>tx_exec p flags s\<close>: \<open>None\<close> when the constructor throws, else the groups of the match if
  there is one; \<open>tx_replace\<close>: \<^verbatim>\<open>String.prototype.replace\<close>; \<open>tx_url\<close>: the value parses as a
  URL with a protocol and a host name.
\<close>

record text_engine =
  tx_exec :: "string \<Rightarrow> string \<Rightarrow> string \<Rightarrow> string option list option option"
  tx_replace :: "string \<Rightarrow> string \<Rightarrow> string \<Rightarrow> string \<Rightarrow> string"
  tx_url :: "string \<Rightarrow> bool"

section \<open>Controlled patterns\<close>

definition resolver_invalid :: "string \<Rightarrow> comp_error" where
  "resolver_invalid msg = (''SEGMENT_INPUT_RESOLVER_INVALID'', msg)"

definition contract_invalid :: "string \<Rightarrow> comp_error" where
  "contract_invalid msg = (''COMPOSITION_INPUT_RESOLVER_INVALID'', msg)"

definition digit :: "char \<Rightarrow> bool" where
  "digit c = (let n = of_char c :: nat in 48 \<le> n \<and> n \<le> 57)"

text \<open>\<^verbatim>\<open>/\\[1-9]/\<close>.\<close>

fun has_backreference :: "string \<Rightarrow> bool" where
  "has_backreference (c # d # cs) \<longleftrightarrow> (c = CHR 0x5C \<and> digit d \<and> d \<noteq> CHR ''0'') \<or> has_backreference (d # cs)"
| "has_backreference _ \<longleftrightarrow> False"

definition has_lookaround :: "string \<Rightarrow> bool" where
  "has_lookaround p \<longleftrightarrow> js_includes p ''(?='' \<or> js_includes p ''(?!'' \<or> js_includes p ''(?<''"

text \<open>What follows a quantifier \<^verbatim>\<open>*\<close>, \<^verbatim>\<open>+\<close>, \<^verbatim>\<open>{n}\<close>, \<^verbatim>\<open>{n,}\<close> or \<^verbatim>\<open>{n,m}\<close> at the head.\<close>

definition after_quantifier :: "string \<Rightarrow> string option" where
  "after_quantifier s =
     (case s of
        [] \<Rightarrow> None
      | c # cs \<Rightarrow>
          if c = CHR ''*'' \<or> c = CHR ''+'' then Some cs
          else if c \<noteq> CHR ''{'' \<or> takeWhile digit cs = [] then None
          else (let r = dropWhile digit cs;
                    r' = (case r of d # ds \<Rightarrow> if d = CHR '','' then dropWhile digit ds else r | [] \<Rightarrow> [])
                in case r' of d # ds \<Rightarrow> if d = CHR ''}'' then Some ds else None | [] \<Rightarrow> None))"

fun has_nested_quantifier :: "string \<Rightarrow> bool" where
  "has_nested_quantifier [] \<longleftrightarrow> False"
| "has_nested_quantifier (c # cs) \<longleftrightarrow>
     (case after_quantifier (c # cs) of
        None \<Rightarrow> False
      | Some r \<Rightarrow> (case dropWhile js_space r of [] \<Rightarrow> False | d # _ \<Rightarrow> d \<in> {CHR ''*'', CHR ''+'', CHR ''{''}))
     \<or> has_nested_quantifier cs"

definition check_pattern :: "string \<Rightarrow> string \<Rightarrow> comp_error + unit" where
  "check_pattern p flags =
     (if p = [] \<or> length p > 1000 then Inl (resolver_invalid ''configured input resolver pattern is invalid'')
      else if \<not> list_all (\<lambda>c. c \<in> set ''gimsuy'') flags then Inl (resolver_invalid ''configured input resolver flags are invalid'')
      else if has_backreference p \<or> has_lookaround p \<or> has_nested_quantifier p
      then Inl (resolver_invalid ''configured input resolver pattern uses unsupported regex constructs'')
      else Inr ())"

text \<open>The pattern run on a text: a match or none.\<close>

definition controlledRegex :: "text_engine \<Rightarrow> string \<Rightarrow> string \<Rightarrow> string \<Rightarrow> comp_error + string option list option" where
  "controlledRegex e p flags s = andthen (check_pattern p flags)
     (case tx_exec e p flags s of None \<Rightarrow> Inl ([], ''Invalid regular expression'') | Some m \<Rightarrow> Inr m)"

text \<open>The construction alone does not depend on a text; the empty one stands for any.\<close>

definition valid_pattern :: "text_engine \<Rightarrow> string \<Rightarrow> string option \<Rightarrow> comp_error + unit" where
  "valid_pattern e p flags = (case controlledRegex e p (odefault flags []) [] of Inl x \<Rightarrow> Inl x | Inr _ \<Rightarrow> Inr ())"

section \<open>Validation of the resolver\<close>

definition validate_source :: "text_engine \<Rightarrow> string \<Rightarrow> InputSource \<Rightarrow> comp_error + unit" where
  "validate_source e key s =
     (case s of
        RegexSource p _ flags \<Rightarrow> valid_pattern e p flags
      | LiteralSource _ \<Rightarrow> Inr ()
      | OtherSource _ \<Rightarrow> Inl (contract_invalid (''input resolver source is unsupported: '' @ key)))"

definition validate_transform :: "text_engine \<Rightarrow> string \<Rightarrow> SegmentInputTransform \<Rightarrow> comp_error + unit" where
  "validate_transform e key t =
     (case t of
        PrefixUnless p _ \<Rightarrow> valid_pattern e p None
      | Replace p _ flags \<Rightarrow> valid_pattern e p flags
      | OtherTransform _ \<Rightarrow> Inl (contract_invalid (''input resolver transform is unsupported: '' @ key))
      | _ \<Rightarrow> Inr ())"

definition validate_field :: "text_engine \<Rightarrow> SegmentInputSchema \<Rightarrow> string \<times> SegmentInputResolverField \<Rightarrow> comp_error + unit" where
  "validate_field e schema kf = (case kf of (key, f) \<Rightarrow>
     andthen (require (declared (is_properties schema) key)
         (contract_invalid (''input resolver field is not declared in inputSchema: '' @ key)))
     (andthen (require (rf_sources f \<noteq> []) (contract_invalid (''input resolver field has no sources: '' @ key)))
     (andthen (each (validate_source e key) (rf_sources f)) (each (validate_transform e key) (rf_transforms f)))))"

definition validateInputResolver :: "text_engine \<Rightarrow> SegmentInputResolver \<Rightarrow> SegmentInputSchema \<Rightarrow> comp_error + unit" where
  "validateInputResolver e res schema =
     andthen (require (ir_version res = ''1'') (contract_invalid ''input resolver is invalid''))
     (andthen (each (\<lambda>i. require (declared (ir_fields res) i)
         (contract_invalid (''input resolver is missing required field: '' @ i))) (is_required schema))
       (each (validate_field e schema) (ir_fields res)))"

section \<open>Resolution of a field\<close>

text \<open>\<^verbatim>\<open>toUpperCase\<close>, where the result has the same 256 code points.\<close>

definition js_upper :: "string \<Rightarrow> string" where
  "js_upper s = concat (map (\<lambda>c. let n = of_char c :: nat in
     if n = 223 then ''SS'' else if (97 \<le> n \<and> n \<le> 122) \<or> (224 \<le> n \<and> n \<le> 254 \<and> n \<noteq> 247) then [char_of (n - 32)] else [c]) s)"

definition transform_kind :: "SegmentInputTransform \<Rightarrow> string" where
  "transform_kind t = (case t of Trim \<Rightarrow> ''trim'' | Lowercase \<Rightarrow> ''lowercase'' | Uppercase \<Rightarrow> ''uppercase''
     | PrefixUnless _ _ \<Rightarrow> ''prefix_unless'' | Replace _ _ _ \<Rightarrow> ''replace'' | OtherTransform k \<Rightarrow> k)"

definition apply_transform :: "text_engine \<Rightarrow> SegmentInputTransform \<Rightarrow> string \<Rightarrow> comp_error + string" where
  "apply_transform e t s =
     (case t of
        Trim \<Rightarrow> Inr (js_trim s)
      | Lowercase \<Rightarrow> Inr (js_lower s)
      | Uppercase \<Rightarrow> Inr (js_upper s)
      | PrefixUnless p prefix \<Rightarrow>
          (case controlledRegex e p [] s of Inl x \<Rightarrow> Inl x | Inr None \<Rightarrow> Inr (prefix @ s) | Inr (Some _) \<Rightarrow> Inr s)
      | Replace p r flags \<Rightarrow>
          (case valid_pattern e p flags of Inl x \<Rightarrow> Inl x | Inr _ \<Rightarrow> Inr (tx_replace e p (odefault flags []) r s))
      | OtherTransform _ \<Rightarrow> Inr s)"

fun applyTransforms :: "text_engine \<Rightarrow> json option \<Rightarrow> SegmentInputTransform list \<Rightarrow> comp_error + json option" where
  "applyTransforms e v [] = Inr v"
| "applyTransforms e v (t # ts) =
     (case v of
        Some (JStr s) \<Rightarrow> (case apply_transform e t s of Inl x \<Rightarrow> Inl x | Inr s' \<Rightarrow> applyTransforms e (Some (JStr s')) ts)
      | _ \<Rightarrow> Inl (''SEGMENT_INPUT_RESOLUTION_FAILED'', ''transform '' @ transform_kind t @ '' requires a string''))"

text \<open>The first source that yields; \<open>None\<close> is \<^verbatim>\<open>undefined\<close>.\<close>

definition group_value :: "string option list \<Rightarrow> nat option \<Rightarrow> json option" where
  "group_value gs g = (let i = odefault g 0 in if i < length gs then map_option JStr (gs ! i) else None)"

fun resolve_sources :: "text_engine \<Rightarrow> string \<Rightarrow> SegmentInputTransform list \<Rightarrow> InputSource list \<Rightarrow> comp_error + json option" where
  "resolve_sources e intent ts [] = Inr None"
| "resolve_sources e intent ts (LiteralSource v # ss) = applyTransforms e (Some v) ts"
| "resolve_sources e intent ts (RegexSource p g flags # ss) =
     (case controlledRegex e p (odefault flags []) intent of
        Inl x \<Rightarrow> Inl x
      | Inr (Some gs) \<Rightarrow> applyTransforms e (group_value gs g) ts
      | Inr None \<Rightarrow> resolve_sources e intent ts ss)"
| "resolve_sources e intent ts (OtherSource k # ss) = resolve_sources e intent ts ss"

definition resolveField :: "text_engine \<Rightarrow> string \<Rightarrow> SegmentInputResolverField \<Rightarrow> comp_error + json option" where
  "resolveField e intent f = resolve_sources e intent (rf_transforms f) (rf_sources f)"

section \<open>Property validation\<close>

definition hex_digit :: "char \<Rightarrow> bool" where
  "hex_digit c \<longleftrightarrow> c \<in> set ''0123456789abcdefABCDEF''"

definition is_uuid :: "string \<Rightarrow> bool" where
  "is_uuid s \<longleftrightarrow> length s = 36 \<and> list_all (\<lambda>i. if i \<in> {8, 13, 18, 23} then s ! i = CHR ''-''
     else if i = 14 then s ! i \<in> set ''12345'' else if i = 19 then s ! i \<in> set ''89abAB'' else hex_digit (s ! i)) [0..<36]"

text \<open>\<^verbatim>\<open>Object.is\<close> of two parsed values: objects and arrays are never the same one.\<close>

definition same_primitive :: "json \<Rightarrow> json \<Rightarrow> bool" where
  "same_primitive a b \<longleftrightarrow> a = b \<and> (case a of JArr _ \<Rightarrow> False | JObj _ \<Rightarrow> False | _ \<Rightarrow> True)"

definition has_type :: "SegmentPropertyType \<Rightarrow> json \<Rightarrow> bool" where
  "has_type t v = (case (t, v) of (StringType, JStr _) \<Rightarrow> True | (NumberType, JNum _) \<Rightarrow> True | (BooleanType, JBool _) \<Rightarrow> True
     | (ArrayType, JArr _) \<Rightarrow> True | (ObjectType, JObj _) \<Rightarrow> True | _ \<Rightarrow> False)"

text \<open>The checks of a string property.\<close>

definition valid_string :: "text_engine \<Rightarrow> string \<Rightarrow> SegmentInputSchemaProperty \<Rightarrow> comp_error + bool" where
  "valid_string e s p =
     (if (case pr_min p of Some m \<Rightarrow> of_nat (length s) < m | None \<Rightarrow> False) then Inr False
      else if (case pr_max p of Some m \<Rightarrow> of_nat (length s) > m | None \<Rightarrow> False) then Inr False
      else (case (case or_string (pr_pattern p) None of
                None \<Rightarrow> Inr True
              | Some pat \<Rightarrow> (case controlledRegex e pat [] s of Inl x \<Rightarrow> Inl x | Inr m \<Rightarrow> Inr (m \<noteq> None))) of
          Inl x \<Rightarrow> Inl x
        | Inr b \<Rightarrow> Inr (b \<and> (pr_format p = Some UuidFormat \<longrightarrow> is_uuid s) \<and> (pr_format p = Some UriFormat \<longrightarrow> tx_url e s))))"

definition valid_enum :: "json \<Rightarrow> SegmentInputSchemaProperty \<Rightarrow> bool" where
  "valid_enum v p \<longleftrightarrow> (case pr_enum p of None \<Rightarrow> True | Some vs \<Rightarrow> list_ex (\<lambda>x. same_primitive x v) vs)"

definition validProperty :: "text_engine \<Rightarrow> json \<Rightarrow> SegmentInputSchemaProperty \<Rightarrow> comp_error + bool" where
  "validProperty e v p =
     (if \<not> has_type (pr_type p) v then Inr False
      else case v of
        JStr s \<Rightarrow> (case valid_string e s p of Inl x \<Rightarrow> Inl x | Inr b \<Rightarrow> Inr (b \<and> valid_enum v p))
      | _ \<Rightarrow> Inr (valid_enum v p))"

section \<open>Resolution\<close>

text \<open>The fields in order; an undefined value is left out.\<close>

fun resolve_fields :: "text_engine \<Rightarrow> string \<Rightarrow> (string \<times> SegmentInputResolverField) list \<Rightarrow> comp_error + jobj" where
  "resolve_fields e intent [] = Inr []"
| "resolve_fields e intent ((key, f) # fs) =
     (case resolveField e intent f of
        Inl x \<Rightarrow> Inl x
      | Inr v \<Rightarrow> (case resolve_fields e intent fs of
          Inl x \<Rightarrow> Inl x
        | Inr rest \<Rightarrow> Inr ((case v of None \<Rightarrow> [] | Some j \<Rightarrow> [(key, j)]) @ rest)))"

text \<open>An inherited member stands for a property without any constraint.\<close>

definition check_value :: "text_engine \<Rightarrow> SegmentInputSchema \<Rightarrow> string \<times> json \<Rightarrow> comp_error + unit" where
  "check_value e schema kv = (case kv of (key, v) \<Rightarrow>
     (case map_of (is_properties schema) key of
        Some p \<Rightarrow> (case validProperty e v p of
            Inl x \<Rightarrow> Inl x
          | Inr b \<Rightarrow> require b (''SEGMENT_INPUT_INVALID'', ''composition input failed schema validation: '' @ key))
      | None \<Rightarrow> if js_inherited key \<noteq> None then Inr ()
          else require (is_additional schema \<noteq> Some False) (''SEGMENT_INPUT_INVALID'', ''composition input is not allowed: '' @ key)))"

definition resolveCompositionInputs :: "text_engine \<Rightarrow> string \<Rightarrow> SegmentInputResolver \<Rightarrow> SegmentInputSchema \<Rightarrow> comp_error + jobj" where
  "resolveCompositionInputs e intent res schema =
     andthen (require (ir_version res = ''1'' \<and> is_type schema = ''object'')
         (''SEGMENT_INPUT_CONTRACT_UNSUPPORTED'', ''composition input contract is unsupported''))
     (andthen (validateInputResolver e res schema)
       (case resolve_fields e intent (ir_fields res) of
          Inl x \<Rightarrow> Inl x
        | Inr inputs \<Rightarrow>
            andthen (each (\<lambda>i. require (jhas inputs i) (''SEGMENT_INPUT_REQUIRED'', ''required composition input was not resolved: '' @ i))
                (is_required schema))
              (andthen (each (check_value e schema) inputs) (Inr inputs))))"

text \<open>The inputs shown in audit records.\<close>

definition public_inputs :: "SegmentInputSchema \<Rightarrow> jobj \<Rightarrow> jobj" where
  "public_inputs schema inputs = map (\<lambda>(k, v). (k,
     case map_of (is_properties schema) k of Some p \<Rightarrow> if pr_secret p then JStr ''[secret]'' else v | None \<Rightarrow> v)) inputs"

section \<open>Facts\<close>

lemma resolve_fields_keys: "resolve_fields e intent fs = Inr inputs \<Longrightarrow> fst ` set inputs \<subseteq> fst ` set fs"
proof (induction fs arbitrary: inputs)
  case (Cons kf fs)
  obtain key f where kf: "kf = (key, f)" by (cases kf)
  obtain v where v: "resolveField e intent f = Inr v" using Cons.prems kf by (auto split: sum.splits)
  obtain rest where r: "resolve_fields e intent fs = Inr rest" using Cons.prems kf v by (auto split: sum.splits)
  have "inputs = (case v of None \<Rightarrow> [] | Some j \<Rightarrow> [(key, j)]) @ rest" using Cons.prems kf v r by simp
  then show ?case using Cons.IH [OF r] kf by (cases v) auto
qed simp

lemma validProperty_type: "validProperty e v p = Inr True \<Longrightarrow> has_type (pr_type p) v"
  by (auto simp: validProperty_def split: if_splits)

lemma resolveCompositionInputs_Inr:
  assumes "resolveCompositionInputs e intent res schema = Inr inputs"
  shows "\<forall>i \<in> set (is_required schema). jhas inputs i" "\<forall>kv \<in> set inputs. check_value e schema kv = Inr ()"
    "fst ` set inputs \<subseteq> fst ` set (ir_fields res)" "\<forall>kf \<in> set (ir_fields res). declared (is_properties schema) (fst kf)"
proof -
  obtain inputs' where "resolve_fields e intent (ir_fields res) = Inr inputs'"
    using assms by (auto simp: resolveCompositionInputs_def split: sum.splits)
  with assms have r: "resolve_fields e intent (ir_fields res) = Inr inputs"
      "\<forall>i \<in> set (is_required schema). jhas inputs i" "\<forall>kv \<in> set inputs. check_value e schema kv = Inr ()"
      "validateInputResolver e res schema = Inr ()"
    by (auto simp: resolveCompositionInputs_def)
  show "\<forall>i \<in> set (is_required schema). jhas inputs i" "\<forall>kv \<in> set inputs. check_value e schema kv = Inr ()"
    "fst ` set inputs \<subseteq> fst ` set (ir_fields res)"
    using r(2,3) resolve_fields_keys [OF r(1)] by simp_all
  show "\<forall>kf \<in> set (ir_fields res). declared (is_properties schema) (fst kf)"
    using r(4) by (auto simp: validateInputResolver_def validate_field_def)
qed

end
