(* ===== verification/Segment_Properties.thy ===== *)
theory Segment_Properties imports Segment_Graph Segment_Once Segment_Inputs
begin

text \<open>The properties of workflow compositions, with their samples.\<close>

section \<open>The graph check\<close>

lemma graph_check_Inr: "validateCompositionGraph f c segs = Inr u \<longleftrightarrow> composition_valid c segs"
proof (cases "distinct (map cn_key (cp_nodes c))")
  case False
  then show ?thesis by (simp add: validateCompositionGraph_def composition_valid_def check_keys_Inr)
next
  case True
  note nodes = check_nodes_Inr [OF True, of segs "[]" "cp_nodes c"]
  show ?thesis
  proof (cases "check_nodes c segs [] (cp_nodes c)")
    case (Inl e)
    then have "\<not> (distinct (map fst (produced segs (cp_nodes c))) \<and> (\<forall>i < length (cp_nodes c). \<forall>s.
        segment_of segs (cp_nodes c ! i) = Some s
          \<longrightarrow> node_valid c (produced segs (take (Suc i) (cp_nodes c))) (cp_nodes c ! i) s))"
      using nodes [of "produced segs (cp_nodes c)"] by simp
    then show ?thesis using Inl unfolding validateCompositionGraph_def composition_valid_def by simp
  next
    case (Inr ps)
    then have "ps = produced segs (cp_nodes c)" "distinct (map fst (produced segs (cp_nodes c)))"
        "\<forall>i < length (cp_nodes c). \<forall>s. segment_of segs (cp_nodes c ! i) = Some s
          \<longrightarrow> node_valid c (produced segs (take (Suc i) (cp_nodes c))) (cp_nodes c ! i) s"
      using nodes [of ps] by simp_all
    then show ?thesis using Inr True
      by (auto simp: validateCompositionGraph_def composition_valid_def check_keys_Inr check_required_output_def)
  qed
qed

definition graph_codes :: "string set" where
  "graph_codes = {''WORKFLOW_COMPOSITION_GRAPH_INVALID'', ''WORKFLOW_COMPOSITION_BINDING_INVALID''}"

lemma graph_code_simps [simp]: "fst (graph_invalid m) \<in> graph_codes" "fst (binding_invalid m) \<in> graph_codes"
  by (simp_all add: graph_codes_def graph_invalid_def binding_invalid_def)

lemma check_keys_code: "check_keys f seen ns = Inl e \<Longrightarrow> fst e \<in> graph_codes"
  by (induction ns arbitrary: seen) (auto split: if_splits)

lemma register_code: "register_outputs s n ps bs = Inl e \<Longrightarrow> fst e \<in> graph_codes"
  by (induction s n ps bs rule: register_outputs.induct) (auto split: if_splits)

lemma each_code: "each g xs = Inl e \<Longrightarrow> (\<And>x e. g x = Inl e \<Longrightarrow> fst e \<in> graph_codes) \<Longrightarrow> fst e \<in> graph_codes"
  using each_Inl by metis

lemma check_node_code: "check_node c segs ps n = Inl e \<Longrightarrow> fst e \<in> graph_codes"
  by (auto simp: check_node_def andthen_Inl check_dependency_def check_required_input_def check_input_def
      split: option.splits sum.splits dest!: each_code register_code)

lemma check_nodes_code: "check_nodes c segs ps ns = Inl e \<Longrightarrow> fst e \<in> graph_codes"
  by (induction ns arbitrary: ps) (auto dest: check_node_code split: sum.splits)

text \<open>
  C23. The graph check of a composition decides its declarative reading: it accepts exactly
  the compositions with distinct node keys and ordinals, dependencies on nodes of smaller
  ordinal, outputs the segments declare, each produced once and under a valid name, bound
  required inputs, input bindings that read a composition input or an output of a
  dependency produced no later in the list, and produced required outputs; every other one
  is refused with one of the two documented codes.
\<close>

theorem composition_graph_exact:
  "case validateCompositionGraph show_number c segs of
     Inr _ \<Rightarrow> composition_valid c segs
   | Inl (code, _) \<Rightarrow> \<not> composition_valid c segs \<and> code \<in> graph_codes"
proof (cases "validateCompositionGraph show_number c segs")
  case (Inl e)
  have "fst e \<in> graph_codes"
    using Inl by (auto simp: validateCompositionGraph_def andthen_Inl check_required_output_def split: sum.splits
        dest: check_keys_code check_nodes_code each_code)
  then show ?thesis using Inl graph_check_Inr [of show_number c segs] by (auto split: prod.split)
next
  case (Inr u)
  then show ?thesis using graph_check_Inr [of show_number c segs] by simp
qed

section \<open>Data flow\<close>

definition depends_on :: "WorkflowCompositionRecord \<Rightarrow> segments \<Rightarrow> (WorkflowCompositionNodeRecord \<times> WorkflowCompositionNodeRecord) set" where
  "depends_on c segs = {(m, n). m \<in> set (cp_nodes c) \<and> n \<in> set (cp_nodes c) \<and> segment_of segs n \<noteq> None
     \<and> cn_key m \<in> set (cn_depends n)}"

lemma valid_node:
  assumes "composition_valid c segs" "n \<in> set (cp_nodes c)" "segment_of segs n = Some s"
  obtains i where "i < length (cp_nodes c)" "cp_nodes c ! i = n" "node_valid c (produced segs (take (Suc i) (cp_nodes c))) n s"
  using assms unfolding composition_valid_def by (metis in_set_conv_nth)

lemma depends_on_ordinal:
  assumes v: "composition_valid c segs" and "(m, n) \<in> depends_on c segs"
  shows "cn_ordinal m < cn_ordinal n"
proof -
  obtain s where s: "m \<in> set (cp_nodes c)" "n \<in> set (cp_nodes c)" "segment_of segs n = Some s" "cn_key m \<in> set (cn_depends n)"
    using assms(2) by (auto simp: depends_on_def)
  from v s(2,3) obtain i where "node_valid c (produced segs (take (Suc i) (cp_nodes c))) n s" by (rule valid_node)
  then obtain m' where "m' \<in> set (cp_nodes c)" "cn_key m' = cn_key m" "cn_ordinal m' < cn_ordinal n"
    using s(4) by (auto simp: node_valid_def)
  moreover have "distinct (map cn_key (cp_nodes c))" using v by (simp add: composition_valid_def)
  ultimately show ?thesis using distinct_key_inj s(1) by metis
qed

lemma depends_on_acyclic:
  assumes "composition_valid c segs"
  shows "acyclic (depends_on c segs)"
proof -
  have "cn_ordinal m < cn_ordinal n" if "(m, n) \<in> (depends_on c segs)\<^sup>+" for m n
    using that by (induction rule: trancl_induct) (use depends_on_ordinal [OF assms] in \<open>fastforce intro: less_trans\<close>)+
  then show ?thesis by (force simp: acyclic_def)
qed

text \<open>
  C24. An accepted composition can be run in the order of its nodes: dependencies are
  acyclic, and every input of a node reads a declared composition input or an output that
  one of its dependencies, standing before it in the list, produces.
\<close>

theorem composition_dataflow_sound:
  assumes "validateCompositionGraph show_number c segs = Inr ()" "i < length (cp_nodes c)"
    "segment_of segs (cp_nodes c ! i) = Some s" "(k, source) \<in> set (cn_inputs (cp_nodes c ! i))"
  shows "acyclic (depends_on c segs)
    \<and> (declared (is_properties (cp_inputs c)) (composition_input source)
       \<or> (\<exists>j < i. cn_key (cp_nodes c ! j) \<in> set (cn_depends (cp_nodes c ! i)) \<and> source \<in> snd ` set (cn_outputs (cp_nodes c ! j))))"
proof -
  let ?n = "cp_nodes c ! i"
  have v: "composition_valid c segs" using assms(1) by (simp add: graph_check_Inr)
  let ?ps = "produced segs (take (Suc i) (cp_nodes c))"
  have n: "node_valid c ?ps ?n s" using v assms(2,3) unfolding composition_valid_def by blast
  have "\<exists>j < i. cn_key (cp_nodes c ! j) \<in> set (cn_depends ?n) \<and> source \<in> snd ` set (cn_outputs (cp_nodes c ! j))"
    if d: "from_dependency ?ps ?n source"
  proof -
    obtain producer where p: "map_of ?ps source = Some producer" "producer \<in> set (cn_depends ?n)"
      using d by (auto simp: from_dependency_def split: option.splits)
    then have "(source, producer) \<in> set ?ps" by (simp add: map_of_SomeD)
    then obtain m where m: "m \<in> set (take (Suc i) (cp_nodes c))" "(source, producer) \<in> set (outputs_of segs m)"
      by (auto simp: produced_def)
    then have o1: "producer = cn_key m" "source \<in> snd ` set (cn_outputs m)"
      by (force simp: outputs_of_def split: if_splits)+
    obtain j where j: "j \<le> i" "j < length (cp_nodes c)" "m = cp_nodes c ! j"
      using m(1) by (metis in_set_conv_nth length_take less_Suc_eq_le min_less_iff_conj nth_take)
    have "(m, ?n) \<in> depends_on c segs" using j assms(2,3) p(2) o1(1) by (simp add: depends_on_def)
    then have "m \<noteq> ?n" using depends_on_ordinal [OF v] by blast
    then have "j < i" using j by (cases "j = i") auto
    then show ?thesis using j(3) p(2) o1 by blast
  qed
  moreover have "declared (is_properties (cp_inputs c)) (composition_input source) \<or> from_dependency ?ps ?n source"
    using n assms(4) unfolding node_valid_def by fastforce
  ultimately show ?thesis using depends_on_acyclic [OF v] by blast
qed

definition text_property :: SegmentInputSchemaProperty where
  "text_property = \<lparr>pr_type = StringType, pr_format = None, pr_enum = None, pr_pattern = None, pr_min = Some 1, pr_max = None,
     pr_secret = False\<rparr>"

definition schema_of :: "string list \<Rightarrow> SegmentInputSchema" where
  "schema_of ks = \<lparr>is_type = ''object'', is_required = ks, is_properties = map (\<lambda>k. (k, text_property)) ks, is_additional = None\<rparr>"

definition two_segments :: segments where
  "two_segments = [(''open@1'', \<lparr>sg_inputs = schema_of [''url''], sg_outputs = Some \<lparr>os_required = [], os_properties = [(''title'', ''string'')]\<rparr>\<rparr>),
     (''post@1'', \<lparr>sg_inputs = schema_of [''text''], sg_outputs = None\<rparr>)]"

definition open_node :: WorkflowCompositionNodeRecord where
  "open_node = \<lparr>cn_key = ''a'', cn_ordinal = 1, cn_segment = ''open'', cn_version = ''1'', cn_inputs = [(''url'', ''target'')],
     cn_outputs = [(''title'', ''pageTitle'')], cn_depends = []\<rparr>"

definition post_node :: WorkflowCompositionNodeRecord where
  "post_node = \<lparr>cn_key = ''b'', cn_ordinal = 2, cn_segment = ''post'', cn_version = ''1'', cn_inputs = [(''text'', ''pageTitle'')],
     cn_outputs = [], cn_depends = [''a'']\<rparr>"

definition two_nodes :: WorkflowCompositionRecord where
  "two_nodes = \<lparr>cp_inputs = schema_of [''target''], cp_outputs = \<lparr>os_required = [''pageTitle''], os_properties = []\<rparr>,
     cp_nodes = [open_node, post_node]\<rparr>"

theorem composition_dataflow_sound_witness:
  "validateCompositionGraph (\<lambda>_. []) two_nodes two_segments = Inr () \<and> acyclic (depends_on two_nodes two_segments)
   \<and> (\<exists>j < 1. cn_key (cp_nodes two_nodes ! j) \<in> set (cn_depends post_node) \<and> ''pageTitle'' \<in> snd ` set (cn_outputs (cp_nodes two_nodes ! j)))"
proof -
  have ok: "validateCompositionGraph (\<lambda>_. []) two_nodes two_segments = Inr ()" by code_simp
  have n: "cp_nodes two_nodes ! 1 = post_node" "1 < length (cp_nodes two_nodes)" by (simp_all add: two_nodes_def)
  obtain s where s: "segment_of two_segments (cp_nodes two_nodes ! 1) = Some s"
    unfolding n by (simp add: segment_of_def two_segments_def post_node_def)
  have i: "(''text'', ''pageTitle'') \<in> set (cn_inputs (cp_nodes two_nodes ! 1))" unfolding n by (simp add: post_node_def)
  have "\<not> declared (is_properties (cp_inputs two_nodes)) (composition_input ''pageTitle'')" by code_simp
  with composition_dataflow_sound [OF ok n(2) s i] ok show ?thesis unfolding n by blast
qed

section \<open>Inputs\<close>

text \<open>
  C25. Resolved composition inputs are well typed: every required input has a value, every
  value belongs to a field of the resolver that the schema declares, and it passed the
  validation of its property, so it has the JSON type the schema names.
\<close>

theorem composition_inputs_typed:
  assumes "resolveCompositionInputs e intent res schema = Inr inputs"
  shows "(\<forall>i \<in> set (is_required schema). jget inputs i \<noteq> None)
    \<and> (\<forall>(k, v) \<in> set inputs. k \<in> fst ` set (ir_fields res) \<and>
        (case map_of (is_properties schema) k of
           Some p \<Rightarrow> validProperty e v p = Inr True \<and> has_type (pr_type p) v
         | None \<Rightarrow> js_inherited k \<noteq> None))"
proof -
  note r = resolveCompositionInputs_Inr [OF assms]
  have "k \<in> fst ` set (ir_fields res) \<and> (case map_of (is_properties schema) k of
           Some p \<Rightarrow> validProperty e v p = Inr True \<and> has_type (pr_type p) v | None \<Rightarrow> js_inherited k \<noteq> None)"
    if kv: "(k, v) \<in> set inputs" for k v
  proof -
    have k: "k \<in> fst ` set (ir_fields res)" using r(3) kv by force
    then have d: "declared (is_properties schema) k" using r(4) by auto
    have c: "check_value e schema (k, v) = Inr ()" using r(2) kv by blast
    show ?thesis
    proof (cases "map_of (is_properties schema) k")
      case None
      then show ?thesis using k d by (simp add: declared_def)
    next
      case (Some p)
      then have "validProperty e v p = Inr True" using c by (auto simp: check_value_def split: sum.splits)
      then show ?thesis using Some k validProperty_type by simp
    qed
  qed
  then show ?thesis using r(1) by (auto simp: jhas_def)
qed

definition literal_engine :: text_engine where
  "literal_engine = \<lparr>tx_exec = (\<lambda>p flags s. Some (if js_includes s p then Some [Some p] else None)),
     tx_replace = (\<lambda>p flags r s. s), tx_url = (\<lambda>s. True)\<rparr>"

definition account_resolver :: SegmentInputResolver where
  "account_resolver = \<lparr>ir_version = ''1'', ir_fields = [(''account'', \<lparr>rf_sources = [RegexSource ''Alice'' None None],
     rf_transforms = [Lowercase, PrefixUnless ''@'' ''@'']\<rparr>)]\<rparr>"

theorem composition_inputs_typed_witness:
  "\<exists>inputs. resolveCompositionInputs literal_engine ''follow Alice'' account_resolver (schema_of [''account'']) = Inr inputs
     \<and> inputs = [(''account'', JStr ''@alice'')] \<and> jget inputs ''account'' \<noteq> None"
proof -
  have r: "resolveCompositionInputs literal_engine ''follow Alice'' account_resolver (schema_of [''account''])
      = Inr [(''account'', JStr ''@alice'')]" by code_simp
  have "''account'' \<in> set (is_required (schema_of [''account'']))" by (simp add: schema_of_def)
  with composition_inputs_typed [OF r] r show ?thesis by blast
qed

section \<open>Steps\<close>

text \<open>
  C26. With bindings whose targets name no other bound input, composing a step is rewriting
  it once, nested steps included, and renaming its identifiers and outputs throughout.
\<close>

theorem bindings_applied_once:
  assumes "stable bs"
  shows "prefixStep n bs s = rename_all n (rewriteStep bs s)"
  by (rule prefixStep_once [OF assms])

definition tap_step :: "string \<Rightarrow> WorkflowStep" where
  "tap_step i = ActionStep (Some i) ''input_text'' (Some (JObj [(''text'', JStr ''go to {{inputs.query}}'')])) None None []"

theorem bindings_applied_once_witness:
  "prefixStep open_node [(''query'', ''inputs.target'')] (LoopStep None [tap_step ''t''] [])
     = LoopStep None [ActionStep (Some ''a__t'') ''input_text'' (Some (JObj [(''text'', JStr ''go to {{inputs.target}}'')])) None None []] []"
proof -
  have "stable [(''query'', ''inputs.target'')]" by code_simp
  from bindings_applied_once [OF this, of open_node "LoopStep None [tap_step ''t''] []"]
  have "prefixStep open_node [(''query'', ''inputs.target'')] (LoopStep None [tap_step ''t''] [])
      = rename_all open_node (rewriteStep [(''query'', ''inputs.target'')] (LoopStep None [tap_step ''t''] []))" .
  also have "\<dots> = LoopStep None [ActionStep (Some ''a__t'') ''input_text'' (Some (JObj [(''text'', JStr ''go to {{inputs.target}}'')])) None None []] []"
    by code_simp
  finally show ?thesis .
qed

text \<open>
  Without that condition a nested step is rewritten again: here the segment inputs
  \<open>query\<close> and \<open>url\<close> are bound to the composition inputs \<open>url\<close> and \<open>target\<close>, and the step
  inside the loop reads \<open>target\<close> where the same step outside it reads \<open>url\<close>.
\<close>

lemma nested_steps_rebound:
  fixes bs :: "(string \<times> string) list"
  defines "bs \<equiv> [(''query'', ''inputs.url''), (''url'', ''inputs.target'')]"
  shows "params (prefixStep open_node bs (tap_step ''t'')) = Some (JObj [(''text'', JStr ''go to {{inputs.url}}'')])"
    and "map params (steps (prefixStep open_node bs (LoopStep None [tap_step ''t''] [])))
      = [Some (JObj [(''text'', JStr ''go to {{inputs.target}}'')])]"
  unfolding bs_def by code_simp+

end
