(* ===== verification/Template_Values.thy ===== *)
theory Template_Values imports Workflow_Checkpoint Segment_Types
begin

text \<open>
  How the template checks read JSON values that nobody has typed yet
  (\<^verbatim>\<open>src/src/modules/workflows/workflow-validator.ts\<close> and \<^verbatim>\<open>goal-contract.ts\<close>): truthiness,
  members, iteration and the identifiers of the runtime contract. The members of an object
  are listed in the order in which JavaScript enumerates them. An operation that throws a
  \<^verbatim>\<open>TypeError\<close> answers \<open>Inl\<close>.
\<close>

section \<open>Values\<close>

definition type_error :: string where
  "type_error = ''TypeError''"

text \<open>\<^verbatim>\<open>Boolean(v)\<close>, where \<open>None\<close> is undefined.\<close>

definition js_truthy :: "json option \<Rightarrow> bool" where
  "js_truthy v \<longleftrightarrow> v \<notin> {None, Some JNull, Some (JBool False), Some (JNum 0), Some (JStr [])}"

definition text_value :: "json option \<Rightarrow> string option" where
  "text_value v = (case v of Some (JStr s) \<Rightarrow> Some s | _ \<Rightarrow> None)"

definition record_value :: "json option \<Rightarrow> jobj option" where
  "record_value v = (case v of Some (JObj o1) \<Rightarrow> Some o1 | _ \<Rightarrow> None)"

definition list_value :: "json option \<Rightarrow> json list option" where
  "list_value v = (case v of Some (JArr xs) \<Rightarrow> Some xs | _ \<Rightarrow> None)"

definition number_value :: "json option \<Rightarrow> rat option" where
  "number_value v = (case v of Some (JNum x) \<Rightarrow> Some x | _ \<Rightarrow> None)"

lemma value_simps [simp]:
  "text_value v = Some s \<longleftrightarrow> v = Some (JStr s)" "record_value v = Some o1 \<longleftrightarrow> v = Some (JObj o1)"
  "list_value v = Some xs \<longleftrightarrow> v = Some (JArr xs)" "number_value v = Some x \<longleftrightarrow> v = Some (JNum x)"
  by (auto simp: text_value_def record_value_def list_value_def number_value_def split: option.splits json.splits)

text \<open>\<^verbatim>\<open>for (const x of v)\<close>: a text is iterated by its characters.\<close>

definition iterate :: "json option \<Rightarrow> json list res" where
  "iterate v = (case v of
      Some (JArr xs) \<Rightarrow> Inr xs
    | Some (JStr s) \<Rightarrow> Inr (map (\<lambda>c. JStr [c]) s)
    | _ \<Rightarrow> Inl type_error)"

text \<open>The first answer of a sequence of checks.\<close>

fun first_some :: "('a \<Rightarrow> 'b option) \<Rightarrow> 'a list \<Rightarrow> 'b option" where
  "first_some f [] = None"
| "first_some f (x # xs) = coalesce (f x) (first_some f xs)"

lemma coalesce_None [simp]: "coalesce a b = None \<longleftrightarrow> a = None \<and> b = None"
  by (cases a) auto

lemma first_some_None [simp]: "first_some f xs = None \<longleftrightarrow> (\<forall>x \<in> set xs. f x = None)"
  by (induction xs) auto

lemma first_some_Some: "first_some f xs = Some e \<Longrightarrow> \<exists>x \<in> set xs. f x = Some e"
  by (induction xs) (auto simp: coalesce_def split: option.splits)

definition fail_unless :: "bool \<Rightarrow> 'e \<Rightarrow> 'e option" where
  "fail_unless b e = (if b then None else Some e)"

lemma fail_unless_None [simp]: "fail_unless b e = None \<longleftrightarrow> b"
  by (simp add: fail_unless_def)

lemma res_bind_cong [fundef_cong]:
  "r = r' \<Longrightarrow> (\<And>v. f v = f' v) \<Longrightarrow> res_bind r f = res_bind r' f'"
  by (cases r') auto

section \<open>Sizes\<close>

lemma size_member [termination_simp]: "jget o1 k = Some v \<Longrightarrow> size v < size (JObj o1)"
  unfolding jget_def
proof (induction o1)
  case (Cons x o1)
  then show ?case by (cases x) (auto split: if_splits)
qed simp

lemma size_item: "x \<in> set xs \<Longrightarrow> size x < size (JArr xs)"
  by (induction xs) auto

section \<open>Identifiers\<close>

text \<open>
  \<^verbatim>\<open>/^[a-z0-9][a-z0-9._/-]{0,199}$/\<close>; identifiers of platforms and intents have no slash.
\<close>

definition lower_alnum :: "char \<Rightarrow> bool" where
  "lower_alnum c \<longleftrightarrow> (let n = of_char c :: nat in (97 \<le> n \<and> n \<le> 122) \<or> (48 \<le> n \<and> n \<le> 57))"

definition safe_name :: "char set \<Rightarrow> string \<Rightarrow> bool" where
  "safe_name extra s \<longleftrightarrow> (case s of
      [] \<Rightarrow> False
    | c # cs \<Rightarrow> lower_alnum c \<and> length cs \<le> 199 \<and> list_all (\<lambda>d. lower_alnum d \<or> d \<in> extra) cs)"

definition policy_identifier :: "string \<Rightarrow> bool" where
  "policy_identifier s \<longleftrightarrow> safe_name {CHR ''.'', CHR ''_'', CHR ''/'', CHR ''-''} s"

definition catalog_identifier :: "string \<Rightarrow> bool" where
  "catalog_identifier s \<longleftrightarrow> safe_name {CHR ''.'', CHR ''_'', CHR ''-''} s"

definition is_policy_identifier :: "json option \<Rightarrow> bool" where
  "is_policy_identifier v \<longleftrightarrow> (case v of Some (JStr s) \<Rightarrow> policy_identifier s | _ \<Rightarrow> False)"

text \<open>\<^verbatim>\<open>/^[a-zA-Z0-9_.-]+$/\<close>.\<close>

definition path_char :: "char \<Rightarrow> bool" where
  "path_char c \<longleftrightarrow> (let n = of_char c :: nat in lower_alnum c \<or> (65 \<le> n \<and> n \<le> 90))
     \<or> c \<in> {CHR ''_'', CHR ''.'', CHR ''-''}"

definition path_text :: "string \<Rightarrow> bool" where
  "path_text s \<longleftrightarrow> s \<noteq> [] \<and> list_all path_char s"

section \<open>Nested steps\<close>

definition is_action :: "jobj \<Rightarrow> bool" where
  "is_action step \<longleftrightarrow> jget step ''type'' = Some (JStr ''action'')"

text \<open>The lists of steps below a step, with the member that holds them, in the order of the visit.\<close>

definition list_below :: "jobj \<Rightarrow> string \<Rightarrow> (string \<times> json list) list" where
  "list_below step k = (case jget step k of Some (JArr xs) \<Rightarrow> [(k, xs)] | _ \<Rightarrow> [])"

definition nested_lists :: "jobj \<Rightarrow> (string \<times> json list) list" where
  "nested_lists step =
     (if is_action step then list_below step ''onFailureSteps''
      else if jget step ''type'' = Some (JStr ''condition'') then list_below step ''if_true'' @ list_below step ''if_false''
      else if jget step ''type'' = Some (JStr ''loop'') then list_below step ''steps'' else [])"

lemma list_below_cases:
  obtains "list_below step k = []" | xs where "jget step k = Some (JArr xs)" "list_below step k = [(k, xs)]"
  unfolding list_below_def by (cases "jget step k" rule: option.exhaust; cases "the (jget step k)") auto

lemma size_two_members:
  "k1 \<noteq> k2 \<Longrightarrow> jget o1 k1 = Some v1 \<Longrightarrow> jget o1 k2 = Some v2 \<Longrightarrow> size v1 + size v2 < size (JObj o1)"
  unfolding jget_def
proof (induction o1)
  case (Cons x o1)
  obtain k v where x: "x = (k, v)" by fastforce
  have one: "size w < Suc (size_list (size_prod (\<lambda>_. 0) size) o1)" if "map_of o1 k' = Some w" for w k'
    using size_member[of o1 k' w] that by (simp add: jget_def)
  show ?case using Cons x one[of k1 v1] one[of k2 v2] by (auto split: if_splits)
qed simp

definition lists_size :: "(string \<times> json list) list \<Rightarrow> nat" where
  "lists_size ls = sum_list (map (\<lambda>(_, xs). size (JArr xs)) ls)"

lemma size_below: "lists_size (list_below step k) < size (JObj step)"
  by (rule list_below_cases[of step k]) (auto simp: lists_size_def dest: size_member)

lemma size_below_two: "k1 \<noteq> k2 \<Longrightarrow> lists_size (list_below step k1 @ list_below step k2) < size (JObj step)"
  by (rule list_below_cases[of step k1]; rule list_below_cases[of step k2])
    (auto simp: lists_size_def dest: size_member size_two_members)

lemma size_nested: "lists_size (nested_lists step) < size (JObj step)"
  unfolding nested_lists_def using size_below size_below_two[of "''if_true''" "''if_false''"] by (simp add: lists_size_def)

lemma size_nested_item: "lists_size (nested_lists step) < Suc (Suc (size_list (size_prod (\<lambda>x. 0) size) step + n))"
  using size_nested[of step] by simp

text \<open>Every step of a list, at every depth, in the order of a visit.\<close>

function flatten :: "json list \<Rightarrow> json list"
  and flatten_lists :: "(string \<times> json list) list \<Rightarrow> json list" where
  "flatten [] = []"
| "flatten (x # xs) = x # (case x of JObj step \<Rightarrow> flatten_lists (nested_lists step) | _ \<Rightarrow> []) @ flatten xs"
| "flatten_lists [] = []"
| "flatten_lists ((k, xs) # ls) = flatten xs @ flatten_lists ls"
  by pat_completeness auto
termination
proof (relation "measure (\<lambda>x. case x of Inl xs \<Rightarrow> size (JArr xs) | Inr ls \<Rightarrow> Suc (lists_size ls))", goal_cases)
  case 2
  then show ?case by simp (metis size_nested_item)
qed (simp_all add: lists_size_def)

end
