(* ===== verification/Template_Text.thy ===== *)
theory Template_Text imports Template_Values "HOL-Library.Multiset"
begin

text \<open>
  \<^verbatim>\<open>stableStringify\<close> of \<^verbatim>\<open>src/src/modules/workflows/workflow-validator.ts\<close>, the text from which
  cache keys and plan hashes are computed. The text of a number is a parameter: it is what
  JavaScript prints for a double. Objects have distinct keys.
\<close>

section \<open>Texts\<close>

definition hex_digit :: "nat \<Rightarrow> char" where
  "hex_digit n = (if n < 10 then char_of (48 + n) else char_of (87 + n))"

definition quote_char :: "char \<Rightarrow> string" where
  "quote_char c =
     (let n = of_char c :: nat; backslash = CHR 0x5C
      in if n = 34 then [backslash, CHR 0x22] else if n = 92 then [backslash, backslash]
         else if n = 8 then [backslash, CHR ''b''] else if n = 9 then [backslash, CHR ''t'']
         else if n = 10 then [backslash, CHR ''n''] else if n = 12 then [backslash, CHR ''f'']
         else if n = 13 then [backslash, CHR ''r'']
         else if n < 32 then backslash # ''u00'' @ [hex_digit (n div 16), hex_digit (n mod 16)]
         else [c])"

definition js_quote :: "string \<Rightarrow> string" where
  "js_quote s = [CHR 0x22] @ concat (map quote_char s) @ [CHR 0x22]"

text \<open>
  \<open>None\<close> is undefined. In an array undefined prints as the empty text, in an object as the
  word, because there it is put into a template literal.
\<close>

fun stableStringify :: "(rat \<Rightarrow> string) \<Rightarrow> jsval \<Rightarrow> string option"
  and stable_items :: "(rat \<Rightarrow> string) \<Rightarrow> jsval list \<Rightarrow> string list"
  and stable_members :: "(rat \<Rightarrow> string) \<Rightarrow> (string \<times> jsval) list \<Rightarrow> (string \<times> string) list" where
  "stableStringify num VUndef = None"
| "stableStringify num VFun = None"
| "stableStringify num VNull = Some ''null''"
| "stableStringify num VNonFinite = Some ''null''"
| "stableStringify num (VBool b) = Some (if b then ''true'' else ''false'')"
| "stableStringify num (VNum x) = Some (num x)"
| "stableStringify num (VStr s) = Some (js_quote s)"
| "stableStringify num (VArr vs) = Some (''['' @ intercalate '','' (stable_items num vs) @ '']'')"
| "stableStringify num (VObj ms) =
     Some (''{'' @ intercalate '','' (map snd (sort_key fst (stable_members num ms))) @ ''}'')"
| "stable_items num [] = []"
| "stable_items num (v # vs) = odefault (stableStringify num v) [] # stable_items num vs"
| "stable_members num [] = []"
| "stable_members num ((k, v) # ms) =
     (k, js_quote k @ '':'' @ odefault (stableStringify num v) ''undefined'') # stable_members num ms"

section \<open>Reading quoted texts back\<close>

definition hex_value :: "char \<Rightarrow> nat" where
  "hex_value c = (let n = of_char c :: nat in if n < 58 then n - 48 else n - 87)"

fun read_char :: "string \<Rightarrow> char \<times> string" where
  "read_char (b # c # s) =
     (if b = CHR 0x5C then
        (if c = CHR ''b'' then (char_of (8 :: nat), s) else if c = CHR ''t'' then (char_of (9 :: nat), s)
         else if c = CHR ''n'' then (char_of (10 :: nat), s) else if c = CHR ''f'' then (char_of (12 :: nat), s)
         else if c = CHR ''r'' then (char_of (13 :: nat), s)
         else if c = CHR ''u'' then (char_of (16 * hex_value (s ! 2) + hex_value (s ! 3)), drop 4 s)
         else (c, s))
      else (b, c # s))"
| "read_char s = (hd s, tl s)"

lemma hex_value_digit: "n < 16 \<Longrightarrow> hex_value (hex_digit n) = n"
  by (auto simp: hex_value_def hex_digit_def)

lemma of_char_eq: "of_char c = (n :: nat) \<Longrightarrow> c = char_of n"
  by auto

lemma short_escapes:
  "char_of (34 :: nat) = CHR 0x22" "char_of (92 :: nat) = CHR 0x5C" "char_of (8 :: nat) = CHR 0x08"
  "char_of (9 :: nat) = CHR 0x09" "char_of (10 :: nat) = CHR 0x0A" "char_of (12 :: nat) = CHR 0x0C"
  "char_of (13 :: nat) = CHR 0x0D"
  by code_simp+

lemma read_quoted: "read_char (quote_char c @ r) = (c, r)"
proof -
  define n where "n = (of_char c :: nat)"
  have c: "c = char_of n" by (simp add: n_def)
  consider "n \<in> {34, 92, 8, 9, 10, 12, 13}" | "n < 32" "n \<notin> {34, 92, 8, 9, 10, 12, 13}"
    | "32 \<le> n" "n \<notin> {34, 92}" by (cases "n < 32") auto
  then show ?thesis
  proof cases
    case 1
    then have "c \<in> {CHR 0x22, CHR 0x5C, CHR 0x08, CHR 0x09, CHR 0x0A, CHR 0x0C, CHR 0x0D}"
      unfolding c using short_escapes by (elim insertE emptyE; simp)
    then show ?thesis by (elim insertE emptyE; simp add: quote_char_def Let_def short_escapes)
  next
    case 2
    have q: "quote_char c = CHR 0x5C # ''u00'' @ [hex_digit (n div 16), hex_digit (n mod 16)]"
      using 2 unfolding quote_char_def Let_def n_def [symmetric] by simp
    have "16 * (n div 16) + n mod 16 = n" by (rule mult_div_mod_eq)
    moreover have "hex_value (hex_digit (n div 16)) = n div 16" "hex_value (hex_digit (n mod 16)) = n mod 16"
      using 2 by (simp_all add: hex_value_digit)
    ultimately have "(char_of (16 * hex_value (hex_digit (n div 16)) + hex_value (hex_digit (n mod 16))) :: char) = c"
      using c by (simp only:)
    then show ?thesis unfolding q by simp
  next
    case 3
    then have "c \<noteq> CHR 0x5C" "quote_char c = [c]"
      unfolding quote_char_def Let_def n_def [symmetric] by (auto simp: n_def)
    then show ?thesis by (cases r) auto
  qed
qed

lemma quote_char_start: "\<exists>b cs. quote_char c = b # cs \<and> b \<noteq> CHR 0x22"
  by (auto simp: quote_char_def Let_def)

lemma quote_char_cancel: "quote_char c @ r = quote_char d @ s \<Longrightarrow> c = d \<and> r = s"
  by (metis read_quoted prod.inject)

lemma quoted_cancel:
  "concat (map quote_char s) @ CHR 0x22 # r = concat (map quote_char t) @ CHR 0x22 # r' \<Longrightarrow> s = t \<and> r = r'"
proof (induction s arbitrary: t)
  case Nil
  then show ?case
  proof (cases t)
    case (Cons d t')
    then show ?thesis using Nil quote_char_start[of d] by auto
  qed simp
next
  case (Cons c s)
  show ?case
  proof (cases t)
    case Nil
    then show ?thesis using Cons.prems quote_char_start[of c] by auto
  next
    case (Cons d t')
    then have "quote_char c @ concat (map quote_char s) @ CHR 0x22 # r
        = quote_char d @ concat (map quote_char t') @ CHR 0x22 # r'" using Cons.prems by simp
    from quote_char_cancel[OF this] show ?thesis using Cons.IH[of t'] \<open>t = d # t'\<close> by simp
  qed
qed

lemma js_quote_cancel: "js_quote s @ r = js_quote t @ r' \<Longrightarrow> s = t \<and> r = r'"
  using quoted_cancel[of s r t r'] by (simp add: js_quote_def)

section \<open>Canonical values\<close>

text \<open>The members of every object sorted by their keys.\<close>

fun canonical :: "jsval \<Rightarrow> jsval"
  and canonical_items :: "jsval list \<Rightarrow> jsval list"
  and canonical_members :: "(string \<times> jsval) list \<Rightarrow> (string \<times> jsval) list" where
  "canonical (VArr vs) = VArr (canonical_items vs)"
| "canonical (VObj ms) = VObj (sort_key fst (canonical_members ms))"
| "canonical VUndef = VUndef"
| "canonical VFun = VFun"
| "canonical VNull = VNull"
| "canonical VNonFinite = VNonFinite"
| "canonical (VBool b) = VBool b"
| "canonical (VNum x) = VNum x"
| "canonical (VStr s) = VStr s"
| "canonical_items [] = []"
| "canonical_items (v # vs) = canonical v # canonical_items vs"
| "canonical_members [] = []"
| "canonical_members ((k, v) # ms) = (k, canonical v) # canonical_members ms"

text \<open>Values without functions, infinite numbers and undefined array elements.\<close>

fun plain_value :: "jsval \<Rightarrow> bool"
  and plain_items :: "jsval list \<Rightarrow> bool"
  and plain_members :: "(string \<times> jsval) list \<Rightarrow> bool" where
  "plain_value VUndef = False"
| "plain_value VFun = False"
| "plain_value VNonFinite = False"
| "plain_value VNull = True"
| "plain_value (VBool b) = True"
| "plain_value (VNum x) = True"
| "plain_value (VStr s) = True"
| "plain_value (VArr vs) = plain_items vs"
| "plain_value (VObj ms) = plain_members ms"
| "plain_items [] = True"
| "plain_items (v # vs) = (plain_value v \<and> plain_items vs)"
| "plain_members [] = True"
| "plain_members ((k, v) # ms) = ((v = VUndef \<or> plain_value v) \<and> plain_members ms)"

text \<open>
  What printing forgets: a function is undefined, a number that is not finite is null, and an
  array of one undefined element prints like the empty array.
\<close>

fun erased :: "jsval \<Rightarrow> jsval"
  and erased_items :: "jsval list \<Rightarrow> jsval list"
  and erased_members :: "(string \<times> jsval) list \<Rightarrow> (string \<times> jsval) list" where
  "erased VUndef = VUndef"
| "erased VFun = VUndef"
| "erased VNull = VNull"
| "erased VNonFinite = VNull"
| "erased (VBool b) = VBool b"
| "erased (VNum x) = VNum x"
| "erased (VStr s) = VStr s"
| "erased (VArr vs) = VArr (if erased_items vs = [VUndef] then [] else erased_items vs)"
| "erased (VObj ms) = VObj (erased_members ms)"
| "erased_items [] = []"
| "erased_items (v # vs) = erased v # erased_items vs"
| "erased_members [] = []"
| "erased_members ((k, v) # ms) = (k, erased v) # erased_members ms"

text \<open>Values of this form.\<close>

fun normal_value :: "jsval \<Rightarrow> bool"
  and normal_items :: "jsval list \<Rightarrow> bool"
  and normal_members :: "(string \<times> jsval) list \<Rightarrow> bool" where
  "normal_value VFun = False"
| "normal_value VNonFinite = False"
| "normal_value VUndef = True"
| "normal_value VNull = True"
| "normal_value (VBool b) = True"
| "normal_value (VNum x) = True"
| "normal_value (VStr s) = True"
| "normal_value (VArr vs) = (vs \<noteq> [VUndef] \<and> normal_items vs)"
| "normal_value (VObj ms) = normal_members ms"
| "normal_items [] = True"
| "normal_items (v # vs) = (normal_value v \<and> normal_items vs)"
| "normal_members [] = True"
| "normal_members ((k, v) # ms) = (normal_value v \<and> normal_members ms)"

lemma erased_normal: "normal_value (erased v)" "normal_items (erased_items vs)" "normal_members (erased_members ms)"
  by (induction v and vs and ms rule: erased_erased_items_erased_members.induct) auto

lemma plain_erased:
  "plain_value v \<Longrightarrow> erased v = v" "plain_items vs \<Longrightarrow> erased_items vs = vs" "plain_members ms \<Longrightarrow> erased_members ms = ms"
  by (induction v and vs and ms rule: plain_value_plain_items_plain_members.induct) auto

fun value_text :: "(rat \<Rightarrow> string) \<Rightarrow> jsval \<Rightarrow> string"
  and items_text :: "(rat \<Rightarrow> string) \<Rightarrow> jsval list \<Rightarrow> string"
  and members_text :: "(rat \<Rightarrow> string) \<Rightarrow> (string \<times> jsval) list \<Rightarrow> string" where
  "value_text num VUndef = ''undefined''"
| "value_text num VFun = ''undefined''"
| "value_text num VNull = ''null''"
| "value_text num VNonFinite = ''null''"
| "value_text num (VBool b) = (if b then ''true'' else ''false'')"
| "value_text num (VNum x) = num x"
| "value_text num (VStr s) = js_quote s"
| "value_text num (VArr vs) = CHR ''['' # items_text num vs @ '']''"
| "value_text num (VObj ms) = CHR ''{'' # members_text num ms @ ''}''"
| "items_text num [] = []"
| "items_text num (v # vs) = (if v = VUndef then [] else value_text num v) @ (if vs = [] then [] else CHR '','' # items_text num vs)"
| "members_text num [] = []"
| "members_text num ((k, v) # ms) =
     js_quote k @ '':'' @ value_text num v @ (if ms = [] then [] else CHR '','' # members_text num ms)"

text \<open>
  What a printer of doubles promises: texts of digits, signs, points and exponents that
  start with a digit or a minus sign, different for different numbers.
\<close>

definition number_char :: "char \<Rightarrow> bool" where
  "number_char c \<longleftrightarrow> c \<in> set ''0123456789+-.e''"

definition number_first :: "char \<Rightarrow> bool" where
  "number_first c \<longleftrightarrow> c \<in> set ''0123456789-''"

definition number_printer :: "(rat \<Rightarrow> string) \<Rightarrow> bool" where
  "number_printer num \<longleftrightarrow> inj num
     \<and> (\<forall>x. list_all number_char (num x) \<and> num x \<noteq> [] \<and> number_first (hd (num x)))"

text \<open>A text continues after a value with a delimiter, if at all.\<close>

definition delimited :: "string \<Rightarrow> bool" where
  "delimited r \<longleftrightarrow> (case r of [] \<Rightarrow> True | c # _ \<Rightarrow> c \<in> set '',]}'')"

lemma delimited_simps [simp]: "delimited (CHR '','' # r)" "delimited (CHR '']'' # r)" "delimited (CHR ''}'' # r)" "delimited []"
  by (simp_all add: delimited_def)

lemma delimited_takeWhile: "delimited r \<Longrightarrow> takeWhile number_char r = []"
  by (cases r) (auto simp: delimited_def number_char_def)

lemma number_cancel:
  assumes "number_printer num" "delimited r" "delimited s" "num x @ r = num y @ s"
  shows "x = y \<and> r = s"
proof -
  have all: "list_all number_char (num x)" "list_all number_char (num y)" and inj: "inj num"
    using assms(1) by (auto simp: number_printer_def)
  then have "takeWhile number_char (num x @ r) = num x" "takeWhile number_char (num y @ s) = num y"
    using delimited_takeWhile assms(2,3) by (simp_all add: list_all_iff)
  then have "num x = num y" using assms(4) by simp
  then show ?thesis using assms(4) inj by (auto dest: injD)
qed

text \<open>The first character of a text tells the kind of the value.\<close>

definition start_kind :: "char \<Rightarrow> nat" where
  "start_kind c = (if c = CHR ''u'' then 0 else if c = CHR ''n'' then 1 else if c = CHR ''t'' then 2
     else if c = CHR ''f'' then 3 else if c = CHR 0x22 then 4 else if c = CHR ''['' then 5 else if c = CHR ''{'' then 6
     else if number_first c then 7 else 8)"

fun kind :: "jsval \<Rightarrow> nat" where
  "kind VUndef = 0" | "kind VFun = 0" | "kind VNull = 1" | "kind VNonFinite = 1"
| "kind (VBool b) = (if b then 2 else 3)" | "kind (VStr s) = 4" | "kind (VArr vs) = 5" | "kind (VObj ms) = 6"
| "kind (VNum x) = 7"

lemma number_start: "number_first c \<Longrightarrow> start_kind c = 7"
  by (auto simp: start_kind_def number_first_def)

lemma value_text_start:
  assumes "number_printer num"
  shows "\<exists>c cs. value_text num v = c # cs \<and> start_kind c = kind v"
proof (cases v)
  case (VNum x)
  have "num x \<noteq> []" "number_first (hd (num x))" using assms by (auto simp: number_printer_def)
  then obtain c cs where "num x = c # cs" "number_first c" by (cases "num x") simp_all
  then show ?thesis using VNum number_start by simp
qed (simp_all add: start_kind_def js_quote_def)

lemma same_kind:
  assumes "number_printer num" "value_text num v @ r = value_text num w @ s"
  shows "kind v = kind w"
  using assms(2) value_text_start[OF assms(1), of v] value_text_start[OF assms(1), of w] by auto

lemma value_text_first:
  assumes "number_printer num" "value_text num v @ r = c # s"
  shows "start_kind c = kind v"
  using assms(2) value_text_start[OF assms(1), of v] by auto

lemma continued_cancel:
  assumes "(if vs = [] then [] else CHR '','' # a) @ d # r = (if ws = [] then [] else CHR '','' # b) @ d # s" "d \<noteq> CHR '',''"
  shows "vs = [] \<and> ws = [] \<and> r = s \<or> vs \<noteq> [] \<and> ws \<noteq> [] \<and> a @ d # r = b @ d # s"
  using assms by (cases "vs = []"; cases "ws = []") simp_all

text \<open>An undefined element prints nothing, and what follows it starts no value.\<close>

definition item_text :: "(rat \<Rightarrow> string) \<Rightarrow> jsval \<Rightarrow> string" where
  "item_text num v = (if v = VUndef then [] else value_text num v)"

lemma items_text_Cons: "items_text num (v # vs) = item_text num v @ (if vs = [] then [] else CHR '','' # items_text num vs)"
  by (simp add: item_text_def)

lemma ends_no_value:
  assumes "number_printer num" "c \<in> {CHR '','', CHR '']''}"
  shows "value_text num v @ r \<noteq> c # s"
proof
  assume "value_text num v @ r = c # s"
  from value_text_first[OF assms(1) this] assms(2) show False
    by (cases v) (auto simp: start_kind_def number_first_def split: if_splits)
qed

lemma item_text_end:
  "number_printer num \<Longrightarrow> item_text num v @ r = c # s \<Longrightarrow> c \<in> {CHR '','', CHR '']''} \<Longrightarrow> v = VUndef"
  using ends_no_value[of num c v r s] by (auto simp: item_text_def split: if_splits)

lemma item_cancel:
  assumes "number_printer num" "item_text num v @ c # t1 = item_text num x @ d # t2" "{c, d} \<subseteq> {CHR '','', CHR '']''}"
    and "v \<noteq> VUndef \<Longrightarrow> x \<noteq> VUndef \<Longrightarrow> value_text num v @ c # t1 = value_text num x @ d # t2 \<Longrightarrow> v = x \<and> c # t1 = d # t2"
  shows "v = x \<and> c # t1 = d # t2"
proof -
  have v: "item_text num x = [] \<Longrightarrow> v = VUndef" if "x = VUndef"
    using item_text_end[OF assms(1), of v "c # t1" d t2] assms(2,3) by simp
  have x: "x = VUndef" if "v = VUndef"
  proof -
    have "item_text num v = []" using that by (simp add: item_text_def)
    then have "item_text num x @ d # t2 = c # t1" using assms(2) by simp
    then show ?thesis using item_text_end[OF assms(1)] assms(3) by blast
  qed
  show ?thesis
  proof (cases "v = VUndef")
    case True
    then have "x = VUndef" by (rule x)
    then show ?thesis using True assms(2) by simp
  next
    case False
    then have n: "x \<noteq> VUndef" using v by (auto simp: item_text_def)
    then have "value_text num v @ c # t1 = value_text num x @ d # t2"
      using assms(2) False by (simp add: item_text_def)
    then show ?thesis by (rule assms(4)[OF False n])
  qed
qed

lemma value_text_cancel:
  assumes "number_printer num"
  shows "normal_value v \<Longrightarrow> normal_value w \<Longrightarrow> delimited r \<Longrightarrow> delimited s \<Longrightarrow>
      value_text num v @ r = value_text num w @ s \<Longrightarrow> v = w \<and> r = s"
    and "normal_items vs \<Longrightarrow> normal_items ws \<Longrightarrow> \<not> (vs = [] \<and> ws = [VUndef]) \<Longrightarrow> \<not> (vs = [VUndef] \<and> ws = []) \<Longrightarrow>
      items_text num vs @ CHR '']'' # r = items_text num ws @ CHR '']'' # s \<Longrightarrow> vs = ws \<and> r = s"
    and "normal_members ms \<Longrightarrow> normal_members ns \<Longrightarrow>
      members_text num ms @ CHR ''}'' # r = members_text num ns @ CHR ''}'' # s \<Longrightarrow> ms = ns \<and> r = s"
proof (induction v and vs and ms arbitrary: w r s and ws r s and ns r s rule: normal_value_normal_items_normal_members.induct)
  case 3
  show ?case using 3 same_kind[OF assms 3(5)] by (cases w) (simp_all split: if_splits)
next
  case 4
  show ?case using 4 same_kind[OF assms 4(5)] by (cases w) (simp_all split: if_splits)
next
  case (5 b)
  show ?case using 5 same_kind[OF assms 5(5)] by (cases w) (simp_all split: if_splits)
next
  case (6 x)
  show ?case using 6 same_kind[OF assms 6(5)] number_cancel[OF assms 6(3,4)]
    by (cases w) (simp_all split: if_splits)
next
  case (7 t)
  show ?case using 7 same_kind[OF assms 7(5)] js_quote_cancel[of t r _ s]
    by (cases w) (simp_all split: if_splits)
next
  case (8 vs)
  show ?case
  proof (cases w)
    case (VArr us)
    have "items_text num vs @ CHR '']'' # r = items_text num us @ CHR '']'' # s" using 8(6) VArr by simp
    moreover have "vs \<noteq> [VUndef]" "us \<noteq> [VUndef]" "normal_items vs" "normal_items us" using 8(2,3) VArr by simp_all
    ultimately show ?thesis using 8(1)[of us r s] VArr by blast
  qed (use same_kind[OF assms 8(6)] in \<open>simp_all split: if_splits\<close>)
next
  case (9 ms)
  show ?case using 9(2-6) same_kind[OF assms 9(6)] 9(1)[of _ r s] by (cases w) (simp_all split: if_splits)
next
  case 10
  show ?case
  proof (cases ws)
    case (Cons x xs)
    then have e: "item_text num x @ ((if xs = [] then [] else CHR '','' # items_text num xs) @ CHR '']'' # s) = CHR '']'' # r"
      using 10(5) by (simp only: items_text_Cons append_assoc) simp
    then have "x = VUndef" using item_text_end[OF assms] by blast
    then show ?thesis using e 10(3) Cons by (auto simp: item_text_def split: if_splits)
  qed (use 10 in simp)
next
  case (11 v vs)
  show ?case
  proof (cases ws)
    case Nil
    then have e: "item_text num v @ ((if vs = [] then [] else CHR '','' # items_text num vs) @ CHR '']'' # r) = CHR '']'' # s"
      using 11(7) by (simp only: items_text_Cons append_assoc) simp
    then have "v = VUndef" using item_text_end[OF assms] by blast
    then show ?thesis using e 11(6) Nil by (auto simp: item_text_def split: if_splits)
  next
    case (Cons x xs)
    define t1 where "t1 = (if vs = [] then [] else CHR '','' # items_text num vs) @ CHR '']'' # r"
    define t2 where "t2 = (if xs = [] then [] else CHR '','' # items_text num xs) @ CHR '']'' # s"
    have same: "item_text num v @ t1 = item_text num x @ t2"
      using 11(7) unfolding Cons items_text_Cons t1_def t2_def by simp
    obtain c u d y where ends: "t1 = c # u" "t2 = d # y" "{c, d} \<subseteq> {CHR '','', CHR '']''}"
      by (cases "vs = []"; cases "xs = []") (auto simp: t1_def t2_def)
    have "delimited t1" "delimited t2" by (auto simp: t1_def t2_def)
    then have "value_text num v @ t1 = value_text num x @ t2 \<Longrightarrow> v = x \<and> t1 = t2"
      using 11(1)[of x t1 t2] 11(3,4) Cons by simp
    then have "v = x \<and> t1 = t2"
      using item_cancel[OF assms same[unfolded ends(1,2)] ends(3)] unfolding ends(1,2) by blast
    then have "v = x" "t1 = t2" by (rule conjunct1, rule conjunct2)
    from continued_cancel[OF \<open>t1 = t2\<close>[unfolded t1_def t2_def]]
    have "vs = [] \<and> xs = [] \<and> r = s \<or> vs \<noteq> [] \<and> xs \<noteq> [] \<and> items_text num vs @ CHR '']'' # r = items_text num xs @ CHR '']'' # s" by auto
    then show ?thesis using 11(2)[of xs r s] 11(3,4) \<open>v = x\<close> Cons by (elim disjE) simp_all
  qed
next
  case 12
  show ?case
  proof (cases ns)
    case (Cons x xs)
    then show ?thesis using 12 by (cases x) (auto simp: js_quote_def)
  qed (use 12 in simp)
next
  case (13 k v ms)
  show ?case
  proof (cases ns)
    case Nil
    then show ?thesis using 13(5) by (simp add: js_quote_def)
  next
    case (Cons y ys)
    obtain k' x where y: "y = (k', x)" by fastforce
    define t1 where "t1 = (if ms = [] then [] else CHR '','' # members_text num ms) @ CHR ''}'' # r"
    define t2 where "t2 = (if ys = [] then [] else CHR '','' # members_text num ys) @ CHR ''}'' # s"
    have "js_quote k @ CHR '':'' # value_text num v @ t1 = js_quote k' @ CHR '':'' # value_text num x @ t2"
      using 13(5) Cons y by (simp add: t1_def t2_def)
    from js_quote_cancel[OF this] have k: "k = k'" and v: "value_text num v @ t1 = value_text num x @ t2" by simp_all
    have "delimited t1" "delimited t2" by (auto simp: t1_def t2_def)
    then have "v = x" "t1 = t2" using 13(1)[of x t1 t2] 13(3,4) Cons y v by auto
    from continued_cancel[OF \<open>t1 = t2\<close>[unfolded t1_def t2_def]]
    have "ms = [] \<and> ys = [] \<and> r = s \<or> members_text num ms @ CHR ''}'' # r = members_text num ys @ CHR ''}'' # s" by auto
    then show ?thesis using 13(2)[of ys r s] 13(3,4) \<open>v = x\<close> Cons y k by (elim disjE) simp_all
  qed
qed simp_all

section \<open>The printed text\<close>

lemma insort_key_map: "(\<And>x. f (g x) = h x) \<Longrightarrow> insort_key f (g x) (map g xs) = map g (insort_key h x xs)"
  by (induction xs) auto

lemma sort_key_map: "(\<And>x. f (g x) = h x) \<Longrightarrow> sort_key f (map g xs) = map g (sort_key h xs)"
proof (induction xs)
  case (Cons x xs)
  then show ?case by (simp add: insort_key_map)
qed simp

definition member_text :: "(rat \<Rightarrow> string) \<Rightarrow> string \<times> jsval \<Rightarrow> string" where
  "member_text num kv = js_quote (fst kv) @ '':'' @ value_text num (snd kv)"

lemma members_text_joined: "members_text num ms = intercalate '','' (map (member_text num) ms)"
proof (induction ms)
  case (Cons x ms)
  then show ?case by (cases x; cases ms) (simp_all add: member_text_def)
qed simp

lemma items_text_joined: "items_text num vs = intercalate '','' (map (item_text num) vs)"
proof (induction vs)
  case (Cons v vs)
  then show ?case by (cases vs) (simp_all add: item_text_def)
qed simp

lemma canonical_undefined [simp]: "canonical v = VUndef \<longleftrightarrow> v = VUndef"
  by (cases v) simp_all

lemma item_text_canonical:
  "odefault (if v = VUndef then None else Some (value_text num (canonical v))) [] = item_text num (canonical v)"
  "odefault (if v = VUndef then None else Some (value_text num (canonical v))) ''undefined'' = value_text num (canonical v)"
  by (simp_all add: item_text_def)

lemma stable_printed:
  shows "normal_value v \<Longrightarrow> stableStringify num v = (if v = VUndef then None else Some (value_text num (canonical v)))"
    and "normal_items vs \<Longrightarrow> stable_items num vs = map (item_text num) (canonical_items vs)"
    and "normal_members ms \<Longrightarrow> stable_members num ms = map (\<lambda>kv. (fst kv, member_text num kv)) (canonical_members ms)"
proof (induction v and vs and ms rule: normal_value_normal_items_normal_members.induct)
  case (9 ms)
  let ?f = "\<lambda>kv. (fst kv, member_text num kv)"
  have "sort_key fst (map ?f (canonical_members ms)) = map ?f (sort_key fst (canonical_members ms))"
    by (rule sort_key_map) simp
  then show ?case using 9 by (simp add: members_text_joined comp_def)
next
  case (11 v vs)
  then show ?case by (simp only: normal_items.simps stable_items.simps canonical_items.simps list.map item_text_canonical)
next
  case (13 k v ms)
  then show ?case
    by (simp only: normal_members.simps stable_members.simps canonical_members.simps list.map item_text_canonical member_text_def fst_conv snd_conv)
qed (simp_all add: items_text_joined)

text \<open>Printing a value and printing what is left of it give one text.\<close>

lemma erased_undefined: "erased v = VUndef \<longleftrightarrow> v \<in> {VUndef, VFun}"
  by (cases v) simp_all

lemma undefined_text: "stableStringify num v = None \<longleftrightarrow> v \<in> {VUndef, VFun}"
  by (cases v) simp_all

lemma erased_text:
  shows "stableStringify num (erased v) = stableStringify num v"
    and "stable_items num (erased_items vs) = stable_items num vs"
    and "stable_members num (erased_members ms) = stable_members num ms"
proof (induction v and vs and ms rule: erased_erased_items_erased_members.induct)
  case (8 vs)
  show ?case
  proof (cases "erased_items vs = [VUndef]")
    case True
    then have "stable_items num vs = [[]]" using 8 by simp
    then show ?thesis using True by simp
  qed (use 8 in simp)
qed simp_all

lemma normal_members_iff: "normal_members ms \<longleftrightarrow> (\<forall>kv \<in> set ms. normal_value (snd kv))"
  by (induction ms) auto

lemma canonical_items_undefined: "canonical_items vs = [VUndef] \<longleftrightarrow> vs = [VUndef]"
  by (cases vs; cases "tl vs") auto

lemma normal_canonical:
  "normal_value v \<Longrightarrow> normal_value (canonical v)"
  "normal_items vs \<Longrightarrow> normal_items (canonical_items vs)"
  "normal_members ms \<Longrightarrow> normal_members (canonical_members ms)"
proof (induction v and vs and ms rule: normal_value_normal_items_normal_members.induct)
  case (9 ms)
  then show ?case by (simp add: normal_members_iff)
qed (auto simp: canonical_items_undefined)

lemma normal_text_exact:
  assumes "number_printer num" "normal_value v" "normal_value w"
  shows "stableStringify num v = stableStringify num w \<longleftrightarrow> canonical v = canonical w"
proof
  assume t: "stableStringify num v = stableStringify num w"
  show "canonical v = canonical w"
  proof (cases "v = VUndef")
    case False
    then have "value_text num (canonical v) @ [] = value_text num (canonical w) @ []"
      using t assms(2,3) by (simp add: stable_printed split: if_splits)
    from value_text_cancel(1)[OF assms(1) _ _ _ _ this] show ?thesis
      using assms(2,3) by (simp add: normal_canonical)
  qed (use t assms in \<open>simp add: stable_printed split: if_splits\<close>)
next
  assume "canonical v = canonical w"
  moreover from this have "v = VUndef \<longleftrightarrow> w = VUndef" by (metis canonical_undefined)
  ultimately show "stableStringify num v = stableStringify num w" using assms by (simp add: stable_printed)
qed

text \<open>
  C38. The canonical text of a template or a plan decides its content: for every printer of numbers
  that prints different numbers differently, two values have the same text exactly when they are
  equal up to the order of the members of their objects and up to what printing forgets, which
  is the difference between functions and undefined, between numbers that are not finite and null, and
  between an array of one undefined element and the empty array. Values that contain no function, no
  such number and no undefined array element, in particular all values read from JSON texts in the range of
  doubles, lose nothing: for them the text is equal exactly when they are equal up to the order of members.
\<close>

theorem stable_text_exact:
  assumes "number_printer num"
  shows "(stableStringify num v = stableStringify num w \<longleftrightarrow> canonical (erased v) = canonical (erased w))
    \<and> (plain_value v \<longrightarrow> erased v = v)
    \<and> (plain_value v \<and> plain_value w \<longrightarrow> (stableStringify num v = stableStringify num w \<longleftrightarrow> canonical v = canonical w))"
proof (intro conjI impI)
  show e: "stableStringify num v = stableStringify num w \<longleftrightarrow> canonical (erased v) = canonical (erased w)"
    using normal_text_exact[OF assms erased_normal(1)[of v] erased_normal(1)[of w]] by (simp add: erased_text)
  show "plain_value v \<Longrightarrow> erased v = v" by (rule plain_erased(1))
  show "stableStringify num v = stableStringify num w \<longleftrightarrow> canonical v = canonical w" if "plain_value v \<and> plain_value w"
    using e that by (simp add: plain_erased)
qed

text \<open>Where texts collide: \<^verbatim>\<open>[undefined]\<close> with \<^verbatim>\<open>[]\<close>, infinity with null.\<close>

lemma stable_text_collisions:
  "stableStringify num (VArr [VUndef]) = stableStringify num (VArr [])" "stableStringify num VNonFinite = stableStringify num VNull"
  by simp_all

lemma canonical_members_map: "canonical_members ms = map (\<lambda>(k, v). (k, canonical v)) ms"
  by (induction ms) auto

lemma canonical_permuted:
  assumes "mset ms = mset ns" "distinct (map fst ms)"
  shows "canonical (VObj ms) = canonical (VObj ns)"
proof -
  let ?f = "\<lambda>(k, v). (k, canonical v)"
  have keys: "map fst (map ?f ms) = map fst ms" by auto
  then have "inj_on fst (set (map ?f ms))" using assms(2) by (metis distinct_map)
  moreover have "mset (map ?f ms) = mset (sort_key fst (map ?f ns))"
    using arg_cong[OF assms(1), of "image_mset ?f"] by simp
  ultimately have "sort_key fst (map ?f ms) = sort_key fst (map ?f ns)"
    by (intro sort_key_inj_key_eq) auto
  then show ?thesis by (simp add: canonical_members_map)
qed

text \<open>Integers and one kind of fraction, as a printer for the samples.\<close>

definition print_sample :: "rat \<Rightarrow> string" where
  "print_sample x = (let (a, b) = quotient_of x
     in (if a < 0 then ''-'' @ show_nat (nat (- a)) else show_nat (nat a)) @ ''e'' @ show_nat (nat b))"

end
