(* ===== verification/Goal_Contract.thy ===== *)
theory Goal_Contract imports Template_Values
begin

text \<open>
  Goal contracts (\<^verbatim>\<open>src/src/modules/workflows/goal-contract.ts\<close>): parsing a contract, the
  actions of a workflow in the order of their declaration, and the reason why a workflow
  violates a contract. A reason is a value that holds what its message prints.
\<close>

section \<open>Contracts\<close>

record WorkflowGoalContractStage =
  gs_id :: string
  gs_required :: "bool option"
  gs_actions :: "string list"
  gs_effects :: "string list option"
  gs_after :: "string list option"
  gs_min :: "nat option"
  gs_produces :: "string list option"
  gs_consumes :: "string list option"

record WorkflowGoalContract =
  gc_stages :: "WorkflowGoalContractStage list"
  gc_outputs :: "string list option"
  gc_effects :: "string list"

fun text_items :: "json list \<Rightarrow> string list" where
  "text_items [] = []"
| "text_items (JStr s # xs) = (if js_trim s = [] then text_items xs else s # text_items xs)"
| "text_items (_ # xs) = text_items xs"

definition stringArray :: "json option \<Rightarrow> string list" where
  "stringArray v = (case v of Some (JArr xs) \<Rightarrow> text_items xs | _ \<Rightarrow> [])"

definition some_list :: "'a list \<Rightarrow> 'a list option" where
  "some_list xs = (if xs = [] then None else Some xs)"

definition valid_minimum :: "json option \<Rightarrow> bool" where
  "valid_minimum v \<longleftrightarrow> (case v of None \<Rightarrow> True | Some (JNum x) \<Rightarrow> is_integer x \<and> 1 \<le> x | Some _ \<Rightarrow> False)"

definition parse_stage :: "json \<Rightarrow> WorkflowGoalContractStage option" where
  "parse_stage raw =
     (case raw of
        JObj o1 \<Rightarrow>
          (let i = js_trim (odefault (text_value (jget o1 ''id'')) []);
               allowedActions = stringArray (jget o1 ''allowedActions'')
           in if i = [] \<or> allowedActions = [] \<or> \<not> valid_minimum (jget o1 ''minOccurrences'') then None
              else Some \<lparr>gs_id = i, gs_required = Some (jget o1 ''required'' \<noteq> Some (JBool False)),
                gs_actions = allowedActions, gs_effects = some_list (stringArray (jget o1 ''allowedEffects'')),
                gs_after = some_list (stringArray (jget o1 ''after'')),
                gs_min = map_option (\<lambda>x. nat \<lfloor>x\<rfloor>) (number_value (jget o1 ''minOccurrences'')),
                gs_produces = some_list (stringArray (jget o1 ''produces'')),
                gs_consumes = some_list (stringArray (jget o1 ''consumes''))\<rparr>)
      | _ \<Rightarrow> None)"

definition stage_fits :: "string list \<Rightarrow> string list \<Rightarrow> WorkflowGoalContractStage \<Rightarrow> bool" where
  "stage_fits allowedEffects stageIds s \<longleftrightarrow>
     (\<forall>e \<in> set (odefault (gs_effects s) []). e \<in> set allowedEffects)
   \<and> (\<forall>d \<in> set (odefault (gs_after s) []). d \<noteq> gs_id s \<and> d \<in> set stageIds)"

definition parseWorkflowGoalContract :: "json \<Rightarrow> WorkflowGoalContract option" where
  "parseWorkflowGoalContract v =
     (case v of
        JObj o1 \<Rightarrow>
          (case list_value (jget o1 ''stages'') of
             None \<Rightarrow> None
           | Some raws \<Rightarrow>
               (let allowedEffects = stringArray (jget o1 ''allowedEffects'')
                in if jget o1 ''version'' \<noteq> Some (JStr ''1'') \<or> raws = [] \<or> allowedEffects = [] then None
                   else (case those (map parse_stage raws) of
                      None \<Rightarrow> None
                    | Some stages \<Rightarrow>
                        if distinct (map gs_id stages) \<and> list_all (stage_fits allowedEffects (map gs_id stages)) stages
                        then Some \<lparr>gc_stages = stages, gc_outputs = some_list (stringArray (jget o1 ''requiredOutputs'')),
                               gc_effects = allowedEffects\<rparr>
                        else None)))
      | _ \<Rightarrow> None)"

text \<open>The parsed contract as the value that replaces the raw one in the template.\<close>

definition texts :: "string list \<Rightarrow> json" where
  "texts xs = JArr (map JStr xs)"

definition optional_member :: "string \<Rightarrow> json option \<Rightarrow> jobj" where
  "optional_member k v = (case v of None \<Rightarrow> [] | Some x \<Rightarrow> [(k, x)])"

definition stage_json :: "WorkflowGoalContractStage \<Rightarrow> json" where
  "stage_json s = JObj ([(''id'', JStr (gs_id s))] @ optional_member ''required'' (map_option JBool (gs_required s))
     @ [(''allowedActions'', texts (gs_actions s))]
     @ optional_member ''allowedEffects'' (map_option texts (gs_effects s))
     @ optional_member ''after'' (map_option texts (gs_after s))
     @ optional_member ''minOccurrences'' (map_option jnat (gs_min s))
     @ optional_member ''produces'' (map_option texts (gs_produces s))
     @ optional_member ''consumes'' (map_option texts (gs_consumes s)))"

definition goal_contract_json :: "WorkflowGoalContract \<Rightarrow> json" where
  "goal_contract_json c = JObj ([(''version'', JStr ''1''), (''stages'', JArr (map stage_json (gc_stages c)))]
     @ optional_member ''requiredOutputs'' (map_option texts (gc_outputs c))
     @ [(''allowedEffects'', texts (gc_effects c))])"

section \<open>Actions\<close>

text \<open>\<^verbatim>\<open>{ ...transition, type: "action" }\<close>.\<close>

definition as_action :: "jobj \<Rightarrow> jobj" where
  "as_action o1 = jset o1 ''type'' (JStr ''action'')"

definition transitions_of :: "jobj \<Rightarrow> jobj option" where
  "transitions_of o1 = (case jget o1 ''params'' of Some (JObj p) \<Rightarrow> record_value (jget p ''transitions'') | _ \<Rightarrow> None)"

lemma size_transitions [termination_simp]:
  "transitions_of o1 = Some ts \<Longrightarrow> size (JObj ts) < size (JObj o1)"
proof -
  assume "transitions_of o1 = Some ts"
  then obtain p where p: "jget o1 ''params'' = Some (JObj p)" "jget p ''transitions'' = Some (JObj ts)"
    by (auto simp: transitions_of_def split: option.splits json.splits)
  show ?thesis using size_member [OF p(1)] size_member [OF p(2)] by simp
qed

text \<open>
  The actions below a list of steps and below one action, whose transitions come before its
  failure steps.
\<close>

function collect_items :: "json list \<Rightarrow> jobj list res"
  and collect_step :: "json \<Rightarrow> jobj list res"
  and collect_below :: "jobj \<Rightarrow> jobj list res"
  and collect_transitions :: "jobj \<Rightarrow> jobj list res" where
  "collect_items [] = Inr []"
| "collect_items (x # xs) =
     res_bind (collect_step x) (\<lambda>a. res_bind (collect_items xs) (\<lambda>b. Inr (a @ b)))"
| "collect_step v =
     (case v of
        JNull \<Rightarrow> Inl type_error
      | JObj o1 \<Rightarrow>
          if jget o1 ''type'' = Some (JStr ''action'') then res_bind (collect_below o1) (\<lambda>a. Inr (o1 # a))
          else if jget o1 ''type'' = Some (JStr ''condition'') then
            res_bind (case jget o1 ''if_true'' of
                Some (JArr xs) \<Rightarrow> collect_items xs | x \<Rightarrow> res_bind (iterate x) (\<lambda>_. Inr [])) (\<lambda>a.
            res_bind (case jget o1 ''if_false'' of
                Some (JArr xs) \<Rightarrow> collect_items xs
              | x \<Rightarrow> if js_truthy x then res_bind (iterate x) (\<lambda>_. Inr []) else Inr []) (\<lambda>b.
            Inr (a @ b)))
          else if jget o1 ''type'' = Some (JStr ''loop'') then
            (case jget o1 ''steps'' of Some (JArr xs) \<Rightarrow> collect_items xs | x \<Rightarrow> res_bind (iterate x) (\<lambda>_. Inr []))
          else Inr []
      | _ \<Rightarrow> Inr [])"
| "collect_below o1 =
     res_bind (case transitions_of o1 of None \<Rightarrow> Inr [] | Some ts \<Rightarrow> collect_transitions ts) (\<lambda>a.
     res_bind (case jget o1 ''onFailureSteps'' of Some (JArr xs) \<Rightarrow> collect_items xs | _ \<Rightarrow> Inr []) (\<lambda>b.
     Inr (a @ b)))"
| "collect_transitions [] = Inr []"
| "collect_transitions ((k, v) # ts) =
     res_bind (case v of JObj t \<Rightarrow> res_bind (collect_below t) (\<lambda>a. Inr (as_action t # a)) | _ \<Rightarrow> Inr []) (\<lambda>a.
     res_bind (collect_transitions ts) (\<lambda>b. Inr (a @ b)))"
  by pat_completeness auto
termination
  by (relation "measure (\<lambda>x. case x of
      Inl (Inl xs) \<Rightarrow> 2 * size (JArr xs) | Inl (Inr v) \<Rightarrow> 2 * size v + 1
    | Inr (Inl o1) \<Rightarrow> 2 * size (JObj o1) | Inr (Inr ts) \<Rightarrow> 2 * size (JObj ts))")
    (auto dest!: size_member size_transitions)

text \<open>A text iterates over one-character texts, which are no steps.\<close>

definition collectActions :: "json option \<Rightarrow> jobj list res" where
  "collectActions steps = res_bind (iterate steps) collect_items"

definition producedVariables :: "jobj \<Rightarrow> string list" where
  "producedVariables a =
     (case text_value (jget a ''saveOutputAs'') of Some v \<Rightarrow> if v = [] then [] else [v] | None \<Rightarrow> [])
   @ (case jget a ''params'' of
        Some (JObj p) \<Rightarrow>
          (case text_value (jget p ''outputVariable'') of Some v \<Rightarrow> if v = [] then [] else [v] | None \<Rightarrow> [])
        @ (case jget p ''outputs'' of Some (JObj o1) \<Rightarrow> map fst o1 | _ \<Rightarrow> [])
      | _ \<Rightarrow> [])"

text \<open>The key of a match of \<^verbatim>\<open>/\{\{([a-zA-Z0-9_.-]+)}}/\<close> at the front, and what follows it.\<close>

definition binding_at :: "string \<Rightarrow> (string \<times> string) option" where
  "binding_at s =
     (let key = takeWhile path_char (drop 2 s); r = drop (2 + length key) s
      in if take 2 s = ''{{'' \<and> key \<noteq> [] \<and> take 2 r = ''}}'' then Some (key, drop 2 r) else None)"

lemma binding_at_shorter: "binding_at s = Some (key, r) \<Longrightarrow> length r < length s"
  by (cases s) (auto simp: binding_at_def Let_def split: if_splits)

function text_bindings :: "string \<Rightarrow> string list" where
  "text_bindings s =
     (case binding_at s of
        Some (key, r) \<Rightarrow> key # text_bindings r
      | None \<Rightarrow> (case s of [] \<Rightarrow> [] | c # cs \<Rightarrow> text_bindings cs))"
  by pat_completeness auto
termination
  by (relation "measure length") (auto dest: binding_at_shorter)

declare text_bindings.simps [simp del]

fun referencedVariables :: "json \<Rightarrow> string list"
  and referenced_items :: "json list \<Rightarrow> string list"
  and referenced_members :: "jobj \<Rightarrow> string list" where
  "referencedVariables (JStr s) = text_bindings s"
| "referencedVariables (JArr xs) = referenced_items xs"
| "referencedVariables (JObj o1) =
     (case text_value (jget o1 ''$bind'') of
        Some b \<Rightarrow> if js_trim b = [] then [] else [js_trim b]
      | None \<Rightarrow> []) @ referenced_members o1"
| "referencedVariables JNull = []"
| "referencedVariables (JBool b) = []"
| "referencedVariables (JNum x) = []"
| "referenced_items [] = []"
| "referenced_items (x # xs) = referencedVariables x @ referenced_items xs"
| "referenced_members [] = []"
| "referenced_members ((k, v) # o1) = referencedVariables v @ referenced_members o1"

section \<open>Violations\<close>

datatype goal_reason =
    MalformedContract
  | ContractMismatch
  | MissingEffect jobj
  | DisallowedEffect jobj
  | UndeclaredStage jobj
  | UnassignedEffect jobj
  | StageNotCovered string
  | ActionOutsideStage string jobj
  | EffectOutsideStage string
  | StageOrder string string
  | NotProduced string string
  | NotConsumed string string
  | OutputNotInSchema string
  | OutputNotProduced string

definition declared_stage :: "WorkflowGoalContract \<Rightarrow> jobj \<Rightarrow> bool" where
  "declared_stage c a \<longleftrightarrow> (\<exists>s \<in> set (gc_stages c). jget a ''goalStage'' = Some (JStr (gs_id s)))"

definition check_action :: "WorkflowGoalContract \<Rightarrow> jobj \<Rightarrow> goal_reason option" where
  "check_action c a =
     (let effect = jget a ''effect''; stage = jget a ''goalStage''
      in if \<not> js_truthy effect then Some (MissingEffect a)
         else if \<not> (case effect of Some (JStr e) \<Rightarrow> e \<in> set (gc_effects c) | _ \<Rightarrow> False) then Some (DisallowedEffect a)
         else if js_truthy stage \<and> \<not> declared_stage c a then Some (UndeclaredStage a)
         else if effect \<noteq> Some (JStr ''none'') \<and> \<not> js_truthy stage then Some (UnassignedEffect a)
         else None)"

text \<open>The actions of a stage with their positions in the declaration order.\<close>

definition stage_actions :: "jobj list \<Rightarrow> string \<Rightarrow> (nat \<times> jobj) list" where
  "stage_actions actions i = filter (\<lambda>(_, a). jget a ''goalStage'' = Some (JStr i)) (enumerate 0 actions)"

definition minimum_of :: "WorkflowGoalContractStage \<Rightarrow> nat" where
  "minimum_of s = (if gs_required s = Some False then 0 else max 1 (odefault (gs_min s) 1))"

definition check_match :: "jobj list \<Rightarrow> WorkflowGoalContractStage \<Rightarrow> nat \<times> jobj \<Rightarrow> goal_reason option" where
  "check_match actions s m =
     (case m of (i, a) \<Rightarrow>
        coalesce (fail_unless (case jget a ''action'' of Some (JStr x) \<Rightarrow> x \<in> set (gs_actions s) | _ \<Rightarrow> False)
          (ActionOutsideStage (gs_id s) a))
       (coalesce (fail_unless (case gs_effects s of
            None \<Rightarrow> True
          | Some es \<Rightarrow> (case jget a ''effect'' of Some (JStr e) \<Rightarrow> e \<noteq> [] \<and> e \<in> set es | _ \<Rightarrow> False))
          (EffectOutsideStage (gs_id s)))
        (first_some (\<lambda>d. fail_unless (\<exists>(j, _) \<in> set (stage_actions actions d). j < i) (StageOrder (gs_id s) d))
          (odefault (gs_after s) []))))"

definition check_stage :: "jobj list \<Rightarrow> WorkflowGoalContractStage \<Rightarrow> goal_reason option" where
  "check_stage actions s =
     (let matches = stage_actions actions (gs_id s);
          produced = concat (map (producedVariables \<circ> snd) matches);
          referenced = concat (map (\<lambda>(_, a). case jget a ''params'' of None \<Rightarrow> [] | Some p \<Rightarrow> referencedVariables p) matches)
      in coalesce (fail_unless (minimum_of s \<le> length matches) (StageNotCovered (gs_id s)))
        (coalesce (first_some (check_match actions s) matches)
        (coalesce (first_some (\<lambda>v. fail_unless (v \<in> set produced) (NotProduced (gs_id s) v)) (odefault (gs_produces s) []))
         (first_some (\<lambda>v. fail_unless (v \<in> set referenced) (NotConsumed (gs_id s) v)) (odefault (gs_consumes s) [])))))"

definition check_outputs :: "WorkflowGoalContract \<Rightarrow> json list \<Rightarrow> jobj list \<Rightarrow> goal_reason option" where
  "check_outputs c schemaRequired actions =
     (let allProduced = concat (map producedVariables actions)
      in first_some (\<lambda>v. coalesce (fail_unless (JStr v \<in> set schemaRequired) (OutputNotInSchema v))
           (fail_unless (v \<in> set allProduced) (OutputNotProduced v))) (odefault (gc_outputs c) []))"

definition schema_required :: "jobj \<Rightarrow> json list res" where
  "schema_required workflow =
     (case nullish (jget workflow ''outputSchema'') of
        Some (JObj o1) \<Rightarrow> (case nullish (jget o1 ''required'') of None \<Rightarrow> Inr [] | r \<Rightarrow> iterate r)
      | _ \<Rightarrow> Inr [])"

definition check_contract :: "WorkflowGoalContract \<Rightarrow> jobj \<Rightarrow> goal_reason option res" where
  "check_contract c workflow =
     res_bind (collectActions (jget workflow ''steps'')) (\<lambda>actions.
       (case coalesce (first_some (check_action c) actions) (first_some (check_stage actions) (gc_stages c)) of
          Some e \<Rightarrow> Inr (Some e)
        | None \<Rightarrow> res_bind (schema_required workflow) (\<lambda>required. Inr (check_outputs c required actions))))"

text \<open>
  Parsed contracts have their members in one order, so their texts are equal when the
  contracts are.
\<close>

definition workflowGoalContractReason :: "jobj \<Rightarrow> json option \<Rightarrow> goal_reason option res" where
  "workflowGoalContractReason workflow expectedContract =
     (let own = jget workflow ''goalContract''; raw = coalesce (nullish expectedContract) own
      in if \<not> js_truthy raw then Inr None
         else case parseWorkflowGoalContract (the raw) of
           None \<Rightarrow> Inr (Some MalformedContract)
         | Some c \<Rightarrow>
             if js_truthy expectedContract \<and> (case own of None \<Rightarrow> None | Some v \<Rightarrow> parseWorkflowGoalContract v) \<noteq> Some c
             then Inr (Some ContractMismatch)
             else check_contract c workflow)"

end
