(* ===== verification/Template_Validator.thy ===== *)
theory Template_Validator imports Goal_Contract
begin

text \<open>
  The contract of generated workflow templates
  (\<^verbatim>\<open>src/src/modules/workflows/workflow-validator.ts\<close>, \<^verbatim>\<open>validateGeneratedWorkflowTemplate\<close>
  and the checks it calls): the messages in the order in which they are pushed, and the
  normalised template when there are none. The checks of a goal contract may throw.
\<close>

datatype template_error = Message string | GoalViolation goal_reason

definition unless_msg :: "bool \<Rightarrow> string \<Rightarrow> string list" where
  "unless_msg b m = (if b then [] else [m])"

lemma unless_msg_Nil [simp]: "unless_msg b m = [] \<longleftrightarrow> b"
  by (simp add: unless_msg_def)

text \<open>A member that is absent or satisfies a predicate.\<close>

definition optionally :: "(json \<Rightarrow> bool) \<Rightarrow> json option \<Rightarrow> bool" where
  "optionally p v \<longleftrightarrow> (case v of None \<Rightarrow> True | Some x \<Rightarrow> p x)"

lemma optionally_simps [simp]: "optionally p None" "optionally p (Some x) = p x"
  by (simp_all add: optionally_def)

definition is_text :: "json \<Rightarrow> bool" where "is_text v \<longleftrightarrow> (case v of JStr s \<Rightarrow> True | _ \<Rightarrow> False)"
definition nonempty_text :: "json \<Rightarrow> bool" where "nonempty_text v \<longleftrightarrow> (case v of JStr s \<Rightarrow> s \<noteq> [] | _ \<Rightarrow> False)"
definition solid_text :: "json \<Rightarrow> bool" where "solid_text v \<longleftrightarrow> (case v of JStr s \<Rightarrow> js_trim s \<noteq> [] | _ \<Rightarrow> False)"
definition identifier_text :: "json \<Rightarrow> bool" where "identifier_text v \<longleftrightarrow> (case v of JStr s \<Rightarrow> policy_identifier s | _ \<Rightarrow> False)"
definition is_record :: "json \<Rightarrow> bool" where "is_record v \<longleftrightarrow> (case v of JObj o1 \<Rightarrow> True | _ \<Rightarrow> False)"
definition is_boolean :: "json \<Rightarrow> bool" where "is_boolean v \<longleftrightarrow> (case v of JBool b \<Rightarrow> True | _ \<Rightarrow> False)"
definition is_number :: "json \<Rightarrow> bool" where "is_number v \<longleftrightarrow> (case v of JNum x \<Rightarrow> True | _ \<Rightarrow> False)"
definition number_from :: "rat \<Rightarrow> json \<Rightarrow> bool" where "number_from lo v \<longleftrightarrow> (case v of JNum x \<Rightarrow> lo \<le> x | _ \<Rightarrow> False)"
definition number_between :: "rat \<Rightarrow> rat \<Rightarrow> json \<Rightarrow> bool" where
  "number_between lo hi v \<longleftrightarrow> (case v of JNum x \<Rightarrow> lo \<le> x \<and> x \<le> hi | _ \<Rightarrow> False)"

lemmas value_kinds = is_text_def nonempty_text_def solid_text_def identifier_text_def is_record_def is_boolean_def
  is_number_def number_from_def number_between_def

section \<open>Normalisation\<close>

definition fill_observation :: "jobj \<Rightarrow> jobj" where
  "fill_observation o1 =
     (case jget o1 ''observationPrimitive'' of
        Some (JObj op) \<Rightarrow> jset o1 ''observationPrimitive''
          (JObj (jset op ''params'' (case jget op ''params'' of Some (JObj p) \<Rightarrow> JObj p | _ \<Rightarrow> JObj [])))
      | _ \<Rightarrow> o1)"

fun normalizeNestedObservationPrimitiveParams :: "json \<Rightarrow> json"
  and normalize_items :: "json list \<Rightarrow> json list"
  and normalize_members :: "jobj \<Rightarrow> jobj" where
  "normalizeNestedObservationPrimitiveParams (JArr xs) = JArr (normalize_items xs)"
| "normalizeNestedObservationPrimitiveParams (JObj o1) = JObj (fill_observation (normalize_members o1))"
| "normalizeNestedObservationPrimitiveParams JNull = JNull"
| "normalizeNestedObservationPrimitiveParams (JBool b) = JBool b"
| "normalizeNestedObservationPrimitiveParams (JNum x) = JNum x"
| "normalizeNestedObservationPrimitiveParams (JStr s) = JStr s"
| "normalize_items [] = []"
| "normalize_items (x # xs) = normalizeNestedObservationPrimitiveParams x # normalize_items xs"
| "normalize_members [] = []"
| "normalize_members ((k, v) # o1) = (k, normalizeNestedObservationPrimitiveParams v) # normalize_members o1"

definition normalizeGeneratedWorkflowPlatform :: "string \<Rightarrow> string" where
  "normalizeGeneratedWorkflowPlatform platform = js_lower (js_trim platform)"

section \<open>Schemas and contracts\<close>

definition output_types :: "string list" where
  "output_types = [''boolean'', ''string'', ''number'', ''object'', ''array'', ''null'']"

definition property_errors :: "string \<Rightarrow> string \<times> json \<Rightarrow> string list" where
  "property_errors path kv =
     (case kv of (k, JObj p) \<Rightarrow>
        unless_msg (case jget p ''type'' of Some (JStr t) \<Rightarrow> t \<in> set output_types | _ \<Rightarrow> False)
          (path @ ''.properties.'' @ k @ ''.type must be one of: '' @ intercalate '', '' output_types)
      | (k, _) \<Rightarrow> [path @ ''.properties.'' @ k @ '' must be an object''])"

text \<open>\<^verbatim>\<open>properties[key]\<close>, where an inherited member counts.\<close>

definition known_property :: "jobj \<Rightarrow> string \<Rightarrow> bool" where
  "known_property ps k \<longleftrightarrow> (case jget ps k of None \<Rightarrow> js_inherited k \<noteq> None | v \<Rightarrow> js_truthy v)"

definition required_errors :: "string \<Rightarrow> jobj \<Rightarrow> json \<Rightarrow> string list" where
  "required_errors path ps v =
     (case v of JStr k \<Rightarrow> unless_msg (known_property ps k) (path @ ''.required contains unknown property: '' @ k) | _ \<Rightarrow> [])"

definition validateGeneratedWorkflowOutputSchema :: "json \<Rightarrow> string \<Rightarrow> string list" where
  "validateGeneratedWorkflowOutputSchema v path =
     (case v of
        JObj o1 \<Rightarrow>
          unless_msg (case jget o1 ''required'' of Some (JArr xs) \<Rightarrow> list_all nonempty_text xs | _ \<Rightarrow> False)
            (path @ ''.required must be an array of non-empty strings'')
          @ (case jget o1 ''properties'' of
               Some (JObj ps) \<Rightarrow> concat (map (property_errors path) ps)
                 @ (case jget o1 ''required'' of Some (JArr xs) \<Rightarrow> concat (map (required_errors path ps) xs) | _ \<Rightarrow> [])
             | _ \<Rightarrow> [path @ ''.properties must be an object''])
      | _ \<Rightarrow> [path @ '' must be an object''])"

definition reference_errors :: "string \<Rightarrow> json \<Rightarrow> string list" where
  "reference_errors path r =
     (case r of
        JObj o1 \<Rightarrow>
          (let hasPath = (case jget o1 ''path'' of Some (JStr s) \<Rightarrow> s \<noteq> [] | _ \<Rightarrow> False)
           in unless_msg (hasPath \<noteq> jhas o1 ''value'') (path @ '' must contain exactly one of path or value'')
            @ unless_msg (hasPath \<longrightarrow> (case jget o1 ''path'' of Some (JStr s) \<Rightarrow> path_text s | _ \<Rightarrow> False))
                (path @ ''.path is invalid''))
      | _ \<Rightarrow> [path @ '' must be a value reference''])"

definition predicate_errors :: "string \<Rightarrow> json \<Rightarrow> string list" where
  "predicate_errors path p =
     (case p of
        JObj o1 \<Rightarrow>
          (case jget o1 ''left'' of
             Some (JObj l) \<Rightarrow>
               unless_msg (is_policy_identifier (jget o1 ''operator'')) (path @ ''.operator is invalid'')
               @ reference_errors (path @ ''.left'') (JObj l)
               @ (case jget o1 ''right'' of None \<Rightarrow> [] | Some r \<Rightarrow> reference_errors (path @ ''.right'') r)
           | _ \<Rightarrow> [path @ ''.left must be a value reference''])
      | _ \<Rightarrow> [path @ ''.left must be a value reference''])"

definition item_path :: "string \<Rightarrow> nat \<Rightarrow> string" where
  "item_path path i = path @ ''['' @ show_nat i @ '']''"

definition validateWorkflowPostconditionContract :: "json \<Rightarrow> string \<Rightarrow> string list" where
  "validateWorkflowPostconditionContract v path =
     (let broken = [path @ '' must be a version 1 contract with non-empty all[]'']
      in case v of
        JObj o1 \<Rightarrow>
          (case jget o1 ''all'' of
             Some (JArr ps) \<Rightarrow>
               if jget o1 ''version'' \<noteq> Some (JStr ''1'') \<or> ps = [] then broken
               else concat (map (\<lambda>(i, p). predicate_errors (item_path (path @ ''.all'') i) p) (enumerate 0 ps))
           | _ \<Rightarrow> broken)
      | _ \<Rightarrow> broken)"

definition workflowPostconditionContractErrors :: "json \<Rightarrow> string list" where
  "workflowPostconditionContractErrors v = validateWorkflowPostconditionContract v ''postconditionContract''"

definition workflowOutputSchemaErrors :: "json \<Rightarrow> string list" where
  "workflowOutputSchemaErrors v = validateGeneratedWorkflowOutputSchema v ''outputSchema''"

definition validateRangeObject :: "json option \<Rightarrow> string \<Rightarrow> string list" where
  "validateRangeObject v path =
     (case v of
        Some (JObj o1) \<Rightarrow>
          (let lo = number_value (jget o1 ''min''); hi = number_value (jget o1 ''max'')
           in unless_msg (lo \<noteq> None) (path @ ''.min must be a number'')
            @ unless_msg (hi \<noteq> None) (path @ ''.max must be a number'')
            @ unless_msg (case (lo, hi) of (Some a, Some b) \<Rightarrow> a \<le> b | _ \<Rightarrow> True) (path @ ''.min must be <= '' @ path @ ''.max'')
            @ unless_msg (is_policy_identifier (jget o1 ''distribution''))
                (path @ ''.distribution must be a safe runtime-contract identifier''))
      | _ \<Rightarrow> [path @ '' must be an object''])"

section \<open>Steps\<close>

definition step_types :: "string list" where
  "step_types = [''action'', ''wait'', ''condition'', ''loop'', ''checkpoint'']"

text \<open>The identifier of a step, with the identifiers seen so far.\<close>

definition id_errors :: "string \<Rightarrow> jobj \<Rightarrow> string list \<Rightarrow> string list \<times> string list" where
  "id_errors path o1 seen =
     (case jget o1 ''id'' of
        None \<Rightarrow> ([], seen)
      | Some v \<Rightarrow>
          if \<not> nonempty_text v then ([path @ ''.id must be a non-empty string when provided''], seen)
          else (let i = the (text_value (Some v))
                in if i \<in> set seen then ([path @ ''.id duplicates step id \"'' @ i @ ''\"''], seen) else ([], i # seen)))"

definition action_name_errors :: "string \<Rightarrow> json option \<Rightarrow> string list" where
  "action_name_errors path v =
     (case v of
        Some (JStr (c # cs)) \<Rightarrow> unless_msg (policy_identifier (c # cs)) (path @ ''.action must be a safe runtime-contract identifier'')
      | _ \<Rightarrow> [path @ ''.action must be a non-empty string for action steps''])"

definition screen_errors :: "string \<Rightarrow> json option \<Rightarrow> string list" where
  "screen_errors path v =
     (case v of
        None \<Rightarrow> []
      | Some x \<Rightarrow>
          (let screens = (case x of JArr xs \<Rightarrow> xs | _ \<Rightarrow> [x])
           in concat (map (\<lambda>s. unless_msg (solid_text s) (path @ ''.expectedScreen must contain non-empty state identifiers'')) screens)))"

text \<open>The checks of an action before its failure steps.\<close>

definition action_errors :: "string \<Rightarrow> jobj \<Rightarrow> string list" where
  "action_errors path o1 =
     action_name_errors path (jget o1 ''action'')
   @ unless_msg (optionally is_record (jget o1 ''params'')) (path @ ''.params must be an object when provided'')
   @ unless_msg (optionally solid_text (jget o1 ''goalStage'')) (path @ ''.goalStage must be a non-empty string when provided'')
   @ unless_msg (optionally identifier_text (jget o1 ''effect'')) (path @ ''.effect is invalid'')
   @ unless_msg (optionally is_number (jget o1 ''x'')) (path @ ''.x must be a number when provided'')
   @ unless_msg (optionally is_number (jget o1 ''y'')) (path @ ''.y must be a number when provided'')
   @ unless_msg (optionally identifier_text (jget o1 ''verification'')) (path @ ''.verification must be a safe runtime policy identifier'')
   @ screen_errors path (jget o1 ''expectedScreen'')
   @ unless_msg (optionally (number_from 0) (jget o1 ''retries'')) (path @ ''.retries must be a non-negative number when provided'')
   @ concat (map (\<lambda>k. unless_msg (optionally (number_between 0 600000) (jget o1 k))
       (path @ ''.'' @ k @ '' must be a number between 0 and 600000 when provided'')) [''retryDelayMs'', ''delayAfterMs''])
   @ unless_msg (optionally nonempty_text (jget o1 ''saveOutputAs'')) (path @ ''.saveOutputAs must be a non-empty string when provided'')
   @ unless_msg (optionally (\<lambda>v. case v of JNum x \<Rightarrow> is_safe_integer x \<and> 0 \<le> x | _ \<Rightarrow> False) (jget o1 ''failureOpcode''))
       (path @ ''.failureOpcode must be a non-negative integer'')"

definition until_errors :: "string \<Rightarrow> json \<Rightarrow> string list" where
  "until_errors path v =
     (case v of
        JObj u \<Rightarrow>
          unless_msg (is_policy_identifier (jget u ''action'')) (path @ ''.until.action must be a safe runtime-contract identifier'')
          @ unless_msg (optionally is_record (jget u ''params'')) (path @ ''.until.params must be an object when provided'')
          @ unless_msg (is_policy_identifier (jget u ''operator'')) (path @ ''.until.operator must be a safe runtime-contract identifier'')
          @ unless_msg (case jget u ''timeoutMs'' of Some t \<Rightarrow> number_between 1 600000 t | None \<Rightarrow> False)
              (path @ ''.until.timeoutMs must be between 1 and 600000'')
      | _ \<Rightarrow> [path @ ''.until must be an object when provided''])"

definition wait_errors :: "string \<Rightarrow> jobj \<Rightarrow> string list" where
  "wait_errors path o1 =
     unless_msg (jhas o1 ''duration'' \<or> jhas o1 ''condition'' \<or> jhas o1 ''until'')
       (path @ '' wait step must define duration, condition, or until'')
   @ (if jhas o1 ''duration'' then validateRangeObject (jget o1 ''duration'') (path @ ''.duration'') else [])
   @ unless_msg (optionally is_text (jget o1 ''condition'')) (path @ ''.condition must be a string when provided'')
   @ (case jget o1 ''until'' of None \<Rightarrow> [] | Some u \<Rightarrow> until_errors path u)"

definition condition_errors :: "string \<Rightarrow> jobj \<Rightarrow> string list" where
  "condition_errors path o1 =
     unless_msg ((case jget o1 ''check'' of Some v \<Rightarrow> nonempty_text v | None \<Rightarrow> False)
         \<or> (case jget o1 ''expression'' of Some v \<Rightarrow> nonempty_text v | None \<Rightarrow> False))
       (path @ '' condition step requires check or expression'')
   @ unless_msg (optionally (number_between 0 1) (jget o1 ''probability''))
       (path @ ''.probability must be a number between 0 and 1 when provided'')"

text \<open>Errors in sequence, the identifiers threaded through.\<close>

definition check_then :: "string list \<times> string list \<Rightarrow> (string list \<Rightarrow> string list \<times> string list) \<Rightarrow> string list \<times> string list" where
  "check_then a f = (case a of (es, seen) \<Rightarrow> (case f seen of (fs, seen') \<Rightarrow> (es @ fs, seen')))"

lemma check_then_cong [fundef_cong]: "a = a' \<Longrightarrow> (\<And>s. f s = f' s) \<Longrightarrow> check_then a f = check_then a' f'"
  by (auto simp: check_then_def split: prod.splits)

function validateGeneratedWorkflowStepInput :: "json \<Rightarrow> string \<Rightarrow> string list \<Rightarrow> string list \<times> string list"
  and validate_items :: "json list \<Rightarrow> string \<Rightarrow> nat \<Rightarrow> string list \<Rightarrow> string list \<times> string list" where
  "validateGeneratedWorkflowStepInput step path seen =
     (case step of
        JObj o1 \<Rightarrow> check_then (id_errors path o1 seen) (\<lambda>seen.
          if jget o1 ''type'' = Some (JStr ''action'') then
            check_then (check_then (action_errors path o1, seen) (\<lambda>seen.
              case jget o1 ''onFailureSteps'' of
                None \<Rightarrow> ([], seen)
              | Some (JArr xs) \<Rightarrow> validate_items xs (path @ ''.onFailureSteps'') 0 seen
              | Some _ \<Rightarrow> ([path @ ''.onFailureSteps must be a step array when provided''], seen)))
            (\<lambda>seen. (unless_msg (optionally (number_from 1) (jget o1 ''timeoutMs''))
                (path @ ''.timeoutMs must be a positive number when provided''), seen))
          else if jget o1 ''type'' = Some (JStr ''wait'') then (wait_errors path o1, seen)
          else if jget o1 ''type'' = Some (JStr ''condition'') then
            check_then (check_then (condition_errors path o1, seen) (\<lambda>seen.
              case jget o1 ''if_true'' of
                Some (JArr (x # xs)) \<Rightarrow> validate_items (x # xs) (path @ ''.if_true'') 0 seen
              | _ \<Rightarrow> ([path @ ''.if_true must be a non-empty step array''], seen)))
            (\<lambda>seen. case jget o1 ''if_false'' of
                None \<Rightarrow> ([], seen)
              | Some (JArr xs) \<Rightarrow> validate_items xs (path @ ''.if_false'') 0 seen
              | Some _ \<Rightarrow> ([path @ ''.if_false must be a step array when provided''], seen))
          else if jget o1 ''type'' = Some (JStr ''loop'') then
            check_then (validateRangeObject (jget o1 ''count'') (path @ ''.count''), seen) (\<lambda>seen.
              case jget o1 ''steps'' of
                Some (JArr (x # xs)) \<Rightarrow> validate_items (x # xs) (path @ ''.steps'') 0 seen
              | _ \<Rightarrow> ([path @ ''.steps must be a non-empty step array for loop steps''], seen))
          else if jget o1 ''type'' = Some (JStr ''checkpoint'') then
            (unless_msg (case jget o1 ''id'' of Some v \<Rightarrow> nonempty_text v | None \<Rightarrow> False)
              (path @ ''.id is required for checkpoint steps''), seen)
          else ([path @ ''.type must be one of: '' @ intercalate '', '' step_types], seen))
      | _ \<Rightarrow> ([path @ '' must be an object''], seen))"
| "validate_items [] path i seen = ([], seen)"
| "validate_items (x # xs) path i seen =
     check_then (validateGeneratedWorkflowStepInput x (item_path path i) seen) (\<lambda>seen. validate_items xs path (Suc i) seen)"
  by pat_completeness auto
termination
  by (relation "measure (\<lambda>x. case x of Inl (v, _) \<Rightarrow> size v | Inr (xs, _) \<Rightarrow> size (JArr xs))") (auto dest!: size_member)

section \<open>Policies and templates\<close>

definition requests_errors :: "string \<Rightarrow> json list \<Rightarrow> string list" where
  "requests_errors path xs =
     (if \<not> list_all nonempty_text xs then [path @ '' must be an array of non-empty strings'']
      else unless_msg (list_all identifier_text xs) (path @ '' must contain safe policy identifiers''))"

definition optional_requests_errors :: "string \<Rightarrow> json option \<Rightarrow> string list" where
  "optional_requests_errors path v =
     (case v of None \<Rightarrow> [] | Some (JArr xs) \<Rightarrow> requests_errors path xs
      | Some _ \<Rightarrow> [path @ '' must be an array of non-empty strings''])"

definition validateGeneratedWorkflowRecoveryPolicy :: "json \<Rightarrow> string \<Rightarrow> string list" where
  "validateGeneratedWorkflowRecoveryPolicy v path =
     (case v of
        JObj p \<Rightarrow>
          unless_msg (optionally identifier_text (jget p ''autonomy'')) (path @ ''.autonomy must be a safe policy identifier'')
          @ unless_msg (optionally is_boolean (jget p ''aiRecoveryEnabled'')) (path @ ''.aiRecoveryEnabled must be a boolean'')
          @ concat (map (\<lambda>k. unless_msg (optionally (\<lambda>v. case v of JNum x \<Rightarrow> is_integer x \<and> 0 \<le> x \<and> x \<le> 20 | _ \<Rightarrow> False) (jget p k))
              (path @ ''.'' @ k @ '' must be an integer between 0 and 20''))
              [''maxAttemptsPerStep'', ''maxAttemptsPerWorkflow'', ''maxRecoveryActionsPerAttempt''])
          @ optional_requests_errors (path @ ''.allowedRecoveryRequests'') (jget p ''allowedRecoveryRequests'')
          @ concat (map (\<lambda>k. unless_msg (optionally is_boolean (jget p k)) (path @ ''.'' @ k @ '' must be a boolean when provided''))
              [''requireStateVerification'', ''learnFromFailure''])
      | _ \<Rightarrow> [path @ '' must be an object when provided''])"

definition capabilities_errors :: "json option \<Rightarrow> string list" where
  "capabilities_errors v =
     (let broken = [''workflow.requiredRecoveryCapabilities must be an array of at most 32 non-empty strings'']
      in case v of
        None \<Rightarrow> []
      | Some (JArr xs) \<Rightarrow>
          if 32 < length xs \<or> \<not> list_all nonempty_text xs then broken
          else unless_msg (distinct xs) ''workflow.requiredRecoveryCapabilities must not contain duplicates''
             @ unless_msg (list_all identifier_text xs) ''workflow.requiredRecoveryCapabilities must contain safe policy identifiers''
      | Some _ \<Rightarrow> broken)"

definition present_text :: "jobj \<Rightarrow> string \<Rightarrow> bool" where
  "present_text t k \<longleftrightarrow> (case jget t k of Some v \<Rightarrow> nonempty_text v | None \<Rightarrow> False)"

definition text_errors :: "jobj \<Rightarrow> string \<Rightarrow> string list" where
  "text_errors t k = unless_msg (present_text t k) (''workflow.'' @ k @ '' must be a non-empty string'')"

text \<open>The platform is replaced by its normal form when that is an identifier.\<close>

definition platform_check :: "jobj \<Rightarrow> string list \<times> jobj" where
  "platform_check t =
     (case jget t ''platform'' of
        Some (JStr (c # cs)) \<Rightarrow>
          (let p = normalizeGeneratedWorkflowPlatform (c # cs)
           in if catalog_identifier p then ([], jset t ''platform'' (JStr p))
              else ([''workflow.platform must be a safe app/profile identifier''], t))
      | _ \<Rightarrow> ([''workflow.platform must be a non-empty string''], t))"

definition head_errors :: "jobj \<Rightarrow> string list" where
  "head_errors t =
     unless_msg (optionally identifier_text (jget t ''runtimeContract''))
       ''workflow.runtimeContract must be a safe non-empty contract identifier when provided''
   @ text_errors t ''id'' @ text_errors t ''name''"

definition middle_errors :: "jobj \<Rightarrow> string list" where
  "middle_errors t =
     text_errors t ''description'' @ text_errors t ''version''
   @ unless_msg (optionally (\<lambda>v. case v of JStr s \<Rightarrow> catalog_identifier (js_lower (js_trim s)) | _ \<Rightarrow> False) (jget t ''intent''))
       ''workflow.intent must be a safe catalog identifier when provided''
   @ unless_msg (optionally identifier_text (jget t ''safetyClass'')) ''workflow.safetyClass must be a safe non-empty policy identifier''
   @ (case jget t ''outputSchema'' of None \<Rightarrow> [] | Some v \<Rightarrow> validateGeneratedWorkflowOutputSchema v ''workflow.outputSchema'')
   @ (case jget t ''postconditionContract'' of None \<Rightarrow> []
      | Some v \<Rightarrow> validateWorkflowPostconditionContract v ''workflow.postconditionContract'')"

definition tail_errors :: "jobj \<Rightarrow> string list" where
  "tail_errors t =
     optional_requests_errors ''workflow.allowedRecoveryRequests'' (jget t ''allowedRecoveryRequests'')
   @ capabilities_errors (jget t ''requiredRecoveryCapabilities'')
   @ (case jget t ''recoveryPolicy'' of None \<Rightarrow> [] | Some v \<Rightarrow> validateGeneratedWorkflowRecoveryPolicy v ''workflow.recoveryPolicy'')
   @ unless_msg (optionally identifier_text (jget t ''defaultVerificationStrategy''))
       ''workflow.defaultVerificationStrategy must be a safe runtime policy identifier''
   @ unless_msg (optionally (number_from 0) (jget t ''dataRetentionDays''))
       ''workflow.dataRetentionDays must be a non-negative number when provided''
   @ (case jget t ''steps'' of
        Some (JArr (x # xs)) \<Rightarrow> fst (validate_items (x # xs) ''workflow.steps'' 0 [])
      | _ \<Rightarrow> [''workflow.steps must be a non-empty array''])"

definition goal_violation :: "goal_reason option \<Rightarrow> template_error list" where
  "goal_violation r = (case r of None \<Rightarrow> [] | Some e \<Rightarrow> [GoalViolation e])"

text \<open>The goal contract is replaced by its parsed form before the template is held against it.\<close>

definition goal_check :: "jobj \<Rightarrow> (template_error list \<times> jobj) res" where
  "goal_check t =
     (case jget t ''goalContract'' of
        None \<Rightarrow> Inr ([], t)
      | Some v \<Rightarrow>
          (case parseWorkflowGoalContract v of
             None \<Rightarrow> Inr ([Message ''workflow.goalContract is invalid''], t)
           | Some c \<Rightarrow>
               (let t' = jset t ''goalContract'' (goal_contract_json c)
                in res_bind (workflowGoalContractReason t' None) (\<lambda>r. Inr (goal_violation r, t')))))"

definition validateGeneratedWorkflowGoalSemantics :: "jobj \<Rightarrow> template_error list res" where
  "validateGeneratedWorkflowGoalSemantics t =
     (if js_truthy (jget t ''goalContract'')
      then res_bind (workflowGoalContractReason t None) (\<lambda>r. Inr (goal_violation r))
      else Inr [])"

definition validateGeneratedWorkflowTemplate :: "json \<Rightarrow> (template_error list + jobj) res" where
  "validateGeneratedWorkflowTemplate template =
     (case normalizeNestedObservationPrimitiveParams template of
        JObj t \<Rightarrow>
          (case platform_check t of (platform, t1) \<Rightarrow>
             res_bind (goal_check t1) (\<lambda>(goal, t2).
             res_bind (validateGeneratedWorkflowGoalSemantics t2) (\<lambda>semantics.
               (let errors = map Message (head_errors t @ platform @ middle_errors t1) @ goal
                      @ map Message (tail_errors t2) @ semantics
                in Inr (if errors = [] then Inr t2 else Inl errors)))))
      | _ \<Rightarrow> Inr (Inl [Message ''workflow must be an object'']))"

end
