(* ===== verification/Template_Plan.thy ===== *)
theory Template_Plan imports Template_Text Template_Validator
begin

text \<open>
  Compiled plans of generated workflows
  (\<^verbatim>\<open>src/src/modules/workflows/workflow-validator.ts\<close>): the provenance of an action, the
  compilation of a template, the check of a plan against its template, and the staleness of a
  cached plan. A template is of the declared type: where a list of steps is declared there is
  a list. SHA-256 and the texts of numbers are parameters.
\<close>

section \<open>Provenance\<close>

datatype GeneratedWorkflowBindingSource = AppMapSelector | AppMapCoordinate | UiTreeSelector | RawCoordinate | Fallback

definition binding_name :: "GeneratedWorkflowBindingSource \<Rightarrow> string" where
  "binding_name b = (case b of AppMapSelector \<Rightarrow> ''app_map_selector'' | AppMapCoordinate \<Rightarrow> ''app_map_coordinate''
     | UiTreeSelector \<Rightarrow> ''ui_tree_selector'' | RawCoordinate \<Rightarrow> ''raw_coordinate'' | Fallback \<Rightarrow> ''fallback'')"

definition binding_of_text :: "json option \<Rightarrow> GeneratedWorkflowBindingSource option" where
  "binding_of_text v = (case text_value v of None \<Rightarrow> None | Some s \<Rightarrow>
     find (\<lambda>b. binding_name b = s) [AppMapSelector, AppMapCoordinate, UiTreeSelector, RawCoordinate, Fallback])"

record provenance_selector =
  ps_id :: "string option"
  ps_name :: "string option"
  ps_target :: "string option"

record provenance_page =
  pp_id :: "string option"
  pp_signature :: "string option"

record provenance_coordinate =
  pc_x :: "rat option"
  pc_y :: "rat option"
  pc_bounds :: "json option"
  pc_source :: "string option"
  pc_bounds_source :: "string option"

record GeneratedWorkflowStepProvenance =
  sp_app_map :: bool
  sp_binding :: GeneratedWorkflowBindingSource
  sp_selector :: "provenance_selector option"
  sp_page :: "provenance_page option"
  sp_coordinate :: "provenance_coordinate option"
  sp_fallback :: "string option"

text \<open>\<^verbatim>\<open>step.params?.key\<close> and \<^verbatim>\<open>step.params ?? {}\<close>.\<close>

definition params_of :: "jobj \<Rightarrow> jobj" where
  "params_of step = odefault (record_value (jget step ''params'')) []"

definition stringParam :: "json option \<Rightarrow> string option" where
  "stringParam v = (case text_value v of Some s \<Rightarrow> if js_trim s = [] then None else Some s | None \<Rightarrow> None)"

text \<open>What follows the first colon, or the whole target when it has none.\<close>

definition parseSelectorIdFromTarget :: "string option \<Rightarrow> string option" where
  "parseSelectorIdFromTarget target =
     (case target of
        None \<Rightarrow> None
      | Some t \<Rightarrow>
          if t = [] then None
          else (let marker = (if CHR '':'' \<in> set t then tl (dropWhile (\<lambda>c. c \<noteq> CHR '':'') t) else t)
                in if js_trim marker = [] then None else Some marker))"

definition target_of :: "jobj \<Rightarrow> string option" where
  "target_of step = (case text_value (jget step ''target'') of Some t \<Rightarrow> if t = [] then None else Some t | None \<Rightarrow> None)"

definition starts_with :: "string \<Rightarrow> string \<Rightarrow> bool" where
  "starts_with s p \<longleftrightarrow> take (length p) s = p"

definition inferGeneratedWorkflowBindingSourceFromShape :: "jobj \<Rightarrow> GeneratedWorkflowBindingSource" where
  "inferGeneratedWorkflowBindingSourceFromShape step =
     (if \<not> is_action step then Fallback
      else case binding_of_text (jget (params_of step) ''bindingSource'') of
        Some b \<Rightarrow> b
      | None \<Rightarrow>
          (case target_of step of
             Some t \<Rightarrow> if starts_with t ''app_map:'' \<or> starts_with t ''app_map_selector:'' \<or> starts_with t ''map:''
               then AppMapSelector else UiTreeSelector
           | None \<Rightarrow>
               if number_value (jget step ''x'') \<noteq> None \<and> number_value (jget step ''y'') \<noteq> None
               then (if jget (params_of step) ''coordinateSource'' = Some (JStr ''app_map'') then AppMapCoordinate else RawCoordinate)
               else Fallback))"

definition inferFallbackReason :: "jobj \<Rightarrow> string" where
  "inferFallbackReason step =
     (if \<not> is_action step then ''non_action_step''
      else if \<not> js_truthy (jget step ''target'') \<and> number_value (jget step ''x'') = None \<and> number_value (jget step ''y'') = None
      then ''no_selector_or_coordinate'' else ''explicit_fallback_binding'')"

fun first_text :: "string option list \<Rightarrow> string option" where
  "first_text [] = None"
| "first_text (x # xs) = coalesce x (first_text xs)"

definition non_action_provenance :: GeneratedWorkflowStepProvenance where
  "non_action_provenance = \<lparr>sp_app_map = False, sp_binding = Fallback, sp_selector = None, sp_page = None,
     sp_coordinate = None, sp_fallback = Some ''non_action_step''\<rparr>"

definition selector_of :: "jobj \<Rightarrow> provenance_selector option" where
  "selector_of step =
     (let p = params_of step; target = target_of step;
          selectorId = first_text [stringParam (jget p ''selectorId''), stringParam (jget p ''elementId''),
            stringParam (jget p ''appMapElementId''), parseSelectorIdFromTarget target];
          selectorName = first_text [stringParam (jget p ''selectorName''), stringParam (jget p ''elementName''),
            stringParam (jget p ''accessibilityName''),
            (case target of Some t \<Rightarrow> if CHR '':'' \<in> set t then None else Some t | None \<Rightarrow> None)]
      in if selectorId \<noteq> None \<or> selectorName \<noteq> None \<or> target \<noteq> None
         then Some \<lparr>ps_id = selectorId, ps_name = selectorName, ps_target = target\<rparr> else None)"

definition page_of :: "jobj \<Rightarrow> provenance_page option" where
  "page_of step =
     (let p = params_of step;
          i = first_text [stringParam (jget p ''pageId''), stringParam (jget p ''appMapPageId'')];
          signature = first_text [stringParam (jget p ''pageSignature''), stringParam (jget p ''signatureHash'')]
      in if i \<noteq> None \<or> signature \<noteq> None then Some \<lparr>pp_id = i, pp_signature = signature\<rparr> else None)"

definition coordinate_of :: "GeneratedWorkflowBindingSource \<Rightarrow> jobj \<Rightarrow> provenance_coordinate option" where
  "coordinate_of binding step =
     (let p = params_of step; x = number_value (jget step ''x''); y = number_value (jget step ''y'');
          source = first_text [stringParam (jget p ''coordinateSource''),
            (if binding = AppMapCoordinate then Some ''app_map'' else None),
            (if binding = RawCoordinate then Some ''raw'' else None)];
          boundsSource = first_text [stringParam (jget p ''boundsSource''),
            (if binding = AppMapCoordinate then Some ''app_map'' else None)]
      in if x \<noteq> None \<or> y \<noteq> None \<or> jhas p ''bounds'' \<or> source \<noteq> None \<or> boundsSource \<noteq> None
         then Some \<lparr>pc_x = x, pc_y = y, pc_bounds = jget p ''bounds'', pc_source = source, pc_bounds_source = boundsSource\<rparr>
         else None)"

definition getGeneratedWorkflowStepProvenance :: "jobj \<Rightarrow> GeneratedWorkflowStepProvenance" where
  "getGeneratedWorkflowStepProvenance step =
     (if \<not> is_action step then non_action_provenance
      else (let p = params_of step;
                binding = odefault (binding_of_text (jget p ''bindingSource'')) (inferGeneratedWorkflowBindingSourceFromShape step)
            in \<lparr>sp_app_map = (binding = AppMapSelector \<or> binding = AppMapCoordinate), sp_binding = binding,
                sp_selector = selector_of step, sp_page = page_of step, sp_coordinate = coordinate_of binding step,
                sp_fallback = (if binding = Fallback
                  then Some (odefault (stringParam (jget p ''fallbackReason'')) (inferFallbackReason step)) else None)\<rparr>))"

section \<open>Compilation\<close>

text \<open>The members that repeat parts of the provenance are written out in \<open>compiled_step_value\<close>.\<close>

record GeneratedWorkflowCompiledStep =
  kp_path :: string
  kp_type :: "json option"
  kp_id :: "json option"
  kp_action :: "json option"
  kp_verification :: "json option"
  kp_stage :: "json option"
  kp_effect :: "json option"
  kp_provenance :: "GeneratedWorkflowStepProvenance option"

record plan_tally =
  pt_steps :: "GeneratedWorkflowCompiledStep list"
  pt_actions :: nat
  pt_checkpoints :: nat
  pt_depth :: nat
  pt_llm :: nat

definition compile_step :: "json option \<Rightarrow> jobj \<Rightarrow> string \<Rightarrow> GeneratedWorkflowCompiledStep" where
  "compile_step verification step path =
     (if is_action step
      then \<lparr>kp_path = path, kp_type = jget step ''type'', kp_id = jget step ''id'', kp_action = jget step ''action'',
        kp_verification = coalesce (nullish (jget step ''verification'')) verification,
        kp_stage = jget step ''goalStage'', kp_effect = jget step ''effect'',
        kp_provenance = Some (getGeneratedWorkflowStepProvenance step)\<rparr>
      else \<lparr>kp_path = path, kp_type = jget step ''type'', kp_id = jget step ''id'', kp_action = None,
        kp_verification = None, kp_stage = None, kp_effect = None, kp_provenance = None\<rparr>)"

definition count_step :: "json option \<Rightarrow> jobj \<Rightarrow> string \<Rightarrow> plan_tally \<Rightarrow> plan_tally" where
  "count_step verification step path t =
     t\<lparr>pt_steps := pt_steps t @ [compile_step verification step path],
       pt_actions := (if is_action step then Suc (pt_actions t) else pt_actions t),
       pt_checkpoints := (if jget step ''type'' = Some (JStr ''checkpoint'') then Suc (pt_checkpoints t) else pt_checkpoints t),
       pt_llm := (if is_action step \<and> text_value (jget (params_of step) ''prompt'') \<noteq> None then Suc (pt_llm t) else pt_llm t)\<rparr>"

definition enter_level :: "nat \<Rightarrow> plan_tally \<Rightarrow> plan_tally" where
  "enter_level depth t = t\<lparr>pt_depth := max (pt_depth t) depth\<rparr>"

function visit_steps :: "json option \<Rightarrow> json list \<Rightarrow> string \<Rightarrow> nat \<Rightarrow> nat \<Rightarrow> plan_tally \<Rightarrow> plan_tally"
  and visit_lists :: "json option \<Rightarrow> (string \<times> json list) list \<Rightarrow> string \<Rightarrow> nat \<Rightarrow> plan_tally \<Rightarrow> plan_tally" where
  "visit_steps v [] prefix i depth t = t"
| "visit_steps v (x # xs) prefix i depth t =
     visit_steps v xs prefix (Suc i) depth
       (case x of
          JObj step \<Rightarrow> visit_lists v (nested_lists step) (item_path prefix i) (Suc depth) (count_step v step (item_path prefix i) t)
        | _ \<Rightarrow> t)"
| "visit_lists v [] path depth t = t"
| "visit_lists v ((k, xs) # ls) path depth t =
     visit_lists v ls path depth (visit_steps v xs (path @ ''.'' @ k) 0 depth (enter_level depth t))"
  by pat_completeness auto
termination
proof (relation "measure (\<lambda>x. case x of Inl (_, xs, _) \<Rightarrow> size (JArr xs) | Inr (_, ls, _) \<Rightarrow> Suc (lists_size ls))", goal_cases)
  case 2
  then show ?case by simp (metis size_nested_item)
qed (simp_all add: lists_size_def)

record GeneratedWorkflowAppMapCacheMetadata =
  am_app :: string
  am_version :: string
  am_app_version :: "string option"
  am_width :: "rat option"
  am_height :: "rat option"
  am_usable :: bool
  am_stats :: json
  am_errors :: "string list"
  am_warnings :: "string list"

record GeneratedWorkflowCompiledPlan =
  gw_cache_key :: string
  gw_template :: "json option"
  gw_platform :: "json option"
  gw_version :: "json option"
  gw_metadata :: "(string \<times> jsval) list"
  gw_app_map :: "GeneratedWorkflowAppMapCacheMetadata option"
  gw_step_count :: nat
  gw_action_count :: nat
  gw_checkpoint_count :: nat
  gw_depth :: nat
  gw_llm_requests :: nat
  gw_steps :: "GeneratedWorkflowCompiledStep list"

definition plan_version :: string where
  "plan_version = ''generated-workflow-plan/v1''"

definition or_undefined :: "json option \<Rightarrow> jsval" where
  "or_undefined v = (case v of None \<Rightarrow> VUndef | Some x \<Rightarrow> json_parse x)"

definition or_default :: "jsval \<Rightarrow> json option \<Rightarrow> jsval" where
  "or_default d v = (case nullish v of None \<Rightarrow> d | Some x \<Rightarrow> json_parse x)"

text \<open>The members a plan repeats, and the value whose text decides the cache key.\<close>

definition metadata_of :: "jobj \<Rightarrow> (string \<times> jsval) list" where
  "metadata_of t =
     [(''intent'', or_default VNull (jget t ''intent'')), (''safetyClass'', or_default VNull (jget t ''safetyClass'')),
      (''outputSchema'', or_default VNull (jget t ''outputSchema'')),
      (''postconditionContract'', or_default VNull (jget t ''postconditionContract'')),
      (''goalContract'', or_default VNull (jget t ''goalContract'')),
      (''allowedRecoveryRequests'', or_default (VArr []) (jget t ''allowedRecoveryRequests'')),
      (''requiredRecoveryCapabilities'', or_default (VArr []) (jget t ''requiredRecoveryCapabilities'')),
      (''recoveryPolicy'', or_default VNull (jget t ''recoveryPolicy''))]"

definition cache_source :: "jobj \<Rightarrow> jsval" where
  "cache_source t = VObj
     ([(''id'', or_undefined (jget t ''id'')), (''platform'', or_undefined (jget t ''platform'')),
       (''version'', or_undefined (jget t ''version''))] @ metadata_of t
      @ [(''defaultVerificationStrategy'', or_undefined (jget t ''defaultVerificationStrategy'')),
         (''steps'', or_undefined (jget t ''steps'')), (''runtimeContract'', or_default VNull (jget t ''runtimeContract''))])"

definition cache_key :: "(string \<Rightarrow> string) \<Rightarrow> (rat \<Rightarrow> string) \<Rightarrow> jobj \<Rightarrow> string" where
  "cache_key sha256 num t = take 24 (sha256 (the (stableStringify num (cache_source t))))"

definition compile_tally :: "jobj \<Rightarrow> plan_tally" where
  "compile_tally t = visit_steps (jget t ''defaultVerificationStrategy'') (odefault (list_value (jget t ''steps'')) [])
     ''workflow.steps'' 0 1 (enter_level 1 \<lparr>pt_steps = [], pt_actions = 0, pt_checkpoints = 0, pt_depth = 0, pt_llm = 0\<rparr>)"

definition compileGeneratedWorkflowTemplate :: "(string \<Rightarrow> string) \<Rightarrow> (rat \<Rightarrow> string) \<Rightarrow> jobj \<Rightarrow> GeneratedWorkflowCompiledPlan" where
  "compileGeneratedWorkflowTemplate sha256 num t =
     (let y = compile_tally t
      in \<lparr>gw_cache_key = cache_key sha256 num t, gw_template = jget t ''id'', gw_platform = jget t ''platform'',
          gw_version = jget t ''version'', gw_metadata = metadata_of t, gw_app_map = None,
          gw_step_count = length (pt_steps y), gw_action_count = pt_actions y, gw_checkpoint_count = pt_checkpoints y,
          gw_depth = pt_depth y, gw_llm_requests = pt_llm y, gw_steps = pt_steps y\<rparr>)"

section \<open>Plans as values\<close>

definition text_or_undefined :: "string option \<Rightarrow> jsval" where
  "text_or_undefined v = (case v of None \<Rightarrow> VUndef | Some s \<Rightarrow> VStr s)"

definition number_or :: "jsval \<Rightarrow> rat option \<Rightarrow> jsval" where
  "number_or d v = (case v of None \<Rightarrow> d | Some x \<Rightarrow> VNum x)"

definition provenance_value :: "GeneratedWorkflowStepProvenance \<Rightarrow> jsval" where
  "provenance_value p = VObj
     [(''usedAppMap'', VBool (sp_app_map p)), (''bindingSource'', VStr (binding_name (sp_binding p))),
      (''selector'', case sp_selector p of None \<Rightarrow> VUndef | Some x \<Rightarrow> VObj [(''id'', text_or_undefined (ps_id x)),
         (''name'', text_or_undefined (ps_name x)), (''target'', text_or_undefined (ps_target x))]),
      (''page'', case sp_page p of None \<Rightarrow> VUndef | Some x \<Rightarrow> VObj [(''id'', text_or_undefined (pp_id x)),
         (''signature'', text_or_undefined (pp_signature x))]),
      (''coordinate'', case sp_coordinate p of None \<Rightarrow> VUndef | Some x \<Rightarrow> VObj [(''x'', number_or VUndef (pc_x x)),
         (''y'', number_or VUndef (pc_y x)), (''bounds'', or_undefined (pc_bounds x)),
         (''source'', text_or_undefined (pc_source x)), (''boundsSource'', text_or_undefined (pc_bounds_source x))]),
      (''fallbackReason'', text_or_undefined (sp_fallback p))]"

definition option_bind :: "'a option \<Rightarrow> ('a \<Rightarrow> 'b option) \<Rightarrow> 'b option" where
  "option_bind v f = (case v of None \<Rightarrow> None | Some x \<Rightarrow> f x)"

definition compiled_step_value :: "GeneratedWorkflowCompiledStep \<Rightarrow> jsval" where
  "compiled_step_value k = VObj
     ([(''path'', VStr (kp_path k)), (''type'', or_undefined (kp_type k)), (''id'', or_undefined (kp_id k))]
      @ (case kp_provenance k of
           None \<Rightarrow> []
         | Some p \<Rightarrow>
             [(''action'', or_undefined (kp_action k)), (''goalStage'', or_undefined (kp_stage k)),
              (''effect'', or_undefined (kp_effect k)), (''verification'', or_undefined (kp_verification k)),
              (''provenance'', provenance_value p), (''bindingSource'', VStr (binding_name (sp_binding p))),
              (''usedAppMap'', VBool (sp_app_map p)),
              (''selectorId'', text_or_undefined (option_bind (sp_selector p) ps_id)),
              (''selectorName'', text_or_undefined (option_bind (sp_selector p) ps_name)),
              (''pageId'', text_or_undefined (option_bind (sp_page p) pp_id)),
              (''pageSignature'', text_or_undefined (option_bind (sp_page p) pp_signature)),
              (''coordinateSource'', text_or_undefined (option_bind (sp_coordinate p) pc_source)),
              (''boundsSource'', text_or_undefined (option_bind (sp_coordinate p) pc_bounds_source)),
              (''fallbackReason'', text_or_undefined (sp_fallback p))]))"

definition texts_value :: "string list \<Rightarrow> jsval" where
  "texts_value xs = VArr (map VStr xs)"

definition app_map_value :: "GeneratedWorkflowAppMapCacheMetadata option \<Rightarrow> jsval" where
  "app_map_value v =
     (case v of
        None \<Rightarrow> VUndef
      | Some a \<Rightarrow> VObj [(''appId'', VStr (am_app a)), (''mapVersion'', VStr (am_version a)),
          (''appVersion'', case am_app_version a of None \<Rightarrow> VNull | Some s \<Rightarrow> VStr s),
          (''resolution'', VObj [(''width'', number_or VNull (am_width a)), (''height'', number_or VNull (am_height a))]),
          (''qualityUsable'', VBool (am_usable a)), (''qualityStats'', json_parse (am_stats a)),
          (''qualityErrors'', texts_value (am_errors a)), (''qualityWarnings'', texts_value (am_warnings a))])"

definition vnat :: "nat \<Rightarrow> jsval" where
  "vnat n = VNum (of_nat n)"

definition plan_value :: "GeneratedWorkflowCompiledPlan \<Rightarrow> jsval" where
  "plan_value p = VObj
     [(''planVersion'', VStr plan_version), (''cacheKey'', VStr (gw_cache_key p)),
      (''templateId'', or_undefined (gw_template p)), (''platform'', or_undefined (gw_platform p)),
      (''templateVersion'', or_undefined (gw_version p)),
      (''metadata'', VObj (gw_metadata p @ [(''appMap'', app_map_value (gw_app_map p))])),
      (''stepCount'', vnat (gw_step_count p)), (''actionCount'', vnat (gw_action_count p)),
      (''checkpointCount'', vnat (gw_checkpoint_count p)), (''maxDepth'', vnat (gw_depth p)),
      (''llmBudget'', VObj [(''happyPathRequests'', vnat (gw_llm_requests p)), (''recoveryRequests'', VStr ''only_on_failure'')]),
      (''steps'', VArr (map compiled_step_value (gw_steps p)))]"

definition computeGeneratedWorkflowCompiledPlanHash :: "(string \<Rightarrow> string) \<Rightarrow> (rat \<Rightarrow> string) \<Rightarrow> GeneratedWorkflowCompiledPlan \<Rightarrow> string" where
  "computeGeneratedWorkflowCompiledPlanHash sha256 num p = sha256 (the (stableStringify num (plan_value p)))"

text \<open>The stored form of a plan: \<^verbatim>\<open>JSON.stringify\<close> drops its undefined members.\<close>

definition stored_plan :: "GeneratedWorkflowCompiledPlan \<Rightarrow> json" where
  "stored_plan p = the (json_stringify (plan_value p))"

section \<open>Plans against templates\<close>

definition must_match :: "jobj \<Rightarrow> string \<Rightarrow> json option \<Rightarrow> string list" where
  "must_match candidate k expected =
     unless_msg (jget candidate k = expected) (''compiledPlan.'' @ k @ '' must match the validated workflow template'')"

definition step_action_errors :: "string \<Rightarrow> jobj \<Rightarrow> GeneratedWorkflowCompiledStep \<Rightarrow> string list" where
  "step_action_errors path step expected =
     (if is_action step then
        (case jget step ''action'' of
           Some (JStr (c # cs)) \<Rightarrow> unless_msg (Some (JStr (c # cs)) = kp_action expected) (path @ ''.action must match the validated workflow template'')
         | _ \<Rightarrow> [path @ ''.action must be a non-empty string for executable action steps''])
      else unless_msg (\<not> jhas step ''action'') (path @ ''.action must not be declared for non-action steps''))"

definition step_errors :: "GeneratedWorkflowCompiledStep list \<Rightarrow> nat \<times> json \<Rightarrow> string list" where
  "step_errors expected ix =
     (case ix of (i, v) \<Rightarrow>
        let path = item_path ''compiledPlan.steps'' i
        in case v of
             JObj step \<Rightarrow>
               if length expected \<le> i then [path @ '' is not present in the validated workflow template'']
               else (let e = expected ! i
                     in unless_msg (jget step ''path'' = Some (JStr (kp_path e))) (path @ ''.path must match the validated workflow template'')
                      @ unless_msg (jget step ''type'' = kp_type e) (path @ ''.type must match the validated workflow template'')
                      @ unless_msg (jget step ''id'' = kp_id e) (path @ ''.id must match the validated workflow template'')
                      @ step_action_errors path step e)
           | _ \<Rightarrow> [path @ '' must be an object''])"

definition budget_errors :: "json option \<Rightarrow> nat \<Rightarrow> string list" where
  "budget_errors v requests =
     (case v of
        Some (JObj b) \<Rightarrow>
          unless_msg (jget b ''happyPathRequests'' = Some (jnat requests))
            ''compiledPlan.llmBudget.happyPathRequests must match the validated workflow template''
          @ unless_msg (jget b ''recoveryRequests'' = Some (JStr ''only_on_failure''))
            ''compiledPlan.llmBudget.recoveryRequests must match the validated workflow template''
      | _ \<Rightarrow> [''compiledPlan.llmBudget must be an object''])"

definition validateGeneratedWorkflowCompiledPlan :: "(string \<Rightarrow> string) \<Rightarrow> (rat \<Rightarrow> string) \<Rightarrow> jobj \<Rightarrow> json \<Rightarrow> string list" where
  "validateGeneratedWorkflowCompiledPlan sha256 num t compiledPlan =
     (case compiledPlan of
        JObj candidate \<Rightarrow>
          (let e = compileGeneratedWorkflowTemplate sha256 num t
           in must_match candidate ''planVersion'' (Some (JStr plan_version))
            @ must_match candidate ''cacheKey'' (Some (JStr (gw_cache_key e)))
            @ must_match candidate ''templateId'' (gw_template e)
            @ must_match candidate ''platform'' (gw_platform e)
            @ must_match candidate ''templateVersion'' (gw_version e)
            @ must_match candidate ''stepCount'' (Some (jnat (gw_step_count e)))
            @ must_match candidate ''actionCount'' (Some (jnat (gw_action_count e)))
            @ must_match candidate ''checkpointCount'' (Some (jnat (gw_checkpoint_count e)))
            @ must_match candidate ''maxDepth'' (Some (jnat (gw_depth e)))
            @ budget_errors (jget candidate ''llmBudget'') (gw_llm_requests e)
            @ (case jget candidate ''steps'' of
                 Some (JArr ss) \<Rightarrow>
                   unless_msg (length ss = length (gw_steps e)) ''compiledPlan.steps must not add or omit executable workflow steps''
                   @ concat (map (step_errors (gw_steps e)) (enumerate 0 ss))
               | _ \<Rightarrow> [''compiledPlan.steps must be an array'']))
      | _ \<Rightarrow> [''compiledPlan must be an object''])"

section \<open>Stale plans\<close>

record app_map_view =
  mv_app :: string
  mv_version :: string
  mv_app_version :: "string option"
  mv_width :: "rat option"
  mv_height :: "rat option"

record app_map_quality =
  mq_usable :: bool
  mq_stats :: json
  mq_errors :: "string list"
  mq_warnings :: "string list"

definition buildGeneratedWorkflowAppMapCacheMetadata :: "app_map_view \<Rightarrow> app_map_quality \<Rightarrow> GeneratedWorkflowAppMapCacheMetadata" where
  "buildGeneratedWorkflowAppMapCacheMetadata m q = \<lparr>am_app = mv_app m, am_version = mv_version m,
     am_app_version = mv_app_version m, am_width = mv_width m, am_height = mv_height m, am_usable = mq_usable q,
     am_stats = mq_stats q, am_errors = mq_errors q, am_warnings = mq_warnings q\<rparr>"

definition withGeneratedWorkflowAppMapCacheMetadata :: "GeneratedWorkflowCompiledPlan \<Rightarrow> GeneratedWorkflowAppMapCacheMetadata option
    \<Rightarrow> GeneratedWorkflowCompiledPlan" where
  "withGeneratedWorkflowAppMapCacheMetadata p a = (if a = None then p else p\<lparr>gw_app_map := a\<rparr>)"

definition generatedWorkflowPlanUsesAppMap :: "GeneratedWorkflowCompiledPlan \<Rightarrow> bool" where
  "generatedWorkflowPlanUsesAppMap p \<longleftrightarrow> gw_app_map p \<noteq> None
     \<or> (\<exists>k \<in> set (gw_steps p). case kp_provenance k of None \<Rightarrow> False
          | Some v \<Rightarrow> sp_app_map v \<or> sp_binding v = AppMapSelector \<or> sp_binding v = AppMapCoordinate)"

datatype stale_code = AppMapMissing | AppMapUnusable | AppMapVersionChanged | AppVersionChanged | ResolutionChanged

text \<open>\<open>None\<close> is a plan that is not stale.\<close>

definition assessGeneratedWorkflowCacheInvalidation :: "GeneratedWorkflowCompiledPlan \<Rightarrow> app_map_view option \<Rightarrow> app_map_quality option
    \<Rightarrow> stale_code option" where
  "assessGeneratedWorkflowCacheInvalidation p current quality =
     (if \<not> generatedWorkflowPlanUsesAppMap p then None
      else case gw_app_map p of
        None \<Rightarrow> Some AppMapMissing
      | Some cached \<Rightarrow>
          (case (current, quality) of
             (Some m, Some q) \<Rightarrow>
               if \<not> mq_usable q then Some AppMapUnusable
               else if mv_version m \<noteq> am_version cached then Some AppMapVersionChanged
               else if mv_app_version m \<noteq> am_app_version cached then Some AppVersionChanged
               else if mv_width m \<noteq> am_width cached \<or> mv_height m \<noteq> am_height cached then Some ResolutionChanged
               else None
           | _ \<Rightarrow> Some AppMapMissing))"

end
