(* ===== verification/Template_Steps.thy ===== *)
theory Template_Steps imports Template_Validator
begin

text \<open>
  What the checks of template steps accept: conditions on every single step, at any depth,
  and distinct identifiers across the whole template.
\<close>

section \<open>Conditions on one step\<close>

definition present_identifier :: "jobj \<Rightarrow> string \<Rightarrow> bool" where
  "present_identifier o1 k \<longleftrightarrow> (case jget o1 k of Some v \<Rightarrow> identifier_text v | None \<Rightarrow> False)"

definition present_nonempty :: "jobj \<Rightarrow> string \<Rightarrow> bool" where
  "present_nonempty o1 k \<longleftrightarrow> (case jget o1 k of Some v \<Rightarrow> nonempty_text v | None \<Rightarrow> False)"

definition range_fits :: "json option \<Rightarrow> bool" where
  "range_fits v \<longleftrightarrow> (\<exists>o1 lo hi. v = Some (JObj o1) \<and> jget o1 ''min'' = Some (JNum lo) \<and> jget o1 ''max'' = Some (JNum hi)
     \<and> lo \<le> hi \<and> present_identifier o1 ''distribution'')"

definition screen_fits :: "json \<Rightarrow> bool" where
  "screen_fits v \<longleftrightarrow> (case v of JArr xs \<Rightarrow> list_all solid_text xs | _ \<Rightarrow> solid_text v)"

definition opcode_fits :: "json \<Rightarrow> bool" where
  "opcode_fits v \<longleftrightarrow> (case v of JNum x \<Rightarrow> is_safe_integer x \<and> 0 \<le> x | _ \<Rightarrow> False)"

definition action_fits :: "jobj \<Rightarrow> bool" where
  "action_fits o1 \<longleftrightarrow> present_identifier o1 ''action''
   \<and> (\<forall>(k, p) \<in> {(''params'', is_record), (''goalStage'', solid_text), (''effect'', identifier_text), (''x'', is_number),
        (''y'', is_number), (''verification'', identifier_text), (''expectedScreen'', screen_fits),
        (''retries'', number_from 0), (''retryDelayMs'', number_between 0 600000), (''delayAfterMs'', number_between 0 600000),
        (''saveOutputAs'', nonempty_text), (''failureOpcode'', opcode_fits), (''timeoutMs'', number_from 1)}.
        optionally p (jget o1 k))"

definition until_fits :: "json \<Rightarrow> bool" where
  "until_fits v \<longleftrightarrow> (case v of
      JObj u \<Rightarrow> present_identifier u ''action'' \<and> optionally is_record (jget u ''params'') \<and> present_identifier u ''operator''
        \<and> (case jget u ''timeoutMs'' of Some t \<Rightarrow> number_between 1 600000 t | None \<Rightarrow> False)
    | _ \<Rightarrow> False)"

definition wait_fits :: "jobj \<Rightarrow> bool" where
  "wait_fits o1 \<longleftrightarrow> (jhas o1 ''duration'' \<or> jhas o1 ''condition'' \<or> jhas o1 ''until'')
     \<and> (jhas o1 ''duration'' \<longrightarrow> range_fits (jget o1 ''duration''))
     \<and> optionally is_text (jget o1 ''condition'') \<and> optionally until_fits (jget o1 ''until'')"

definition is_list :: "json \<Rightarrow> bool" where
  "is_list v \<longleftrightarrow> (case v of JArr xs \<Rightarrow> True | _ \<Rightarrow> False)"

definition filled_list :: "json option \<Rightarrow> bool" where
  "filled_list v \<longleftrightarrow> (case v of Some (JArr xs) \<Rightarrow> xs \<noteq> [] | _ \<Rightarrow> False)"

definition condition_fits :: "jobj \<Rightarrow> bool" where
  "condition_fits o1 \<longleftrightarrow> (present_nonempty o1 ''check'' \<or> present_nonempty o1 ''expression'')
     \<and> optionally (number_between 0 1) (jget o1 ''probability'')
     \<and> filled_list (jget o1 ''if_true'') \<and> optionally is_list (jget o1 ''if_false'')"

definition typed_fits :: "jobj \<Rightarrow> bool" where
  "typed_fits o1 \<longleftrightarrow> (case jget o1 ''type'' of
      Some (JStr t) \<Rightarrow>
        (t = ''action'' \<and> action_fits o1 \<and> optionally is_list (jget o1 ''onFailureSteps''))
      \<or> (t = ''wait'' \<and> wait_fits o1) \<or> (t = ''condition'' \<and> condition_fits o1)
      \<or> (t = ''loop'' \<and> range_fits (jget o1 ''count'') \<and> filled_list (jget o1 ''steps''))
      \<or> (t = ''checkpoint'' \<and> present_nonempty o1 ''id'')
    | _ \<Rightarrow> False)"

definition well_formed_step :: "json \<Rightarrow> bool" where
  "well_formed_step v \<longleftrightarrow> (case v of JObj o1 \<Rightarrow> optionally nonempty_text (jget o1 ''id'') \<and> typed_fits o1 | _ \<Rightarrow> False)"

definition step_id :: "json \<Rightarrow> string list" where
  "step_id v = (case v of JObj o1 \<Rightarrow> (case jget o1 ''id'' of Some (JStr i) \<Rightarrow> if i = [] then [] else [i] | _ \<Rightarrow> []) | _ \<Rightarrow> [])"

definition step_ids :: "json list \<Rightarrow> string list" where
  "step_ids xs = concat (map step_id xs)"

lemma step_ids_simps [simp]:
  "step_ids [] = []" "step_ids (x # xs) = step_id x @ step_ids xs" "step_ids (xs @ ys) = step_ids xs @ step_ids ys"
  by (simp_all add: step_ids_def)

section \<open>Local checks\<close>

lemma present_identifier_iff: "present_identifier o1 k \<longleftrightarrow> is_policy_identifier (jget o1 k)"
  by (auto simp: present_identifier_def is_policy_identifier_def identifier_text_def split: option.splits json.splits)

lemma empty_identifier [simp]: "\<not> policy_identifier []"
  by (simp add: policy_identifier_def safe_name_def)

lemma concat_Nil [simp]: "concat (map f xs) = [] \<longleftrightarrow> (\<forall>x \<in> set xs. f x = [])"
  by (induction xs) auto

lemma range_errors_Nil: "validateRangeObject v path = [] \<longleftrightarrow> range_fits v"
  by (auto simp: validateRangeObject_def range_fits_def present_identifier_iff Let_def number_value_def
      split: option.splits json.splits)

lemma action_name_Nil: "action_name_errors path (jget o1 k) = [] \<longleftrightarrow> present_identifier o1 k"
  by (auto simp: action_name_errors_def present_identifier_def identifier_text_def split: option.splits json.splits list.splits)

lemma screen_errors_Nil: "screen_errors path v = [] \<longleftrightarrow> optionally screen_fits v"
  by (auto simp: screen_errors_def screen_fits_def list_all_iff split: option.splits json.splits)

lemma until_errors_Nil: "until_errors path v = [] \<longleftrightarrow> until_fits v"
  by (auto simp: until_errors_def until_fits_def present_identifier_iff split: json.splits)

lemma action_errors_Nil:
  "action_errors path o1 = [] \<and> optionally (number_from 1) (jget o1 ''timeoutMs'') \<longleftrightarrow> action_fits o1"
  unfolding action_errors_def action_fits_def
  by (simp add: action_name_Nil screen_errors_Nil opcode_fits_def [abs_def] conj_ac)

lemma wait_errors_Nil: "wait_errors path o1 = [] \<longleftrightarrow> wait_fits o1"
  unfolding wait_errors_def wait_fits_def
  by (auto simp: range_errors_Nil until_errors_Nil optionally_def split: option.splits)

lemma condition_errors_Nil:
  "condition_errors path o1 = [] \<longleftrightarrow> (present_nonempty o1 ''check'' \<or> present_nonempty o1 ''expression'')
     \<and> optionally (number_between 0 1) (jget o1 ''probability'')"
  unfolding condition_errors_def present_nonempty_def by simp

section \<open>Threaded identifiers\<close>

text \<open>
  A check with the identifiers seen before: it accepts when its condition holds and the
  identifiers it meets are new and distinct, and then has added exactly these.
\<close>

definition passes :: "string list \<times> string list \<Rightarrow> bool \<Rightarrow> string list \<Rightarrow> string list \<Rightarrow> bool" where
  "passes r c ids seen \<longleftrightarrow> (fst r = [] \<longleftrightarrow> c \<and> distinct ids \<and> set ids \<inter> set seen = {})
     \<and> (fst r = [] \<longrightarrow> set (snd r) = set seen \<union> set ids)"

lemma passes_then:
  assumes "passes a c ids seen" "\<And>s. passes (f s) d ids' s"
  shows "passes (check_then a f) (c \<and> d) (ids @ ids') seen"
proof -
  obtain es s where a: "a = (es, s)" by fastforce
  obtain fs s' where f: "f s = (fs, s')" by fastforce
  show ?thesis using assms(1) assms(2)[of s] by (auto simp: passes_def check_then_def a f)
qed

lemma passes_local: "(es = [] \<longleftrightarrow> c) \<Longrightarrow> passes (es, seen) c [] seen"
  by (simp add: passes_def)

lemma passes_cong: "passes r c ids seen \<Longrightarrow> (c \<longleftrightarrow> c') \<Longrightarrow> ids = ids' \<Longrightarrow> passes r c' ids' seen"
  by simp

text \<open>When the condition fails the identifiers do not matter.\<close>

lemma passes_fails: "fst r \<noteq> [] \<Longrightarrow> \<not> c \<Longrightarrow> passes r c ids seen"
  by (simp add: passes_def)

lemma passes_id: "passes (id_errors path o1 seen) (optionally nonempty_text (jget o1 ''id'')) (step_id (JObj o1)) seen"
  by (auto simp: passes_def id_errors_def step_id_def nonempty_text_def Let_def text_value_def split: option.splits json.splits)

abbreviation all_fit :: "json list \<Rightarrow> bool" where
  "all_fit xs \<equiv> list_all well_formed_step xs"

lemma passes_optional_list:
  assumes "\<And>xs. jget o1 k = Some (JArr xs) \<Longrightarrow> passes (g xs) (all_fit (flatten xs)) (step_ids (flatten xs)) seen"
  shows "passes (case jget o1 k of None \<Rightarrow> ([], seen) | Some (JArr xs) \<Rightarrow> g xs | Some _ \<Rightarrow> ([m], seen))
    (optionally is_list (jget o1 k) \<and> all_fit (flatten_lists (list_below o1 k))) (step_ids (flatten_lists (list_below o1 k))) seen"
proof (cases "jget o1 k")
  case (Some v)
  then show ?thesis using assms by (cases v) (simp_all add: passes_def list_below_def is_list_def)
qed (simp add: passes_def list_below_def)

lemma passes_filled_list:
  assumes "\<And>y ys. jget o1 k = Some (JArr (y # ys)) \<Longrightarrow> passes (g y ys) (all_fit (flatten (y # ys))) (step_ids (flatten (y # ys))) seen"
  shows "passes (case jget o1 k of Some (JArr (y # ys)) \<Rightarrow> g y ys | _ \<Rightarrow> ([m], seen))
    (filled_list (jget o1 k) \<and> all_fit (flatten_lists (list_below o1 k))) (step_ids (flatten_lists (list_below o1 k))) seen"
proof (cases "jget o1 k")
  case (Some v)
  show ?thesis
  proof (cases v)
    case (JArr xs)
    then show ?thesis using assms Some
      by (cases xs) (simp_all add: passes_def list_below_def filled_list_def del: flatten.simps(2))
  qed (simp_all add: Some passes_def list_below_def filled_list_def)
qed (simp add: passes_def list_below_def filled_list_def)

lemma flatten_lists_append [simp]: "flatten_lists (ls @ ms) = flatten_lists ls @ flatten_lists ms"
  by (induction ls) auto

lemma step_checked:
  "passes (validateGeneratedWorkflowStepInput x path seen) (all_fit (flatten [x])) (step_ids (flatten [x])) seen"
  "passes (validate_items xs path i seen) (all_fit (flatten xs)) (step_ids (flatten xs)) seen"
proof (induction x path seen and xs path i seen rule: validateGeneratedWorkflowStepInput_validate_items.induct)
  case (1 x path seen)
  show ?case
  proof (cases x)
    case (JObj o1)
    let ?type = "\<lambda>t. jget o1 ''type'' = Some (JStr t)"
    let ?below = "flatten_lists (nested_lists o1)"
    note action = 1(1)[OF JObj] and if_true = 1(2)[OF JObj] and if_false = 1(3)[OF JObj] and body = 1(4)[OF JObj]
    have whole: "passes (validateGeneratedWorkflowStepInput x path seen) (all_fit (flatten [x])) (step_ids (flatten [x])) seen"
      if "validateGeneratedWorkflowStepInput x path seen = check_then (id_errors path o1 seen) f"
        and "\<And>s. passes (f s) c ids s" and "c \<longleftrightarrow> typed_fits o1 \<and> all_fit ?below" and "ids = step_ids ?below" for f c ids
      unfolding that(1) by (rule passes_cong[OF passes_then[OF passes_id that(2)]]) (simp_all add: that JObj well_formed_step_def)
    consider "?type ''action''" | "?type ''wait''" | "?type ''condition''" | "?type ''loop''" | "?type ''checkpoint''"
      | "\<forall>t \<in> {''action'', ''wait'', ''condition'', ''loop'', ''checkpoint''}. \<not> ?type t" by blast
    then show ?thesis
    proof cases
      case 1
      let ?f = "\<lambda>seen. check_then (check_then (action_errors path o1, seen) (\<lambda>seen.
          case jget o1 ''onFailureSteps'' of
            None \<Rightarrow> ([], seen)
          | Some (JArr xs) \<Rightarrow> validate_items xs (path @ ''.onFailureSteps'') 0 seen
          | Some _ \<Rightarrow> ([path @ ''.onFailureSteps must be a step array when provided''], seen)))
        (\<lambda>seen. (unless_msg (optionally (number_from 1) (jget o1 ''timeoutMs''))
          (path @ ''.timeoutMs must be a positive number when provided''), seen))"
      have eq: "validateGeneratedWorkflowStepInput x path seen = check_then (id_errors path o1 seen) ?f" by (simp add: JObj 1)
      have "passes (?f s) ((action_errors path o1 = [] \<and> optionally is_list (jget o1 ''onFailureSteps'')
            \<and> all_fit (flatten_lists (list_below o1 ''onFailureSteps''))) \<and> optionally (number_from 1) (jget o1 ''timeoutMs''))
          (([] @ step_ids (flatten_lists (list_below o1 ''onFailureSteps''))) @ []) s" for s
        by (intro passes_then passes_optional_list passes_local action[OF 1 _ refl] refl unless_msg_Nil)
      from whole[OF eq this] show ?thesis
        using 1 action_errors_Nil[of path o1] by (auto simp: typed_fits_def nested_lists_def is_action_def)
    next
      case 2
      show ?thesis
        by (rule whole[where f = "\<lambda>seen. (wait_errors path o1, seen)" and c = "wait_fits o1" and ids = "[]"])
          (simp_all add: JObj 2 passes_local wait_errors_Nil typed_fits_def nested_lists_def is_action_def)
    next
      case 3
      let ?f = "\<lambda>seen. check_then (check_then (condition_errors path o1, seen) (\<lambda>seen.
          case jget o1 ''if_true'' of
            Some (JArr (x # xs)) \<Rightarrow> validate_items (x # xs) (path @ ''.if_true'') 0 seen
          | _ \<Rightarrow> ([path @ ''.if_true must be a non-empty step array''], seen)))
        (\<lambda>seen. case jget o1 ''if_false'' of
            None \<Rightarrow> ([], seen)
          | Some (JArr xs) \<Rightarrow> validate_items xs (path @ ''.if_false'') 0 seen
          | Some _ \<Rightarrow> ([path @ ''.if_false must be a step array when provided''], seen))"
      have eq: "validateGeneratedWorkflowStepInput x path seen = check_then (id_errors path o1 seen) ?f" by (simp add: JObj 3)
      have type: "jget o1 ''type'' \<noteq> Some (JStr ''action'')" "jget o1 ''type'' \<noteq> Some (JStr ''wait'')" using 3 by simp_all
      have "passes (?f s) ((condition_errors path o1 = [] \<and> filled_list (jget o1 ''if_true'')
            \<and> all_fit (flatten_lists (list_below o1 ''if_true'')))
            \<and> optionally is_list (jget o1 ''if_false'') \<and> all_fit (flatten_lists (list_below o1 ''if_false'')))
          (([] @ step_ids (flatten_lists (list_below o1 ''if_true''))) @ step_ids (flatten_lists (list_below o1 ''if_false''))) s" for s
        by (intro passes_then passes_optional_list passes_filled_list passes_local if_true[OF type 3 _ refl refl] if_false[OF type 3 _ refl] refl)
      from whole[OF eq this] show ?thesis
        using 3 condition_errors_Nil[of path o1] by (auto simp: typed_fits_def condition_fits_def nested_lists_def is_action_def)
    next
      case 4
      let ?f = "\<lambda>seen. check_then (validateRangeObject (jget o1 ''count'') (path @ ''.count''), seen) (\<lambda>seen.
          case jget o1 ''steps'' of
            Some (JArr (x # xs)) \<Rightarrow> validate_items (x # xs) (path @ ''.steps'') 0 seen
          | _ \<Rightarrow> ([path @ ''.steps must be a non-empty step array for loop steps''], seen))"
      have eq: "validateGeneratedWorkflowStepInput x path seen = check_then (id_errors path o1 seen) ?f" by (simp add: JObj 4)
      have type: "jget o1 ''type'' \<noteq> Some (JStr ''action'')" "jget o1 ''type'' \<noteq> Some (JStr ''wait'')"
        "jget o1 ''type'' \<noteq> Some (JStr ''condition'')" using 4 by simp_all
      have "passes (?f s) (validateRangeObject (jget o1 ''count'') (path @ ''.count'') = [] \<and> filled_list (jget o1 ''steps'')
            \<and> all_fit (flatten_lists (list_below o1 ''steps'')))
          ([] @ step_ids (flatten_lists (list_below o1 ''steps''))) s" for s
        by (intro passes_then passes_filled_list passes_local body[OF type 4 _ refl refl] refl)
      from whole[OF eq this] show ?thesis
        using 4 by (auto simp: range_errors_Nil typed_fits_def nested_lists_def is_action_def)
    next
      case 5
      show ?thesis
        by (rule whole[where f = "\<lambda>seen. (unless_msg (present_nonempty o1 ''id'') (path @ ''.id is required for checkpoint steps''), seen)"
              and c = "present_nonempty o1 ''id''" and ids = "[]"])
          (simp_all add: JObj 5 passes_local typed_fits_def nested_lists_def is_action_def present_nonempty_def)
    next
      case 6
      let ?f = "\<lambda>seen. ([path @ ''.type must be one of: '' @ intercalate '', '' step_types], seen)"
      have eq: "validateGeneratedWorkflowStepInput x path seen = check_then (id_errors path o1 seen) ?f" using 6 by (simp add: JObj)
      have "passes (?f s) (typed_fits o1 \<and> all_fit ?below) (step_ids ?below) s" for s
        using 6 by (intro passes_fails) (auto simp: typed_fits_def split: option.splits json.splits)
      from whole[OF eq this] show ?thesis by simp
    qed
  qed (simp_all add: passes_def well_formed_step_def)
next
  case (3 x xs path i seen)
  have "flatten (x # xs) = flatten [x] @ flatten xs" by simp
  with passes_then[OF 3(1), of "\<lambda>s. validate_items xs path (Suc i) s" "all_fit (flatten xs)" "step_ids (flatten xs)"] 3(2)
  show ?case by (simp del: flatten.simps(2))
qed (simp add: passes_def)

end
