(* ===== verification/Template_Plan_Facts.thy ===== *)
theory Template_Plan_Facts imports Template_Plan Template_Steps Workflow_Budget
begin

text \<open>
  Compiled plans: which steps they list and under which paths, and that a plan passes the
  check against the template it was compiled from after it was stored and read back.
\<close>

section \<open>Stored values\<close>

lemma stringify_parsed [simp]:
  "json_stringify (json_parse j) = Some j" "stringify_items (parse_items js) = js"
  "stringify_members (parse_members o1) = o1"
  by (induction j and js and o1 rule: json_parse_parse_items_parse_members.induct) simp_all

lemma stringify_or_undefined [simp]: "json_stringify (or_undefined v) = v"
  by (cases v) (simp_all add: or_undefined_def)

lemma stringify_members_keys: "k \<notin> fst ` set ms \<Longrightarrow> map_of (stringify_members ms) k = None"
  by (induction ms) (auto split: option.splits)

lemma jget_stringified:
  "distinct (map fst ms) \<Longrightarrow> jget (stringify_members ms) k = option_bind (map_of ms k) json_stringify"
  unfolding jget_def option_bind_def
proof (induction ms)
  case (Cons x ms)
  then show ?case using stringify_members_keys[of "fst x" ms]
    by (cases x) (auto split: option.splits dest: map_of_SomeD)
qed simp

section \<open>Paths\<close>

text \<open>The objects of a list of steps with their paths, in the order of the visit.\<close>

function located :: "json list \<Rightarrow> string \<Rightarrow> nat \<Rightarrow> (string \<times> jobj) list"
  and located_lists :: "(string \<times> json list) list \<Rightarrow> string \<Rightarrow> (string \<times> jobj) list" where
  "located [] prefix i = []"
| "located (x # xs) prefix i =
     (case x of JObj step \<Rightarrow> (item_path prefix i, step) # located_lists (nested_lists step) (item_path prefix i) | _ \<Rightarrow> [])
     @ located xs prefix (Suc i)"
| "located_lists [] path = []"
| "located_lists ((k, xs) # ls) path = located xs (path @ ''.'' @ k) 0 @ located_lists ls path"
  by pat_completeness auto
termination
proof (relation "measure (\<lambda>x. case x of Inl (xs, _) \<Rightarrow> size (JArr xs) | Inr (ls, _) \<Rightarrow> Suc (lists_size ls))", goal_cases)
  case 2
  then show ?case by simp (metis size_nested_item)
qed (simp_all add: lists_size_def)

definition objects_of :: "json list \<Rightarrow> jobj list" where
  "objects_of xs = concat (map (\<lambda>x. case x of JObj o1 \<Rightarrow> [o1] | _ \<Rightarrow> []) xs)"

lemma objects_of_simps [simp]:
  "objects_of [] = []" "objects_of (xs @ ys) = objects_of xs @ objects_of ys"
  "objects_of (x # xs) = (case x of JObj o1 \<Rightarrow> [o1] | _ \<Rightarrow> []) @ objects_of xs"
  by (simp_all add: objects_of_def)

lemma located_objects:
  "map snd (located xs prefix i) = objects_of (flatten xs)"
  "map snd (located_lists ls path) = objects_of (flatten_lists ls)"
  by (induction xs prefix i and ls path rule: located_located_lists.induct) (auto split: json.splits)

lemma digit_no_bracket: "m < 10 \<Longrightarrow> CHR '']'' = char_of (m + 48 :: nat) \<Longrightarrow> False"
proof -
  assume m: "m < 10" and "CHR '']'' = char_of (m + 48 :: nat)"
  then have "(of_char (CHR '']'') :: nat) = of_char (char_of (m + 48 :: nat) :: char)" by (simp only:)
  then show False using m by simp
qed

lemma digits_no_bracket: "CHR '']'' \<notin> set (show_nat n)"
proof (induction n rule: show_nat.induct)
  case (1 n)
  then show ?case using digit_no_bracket[of n] digit_no_bracket[of "n mod 10"]
    by (subst show_nat.simps) (auto simp del: char_of_eq_iff)
qed

text \<open>A nested path continues with a dot.\<close>

definition continues_path :: "string \<Rightarrow> bool" where
  "continues_path r \<longleftrightarrow> r = [] \<or> (\<exists>q. r = CHR ''.'' # q)"

lemma item_path_cancel:
  assumes "item_path prefix i @ r = item_path prefix j @ s"
  shows "i = j \<and> r = s"
proof -
  have eq: "show_nat i @ CHR '']'' # r = show_nat j @ CHR '']'' # s" using assms by (simp add: item_path_def)
  have "takeWhile (\<lambda>c. c \<noteq> CHR '']'') (show_nat n @ CHR '']'' # q) = show_nat n" for n q
    using digits_no_bracket by (subst takeWhile_append2) auto
  then have "show_nat i = show_nat j" using eq by metis
  then show ?thesis using eq by simp
qed

definition plain_key :: "string \<Rightarrow> bool" where
  "plain_key k \<longleftrightarrow> CHR ''['' \<notin> set k"

lemma key_path_cancel:
  assumes "k @ CHR ''['' # r = k' @ CHR ''['' # s" "plain_key k" "plain_key k'"
  shows "k = k'"
proof -
  have "takeWhile (\<lambda>c. c \<noteq> CHR ''['') (q @ CHR ''['' # t) = q" if "plain_key q" for q t
    using that by (subst takeWhile_append2) (auto simp: plain_key_def)
  then show ?thesis using assms by metis
qed

lemma located_shape:
  "(p, x) \<in> set (located xs prefix i) \<Longrightarrow> \<exists>j r. i \<le> j \<and> p = item_path prefix j @ r"
  "(p, x) \<in> set (located_lists ls path) \<Longrightarrow> \<exists>k xs j r. (k, xs) \<in> set ls \<and> p = item_path (path @ ''.'' @ k) j @ r"
proof (induction xs prefix i and ls path rule: located_located_lists.induct)
  case (2 y ys prefix i)
  show ?case
  proof (cases "(p, x) \<in> set (located ys prefix (Suc i))")
    case True
    then show ?thesis using 2(2) by (auto dest: Suc_leD)
  next
    case False
    then obtain step where "y = JObj step" "p = item_path prefix i \<or> (p, x) \<in> set (located_lists (nested_lists step) (item_path prefix i))"
      using 2(3) by (auto split: json.splits)
    then show ?thesis using 2(1)[of step] by (auto simp: item_path_def intro!: exI[of _ i])
  qed
next
  case (4 k ys ls path)
  then show ?case by (auto simp del: located.simps)
qed auto

lemma nested_keys: "distinct (map fst (nested_lists step)) \<and> list_all (plain_key \<circ> fst) (nested_lists step)"
proof -
  have one: "list_all (plain_key \<circ> fst) (list_below step k) \<and> distinct (map fst (list_below step k))
      \<and> set (map fst (list_below step k)) \<subseteq> {k}" if "plain_key k" for k
    using that by (rule_tac list_below_cases[of step k]) auto
  have keys: "plain_key ''onFailureSteps''" "plain_key ''if_true''" "plain_key ''if_false''" "plain_key ''steps''"
    by (simp_all add: plain_key_def)
  have "set (map fst (list_below step ''if_true'')) \<inter> set (map fst (list_below step ''if_false'')) = {}"
    using one[OF keys(2)] one[OF keys(3)] by fastforce
  then show ?thesis using one[OF keys(1)] one[OF keys(2)] one[OF keys(3)] one[OF keys(4)]
    by (simp add: nested_lists_def)
qed

lemma located_distinct:
  "distinct (map fst (located xs prefix i))"
  "distinct (map fst ls) \<Longrightarrow> list_all (plain_key \<circ> fst) ls \<Longrightarrow> distinct (map fst (located_lists ls path))"
proof (induction xs prefix i and ls path rule: located_located_lists.induct)
  case (2 y ys prefix i)
  show ?case
  proof (cases y)
    case (JObj step)
    let ?here = "located_lists (nested_lists step) (item_path prefix i)"
    have here: "\<exists>r. p = item_path prefix i @ CHR ''.'' # r" if "p \<in> fst ` set ?here" for p
      using that located_shape(2) by (fastforce simp: item_path_def)
    have later: "\<exists>j r. Suc i \<le> j \<and> p = item_path prefix j @ r" if "p \<in> fst ` set (located ys prefix (Suc i))" for p
      using that located_shape(1) by fastforce
    have d: "distinct (map fst ?here)" using 2(1)[OF JObj] nested_keys by blast
    have n: "item_path prefix i \<notin> fst ` set ?here" using here by fastforce
    have "p \<noteq> q" if "p \<in> insert (item_path prefix i) (fst ` set ?here)" "q \<in> fst ` set (located ys prefix (Suc i))" for p q
    proof
      note p = that(1) and q = that(2)
      assume "p = q"
      obtain j r where "Suc i \<le> j" "q = item_path prefix j @ r" using later[OF q] by blast
      moreover obtain s where "p = item_path prefix i @ s" using p here by fastforce
      ultimately show False using \<open>p = q\<close> item_path_cancel[of prefix i s j r] by auto
    qed
    then have "insert (item_path prefix i) (fst ` set ?here) \<inter> fst ` set (located ys prefix (Suc i)) = {}" by blast
    with d n 2(2) show ?thesis by (simp add: JObj)
  qed (use 2 in simp_all)
next
  case (4 k ys ls path)
  have "p \<noteq> q" if p: "p \<in> fst ` set (located ys (path @ ''.'' @ k) 0)" and q: "q \<in> fst ` set (located_lists ls path)" for p q
  proof
    assume "p = q"
    obtain j r where p': "p = item_path (path @ ''.'' @ k) j @ r" using p located_shape(1) by fastforce
    obtain k' zs j' s where k': "(k', zs) \<in> set ls" and q': "q = item_path (path @ ''.'' @ k') j' @ s"
      using q located_shape(2) by fastforce
    have keys: "plain_key k" "plain_key k'" using 4(4) k' by (auto simp: list_all_iff)
    have "k @ CHR ''['' # show_nat j @ CHR '']'' # r = k' @ CHR ''['' # show_nat j' @ CHR '']'' # s"
      using p' q' \<open>p = q\<close> by (simp add: item_path_def)
    from key_path_cancel[OF this keys] have "k = k'" .
    then show False using 4(3) k' by force
  qed
  then have "fst ` set (located ys (path @ ''.'' @ k) 0) \<inter> fst ` set (located_lists ls path) = {}" by blast
  with 4 show ?case by simp
qed auto

section \<open>What a plan lists\<close>

definition compile_located :: "json option \<Rightarrow> string \<times> jobj \<Rightarrow> GeneratedWorkflowCompiledStep" where
  "compile_located v ps = compile_step v (snd ps) (fst ps)"

definition counts_more :: "json option \<Rightarrow> (string \<times> jobj) list \<Rightarrow> plan_tally \<Rightarrow> plan_tally \<Rightarrow> bool" where
  "counts_more v ps t t' \<longleftrightarrow> pt_steps t' = pt_steps t @ map (compile_located v) ps
     \<and> pt_actions t' = pt_actions t + length (filter (is_action \<circ> snd) ps)
     \<and> pt_checkpoints t' = pt_checkpoints t + length (filter (\<lambda>(_, s). jget s ''type'' = Some (JStr ''checkpoint'')) ps)"

lemma counts_more_trans: "counts_more v ps t t' \<Longrightarrow> counts_more v qs t' t'' \<Longrightarrow> counts_more v (ps @ qs) t t''"
  by (simp add: counts_more_def)

lemma counts_step: "counts_more v [(path, step)] t (count_step v step path t)"
  by (simp add: counts_more_def count_step_def compile_located_def)

lemma counts_level [simp]: "counts_more v ps (enter_level d t) t' \<longleftrightarrow> counts_more v ps t t'"
  by (simp add: counts_more_def enter_level_def)

lemma counts_visit:
  "counts_more v (located xs prefix i) t (visit_steps v xs prefix i d t)"
  "counts_more v (located_lists ls path) t (visit_lists v ls path d t)"
proof (induction v xs prefix i d t and v ls path d t rule: visit_steps_visit_lists.induct)
  case (2 v x xs prefix i d t)
  show ?case
  proof (cases x)
    case (JObj step)
    note rest = 2(2)[unfolded JObj json.case]
    show ?thesis using counts_more_trans[OF counts_more_trans[OF counts_step 2(1)[OF JObj]] rest] by (simp add: JObj)
  qed (use 2(2) in simp_all)
next
  case (4 v k xs ls path d t)
  then show ?case using counts_more_trans[OF 4(1) 4(2)] by simp
qed (simp_all add: counts_more_def)

definition plan_steps_of :: "jobj \<Rightarrow> (string \<times> jobj) list" where
  "plan_steps_of t = located (odefault (list_value (jget t ''steps'')) []) ''workflow.steps'' 0"

lemma compiled_counts:
  "gw_steps (compileGeneratedWorkflowTemplate sha256 num t)
     = map (compile_located (jget t ''defaultVerificationStrategy'')) (plan_steps_of t)"
  "gw_action_count (compileGeneratedWorkflowTemplate sha256 num t) = length (filter (is_action \<circ> snd) (plan_steps_of t))"
  "gw_checkpoint_count (compileGeneratedWorkflowTemplate sha256 num t)
     = length (filter (\<lambda>(_, s). jget s ''type'' = Some (JStr ''checkpoint'')) (plan_steps_of t))"
  using counts_visit(1)[of "jget t ''defaultVerificationStrategy''" "odefault (list_value (jget t ''steps'')) []" "''workflow.steps''" 0
      "enter_level 1 \<lparr>pt_steps = [], pt_actions = 0, pt_checkpoints = 0, pt_depth = 0, pt_llm = 0\<rparr>" 1]
  unfolding counts_level
  by (simp_all add: compileGeneratedWorkflowTemplate_def compile_tally_def counts_more_def plan_steps_of_def Let_def)

section \<open>Stored plans\<close>

definition step_members :: "GeneratedWorkflowCompiledStep \<Rightarrow> jobj" where
  "step_members k = (case the (json_stringify (compiled_step_value k)) of JObj o1 \<Rightarrow> o1)"

lemma stored_step: "json_stringify (compiled_step_value k) = Some (JObj (step_members k))"
  by (simp add: step_members_def compiled_step_value_def)

lemma stored_step_members:
  "jget (step_members k) ''path'' = Some (JStr (kp_path k))" "jget (step_members k) ''type'' = kp_type k"
  "jget (step_members k) ''id'' = kp_id k"
  "jget (step_members k) ''action'' = (if kp_provenance k = None then None else kp_action k)"
  unfolding step_members_def compiled_step_value_def json_stringify.simps option.sel json.case
  by (cases "kp_provenance k"; subst jget_stringified; simp add: option_bind_def)+

lemma stored_items: "stringify_items (map compiled_step_value ks) = map (JObj \<circ> step_members) ks"
  by (induction ks) (simp_all add: stored_step)

lemma stored_plan_members:
  "\<exists>c. stored_plan p = JObj c \<and> jget c ''planVersion'' = Some (JStr plan_version)
     \<and> jget c ''cacheKey'' = Some (JStr (gw_cache_key p)) \<and> jget c ''templateId'' = gw_template p
     \<and> jget c ''platform'' = gw_platform p \<and> jget c ''templateVersion'' = gw_version p
     \<and> jget c ''stepCount'' = Some (jnat (gw_step_count p)) \<and> jget c ''actionCount'' = Some (jnat (gw_action_count p))
     \<and> jget c ''checkpointCount'' = Some (jnat (gw_checkpoint_count p)) \<and> jget c ''maxDepth'' = Some (jnat (gw_depth p))
     \<and> jget c ''llmBudget'' = Some (JObj [(''happyPathRequests'', jnat (gw_llm_requests p)), (''recoveryRequests'', JStr ''only_on_failure'')])
     \<and> jget c ''steps'' = Some (JArr (map (JObj \<circ> step_members) (gw_steps p)))"
  unfolding stored_plan_def plan_value_def json_stringify.simps option.sel
  by (intro exI conjI; (rule refl)?; subst jget_stringified; simp add: option_bind_def stored_items vnat_def jnat_def)

text \<open>What the check asks of the step a plan lists, whatever the template.\<close>

definition listable :: "jobj \<Rightarrow> bool" where
  "listable step \<longleftrightarrow> is_action step \<longrightarrow> present_identifier step ''action''"

lemma step_accepted:
  assumes "listable step" "i < length es" "es ! i = compile_step v step path"
  shows "step_errors es (i, JObj (step_members (es ! i))) = []"
proof -
  let ?k = "compile_step v step path"
  have "is_action (step_members ?k) \<longleftrightarrow> is_action step"
    by (simp add: is_action_def stored_step_members compile_step_def)
  moreover have "\<exists>c cs. jget step ''action'' = Some (JStr (c # cs))" if "is_action step"
    using assms(1) that by (auto simp: listable_def present_identifier_def identifier_text_def neq_Nil_conv
        split: option.splits json.splits) (metis empty_identifier neq_Nil_conv)
  ultimately have "step_action_errors q (step_members ?k) ?k = []" for q
    by (auto simp: step_action_errors_def stored_step_members compile_step_def jhas_def)
  then show ?thesis using assms(2) by (simp add: assms(3) step_errors_def stored_step_members Let_def)
qed

lemma steps_accepted:
  assumes "list_all (listable \<circ> snd) ps"
  shows "concat (map (step_errors (map (compile_located v) ps))
    (enumerate 0 (map (JObj \<circ> step_members) (map (compile_located v) ps)))) = []"
proof -
  let ?es = "map (compile_located v) ps"
  have "step_errors ?es (i, JObj (step_members (?es ! i))) = []" if "i < length ps" for i
    using assms that by (intro step_accepted[of "snd (ps ! i)" i ?es v "fst (ps ! i)"])
      (auto simp: list_all_length compile_located_def)
  then show ?thesis by (auto simp: in_set_enumerate_eq)
qed

lemma well_formed_listable: "well_formed_step (JObj step) \<Longrightarrow> listable step"
  by (auto simp: well_formed_step_def typed_fits_def listable_def is_action_def action_fits_def)

lemma flatten_listable:
  assumes "list_all well_formed_step (flatten xs)"
  shows "list_all (listable \<circ> snd) (located xs prefix i)"
proof -
  have "listable o1" if "o1 \<in> set (objects_of (flatten xs))" for o1
    using that assms well_formed_listable by (auto simp: objects_of_def list_all_iff split: json.splits)
  then show ?thesis unfolding located_objects(1)[of xs prefix i, symmetric] by (auto simp: list_all_iff)
qed

lemma plan_accepted:
  assumes "list_all (listable \<circ> snd) (plan_steps_of t)"
  shows "validateGeneratedWorkflowCompiledPlan sha256 num t (stored_plan (compileGeneratedWorkflowTemplate sha256 num t)) = []"
proof -
  let ?p = "compileGeneratedWorkflowTemplate sha256 num t"
  obtain c where c: "stored_plan ?p = JObj c" "jget c ''planVersion'' = Some (JStr plan_version)"
     "jget c ''cacheKey'' = Some (JStr (gw_cache_key ?p))" "jget c ''templateId'' = gw_template ?p"
     "jget c ''platform'' = gw_platform ?p" "jget c ''templateVersion'' = gw_version ?p"
     "jget c ''stepCount'' = Some (jnat (gw_step_count ?p))" "jget c ''actionCount'' = Some (jnat (gw_action_count ?p))"
     "jget c ''checkpointCount'' = Some (jnat (gw_checkpoint_count ?p))" "jget c ''maxDepth'' = Some (jnat (gw_depth ?p))"
     "jget c ''llmBudget'' = Some (JObj [(''happyPathRequests'', jnat (gw_llm_requests ?p)), (''recoveryRequests'', JStr ''only_on_failure'')])"
     "jget c ''steps'' = Some (JArr (map (JObj \<circ> step_members) (gw_steps ?p)))"
    using stored_plan_members[of ?p] by blast
  have budget: "budget_errors (jget c ''llmBudget'') (gw_llm_requests ?p) = []"
    unfolding c by (simp add: budget_errors_def jget_def)
  show ?thesis
    using steps_accepted[OF assms] budget
    by (simp add: c validateGeneratedWorkflowCompiledPlan_def must_match_def Let_def compiled_counts(1))
qed

end
