(* ===== verification/Template_Properties.thy ===== *)
theory Template_Properties imports Template_Plan_Facts
begin

text \<open>
  The properties of the template contract: which steps pass, which texts are equal, and what
  the plan of an accepted template is.
\<close>

section \<open>Samples\<close>

definition sample_step :: json where
  "sample_step = JObj [(''id'', JStr ''a''), (''type'', JStr ''action''), (''action'', JStr ''tap''),
     (''onFailureSteps'', JArr [JObj [(''type'', JStr ''checkpoint''), (''id'', JStr ''c'')]])]"

definition sample_template :: jobj where
  "sample_template = [(''id'', JStr ''t''), (''name'', JStr ''n''), (''platform'', JStr ''shop''),
     (''description'', JStr ''d''), (''version'', JStr ''1''), (''steps'', JArr [sample_step])]"

lemma sample_accepted: "validateGeneratedWorkflowTemplate (JObj sample_template) = Inr (Inr sample_template)"
  by code_simp

definition decimal_digits :: "char set" where
  "decimal_digits = set ''0123456789''"

lemma digit_char: "m < 10 \<Longrightarrow> (char_of (m + 48 :: nat) :: char) \<in> decimal_digits"
proof -
  assume "m < 10"
  then have "m \<in> {0, 1, 2, 3, 4, 5, 6, 7, 8, 9}" by auto
  then show ?thesis unfolding decimal_digits_def by (elim insertE emptyE; hypsubst; code_simp)
qed

lemma decimal_digits_facts:
  "CHR ''-'' \<notin> decimal_digits" "CHR ''e'' \<notin> decimal_digits" "c \<in> decimal_digits \<Longrightarrow> number_char c"
  "c \<in> decimal_digits \<Longrightarrow> number_first c"
  by (auto simp: decimal_digits_def number_char_def number_first_def)

lemma minus_facts: "number_char (CHR ''-'')" "number_first (CHR ''-'')" "number_char (CHR ''e'')"
  by (simp_all add: number_char_def number_first_def)

lemma show_nat_digits: "set (show_nat n) \<subseteq> decimal_digits"
proof (induction n rule: show_nat.induct)
  case (1 n)
  show ?case
  proof (cases "n < 10")
    case True
    then show ?thesis using digit_char by (subst show_nat.simps) simp
  next
    case False
    then have "char_of (n mod 10 + 48) \<in> decimal_digits" by (intro digit_char) simp
    then show ?thesis using 1[OF False] False by (subst show_nat.simps) simp
  qed
qed

lemma show_nat_nonempty: "show_nat n \<noteq> []"
  by (subst show_nat.simps) simp

lemma print_sample_eq: "quotient_of x = (a, b) \<Longrightarrow>
    print_sample x = (if a < 0 then ''-'' @ show_nat (nat (- a)) else show_nat (nat a)) @ ''e'' @ show_nat (nat b)"
  by (simp add: print_sample_def)

definition sign_text :: "int \<Rightarrow> string" where
  "sign_text a = (if a < 0 then ''-'' @ show_nat (nat (- a)) else show_nat (nat a))"

lemma sign_text_chars: "set (sign_text a) \<subseteq> insert (CHR ''-'') decimal_digits" "sign_text a \<noteq> []"
  using show_nat_digits show_nat_nonempty by (auto simp: sign_text_def)

lemma no_sign: "CHR ''-'' # s \<noteq> show_nat n"
proof
  assume "CHR ''-'' # s = show_nat n"
  then have "CHR ''-'' \<in> set (show_nat n)" by (metis list.set_intros(1))
  then show False using show_nat_digits[of n] decimal_digits_facts(1) by blast
qed

lemma sign_text_inj: "sign_text a = sign_text b \<Longrightarrow> a = b"
  using no_sign[of "show_nat (nat (- a))" "nat b"] no_sign[of "show_nat (nat (- b))" "nat a"]
  by (auto simp: sign_text_def split: if_splits)

lemma print_sample_printer: "number_printer print_sample"
proof -
  have shape: "print_sample x = sign_text (fst (quotient_of x)) @ CHR ''e'' # show_nat (nat (snd (quotient_of x)))" for x
    by (cases "quotient_of x") (simp add: print_sample_eq sign_text_def)
  have cut: "takeWhile (\<lambda>c. c \<noteq> CHR ''e'') (sign_text a @ CHR ''e'' # r) = sign_text a" for a r
  proof -
    have "CHR ''e'' \<notin> set (sign_text a)" using sign_text_chars(1)[of a] decimal_digits_facts(2) by auto
    then show ?thesis by (subst takeWhile_append2) auto
  qed
  have "inj print_sample"
  proof (rule injI)
    fix x y assume eq: "print_sample x = print_sample y"
    then have signs: "sign_text (fst (quotient_of x)) = sign_text (fst (quotient_of y))"
      unfolding shape using cut by metis
    with eq have "nat (snd (quotient_of x)) = nat (snd (quotient_of y))" by (simp add: shape)
    moreover have "fst (quotient_of x) = fst (quotient_of y)" using signs by (rule sign_text_inj)
    ultimately have "quotient_of x = quotient_of y"
      using quotient_of_denom_pos'[of x] quotient_of_denom_pos'[of y] by (simp add: prod_eq_iff)
    then show "x = y" by (rule quotient_of_inject)
  qed
  moreover have "list_all number_char (print_sample x) \<and> print_sample x \<noteq> [] \<and> number_first (hd (print_sample x))" for x
  proof -
    have chars: "number_char c" if "c \<in> insert (CHR ''-'') decimal_digits" for c
      using that decimal_digits_facts(3) minus_facts(1) by blast
    have first: "number_first c" if "c \<in> insert (CHR ''-'') decimal_digits" for c
      using that decimal_digits_facts(4) minus_facts(2) by blast
    have "list_all number_char (sign_text a)" "list_all number_char (show_nat n)" for a n
      using sign_text_chars(1)[of a] show_nat_digits[of n] chars by (auto simp: list_all_iff)
    moreover have "number_first (hd (sign_text a @ r))" for a r
      using sign_text_chars[of a] hd_in_set[of "sign_text a"] first by (metis hd_append2 subsetD)
    ultimately show ?thesis using minus_facts(3) sign_text_chars(2) by (simp add: shape)
  qed
  ultimately show ?thesis by (simp add: number_printer_def)
qed

text \<open>The text of a plan is the same in whatever order the members of its template came.\<close>

theorem stable_text_exact_witness:
  "stableStringify print_sample (VObj [(''a'', VNum 1), (''b'', VNull)]) = stableStringify print_sample (VObj [(''b'', VNull), (''a'', VNum 1)])
   \<and> stableStringify print_sample (VArr [VNum 1]) \<noteq> stableStringify print_sample (VArr [VNum (- 1)])"
  using stable_text_exact[OF print_sample_printer, of "VObj [(''a'', VNum 1), (''b'', VNull)]" "VObj [(''b'', VNull), (''a'', VNum 1)]"]
    stable_text_exact[OF print_sample_printer, of "VArr [VNum 1]" "VArr [VNum (- 1)]"]
  by simp

section \<open>Steps\<close>

text \<open>
  C36. A list of steps passes the checks exactly when every step at every depth is well-formed on
  its own and no identifier occurs twice among all of them.
\<close>

theorem template_steps_exact:
  "fst (validate_items steps path i []) = [] \<longleftrightarrow>
     list_all well_formed_step (flatten steps) \<and> distinct (step_ids (flatten steps))"
  using step_checked(2)[of steps path i "[]"] by (simp add: passes_def)

lemma accepted_steps:
  assumes "validateGeneratedWorkflowTemplate v = Inr (Inr t)"
  obtains x xs where "jget t ''steps'' = Some (JArr (x # xs))" "list_all well_formed_step (flatten (x # xs))"
    "distinct (step_ids (flatten (x # xs)))"
proof -
  have tail: "tail_errors t = []"
    using assms by (auto simp: validateGeneratedWorkflowTemplate_def Let_def res_bind_def
        split: json.splits prod.splits sum.splits if_splits)
  then obtain x xs where "jget t ''steps'' = Some (JArr (x # xs))" "fst (validate_items (x # xs) ''workflow.steps'' 0 []) = []"
    unfolding tail_errors_def by (auto split: option.splits json.splits list.splits simp del: validate_items.simps)
  then show ?thesis
    using that step_checked(2)[of "x # xs" "''workflow.steps''" 0 "[]"] by (simp add: passes_def del: flatten.simps validate_items.simps)
qed

lemma objects_of_well_formed: "list_all well_formed_step xs \<Longrightarrow> map JObj (objects_of xs) = xs"
  by (induction xs) (auto simp: well_formed_step_def split: json.splits)

section \<open>Plans\<close>

text \<open>
  C35. The plan compiled from an accepted template, stored and read back, passes the check against
  that template; it lists every step at every depth once, in the order of the visit, under
  pairwise different paths, and counts them and the actions among them.
\<close>

theorem compiled_plan_roundtrip:
  assumes "validateGeneratedWorkflowTemplate v = Inr (Inr t)"
  shows "let p = compileGeneratedWorkflowTemplate sha256 num t; steps = flatten (the (list_value (jget t ''steps'')))
    in validateGeneratedWorkflowCompiledPlan sha256 num t (stored_plan p) = []
     \<and> map (\<lambda>k. (kp_type k, kp_id k)) (gw_steps p) = map (\<lambda>s. (jget s ''type'', jget s ''id'')) (objects_of steps)
     \<and> distinct (map kp_path (gw_steps p)) \<and> gw_step_count p = length steps
     \<and> gw_action_count p = length (filter is_action (objects_of steps))"
proof -
  let ?p = "compileGeneratedWorkflowTemplate sha256 num t"
  obtain x xs where steps: "jget t ''steps'' = Some (JArr (x # xs))" and wf: "list_all well_formed_step (flatten (x # xs))"
    using accepted_steps[OF assms] by metis
  have located: "plan_steps_of t = located (x # xs) ''workflow.steps'' 0"
    by (simp add: plan_steps_of_def steps list_value_def del: located.simps)
  have all_steps: "flatten (the (list_value (jget t ''steps''))) = flatten (x # xs)"
    by (simp add: steps list_value_def del: flatten.simps)
  have snds: "map snd (plan_steps_of t) = objects_of (flatten (x # xs))"
    unfolding located by (rule located_objects)
  have all_objects: "map JObj (objects_of (flatten (x # xs))) = flatten (x # xs)"
    using wf by (intro objects_of_well_formed)
  have accepted: "validateGeneratedWorkflowCompiledPlan sha256 num t (stored_plan ?p) = []"
    by (rule plan_accepted) (unfold located, rule flatten_listable[OF wf])
  have listed: "map (\<lambda>k. (kp_type k, kp_id k)) (gw_steps ?p) = map (\<lambda>s. (jget s ''type'', jget s ''id'')) (objects_of (flatten (x # xs)))"
    unfolding compiled_counts(1) snds[symmetric] by (simp add: compile_located_def compile_step_def)
  have paths: "map kp_path (gw_steps ?p) = map fst (plan_steps_of t)"
    unfolding compiled_counts(1) by (simp add: compile_located_def compile_step_def)
  have "distinct (map kp_path (gw_steps ?p))"
    unfolding paths located by (rule located_distinct)
  moreover have "gw_step_count ?p = length (gw_steps ?p)" by (simp add: compileGeneratedWorkflowTemplate_def Let_def)
  then have "gw_step_count ?p = length (flatten (x # xs))"
    using arg_cong[OF snds, of length] arg_cong[OF all_objects, of length] by (simp add: compiled_counts(1) del: flatten.simps)
  moreover have "gw_action_count ?p = length (filter is_action (objects_of (flatten (x # xs))))"
    unfolding compiled_counts(2) snds[symmetric] by (simp add: filter_map)
  ultimately show ?thesis using accepted listed by (simp add: all_steps del: flatten.simps)
qed

theorem compiled_plan_roundtrip_witness:
  "validateGeneratedWorkflowCompiledPlan rev print_sample sample_template
     (stored_plan (compileGeneratedWorkflowTemplate rev print_sample sample_template)) = []
   \<and> gw_step_count (compileGeneratedWorkflowTemplate rev print_sample sample_template) = 2"
proof -
  have "length (flatten (the (list_value (jget sample_template ''steps'')))) = 2" by code_simp
  then show ?thesis
    using compiled_plan_roundtrip[OF sample_accepted, of rev print_sample] by (simp only: Let_def)
qed

end
