(* ===== verification/Template_Normal.thy ===== *)
theory Template_Normal imports Template_Properties
begin

text \<open>
  The template that \<^verbatim>\<open>validateGeneratedWorkflowTemplate\<close> returns is a normal form: its nested
  observation parameters are filled, its platform is normalised and its goal contract is the
  parsed one, so checking it again returns it unchanged.
\<close>

section \<open>Observation parameters\<close>

lemma jset_triv: "jget o1 k = Some v \<Longrightarrow> jset o1 k v = o1"
  by (simp add: jset_def jmerge_def AList.merge_def jget_def update_triv)

lemma set_jset: "set (jset o1 k v) \<subseteq> insert (k, v) (set o1)"
  unfolding jset_def jmerge_def AList.merge_def by (simp, induction o1) auto

definition observed :: "jobj \<Rightarrow> bool" where
  "observed o1 \<longleftrightarrow> (\<forall>op. jget o1 ''observationPrimitive'' = Some (JObj op) \<longrightarrow> (\<exists>p. jget op ''params'' = Some (JObj p)))"

fun filled :: "json \<Rightarrow> bool"
  and filled_items :: "json list \<Rightarrow> bool"
  and filled_members :: "jobj \<Rightarrow> bool" where
  "filled (JArr xs) = filled_items xs"
| "filled (JObj o1) = (filled_members o1 \<and> observed o1)"
| "filled JNull = True"
| "filled (JBool b) = True"
| "filled (JNum x) = True"
| "filled (JStr s) = True"
| "filled_items [] = True"
| "filled_items (x # xs) = (filled x \<and> filled_items xs)"
| "filled_members [] = True"
| "filled_members ((k, v) # o1) = (filled v \<and> filled_members o1)"

lemma filled_members_all: "filled_members o1 \<longleftrightarrow> (\<forall>(k, v) \<in> set o1. filled v)"
  by (induction o1) auto

lemma filled_items_all: "filled_items xs \<longleftrightarrow> (\<forall>x \<in> set xs. filled x)"
  by (induction xs) auto

lemma filled_member: "filled_members o1 \<Longrightarrow> jget o1 k = Some v \<Longrightarrow> filled v"
  by (auto simp: filled_members_all jget_def dest!: map_of_SomeD)

lemma filled_jset: "filled_members o1 \<Longrightarrow> filled v \<Longrightarrow> filled_members (jset o1 k v)"
  using set_jset[of o1 k v] by (auto simp: filled_members_all)

lemma fill_triv: "observed o1 \<Longrightarrow> fill_observation o1 = o1"
  unfolding fill_observation_def observed_def by (auto simp: jset_triv split: option.splits json.splits)

lemma normalize_filled:
  "filled j \<Longrightarrow> normalizeNestedObservationPrimitiveParams j = j"
  "filled_items js \<Longrightarrow> normalize_items js = js"
  "filled_members o1 \<Longrightarrow> normalize_members o1 = o1"
  by (induction j and js and o1 rule: normalizeNestedObservationPrimitiveParams_normalize_items_normalize_members.induct)
    (simp_all add: fill_triv)

lemma fill_filled:
  assumes "filled_members o1"
  shows "filled_members (fill_observation o1) \<and> observed (fill_observation o1)"
proof (cases "jget o1 ''observationPrimitive''")
  case (Some v)
  show ?thesis
  proof (cases v)
    case (JObj op)
    let ?params = "case jget op ''params'' of Some (JObj p) \<Rightarrow> JObj p | _ \<Rightarrow> JObj []"
    have op: "filled (JObj op)" using filled_member[OF assms Some] JObj by simp
    have "filled ?params"
      using op filled_member[of op "''params''"]
      by (auto simp: observed_def jget_def[of "[]"] split: option.splits json.splits)
    then have "filled_members (jset op ''params'' ?params)" using op by (intro filled_jset) simp_all
    moreover have "observed (jset op ''params'' ?params)" using op by (simp add: observed_def)
    ultimately have "filled (JObj (jset op ''params'' ?params))" by simp
    then show ?thesis using assms Some JObj
      by (auto simp: fill_observation_def filled_jset observed_def split: option.splits json.splits)
  qed (use assms Some in \<open>simp_all add: fill_observation_def observed_def\<close>)
qed (use assms in \<open>simp add: fill_observation_def observed_def\<close>)

lemma normalized_filled:
  "filled (normalizeNestedObservationPrimitiveParams j)" "filled_items (normalize_items js)"
  "filled_members (normalize_members o1)"
  by (induction j and js and o1 rule: normalizeNestedObservationPrimitiveParams_normalize_items_normalize_members.induct)
    (simp_all add: fill_filled)

section \<open>Platforms\<close>

lemma not_lower_alnum_space: "lower_alnum c \<Longrightarrow> \<not> js_space c"
  by (auto simp: lower_alnum_def js_space_def Let_def)

lemma lower_alnum_lower: "lower_alnum c \<Longrightarrow> js_lower_char c = c"
  by (auto simp: lower_alnum_def js_lower_char_def Let_def)

lemma trim_plain: "list_all (\<lambda>c. \<not> p c) s \<Longrightarrow> trim_by p s = s"
proof -
  assume s: "list_all (\<lambda>c. \<not> p c) s"
  have drop: "dropWhile p t = t" if "\<forall>c \<in> set t. \<not> p c" for t using that by (cases t) auto
  show ?thesis using s drop[of s] drop[of "rev s"] by (simp add: trim_by_def list_all_iff)
qed

lemma catalog_char_plain:
  assumes "lower_alnum c \<or> c \<in> {CHR ''.'', CHR ''_'', CHR ''-''}"
  shows "\<not> js_space c \<and> js_lower_char c = c"
  using assms
proof
  assume "lower_alnum c"
  then show ?thesis using not_lower_alnum_space lower_alnum_lower by blast
next
  assume "c \<in> {CHR ''.'', CHR ''_'', CHR ''-''}"
  then show ?thesis by (elim insertE emptyE; hypsubst; code_simp)
qed

lemma catalog_identifier_plain:
  assumes "catalog_identifier s"
  shows "js_trim s = s \<and> js_lower s = s"
proof -
  have "list_all (\<lambda>c. lower_alnum c \<or> c \<in> {CHR ''.'', CHR ''_'', CHR ''-''}) s"
    using assms by (cases s) (simp_all add: catalog_identifier_def safe_name_def)
  then have "list_all (\<lambda>c. \<not> js_space c \<and> js_lower_char c = c) s"
    by (rule list.pred_mono_strong) (rule catalog_char_plain)
  then have "list_all (\<lambda>c. \<not> js_space c) s" "map js_lower_char s = s"
    by (simp_all only: list_all_iff) (simp_all add: map_idI)
  then show ?thesis by (simp add: js_trim_def js_lower_def trim_plain)
qed

lemma platform_again:
  assumes "platform_check t = ([], t')"
  shows "platform_check t' = ([], t') \<and> (\<forall>k. k \<noteq> ''platform'' \<longrightarrow> jget t' k = jget t k)
    \<and> (\<exists>p. t' = jset t ''platform'' (JStr p))"
proof -
  obtain s p where p: "catalog_identifier p" "t' = jset t ''platform'' (JStr p)"
    using assms by (auto simp: platform_check_def Let_def split: option.splits json.splits list.splits if_splits)
  then obtain c cs where "p = c # cs" by (cases p) (auto simp: catalog_identifier_def safe_name_def)
  then show ?thesis using p catalog_identifier_plain[OF p(1)]
    by (auto simp: platform_check_def normalizeGeneratedWorkflowPlatform_def Let_def jset_triv)
qed

section \<open>Goal contracts\<close>

lemma text_items_texts: "text_items (map JStr (text_items xs)) = text_items xs"
  by (induction xs rule: text_items.induct) auto

definition text_list :: "string list \<Rightarrow> bool" where
  "text_list xs \<longleftrightarrow> text_items (map JStr xs) = xs"

lemma text_list_stringArray [simp]: "text_list (stringArray v)"
  by (auto simp: text_list_def stringArray_def text_items_texts split: option.splits json.splits)

lemma stringArray_texts [simp]: "stringArray (Some (texts xs)) = text_items (map JStr xs)" "stringArray None = []"
  by (simp_all add: stringArray_def texts_def)

definition listed :: "string list option \<Rightarrow> bool" where
  "listed v \<longleftrightarrow> (case v of None \<Rightarrow> True | Some xs \<Rightarrow> xs \<noteq> [] \<and> text_list xs)"

lemma listed_some_list [simp]: "listed (some_list (stringArray v))"
  by (simp add: listed_def some_list_def)

lemma listed_back: "listed v \<Longrightarrow> some_list (stringArray (map_option texts v)) = v"
  by (cases v) (simp_all add: listed_def some_list_def text_list_def)

definition stage_normal :: "WorkflowGoalContractStage \<Rightarrow> bool" where
  "stage_normal s \<longleftrightarrow> gs_id s \<noteq> [] \<and> js_trim (gs_id s) = gs_id s \<and> gs_required s \<noteq> None
     \<and> gs_actions s \<noteq> [] \<and> text_list (gs_actions s) \<and> listed (gs_effects s) \<and> listed (gs_after s)
     \<and> (\<forall>n. gs_min s = Some n \<longrightarrow> 1 \<le> n) \<and> listed (gs_produces s) \<and> listed (gs_consumes s)"

lemma stage_members:
  "\<exists>o1. stage_json s = JObj o1 \<and> jget o1 ''id'' = Some (JStr (gs_id s)) \<and> jget o1 ''required'' = map_option JBool (gs_required s)
    \<and> jget o1 ''allowedActions'' = Some (texts (gs_actions s)) \<and> jget o1 ''allowedEffects'' = map_option texts (gs_effects s)
    \<and> jget o1 ''after'' = map_option texts (gs_after s) \<and> jget o1 ''minOccurrences'' = map_option jnat (gs_min s)
    \<and> jget o1 ''produces'' = map_option texts (gs_produces s) \<and> jget o1 ''consumes'' = map_option texts (gs_consumes s)
    \<and> jget o1 ''observationPrimitive'' = None"
  unfolding stage_json_def optional_member_def jget_def
  by (intro exI conjI; (rule refl)?; simp add: map_add_def split: option.split)

lemma minimum_back: "(\<forall>n. m = Some n \<longrightarrow> 1 \<le> n) \<Longrightarrow> valid_minimum (map_option jnat m)
    \<and> map_option (\<lambda>x. nat \<lfloor>x\<rfloor>) (number_value (map_option jnat m)) = m"
  by (cases m) (simp_all add: valid_minimum_def jnat_def number_value_def is_integer_def)

lemma stage_back:
  assumes "stage_normal s"
  shows "parse_stage (stage_json s) = Some s"
proof -
  obtain o1 where o1: "stage_json s = JObj o1" "jget o1 ''id'' = Some (JStr (gs_id s))"
     "jget o1 ''required'' = map_option JBool (gs_required s)" "jget o1 ''allowedActions'' = Some (texts (gs_actions s))"
     "jget o1 ''allowedEffects'' = map_option texts (gs_effects s)" "jget o1 ''after'' = map_option texts (gs_after s)"
     "jget o1 ''minOccurrences'' = map_option jnat (gs_min s)" "jget o1 ''produces'' = map_option texts (gs_produces s)"
     "jget o1 ''consumes'' = map_option texts (gs_consumes s)"
    using stage_members[of s] by blast
  have s: "gs_id s \<noteq> []" "js_trim (gs_id s) = gs_id s" "gs_required s \<noteq> None" "gs_actions s \<noteq> []"
    "text_items (map JStr (gs_actions s)) = gs_actions s" "listed (gs_effects s)" "listed (gs_after s)"
    "listed (gs_produces s)" "listed (gs_consumes s)" "\<forall>n. gs_min s = Some n \<longrightarrow> 1 \<le> n"
    using assms by (simp_all add: stage_normal_def text_list_def)
  have "Some (map_option JBool (gs_required s) \<noteq> Some (JBool False)) = gs_required s" using s(3) by auto
  then show ?thesis
    using s minimum_back[OF s(10)] by (simp add: parse_stage_def o1 text_value_def listed_back Let_def)
qed

lemma parsed_stage_normal: "parse_stage v = Some s \<Longrightarrow> stage_normal s"
  by (auto simp: parse_stage_def stage_normal_def Let_def valid_minimum_def is_integer_def le_nat_iff le_floor_iff number_value_def
      split: json.splits if_splits option.splits)

definition contract_normal :: "WorkflowGoalContract \<Rightarrow> bool" where
  "contract_normal c \<longleftrightarrow> gc_stages c \<noteq> [] \<and> (\<forall>s \<in> set (gc_stages c). stage_normal s)
     \<and> distinct (map gs_id (gc_stages c)) \<and> list_all (stage_fits (gc_effects c) (map gs_id (gc_stages c))) (gc_stages c)
     \<and> listed (gc_outputs c) \<and> gc_effects c \<noteq> [] \<and> text_list (gc_effects c)"

lemma those_map_iff: "those (map f xs) = Some ys \<longleftrightarrow> list_all2 (\<lambda>x y. f x = Some y) xs ys"
proof (induction xs arbitrary: ys)
  case (Cons x xs)
  then show ?case by (cases ys) (auto split: option.splits)
qed auto

lemma parsed_contract_parts:
  assumes "parseWorkflowGoalContract v = Some c"
  shows "\<exists>o1 raws stages. v = JObj o1 \<and> raws \<noteq> [] \<and> stringArray (jget o1 ''allowedEffects'') \<noteq> []
    \<and> those (map parse_stage raws) = Some stages \<and> distinct (map gs_id stages)
    \<and> list_all (stage_fits (stringArray (jget o1 ''allowedEffects'')) (map gs_id stages)) stages
    \<and> c = \<lparr>gc_stages = stages, gc_outputs = some_list (stringArray (jget o1 ''requiredOutputs'')),
         gc_effects = stringArray (jget o1 ''allowedEffects'')\<rparr>"
proof (cases v)
  case (JObj o1)
  show ?thesis
  proof (cases "list_value (jget o1 ''stages'')")
    case (Some raws)
    show ?thesis
    proof (cases "those (map parse_stage raws)")
      case None
      then show ?thesis using assms JObj Some by (simp add: parseWorkflowGoalContract_def Let_def split: if_splits)
    next
      case (Some stages)
      then show ?thesis using assms JObj \<open>list_value (jget o1 ''stages'') = Some raws\<close>
        by (simp add: parseWorkflowGoalContract_def Let_def split: if_splits) blast
    qed
  next
    case None
    then show ?thesis using assms JObj by (simp add: parseWorkflowGoalContract_def)
  qed
qed (use assms in \<open>simp_all add: parseWorkflowGoalContract_def\<close>)

lemma parsed_contract_normal:
  assumes "parseWorkflowGoalContract v = Some c"
  shows "contract_normal c"
proof -
  obtain o1 raws stages where v: "v = JObj o1" "raws \<noteq> []" "stringArray (jget o1 ''allowedEffects'') \<noteq> []"
      "those (map parse_stage raws) = Some stages" "distinct (map gs_id stages)"
      "list_all (stage_fits (stringArray (jget o1 ''allowedEffects'')) (map gs_id stages)) stages"
      "c = \<lparr>gc_stages = stages, gc_outputs = some_list (stringArray (jget o1 ''requiredOutputs'')),
         gc_effects = stringArray (jget o1 ''allowedEffects'')\<rparr>"
    using parsed_contract_parts[OF assms] by (elim exE conjE) (rule that; assumption)
  have all2: "list_all2 (\<lambda>x y. parse_stage x = Some y) raws stages" using v(4) by (simp add: those_map_iff)
  then have "\<forall>s \<in> set stages. stage_normal s"
    using parsed_stage_normal by (fastforce simp: list_all2_conv_all_nth in_set_conv_nth)
  moreover have "stages \<noteq> []" using all2 v(2) by auto
  ultimately show ?thesis using v by (simp add: contract_normal_def)
qed

lemma contract_back:
  assumes "contract_normal c"
  shows "parseWorkflowGoalContract (goal_contract_json c) = Some c"
proof -
  have c: "gc_stages c \<noteq> []" "\<forall>s \<in> set (gc_stages c). stage_normal s" "distinct (map gs_id (gc_stages c))"
    "list_all (stage_fits (gc_effects c) (map gs_id (gc_stages c))) (gc_stages c)" "listed (gc_outputs c)"
    "gc_effects c \<noteq> []" "text_items (map JStr (gc_effects c)) = gc_effects c"
    using assms by (simp_all add: contract_normal_def text_list_def)
  have stages: "those (map parse_stage (map stage_json (gc_stages c))) = Some (gc_stages c)"
    using c(2) stage_back by (simp add: those_map_iff list_all2_map1 list_all2_same)
  obtain o1 where o1: "goal_contract_json c = JObj o1" "jget o1 ''version'' = Some (JStr ''1'')"
      "jget o1 ''stages'' = Some (JArr (map stage_json (gc_stages c)))" "jget o1 ''requiredOutputs'' = map_option texts (gc_outputs c)"
      "jget o1 ''allowedEffects'' = Some (texts (gc_effects c))"
    by (simp add: goal_contract_json_def optional_member_def jget_def split: option.split)
  show ?thesis
    using c stages by (simp add: parseWorkflowGoalContract_def o1 Let_def listed_back list_value_def)
qed

lemma filled_texts [simp]: "filled (texts xs)"
  by (auto simp: texts_def filled_items_all)

lemma filled_optional: "(\<And>x. v = Some x \<Longrightarrow> filled x) \<Longrightarrow> filled_members (optional_member k v)"
  by (cases v) (simp_all add: optional_member_def)

lemma filled_append [simp]: "filled_members (o1 @ o2) \<longleftrightarrow> filled_members o1 \<and> filled_members o2"
  by (auto simp: filled_members_all)

lemma filled_stage: "filled (stage_json s)"
proof -
  have "filled_members (optional_member k (map_option texts v))" "filled_members (optional_member k (map_option JBool b))"
    "filled_members (optional_member k (map_option jnat n))" for k v b n
    by (rule filled_optional; auto simp: jnat_def)+
  note members = this
  obtain o1 where o1: "stage_json s = JObj o1" "jget o1 ''observationPrimitive'' = None" using stage_members[of s] by blast
  have "filled_members o1" using o1(1)[unfolded stage_json_def] members by auto
  then show ?thesis by (simp add: o1 observed_def)
qed

lemma filled_contract: "filled (goal_contract_json c)"
proof -
  have "jget ([(''version'', v), (''stages'', w)] @ optional_member ''requiredOutputs'' x @ [(''allowedEffects'', y)]) ''observationPrimitive'' = None" for v w x y
    by (simp add: optional_member_def jget_def split: option.split)
  then show ?thesis
    by (auto simp: goal_contract_json_def observed_def filled_items_all filled_stage intro: filled_optional)
qed

section \<open>Checking again\<close>

lemma goal_again:
  assumes "goal_check t = Inr ([], t')"
  shows "goal_check t' = Inr ([], t') \<and> (\<forall>k. k \<noteq> ''goalContract'' \<longrightarrow> jget t' k = jget t k)
    \<and> (t' = t \<or> (\<exists>c. t' = jset t ''goalContract'' (goal_contract_json c)))"
proof (cases "jget t ''goalContract''")
  case None
  then show ?thesis using assms by (simp add: goal_check_def)
next
  case (Some v)
  obtain c where c: "parseWorkflowGoalContract v = Some c" "t' = jset t ''goalContract'' (goal_contract_json c)"
      "workflowGoalContractReason t' None = Inr None"
  proof (cases "parseWorkflowGoalContract v")
    case None
    then show ?thesis using assms Some by (simp add: goal_check_def)
  next
    case c: (Some c)
    then show ?thesis using assms Some that
      by (cases "workflowGoalContractReason (jset t ''goalContract'' (goal_contract_json c)) None")
        (auto simp: goal_check_def Let_def goal_violation_def split: option.splits)
  qed
  have reparsed: "parseWorkflowGoalContract (goal_contract_json c) = Some c"
    by (rule contract_back) (rule parsed_contract_normal[OF c(1)])
  have goal: "jget t' ''goalContract'' = Some (goal_contract_json c)" by (simp add: c(2))
  have "goal_check t' = Inr ([], t')"
    using jset_triv[OF goal] by (simp add: goal_check_def goal reparsed Let_def c(3) goal_violation_def)
  then show ?thesis by (auto simp: c(2))
qed

lemma goal_fixed:
  assumes "goal_check t = Inr ([], t)" "jget t ''goalContract'' = Some g"
  shows "\<exists>c. parseWorkflowGoalContract g = Some c \<and> g = goal_contract_json c"
proof (cases "parseWorkflowGoalContract g")
  case None
  then show ?thesis using assms by (simp add: goal_check_def)
next
  case (Some c)
  then have "jset t ''goalContract'' (goal_contract_json c) = t"
    using assms by (cases "workflowGoalContractReason (jset t ''goalContract'' (goal_contract_json c)) None") (auto simp: goal_check_def Let_def)
  then have "jget (jset t ''goalContract'' (goal_contract_json c)) ''goalContract'' = jget t ''goalContract''" by (simp only:)
  then show ?thesis using Some assms(2) by simp
qed

lemma head_errors_cong: "(\<forall>k. k \<noteq> ''platform'' \<and> k \<noteq> ''goalContract'' \<longrightarrow> jget t' k = jget t k) \<Longrightarrow> head_errors t' = head_errors t"
  by (simp add: head_errors_def text_errors_def present_text_def)

lemma middle_errors_cong: "(\<forall>k. k \<noteq> ''platform'' \<and> k \<noteq> ''goalContract'' \<longrightarrow> jget t' k = jget t k) \<Longrightarrow> middle_errors t' = middle_errors t"
  by (simp add: middle_errors_def text_errors_def present_text_def)

lemma platform_fixed:
  assumes "platform_check t = ([], t)"
  shows "\<exists>p. jget t ''platform'' = Some (JStr p) \<and> catalog_identifier p \<and> normalizeGeneratedWorkflowPlatform p = p \<and> p \<noteq> []"
proof -
  obtain c cs where p: "jget t ''platform'' = Some (JStr (c # cs))" "catalog_identifier (normalizeGeneratedWorkflowPlatform (c # cs))"
      "jset t ''platform'' (JStr (normalizeGeneratedWorkflowPlatform (c # cs))) = t"
    using assms by (auto simp: platform_check_def Let_def split: option.splits json.splits list.splits if_splits)
  have "jget (jset t ''platform'' (JStr (normalizeGeneratedWorkflowPlatform (c # cs)))) ''platform'' = jget t ''platform''"
    by (simp only: p(3))
  then show ?thesis using p(1,2) by simp
qed

lemma platform_check_fixed:
  "jget t ''platform'' = Some (JStr p) \<Longrightarrow> catalog_identifier p \<Longrightarrow> normalizeGeneratedWorkflowPlatform p = p \<Longrightarrow> p \<noteq> []
    \<Longrightarrow> platform_check t = ([], t)"
  by (cases p) (simp_all add: platform_check_def jset_triv)

lemma accepted_parts:
  assumes "validateGeneratedWorkflowTemplate v = Inr (Inr t)"
  obtains t0 t1 where "normalizeNestedObservationPrimitiveParams v = JObj t0" "platform_check t0 = ([], t1)"
    "goal_check t1 = Inr ([], t)" "validateGeneratedWorkflowGoalSemantics t = Inr []"
    "head_errors t0 = []" "middle_errors t1 = []" "tail_errors t = []"
proof -
  obtain t0 where t0: "normalizeNestedObservationPrimitiveParams v = JObj t0"
    using assms by (auto simp: validateGeneratedWorkflowTemplate_def split: json.splits)
  obtain pe t1 where t1: "platform_check t0 = (pe, t1)" by fastforce
  obtain ge t2 where t2: "goal_check t1 = Inr (ge, t2)"
    using assms by (cases "goal_check t1") (auto simp: validateGeneratedWorkflowTemplate_def t0 t1)
  obtain se where se: "validateGeneratedWorkflowGoalSemantics t2 = Inr se"
    using assms by (cases "validateGeneratedWorkflowGoalSemantics t2") (auto simp: validateGeneratedWorkflowTemplate_def t0 t1 t2)
  have "t2 = t \<and> ge = [] \<and> se = [] \<and> pe = [] \<and> head_errors t0 = [] \<and> middle_errors t1 = [] \<and> tail_errors t2 = []"
    using assms by (simp add: validateGeneratedWorkflowTemplate_def t0 t1 t2 se Let_def split: if_splits)
  then show ?thesis using that t0 t1 t2 se by blast
qed

lemma accepted_compose:
  assumes "normalizeNestedObservationPrimitiveParams v = JObj t0" "platform_check t0 = ([], t1)" "goal_check t1 = Inr ([], t)"
    "validateGeneratedWorkflowGoalSemantics t = Inr []" "head_errors t0 = []" "middle_errors t1 = []" "tail_errors t = []"
  shows "validateGeneratedWorkflowTemplate v = Inr (Inr t)"
  using assms by (simp add: validateGeneratedWorkflowTemplate_def Let_def)

lemma accepted_again:
  assumes "validateGeneratedWorkflowTemplate v = Inr (Inr t)"
  shows "validateGeneratedWorkflowTemplate (JObj t) = Inr (Inr t)
    \<and> normalizeNestedObservationPrimitiveParams (JObj t) = JObj t
    \<and> (\<exists>p. jget t ''platform'' = Some (JStr p) \<and> catalog_identifier p \<and> normalizeGeneratedWorkflowPlatform p = p)
    \<and> (\<forall>g. jget t ''goalContract'' = Some g \<longrightarrow> (\<exists>c. parseWorkflowGoalContract g = Some c \<and> g = goal_contract_json c))"
proof -
  obtain t0 t1 where parts: "normalizeNestedObservationPrimitiveParams v = JObj t0" "platform_check t0 = ([], t1)"
    "goal_check t1 = Inr ([], t)" "validateGeneratedWorkflowGoalSemantics t = Inr []"
    "head_errors t0 = []" "middle_errors t1 = []" "tail_errors t = []"
    by (rule accepted_parts[OF assms])
  note platform = platform_again[OF parts(2)] and goal = goal_again[OF parts(3)]
  have same: "jget t k = jget t0 k \<and> jget t k = jget t1 k" if "k \<noteq> ''platform''" "k \<noteq> ''goalContract''" for k
    using platform goal that by simp
  have "filled (JObj t0)" using normalized_filled(1)[of v] parts(1) by simp
  then have "filled (JObj t1)" using platform by (auto simp: filled_jset observed_def)
  then have "filled (JObj t)" using goal filled_contract by (auto simp: filled_jset observed_def)
  then have normal: "normalizeNestedObservationPrimitiveParams (JObj t) = JObj t" by (rule normalize_filled(1))
  obtain p where p: "jget t1 ''platform'' = Some (JStr p)" "catalog_identifier p" "normalizeGeneratedWorkflowPlatform p = p" "p \<noteq> []"
    using platform_fixed platform by blast
  have t_platform: "jget t ''platform'' = Some (JStr p)" using goal p(1) by simp
  have again: "platform_check t = ([], t)" by (rule platform_check_fixed[OF t_platform p(2-4)])
  have "validateGeneratedWorkflowTemplate (JObj t) = Inr (Inr t)"
  proof (rule accepted_compose[OF normal again])
    have "\<forall>k. k \<noteq> ''platform'' \<and> k \<noteq> ''goalContract'' \<longrightarrow> jget t k = jget t0 k" using same by blast
    from head_errors_cong[OF this] show "head_errors t = []" using parts(5) by simp
    have "\<forall>k. k \<noteq> ''platform'' \<and> k \<noteq> ''goalContract'' \<longrightarrow> jget t k = jget t1 k" using same by blast
    from middle_errors_cong[OF this] show "middle_errors t = []" using parts(6) by simp
  qed (use goal parts in simp_all)
  moreover have "\<exists>c. parseWorkflowGoalContract g = Some c \<and> g = goal_contract_json c" if "jget t ''goalContract'' = Some g" for g
    using goal_fixed that goal by blast
  ultimately show ?thesis using normal t_platform p by blast
qed

text \<open>
  The template that is returned for an accepted input is a normal form: its platform and its
  goal contract are the ones the checks read, its nested observation steps have parameters, and
  checking it again accepts it and returns it unchanged.
\<close>

theorem accepted_template_normal:
  assumes "validateGeneratedWorkflowTemplate v = Inr (Inr t)"
  shows "validateGeneratedWorkflowTemplate (JObj t) = Inr (Inr t)
    \<and> normalizeNestedObservationPrimitiveParams (JObj t) = JObj t
    \<and> (\<exists>p. jget t ''platform'' = Some (JStr p) \<and> catalog_identifier p \<and> normalizeGeneratedWorkflowPlatform p = p)
    \<and> (\<forall>g. jget t ''goalContract'' = Some g \<longrightarrow> (\<exists>c. parseWorkflowGoalContract g = Some c \<and> g = goal_contract_json c))"
  using accepted_again[OF assms] .

definition goal_step :: json where
  "goal_step = JObj [(''type'', JStr ''action''), (''action'', JStr ''tap''), (''effect'', JStr ''open''), (''goalStage'', JStr ''s'')]"

definition raw_goal_template :: jobj where
  "raw_goal_template = [(''id'', JStr ''t''), (''name'', JStr ''n''), (''platform'', JStr '' Shop''),
     (''description'', JStr ''d''), (''version'', JStr ''1''),
     (''goalContract'', JObj [(''version'', JStr ''1''), (''allowedEffects'', JArr [JStr ''open'', JNum 1]),
        (''stages'', JArr [JObj [(''id'', JStr '' s''), (''allowedActions'', JArr [JStr ''tap''])]])]),
     (''steps'', JArr [goal_step])]"

definition goal_template :: jobj where
  "goal_template = [(''id'', JStr ''t''), (''name'', JStr ''n''), (''platform'', JStr ''shop''),
     (''description'', JStr ''d''), (''version'', JStr ''1''),
     (''goalContract'', JObj [(''version'', JStr ''1''),
        (''stages'', JArr [JObj [(''id'', JStr ''s''), (''required'', JBool True), (''allowedActions'', JArr [JStr ''tap''])]]),
        (''allowedEffects'', JArr [JStr ''open''])]),
     (''steps'', JArr [goal_step])]"

lemma raw_goal_accepted: "validateGeneratedWorkflowTemplate (JObj raw_goal_template) = Inr (Inr goal_template)"
  by code_simp

theorem accepted_template_normal_witness:
  "validateGeneratedWorkflowTemplate (JObj goal_template) = Inr (Inr goal_template) \<and> goal_template \<noteq> raw_goal_template"
  using accepted_template_normal[OF raw_goal_accepted] by (simp add: goal_template_def raw_goal_template_def)

text \<open>
  The contract is held against the steps before these are checked: without a list of steps the
  call throws instead of reporting the missing steps.
\<close>

lemma contract_without_steps_throws:
  "validateGeneratedWorkflowTemplate (JObj (filter (\<lambda>(k, _). k \<noteq> ''steps'') raw_goal_template)) = Inl type_error"
  by code_simp

text \<open>Every violation is reported twice.\<close>

lemma violation_reported_twice:
  "validateGeneratedWorkflowTemplate (JObj (jset raw_goal_template ''steps'' (JArr [JObj [(''type'', JStr ''checkpoint''), (''id'', JStr ''c'')]])))
     = Inr (Inl [GoalViolation (StageNotCovered ''s''), GoalViolation (StageNotCovered ''s'')])"
  by code_simp

end
