(* ===== verification/Segment_Goal.thy ===== *)
theory Segment_Goal imports Segment_Steps Template_Normal
begin

text \<open>
  The goal contract of a composition (\<^verbatim>\<open>composeGoalContract\<close> of
  \<^verbatim>\<open>workflow-segments/composer.ts\<close>): the contracts of the segments, declared or derived from
  their steps, with the stages of one identifier merged.
\<close>

section \<open>Contracts of segments\<close>

definition sortedUnique :: "string list \<Rightarrow> string list" where
  "sortedUnique xs = sort (remdups xs)"

lemma set_sortedUnique [simp]: "set (sortedUnique xs) = set xs"
  by (simp add: sortedUnique_def)

lemma sortedUnique_Nil [simp]: "sortedUnique xs = [] \<longleftrightarrow> xs = []"
  by (metis set_empty set_sortedUnique)

text \<open>What composing reads of the template of a segment.\<close>

record SegmentTemplate =
  tp_steps :: "WorkflowStep list"
  tp_safety :: "string option"
  tp_goal :: "WorkflowGoalContract option"
  tp_requests :: "string list option"
  tp_capabilities :: "string list option"
  tp_recovery :: "jobj option"
  tp_versions :: "string list option"
  tp_rest :: jobj

definition merged_policy :: "(string list \<times> string list) list \<Rightarrow> string list \<times> string list" where
  "merged_policy ps = (sortedUnique (concat (map fst ps)), sortedUnique (concat (map snd ps)))"

definition action_policy :: "string \<Rightarrow> jobj \<Rightarrow> string list \<times> string list" where
  "action_policy a r = ([a],
     (case jget r ''effect'' of
        Some (JStr (c # cs)) \<Rightarrow> [c # cs]
      | _ \<Rightarrow> if jget r ''observationOnly'' = Some (JBool True) then [''observation''] else []))"

definition wait_policy :: "jobj \<Rightarrow> string list \<times> string list" where
  "wait_policy r = (case jget r ''until'' of
      Some (JObj u) \<Rightarrow>
        (case jget u ''action'' of Some (JStr a) \<Rightarrow> [a] | _ \<Rightarrow> [],
         if jget u ''observationOnly'' = Some (JBool True) then [''observation''] else [])
    | _ \<Rightarrow> ([], []))"

primrec stepActionsAndEffects :: "WorkflowStep \<Rightarrow> string list \<times> string list" where
  "stepActionsAndEffects (WorkflowStep.ActionStep i a p s f r) = action_policy a r"
| "stepActionsAndEffects (WorkflowStep.WaitStep i r) = wait_policy r"
| "stepActionsAndEffects (WorkflowStep.ConditionStep i t f r) =
     merged_policy (map stepActionsAndEffects t @ odefault (map_option (map stepActionsAndEffects) f) [])"
| "stepActionsAndEffects (WorkflowStep.LoopStep i ss r) = merged_policy (map stepActionsAndEffects ss)"
| "stepActionsAndEffects (WorkflowStep.CheckpointStep i r) = ([], [])"

definition deriveLegacyGoalContract :: "WorkflowCompositionNodeRecord \<Rightarrow> SegmentTemplate \<Rightarrow> WorkflowGoalContract option" where
  "deriveLegacyGoalContract n t =
     (if tp_goal t \<noteq> None then tp_goal t
      else (let policy = map stepActionsAndEffects (tp_steps t);
                actions = sortedUnique (concat (map fst policy));
                effects = sortedUnique (concat (map snd policy));
                outputs = sortedUnique (filter (\<lambda>v. v \<noteq> []) (map snd (cn_outputs n)))
            in if actions = [] \<or> effects = [] then None
               else Some \<lparr>gc_stages = [\<lparr>gs_id = cn_key n, gs_required = Some True, gs_actions = actions, gs_effects = Some effects,
                      gs_after = None, gs_min = None, gs_produces = some_list outputs, gs_consumes = None\<rparr>],
                    gc_outputs = some_list outputs, gc_effects = effects\<rparr>))"

definition node_contract :: "WorkflowCompositionNodeRecord \<Rightarrow> SegmentTemplate \<Rightarrow> WorkflowGoalContract option" where
  "node_contract n t = coalesce (tp_goal t) (deriveLegacyGoalContract n t)"

section \<open>Merging\<close>

text \<open>
  The names of outputs in the composition. An inherited member of the bindings is no string; the
  parser of contracts drops it, and so does this list.
\<close>

definition mapped_output :: "WorkflowCompositionNodeRecord \<Rightarrow> string \<Rightarrow> string list" where
  "mapped_output n v = (case map_of (cn_outputs n) v of
      Some w \<Rightarrow> [w] | None \<Rightarrow> if js_inherited v \<noteq> None then [] else [v])"

definition mappedOutputs :: "string list option \<Rightarrow> WorkflowCompositionNodeRecord \<Rightarrow> string list" where
  "mappedOutputs vs n = sortedUnique (concat (map (mapped_output n) (odefault vs [])))"

definition merged_texts :: "string list option \<Rightarrow> string list option \<Rightarrow> string list option" where
  "merged_texts a b = (if a = None \<and> b = None then None else Some (sortedUnique (odefault a [] @ odefault b [])))"

definition merged_minimum :: "nat option \<Rightarrow> nat option \<Rightarrow> nat option" where
  "merged_minimum a b = (if a = None \<and> b = None then None else Some (odefault a 0 + odefault b 0))"

text \<open>The stage as it enters the composition, its variables renamed.\<close>

definition incoming_stage :: "WorkflowGoalContractStage \<Rightarrow> WorkflowCompositionNodeRecord \<Rightarrow> WorkflowGoalContractStage" where
  "incoming_stage s n = s\<lparr>gs_actions := sortedUnique (gs_actions s), gs_effects := map_option sortedUnique (gs_effects s),
     gs_after := map_option sortedUnique (gs_after s),
     gs_produces := (if gs_produces s = None then None else Some (mappedOutputs (gs_produces s) n)),
     gs_consumes := (if gs_consumes s = None then None else Some (mappedOutputs (gs_consumes s) n))\<rparr>"

definition mergeGoalContractStage :: "WorkflowGoalContractStage option \<Rightarrow> WorkflowGoalContractStage
    \<Rightarrow> WorkflowCompositionNodeRecord \<Rightarrow> WorkflowGoalContractStage" where
  "mergeGoalContractStage existing s n =
     (let incoming = incoming_stage s n
      in case existing of
        None \<Rightarrow> incoming
      | Some e \<Rightarrow> \<lparr>gs_id = gs_id e, gs_required = Some (gs_required e = Some True \<or> gs_required s = Some True),
          gs_actions = sortedUnique (gs_actions e @ gs_actions s), gs_effects = merged_texts (gs_effects e) (gs_effects s),
          gs_after = merged_texts (gs_after e) (gs_after s), gs_min = merged_minimum (gs_min e) (gs_min s),
          gs_produces = merged_texts (gs_produces e) (gs_produces incoming),
          gs_consumes = merged_texts (gs_consumes e) (gs_consumes incoming)\<rparr>)"

definition policy_conflict :: "string \<Rightarrow> comp_error" where
  "policy_conflict m = (''WORKFLOW_COMPOSITION_POLICY_CONFLICT'', m)"

definition add_stage :: "WorkflowCompositionNodeRecord \<Rightarrow> WorkflowGoalContractStage \<Rightarrow> (string \<times> WorkflowGoalContractStage) list
    \<Rightarrow> (string \<times> WorkflowGoalContractStage) list" where
  "add_stage n s stages = AList.update (gs_id s) (mergeGoalContractStage (map_of stages (gs_id s)) s n) stages"

definition merge_contracts :: "(WorkflowCompositionNodeRecord \<times> WorkflowGoalContract) list \<Rightarrow> WorkflowGoalContract" where
  "merge_contracts ncs =
     \<lparr>gc_stages = map snd (fold (\<lambda>(n, c). fold (add_stage n) (gc_stages c)) ncs []),
      gc_outputs = Some (sortedUnique (concat (map (\<lambda>(n, c). mappedOutputs (gc_outputs c) n) ncs))),
      gc_effects = sortedUnique (concat (map (\<lambda>(n, c). gc_effects c) ncs))\<rparr>"

text \<open>\<open>templates\<close> is the lookup of the segment map; a missing segment throws.\<close>

definition composeGoalContract :: "WorkflowCompositionNodeRecord list \<Rightarrow> (WorkflowCompositionNodeRecord \<Rightarrow> SegmentTemplate option)
    \<Rightarrow> comp_error + WorkflowGoalContract option" where
  "composeGoalContract nodes templates =
     (case those (map templates nodes) of
        None \<Rightarrow> Inl ([], type_error)
      | Some ts \<Rightarrow>
          (let contracts = map (\<lambda>(n, t). node_contract n t) (zip nodes ts)
           in if list_all (\<lambda>c. c = None) contracts then Inr None
              else case those contracts of
                None \<Rightarrow> Inl (policy_conflict ''composition segments do not all declare goalContract'')
              | Some cs \<Rightarrow> Inr (Some (merge_contracts (zip nodes cs)))))"

section \<open>What merging keeps\<close>

lemma text_list_iff: "text_list xs \<longleftrightarrow> (\<forall>x \<in> set xs. js_trim x \<noteq> [])"
proof -
  have len: "length (text_items (map JStr ys)) \<le> length ys" for ys by (induction ys) auto
  show ?thesis unfolding text_list_def
  proof (induction xs)
    case (Cons x xs)
    show ?case using Cons len[of xs] by (cases "js_trim x = []") (auto dest: arg_cong[of _ _ length])
  qed simp
qed

text \<open>The occurrences of stages, in the order in which they are merged.\<close>

definition occurrences :: "(WorkflowCompositionNodeRecord \<times> WorkflowGoalContract) list
    \<Rightarrow> (WorkflowCompositionNodeRecord \<times> WorkflowGoalContractStage) list" where
  "occurrences ncs = concat (map (\<lambda>(n, c). map (Pair n) (gc_stages c)) ncs)"

definition add_occurrence :: "WorkflowCompositionNodeRecord \<times> WorkflowGoalContractStage \<Rightarrow> (string \<times> WorkflowGoalContractStage) list
    \<Rightarrow> (string \<times> WorkflowGoalContractStage) list" where
  "add_occurrence ns = add_stage (fst ns) (snd ns)"

lemma merged_occurrences: "fold (\<lambda>(n, c). fold (add_stage n) (gc_stages c)) ncs m = fold add_occurrence (occurrences ncs) m"
proof (induction ncs arbitrary: m)
  case (Cons nc ncs)
  have "fold (add_stage n) ss m = fold add_occurrence (map (Pair n) ss) m" for n ss m
    by (induction ss arbitrary: m) (simp_all add: add_occurrence_def)
  then show ?case using Cons by (cases nc) (simp add: occurrences_def)
qed (simp add: occurrences_def)

text \<open>All texts of a kind among the occurrences of one stage.\<close>

definition pooled :: "(WorkflowGoalContractStage \<Rightarrow> string list) \<Rightarrow> (WorkflowCompositionNodeRecord \<times> WorkflowGoalContractStage) list
    \<Rightarrow> string \<Rightarrow> string set" where
  "pooled f os k = (\<Union>(n, s) \<in> {ns \<in> set os. gs_id (snd ns) = k}. set (f s))"

definition after_of :: "WorkflowGoalContractStage \<Rightarrow> string list" where
  "after_of s = odefault (gs_after s) []"

definition effects_of :: "WorkflowGoalContractStage \<Rightarrow> string list" where
  "effects_of s = odefault (gs_effects s) []"

definition covers :: "(WorkflowCompositionNodeRecord \<times> WorkflowGoalContractStage) list \<Rightarrow> WorkflowGoalContractStage \<Rightarrow> bool" where
  "covers os m \<longleftrightarrow> set (gs_actions m) = pooled gs_actions os (gs_id m) \<and> set (after_of m) = pooled after_of os (gs_id m)
     \<and> set (effects_of m) = pooled effects_of os (gs_id m) \<and> (\<forall>n. gs_min m = Some n \<longrightarrow> 1 \<le> n)"

definition merged_from :: "(WorkflowCompositionNodeRecord \<times> WorkflowGoalContractStage) list \<Rightarrow> (string \<times> WorkflowGoalContractStage) list \<Rightarrow> bool" where
  "merged_from os ms \<longleftrightarrow> distinct (map fst ms) \<and> fst ` set ms = (gs_id \<circ> snd) ` set os
     \<and> (\<forall>(k, m) \<in> set ms. gs_id m = k \<and> covers os m)"

lemma pooled_snoc: "pooled f (os @ [(n, s)]) k = pooled f os k \<union> (if gs_id s = k then set (f s) else {})"
  by (auto simp: pooled_def)

lemma pooled_none: "k \<notin> (gs_id \<circ> snd) ` set os \<Longrightarrow> pooled f os k = {}"
  by (force simp: pooled_def)

lemma set_merged_texts: "set (odefault (merged_texts a b) []) = set (odefault a []) \<union> set (odefault b [])"
  by (auto simp: merged_texts_def)

lemma merged_stage_covers:
  assumes "\<forall>m. gs_min s = Some m \<longrightarrow> 1 \<le> m"
    "case e of None \<Rightarrow> gs_id s \<notin> (gs_id \<circ> snd) ` set os | Some m \<Rightarrow> gs_id m = gs_id s \<and> covers os m"
  shows "gs_id (mergeGoalContractStage e s n) = gs_id s \<and> covers (os @ [(n, s)]) (mergeGoalContractStage e s n)"
proof (cases e)
  case None
  then have "pooled f os (gs_id s) = {}" for f :: "WorkflowGoalContractStage \<Rightarrow> string list" using assms(2) pooled_none by simp
  then show ?thesis using None assms(1)
    by (cases "gs_after s"; cases "gs_effects s")
      (simp_all add: mergeGoalContractStage_def incoming_stage_def covers_def pooled_snoc after_of_def effects_of_def Let_def)
next
  case (Some m)
  then show ?thesis using assms
    by (auto simp: mergeGoalContractStage_def covers_def pooled_snoc after_of_def effects_of_def set_merged_texts merged_minimum_def Let_def)
qed

lemma covers_other: "covers os m \<Longrightarrow> gs_id m \<noteq> gs_id s \<Longrightarrow> covers (os @ [(n, s)]) m"
  by (simp add: covers_def pooled_snoc)

lemma add_occurrence_merged:
  assumes "merged_from os ms" "\<forall>m. gs_min s = Some m \<longrightarrow> 1 \<le> m"
  shows "merged_from (os @ [(n, s)]) (add_occurrence (n, s) ms)"
proof -
  let ?new = "mergeGoalContractStage (map_of ms (gs_id s)) s n"
  have ms: "distinct (map fst ms)" "fst ` set ms = (gs_id \<circ> snd) ` set os" "\<And>k m. (k, m) \<in> set ms \<Longrightarrow> gs_id m = k \<and> covers os m"
    using assms(1) by (auto simp: merged_from_def)
  have "case map_of ms (gs_id s) of None \<Rightarrow> gs_id s \<notin> (gs_id \<circ> snd) ` set os | Some m \<Rightarrow> gs_id m = gs_id s \<and> covers os m"
    using ms(3) unfolding ms(2)[symmetric] by (auto simp: map_of_eq_None_iff dest: map_of_SomeD split: option.split)
  note new = merged_stage_covers[OF assms(2) this]
  let ?ms = "AList.update (gs_id s) ?new ms"
  have "gs_id m = k \<and> covers (os @ [(n, s)]) m" if "(k, m) \<in> set ?ms" for k m
  proof -
    have "map_of ?ms k = Some m"
      using that ms(1) by (simp add: distinct_update)
    then consider "k = gs_id s" "m = ?new" | "k \<noteq> gs_id s" "map_of ms k = Some m" by (auto simp: update_conv' split: if_splits)
    then show ?thesis
    proof cases
      case 2
      then show ?thesis using ms(3)[of k m] covers_other[of os m s n] by (auto dest: map_of_SomeD)
    qed (use new in simp)
  qed
  then have all_cover: "\<forall>(k, m) \<in> set ?ms. gs_id m = k \<and> covers (os @ [(n, s)]) m" by blast
  have keys: "distinct (map fst ?ms)" using ms(1) by (rule distinct_update)
  have "fst ` set ?ms = insert (gs_id s) (fst ` set ms)" using dom_update[of "gs_id s" ?new ms] by simp
  also have "\<dots> = (gs_id \<circ> snd) ` set (os @ [(n, s)])" using ms(2) by simp
  finally have "fst ` set ?ms = (gs_id \<circ> snd) ` set (os @ [(n, s)])" .
  with keys all_cover show ?thesis
    unfolding merged_from_def add_occurrence_def add_stage_def fst_conv snd_conv by blast
qed

lemma all_merged:
  assumes "\<forall>(n, s) \<in> set os. \<forall>m. gs_min s = Some m \<longrightarrow> 1 \<le> m"
  shows "merged_from os (fold add_occurrence os [])"
  using assms
proof (induction os rule: rev_induct)
  case (snoc ns os)
  obtain n s where ns: "ns = (n, s)" by fastforce
  have "merged_from os (fold add_occurrence os [])" using snoc by simp
  from add_occurrence_merged[OF this, of s n] snoc.prems show ?case by (simp add: ns)
qed (simp add: merged_from_def)

section \<open>The composed contract parses\<close>

definition tidy :: "string list option \<Rightarrow> string list option" where
  "tidy v = some_list (text_items (map JStr (odefault v [])))"

definition tidy_stage :: "WorkflowGoalContractStage \<Rightarrow> WorkflowGoalContractStage" where
  "tidy_stage s = s\<lparr>gs_required := Some (gs_required s \<noteq> Some False), gs_effects := tidy (gs_effects s), gs_after := tidy (gs_after s),
     gs_produces := tidy (gs_produces s), gs_consumes := tidy (gs_consumes s)\<rparr>"

lemma tidy_parsed: "some_list (stringArray (map_option texts v)) = tidy v"
  by (cases v) (simp_all add: tidy_def)

lemma parse_tidy_stage:
  assumes "js_trim (gs_id s) = gs_id s" "gs_id s \<noteq> []" "gs_actions s \<noteq> []" "text_list (gs_actions s)"
    "\<forall>n. gs_min s = Some n \<longrightarrow> 1 \<le> n"
  shows "parse_stage (stage_json s) = Some (tidy_stage s)"
proof -
  obtain o1 where o1: "stage_json s = JObj o1" "jget o1 ''id'' = Some (JStr (gs_id s))"
     "jget o1 ''required'' = map_option JBool (gs_required s)" "jget o1 ''allowedActions'' = Some (texts (gs_actions s))"
     "jget o1 ''allowedEffects'' = map_option texts (gs_effects s)" "jget o1 ''after'' = map_option texts (gs_after s)"
     "jget o1 ''minOccurrences'' = map_option jnat (gs_min s)" "jget o1 ''produces'' = map_option texts (gs_produces s)"
     "jget o1 ''consumes'' = map_option texts (gs_consumes s)"
    using stage_members[of s] by blast
  have required: "(map_option JBool (gs_required s) \<noteq> Some (JBool False)) = (gs_required s \<noteq> Some False)" by auto
  have "text_items (map JStr (gs_actions s)) = gs_actions s" using assms(4) by (simp add: text_list_def)
  then show ?thesis
    using assms(1-3) minimum_back[OF assms(5)] required
    by (simp add: parse_stage_def o1 text_value_def Let_def tidy_parsed tidy_stage_def)
qed

lemma parse_tidy_contract:
  assumes "gc_stages c \<noteq> []" "distinct (map gs_id (gc_stages c))" "gc_effects c \<noteq> []" "text_list (gc_effects c)"
    "\<And>s. s \<in> set (gc_stages c) \<Longrightarrow> js_trim (gs_id s) = gs_id s \<and> gs_id s \<noteq> [] \<and> gs_actions s \<noteq> [] \<and> text_list (gs_actions s)
       \<and> (\<forall>n. gs_min s = Some n \<longrightarrow> 1 \<le> n) \<and> set (effects_of s) \<subseteq> set (gc_effects c)
       \<and> set (after_of s) \<subseteq> gs_id ` set (gc_stages c) - {gs_id s}"
  shows "parseWorkflowGoalContract (goal_contract_json c)
    = Some \<lparr>gc_stages = map tidy_stage (gc_stages c), gc_outputs = tidy (gc_outputs c), gc_effects = gc_effects c\<rparr>"
proof -
  have sub: "set (odefault (tidy v) []) \<subseteq> set (odefault v [])" for v
  proof -
    have "set (text_items (map JStr xs)) \<subseteq> set xs" for xs by (induction xs) auto
    then show ?thesis by (auto simp: tidy_def some_list_def)
  qed
  obtain o1 where o1: "goal_contract_json c = JObj o1" "jget o1 ''version'' = Some (JStr ''1'')"
      "jget o1 ''stages'' = Some (JArr (map stage_json (gc_stages c)))" "jget o1 ''requiredOutputs'' = map_option texts (gc_outputs c)"
      "jget o1 ''allowedEffects'' = Some (texts (gc_effects c))"
    by (simp add: goal_contract_json_def optional_member_def jget_def split: option.split)
  have stages: "those (map parse_stage (map stage_json (gc_stages c))) = Some (map tidy_stage (gc_stages c))"
    using assms(5) parse_tidy_stage by (simp add: those_map_iff list_all2_map1 list_all2_map2 list_all2_same)
  have ids: "map gs_id (map tidy_stage (gc_stages c)) = map gs_id (gc_stages c)" by (simp add: tidy_stage_def)
  have "stage_fits (gc_effects c) (map gs_id (gc_stages c)) (tidy_stage s)" if "s \<in> set (gc_stages c)" for s
    using assms(5)[OF that] sub[of "gs_effects s"] sub[of "gs_after s"]
    unfolding stage_fits_def tidy_stage_def effects_of_def after_of_def by auto
  then have fits: "list_all (stage_fits (gc_effects c) (map gs_id (map tidy_stage (gc_stages c)))) (map tidy_stage (gc_stages c))"
    unfolding ids by (simp add: list_all_iff)
  have effects: "stringArray (Some (texts (gc_effects c))) = gc_effects c" using assms(4) by (simp add: text_list_def)
  show ?thesis
    using assms(1-3) stages fits ids effects
    by (simp add: parseWorkflowGoalContract_def o1 Let_def list_value_def tidy_parsed del: stringArray_texts map_map)
qed

text \<open>The contracts of the nodes, and all stages with a given identifier.\<close>

definition contracts_of :: "WorkflowCompositionNodeRecord list \<Rightarrow> (WorkflowCompositionNodeRecord \<Rightarrow> SegmentTemplate option)
    \<Rightarrow> WorkflowGoalContract set" where
  "contracts_of nodes templates = {c. \<exists>n \<in> set nodes. \<exists>t. templates n = Some t \<and> node_contract n t = Some c}"

definition stages_named :: "WorkflowGoalContract set \<Rightarrow> string \<Rightarrow> WorkflowGoalContractStage set" where
  "stages_named C k = {s. \<exists>c \<in> C. s \<in> set (gc_stages c) \<and> gs_id s = k}"

lemma composed_contracts:
  assumes "nodes \<noteq> []" "list_all (\<lambda>n. \<exists>t c. templates n = Some t \<and> node_contract n t = Some c \<and> contract_normal c) nodes"
  obtains ncs where "composeGoalContract nodes templates = Inr (Some (merge_contracts ncs))"
    "snd ` set ncs = contracts_of nodes templates" "\<forall>(n, c) \<in> set ncs. contract_normal c" "ncs \<noteq> []"
proof -
  let ?c = "\<lambda>n. the (node_contract n (the (templates n)))"
  have each: "templates n = Some (the (templates n)) \<and> node_contract n (the (templates n)) = Some (?c n) \<and> contract_normal (?c n)"
    if "n \<in> set nodes" for n using assms(2) that by (auto simp: list_all_iff)
  have templates: "those (map templates nodes) = Some (map (\<lambda>n. the (templates n)) nodes)"
    unfolding those_map_iff using each by (simp add: list_all2_conv_all_nth)
  have contracts: "map (\<lambda>(n, t). node_contract n t) (zip nodes (map (\<lambda>n. the (templates n)) nodes)) = map (\<lambda>n. Some (?c n)) nodes"
    using each by (auto simp: zip_map2 zip_same_conv_map comp_def)
  have "those (map (\<lambda>n. Some (?c n)) nodes) = Some (map ?c nodes)"
    unfolding those_map_iff by (simp add: list_all2_conv_all_nth)
  moreover have "\<not> list_all (\<lambda>c. c = None) (map (\<lambda>n. Some (?c n)) nodes)" using assms(1) by (cases nodes) auto
  ultimately have composed: "composeGoalContract nodes templates = Inr (Some (merge_contracts (zip nodes (map ?c nodes))))"
    unfolding composeGoalContract_def templates option.case Let_def contracts by simp
  have zipped: "zip nodes (map ?c nodes) = map (\<lambda>n. (n, ?c n)) nodes" by (simp add: zip_map2 zip_same_conv_map)
  have "snd ` set (zip nodes (map ?c nodes)) = contracts_of nodes templates"
    unfolding zipped contracts_of_def using each by (force simp: image_iff)
  then show ?thesis using that[OF composed] each assms(1) unfolding zipped by auto
qed

definition all_normal :: "(WorkflowCompositionNodeRecord \<times> WorkflowGoalContract) list \<Rightarrow> bool" where
  "all_normal ncs \<longleftrightarrow> (\<forall>c \<in> snd ` set ncs. contract_normal c)"

lemma occurrences_stages: "snd ` set (occurrences ncs) = (\<Union>c \<in> snd ` set ncs. set (gc_stages c))"
  by (force simp: occurrences_def)

lemma normal_stage:
  assumes "all_normal ncs" "c \<in> snd ` set ncs" "s \<in> set (gc_stages c)"
  shows "stage_normal s" "set (effects_of s) \<subseteq> set (gc_effects c)" "set (after_of s) \<subseteq> gs_id ` set (gc_stages c) - {gs_id s}"
proof -
  have "contract_normal c" using assms(1,2) unfolding all_normal_def by blast
  then show "stage_normal s" "set (effects_of s) \<subseteq> set (gc_effects c)" "set (after_of s) \<subseteq> gs_id ` set (gc_stages c) - {gs_id s}"
    using assms(3) by (auto simp: contract_normal_def list_all_iff stage_fits_def effects_of_def after_of_def)
qed

lemma merged_all:
  assumes "all_normal ncs"
  shows "merged_from (occurrences ncs) (fold add_occurrence (occurrences ncs) [])"
proof (rule all_merged, clarify)
  fix n s m assume s: "(n, s) \<in> set (occurrences ncs)" "gs_min s = Some m"
  then have "s \<in> snd ` set (occurrences ncs)" by force
  then obtain c where "c \<in> snd ` set ncs" "s \<in> set (gc_stages c)" unfolding occurrences_stages by blast
  from normal_stage(1)[OF assms this] show "1 \<le> m" using s(2) by (simp add: stage_normal_def)
qed

lemma merged_stages: "gc_stages (merge_contracts ncs) = map snd (fold add_occurrence (occurrences ncs) [])"
  by (simp add: merge_contracts_def merged_occurrences)

lemma merged_ids:
  assumes "all_normal ncs"
  shows "distinct (map gs_id (gc_stages (merge_contracts ncs)))"
    "gs_id ` set (gc_stages (merge_contracts ncs)) = (\<Union>c \<in> snd ` set ncs. gs_id ` set (gc_stages c))"
proof -
  let ?ms = "fold add_occurrence (occurrences ncs) []"
  note m = merged_all[OF assms]
  have ids: "map gs_id (gc_stages (merge_contracts ncs)) = map fst ?ms"
    unfolding merged_stages using m by (auto simp: merged_from_def)
  then show "distinct (map gs_id (gc_stages (merge_contracts ncs)))" using m by (simp add: merged_from_def)
  have "gs_id ` set (gc_stages (merge_contracts ncs)) = fst ` set ?ms" using arg_cong[OF ids, of set] by simp
  also have "\<dots> = gs_id ` (snd ` set (occurrences ncs))" using m by (simp add: merged_from_def image_comp)
  finally show "gs_id ` set (gc_stages (merge_contracts ncs)) = (\<Union>c \<in> snd ` set ncs. gs_id ` set (gc_stages c))"
    unfolding occurrences_stages by auto
qed

lemma pooled_named: "pooled f (occurrences ncs) k = (\<Union>x \<in> stages_named (snd ` set ncs) k. set (f x))"
proof -
  have "pooled f (occurrences ncs) k = (\<Union>s \<in> {s \<in> snd ` set (occurrences ncs). gs_id s = k}. set (f s))" by (auto simp: pooled_def)
  then show ?thesis unfolding occurrences_stages stages_named_def by auto
qed

lemma merged_cover:
  assumes "all_normal ncs" "s \<in> set (gc_stages (merge_contracts ncs))"
  shows "set (gs_actions s) = (\<Union>x \<in> stages_named (snd ` set ncs) (gs_id s). set (gs_actions x))"
    "set (after_of s) = (\<Union>x \<in> stages_named (snd ` set ncs) (gs_id s). set (after_of x))"
    "set (effects_of s) = (\<Union>x \<in> stages_named (snd ` set ncs) (gs_id s). set (effects_of x))"
    "\<forall>n. gs_min s = Some n \<longrightarrow> 1 \<le> n"
proof -
  obtain k where "(k, s) \<in> set (fold add_occurrence (occurrences ncs) [])" using assms(2) unfolding merged_stages by auto
  then have "covers (occurrences ncs) s" using merged_all[OF assms(1)] unfolding merged_from_def by blast
  note c = this[unfolded covers_def pooled_named]
  show "set (gs_actions s) = (\<Union>x \<in> stages_named (snd ` set ncs) (gs_id s). set (gs_actions x))" by (rule conjunct1[OF c])
  show "set (after_of s) = (\<Union>x \<in> stages_named (snd ` set ncs) (gs_id s). set (after_of x))"
    by (rule conjunct1[OF conjunct2[OF c]])
  show "set (effects_of s) = (\<Union>x \<in> stages_named (snd ` set ncs) (gs_id s). set (effects_of x))"
    by (rule conjunct1[OF conjunct2[OF conjunct2[OF c]]])
  show "\<forall>n. gs_min s = Some n \<longrightarrow> 1 \<le> n" by (rule conjunct2[OF conjunct2[OF conjunct2[OF c]]])
qed

lemma merged_effects: "set (gc_effects (merge_contracts ncs)) = (\<Union>x \<in> snd ` set ncs. set (gc_effects x))"
  by (force simp: merge_contracts_def)

lemma named_stage: "x \<in> stages_named C k \<Longrightarrow> \<exists>c \<in> C. x \<in> set (gc_stages c) \<and> gs_id x = k"
  by (simp add: stages_named_def)

lemma pool_sub:
  "(\<And>c x. c \<in> C \<Longrightarrow> x \<in> set (gc_stages c) \<Longrightarrow> gs_id x = k \<Longrightarrow> set (f x) \<subseteq> A) \<Longrightarrow> (\<Union>x \<in> stages_named C k. set (f x)) \<subseteq> A"
  by (auto simp: stages_named_def)

lemma merged_good:
  assumes "all_normal ncs" and s: "s \<in> set (gc_stages (merge_contracts ncs))"
  shows "js_trim (gs_id s) = gs_id s \<and> gs_id s \<noteq> [] \<and> gs_actions s \<noteq> [] \<and> text_list (gs_actions s)
     \<and> (\<forall>n. gs_min s = Some n \<longrightarrow> 1 \<le> n) \<and> set (effects_of s) \<subseteq> set (gc_effects (merge_contracts ncs))
     \<and> set (after_of s) \<subseteq> gs_id ` set (gc_stages (merge_contracts ncs)) - {gs_id s}"
proof -
  note cover = merged_cover[OF assms] and stage = normal_stage[OF assms(1)]
  have "gs_id s \<in> (\<Union>c \<in> snd ` set ncs. gs_id ` set (gc_stages c))" using s merged_ids(2)[OF assms(1)] by blast
  then obtain c x where c: "c \<in> snd ` set ncs" "x \<in> set (gc_stages c)" "gs_id x = gs_id s" by force
  have xn: "stage_normal x" using stage(1) c by blast
  have "set (gs_actions x) \<subseteq> set (gs_actions s)" unfolding cover(1) stages_named_def using c by blast
  then have "gs_actions s \<noteq> []" using xn by (auto simp: stage_normal_def)
  moreover have "text_list (gs_actions s)" unfolding text_list_iff cover(1)
  proof (intro ballI, elim UN_E)
    fix a y assume y: "y \<in> stages_named (snd ` set ncs) (gs_id s)" "a \<in> set (gs_actions y)"
    then have "stage_normal y" using named_stage[OF y(1)] stage(1) by blast
    then show "js_trim a \<noteq> []" using y(2) by (simp add: stage_normal_def text_list_iff)
  qed
  moreover have "set (effects_of s) \<subseteq> set (gc_effects (merge_contracts ncs))"
    unfolding cover(3) merged_effects by (rule pool_sub) (use stage(2) in blast)
  moreover have "set (after_of s) \<subseteq> gs_id ` set (gc_stages (merge_contracts ncs)) - {gs_id s}"
    unfolding cover(2) merged_ids(2)[OF assms(1)]
  proof (rule pool_sub)
    fix d y assume y: "d \<in> snd ` set ncs" "y \<in> set (gc_stages d)" "gs_id y = gs_id s"
    have "set (after_of y) \<subseteq> gs_id ` set (gc_stages d) - {gs_id s}" using stage(3)[OF y(1,2)] by (simp only: y(3))
    also have "\<dots> \<subseteq> (\<Union>c \<in> snd ` set ncs. gs_id ` set (gc_stages c)) - {gs_id s}"
      by (rule Diff_mono[OF UN_upper[OF y(1)] subset_refl])
    finally show "set (after_of y) \<subseteq> (\<Union>c \<in> snd ` set ncs. gs_id ` set (gc_stages c)) - {gs_id s}" .
  qed
  ultimately show ?thesis using xn c(3) cover(4) by (simp add: stage_normal_def)
qed

lemma merged_parses:
  assumes "all_normal ncs" "ncs \<noteq> []"
  shows "parseWorkflowGoalContract (goal_contract_json (merge_contracts ncs))
    = Some \<lparr>gc_stages = map tidy_stage (gc_stages (merge_contracts ncs)), gc_outputs = tidy (gc_outputs (merge_contracts ncs)),
        gc_effects = gc_effects (merge_contracts ncs)\<rparr>"
proof (rule parse_tidy_contract)
  obtain x where x: "x \<in> snd ` set ncs" using assms(2) by (cases ncs) auto
  have normal: "contract_normal c" if "c \<in> snd ` set ncs" for c using assms(1) that unfolding all_normal_def by blast
  obtain e where "e \<in> set (gc_effects x)" using normal[OF x] by (cases "gc_effects x") (auto simp: contract_normal_def)
  then have "e \<in> set (gc_effects (merge_contracts ncs))" unfolding merged_effects using x by blast
  then show "gc_effects (merge_contracts ncs) \<noteq> []" by auto
  obtain s where "s \<in> set (gc_stages x)" using normal[OF x] by (cases "gc_stages x") (auto simp: contract_normal_def)
  then have "gs_id s \<in> gs_id ` set (gc_stages (merge_contracts ncs))" unfolding merged_ids(2)[OF assms(1)] using x by blast
  then show "gc_stages (merge_contracts ncs) \<noteq> []" by auto
  show "text_list (gc_effects (merge_contracts ncs))" unfolding text_list_iff merged_effects
    using normal by (auto simp: contract_normal_def text_list_iff)
qed (use merged_ids(1)[OF assms(1)] merged_good[OF assms(1)] in blast)+

lemma after_tidy:
  assumes "all_normal ncs" "s \<in> set (gc_stages (merge_contracts ncs))"
  shows "set (after_of (tidy_stage s)) = set (after_of s)"
proof -
  have "text_list (after_of s)" unfolding text_list_iff merged_cover(2)[OF assms]
  proof (intro ballI, elim UN_E)
    fix a y assume y: "y \<in> stages_named (snd ` set ncs) (gs_id s)" "a \<in> set (after_of y)"
    then have "stage_normal y" using named_stage[OF y(1)] normal_stage(1)[OF assms(1)] by blast
    then show "js_trim a \<noteq> []" using y(2)
      by (auto simp: stage_normal_def text_list_iff listed_def after_of_def split: option.splits)
  qed
  then have "text_items (map JStr (after_of s)) = after_of s" by (simp add: text_list_def)
  then show ?thesis by (simp add: tidy_stage_def tidy_def after_of_def some_list_def)
qed

text \<open>
  C40. When every segment of a composition has a well-formed goal contract, declared or derived,
  the composed contract exists and parses: its effects are those of the segments together, it has
  the stages of all segments, each once, and a stage allows the actions, and comes after the
  stages, that the segments name for it.
\<close>

theorem composed_contract_valid:
  assumes "nodes \<noteq> []" "list_all (\<lambda>n. \<exists>t c. templates n = Some t \<and> node_contract n t = Some c \<and> contract_normal c) nodes"
  shows "\<exists>c d. composeGoalContract nodes templates = Inr (Some c) \<and> parseWorkflowGoalContract (goal_contract_json c) = Some d
    \<and> set (gc_effects d) = (\<Union>x \<in> contracts_of nodes templates. set (gc_effects x))
    \<and> distinct (map gs_id (gc_stages d))
    \<and> gs_id ` set (gc_stages d) = (\<Union>x \<in> contracts_of nodes templates. gs_id ` set (gc_stages x))
    \<and> list_all (\<lambda>s. set (gs_actions s) = (\<Union>x \<in> stages_named (contracts_of nodes templates) (gs_id s). set (gs_actions x))
        \<and> set (after_of s) = (\<Union>x \<in> stages_named (contracts_of nodes templates) (gs_id s). set (after_of x))) (gc_stages d)"
proof -
  obtain ncs where ncs: "composeGoalContract nodes templates = Inr (Some (merge_contracts ncs))"
      "snd ` set ncs = contracts_of nodes templates" "\<forall>(n, c) \<in> set ncs. contract_normal c" "ncs \<noteq> []"
    by (rule composed_contracts[OF assms])
  have normal: "all_normal ncs" using ncs(3) by (auto simp: all_normal_def)
  let ?d = "\<lparr>gc_stages = map tidy_stage (gc_stages (merge_contracts ncs)), gc_outputs = tidy (gc_outputs (merge_contracts ncs)),
        gc_effects = gc_effects (merge_contracts ncs)\<rparr>"
  have ids: "map gs_id (gc_stages ?d) = map gs_id (gc_stages (merge_contracts ncs))" by (simp add: tidy_stage_def)
  have "set (gs_actions s) = (\<Union>x \<in> stages_named (snd ` set ncs) (gs_id s). set (gs_actions x))
      \<and> set (after_of s) = (\<Union>x \<in> stages_named (snd ` set ncs) (gs_id s). set (after_of x))" if in_d: "s \<in> set (gc_stages ?d)" for s
  proof -
    obtain s' where s': "s' \<in> set (gc_stages (merge_contracts ncs))" "s = tidy_stage s'" using in_d by auto
    have same: "gs_id s = gs_id s'" "gs_actions s = gs_actions s'" by (simp_all add: s'(2) tidy_stage_def)
    show ?thesis unfolding same unfolding s'(2) after_tidy[OF normal s'(1)]
      using merged_cover(1,2)[OF normal s'(1)] by blast
  qed
  then have "list_all (\<lambda>s. set (gs_actions s) = (\<Union>x \<in> stages_named (snd ` set ncs) (gs_id s). set (gs_actions x))
      \<and> set (after_of s) = (\<Union>x \<in> stages_named (snd ` set ncs) (gs_id s). set (after_of x))) (gc_stages ?d)"
    by (simp only: list_all_iff) blast
  moreover have "distinct (map gs_id (gc_stages ?d))" unfolding ids by (rule merged_ids(1)[OF normal])
  moreover have "gs_id ` set (gc_stages ?d) = (\<Union>x \<in> snd ` set ncs. gs_id ` set (gc_stages x))"
    using arg_cong[OF ids, of set] merged_ids(2)[OF normal] by (simp add: image_image)
  moreover have "set (gc_effects ?d) = (\<Union>x \<in> snd ` set ncs. set (gc_effects x))" using merged_effects[of ncs] by simp
  ultimately show ?thesis using ncs(1) merged_parses[OF normal ncs(4)] unfolding ncs(2)[symmetric] by blast
qed

end
