(* ===== verification/Template_Goal.thy ===== *)
theory Template_Goal imports Template_Normal
begin

text \<open>
  What an accepted template owes its goal contract: the effects and stages of its actions, the
  order of the stages, their variables and the required outputs.
\<close>

section \<open>Contracts and actions\<close>

definition in_stage :: "string \<Rightarrow> jobj \<Rightarrow> bool" where
  "in_stage i a \<longleftrightarrow> jget a ''goalStage'' = Some (JStr i)"

definition action_allowed :: "WorkflowGoalContract \<Rightarrow> jobj \<Rightarrow> bool" where
  "action_allowed c a \<longleftrightarrow> (\<exists>e. jget a ''effect'' = Some (JStr e) \<and> e \<noteq> [] \<and> e \<in> set (gc_effects c)
     \<and> (e \<noteq> ''none'' \<longrightarrow> js_truthy (jget a ''goalStage''))
     \<and> (js_truthy (jget a ''goalStage'') \<longrightarrow> (\<exists>s \<in> set (gc_stages c). in_stage (gs_id s) a)))"

definition occurrence_allowed :: "WorkflowGoalContractStage \<Rightarrow> jobj \<Rightarrow> bool" where
  "occurrence_allowed s a \<longleftrightarrow> (\<exists>x \<in> set (gs_actions s). jget a ''action'' = Some (JStr x))
     \<and> (\<forall>es. gs_effects s = Some es \<longrightarrow> (\<exists>e \<in> set es. e \<noteq> [] \<and> jget a ''effect'' = Some (JStr e)))"

definition in_order :: "jobj list \<Rightarrow> WorkflowGoalContractStage \<Rightarrow> bool" where
  "in_order actions s \<longleftrightarrow> (\<forall>i < length actions. in_stage (gs_id s) (actions ! i) \<longrightarrow>
     (\<forall>d \<in> set (odefault (gs_after s) []). \<exists>j < i. in_stage d (actions ! j)))"

definition stage_fulfilled :: "jobj list \<Rightarrow> WorkflowGoalContractStage \<Rightarrow> bool" where
  "stage_fulfilled actions s \<longleftrightarrow> (let own = filter (in_stage (gs_id s)) actions
     in minimum_of s \<le> length own \<and> list_all (occurrence_allowed s) own \<and> in_order actions s
      \<and> (\<forall>v \<in> set (odefault (gs_produces s) []). \<exists>a \<in> set own. v \<in> set (producedVariables a))
      \<and> (\<forall>v \<in> set (odefault (gs_consumes s) []). \<exists>a \<in> set own. \<exists>p. jget a ''params'' = Some p \<and> v \<in> set (referencedVariables p)))"

definition contract_fulfilled :: "WorkflowGoalContract \<Rightarrow> json list \<Rightarrow> jobj list \<Rightarrow> bool" where
  "contract_fulfilled c required actions \<longleftrightarrow>
     list_all (action_allowed c) actions \<and> list_all (stage_fulfilled actions) (gc_stages c)
   \<and> (\<forall>v \<in> set (odefault (gc_outputs c) []). JStr v \<in> set required \<and> (\<exists>a \<in> set actions. v \<in> set (producedVariables a)))"

section \<open>The checks one by one\<close>

lemma js_truthy_text [simp]: "js_truthy (Some (JStr s)) \<longleftrightarrow> s \<noteq> []"
  by (simp add: js_truthy_def)

lemma check_action_None: "check_action c a = None \<longleftrightarrow> action_allowed c a"
  by (auto simp: check_action_def action_allowed_def declared_stage_def in_stage_def Let_def js_truthy_def
      split: option.splits json.splits)

lemma stage_actions_snd: "map snd (stage_actions actions i) = filter (in_stage i) actions"
proof -
  have "map snd (filter (\<lambda>(_, a). in_stage i a) (enumerate n actions)) = filter (in_stage i) actions" for n
    by (induction actions arbitrary: n) auto
  then show ?thesis by (simp add: stage_actions_def in_stage_def)
qed

lemma stage_actions_set: "(j, a) \<in> set (stage_actions actions i) \<longleftrightarrow> j < length actions \<and> a = actions ! j \<and> in_stage i a"
  by (auto simp: stage_actions_def in_stage_def in_set_enumerate_eq)

lemma earlier_action: "(\<exists>(j, _) \<in> set (stage_actions actions d). j < i) \<longleftrightarrow> (\<exists>j < i. j < length actions \<and> in_stage d (actions ! j))"
  by (force simp: stage_actions_set)

lemma check_match_None:
  "check_match actions s (i, a) = None \<longleftrightarrow> occurrence_allowed s a
     \<and> (\<forall>d \<in> set (odefault (gs_after s) []). \<exists>j < i. j < length actions \<and> in_stage d (actions ! j))"
  by (simp add: check_match_def earlier_action occurrence_allowed_def)
    (auto split: option.splits json.splits)

lemma check_matches_None:
  "first_some (check_match actions s) (stage_actions actions (gs_id s)) = None
     \<longleftrightarrow> list_all (occurrence_allowed s) (filter (in_stage (gs_id s)) actions) \<and> in_order actions s"
proof -
  have "(\<forall>m \<in> set (stage_actions actions (gs_id s)). check_match actions s m = None) \<longleftrightarrow>
     (\<forall>i < length actions. in_stage (gs_id s) (actions ! i) \<longrightarrow> check_match actions s (i, actions ! i) = None)"
    by (auto simp: stage_actions_set)
  also have "\<dots> \<longleftrightarrow> (\<forall>i < length actions. in_stage (gs_id s) (actions ! i) \<longrightarrow> occurrence_allowed s (actions ! i)) \<and> in_order actions s"
    unfolding check_match_None in_order_def by (blast intro: order.strict_trans)
  also have "(\<forall>i < length actions. in_stage (gs_id s) (actions ! i) \<longrightarrow> occurrence_allowed s (actions ! i))
      \<longleftrightarrow> list_all (occurrence_allowed s) (filter (in_stage (gs_id s)) actions)"
    by (auto simp: list_all_iff in_set_conv_nth)
  finally show ?thesis by simp
qed

lemma check_stage_None: "check_stage actions s = None \<longleftrightarrow> stage_fulfilled actions s"
proof -
  let ?m = "stage_actions actions (gs_id s)" and ?own = "filter (in_stage (gs_id s)) actions"
  have len: "length ?m = length ?own" using stage_actions_snd[of actions "gs_id s"] by (metis length_map)
  have sets: "snd ` set ?m = set ?own" using arg_cong[OF stage_actions_snd[of actions "gs_id s"], of set] by simp
  have produced: "v \<in> set (concat (map (producedVariables \<circ> snd) ?m)) \<longleftrightarrow> (\<exists>a \<in> set ?own. v \<in> set (producedVariables a))" for v
    unfolding sets[symmetric] by auto
  have own: "set (concat (map (f \<circ> snd) ?m)) = (\<Union>a \<in> set ?own. set (f a))" for f :: "jobj \<Rightarrow> string list"
    unfolding sets[symmetric] by auto
  let ?refs = "\<lambda>a. case jget a ''params'' of None \<Rightarrow> [] | Some p \<Rightarrow> referencedVariables p"
  have split: "(\<lambda>(_, a). ?refs a) = ?refs \<circ> snd" by auto
  have consumed: "v \<in> set (concat (map (\<lambda>(_, a). case jget a ''params'' of None \<Rightarrow> [] | Some p \<Rightarrow> referencedVariables p) ?m))
      \<longleftrightarrow> (\<exists>a \<in> set ?own. \<exists>p. jget a ''params'' = Some p \<and> v \<in> set (referencedVariables p))" for v
    unfolding split own UN_iff by (intro bex_cong refl) (auto split: option.split dest: sym)
  show ?thesis
    unfolding check_stage_def stage_fulfilled_def Let_def coalesce_None fail_unless_None first_some_None[of "\<lambda>v. fail_unless (f v) (g v)" for f g]
      check_matches_None produced consumed len by blast
qed

lemma check_outputs_None: "check_outputs c required actions = None \<longleftrightarrow>
    (\<forall>v \<in> set (odefault (gc_outputs c) []). JStr v \<in> set required \<and> (\<exists>a \<in> set actions. v \<in> set (producedVariables a)))"
  by (auto simp: check_outputs_def Let_def)

lemma check_contract_None:
  assumes "check_contract c t = Inr None"
  shows "\<exists>actions required. collectActions (jget t ''steps'') = Inr actions \<and> schema_required t = Inr required
    \<and> contract_fulfilled c required actions"
proof -
  obtain actions where a: "collectActions (jget t ''steps'') = Inr actions"
    using assms by (cases "collectActions (jget t ''steps'')") (auto simp: check_contract_def)
  have none: "coalesce (first_some (check_action c) actions) (first_some (check_stage actions) (gc_stages c)) = None"
    using assms by (simp add: check_contract_def a split: option.splits)
  obtain r where r: "schema_required t = Inr r"
    using assms none by (cases "schema_required t") (auto simp: check_contract_def a)
  have "check_outputs c r actions = None" using assms none by (simp add: check_contract_def a r)
  then show ?thesis using none a r
    by (simp add: contract_fulfilled_def check_action_None check_stage_None check_outputs_None list_all_iff)
qed

section \<open>The order of the stages\<close>

text \<open>A stage that occurs, related to the stages it comes after.\<close>

definition after_relation :: "WorkflowGoalContract \<Rightarrow> jobj list \<Rightarrow> (string \<times> string) set" where
  "after_relation c actions = {(gs_id s, d) | s d. s \<in> set (gc_stages c) \<and> d \<in> set (odefault (gs_after s) [])
     \<and> (\<exists>a \<in> set actions. in_stage (gs_id s) a)}"

definition first_at :: "jobj list \<Rightarrow> string \<Rightarrow> nat" where
  "first_at actions i = (LEAST k. k < length actions \<and> in_stage i (actions ! k))"

lemma after_relation_iff: "(i, d) \<in> after_relation c actions \<longleftrightarrow>
    (\<exists>s \<in> set (gc_stages c). i = gs_id s \<and> d \<in> set (odefault (gs_after s) []) \<and> (\<exists>a \<in> set actions. in_stage i a))"
  by (auto simp: after_relation_def)

lemma after_earlier:
  assumes "\<forall>s \<in> set (gc_stages c). in_order actions s" "(i, d) \<in> after_relation c actions"
  shows "first_at actions d < first_at actions i"
proof -
  obtain s a where s: "s \<in> set (gc_stages c)" "i = gs_id s" "d \<in> set (odefault (gs_after s) [])"
      "a \<in> set actions" "in_stage i a" using assms(2) unfolding after_relation_iff by (elim bexE conjE) (rule that)
  obtain k where "k < length actions" "actions ! k = a" using s(4) unfolding in_set_conv_nth by blast
  then have k: "k < length actions \<and> in_stage i (actions ! k)" using s(5) by simp
  have first: "first_at actions i < length actions \<and> in_stage i (actions ! first_at actions i)"
    unfolding first_at_def by (rule LeastI[where P = "\<lambda>k. k < length actions \<and> in_stage i (actions ! k)", OF k])
  then obtain j where j: "j < first_at actions i" "in_stage d (actions ! j)"
    using assms(1) s(1-3) unfolding in_order_def by blast
  then have "first_at actions d \<le> j" unfolding first_at_def[of actions d] using first by (intro Least_le) auto
  then show ?thesis using j(1) by simp
qed

lemma after_acyclic: "\<forall>s \<in> set (gc_stages c). in_order actions s \<Longrightarrow> acyclic (after_relation c actions)"
  by (rule acyclicI_order[where f = "first_at actions"]) (rule after_earlier)

lemma goal_fulfilled:
  assumes "validateGeneratedWorkflowTemplate v = Inr (Inr t)" "jget t ''goalContract'' = Some g"
  shows "\<exists>c actions required. parseWorkflowGoalContract g = Some c \<and> collectActions (jget t ''steps'') = Inr actions
    \<and> schema_required t = Inr required \<and> contract_fulfilled c required actions \<and> acyclic (after_relation c actions)"
proof -
  obtain t0 t1 where parts: "goal_check t1 = Inr ([], t)" "validateGeneratedWorkflowGoalSemantics t = Inr []"
    by (rule accepted_parts[OF assms(1)])
  obtain c where c: "parseWorkflowGoalContract g = Some c" "g = goal_contract_json c"
    using goal_fixed goal_again[OF parts(1)] assms(2) by blast
  have truthy: "js_truthy (Some g)" by (simp add: c(2) goal_contract_json_def js_truthy_def)
  then have "workflowGoalContractReason t None = Inr None"
    using parts(2) assms(2) by (cases "workflowGoalContractReason t None")
      (auto simp: validateGeneratedWorkflowGoalSemantics_def goal_violation_def split: option.splits)
  then have "check_contract c t = Inr None"
    using truthy assms(2) c(1) by (simp add: workflowGoalContractReason_def Let_def nullish_def js_truthy_def[of None])
  from check_contract_None[OF this] obtain actions required where w: "collectActions (jget t ''steps'') = Inr actions"
      "schema_required t = Inr required" "contract_fulfilled c required actions" by blast
  then have "\<forall>s \<in> set (gc_stages c). in_order actions s"
    by (auto simp: contract_fulfilled_def stage_fulfilled_def list_all_iff Let_def)
  with w c(1) show ?thesis using after_acyclic by blast
qed

text \<open>
  C34. An accepted template with a goal contract fulfils the contract: every action has an allowed
  effect and, unless it has none, a declared stage; every required stage occurs often enough,
  with its own actions and effects, after an earlier action of every stage it comes after;
  produced, consumed and required variables are there; and so no stage that occurs depends on
  itself through the order.
\<close>

theorem goal_contract_enforced:
  assumes "validateGeneratedWorkflowTemplate v = Inr (Inr t)" "jget t ''goalContract'' = Some g"
  shows "\<exists>c actions required. parseWorkflowGoalContract g = Some c \<and> collectActions (jget t ''steps'') = Inr actions
    \<and> schema_required t = Inr required \<and> contract_fulfilled c required actions \<and> acyclic (after_relation c actions)"
  using goal_fulfilled[OF assms] .

lemma goal_template_contract: "jget goal_template ''goalContract'' = Some (goal_contract_json
    \<lparr>gc_stages = [\<lparr>gs_id = ''s'', gs_required = Some True, gs_actions = [''tap''], gs_effects = None, gs_after = None,
       gs_min = None, gs_produces = None, gs_consumes = None\<rparr>], gc_outputs = None, gc_effects = [''open'']\<rparr>)"
  by code_simp

theorem goal_contract_enforced_witness:
  "\<exists>c actions required. collectActions (jget goal_template ''steps'') = Inr actions
    \<and> contract_fulfilled c required actions \<and> actions \<noteq> []"
proof -
  have "collectActions (jget goal_template ''steps'') \<noteq> Inr []" by code_simp
  then show ?thesis using goal_contract_enforced[OF raw_goal_accepted goal_template_contract] by fastforce
qed

end
