(* ===== verification/Segment_Compose.thy ===== *)
theory Segment_Compose imports Segment_Goal Segment_Properties Template_Goal
begin

text \<open>
  The assembly of a composed workflow (\<^verbatim>\<open>WorkflowSegmentComposer\<close> of
  \<^verbatim>\<open>workflow-segments/composer.ts\<close>) with the keys of \<^verbatim>\<open>key-utils.ts\<close>: fingerprints, uniform
  policies, the template and its validation. SHA-256, the printing of numbers, the collation of
  \<^verbatim>\<open>localeCompare\<close> and the engine of the input resolver are parameters; what the repository finds
  is an argument. A call that fails saves no execution binding.
\<close>

section \<open>Canonical texts\<close>

text \<open>Keys that are array indices are enumerated first, in their numeric order.\<close>

definition index_number :: "string \<Rightarrow> nat" where
  "index_number s = foldl (\<lambda>a c. a * 10 + (of_char c - 48)) 0 s"

definition index_key :: "string \<Rightarrow> bool" where
  "index_key s \<longleftrightarrow> s \<noteq> [] \<and> list_all ascii_digit s \<and> (s = ''0'' \<or> hd s \<noteq> CHR ''0'') \<and> index_number s < 4294967295"

definition enumerated :: "(string \<times> 'a) list \<Rightarrow> (string \<times> 'a) list" where
  "enumerated ms = sort_key (index_number \<circ> fst) (filter (index_key \<circ> fst) ms) @ filter (\<lambda>m. \<not> index_key (fst m)) ms"

record compose_env =
  ce_sha :: "string \<Rightarrow> string"
  ce_num :: "rat \<Rightarrow> string"
  ce_collate :: "string \<Rightarrow> string"
  ce_engine :: text_engine

text \<open>The text of a value with the members in an order of their own.\<close>

fun ordered_text :: "((string \<times> string) list \<Rightarrow> (string \<times> string) list) \<Rightarrow> (rat \<Rightarrow> string) \<Rightarrow> json \<Rightarrow> string"
  and ordered_items :: "((string \<times> string) list \<Rightarrow> (string \<times> string) list) \<Rightarrow> (rat \<Rightarrow> string) \<Rightarrow> json list \<Rightarrow> string list"
  and ordered_members :: "((string \<times> string) list \<Rightarrow> (string \<times> string) list) \<Rightarrow> (rat \<Rightarrow> string) \<Rightarrow> jobj \<Rightarrow> (string \<times> string) list" where
  "ordered_text ord num JNull = ''null''"
| "ordered_text ord num (JBool b) = (if b then ''true'' else ''false'')"
| "ordered_text ord num (JNum x) = num x"
| "ordered_text ord num (JStr s) = js_quote s"
| "ordered_text ord num (JArr xs) = ''['' @ intercalate '','' (ordered_items ord num xs) @ '']''"
| "ordered_text ord num (JObj ms) = ''{'' @ intercalate '','' (map snd (ord (ordered_members ord num ms))) @ ''}''"
| "ordered_items ord num [] = []"
| "ordered_items ord num (x # xs) = ordered_text ord num x # ordered_items ord num xs"
| "ordered_members ord num [] = []"
| "ordered_members ord num ((k, v) # ms) = (k, js_quote k @ '':'' @ ordered_text ord num v) # ordered_members ord num ms"

definition canonicalJson :: "compose_env \<Rightarrow> json \<Rightarrow> string" where
  "canonicalJson env v = ordered_text (sort_key (ce_collate env \<circ> fst)) (ce_num env) v"

definition stableJson :: "compose_env \<Rightarrow> json \<Rightarrow> string" where
  "stableJson env v = ordered_text (\<lambda>ms. enumerated (sort_key (ce_collate env \<circ> fst) ms)) (ce_num env) v"

definition fullFingerprint :: "compose_env \<Rightarrow> string \<Rightarrow> json \<Rightarrow> string" where
  "fullFingerprint env namespace v = ce_sha env (namespace @ '':'' @ stableJson env v)"

definition shortKey :: "compose_env \<Rightarrow> string \<Rightarrow> json \<Rightarrow> string" where
  "shortKey env namespace v = take 24 (ce_sha env (namespace @ '':'' @ stableJson env v))"

section \<open>Records as values\<close>

primrec workflow_step_json :: "WorkflowStep \<Rightarrow> json" where
  "workflow_step_json (WorkflowStep.ActionStep i a p s f r) = JObj ([(''type'', JStr ''action'')]
     @ optional_member ''id'' (map_option JStr i) @ [(''action'', JStr a)] @ optional_member ''params'' p
     @ optional_member ''saveOutputAs'' (map_option JStr s)
     @ optional_member ''onFailureSteps'' (map_option JArr (map_option (map workflow_step_json) f)) @ r)"
| "workflow_step_json (WorkflowStep.WaitStep i r) = JObj ([(''type'', JStr ''wait'')] @ optional_member ''id'' (map_option JStr i) @ r)"
| "workflow_step_json (WorkflowStep.ConditionStep i t f r) = JObj ([(''type'', JStr ''condition'')]
     @ optional_member ''id'' (map_option JStr i) @ [(''if_true'', JArr (map workflow_step_json t))]
     @ optional_member ''if_false'' (map_option JArr (map_option (map workflow_step_json) f)) @ r)"
| "workflow_step_json (WorkflowStep.LoopStep i ss r) = JObj ([(''type'', JStr ''loop'')]
     @ optional_member ''id'' (map_option JStr i) @ [(''steps'', JArr (map workflow_step_json ss))] @ r)"
| "workflow_step_json (WorkflowStep.CheckpointStep i r) = JObj ([(''type'', JStr ''checkpoint'')]
     @ optional_member ''id'' (map_option JStr i) @ r)"

definition node_json :: "WorkflowCompositionNodeRecord \<Rightarrow> string option \<Rightarrow> json" where
  "node_json n fingerprint = JObj ([(''nodeKey'', JStr (cn_key n)), (''ordinal'', JNum (cn_ordinal n)), (''segmentKey'', JStr (cn_segment n)),
     (''segmentVersion'', JStr (cn_version n)), (''inputBindings'', JObj (map (\<lambda>(k, v). (k, JStr v)) (cn_inputs n))),
     (''outputBindings'', JObj (map (\<lambda>(k, v). (k, JStr v)) (cn_outputs n))), (''dependsOn'', texts (cn_depends n))]
     @ optional_member ''segmentFingerprint'' (map_option JStr fingerprint))"

text \<open>
  The whole rows: what \<open>Segment_Types\<close> has of them, and the rest. The documents are the stored
  JSON of which the schemas and the resolver are the typed readings; only keys and the composed
  template print them.
\<close>

record SegmentVersion = WorkflowSegmentVersionRecord +
  sv_key :: string
  sv_version :: string
  sv_platform :: string
  sv_template :: SegmentTemplate
  sv_inputs_doc :: json
  sv_outputs_doc :: "json option"
  sv_postcondition :: "json option"
  sv_compat :: jobj
  sv_fingerprint :: string

record Composition = WorkflowCompositionRecord +
  co_name :: string
  co_version :: string
  co_key :: string
  co_capability :: string
  co_platform :: string
  co_resolver :: SegmentInputResolver
  co_inputs_doc :: json
  co_outputs_doc :: json
  co_resolver_doc :: json
  co_postcondition :: json
  co_verification :: json
  co_retention :: rat
  co_contract :: string
  co_compat :: jobj

definition segment_template_json :: "SegmentTemplate \<Rightarrow> json" where
  "segment_template_json t = JObj (tp_rest t @ optional_member ''safetyClass'' (map_option JStr (tp_safety t))
     @ optional_member ''goalContract'' (map_option goal_contract_json (tp_goal t))
     @ optional_member ''allowedRecoveryRequests'' (map_option texts (tp_requests t))
     @ optional_member ''requiredRecoveryCapabilities'' (map_option texts (tp_capabilities t))
     @ optional_member ''recoveryPolicy'' (map_option JObj (tp_recovery t))
     @ optional_member ''compatibleAppVersions'' (map_option texts (tp_versions t))
     @ [(''steps'', JArr (map workflow_step_json (tp_steps t)))])"

definition or_null :: "json option \<Rightarrow> json" where
  "or_null v = odefault v JNull"

definition computeSegmentFingerprint :: "compose_env \<Rightarrow> SegmentVersion \<Rightarrow> string" where
  "computeSegmentFingerprint env s = fullFingerprint env ''workflow-segment-v1'' (JObj
     [(''segmentKey'', JStr (sv_key s)), (''version'', JStr (sv_version s)), (''platform'', JStr (sv_platform s)),
      (''template'', segment_template_json (sv_template s)), (''inputSchema'', sv_inputs_doc s),
      (''outputSchema'', or_null (sv_outputs_doc s)),
      (''postconditionContract'', or_null (sv_postcondition s)), (''compatibility'', JObj (sv_compat s))])"

type_synonym segment_map = "(string \<times> SegmentVersion) list"

definition find_segment :: "segment_map \<Rightarrow> WorkflowCompositionNodeRecord \<Rightarrow> SegmentVersion option" where
  "find_segment segs n = map_of segs (cn_segment n @ ''@'' @ cn_version n)"

definition execution_policy_json :: "Composition \<Rightarrow> json" where
  "execution_policy_json c = JObj [(''defaultVerificationStrategy'', co_verification c), (''dataRetentionDays'', JNum (co_retention c)),
     (''runtimeContract'', JStr (co_contract c))]"

definition computeCompositionStructureKey :: "compose_env \<Rightarrow> Composition \<Rightarrow> segment_map \<Rightarrow> string" where
  "computeCompositionStructureKey env c segs = shortKey env ''workflow-composition-v1'' (JObj
     [(''compositionName'', JStr (co_name c)), (''version'', JStr (co_version c)), (''capabilityKey'', JStr (co_capability c)),
      (''platform'', JStr (co_platform c)), (''inputSchema'', co_inputs_doc c),
      (''outputSchema'', co_outputs_doc c), (''inputResolver'', co_resolver_doc c),
      (''postconditionContract'', co_postcondition c), (''executionPolicy'', execution_policy_json c),
      (''compatibility'', JObj (co_compat c)),
      (''nodes'', JArr (map (\<lambda>n. node_json n (map_option sv_fingerprint (find_segment segs n))) (cp_nodes c)))])"

definition computeExecutionKey :: "compose_env \<Rightarrow> string \<Rightarrow> string option \<Rightarrow> string \<Rightarrow> jobj \<Rightarrow> string" where
  "computeExecutionKey env deviceId accountId compositionKey runtimeInputs = shortKey env ''workflow-execution-v1'' (JObj
     [(''deviceId'', JStr deviceId), (''accountId'', jnullable accountId), (''compositionKey'', JStr compositionKey),
      (''runtimeInputs'', JObj runtimeInputs)])"

section \<open>Policies\<close>

definition requireUniformOptionalPolicy :: "compose_env \<Rightarrow> json option list \<Rightarrow> string \<Rightarrow> comp_error + json option" where
  "requireUniformOptionalPolicy env vs name =
     (if list_all (\<lambda>v. v = None) vs then Inr None
      else case those vs of
        None \<Rightarrow> Inl (policy_conflict (''composition segments do not all declare '' @ name))
      | Some ws \<Rightarrow>
          if \<not> list_all (\<lambda>w. canonicalJson env w = canonicalJson env (hd ws)) ws
          then Inl (policy_conflict (''composition segments declare conflicting '' @ name))
          else Inr (Some (hd ws)))"

definition composeSafetyClass :: "string option list \<Rightarrow> comp_error + string" where
  "composeSafetyClass vs =
     (let classes = sortedUnique (concat (map (\<lambda>v. case v of None \<Rightarrow> [] | Some s \<Rightarrow> if s = [] then [] else [s]) vs))
      in if list_ex (\<lambda>v. v = None \<or> v = Some []) vs \<or> length classes \<noteq> 1
         then Inl (policy_conflict ''composition segments must declare one uniform safetyClass'')
         else Inr (hd classes))"

section \<open>Composing\<close>

record compose_input =
  ci_platform :: string
  ci_intent :: string
  ci_request :: string
  ci_device :: string
  ci_account :: "string option"

record ExecutionBinding =
  eb_request :: string
  eb_execution :: string
  eb_composition :: string
  eb_device :: string
  eb_account :: "string option"
  eb_intent :: string
  eb_inputs :: jobj
  eb_audit :: jobj

record ComposedWorkflow =
  cw_template :: jobj
  cw_capability :: string
  cw_name :: string
  cw_version :: string
  cw_key :: string
  cw_execution :: string
  cw_request :: string
  cw_refs :: "(string \<times> string) list"
  cw_inputs :: jobj
  cw_public :: jobj

datatype compose_error = Refused comp_error | InvalidTemplate "template_error list" | Thrown string

definition refuse :: "comp_error + 'a \<Rightarrow> compose_error + 'a" where
  "refuse r = (case r of Inl e \<Rightarrow> Inl (Refused e) | Inr x \<Rightarrow> Inr x)"

lemma refuse_Inr [simp]: "refuse r = Inr y \<longleftrightarrow> r = Inr y"
  by (auto simp: refuse_def split: sum.splits)

definition check_segment :: "compose_env \<Rightarrow> segment_map \<Rightarrow> WorkflowCompositionNodeRecord \<Rightarrow> comp_error + unit" where
  "check_segment env segs n =
     (let name = cn_segment n @ ''@'' @ cn_version n
      in case find_segment segs n of
        None \<Rightarrow> Inl (''WORKFLOW_SEGMENT_UNAVAILABLE'', ''composition segment is unavailable: '' @ name)
      | Some s \<Rightarrow> require (sv_fingerprint s = computeSegmentFingerprint env s)
          (''WORKFLOW_SEGMENT_FINGERPRINT_MISMATCH'', ''composition segment fingerprint mismatch: '' @ name))"

text \<open>The rows as the graph check and the rewriting of steps see them.\<close>

definition graph_segments :: "segment_map \<Rightarrow> segments" where
  "graph_segments segs = map (\<lambda>(k, s). (k, WorkflowSegmentVersionRecord.truncate s)) segs"

definition composed_steps :: "Composition \<Rightarrow> segment_map \<Rightarrow> WorkflowStep list" where
  "composed_steps c segs = compose_steps (WorkflowCompositionRecord.truncate c)
     (\<lambda>n. case find_segment segs n of None \<Rightarrow> [] | Some s \<Rightarrow> tp_steps (sv_template s))"

definition composed_template :: "compose_input \<Rightarrow> Composition \<Rightarrow> segment_map \<Rightarrow> string \<Rightarrow> WorkflowGoalContract option \<Rightarrow> json option
    \<Rightarrow> string list \<Rightarrow> json option \<Rightarrow> json option \<Rightarrow> jobj" where
  "composed_template i c segs safety goal requests capabilities recovery versions =
     [(''id'', JStr (co_name c)), (''name'', JStr (co_name c)),
      (''platform'', JStr (if co_platform c = ''*'' then ci_platform i else co_platform c)),
      (''description'', JStr (''PostgreSQL composition '' @ co_name c @ ''@'' @ co_version c)), (''version'', JStr (co_version c)),
      (''safetyClass'', JStr safety), (''outputSchema'', co_outputs_doc c),
      (''postconditionContract'', co_postcondition c)]
     @ optional_member ''goalContract'' (map_option goal_contract_json goal)
     @ optional_member ''allowedRecoveryRequests'' requests
     @ (if capabilities = [] then [] else [(''requiredRecoveryCapabilities'', texts capabilities)])
     @ optional_member ''recoveryPolicy'' recovery
     @ [(''steps'', JArr (map workflow_step_json (composed_steps c segs))),
        (''defaultVerificationStrategy'', co_verification c), (''dataRetentionDays'', JNum (co_retention c))]
     @ optional_member ''compatibleAppVersions'' versions @ [(''runtimeContract'', JStr (co_contract c))]"

definition composed_policies :: "compose_env \<Rightarrow> compose_input \<Rightarrow> Composition \<Rightarrow> segment_map \<Rightarrow> comp_error + jobj" where
  "composed_policies env i c segs =
     (let templates = map (\<lambda>n. sv_template (the (find_segment segs n))) (cp_nodes c)
      in sum_bind (composeGoalContract (cp_nodes c) (\<lambda>n. map_option sv_template (find_segment segs n))) (\<lambda>goal.
         sum_bind (requireUniformOptionalPolicy env (map (\<lambda>t. map_option texts (tp_requests t)) templates) ''allowedRecoveryRequests'') (\<lambda>requests.
         sum_bind (requireUniformOptionalPolicy env (map (\<lambda>t. map_option JObj (tp_recovery t)) templates) ''recoveryPolicy'') (\<lambda>recovery.
         sum_bind (requireUniformOptionalPolicy env (map (\<lambda>t. map_option texts (tp_versions t)) templates) ''compatibleAppVersions'') (\<lambda>versions.
         sum_bind (composeSafetyClass (map tp_safety templates)) (\<lambda>safety.
         Inr (composed_template i c segs safety goal requests
           (sortedUnique (concat (map (\<lambda>t. odefault (tp_capabilities t) []) templates))) recovery versions)))))))"

definition validated :: "jobj \<Rightarrow> compose_error + jobj" where
  "validated t = (case validateGeneratedWorkflowTemplate (JObj t) of
      Inl e \<Rightarrow> Inl (Thrown e) | Inr (Inl es) \<Rightarrow> Inl (InvalidTemplate es) | Inr (Inr t') \<Rightarrow> Inr t')"

text \<open>The answer comes with the binding that was saved for it.\<close>

definition composeResolved :: "compose_env \<Rightarrow> Composition \<Rightarrow> segment_map \<Rightarrow> compose_input \<Rightarrow> compose_error + (ComposedWorkflow \<times> ExecutionBinding)" where
  "composeResolved env c segs i =
     sum_bind (refuse (require (cp_nodes c \<noteq> []) (''WORKFLOW_COMPOSITION_INVALID'', ''workflow composition has no nodes''))) (\<lambda>_.
     sum_bind (refuse (each (check_segment env segs) (cp_nodes c))) (\<lambda>_.
     sum_bind (refuse (validateCompositionGraph (ce_num env) (WorkflowCompositionRecord.truncate c) (graph_segments segs))) (\<lambda>_.
     sum_bind (refuse (require (co_key c = computeCompositionStructureKey env c segs)
       (''WORKFLOW_COMPOSITION_FINGERPRINT_MISMATCH'', ''workflow composition fingerprint mismatch''))) (\<lambda>_.
     sum_bind (refuse (resolveCompositionInputs (ce_engine env) (ci_intent i) (co_resolver c) (cp_inputs c))) (\<lambda>inputs.
     sum_bind (refuse (composed_policies env i c segs)) (\<lambda>t.
     sum_bind (validated t) (\<lambda>template.
       (let execution = computeExecutionKey env (ci_device i) (ci_account i) (co_key c) inputs; public = public_inputs (cp_inputs c) inputs
        in Inr (\<lparr>cw_template = template, cw_capability = co_capability c, cw_name = co_name c, cw_version = co_version c, cw_key = co_key c,
              cw_execution = execution, cw_request = ci_request i, cw_refs = map (\<lambda>n. (cn_segment n, cn_version n)) (cp_nodes c),
              cw_inputs = inputs, cw_public = public\<rparr>,
            \<lparr>eb_request = ci_request i, eb_execution = execution, eb_composition = co_key c, eb_device = ci_device i,
              eb_account = ci_account i, eb_intent = ci_intent i, eb_inputs = inputs, eb_audit = public\<rparr>)))))))))"

text \<open>What \<^verbatim>\<open>compose\<close> and \<^verbatim>\<open>composeCandidate\<close> do with the composition the repository found.\<close>

definition compose_found :: "compose_env \<Rightarrow> Composition option \<Rightarrow> (WorkflowCompositionNodeRecord list \<Rightarrow> segment_map) \<Rightarrow> compose_input
    \<Rightarrow> compose_error + (ComposedWorkflow \<times> ExecutionBinding) option" where
  "compose_found env found segmentVersions i =
     (case found of None \<Rightarrow> Inr None
      | Some c \<Rightarrow> sum_bind (composeResolved env c (segmentVersions (cp_nodes c)) i) (\<lambda>w. Inr (Some w)))"

section \<open>What a composed workflow is\<close>

lemma composed_parts:
  assumes "composeResolved env c segs i = Inr (w, b)"
  obtains t where "list_all (\<lambda>n. check_segment env segs n = Inr ()) (cp_nodes c)"
    "validateCompositionGraph (ce_num env) (WorkflowCompositionRecord.truncate c) (graph_segments segs) = Inr ()"
    "co_key c = computeCompositionStructureKey env c segs"
    "resolveCompositionInputs (ce_engine env) (ci_intent i) (co_resolver c) (cp_inputs c) = Inr (cw_inputs w)"
    "composed_policies env i c segs = Inr t" "validateGeneratedWorkflowTemplate (JObj t) = Inr (Inr (cw_template w))"
    "cw_public w = public_inputs (cp_inputs c) (cw_inputs w)" "eb_execution b = cw_execution w" "eb_inputs b = cw_inputs w"
    "eb_audit b = cw_public w" "eb_request b = ci_request i" "eb_composition b = co_key c"
proof -
  have valid: "validated t = Inr t' \<longleftrightarrow> validateGeneratedWorkflowTemplate (JObj t) = Inr (Inr t')" for t t'
    by (auto simp: validated_def split: sum.splits)
  show ?thesis
    using assms that unfolding composeResolved_def Let_def
    by (auto simp: valid list_all_iff)
qed

lemma jget_append: "jget (o1 @ o2) k = coalesce (jget o1 k) (jget o2 k)"
  by (simp add: jget_def map_add_def split: option.split)

lemma jget_optional [simp]: "jget (optional_member k v) k' = (if k = k' then v else None)"
  by (cases v) (simp_all add: optional_member_def jget_def)

lemma jget_Cons: "jget ((k, v) # o1) k' = (if k = k' then Some v else jget o1 k')" "jget [] k' = None"
  by (simp_all add: jget_def)

lemma composed_template_steps:
  "jget (composed_template i c segs safety goal requests capabilities recovery versions) ''steps''
     = Some (JArr (map workflow_step_json (composed_steps c segs)))"
  unfolding composed_template_def jget_append by (simp add: jget_Cons)

lemma composed_policies_steps:
  "composed_policies env i c segs = Inr t \<Longrightarrow> jget t ''steps'' = Some (JArr (map workflow_step_json (composed_steps c segs)))"
  by (auto simp: composed_policies_def Let_def composed_template_steps)

lemma normalize_member: "jget (normalize_members o1) k = map_option normalizeNestedObservationPrimitiveParams (jget o1 k)"
  by (induction o1) (auto simp: jget_def)

lemma fill_other: "k \<noteq> ''observationPrimitive'' \<Longrightarrow> jget (fill_observation o1) k = jget o1 k"
  by (auto simp: fill_observation_def split: option.split json.split)

lemma accepted_steps_normalized:
  assumes "validateGeneratedWorkflowTemplate (JObj t) = Inr (Inr t')"
  shows "jget t' ''steps'' = map_option normalizeNestedObservationPrimitiveParams (jget t ''steps'')"
proof -
  obtain t0 t1 where parts: "normalizeNestedObservationPrimitiveParams (JObj t) = JObj t0" "platform_check t0 = ([], t1)"
    "goal_check t1 = Inr ([], t')"
    by (rule accepted_parts[OF assms])
  have "jget t' ''steps'' = jget t1 ''steps''" using goal_again[OF parts(3)] by simp
  also have "\<dots> = jget t0 ''steps''" using platform_again[OF parts(2)] by simp
  also have "\<dots> = map_option normalizeNestedObservationPrimitiveParams (jget t ''steps'')"
    using parts(1) by (auto simp: fill_other normalize_member)
  finally show ?thesis .
qed

definition hides_secrets :: "SegmentInputSchema \<Rightarrow> jobj \<Rightarrow> bool" where
  "hides_secrets schema inputs \<longleftrightarrow> (\<forall>(k, v) \<in> set inputs. \<forall>p. map_of (is_properties schema) k = Some p \<longrightarrow> pr_secret p \<longrightarrow> v = JStr ''[secret]'')"

lemma public_hides: "hides_secrets schema (public_inputs schema inputs)"
  by (auto simp: hides_secrets_def public_inputs_def)

definition goal_kept :: "jobj \<Rightarrow> bool" where
  "goal_kept t \<longleftrightarrow> (\<forall>g. jget t ''goalContract'' = Some g \<longrightarrow> (\<exists>d actions required. parseWorkflowGoalContract g = Some d
     \<and> collectActions (jget t ''steps'') = Inr actions \<and> schema_required t = Inr required
     \<and> contract_fulfilled d required actions))"

definition segment_intact :: "compose_env \<Rightarrow> segment_map \<Rightarrow> WorkflowCompositionNodeRecord \<Rightarrow> bool" where
  "segment_intact env segs n \<longleftrightarrow> (\<exists>s. find_segment segs n = Some s \<and> sv_fingerprint s = computeSegmentFingerprint env s)"

text \<open>
  C39. A composed workflow is built from intact rows only: its segments and its structure have the
  fingerprints they were stored with and its graph is valid. Its steps are the rewritten steps of
  the segments in order, its template is accepted as it is and fulfils its goal contract, every
  required input is resolved, no secret shows in the public inputs, and exactly this execution
  is bound to the request.
\<close>

theorem composed_workflow_sound:
  assumes "composeResolved env c segs i = Inr (w, b)"
  shows "list_all (segment_intact env segs) (cp_nodes c) \<and> co_key c = computeCompositionStructureKey env c segs
    \<and> composition_valid (WorkflowCompositionRecord.truncate c) (graph_segments segs)
    \<and> jget (cw_template w) ''steps'' = Some (normalizeNestedObservationPrimitiveParams (JArr (map workflow_step_json (composed_steps c segs))))
    \<and> validateGeneratedWorkflowTemplate (JObj (cw_template w)) = Inr (Inr (cw_template w)) \<and> goal_kept (cw_template w)
    \<and> list_all (jhas (cw_inputs w)) (is_required (cp_inputs c)) \<and> hides_secrets (cp_inputs c) (cw_public w)
    \<and> eb_request b = ci_request i \<and> eb_execution b = cw_execution w \<and> eb_inputs b = cw_inputs w \<and> eb_audit b = cw_public w"
proof -
  obtain t where t: "list_all (\<lambda>n. check_segment env segs n = Inr ()) (cp_nodes c)"
    "validateCompositionGraph (ce_num env) (WorkflowCompositionRecord.truncate c) (graph_segments segs) = Inr ()"
    "co_key c = computeCompositionStructureKey env c segs"
    "resolveCompositionInputs (ce_engine env) (ci_intent i) (co_resolver c) (cp_inputs c) = Inr (cw_inputs w)"
    "composed_policies env i c segs = Inr t" "validateGeneratedWorkflowTemplate (JObj t) = Inr (Inr (cw_template w))"
    "cw_public w = public_inputs (cp_inputs c) (cw_inputs w)" "eb_execution b = cw_execution w" "eb_inputs b = cw_inputs w"
    "eb_audit b = cw_public w" "eb_request b = ci_request i" "eb_composition b = co_key c"
    by (rule composed_parts[OF assms])
  have intact: "segment_intact env segs n" if "check_segment env segs n = Inr ()" for n
    using that by (auto simp: check_segment_def segment_intact_def Let_def split: option.splits)
  have "list_all (segment_intact env segs) (cp_nodes c)" using t(1) intact by (auto simp: list_all_iff)
  moreover have "composition_valid (WorkflowCompositionRecord.truncate c) (graph_segments segs)"
    using t(2) by (simp add: graph_check_Inr)
  moreover have "jget (cw_template w) ''steps'' = Some (normalizeNestedObservationPrimitiveParams (JArr (map workflow_step_json (composed_steps c segs))))"
    using accepted_steps_normalized[OF t(6)] composed_policies_steps[OF t(5)] by simp
  moreover have "goal_kept (cw_template w)" using goal_fulfilled[OF t(6)] by (fastforce simp: goal_kept_def)
  moreover have "list_all (jhas (cw_inputs w)) (is_required (cp_inputs c))"
    using resolveCompositionInputs_Inr(1)[OF t(4)] by (simp add: list_all_iff)
  ultimately show ?thesis
    using t(3,7-11) accepted_again[OF t(6)] public_hides[of "cp_inputs c" "cw_inputs w"] by simp
qed

section \<open>A sample\<close>

definition tap_template :: SegmentTemplate where
  "tap_template = \<lparr>tp_steps = [WorkflowStep.ActionStep (Some ''a'') ''tap'' None None None [(''effect'', JStr ''open''), (''goalStage'', JStr ''n'')]],
     tp_safety = Some ''safe'', tp_goal = None, tp_requests = None, tp_capabilities = Some [''scroll''], tp_recovery = None,
     tp_versions = None, tp_rest = []\<rparr>"

definition tap_schema :: SegmentInputSchema where
  "tap_schema = \<lparr>is_type = ''object'', is_required = [], is_properties = [], is_additional = None\<rparr>"

definition tap_segment :: SegmentVersion where
  "tap_segment = \<lparr>sg_inputs = tap_schema, sg_outputs = None, sv_key = ''s'', sv_version = ''1'', sv_platform = ''shop'',
     sv_template = tap_template, sv_inputs_doc = JObj [], sv_outputs_doc = None, sv_postcondition = None, sv_compat = [], sv_fingerprint = ''f''\<rparr>"

definition tap_node :: WorkflowCompositionNodeRecord where
  "tap_node = \<lparr>cn_key = ''n'', cn_ordinal = 1, cn_segment = ''s'', cn_version = ''1'', cn_inputs = [], cn_outputs = [], cn_depends = []\<rparr>"

definition tap_composition :: Composition where
  "tap_composition = \<lparr>cp_inputs = tap_schema, cp_outputs = \<lparr>os_required = [], os_properties = []\<rparr>, cp_nodes = [tap_node],
     co_name = ''c'', co_version = ''1'', co_key = ''f'', co_capability = ''open'', co_platform = ''*'',
     co_resolver = \<lparr>ir_version = ''1'', ir_fields = []\<rparr>, co_inputs_doc = JObj [],
     co_outputs_doc = JObj [(''required'', JArr []), (''properties'', JObj [])], co_resolver_doc = JObj [],
     co_postcondition = JObj [(''version'', JStr ''1''), (''all'', JArr [JObj [(''left'', JObj [(''path'', JStr ''x'')]), (''operator'', JStr ''truthy'')]])],
     co_verification = JStr ''tree'', co_retention = 1, co_contract = ''edge-workflow/v2'', co_compat = []\<rparr>"

definition tap_input :: compose_input where
  "tap_input = \<lparr>ci_platform = ''shop'', ci_intent = ''open'', ci_request = ''r'', ci_device = ''d'', ci_account = None\<rparr>"

text \<open>Every key is \<open>f\<close> here.\<close>

definition tap_env :: compose_env where
  "tap_env = \<lparr>ce_sha = (\<lambda>_. ''f''), ce_num = (\<lambda>_. ''1''), ce_collate = (\<lambda>s. s), ce_engine = literal_engine\<rparr>"

definition tap_segments :: segment_map where
  "tap_segments = [(''s@1'', tap_segment)]"

lemma tap_keys: "shortKey tap_env n v = ''f''" "fullFingerprint tap_env n v = ''f''"
  by (simp_all add: shortKey_def fullFingerprint_def tap_env_def)

lemma tap_checked: "check_segment tap_env tap_segments tap_node = Inr ()"
  by (simp add: check_segment_def find_segment_def tap_segments_def tap_node_def Let_def computeSegmentFingerprint_def tap_keys
      tap_segment_def require_def)

lemma tap_graph: "validateCompositionGraph (ce_num tap_env) (WorkflowCompositionRecord.truncate tap_composition) (graph_segments tap_segments) = Inr ()"
  by code_simp

lemma tap_inputs: "resolveCompositionInputs (ce_engine tap_env) (ci_intent tap_input) (co_resolver tap_composition) (cp_inputs tap_composition) = Inr []"
  by code_simp

lemma tap_accepted:
  "case composed_policies tap_env tap_input tap_composition tap_segments of Inl _ \<Rightarrow> False
   | Inr t \<Rightarrow> (case validated t of Inl _ \<Rightarrow> False | Inr _ \<Rightarrow> True)"
  by code_simp

lemma tap_composed: "\<exists>w b. composeResolved tap_env tap_composition tap_segments tap_input = Inr (w, b)"
proof -
  obtain t t' where t: "composed_policies tap_env tap_input tap_composition tap_segments = Inr t" "validated t = Inr t'"
    using tap_accepted by (auto split: sum.splits)
  have "cp_nodes tap_composition = [tap_node]" "co_key tap_composition = ''f''" by (simp_all add: tap_composition_def)
  then show ?thesis
    by (simp add: composeResolved_def sum_bind_def refuse_def t tap_checked tap_graph tap_inputs tap_keys
        computeCompositionStructureKey_def Let_def require_def)
qed

theorem composed_workflow_sound_witness:
  "\<exists>w b. composeResolved tap_env tap_composition tap_segments tap_input = Inr (w, b)
     \<and> validateGeneratedWorkflowTemplate (JObj (cw_template w)) = Inr (Inr (cw_template w)) \<and> eb_request b = ''r''"
proof -
  obtain w b where wb: "composeResolved tap_env tap_composition tap_segments tap_input = Inr (w, b)" using tap_composed by blast
  then show ?thesis using composed_workflow_sound[OF wb] by (auto simp: tap_input_def)
qed

theorem composed_contract_valid_witness:
  "\<exists>c d. composeGoalContract [tap_node, tap_node] (\<lambda>_. Some tap_template) = Inr (Some c)
     \<and> parseWorkflowGoalContract (goal_contract_json c) = Some d \<and> gs_id ` set (gc_stages d) = {''n''}"
proof -
  let ?c = "\<lparr>gc_stages = [\<lparr>gs_id = ''n'', gs_required = Some True, gs_actions = [''tap''], gs_effects = Some [''open''], gs_after = None,
     gs_min = None, gs_produces = None, gs_consumes = None\<rparr>], gc_outputs = None, gc_effects = [''open'']\<rparr>"
  have c: "node_contract tap_node tap_template = Some ?c" by code_simp
  have "parseWorkflowGoalContract (goal_contract_json ?c) = Some ?c" by code_simp
  then have "contract_normal ?c" by (rule parsed_contract_normal)
  then have "list_all (\<lambda>n. \<exists>t c. Some tap_template = Some t \<and> node_contract n t = Some c \<and> contract_normal c) [tap_node, tap_node]"
    using c by simp
  note valid = composed_contract_valid[OF _ this, simplified]
  have "contracts_of [tap_node, tap_node] (\<lambda>_. Some tap_template) = {?c}" using c by (auto simp: contracts_of_def)
  then show ?thesis using valid by auto
qed

text \<open>
  A stage that two segments require once each is required once in the composition, because a
  missing minimum adds nothing.
\<close>

lemma merged_requirements_collapse:
  assumes "gs_required e = Some True" "gs_required s = Some True" "gs_min e = None" "gs_min s = None"
  shows "minimum_of (mergeGoalContractStage (Some e) s n) = 1"
  using assms by (simp add: mergeGoalContractStage_def minimum_of_def merged_minimum_def Let_def)

end
