(* ===== verification/Template_Dispatch.thy ===== *)
theory Template_Dispatch imports Prelude
begin

text \<open>
  The check of a dispatched workflow (\<^verbatim>\<open>src/src/modules/workflows/workflow-validator.ts\<close>,
  \<^verbatim>\<open>validateWorkflowDispatch\<close>): distinct step identifiers and no cycle among the required
  steps, found by counting prerequisites (Kahn). Parsing by the \<^verbatim>\<open>zod\<close> schema is a parameter.
  A \<^verbatim>\<open>Map\<close> is an association list in the order of insertion.
\<close>

section \<open>The checks\<close>

record DispatchStep =
  dp_id :: string
  dp_type :: string
  dp_package :: "string option"
  dp_target :: "string option"
  dp_element :: "string option"
  dp_check :: "string option"
  dp_context :: "jobj option"
  dp_requires :: "string list option"
  dp_delay :: "rat option"
  dp_optional :: "bool option"

record WorkflowDispatchInput =
  wd_device :: string
  wd_timeout :: rat
  wd_name :: string
  wd_steps :: "DispatchStep list"

fun unique_errors :: "string set \<Rightarrow> string list \<Rightarrow> string list" where
  "unique_errors seen [] = []"
| "unique_errors seen (i # is) =
     (if i \<in> seen then [''Duplicate step id: \"'' @ i @ ''\"''] else []) @ unique_errors (insert i seen) is"

definition validateUniqueIds :: "DispatchStep list \<Rightarrow> string list" where
  "validateUniqueIds steps = unique_errors {} (map dp_id steps)"

record requires_graph =
  rg_errors :: "string list"
  rg_adj :: "(string \<times> string list) list"
  rg_degree :: "(string \<times> int) list"

definition start_graph :: "DispatchStep list \<Rightarrow> requires_graph" where
  "start_graph steps = fold (\<lambda>s g. g\<lparr>rg_adj := AList.update (dp_id s) [] (rg_adj g),
      rg_degree := AList.update (dp_id s) 0 (rg_degree g)\<rparr>) steps \<lparr>rg_errors = [], rg_adj = [], rg_degree = []\<rparr>"

definition add_requirement :: "string set \<Rightarrow> string \<times> string \<Rightarrow> requires_graph \<Rightarrow> requires_graph" where
  "add_requirement stepIds sr g =
     (case sr of (s, req) \<Rightarrow>
        if req \<notin> stepIds then g\<lparr>rg_errors := rg_errors g @ [''Step \"'' @ s @ ''\" requires unknown step \"'' @ req @ ''\"'']\<rparr>
        else g\<lparr>rg_adj := AList.update req (odefault (map_of (rg_adj g) req) [] @ [s]) (rg_adj g),
               rg_degree := AList.update s (odefault (map_of (rg_degree g) s) 0 + 1) (rg_degree g)\<rparr>)"

definition requirements :: "DispatchStep list \<Rightarrow> (string \<times> string) list" where
  "requirements steps = concat (map (\<lambda>s. map (Pair (dp_id s)) (odefault (dp_requires s) [])) steps)"

definition build_graph :: "DispatchStep list \<Rightarrow> requires_graph" where
  "build_graph steps = fold (add_requirement (dp_id ` set steps)) (requirements steps) (start_graph steps)"

text \<open>The steps that wait for a finished one lose a prerequisite; those without any are freed.\<close>

fun release :: "string list \<Rightarrow> (string \<times> int) list \<Rightarrow> (string \<times> int) list \<times> string list" where
  "release [] degree = (degree, [])"
| "release (d # ds) degree =
     (let newDeg = odefault (map_of degree d) 1 - 1
      in case release ds (AList.update d newDeg degree) of (degree', freed) \<Rightarrow>
           (degree', (if newDeg = 0 then [d] else []) @ freed))"

text \<open>How many targets still wait.\<close>

definition waiting :: "string set \<Rightarrow> (string \<times> int) list \<Rightarrow> nat" where
  "waiting T degree = card {x \<in> T. 0 < odefault (map_of degree x) 1}"

definition adj_targets :: "(string \<times> string list) list \<Rightarrow> string set" where
  "adj_targets adj = set (concat (map snd adj))"

lemma release_waiting:
  assumes "finite T" "set ds \<subseteq> T" "release ds degree = (degree', freed)"
  shows "length freed + waiting T degree' \<le> waiting T degree"
  using assms(2,3)
proof (induction ds arbitrary: degree degree' freed)
  case (Cons d ds)
  let ?n = "odefault (map_of degree d) 1 - 1"
  let ?up = "AList.update d ?n degree"
  obtain more where rec: "release ds ?up = (degree', more)" "freed = (if ?n = 0 then [d] else []) @ more"
    using Cons.prems(2) by (auto simp: Let_def split: prod.splits)
  have up: "{x \<in> T. 0 < odefault (map_of ?up x) 1} = {x \<in> T. 0 < odefault (map_of degree x) 1} - (if ?n \<le> 0 then {d} else {})"
    by (auto simp: update_conv' split: if_splits)
  have "(if ?n = 0 then 1 else 0) + waiting T ?up \<le> waiting T degree"
  proof (cases "?n = 0")
    case True
    let ?P = "{x \<in> T. 0 < odefault (map_of degree x) 1}"
    have "d \<in> ?P" "finite ?P" using Cons.prems(1) True assms(1) by simp_all
    then have "Suc (card (?P - {d})) = card ?P" by (intro card_Suc_Diff1)
    then show ?thesis unfolding waiting_def up using True by simp
  next
    case False
    then show ?thesis unfolding waiting_def up using assms(1) by (auto intro: card_mono)
  qed
  moreover have "length more + waiting T degree' \<le> waiting T ?up" using Cons.IH[OF _ rec(1)] Cons.prems(1) by simp
  ultimately show ?case using rec(2) by (simp split: if_splits)
qed simp

lemma adj_of_targets: "set (odefault (map_of adj x) []) \<subseteq> adj_targets adj"
  by (cases "map_of adj x") (auto simp: adj_targets_def dest!: map_of_SomeD)

text \<open>The loop over the queue.\<close>

function kahn :: "(string \<times> string list) list \<Rightarrow> string list \<Rightarrow> (string \<times> int) list \<Rightarrow> nat \<Rightarrow> nat" where
  "kahn adj queue degree visited =
     (case queue of
        [] \<Rightarrow> visited
      | node # rest \<Rightarrow>
          (case release (odefault (map_of adj node) []) degree of (degree', freed) \<Rightarrow>
             kahn adj (rest @ freed) degree' (Suc visited)))"
  by pat_completeness auto
termination
proof (relation "measure (\<lambda>(adj, queue, degree, _). length queue + waiting (adj_targets adj) degree)", goal_cases)
  case (2 adj queue degree visited node rest degree' freed)
  then have "length freed + waiting (adj_targets adj) degree' \<le> waiting (adj_targets adj) degree"
    by (intro release_waiting[OF _ adj_of_targets]) (auto simp: adj_targets_def)
  then show ?case using 2(1) by simp
qed simp

declare kahn.simps [simp del]

definition detectCycles :: "DispatchStep list \<Rightarrow> string list" where
  "detectCycles steps =
     (let g = build_graph steps;
          queue = map fst (filter (\<lambda>(_, deg). deg = 0) (rg_degree g))
      in rg_errors g @ (if kahn (rg_adj g) queue (rg_degree g) 0 < length steps
           then [''Cycle detected in step `requires` dependency graph''] else []))"

definition validateWorkflowDispatch :: "(json \<Rightarrow> string list + WorkflowDispatchInput) \<Rightarrow> json \<Rightarrow> nat
    \<Rightarrow> string list + WorkflowDispatchInput" where
  "validateWorkflowDispatch safeParse body bodySizeBytes =
     (if 65536 < bodySizeBytes then Inl [''Request body exceeds 64KB limit'']
      else case safeParse body of
        Inl issues \<Rightarrow> Inl issues
      | Inr data \<Rightarrow>
          (let errors = validateUniqueIds (wd_steps data) @ detectCycles (wd_steps data)
           in if errors = [] then Inr data else Inl errors))"

section \<open>The graph\<close>

lemma unique_errors_Nil: "unique_errors seen is = [] \<longleftrightarrow> distinct is \<and> set is \<inter> seen = {}"
  by (induction "is" arbitrary: seen) auto

text \<open>The known requirements, and how often a step has a prerequisite outside a set.\<close>

definition known_edges :: "string set \<Rightarrow> (string \<times> string) list \<Rightarrow> (string \<times> string) list" where
  "known_edges N ps = filter (\<lambda>(s, r). r \<in> N) ps"

definition open_count :: "(string \<times> string) list \<Rightarrow> string set \<Rightarrow> string \<Rightarrow> int" where
  "open_count es D x = int (length (filter (\<lambda>(s, r). s = x \<and> r \<notin> D) es))"

definition waiters :: "(string \<times> string) list \<Rightarrow> string \<Rightarrow> string list" where
  "waiters es r = map fst (filter (\<lambda>(_, r'). r' = r) es)"

definition graph_of :: "string set \<Rightarrow> (string \<times> string) list \<Rightarrow> requires_graph \<Rightarrow> bool" where
  "graph_of N es g \<longleftrightarrow> (\<forall>x. map_of (rg_adj g) x = (if x \<in> N then Some (waiters es x) else None))
     \<and> (\<forall>x. map_of (rg_degree g) x = (if x \<in> N then Some (open_count es {} x) else None))
     \<and> distinct (map fst (rg_degree g))"

lemma start_graph_empty: "graph_of (dp_id ` set steps) [] (start_graph steps) \<and> rg_errors (start_graph steps) = []"
proof -
  have "graph_of (N \<union> dp_id ` set steps) [] (fold (\<lambda>s g. g\<lparr>rg_adj := AList.update (dp_id s) [] (rg_adj g),
      rg_degree := AList.update (dp_id s) 0 (rg_degree g)\<rparr>) steps g) \<and>
     rg_errors (fold (\<lambda>s g. g\<lparr>rg_adj := AList.update (dp_id s) [] (rg_adj g),
      rg_degree := AList.update (dp_id s) 0 (rg_degree g)\<rparr>) steps g) = rg_errors g" if "graph_of N [] g" for N g
    using that
  proof (induction steps arbitrary: N g)
    case (Cons s steps)
    have "graph_of (insert (dp_id s) N) [] (g\<lparr>rg_adj := AList.update (dp_id s) [] (rg_adj g), rg_degree := AList.update (dp_id s) 0 (rg_degree g)\<rparr>)"
      using Cons.prems by (auto simp: graph_of_def update_conv' waiters_def open_count_def distinct_update)
    from Cons.IH[OF this] show ?case by simp
  qed simp
  from this[of "{}"] show ?thesis by (simp add: start_graph_def graph_of_def)
qed

lemma add_requirement_graph:
  assumes "graph_of N es g" "s \<in> N"
  shows "graph_of N (es @ known_edges N [(s, r)]) (add_requirement N (s, r) g)"
proof (cases "r \<in> N")
  case True
  then show ?thesis using assms
    by (auto simp: graph_of_def add_requirement_def known_edges_def update_conv' waiters_def open_count_def distinct_update)
next
  case False
  then show ?thesis using assms by (simp add: graph_of_def add_requirement_def known_edges_def)
qed

lemma requirements_graph:
  assumes "graph_of N es g" "fst ` set ps \<subseteq> N"
  shows "graph_of N (es @ known_edges N ps) (fold (add_requirement N) ps g)
    \<and> (rg_errors (fold (add_requirement N) ps g) = [] \<longleftrightarrow> rg_errors g = [] \<and> snd ` set ps \<subseteq> N)"
  using assms
proof (induction ps arbitrary: es g)
  case (Cons p ps)
  obtain s r where p: "p = (s, r)" by fastforce
  have g: "graph_of N (es @ known_edges N [(s, r)]) (add_requirement N (s, r) g)"
    using Cons.prems p by (intro add_requirement_graph) auto
  have "rg_errors (add_requirement N (s, r) g) = [] \<longleftrightarrow> rg_errors g = [] \<and> r \<in> N" by (simp add: add_requirement_def)
  with Cons.IH[OF g] Cons.prems(2) show ?case by (auto simp: p known_edges_def)
qed (simp add: known_edges_def)

lemma requirements_ids: "fst ` set (requirements steps) \<subseteq> dp_id ` set steps"
  by (auto simp: requirements_def)

lemma built_graph:
  "graph_of (dp_id ` set steps) (known_edges (dp_id ` set steps) (requirements steps)) (build_graph steps)"
  "rg_errors (build_graph steps) = [] \<longleftrightarrow> snd ` set (requirements steps) \<subseteq> dp_id ` set steps"
  using requirements_graph[OF conjunct1[OF start_graph_empty] requirements_ids] start_graph_empty
  unfolding build_graph_def by auto

section \<open>The loop\<close>

lemma release_counts:
  assumes "\<And>x. x \<in> set ds \<Longrightarrow> \<exists>n. map_of degree x = Some n \<and> int (count_list ds x) \<le> n"
  shows "case release ds degree of (degree', freed) \<Rightarrow>
     (\<forall>x. map_of degree' x = map_option (\<lambda>n. n - int (count_list ds x)) (map_of degree x))
   \<and> distinct freed \<and> (\<forall>x. x \<in> set freed \<longleftrightarrow> x \<in> set ds \<and> map_of degree' x = Some 0)"
  using assms
proof (induction ds arbitrary: degree)
  case (Cons d ds)
  obtain n where n: "map_of degree d = Some n" "int (count_list (d # ds) d) \<le> n" using Cons.prems[of d] by auto
  let ?up = "AList.update d (n - 1) degree"
  obtain degree' freed where rec: "release ds ?up = (degree', freed)" by fastforce
  have "\<exists>m. map_of ?up x = Some m \<and> int (count_list ds x) \<le> m" if "x \<in> set ds" for x
    using Cons.prems[of x] n that by (auto simp: update_conv')
  from Cons.IH[OF this] rec have IH: "\<forall>x. map_of degree' x = map_option (\<lambda>n. n - int (count_list ds x)) (map_of ?up x)"
      "distinct freed" "\<forall>x. x \<in> set freed \<longleftrightarrow> x \<in> set ds \<and> map_of degree' x = Some 0" by simp_all
  have whole: "release (d # ds) degree = (degree', (if n - 1 = 0 then [d] else []) @ freed)" by (simp add: n rec Let_def)
  have counts: "\<forall>x. map_of degree' x = map_option (\<lambda>n. n - int (count_list (d # ds) x)) (map_of degree x)"
    using IH(1) n by (auto simp: update_conv')
  have d: "d \<notin> set ds" if "n = 1" using n(2) that count_list_0_iff[of ds d] by auto
  have "map_of degree' d = Some (n - 1 - int (count_list ds d))" using counts n by simp
  then show ?case unfolding whole using IH(2,3) counts d
    by (auto simp: count_notin split: if_splits)
qed (simp add: option.map_ident)

text \<open>
  Finished steps \<open>D\<close> in the order of the visit, the queue behind them: every step in these
  lists comes after its prerequisites, and the others still have an open one.
\<close>

definition ordered :: "(string \<times> string) list \<Rightarrow> string list \<Rightarrow> bool" where
  "ordered es xs \<longleftrightarrow> (\<forall>ys x zs. xs = ys @ x # zs \<longrightarrow> (\<forall>r. (x, r) \<in> set es \<longrightarrow> r \<in> set ys))"

definition progress :: "string set \<Rightarrow> (string \<times> string) list \<Rightarrow> string list \<Rightarrow> string list \<Rightarrow> (string \<times> int) list \<Rightarrow> bool" where
  "progress N es D queue degree \<longleftrightarrow> distinct (D @ queue) \<and> set (D @ queue) \<subseteq> N
     \<and> (\<forall>x. map_of degree x = (if x \<in> N then Some (open_count es (set D) x) else None))
     \<and> (\<forall>x \<in> N. x \<in> set (D @ queue) \<longleftrightarrow> open_count es (set D) x = 0) \<and> ordered es (D @ queue)"

lemma open_count_zero: "open_count es D x = 0 \<longleftrightarrow> (\<forall>r. (x, r) \<in> set es \<longrightarrow> r \<in> D)"
  by (auto simp: open_count_def filter_empty_conv)

lemma count_waiters: "count_list (waiters es r) x = length (filter (\<lambda>(s, r'). s = x \<and> r' = r) es)"
  by (induction es) (auto simp: waiters_def)

lemma open_count_insert: "r \<notin> D \<Longrightarrow> open_count es D x = open_count es (insert r D) x + int (count_list (waiters es r) x)"
  unfolding count_waiters open_count_def by (induction es) auto

lemma ordered_append:
  assumes "ordered es xs" "\<And>x r. x \<in> set ys \<Longrightarrow> (x, r) \<in> set es \<Longrightarrow> r \<in> set xs"
  shows "ordered es (xs @ ys)"
  unfolding ordered_def
proof (intro allI impI)
  fix us x vs r
  assume split: "xs @ ys = us @ x # vs" and e: "(x, r) \<in> set es"
  then consider ws where "xs = us @ x # ws" | ws where "us = xs @ ws" "ys = ws @ x # vs"
    by (auto simp: append_eq_append_conv2 append_eq_Cons_conv)
  then show "r \<in> set us"
  proof cases
    case 1
    then show ?thesis using assms(1) e unfolding ordered_def by blast
  next
    case 2
    then show ?thesis using assms(2)[of x r] e by simp
  qed
qed

lemma progress_step:
  assumes "progress N es D (node # rest) degree" "set es \<subseteq> N \<times> N" "release (waiters es node) degree = (degree', freed)"
  shows "progress N es (D @ [node]) (rest @ freed) degree'"
proof -
  let ?D = "insert node (set D)"
  have inv: "distinct (D @ node # rest)" "set (D @ node # rest) \<subseteq> N"
      "\<And>x. map_of degree x = (if x \<in> N then Some (open_count es (set D) x) else None)"
      "\<And>x. x \<in> N \<Longrightarrow> x \<in> set (D @ node # rest) \<longleftrightarrow> open_count es (set D) x = 0" "ordered es (D @ node # rest)"
    using assms(1) by (auto simp: progress_def)
  have node: "node \<notin> set D" using inv(1) by simp
  note count = open_count_insert[OF node, of es]
  have waiters: "set (waiters es node) \<subseteq> N" using assms(2) by (auto simp: waiters_def)
  have nonneg: "0 \<le> open_count es E x" for E x by (simp add: open_count_def)
  have "\<exists>n. map_of degree x = Some n \<and> int (count_list (waiters es node) x) \<le> n" if "x \<in> set (waiters es node)" for x
    using waiters that count[of x] nonneg[of ?D x] by (auto simp: inv(3))
  from release_counts[OF this] assms(3) have rel:
      "\<And>x. map_of degree' x = map_option (\<lambda>n. n - int (count_list (waiters es node) x)) (map_of degree x)"
      "distinct freed" "\<And>x. x \<in> set freed \<longleftrightarrow> x \<in> set (waiters es node) \<and> map_of degree' x = Some 0" by simp_all
  have degree': "map_of degree' x = (if x \<in> N then Some (open_count es ?D x) else None)" for x
    using rel(1)[of x] count[of x] by (simp add: inv(3))
  have freed: "x \<in> set freed \<longleftrightarrow> x \<in> N \<and> open_count es (set D) x \<noteq> 0 \<and> open_count es ?D x = 0" for x
  proof -
    have "x \<in> set (waiters es node) \<longleftrightarrow> count_list (waiters es node) x \<noteq> 0" by (simp add: count_list_0_iff)
    then show ?thesis using rel(3)[of x] degree'[of x] waiters count[of x] nonneg[of ?D x] by auto
  qed
  have old: "x \<in> set freed \<Longrightarrow> x \<notin> set (D @ node # rest)" for x using freed[of x] inv(4)[of x] by simp
  have mono: "open_count es (set D) x = 0 \<Longrightarrow> open_count es ?D x = 0" for x by (auto simp: open_count_zero)
  have "distinct ((D @ [node]) @ rest @ freed)" using inv(1) rel(2) old by auto
  moreover have "set ((D @ [node]) @ rest @ freed) \<subseteq> N" using inv(2) freed by auto
  moreover have "x \<in> set ((D @ [node]) @ rest @ freed) \<longleftrightarrow> open_count es (set (D @ [node])) x = 0" if "x \<in> N" for x
    using inv(4)[OF that] freed[of x] mono[of x] that by auto
  moreover have "ordered es ((D @ node # rest) @ freed)"
    by (rule ordered_append[OF inv(5)]) (auto simp: freed open_count_zero)
  ultimately show ?thesis using degree' by (simp add: progress_def)
qed

lemma kahn_progress:
  assumes "progress N es D queue degree" "set es \<subseteq> N \<times> N" "\<And>x. x \<in> N \<Longrightarrow> map_of adj x = Some (waiters es x)"
  shows "\<exists>D' degree'. progress N es D' [] degree' \<and> kahn adj queue degree (length D) = length D'"
  using assms(1,3)
proof (induction adj queue degree "length D" arbitrary: D rule: kahn.induct)
  case (1 adj queue degree)
  show ?case
  proof (cases queue)
    case Nil
    then show ?thesis using 1(2) by (auto simp: kahn.simps[of adj "[]"])
  next
    case (Cons node rest)
    have adj: "map_of adj node = Some (waiters es node)" using 1(2,3) Cons by (auto simp: progress_def)
    obtain degree' freed where rel: "release (waiters es node) degree = (degree', freed)" by fastforce
    have pair: "(degree', freed) = release (odefault (map_of adj node) []) degree" using adj rel by simp
    have next_step: "progress N es (D @ [node]) (rest @ freed) degree'"
      using progress_step[OF _ assms(2) rel] 1(2) Cons by simp
    have "\<exists>D' degree''. progress N es D' [] degree'' \<and> kahn adj (rest @ freed) degree' (length (D @ [node])) = length D'"
      using 1(1)[OF Cons pair _ next_step 1(3)] by simp
    then show ?thesis using adj rel Cons by (simp add: kahn.simps[of adj "node # rest"])
  qed
qed

section \<open>Cycles\<close>

definition position :: "string list \<Rightarrow> string \<Rightarrow> nat" where
  "position xs x = length (takeWhile (\<lambda>y. y \<noteq> x) xs)"

lemma takeWhile_short: "r \<in> set ys \<Longrightarrow> length (takeWhile (\<lambda>y. y \<noteq> r) ys) < length ys"
  by (induction ys) auto

lemma ordered_position:
  assumes "ordered es xs" "(x, r) \<in> set es" "x \<in> set xs"
  shows "position xs r < position xs x"
proof -
  obtain ys zs where xs: "xs = ys @ x # zs" "x \<notin> set ys" using split_list_first[OF assms(3)] by blast
  then have "position xs x = length ys" unfolding position_def by (subst xs(1), subst takeWhile_append2) auto
  moreover have r: "r \<in> set ys" using assms(1,2) xs(1) unfolding ordered_def by blast
  then have "position xs r < length ys"
    unfolding position_def xs(1) using takeWhile_short[OF r] by (subst takeWhile_append1[OF r]) auto
  ultimately show ?thesis by simp
qed

lemma ordered_acyclic:
  assumes "ordered es xs" "\<And>x r. (x, r) \<in> set es \<Longrightarrow> x \<in> set xs"
  shows "acyclic (set es)"
  using ordered_position[OF assms(1)] assms(2) by (intro acyclicI_order[where f = "position xs"]) blast

lemma open_cyclic:
  assumes "finite M" "M \<noteq> {}" "\<And>x. x \<in> M \<Longrightarrow> \<exists>r \<in> M. (x, r) \<in> E"
  shows "\<not> acyclic E"
proof
  assume "acyclic E"
  then have "acyclic ((E \<inter> M \<times> M)\<inverse>)" by (simp add: acyclic_converse) (rule acyclic_subset, auto)
  moreover have "finite ((E \<inter> M \<times> M)\<inverse>)" using assms(1) by simp
  ultimately have "wf ((E \<inter> M \<times> M)\<inverse>)" by (rule finite_acyclic_wf[rotated])
  then obtain z where "z \<in> M" "\<And>y. (y, z) \<in> (E \<inter> M \<times> M)\<inverse> \<Longrightarrow> y \<notin> M" using assms(2) by (metis all_not_in_conv wfE_min)
  then show False using assms(3)[of z] by blast
qed

definition requires_relation :: "DispatchStep list \<Rightarrow> (string \<times> string) set" where
  "requires_relation steps = set (requirements steps)"

lemma kahn_counts:
  assumes "finite N" "set es \<subseteq> N \<times> N" "progress N es [] queue degree" "\<And>x. x \<in> N \<Longrightarrow> map_of adj x = Some (waiters es x)"
  shows "kahn adj queue degree 0 \<le> card N \<and> (kahn adj queue degree 0 = card N \<longleftrightarrow> acyclic (set es))"
proof -
  obtain D degree' where D: "progress N es D [] degree'" "kahn adj queue degree 0 = length D"
    using kahn_progress[OF assms(3,2,4)] by auto
  have d: "distinct D" "set D \<subseteq> N" "\<And>x. x \<in> N \<Longrightarrow> x \<in> set D \<longleftrightarrow> open_count es (set D) x = 0" "ordered es D"
    using D(1) by (auto simp: progress_def)
  have len: "length D = card (set D)" using d(1) by (simp add: distinct_card)
  have "acyclic (set es)" if "set D = N"
    using ordered_acyclic[OF d(4)] assms(2) that by blast
  moreover have "set D = N" if "acyclic (set es)"
  proof (rule ccontr)
    assume "set D \<noteq> N"
    then have ne: "N - set D \<noteq> {}" using d(2) by blast
    have "\<exists>r \<in> N - set D. (x, r) \<in> set es" if "x \<in> N - set D" for x
      using that d(3)[of x] assms(2) by (auto simp: open_count_zero)
    from open_cyclic[OF _ ne this] assms(1) that show False by simp
  qed
  moreover have "card (set D) = card N \<longleftrightarrow> set D = N" using d(2) assms(1) by (metis card_subset_eq)
  ultimately show ?thesis using D(2) len card_mono[OF assms(1) d(2)] by auto
qed

lemma built_progress:
  fixes steps :: "DispatchStep list"
  defines "N \<equiv> dp_id ` set steps" and "es \<equiv> known_edges (dp_id ` set steps) (requirements steps)"
  shows "progress N es [] (map fst (filter (\<lambda>(_, deg). deg = 0) (rg_degree (build_graph steps)))) (rg_degree (build_graph steps))"
    "set es \<subseteq> N \<times> N" "x \<in> N \<Longrightarrow> map_of (rg_adj (build_graph steps)) x = Some (waiters es x)"
proof -
  let ?degree = "rg_degree (build_graph steps)" and ?queue = "map fst (filter (\<lambda>(_, deg). deg = 0) (rg_degree (build_graph steps)))"
  have g: "map_of ?degree x = (if x \<in> N then Some (open_count es {} x) else None)"
      "x \<in> N \<Longrightarrow> map_of (rg_adj (build_graph steps)) x = Some (waiters es x)" "distinct (map fst ?degree)" for x
    using built_graph(1)[of steps] by (simp_all add: graph_of_def N_def es_def)
  show "x \<in> N \<Longrightarrow> map_of (rg_adj (build_graph steps)) x = Some (waiters es x)" by (rule g(2))
  have "s \<in> N \<and> r \<in> N" if "(s, r) \<in> set es" for s r
  proof -
    have sr: "(s, r) \<in> set (requirements steps)" "r \<in> N" using that by (simp_all add: es_def N_def known_edges_def)
    have "fst (s, r) \<in> N" unfolding N_def by (rule subsetD[OF requirements_ids imageI[OF sr(1)]])
    then show ?thesis using sr(2) by simp
  qed
  then show "set es \<subseteq> N \<times> N" by auto
  have queue: "x \<in> set ?queue \<longleftrightarrow> x \<in> N \<and> open_count es {} x = 0" for x
  proof -
    have "x \<in> set ?queue \<longleftrightarrow> (x, 0) \<in> set ?degree" by force
    also have "\<dots> \<longleftrightarrow> map_of ?degree x = Some 0" using g(3) by simp
    finally show ?thesis using g(1)[of x] by auto
  qed
  have "distinct ?queue" using g(3) by (simp add: distinct_map_filter)
  moreover have "ordered es ?queue" unfolding ordered_def
  proof (intro allI impI)
    fix ys x zs r assume q: "?queue = ys @ x # zs" and e: "(x, r) \<in> set es"
    have "x \<in> set ?queue" unfolding q by simp
    then show "r \<in> set ys" using e queue[of x] by (simp add: open_count_zero)
  qed
  moreover have "set ?queue \<subseteq> N" using queue by blast
  ultimately show "progress N es [] ?queue ?degree" using g(1) queue by (simp add: progress_def)
qed

lemma kahn_graph:
  "kahn (rg_adj (build_graph steps)) (map fst (filter (\<lambda>(_, deg). deg = 0) (rg_degree (build_graph steps)))) (rg_degree (build_graph steps)) 0
     \<le> card (dp_id ` set steps)
   \<and> (kahn (rg_adj (build_graph steps)) (map fst (filter (\<lambda>(_, deg). deg = 0) (rg_degree (build_graph steps)))) (rg_degree (build_graph steps)) 0
        = card (dp_id ` set steps) \<longleftrightarrow> acyclic (set (known_edges (dp_id ` set steps) (requirements steps))))"
  using built_progress[where steps = steps] by (intro kahn_counts) simp_all

lemma distinct_ids: "distinct (map dp_id steps) \<longleftrightarrow> card (dp_id ` set steps) = length steps"
  by (metis card_distinct distinct_card length_map list.set_map)

text \<open>
  C37. A dispatched workflow of at most 64 KB that has the shape of the schema is accepted exactly
  when no two steps share an identifier, every required step exists and no step requires itself
  through any chain; then the parsed input is returned as it is.
\<close>

theorem dispatch_accepts_exactly:
  "validateWorkflowDispatch safeParse body bodySizeBytes = Inr data \<longleftrightarrow>
     bodySizeBytes \<le> 65536 \<and> safeParse body = Inr data \<and> distinct (map dp_id (wd_steps data))
   \<and> snd ` requires_relation (wd_steps data) \<subseteq> dp_id ` set (wd_steps data) \<and> acyclic (requires_relation (wd_steps data))"
proof -
  let ?N = "dp_id ` set (wd_steps data)" and ?ps = "requirements (wd_steps data)"
  have known: "known_edges ?N ?ps = ?ps" if "snd ` set ?ps \<subseteq> ?N"
    unfolding known_edges_def using that by (intro filter_True) auto
  have "validateUniqueIds (wd_steps data) = [] \<and> detectCycles (wd_steps data) = [] \<longleftrightarrow>
      distinct (map dp_id (wd_steps data)) \<and> snd ` set ?ps \<subseteq> ?N \<and> acyclic (set ?ps)"
    using kahn_graph[of "wd_steps data"] built_graph(2)[of "wd_steps data"] known distinct_ids[of "wd_steps data"]
    by (auto simp: validateUniqueIds_def unique_errors_Nil detectCycles_def Let_def)
  then show ?thesis by (auto simp: validateWorkflowDispatch_def Let_def requires_relation_def split: sum.splits if_splits)
qed

text \<open>A repeated identifier is reported as a cycle too, because the loop counts distinct steps.\<close>

lemma repeated_identifier_is_cycle:
  assumes "\<not> distinct (map dp_id steps)"
  shows "''Cycle detected in step `requires` dependency graph'' \<in> set (detectCycles steps)"
proof -
  have "card (dp_id ` set steps) < length steps"
    using assms distinct_ids[of steps] card_length[of "map dp_id steps"] by simp
  then show ?thesis using kahn_graph[of steps] by (simp add: detectCycles_def Let_def)
qed

end
