(* ===== verification/Safety_Policy.thy ===== *)
theory Safety_Policy imports Goal_Contract Lifecycle_Policy Template_Text
begin

text \<open>
  Safety policies of workflows
  (\<^verbatim>\<open>src/src/modules/workflows/workflow-safety-admission.service.ts\<close>, lines 1-320): loading
  and parsing the policy of a safety class, the check of a workflow against it, the scope
  text of an admission and its canonical context. The workflow is a JSON value nobody has
  validated. \<^verbatim>\<open>Date.parse\<close>, PostgreSQL's reading of timestamps and of identifiers, \<^verbatim>\<open>localeCompare\<close>, SHA-256
  and the printing of values are parameters.
\<close>

section \<open>Failures and limits\<close>

text \<open>\<open>failure(code, message, status)\<close> and every other exception.\<close>

datatype safety_error = SafetyFailure string string nat | SafetyThrown string

definition conflict :: "string \<Rightarrow> string \<Rightarrow> safety_error" where
  "conflict code message = SafetyFailure code message 409"

definition thrown :: "'a res \<Rightarrow> safety_error + 'a" where
  "thrown r = (case r of Inl e \<Rightarrow> Inl (SafetyThrown e) | Inr x \<Rightarrow> Inr x)"

lemma thrown_Inr [simp]: "thrown r = Inr x \<longleftrightarrow> r = Inr x"
  by (auto simp: thrown_def split: sum.splits)

lemma sum_bind_cong [fundef_cong]:
  "r = r' \<Longrightarrow> (\<And>v. f v = f' v) \<Longrightarrow> sum_bind r f = sum_bind r' f'"
  by (auto simp: sum_bind_def split: sum.splits)

record safety_env =
  sf_sha :: "string \<Rightarrow> string"
  sf_num :: "rat \<Rightarrow> string"
  sf_text :: "json \<Rightarrow> string"
  sf_collate :: "string \<Rightarrow> string"
  sf_date :: "string \<Rightarrow> bool"
  sf_timestamptz :: "string \<Rightarrow> timestamp option"
  sf_uuid :: "string \<Rightarrow> string option"

record SafetyLimit =
  lm_window :: nat
  lm_runs :: "nat option"
  lm_units :: "rat option"

record WorkflowSafetyPolicy =
  sp_version :: string
  sp_ledger :: bool
  sp_explicit :: bool
  sp_scope :: string
  sp_cost :: rat
  sp_effects :: "string list"
  sp_stages :: "string list"
  sp_postcondition :: bool
  sp_required :: bool
  sp_granted :: bool
  sp_grant :: "string option"
  sp_expires :: "string option"
  sp_limits :: "SafetyLimit list"

section \<open>Parsing\<close>

definition positiveInteger :: "json \<Rightarrow> bool" where
  "positiveInteger v \<longleftrightarrow> (case v of JNum x \<Rightarrow> is_safe_integer x \<and> 0 < x | _ \<Rightarrow> False)"

definition positiveNumber :: "json \<Rightarrow> bool" where
  "positiveNumber v \<longleftrightarrow> (case v of JNum x \<Rightarrow> 0 < x | _ \<Rightarrow> False)"

definition identifier_array :: "json option \<Rightarrow> string list option" where
  "identifier_array v = (case v of
      Some (JArr xs) \<Rightarrow> if list_all (\<lambda>x. is_policy_identifier (Some x)) xs then those (map (\<lambda>x. text_value (Some x)) xs) else None
    | _ \<Rightarrow> None)"

definition policy_invalid :: "string \<Rightarrow> safety_error" where
  "policy_invalid message = SafetyFailure ''WORKFLOW_SAFETY_POLICY_INVALID'' message 503"

definition present :: "(json \<Rightarrow> bool) \<Rightarrow> json option \<Rightarrow> bool" where
  "present p v \<longleftrightarrow> (case v of None \<Rightarrow> False | Some x \<Rightarrow> p x)"

definition absent_or :: "(json \<Rightarrow> bool) \<Rightarrow> json option \<Rightarrow> bool" where
  "absent_or p v \<longleftrightarrow> (case v of None \<Rightarrow> True | Some x \<Rightarrow> p x)"

definition is_flag :: "json option \<Rightarrow> bool" where
  "is_flag v \<longleftrightarrow> v \<in> {Some (JBool True), Some (JBool False)}"

definition parse_limit :: "json \<Rightarrow> safety_error + SafetyLimit" where
  "parse_limit raw =
     (case record_value (Some raw) of
        None \<Rightarrow> Inl (policy_invalid ''workflow safety limit window is invalid'')
      | Some o1 \<Rightarrow>
          let runs = jget o1 ''maxRuns''; units = jget o1 ''maxUnits''
          in if \<not> present positiveInteger (jget o1 ''windowMs'')
             then Inl (policy_invalid ''workflow safety limit window is invalid'')
             else if \<not> absent_or positiveInteger runs \<or> \<not> absent_or positiveNumber units \<or> runs = None \<and> units = None
             then Inl (policy_invalid ''workflow safety limit is invalid'')
             else Inr \<lparr>lm_window = nat \<lfloor>the (number_value (jget o1 ''windowMs''))\<rfloor>,
               lm_runs = map_option (\<lambda>x. nat \<lfloor>x\<rfloor>) (number_value runs), lm_units = number_value units\<rparr>)"

fun parse_limits :: "json list \<Rightarrow> safety_error + SafetyLimit list" where
  "parse_limits [] = Inr []"
| "parse_limits (x # xs) = sum_bind (parse_limit x) (\<lambda>l. sum_bind (parse_limits xs) (\<lambda>ls. Inr (l # ls)))"

definition contract_shape :: "jobj \<Rightarrow> bool" where
  "contract_shape o1 \<longleftrightarrow> is_policy_identifier (jget o1 ''version'') \<and> is_flag (jget o1 ''requiresAdmissionLedger'')
     \<and> is_flag (jget o1 ''requireExplicitEffects'')
     \<and> (case text_value (jget o1 ''scopeTemplate'') of None \<Rightarrow> False | Some s \<Rightarrow> js_trim s \<noteq> [])
     \<and> present positiveNumber (jget o1 ''unitCost'')
     \<and> identifier_array (jget o1 ''allowedEffects'') \<noteq> None \<and> identifier_array (jget o1 ''requiredGoalStages'') \<noteq> None
     \<and> is_flag (jget o1 ''requirePostcondition'')
     \<and> (case record_value (jget o1 ''approval'') of None \<Rightarrow> False | Some a \<Rightarrow> is_flag (jget a ''required'') \<and> is_flag (jget a ''granted''))
     \<and> list_value (jget o1 ''limits'') \<noteq> None"

definition parsePolicy :: "safety_env \<Rightarrow> json \<Rightarrow> safety_error + WorkflowSafetyPolicy" where
  "parsePolicy env payload =
     (case record_value (Some payload) of
        None \<Rightarrow> Inl (policy_invalid ''workflow safety policy payload is invalid'')
      | Some o1 \<Rightarrow>
          if \<not> contract_shape o1 then Inl (policy_invalid ''workflow safety policy contract is invalid'')
          else (let approval = the (record_value (jget o1 ''approval'')); expiresAt = jget approval ''expiresAt''; grantId = jget approval ''grantId''
            in sum_bind (parse_limits (the (list_value (jget o1 ''limits'')))) (\<lambda>limits.
               andthen (require (absent_or (\<lambda>v. case v of JStr s \<Rightarrow> sf_date env s | _ \<Rightarrow> False) expiresAt)
                 (policy_invalid ''workflow safety approval expiry is invalid''))
              (andthen (require (absent_or (\<lambda>v. is_policy_identifier (Some v)) grantId)
                 (policy_invalid ''workflow safety approval grant id is invalid''))
               (Inr \<lparr>sp_version = the (text_value (jget o1 ''version'')),
                  sp_ledger = (jget o1 ''requiresAdmissionLedger'' = Some (JBool True)),
                  sp_explicit = (jget o1 ''requireExplicitEffects'' = Some (JBool True)),
                  sp_scope = the (text_value (jget o1 ''scopeTemplate'')), sp_cost = the (number_value (jget o1 ''unitCost'')),
                  sp_effects = the (identifier_array (jget o1 ''allowedEffects'')),
                  sp_stages = the (identifier_array (jget o1 ''requiredGoalStages'')),
                  sp_postcondition = (jget o1 ''requirePostcondition'' = Some (JBool True)),
                  sp_required = (jget approval ''required'' = Some (JBool True)),
                  sp_granted = (jget approval ''granted'' = Some (JBool True)),
                  sp_grant = text_value grantId, sp_expires = text_value expiresAt, sp_limits = limits\<rparr>)))))"

text \<open>
  Rows of \<^verbatim>\<open>runtime_semantic_entries\<close> whose state, in the lifecycle bound to the table, is
  dispatchable; namespace and key are unique.
\<close>

record semantic_entry =
  en_namespace :: string
  en_key :: string
  en_lifecycle :: "string option"
  en_status :: "string option"
  en_priority :: int
  en_payload :: json

definition entry_dispatchable :: "lc_db \<Rightarrow> semantic_entry \<Rightarrow> bool" where
  "entry_dispatchable lc e \<longleftrightarrow>
     list_ex (\<lambda>b. to_regclass lc ''runtime_semantic_entries'' = Some (lb_table b) \<and> en_lifecycle e = Some (lb_key b)) (db_bindings lc)
   \<and> list_ex (\<lambda>s. en_lifecycle e = Some (ls_key s) \<and> en_status e = Some (ls_status s) \<and> ls_dispatchable s) (db_states lc)"

definition policy_rows :: "lc_db \<Rightarrow> semantic_entry list \<Rightarrow> string \<Rightarrow> semantic_entry list" where
  "policy_rows lc entries safetyClass = sort_key (\<lambda>e. - en_priority e)
     (filter (\<lambda>e. en_namespace e = ''workflow_safety_policy'' \<and> en_key e = safetyClass \<and> entry_dispatchable lc e) entries)"

definition loadWorkflowSafetyPolicy :: "safety_env \<Rightarrow> lc_db \<Rightarrow> semantic_entry list \<Rightarrow> string \<Rightarrow> safety_error + WorkflowSafetyPolicy" where
  "loadWorkflowSafetyPolicy env lc entries safetyClass =
     (if \<not> policy_identifier safetyClass then Inl (conflict ''WORKFLOW_SAFETY_CLASS_INVALID'' ''workflow safety class is invalid'')
      else case first_row (policy_rows lc entries safetyClass) of
        None \<Rightarrow> Inl (SafetyFailure ''WORKFLOW_SAFETY_POLICY_REQUIRED'' ''workflow safety class has no active PostgreSQL policy'' 503)
      | Some e \<Rightarrow> parsePolicy env (en_payload e))"

end
