(* ===== verification/Safety_Admission.thy ===== *)
theory Safety_Admission imports Safety_Policy
begin

text \<open>
  The admission of workflows to their safety class
  (\<^verbatim>\<open>workflow-safety-admission.service.ts\<close>, lines 181-495): the check of a workflow against the
  policy, the scope of an admission, the reservation of a row in the ledger and the check of
  its receipt before dispatch. Both callers reserve inside one transaction; the advisory lock
  orders the reservations of one class and scope, so that a reservation is one step on the
  ledger, and a call that throws leaves no row. \<^verbatim>\<open>NOW()\<close> is the start of the transaction:
  the times of successive reservations may run backwards.
\<close>

section \<open>The actions of a workflow\<close>

function visit_items :: "json list \<Rightarrow> jobj list res"
  and visit_step :: "json \<Rightarrow> jobj list res" where
  "visit_items [] = Inr []"
| "visit_items (x # xs) =
     res_bind (visit_step x) (\<lambda>a. res_bind (visit_items xs) (\<lambda>b. Inr (a @ b)))"
| "visit_step v =
     (case v of
        JNull \<Rightarrow> Inl type_error
      | JObj o1 \<Rightarrow>
          if is_action o1 then
            (case jget o1 ''onFailureSteps'' of Some (JArr xs) \<Rightarrow> res_bind (visit_items xs) (\<lambda>a. Inr (o1 # a)) | _ \<Rightarrow> Inr [o1])
          else if jget o1 ''type'' = Some (JStr ''condition'') then
            res_bind (case jget o1 ''if_true'' of
                Some (JArr xs) \<Rightarrow> visit_items xs | x \<Rightarrow> res_bind (iterate x) (\<lambda>_. Inr [])) (\<lambda>a.
            res_bind (case jget o1 ''if_false'' of
                Some (JArr xs) \<Rightarrow> visit_items xs
              | x \<Rightarrow> if js_truthy x then res_bind (iterate x) (\<lambda>_. Inr []) else Inr []) (\<lambda>b.
            Inr (a @ b)))
          else if jget o1 ''type'' = Some (JStr ''loop'') then
            (case jget o1 ''steps'' of Some (JArr xs) \<Rightarrow> visit_items xs | x \<Rightarrow> res_bind (iterate x) (\<lambda>_. Inr []))
          else Inr []
      | _ \<Rightarrow> Inr [])"
  by pat_completeness auto
termination
  by (relation "measure (\<lambda>x. case x of Inl xs \<Rightarrow> 2 * size (JArr xs) | Inr v \<Rightarrow> 2 * size v + 1)")
    (auto dest!: size_member)

definition safety_actions :: "jobj \<Rightarrow> jobj list res" where
  "safety_actions workflow = res_bind (iterate (jget workflow ''steps'')) visit_items"

definition declared_effects :: "jobj list \<Rightarrow> json list" where
  "declared_effects actions = map the (filter js_truthy (map (\<lambda>a. jget a ''effect'') actions))"

definition allowed_effect :: "WorkflowSafetyPolicy \<Rightarrow> json \<Rightarrow> bool" where
  "allowed_effect policy v \<longleftrightarrow> (case v of JStr s \<Rightarrow> s \<in> set (sp_effects policy) | _ \<Rightarrow> False)"

fun stage_ids :: "json list \<Rightarrow> json option list res" where
  "stage_ids [] = Inr []"
| "stage_ids (JNull # xs) = Inl type_error"
| "stage_ids (JObj o1 # xs) = res_bind (stage_ids xs) (\<lambda>is. Inr (jget o1 ''id'' # is))"
| "stage_ids (x # xs) = res_bind (stage_ids xs) (\<lambda>is. Inr (None # is))"

definition goal_stages :: "jobj \<Rightarrow> json option list res" where
  "goal_stages workflow =
     (case nullish (jget workflow ''goalContract'') of
        None \<Rightarrow> Inr []
      | Some v \<Rightarrow> (case v of
            JObj o1 \<Rightarrow> (case jget o1 ''stages'' of Some (JArr xs) \<Rightarrow> stage_ids xs | _ \<Rightarrow> Inl type_error)
          | _ \<Rightarrow> Inl type_error))"

definition printed :: "safety_env \<Rightarrow> json \<Rightarrow> string" where
  "printed env v = (case v of JStr s \<Rightarrow> s | _ \<Rightarrow> sf_text env v)"

definition assertWorkflowMatchesSafetyPolicy :: "safety_env \<Rightarrow> jobj \<Rightarrow> WorkflowSafetyPolicy \<Rightarrow> safety_error + unit" where
  "assertWorkflowMatchesSafetyPolicy env workflow policy =
     sum_bind (thrown (safety_actions workflow)) (\<lambda>actions.
       andthen (require (\<not> (sp_explicit policy \<and> list_ex (\<lambda>a. \<not> js_truthy (jget a ''effect'')) actions))
         (conflict ''WORKFLOW_SAFETY_EFFECT_REQUIRED'' ''every workflow action must declare an effect''))
      (andthen (each (\<lambda>e. require (allowed_effect policy e) (conflict ''WORKFLOW_SAFETY_EFFECT_DENIED''
           (''workflow effect '' @ [CHR 0x22] @ printed env e @ [CHR 0x22] @ '' is not allowed''))) (declared_effects actions))
      (sum_bind (thrown (goal_stages workflow)) (\<lambda>stages.
       andthen (each (\<lambda>r. require (Some (JStr r) \<in> set stages) (conflict ''WORKFLOW_SAFETY_STAGE_REQUIRED''
           (''workflow safety stage '' @ [CHR 0x22] @ r @ [CHR 0x22] @ '' is missing''))) (sp_stages policy))
        (require (\<not> sp_postcondition policy \<or> js_truthy (jget workflow ''postconditionContract''))
          (conflict ''WORKFLOW_SAFETY_POSTCONDITION_REQUIRED'' ''workflow safety policy requires a postcondition''))))))"

section \<open>Scopes and contexts\<close>

text \<open>Nothing an object inherits is a text, so own members decide.\<close>

definition contextValue :: "jobj \<Rightarrow> string \<Rightarrow> safety_error + string" where
  "contextValue context path =
     (case text_value (read_path (JObj context) (split_char CHR ''.'' path)) of
        Some s \<Rightarrow> if js_trim s \<noteq> [] then Inr s else Inl (conflict ''WORKFLOW_SAFETY_SCOPE_UNBOUND''
          (''workflow safety scope token '' @ [CHR 0x22] @ path @ [CHR 0x22] @ '' is unbound''))
      | None \<Rightarrow> Inl (conflict ''WORKFLOW_SAFETY_SCOPE_UNBOUND''
          (''workflow safety scope token '' @ [CHR 0x22] @ path @ [CHR 0x22] @ '' is unbound'')))"

text \<open>The text with its tokens replaced, and whether there was a token.\<close>

function replace_tokens :: "jobj \<Rightarrow> string \<Rightarrow> safety_error + (string \<times> bool)" where
  "replace_tokens context s =
     (case binding_at s of
        Some (path, r) \<Rightarrow> sum_bind (contextValue context path) (\<lambda>v.
          sum_bind (replace_tokens context r) (\<lambda>(t, _). Inr (v @ t, True)))
      | None \<Rightarrow> (case s of [] \<Rightarrow> Inr ([], False)
          | c # cs \<Rightarrow> sum_bind (replace_tokens context cs) (\<lambda>(t, used). Inr (c # t, used))))"
  by pat_completeness auto
termination
  by (relation "measure (length \<circ> snd)") (auto dest: binding_at_shorter)

declare replace_tokens.simps [simp del]

definition renderScope :: "string \<Rightarrow> jobj \<Rightarrow> safety_error + string" where
  "renderScope template context =
     sum_bind (replace_tokens context template) (\<lambda>(rendered, used).
       if \<not> used \<or> js_includes rendered ''{{'' \<or> js_trim rendered = []
       then Inl (SafetyFailure ''WORKFLOW_SAFETY_SCOPE_INVALID'' ''workflow safety scope template is invalid'' 503)
       else Inr rendered)"

definition filled_text :: "json \<Rightarrow> bool" where
  "filled_text v \<longleftrightarrow> (case v of JStr s \<Rightarrow> js_trim s \<noteq> [] | _ \<Rightarrow> False)"

definition canonicalAdmissionContext :: "safety_env \<Rightarrow> jobj \<Rightarrow> jobj" where
  "canonicalAdmissionContext env context = sort_key (sf_collate env \<circ> fst) (filter (\<lambda>(_, v). filled_text v) context)"

definition sameAdmissionContext :: "json option \<Rightarrow> jobj \<Rightarrow> bool" where
  "sameAdmissionContext left right \<longleftrightarrow>
     (case record_value left of None \<Rightarrow> False
      | Some o1 \<Rightarrow> length o1 = length right \<and> list_all (\<lambda>(k, v). jget o1 k = Some v) right)"

definition hex_lower :: "char \<Rightarrow> bool" where
  "hex_lower c \<longleftrightarrow> c \<in> set ''0123456789abcdef''"

definition artifact_fingerprint :: "string option \<Rightarrow> bool" where
  "artifact_fingerprint v \<longleftrightarrow> (case v of None \<Rightarrow> False | Some s \<Rightarrow> length s = 64 \<and> list_all hex_lower s)"

definition assertArtifactFingerprint :: "string option \<Rightarrow> safety_error + unit" where
  "assertArtifactFingerprint v = require (artifact_fingerprint v)
     (conflict ''WORKFLOW_SAFETY_ARTIFACT_FINGERPRINT_REQUIRED'' ''workflow safety admission requires a canonical artifact fingerprint'')"

definition computeWorkflowSafetyArtifactFingerprint :: "safety_env \<Rightarrow> string \<Rightarrow> (string \<times> jsval) list \<Rightarrow> safety_error + string" where
  "computeWorkflowSafetyArtifactFingerprint env compiledPlanHash executionVariables =
     andthen (assertArtifactFingerprint (Some compiledPlanHash))
       (Inr (sf_sha env (the (stableStringify (sf_num env)
         (VObj [(''compiledPlanHash'', VStr compiledPlanHash), (''executionVariables'', VObj executionVariables)])))))"

definition assertApproval :: "safety_env \<Rightarrow> timestamp \<Rightarrow> WorkflowSafetyPolicy \<Rightarrow> safety_error + unit" where
  "assertApproval env now policy =
     (if \<not> sp_required policy then Inr ()
      else andthen (require (sp_granted policy \<and> or_string (sp_grant policy) None \<noteq> None)
          (conflict ''WORKFLOW_SAFETY_APPROVAL_REQUIRED'' ''workflow safety policy has no active approval grant''))
        (case or_string (sp_expires policy) None of
           None \<Rightarrow> Inr ()
         | Some s \<Rightarrow> (case sf_timestamptz env s of
               None \<Rightarrow> Inl (SafetyThrown ''invalid input syntax for type timestamp with time zone'')
             | Some t \<Rightarrow> require (now < t) (conflict ''WORKFLOW_SAFETY_APPROVAL_EXPIRED'' ''workflow safety approval grant has expired''))))"

section \<open>The ledger\<close>

record admission_row =
  lr_id :: string
  lr_class :: string
  lr_version :: string
  lr_scope :: string
  lr_key :: string
  lr_units :: rat
  lr_context :: json
  lr_created :: timestamp

type_synonym ledger = "admission_row list"

record WorkflowSafetyAdmission =
  sa_id :: "string option"
  sa_class :: string
  sa_version :: string
  sa_scope :: string
  sa_key :: string
  sa_units :: rat
  sa_replayed :: bool

text \<open>The arguments, the time of the transaction and the identifier a new row gets.\<close>

record reserve_input =
  ri_class :: string
  ri_workflow :: jobj
  ri_fingerprint :: "string option"
  ri_context :: jobj
  ri_key :: "string option"
  ri_now :: timestamp
  ri_new_id :: string

definition in_window :: "string \<Rightarrow> string \<Rightarrow> timestamp \<Rightarrow> nat \<Rightarrow> admission_row \<Rightarrow> bool" where
  "in_window c s now window r \<longleftrightarrow> lr_class r = c \<and> lr_scope r = s \<and> int now - int window \<le> int (lr_created r)"

definition units_of :: "admission_row list \<Rightarrow> rat" where
  "units_of rows = sum_list (map lr_units rows)"

definition check_limit :: "ledger \<Rightarrow> string \<Rightarrow> string \<Rightarrow> timestamp \<Rightarrow> rat \<Rightarrow> SafetyLimit \<Rightarrow> safety_error + unit" where
  "check_limit db c s now cost l =
     (let rows = filter (in_window c s now (lm_window l)) db
      in andthen (require (case lm_runs l of None \<Rightarrow> True | Some n \<Rightarrow> length rows < n)
           (SafetyFailure ''WORKFLOW_SAFETY_RATE_LIMITED'' ''workflow safety run limit is exhausted'' 429))
         (require (case lm_units l of None \<Rightarrow> True | Some u \<Rightarrow> units_of rows + cost \<le> u)
           (SafetyFailure ''WORKFLOW_SAFETY_BUDGET_EXHAUSTED'' ''workflow safety unit budget is exhausted'' 429)))"

definition ledger_context :: "safety_env \<Rightarrow> reserve_input \<Rightarrow> json" where
  "ledger_context env i = JObj [(''admissionContext'', JObj (canonicalAdmissionContext env (ri_context i))),
     (''artifactFingerprint'', JStr (the (ri_fingerprint i)))]"

definition context_matches :: "json \<Rightarrow> string option \<Rightarrow> jobj \<Rightarrow> bool" where
  "context_matches stored fingerprint context \<longleftrightarrow>
     (let o1 = odefault (record_value (Some stored)) []
      in jget o1 ''artifactFingerprint'' = map_option JStr fingerprint \<and> sameAdmissionContext (jget o1 ''admissionContext'') context)"

definition replayed_admission :: "safety_env \<Rightarrow> reserve_input \<Rightarrow> WorkflowSafetyPolicy \<Rightarrow> string \<Rightarrow> admission_row
    \<Rightarrow> safety_error + WorkflowSafetyAdmission" where
  "replayed_admission env i policy s r =
     andthen (require (lr_version r = sp_version policy
         \<and> context_matches (lr_context r) (ri_fingerprint i) (canonicalAdmissionContext env (ri_context i)))
       (conflict ''WORKFLOW_IDEMPOTENCY_CONFLICT'' ''idempotency key is already bound to a different workflow safety admission''))
     (Inr \<lparr>sa_id = Some (lr_id r), sa_class = ri_class i, sa_version = sp_version policy, sa_scope = s,
       sa_key = the (ri_key i), sa_units = lr_units r, sa_replayed = True\<rparr>)"

definition new_row :: "safety_env \<Rightarrow> reserve_input \<Rightarrow> WorkflowSafetyPolicy \<Rightarrow> string \<Rightarrow> admission_row" where
  "new_row env i policy s = \<lparr>lr_id = ri_new_id i, lr_class = ri_class i, lr_version = sp_version policy, lr_scope = s,
     lr_key = the (ri_key i), lr_units = sp_cost policy, lr_context = ledger_context env i, lr_created = ri_now i\<rparr>"

definition row_at :: "string \<Rightarrow> string \<Rightarrow> string option \<Rightarrow> admission_row \<Rightarrow> bool" where
  "row_at c s k r \<longleftrightarrow> lr_class r = c \<and> lr_scope r = s \<and> Some (lr_key r) = k"

definition reserve_ledger :: "safety_env \<Rightarrow> reserve_input \<Rightarrow> WorkflowSafetyPolicy \<Rightarrow> string \<Rightarrow> ledger
    \<Rightarrow> safety_error + (WorkflowSafetyAdmission \<times> ledger)" where
  "reserve_ledger env i policy s db =
     (case find (row_at (ri_class i) s (ri_key i)) db of
        Some r \<Rightarrow> sum_bind (replayed_admission env i policy s r) (\<lambda>a. Inr (a, db))
      | None \<Rightarrow> andthen (each (check_limit db (ri_class i) s (ri_now i) (sp_cost policy)) (sp_limits policy))
          (Inr (\<lparr>sa_id = Some (ri_new_id i), sa_class = ri_class i, sa_version = sp_version policy, sa_scope = s,
             sa_key = the (ri_key i), sa_units = sp_cost policy, sa_replayed = False\<rparr>, db @ [new_row env i policy s])))"

text \<open>The policy may have been read before other reservations changed the ledger.\<close>

definition reserveWorkflowSafetyAdmission :: "safety_env \<Rightarrow> lc_db \<Rightarrow> semantic_entry list \<Rightarrow> reserve_input \<Rightarrow> ledger
    \<Rightarrow> safety_error + (WorkflowSafetyAdmission \<times> ledger)" where
  "reserveWorkflowSafetyAdmission env lc entries i db =
     sum_bind (loadWorkflowSafetyPolicy env lc entries (ri_class i)) (\<lambda>policy.
     andthen (assertWorkflowMatchesSafetyPolicy env (ri_workflow i) policy)
     (sum_bind (renderScope (sp_scope policy) (ri_context i)) (\<lambda>s.
       if \<not> sp_ledger policy
       then Inr (\<lparr>sa_id = None, sa_class = ri_class i, sa_version = sp_version policy, sa_scope = s,
              sa_key = odefault (ri_key i) ''not_applicable'', sa_units = 0, sa_replayed = False\<rparr>, db)
       else andthen (require (case ri_key i of None \<Rightarrow> False | Some k \<Rightarrow> policy_identifier k)
              (SafetyFailure ''WORKFLOW_IDEMPOTENCY_KEY_REQUIRED'' ''workflow requires a valid idempotency key'' 400))
           (andthen (assertArtifactFingerprint (ri_fingerprint i))
           (andthen (assertApproval env (ri_now i) policy)
            (reserve_ledger env i policy s db))))))"

section \<open>Dispatch\<close>

record dispatch_check_input =
  di_workflow :: jobj
  di_admission :: "string option"
  di_fingerprint :: "string option"
  di_context :: "jobj option"
  di_now :: timestamp

text \<open>
  \<open>context ->> 'artifactFingerprint' = $5\<close> and equality of \<^verbatim>\<open>jsonb\<close> values, which compares the
  members of two objects by their keys. The canonical context holds texts only.
\<close>

definition jsonb_texts :: "json option \<Rightarrow> jobj \<Rightarrow> bool" where
  "jsonb_texts stored context \<longleftrightarrow>
     (case record_value stored of None \<Rightarrow> False | Some o1 \<Rightarrow> \<forall>k \<in> fst ` (set o1 \<union> set context). jget o1 k = jget context k)"

definition receipt_matches :: "string \<Rightarrow> string \<Rightarrow> string \<Rightarrow> string \<Rightarrow> string option \<Rightarrow> jobj \<Rightarrow> admission_row \<Rightarrow> bool" where
  "receipt_matches i c version s fingerprint context r \<longleftrightarrow>
     lr_id r = i \<and> lr_class r = c \<and> lr_version r = version \<and> lr_scope r = s
   \<and> (case record_value (Some (lr_context r)) of None \<Rightarrow> False
      | Some o1 \<Rightarrow> jget o1 ''artifactFingerprint'' = map_option JStr fingerprint \<and> jsonb_texts (jget o1 ''admissionContext'') context)"

definition assertWorkflowSafetyDispatch :: "safety_env \<Rightarrow> lc_db \<Rightarrow> semantic_entry list \<Rightarrow> ledger \<Rightarrow> dispatch_check_input
    \<Rightarrow> safety_error + unit" where
  "assertWorkflowSafetyDispatch env lc entries db d =
     (case jget (di_workflow d) ''safetyClass'' of
        Some (JStr c) \<Rightarrow>
          if \<not> policy_identifier c then Inl (conflict ''WORKFLOW_SAFETY_CLASS_REQUIRED'' ''workflow has no valid explicit safety class'')
          else sum_bind (loadWorkflowSafetyPolicy env lc entries c) (\<lambda>policy.
            andthen (assertWorkflowMatchesSafetyPolicy env (di_workflow d) policy)
            (if \<not> sp_ledger policy then Inr ()
             else andthen (assertApproval env (di_now d) policy)
              (case or_string (di_admission d) None of
                 None \<Rightarrow> Inl (conflict ''WORKFLOW_SAFETY_ADMISSION_REQUIRED'' ''workflow requires a safety admission receipt'')
               | Some i \<Rightarrow> andthen (assertArtifactFingerprint (di_fingerprint d))
                   (sum_bind (renderScope (sp_scope policy) (odefault (di_context d) [])) (\<lambda>s.
                    (case sf_uuid env i of
                       None \<Rightarrow> Inl (SafetyThrown ''invalid input syntax for type uuid'')
                     | Some u \<Rightarrow>
                        require (list_ex (receipt_matches u c (sp_version policy) s (di_fingerprint d)
                            (canonicalAdmissionContext env (odefault (di_context d) []))) db)
                          (conflict ''WORKFLOW_SAFETY_ADMISSION_INVALID'' ''workflow safety admission receipt is invalid'')))))))
      | _ \<Rightarrow> Inl (conflict ''WORKFLOW_SAFETY_CLASS_REQUIRED'' ''workflow has no valid explicit safety class''))"

end
