(* ===== verification/Safety_Properties.thy ===== *)
theory Safety_Properties imports Safety_Admission
begin

text \<open>
  What admissions guarantee: the ledger stays within the limits of its policies in every
  window of time, a key is bound to one row, a receipt of a reservation is honoured at
  dispatch, and only admitted work is dispatched.
\<close>

section \<open>Parsed policies\<close>

lemma parsePolicy_cost:
  assumes "parsePolicy env payload = Inr p"
  shows "0 < sp_cost p"
proof -
  obtain o1 where o1: "record_value (Some payload) = Some o1" "contract_shape o1"
    using assms by (auto simp: parsePolicy_def split: option.splits if_splits)
  then have "present positiveNumber (jget o1 ''unitCost'')" by (simp add: contract_shape_def)
  then obtain x where "jget o1 ''unitCost'' = Some (JNum x)" "0 < x"
    by (auto simp: present_def positiveNumber_def split: option.splits json.splits)
  then show ?thesis using assms o1 by (auto simp: parsePolicy_def Let_def number_value_def)
qed

lemma load_cost: "loadWorkflowSafetyPolicy env lc entries c = Inr p \<Longrightarrow> 0 < sp_cost p"
  by (auto simp: loadWorkflowSafetyPolicy_def split: if_splits option.splits dest: parsePolicy_cost)

section \<open>One reservation\<close>

text \<open>What has been checked before a request reaches the ledger.\<close>

definition cleared :: "safety_env \<Rightarrow> lc_db \<Rightarrow> semantic_entry list \<Rightarrow> reserve_input \<Rightarrow> WorkflowSafetyPolicy \<Rightarrow> string \<Rightarrow> bool" where
  "cleared env lc entries i p s \<longleftrightarrow> loadWorkflowSafetyPolicy env lc entries (ri_class i) = Inr p
     \<and> assertWorkflowMatchesSafetyPolicy env (ri_workflow i) p = Inr () \<and> renderScope (sp_scope p) (ri_context i) = Inr s
     \<and> sp_ledger p \<and> (\<exists>k. ri_key i = Some k \<and> policy_identifier k) \<and> artifact_fingerprint (ri_fingerprint i)
     \<and> assertApproval env (ri_now i) p = Inr ()"

lemma reserve_cleared:
  "cleared env lc entries i p s \<Longrightarrow> reserveWorkflowSafetyAdmission env lc entries i db = reserve_ledger env i p s db"
  by (auto simp: cleared_def reserveWorkflowSafetyAdmission_def sum_bind_def andthen_def require_def assertArtifactFingerprint_def)

lemma reserve_cases:
  assumes "reserveWorkflowSafetyAdmission env lc entries i db = Inr (a, db')"
  obtains (free) p s where "loadWorkflowSafetyPolicy env lc entries (ri_class i) = Inr p" "\<not> sp_ledger p"
      "assertWorkflowMatchesSafetyPolicy env (ri_workflow i) p = Inr ()" "renderScope (sp_scope p) (ri_context i) = Inr s"
      "sa_id a = None" "db' = db"
    | (ledger) p s where "cleared env lc entries i p s" "reserve_ledger env i p s db = Inr (a, db')"
proof -
  obtain p s where p: "loadWorkflowSafetyPolicy env lc entries (ri_class i) = Inr p"
      "assertWorkflowMatchesSafetyPolicy env (ri_workflow i) p = Inr ()" "renderScope (sp_scope p) (ri_context i) = Inr s"
    using assms by (auto simp: reserveWorkflowSafetyAdmission_def)
  show ?thesis
  proof (cases "sp_ledger p")
    case True
    then have c: "cleared env lc entries i p s" using assms p
      by (auto simp: reserveWorkflowSafetyAdmission_def cleared_def assertArtifactFingerprint_def split: option.splits)
    then show ?thesis using assms ledger reserve_cleared[OF c, of db] by simp
  next
    case False
    then show ?thesis using assms p free by (auto simp: reserveWorkflowSafetyAdmission_def)
  qed
qed

lemma reserve_ledger_cases:
  assumes "reserve_ledger env i p s db = Inr (a, db')"
  obtains (replay) r where "find (row_at (ri_class i) s (ri_key i)) db = Some r" "lr_version r = sp_version p"
      "context_matches (lr_context r) (ri_fingerprint i) (canonicalAdmissionContext env (ri_context i))"
      "sa_id a = Some (lr_id r)" "db' = db"
    | (fresh) "find (row_at (ri_class i) s (ri_key i)) db = None" "db' = db @ [new_row env i p s]"
      "sa_id a = Some (ri_new_id i)" "\<And>l. l \<in> set (sp_limits p) \<Longrightarrow> check_limit db (ri_class i) s (ri_now i) (sp_cost p) l = Inr ()"
  using assms by (auto simp: reserve_ledger_def replayed_admission_def split: option.splits)

section \<open>Sequences of reservations\<close>

type_synonym reservation = "lc_db \<times> semantic_entry list \<times> reserve_input"

fun reservations :: "safety_env \<Rightarrow> reservation list \<Rightarrow> ledger \<Rightarrow> ledger" where
  "reservations env [] db = db"
| "reservations env ((lc, entries, i) # qs) db = reservations env qs
     (case reserveWorkflowSafetyAdmission env lc entries i db of Inl _ \<Rightarrow> db | Inr (_, db') \<Rightarrow> db')"

text \<open>A ledger grows by rows that a cleared request of the sequence has put there.\<close>

inductive grows :: "safety_env \<Rightarrow> reservation set \<Rightarrow> ledger \<Rightarrow> ledger \<Rightarrow> bool" for env qs db0 where
  grows_start: "grows env qs db0 db0"
| grows_row: "grows env qs db0 db \<Longrightarrow> (lc, entries, i) \<in> qs \<Longrightarrow> cleared env lc entries i p s
    \<Longrightarrow> find (row_at (ri_class i) s (ri_key i)) db = None
    \<Longrightarrow> (\<And>l. l \<in> set (sp_limits p) \<Longrightarrow> check_limit db (ri_class i) s (ri_now i) (sp_cost p) l = Inr ())
    \<Longrightarrow> grows env qs db0 (db @ [new_row env i p s])"

lemma grows_step:
  assumes "(lc, entries, i) \<in> qs" "reserveWorkflowSafetyAdmission env lc entries i db = Inr (a, db')"
  shows "grows env qs db db'"
  using assms(2)
proof (cases rule: reserve_cases)
  case (ledger p s)
  from ledger(2) show ?thesis
  proof (cases rule: reserve_ledger_cases)
    case fresh
    then show ?thesis using grows_row[OF grows_start assms(1) ledger(1)] by simp
  qed (simp add: grows_start)
qed (simp add: grows_start)

lemma grows_trans: "grows env qs db1 db2 \<Longrightarrow> grows env qs db0 db1 \<Longrightarrow> grows env qs db0 db2"
  by (induction rule: grows.induct) (auto intro: grows_row)

lemma grows_reservations: "set qs \<subseteq> Q \<Longrightarrow> grows env Q db (reservations env qs db)"
proof (induction env qs db rule: reservations.induct)
  case (2 env lc entries i qs db)
  let ?db = "case reserveWorkflowSafetyAdmission env lc entries i db of Inl _ \<Rightarrow> db | Inr (_, db') \<Rightarrow> db'"
  have "grows env Q db ?db"
    using 2(2) by (auto split: sum.splits intro: grows_start grows_step)
  moreover have "grows env Q ?db (reservations env qs ?db)" using 2 by simp
  ultimately show ?case using grows_trans by simp
qed (simp add: grows_start)

lemma grows_extends: "grows env Q db0 db \<Longrightarrow> \<exists>more. db = db0 @ more"
  by (induction rule: grows.induct) auto

lemma reservations_extend: "\<exists>more. reservations env qs db = db @ more"
  by (rule grows_extends[OF grows_reservations[OF subset_refl]])

lemma grown_row:
  "grows env Q [] db \<Longrightarrow> r \<in> set db \<Longrightarrow> \<exists>lc entries i p s. (lc, entries, i) \<in> Q \<and> cleared env lc entries i p s \<and> r = new_row env i p s"
  by (induction rule: grows.induct) (auto, blast)

section \<open>Limits\<close>

lemma length_filter_mono: "(\<And>x. P x \<Longrightarrow> Q x) \<Longrightarrow> length (filter P xs) \<le> length (filter Q xs)"
  by (induction xs) (auto intro: le_SucI)

lemma units_mono:
  "(\<And>r. P r \<Longrightarrow> Q r) \<Longrightarrow> (\<And>r. r \<in> set rows \<Longrightarrow> 0 \<le> lr_units r) \<Longrightarrow> units_of (filter P rows) \<le> units_of (filter Q rows)"
  by (induction rows) (auto simp: units_of_def add_increasing)

lemma units_append [simp]: "units_of (xs @ ys) = units_of xs + units_of ys" "units_of [r] = lr_units r" "units_of [] = 0"
  by (simp_all add: units_of_def)

lemma new_row_simps [simp]: "lr_class (new_row env i p s) = ri_class i" "lr_scope (new_row env i p s) = s"
  "lr_units (new_row env i p s) = sp_cost p" "lr_created (new_row env i p s) = ri_now i" "lr_id (new_row env i p s) = ri_new_id i"
  "lr_version (new_row env i p s) = sp_version p" "lr_key (new_row env i p s) = the (ri_key i)"
  "lr_context (new_row env i p s) = ledger_context env i"
  by (simp_all add: new_row_def)

lemma grows_units: "grows env Q [] db \<Longrightarrow> r \<in> set db \<Longrightarrow> 0 \<le> lr_units r"
  by (induction rule: grows.induct) (auto simp: cleared_def dest!: load_cost)

text \<open>The rows of a class and scope that were created from \<open>t\<close> to the end of the window.\<close>

definition window_rows :: "ledger \<Rightarrow> string \<Rightarrow> string \<Rightarrow> timestamp \<Rightarrow> nat \<Rightarrow> admission_row list" where
  "window_rows db c s t window = filter (\<lambda>r. lr_class r = c \<and> lr_scope r = s \<and> t \<le> lr_created r \<and> lr_created r \<le> t + window) db"

definition in_limit :: "SafetyLimit \<Rightarrow> admission_row list \<Rightarrow> bool" where
  "in_limit l rows \<longleftrightarrow> rows = [] \<or> (case lm_runs l of None \<Rightarrow> True | Some n \<Rightarrow> length rows \<le> n)
     \<and> (case lm_units l of None \<Rightarrow> True | Some u \<Rightarrow> units_of rows \<le> u)"

lemma check_limit_keeps:
  assumes "check_limit db c s now cost l = Inr ()" "\<And>r. r \<in> set db \<Longrightarrow> 0 \<le> lr_units r"
    and r: "lr_units r = cost" and P: "\<And>x. P x \<Longrightarrow> in_window c s now (lm_window l) x"
  shows "in_limit l (filter P db @ [r])"
proof -
  let ?rows = "filter (in_window c s now (lm_window l)) db"
  have "length (filter P db) \<le> length ?rows" "units_of (filter P db) \<le> units_of ?rows"
    using P assms(2) by (auto intro: length_filter_mono units_mono)
  then show ?thesis using assms(1) r
    by (auto simp: in_limit_def check_limit_def Let_def split: option.splits)
qed

lemma grows_in_limit:
  assumes "grows env Q [] db"
    and "\<And>lc entries i p. (lc, entries, i) \<in> Q \<Longrightarrow> ri_class i = c \<Longrightarrow> loadWorkflowSafetyPolicy env lc entries c = Inr p
      \<Longrightarrow> sp_ledger p \<Longrightarrow> l \<in> set (sp_limits p)"
  shows "in_limit l (window_rows db c s t (lm_window l))"
  using assms(1)
proof (induction rule: grows.induct)
  case (grows_row db lc entries i p s')
  let ?P = "\<lambda>r. lr_class r = c \<and> lr_scope r = s \<and> t \<le> lr_created r \<and> lr_created r \<le> t + lm_window l"
  show ?case
  proof (cases "?P (new_row env i p s')")
    case True
    have "l \<in> set (sp_limits p)" using assms(2) grows_row(2,3) True by (auto simp: cleared_def)
    then have "check_limit db c s (ri_now i) (sp_cost p) l = Inr ()" using grows_row True by simp
    moreover have "in_window c s (ri_now i) (lm_window l) x" if "?P x" for x
      using that True by (auto simp: in_window_def)
    ultimately have "in_limit l (filter ?P db @ [new_row env i p s'])"
      using grows_units[OF grows_row(1)] by (intro check_limit_keeps) auto
    then show ?thesis using True by (simp add: window_rows_def)
  next
    case False
    then show ?thesis using grows_row by (auto simp: window_rows_def)
  qed
qed (simp add: window_rows_def in_limit_def)

lemma grows_distinct:
  "grows env Q [] db \<Longrightarrow> distinct (map (\<lambda>r. (lr_class r, lr_scope r, lr_key r)) db)"
proof (induction rule: grows.induct)
  case (grows_row db lc entries i p s)
  obtain k where k: "ri_key i = Some k" using grows_row(3) by (auto simp: cleared_def)
  have none: "\<not> row_at (ri_class i) s (ri_key i) r" if "r \<in> set db" for r
    using grows_row(4) that by (auto simp: find_None_iff)
  have "(ri_class i, s, k) \<noteq> (lr_class r, lr_scope r, lr_key r)" if "r \<in> set db" for r
    using none[OF that] unfolding row_at_def k by auto
  then have "(ri_class i, s, k) \<notin> set (map (\<lambda>r. (lr_class r, lr_scope r, lr_key r)) db)"
    by (metis (no_types, lifting) imageE list.set_map)
  then show ?case using grows_row.IH k by simp
qed simp

section \<open>A sample\<close>

definition sample_env :: safety_env where
  "sample_env = \<lparr>sf_sha = (\<lambda>s. s), sf_num = (\<lambda>_. []), sf_text = (\<lambda>_. []), sf_collate = (\<lambda>k. k), sf_date = (\<lambda>_. True),
     sf_timestamptz = (\<lambda>_. Some 1000), sf_uuid = Some\<rparr>"

definition sample_lc :: lc_db where
  "sample_lc = \<lparr>db_catalog = [(''runtime_semantic_entries'', ''e'')], db_columns = [(''e'', ''status'')],
     db_states = [\<lparr>ls_key = ''k'', ls_status = ''on'', ls_initial = True, ls_terminal = False, ls_retryable = False,
       ls_administrative = False, ls_dispatchable = True, ls_manual = False, ls_stale_ms = None, ls_stale_action = None,
       ls_description = None, ls_metadata = [], ls_sort = 0\<rparr>],
     db_transitions = [], db_bindings = [\<lparr>lb_table = ''e'', lb_column = ''status'', lb_key = ''k''\<rparr>], db_policies = []\<rparr>"

definition sample_limit :: SafetyLimit where
  "sample_limit = \<lparr>lm_window = 100, lm_runs = Some 1, lm_units = Some 3\<rparr>"

definition sample_policy :: WorkflowSafetyPolicy where
  "sample_policy = \<lparr>sp_version = ''v1'', sp_ledger = True, sp_explicit = True, sp_scope = ''{{deviceId}}'', sp_cost = 2,
     sp_effects = [''none''], sp_stages = [], sp_postcondition = False, sp_required = True, sp_granted = True,
     sp_grant = Some ''g'', sp_expires = Some ''later'', sp_limits = [sample_limit]\<rparr>"

definition sample_entries :: "semantic_entry list" where
  "sample_entries = [\<lparr>en_namespace = ''workflow_safety_policy'', en_key = ''c'', en_lifecycle = Some ''k'', en_status = Some ''on'',
     en_priority = 1, en_payload = JObj [(''version'', JStr ''v1''), (''requiresAdmissionLedger'', JBool True),
       (''requireExplicitEffects'', JBool True), (''scopeTemplate'', JStr ''{{deviceId}}''), (''unitCost'', JNum 2),
       (''allowedEffects'', JArr [JStr ''none'']), (''requiredGoalStages'', JArr []), (''requirePostcondition'', JBool False),
       (''approval'', JObj [(''required'', JBool True), (''granted'', JBool True), (''grantId'', JStr ''g''), (''expiresAt'', JStr ''later'')]),
       (''limits'', JArr [JObj [(''windowMs'', JNum 100), (''maxRuns'', JNum 1), (''maxUnits'', JNum 3)]])]\<rparr>]"

definition sample_safe_workflow :: jobj where
  "sample_safe_workflow = [(''safetyClass'', JStr ''c''), (''steps'', JArr [JObj [(''type'', JStr ''action''), (''effect'', JStr ''none'')]])]"

definition sample_request :: "string \<Rightarrow> timestamp \<Rightarrow> reserve_input" where
  "sample_request k t = \<lparr>ri_class = ''c'', ri_workflow = sample_safe_workflow, ri_fingerprint = Some (replicate 64 CHR ''a''),
     ri_context = [(''deviceId'', JStr ''d'')], ri_key = Some k, ri_now = t, ri_new_id = k\<rparr>"

definition sample_ledger :: ledger where
  "sample_ledger = [new_row sample_env (sample_request ''a'' 5) sample_policy ''d'']"

lemma sample_load: "loadWorkflowSafetyPolicy sample_env sample_lc sample_entries ''c'' = Inr sample_policy"
  by code_simp

definition sample_sequence :: "reservation list" where
  "sample_sequence = [(sample_lc, sample_entries, sample_request ''a'' 5), (sample_lc, sample_entries, sample_request ''b'' 40)]"

lemma sample_reservations:
  "reservations sample_env sample_sequence [] = sample_ledger"
  by code_simp

section \<open>The ledger keeps its limits\<close>

text \<open>
  C13. However policies change, the ledger of admissions that starts empty binds every key of a
  class and scope to one row, and if all policies under which work of a class is admitted have
  a limit, then in every window of that length, in every scope, the number of admissions and
  the units they consume stay within the limit, even when transactions commit in another order
  than they started.
\<close>

theorem admissions_within_limits:
  assumes "\<And>lc entries i p. (lc, entries, i) \<in> set qs \<Longrightarrow> ri_class i = c \<Longrightarrow>
      loadWorkflowSafetyPolicy env lc entries c = Inr p \<Longrightarrow> sp_ledger p \<Longrightarrow> l \<in> set (sp_limits p)"
  shows "distinct (map (\<lambda>r. (lr_class r, lr_scope r, lr_key r)) (reservations env qs []))
    \<and> in_limit l (window_rows (reservations env qs []) c s t (lm_window l))"
proof -
  have g: "grows env (set qs) [] (reservations env qs [])" by (rule grows_reservations) simp
  show ?thesis by (intro conjI grows_distinct[OF g] grows_in_limit[OF g]) (rule assms)
qed

theorem admissions_within_limits_witness:
  "length (reservations sample_env sample_sequence []) = 1
   \<and> distinct (map (\<lambda>r. (lr_class r, lr_scope r, lr_key r)) (reservations sample_env sample_sequence []))
   \<and> in_limit sample_limit (window_rows (reservations sample_env sample_sequence []) ''c'' ''d'' 0 (lm_window sample_limit))"
proof (rule conjI)
  show "length (reservations sample_env sample_sequence []) = 1"
    unfolding sample_reservations sample_ledger_def by simp
  show "distinct (map (\<lambda>r. (lr_class r, lr_scope r, lr_key r)) (reservations sample_env sample_sequence []))
      \<and> in_limit sample_limit (window_rows (reservations sample_env sample_sequence []) ''c'' ''d'' 0 (lm_window sample_limit))"
    by (rule admissions_within_limits) (auto simp: sample_sequence_def sample_load sample_policy_def)
qed

end
