(* ===== verification/Safety_Dispatch.thy ===== *)
theory Safety_Dispatch imports Safety_Properties
begin

text \<open>
  Dispatch under a safety class: exactly what a workflow that passes its policy looks like,
  that a receipt is honoured, and that nothing is dispatched without one.
\<close>

section \<open>Workflows that keep a policy\<close>

definition effect_kept :: "WorkflowSafetyPolicy \<Rightarrow> jobj \<Rightarrow> bool" where
  "effect_kept p a \<longleftrightarrow> (if js_truthy (jget a ''effect'') then allowed_effect p (the (jget a ''effect'')) else \<not> sp_explicit p)"

definition keeps_policy :: "WorkflowSafetyPolicy \<Rightarrow> jobj \<Rightarrow> bool" where
  "keeps_policy p workflow \<longleftrightarrow>
     (\<exists>actions stages. safety_actions workflow = Inr actions \<and> list_all (effect_kept p) actions
        \<and> goal_stages workflow = Inr stages \<and> (\<forall>r \<in> set (sp_stages p). Some (JStr r) \<in> set stages))
   \<and> (sp_postcondition p \<longrightarrow> js_truthy (jget workflow ''postconditionContract''))"

lemma matches_iff: "assertWorkflowMatchesSafetyPolicy env workflow p = Inr () \<longleftrightarrow> keeps_policy p workflow"
proof -
  have "(\<not> (sp_explicit p \<and> list_ex (\<lambda>a. \<not> js_truthy (jget a ''effect'')) actions)
      \<and> (\<forall>e \<in> set (declared_effects actions). allowed_effect p e)) = list_all (effect_kept p) actions" for actions
    by (auto simp: declared_effects_def list_ex_iff list_all_iff effect_kept_def)
  then show ?thesis
    unfolding assertWorkflowMatchesSafetyPolicy_def keeps_policy_def by auto
qed

section \<open>Contexts\<close>

lemma record_of_object [simp]: "record_value (Some (JObj o1)) = Some o1"
  by simp

lemma distinct_canonical:
  "distinct (map fst context) \<Longrightarrow> distinct (map fst (canonicalAdmissionContext env context))"
proof -
  assume d: "distinct (map fst context)"
  have "mset (map fst (canonicalAdmissionContext env context)) = mset (map fst (filter (\<lambda>(_, v). filled_text v) context))"
    by (simp add: canonicalAdmissionContext_def)
  then show ?thesis using d mset_eq_imp_distinct_iff distinct_map_filter by blast
qed

lemma same_context_jsonb:
  assumes "sameAdmissionContext stored right" "distinct (map fst right)"
    "\<And>o1. stored = Some (JObj o1) \<Longrightarrow> distinct (map fst o1)"
  shows "jsonb_texts stored right"
proof -
  obtain o1 where o1: "stored = Some (JObj o1)" "length o1 = length right" "\<forall>(k, v) \<in> set right. jget o1 k = Some v"
    using assms(1) by (auto simp: sameAdmissionContext_def list_all_iff split: option.splits)
  have sub: "fst ` set right \<subseteq> fst ` set o1" using o1(3) by (force simp: jget_def dest: map_of_SomeD)
  have "card (fst ` set right) = card (fst ` set o1)"
    using assms(2) assms(3)[OF o1(1)] o1(2) distinct_card[of "map fst right"] distinct_card[of "map fst o1"] by simp
  then have "fst ` set right = fst ` set o1" using sub by (simp add: card_subset_eq)
  then have "jget o1 k = jget right k" if "k \<in> fst ` (set o1 \<union> set right)" for k
  proof -
    have "k \<in> fst ` set right" using that \<open>fst ` set right = fst ` set o1\<close> by (simp add: image_Un)
    then obtain v where "(k, v) \<in> set right" by auto
    then show ?thesis using o1(3) assms(2) by (auto simp: jget_def)
  qed
  then show ?thesis unfolding jsonb_texts_def o1(1) by simp
qed

lemma same_context_self: "distinct (map fst context) \<Longrightarrow> sameAdmissionContext (Some (JObj context)) context"
  by (auto simp: sameAdmissionContext_def list_all_iff jget_def map_of_eq_Some_iff)

lemma ledger_context_members: "record_value (Some (ledger_context env i)) = Some
    [(''admissionContext'', JObj (canonicalAdmissionContext env (ri_context i))), (''artifactFingerprint'', JStr (the (ri_fingerprint i)))]"
  by (simp add: ledger_context_def)

lemma context_matches_row:
  "context_matches (ledger_context env i) fp right \<longleftrightarrow> fp = Some (the (ri_fingerprint i))
     \<and> sameAdmissionContext (Some (JObj (canonicalAdmissionContext env (ri_context i)))) right"
  unfolding context_matches_def ledger_context_members by (cases fp) (auto simp: jget_def)

lemma receipt_matches_row:
  "receipt_matches u c version s fp right (new_row env i p s') \<longleftrightarrow> u = ri_new_id i \<and> c = ri_class i \<and> version = sp_version p \<and> s = s'
     \<and> fp = Some (the (ri_fingerprint i)) \<and> jsonb_texts (Some (JObj (canonicalAdmissionContext env (ri_context i)))) right"
  unfolding receipt_matches_def new_row_simps ledger_context_members by (cases fp) (auto simp: jget_def)

lemma load_identifier: "loadWorkflowSafetyPolicy env lc entries c = Inr p \<Longrightarrow> policy_identifier c"
  by (simp add: loadWorkflowSafetyPolicy_def split: if_splits)

section \<open>Receipts are honoured\<close>

lemma find_appended: "find P (xs @ ys) = (case find P xs of None \<Rightarrow> find P ys | Some x \<Rightarrow> Some x)"
  by (induction xs) auto

lemma reservation_recorded:
  assumes "cleared env lc entries i p s" "reserve_ledger env i p s db = Inr (a, db')"
    "grows env Q [] db" "\<And>lc entries j. (lc, entries, j) \<in> Q \<Longrightarrow> distinct (map fst (ri_context j))"
    "distinct (map fst (ri_context i))"
  obtains r where "find (row_at (ri_class i) s (ri_key i)) db' = Some r" "sa_id a = Some (lr_id r)"
    "receipt_matches (lr_id r) (ri_class i) (sp_version p) s (ri_fingerprint i) (canonicalAdmissionContext env (ri_context i)) r"
    "context_matches (lr_context r) (ri_fingerprint i) (canonicalAdmissionContext env (ri_context i))" "lr_version r = sp_version p"
  using assms(2)
proof (cases rule: reserve_ledger_cases)
  case (replay r)
  have "r \<in> set db" "row_at (ri_class i) s (ri_key i) r" using replay(1) by (auto simp: find_Some_iff)
  then obtain lc0 en0 j q s' where j: "(lc0, en0, j) \<in> Q" "r = new_row env j q s'" using grown_row[OF assms(3)] by blast
  have "receipt_matches (lr_id r) (ri_class i) (sp_version p) s (ri_fingerprint i) (canonicalAdmissionContext env (ri_context i)) r"
    using replay(2,3) \<open>row_at _ _ _ r\<close> assms(4)[OF j(1)] assms(5)
    by (auto simp: j(2) receipt_matches_row context_matches_row row_at_def intro!: same_context_jsonb distinct_canonical)
  then show ?thesis using that[of r] replay by simp
next
  case fresh
  let ?r = "new_row env i p s"
  obtain k f where "ri_key i = Some k" "ri_fingerprint i = Some f"
    using assms(1) by (auto simp: cleared_def artifact_fingerprint_def split: option.splits)
  then have found: "find (row_at (ri_class i) s (ri_key i)) db' = Some ?r"
    using fresh(1,2) by (auto simp: find_appended row_at_def)
  then show ?thesis using that[of ?r] fresh \<open>ri_fingerprint i = Some f\<close> assms(5)
    by (auto simp: receipt_matches_row context_matches_row intro!: same_context_self same_context_jsonb distinct_canonical)
qed

text \<open>
  C15. A reservation is honoured. Once a workflow has been admitted, in a ledger that
  reservations have built, then after any later reservations and as long as the approval is
  open, the same request answers the same receipt and consumes nothing, and the workflow is
  dispatched on that receipt.
\<close>

theorem admission_honoured:
  assumes "reserveWorkflowSafetyAdmission env lc entries i (reservations env qs []) = Inr (a, db)"
    and "jget (ri_workflow i) ''safetyClass'' = Some (JStr (ri_class i))"
    and "\<And>p. loadWorkflowSafetyPolicy env lc entries (ri_class i) = Inr p \<Longrightarrow> assertApproval env t p = Inr ()"
    and "\<And>u. sa_id a = Some u \<Longrightarrow> u \<noteq> [] \<and> sf_uuid env u = Some u"
    and "distinct (map fst (ri_context i)) \<and> (\<forall>(lc, entries, j) \<in> set qs. distinct (map fst (ri_context j)))"
  shows "assertWorkflowSafetyDispatch env lc entries (reservations env later db) \<lparr>di_workflow = ri_workflow i, di_admission = sa_id a,
      di_fingerprint = ri_fingerprint i, di_context = Some (ri_context i), di_now = t\<rparr> = Inr ()
    \<and> (\<exists>a'. reserveWorkflowSafetyAdmission env lc entries (i\<lparr>ri_now := t, ri_new_id := u\<rparr>) (reservations env later db)
           = Inr (a', reservations env later db) \<and> sa_id a' = sa_id a)"
proof -
  obtain more where more: "reservations env later db = db @ more" using reservations_extend by blast
  let ?i = "i\<lparr>ri_now := t, ri_new_id := u\<rparr>"
  from assms(1) show ?thesis
  proof (cases rule: reserve_cases)
    case (free p s)
    have "assertWorkflowSafetyDispatch env lc entries (db @ more) \<lparr>di_workflow = ri_workflow i, di_admission = sa_id a,
        di_fingerprint = ri_fingerprint i, di_context = Some (ri_context i), di_now = t\<rparr> = Inr ()"
      using free assms(2) load_identifier[OF free(1)] by (simp add: assertWorkflowSafetyDispatch_def)
    moreover have "\<exists>a'. reserveWorkflowSafetyAdmission env lc entries ?i (db @ more) = Inr (a', db @ more) \<and> sa_id a' = None"
      using free by (simp add: reserveWorkflowSafetyAdmission_def)
    ultimately show ?thesis using free(5) more by simp
  next
    case (ledger p s)
    have g: "grows env (set qs) [] (reservations env qs [])" by (rule grows_reservations) simp
    from ledger g assms(5) obtain r where r: "find (row_at (ri_class i) s (ri_key i)) db = Some r" "sa_id a = Some (lr_id r)"
      "receipt_matches (lr_id r) (ri_class i) (sp_version p) s (ri_fingerprint i) (canonicalAdmissionContext env (ri_context i)) r"
      "context_matches (lr_context r) (ri_fingerprint i) (canonicalAdmissionContext env (ri_context i))" "lr_version r = sp_version p"
      by (elim reservation_recorded) auto
    then have found: "find (row_at (ri_class i) s (ri_key i)) (db @ more) = Some r" by (simp add: find_appended)
    then have in_db: "r \<in> set (db @ more)" by (metis find_Some_iff nth_mem)
    have c: "cleared env lc entries ?i p s" using ledger(1) assms(3) by (simp add: cleared_def)
    have "reserve_ledger env ?i p s (db @ more) = Inr (\<lparr>sa_id = Some (lr_id r), sa_class = ri_class i, sa_version = sp_version p,
        sa_scope = s, sa_key = the (ri_key i), sa_units = lr_units r, sa_replayed = True\<rparr>, db @ more)"
      using found r(4,5) by (simp add: reserve_ledger_def replayed_admission_def)
    then have again: "\<exists>a'. reserveWorkflowSafetyAdmission env lc entries ?i (db @ more) = Inr (a', db @ more) \<and> sa_id a' = sa_id a"
      using reserve_cleared[OF c] r(2) by simp
    have id: "or_string (sa_id a) None = Some (lr_id r)" "sf_uuid env (lr_id r) = Some (lr_id r)"
      using assms(4) r(2) by (auto simp: or_string_def)
    have p: "loadWorkflowSafetyPolicy env lc entries (ri_class i) = Inr p" using ledger(1) by (simp add: cleared_def)
    have "list_ex (receipt_matches (lr_id r) (ri_class i) (sp_version p) s (ri_fingerprint i) (canonicalAdmissionContext env (ri_context i)))
        (db @ more)" using r(3) in_db by (auto simp: list_ex_iff)
    then have "assertWorkflowSafetyDispatch env lc entries (db @ more) \<lparr>di_workflow = ri_workflow i, di_admission = sa_id a,
        di_fingerprint = ri_fingerprint i, di_context = Some (ri_context i), di_now = t\<rparr> = Inr ()"
      using c p load_identifier[OF p] assms(2) id
      by (simp add: assertWorkflowSafetyDispatch_def cleared_def assertArtifactFingerprint_def)
    then show ?thesis using again more by simp
  qed
qed

section \<open>Nothing is dispatched without admission\<close>

text \<open>\<open>admitted\<close>: a reservation of the sequence, cleared by a policy of this version, matches.\<close>

definition receipt_id :: "safety_env \<Rightarrow> string option \<Rightarrow> string option" where
  "receipt_id env v = (case or_string v None of None \<Rightarrow> None | Some i \<Rightarrow> sf_uuid env i)"

definition admitted :: "safety_env \<Rightarrow> reservation list \<Rightarrow> WorkflowSafetyPolicy \<Rightarrow> string \<Rightarrow> dispatch_check_input \<Rightarrow> bool" where
  "admitted env qs p c d \<longleftrightarrow> (\<exists>(lc, entries, i) \<in> set qs. \<exists>q s. cleared env lc entries i q s \<and> ri_class i = c
     \<and> sp_version q = sp_version p \<and> renderScope (sp_scope p) (odefault (di_context d) []) = Inr s
     \<and> ri_fingerprint i = di_fingerprint d \<and> receipt_id env (di_admission d) = Some (ri_new_id i)
     \<and> jsonb_texts (Some (JObj (canonicalAdmissionContext env (ri_context i))))
         (canonicalAdmissionContext env (odefault (di_context d) [])))"

text \<open>
  C14. Against a ledger that reservations have built, a workflow passes the check before
  dispatch only if its class has an active policy which the workflow keeps: every action has
  an allowed effect, or none where the policy does not ask for one, the required goal stages
  are there, and a postcondition where the policy requires it; and, where the policy keeps a
  ledger, only while the approval is open and with the receipt of a reservation that was
  cleared for the same class, version, scope, artifact and context.
\<close>

theorem dispatch_needs_admission:
  assumes "assertWorkflowSafetyDispatch env lc entries (reservations env qs []) d = Inr ()"
  shows "\<exists>c p. jget (di_workflow d) ''safetyClass'' = Some (JStr c) \<and> loadWorkflowSafetyPolicy env lc entries c = Inr p
    \<and> keeps_policy p (di_workflow d)
    \<and> (sp_ledger p \<longrightarrow> assertApproval env (di_now d) p = Inr () \<and> admitted env qs p c d)"
proof -
  obtain c where c: "jget (di_workflow d) ''safetyClass'' = Some (JStr c)"
    using assms by (auto simp: assertWorkflowSafetyDispatch_def split: option.splits json.splits)
  obtain p where p: "loadWorkflowSafetyPolicy env lc entries c = Inr p" "assertWorkflowMatchesSafetyPolicy env (di_workflow d) p = Inr ()"
    using assms c by (auto simp: assertWorkflowSafetyDispatch_def split: if_splits)
  have "assertApproval env (di_now d) p = Inr () \<and> admitted env qs p c d" if l: "sp_ledger p"
  proof -
    obtain i s u r where i: "assertApproval env (di_now d) p = Inr ()" "or_string (di_admission d) None = Some i"
      "renderScope (sp_scope p) (odefault (di_context d) []) = Inr s" "sf_uuid env i = Some u" "r \<in> set (reservations env qs [])"
      "receipt_matches u c (sp_version p) s (di_fingerprint d) (canonicalAdmissionContext env (odefault (di_context d) [])) r"
      using assms c p l by (auto simp: assertWorkflowSafetyDispatch_def list_ex_iff split: option.splits if_splits)
    have g: "grows env (set qs) [] (reservations env qs [])" by (rule grows_reservations) simp
    obtain lc0 en0 j q s0 where j: "(lc0, en0, j) \<in> set qs" "cleared env lc0 en0 j q s0" "r = new_row env j q s0"
      using grown_row[OF g i(5)] by blast
    have f: "ri_fingerprint j = Some (the (ri_fingerprint j))"
      using j(2) by (auto simp: cleared_def artifact_fingerprint_def split: option.splits)
    have "admitted env qs p c d"
      unfolding admitted_def using i j f
      by (intro bexI[OF _ j(1)]) (auto simp: receipt_matches_row receipt_id_def)
    then show ?thesis using i(1) by simp
  qed
  then show ?thesis using c p by (auto simp: matches_iff)
qed

definition sample_dispatch :: dispatch_check_input where
  "sample_dispatch = \<lparr>di_workflow = sample_safe_workflow, di_admission = Some ''a'', di_fingerprint = Some (replicate 64 CHR ''a''),
     di_context = Some [(''deviceId'', JStr ''d'')], di_now = 7\<rparr>"

theorem admission_honoured_witness:
  "assertWorkflowSafetyDispatch sample_env sample_lc sample_entries sample_ledger sample_dispatch = Inr ()
   \<and> (\<exists>a'. reserveWorkflowSafetyAdmission sample_env sample_lc sample_entries (sample_request ''a'' 5\<lparr>ri_now := 7, ri_new_id := ''z''\<rparr>) sample_ledger
        = Inr (a', sample_ledger) \<and> sa_id a' = Some ''a'')"
proof -
  define a where "a = \<lparr>sa_id = Some ''a'', sa_class = ''c'', sa_version = ''v1'', sa_scope = ''d'', sa_key = ''a'', sa_units = 2, sa_replayed = False\<rparr>"
  have "reserveWorkflowSafetyAdmission sample_env sample_lc sample_entries (sample_request ''a'' 5) [] = Inr (a, sample_ledger)"
    unfolding a_def by code_simp
  then have "assertWorkflowSafetyDispatch sample_env sample_lc sample_entries (reservations sample_env [] sample_ledger)
      \<lparr>di_workflow = ri_workflow (sample_request ''a'' 5), di_admission = sa_id a, di_fingerprint = ri_fingerprint (sample_request ''a'' 5),
        di_context = Some (ri_context (sample_request ''a'' 5)), di_now = 7\<rparr> = Inr ()
    \<and> (\<exists>a'. reserveWorkflowSafetyAdmission sample_env sample_lc sample_entries (sample_request ''a'' 5\<lparr>ri_now := 7, ri_new_id := ''z''\<rparr>)
        (reservations sample_env [] sample_ledger) = Inr (a', reservations sample_env [] sample_ledger) \<and> sa_id a' = sa_id a)"
  proof (intro admission_honoured[where qs = "[]"], goal_cases)
    case (3 p)
    then have "p = sample_policy" by (simp add: sample_request_def sample_load)
    moreover have "assertApproval sample_env 7 sample_policy = Inr ()" by code_simp
    ultimately show ?case by simp
  next
    case (4 u)
    then have "u = ''a''" by (simp add: a_def)
    then show ?case by (simp add: sample_env_def)
  qed (simp_all add: sample_request_def sample_safe_workflow_def jget_def a_def sample_env_def)
  then show ?thesis by (simp add: sample_dispatch_def sample_request_def a_def)
qed

theorem dispatch_needs_admission_witness:
  "\<exists>c p. jget (di_workflow sample_dispatch) ''safetyClass'' = Some (JStr c)
    \<and> loadWorkflowSafetyPolicy sample_env sample_lc sample_entries c = Inr p \<and> keeps_policy p (di_workflow sample_dispatch)
    \<and> (sp_ledger p \<longrightarrow> assertApproval sample_env (di_now sample_dispatch) p = Inr ()
       \<and> admitted sample_env sample_sequence p c sample_dispatch)"
proof (rule dispatch_needs_admission)
  show "assertWorkflowSafetyDispatch sample_env sample_lc sample_entries
      (reservations sample_env sample_sequence [])
      sample_dispatch = Inr ()"
    unfolding sample_reservations by code_simp
qed

section \<open>What the policy does not see\<close>

text \<open>
  The transitions of an action are actions of the goal contract, and the check against the
  policy does not visit them.
\<close>

definition hidden_workflow :: jobj where
  "hidden_workflow = [(''safetyClass'', JStr ''c''), (''steps'', JArr [JObj [(''type'', JStr ''action''), (''effect'', JStr ''none''),
     (''params'', JObj [(''transitions'', JObj [(''next'', JObj [(''action'', JStr ''tap''), (''effect'', JStr ''publish'')])])])]])]"

lemma transition_effects_unchecked:
  "map_sum id (map (\<lambda>a. jget a ''effect'')) (collectActions (jget hidden_workflow ''steps'')) = Inr [Some (JStr ''none''), Some (JStr ''publish'')]
   \<and> assertWorkflowMatchesSafetyPolicy sample_env hidden_workflow sample_policy = Inr ()"
  by code_simp

end
