(* ===== verification/Postcondition.thy ===== *)
theory Postcondition imports Template_Values
begin

text \<open>
  Postconditions of workflows
  (\<^verbatim>\<open>src/src/modules/workflow-segments/postcondition.ts\<close>): reading operands from the outcome
  of a run and evaluating the predicates of a contract. Operands are values with the
  identity JavaScript gives them: objects and arrays are compared by where they live, and a
  path may name what every object inherits. Which paths of the context reach the same object
  is a parameter, as are the text of a value, regular expressions and the URL interface.
\<close>

section \<open>Operands\<close>

text \<open>
  A container lives in the context or in the operand of the contract that holds it.
  \<open>Native\<close> is a function of \<^verbatim>\<open>Object.prototype\<close>, \<open>Prototype\<close> the object itself.
\<close>

datatype place = InContext nat | InLeft | InRight

datatype operand =
    Absent
  | Plain json
  | Held place json
  | Native string
  | Prototype

record 'u url_interface =
  ui_parse :: "string \<Rightarrow> 'u option"
  ui_hostname :: "'u \<Rightarrow> string"
  ui_set_hostname :: "string \<Rightarrow> 'u \<Rightarrow> 'u"
  ui_set_hash :: "string \<Rightarrow> 'u \<Rightarrow> 'u"
  ui_pathname :: "'u \<Rightarrow> string"
  ui_set_pathname :: "string \<Rightarrow> 'u \<Rightarrow> 'u"
  ui_print :: "'u \<Rightarrow> string"

text \<open>\<open>pe_text\<close> is \<^verbatim>\<open>String(v)\<close>, which may throw; a pattern that is no regular expression answers \<open>None\<close>.\<close>

record 'u postcondition_env =
  pe_address :: "string list \<Rightarrow> nat"
  pe_text :: "json \<Rightarrow> string res"
  pe_regexp :: "string \<Rightarrow> string \<Rightarrow> bool option"
  pe_url :: "'u url_interface"

definition placed :: "place \<Rightarrow> json \<Rightarrow> operand" where
  "placed p v = (case v of JArr _ \<Rightarrow> Held p v | JObj _ \<Rightarrow> Held p v | _ \<Rightarrow> Plain v)"

text \<open>One step of \<^verbatim>\<open>reduce\<close>; the path so far ends with the key.\<close>

definition inherited_member :: "string \<Rightarrow> operand" where
  "inherited_member k = (if k = ''__proto__'' then Prototype else if js_inherited k = None then Absent else Native k)"

definition read_member :: "'u postcondition_env \<Rightarrow> string list \<Rightarrow> operand \<Rightarrow> operand" where
  "read_member env path value =
     (case value of
        Held _ (JObj o1) \<Rightarrow> (case jget o1 (last path) of
            Some v \<Rightarrow> placed (InContext (pe_address env path)) v
          | None \<Rightarrow> inherited_member (last path))
      | Prototype \<Rightarrow> if last path = ''__proto__'' then Plain JNull else inherited_member (last path)
      | _ \<Rightarrow> Absent)"

fun read_members :: "'u postcondition_env \<Rightarrow> string list \<Rightarrow> operand \<Rightarrow> string list \<Rightarrow> operand" where
  "read_members env path value [] = value"
| "read_members env path value (k # ks) = read_members env (path @ [k]) (read_member env (path @ [k]) value) ks"

definition readPath :: "'u postcondition_env \<Rightarrow> jobj \<Rightarrow> string \<Rightarrow> operand" where
  "readPath env context1 path = read_members env [] (Held (InContext (pe_address env [])) (JObj context1)) (path_segments path)"

definition resolveValue :: "'u postcondition_env \<Rightarrow> place \<Rightarrow> jobj \<Rightarrow> json option \<Rightarrow> operand" where
  "resolveValue env p context1 ref =
     (case record_value ref of
        None \<Rightarrow> Absent
      | Some r \<Rightarrow> (case jget r ''value'' of
            Some v \<Rightarrow> placed p v
          | None \<Rightarrow> (case text_value (jget r ''path'') of Some path \<Rightarrow> readPath env context1 path | None \<Rightarrow> Absent)))"

definition operand_truthy :: "operand \<Rightarrow> bool" where
  "operand_truthy v = (case v of Absent \<Rightarrow> False | Plain j \<Rightarrow> js_truthy (Some j) | _ \<Rightarrow> True)"

fun isEmptyOperand :: "operand \<Rightarrow> bool" where
  "isEmptyOperand Absent = True"
| "isEmptyOperand (Plain v) = (v = JNull \<or> v = JStr [])"
| "isEmptyOperand (Held p v) = (v = JArr [] \<or> v = JObj [])"
| "isEmptyOperand (Native k) = False"
| "isEmptyOperand Prototype = True"

fun operandType :: "operand \<Rightarrow> string" where
  "operandType Absent = ''undefined''"
| "operandType (Plain v) = (case v of JNull \<Rightarrow> ''null'' | JBool _ \<Rightarrow> ''boolean'' | JNum _ \<Rightarrow> ''number'' | JStr _ \<Rightarrow> ''string''
     | JArr _ \<Rightarrow> ''array'' | JObj _ \<Rightarrow> ''object'')"
| "operandType (Held p v) = (case v of JArr _ \<Rightarrow> ''array'' | _ \<Rightarrow> ''object'')"
| "operandType (Native k) = ''function''"
| "operandType Prototype = ''object''"

fun operandLength :: "operand \<Rightarrow> nat" where
  "operandLength (Plain (JStr s)) = length s"
| "operandLength (Held p (JArr xs)) = length xs"
| "operandLength (Held p (JObj o1)) = length o1"
| "operandLength Prototype = 0"
| "operandLength _ = 1"

definition option_off :: "json option \<Rightarrow> string \<Rightarrow> bool" where
  "option_off options k \<longleftrightarrow> (case record_value options of None \<Rightarrow> False | Some o1 \<Rightarrow> jget o1 k = Some (JBool False))"

definition trim_slashes :: "string \<Rightarrow> string" where
  "trim_slashes s = rev (dropWhile (\<lambda>c. c = CHR ''/'') (rev s))"

text \<open>Reading an option of null throws inside the \<^verbatim>\<open>try\<close>.\<close>

definition normalizedUri :: "'u url_interface \<Rightarrow> json option \<Rightarrow> operand \<Rightarrow> string option" where
  "normalizedUri url options value =
     (case value of
        Plain (JStr s) \<Rightarrow>
          (case ui_parse url s of
             None \<Rightarrow> None
           | Some u0 \<Rightarrow>
               if options = Some JNull then None
               else (let u1 = ui_set_hostname url (js_lower (ui_hostname url u0)) u0;
                         u2 = if option_off options ''ignoreFragment'' then u1 else ui_set_hash url [] u1;
                         u3 = if option_off options ''ignoreTrailingSlash'' \<or> ui_pathname url u2 = ''/'' then u2
                              else ui_set_pathname url (trim_slashes (ui_pathname url u2)) u2
                     in Some (ui_print url u3)))
      | _ \<Rightarrow> None)"

section \<open>Predicates\<close>

text \<open>\<^verbatim>\<open>Object.is\<close>: numbers of the model have no signed zero and no NaN.\<close>

definition same_operand :: "operand \<Rightarrow> operand \<Rightarrow> bool" where
  "same_operand l r \<longleftrightarrow> (case (l, r) of (Held p _, Held q _) \<Rightarrow> p = q | _ \<Rightarrow> l = r)"

definition operand_string :: "operand \<Rightarrow> string option" where
  "operand_string v = (case v of Plain (JStr s) \<Rightarrow> Some s | _ \<Rightarrow> None)"

text \<open>\<^verbatim>\<open>String(right ?? "")\<close>.\<close>

definition operand_text :: "'u postcondition_env \<Rightarrow> operand \<Rightarrow> string res" where
  "operand_text env v =
     (case v of
        Absent \<Rightarrow> Inr []
      | Plain j \<Rightarrow> if j = JNull then Inr [] else pe_text env j
      | Held _ j \<Rightarrow> pe_text env j
      | Native k \<Rightarrow> Inr (odefault (js_inherited k) [])
      | Prototype \<Rightarrow> Inr ''[object Object]'')"

definition text_test :: "'u postcondition_env \<Rightarrow> (string \<Rightarrow> string) \<Rightarrow> operand \<Rightarrow> operand \<Rightarrow> bool option res" where
  "text_test env f left right =
     (case operand_string left of
        None \<Rightarrow> Inr None
      | Some s \<Rightarrow> res_bind (operand_text env right) (\<lambda>t. Inr (Some (js_includes (f s) (f t)))))"

definition accepted_redirects :: "'u postcondition_env \<Rightarrow> json option \<Rightarrow> string list res" where
  "accepted_redirects env options =
     (case nullish (case record_value options of None \<Rightarrow> None | Some o1 \<Rightarrow> jget o1 ''acceptedRedirects'') of
        None \<Rightarrow> Inr []
      | Some (JArr xs) \<Rightarrow> Inr (filter (\<lambda>s. s \<noteq> [])
          (map (\<lambda>v. odefault (normalizedUri (pe_url env) options (placed InRight v)) []) xs))
      | _ \<Rightarrow> Inl type_error)"

definition uri_test :: "'u postcondition_env \<Rightarrow> json option \<Rightarrow> operand \<Rightarrow> operand \<Rightarrow> bool res" where
  "uri_test env options left right =
     (let l = or_string (normalizedUri (pe_url env) options left) None; r = or_string (normalizedUri (pe_url env) options right) None
      in res_bind (accepted_redirects env options) (\<lambda>redirects.
           Inr (l \<noteq> None \<and> r \<noteq> None \<and> (l = r \<or> the l \<in> set redirects))))"

text \<open>The verdict of an operator; \<open>None\<close> is an opcode that is not resolved.\<close>

definition apply_operator :: "'u postcondition_env \<Rightarrow> json option \<Rightarrow> json option \<Rightarrow> operand \<Rightarrow> operand \<Rightarrow> bool option res" where
  "apply_operator env opcode options left right =
     (if opcode = Some (JNum 0) then Inr (Some (operand_truthy left))
      else if opcode = Some (JNum 1) then Inr (Some (\<not> operand_truthy left))
      else if opcode = Some (JNum 2) then Inr (Some (same_operand left right))
      else if opcode = Some (JNum 3) then Inr (Some (\<not> same_operand left right))
      else if opcode = Some (JNum 4) then res_bind (text_test env id left right) (\<lambda>b. Inr (Some (b = Some True)))
      else if opcode = Some (JNum 5) then res_bind (text_test env js_lower left right) (\<lambda>b. Inr (Some (b = Some True)))
      else if opcode = Some (JNum 6) then res_bind (text_test env id left right) (\<lambda>b. Inr (Some (b \<noteq> Some True)))
      else if opcode = Some (JNum 7) then res_bind (text_test env js_lower left right) (\<lambda>b. Inr (Some (b \<noteq> Some True)))
      else if opcode = Some (JNum 8) then Inr (Some (left \<noteq> Absent \<and> left \<noteq> Plain JNull))
      else if opcode = Some (JNum 9) then Inr (Some (left = Absent \<or> left = Plain JNull))
      else if opcode = Some (JNum 10) then Inr (Some (case (operand_string left, operand_string right) of
          (Some l, Some r) \<Rightarrow> pe_regexp env r l = Some True | _ \<Rightarrow> False))
      else if opcode = Some (JNum 11) then res_bind (uri_test env options left right) (\<lambda>b. Inr (Some b))
      else Inr None)"

definition member_of :: "json \<Rightarrow> string \<Rightarrow> json option" where
  "member_of v k = (case record_value (Some v) of None \<Rightarrow> None | Some o1 \<Rightarrow> jget o1 k)"

definition optional_chain :: "json option \<Rightarrow> string \<Rightarrow> json option" where
  "optional_chain v k = (case v of None \<Rightarrow> None | Some w \<Rightarrow> member_of w k)"

text \<open>\<^verbatim>\<open>===\<close> on members of different objects.\<close>

definition same_scalar :: "json option \<Rightarrow> json option \<Rightarrow> bool" where
  "same_scalar a b \<longleftrightarrow> a = b \<and> (case a of Some (JArr _) \<Rightarrow> False | Some (JObj _) \<Rightarrow> False | _ \<Rightarrow> True)"

definition operand_contract_valid :: "json option \<Rightarrow> bool" where
  "operand_contract_valid v \<longleftrightarrow>
     (case record_value v of
        None \<Rightarrow> False
      | Some c \<Rightarrow> jget c ''required'' \<in> {Some (JBool True), Some (JBool False)} \<and> text_value (jget c ''type'') \<noteq> None
          \<and> (case number_value (jget c ''minLength'') of None \<Rightarrow> False | Some x \<Rightarrow> is_safe_integer x \<and> 0 \<le> x))"

definition right_present :: "json \<Rightarrow> bool" where
  "right_present predicate \<longleftrightarrow>
     (case record_value (member_of predicate ''right'') of
        None \<Rightarrow> False
      | Some r \<Rightarrow> jhas r ''value'' \<or> text_value (jget r ''path'') \<noteq> None)"

definition refusal :: "nat \<Rightarrow> string \<Rightarrow> string" where
  "refusal index reason = ''predicate '' @ show_nat index @ '' '' @ reason"

text \<open>The first objection to the operands of a predicate, with the reason it prints.\<close>

definition operand_refusal :: "json \<Rightarrow> operand \<Rightarrow> string option" where
  "operand_refusal predicate right =
     (let oc = member_of predicate ''operandContract''; present = right_present predicate;
          type1 = odefault (text_value (optional_chain oc ''type'')) [];
          minimum = odefault (number_value (optional_chain oc ''minLength'')) 0;
          rightPath = optional_chain (member_of predicate ''right'') ''path'';
          leftPath = optional_chain (member_of predicate ''left'') ''path''
      in if \<not> operand_contract_valid oc then Some ''has no PostgreSQL-resolved operand contract''
         else if optional_chain oc ''required'' = Some (JBool True) \<and> \<not> present then Some ''requires a right operand''
         else if present \<and> isEmptyOperand right then Some ''does not admit an absent, null, or empty right operand''
         else if present \<and> type1 \<noteq> ''any'' \<and> operandType right \<noteq> type1
         then Some ''right operand does not match the PostgreSQL-resolved type''
         else if present \<and> of_nat (operandLength right) < minimum
         then Some ''right operand is shorter than the PostgreSQL-resolved minimum''
         else if present \<and> optional_chain oc ''allowSamePath'' \<noteq> Some (JBool True) \<and> js_truthy rightPath \<and> same_scalar rightPath leftPath
         then Some ''does not admit the same path on both operands''
         else None)"

definition operator_name :: "'u postcondition_env \<Rightarrow> json \<Rightarrow> string res" where
  "operator_name env predicate =
     (case member_of predicate ''operator'' of
        None \<Rightarrow> Inr ''undefined'' | Some (JStr s) \<Rightarrow> Inr s | Some v \<Rightarrow> pe_text env v)"

text \<open>The failure a predicate adds, if any.\<close>

definition evaluate_predicate :: "'u postcondition_env \<Rightarrow> jobj \<Rightarrow> nat \<Rightarrow> json \<Rightarrow> string option res" where
  "evaluate_predicate env context1 index predicate =
     (if predicate = JNull then Inl type_error
      else (let left = resolveValue env InLeft context1 (member_of predicate ''left'');
                right = resolveValue env InRight context1 (member_of predicate ''right'')
        in case operand_refusal predicate right of
             Some reason \<Rightarrow> Inr (Some (refusal index reason))
           | None \<Rightarrow> res_bind (apply_operator env (member_of predicate ''operatorOpcode'') (member_of predicate ''options'') left right) (\<lambda>passed.
               case passed of
                 None \<Rightarrow> Inr (Some (refusal index ''has no PostgreSQL-resolved operator opcode''))
               | Some True \<Rightarrow> Inr None
               | Some False \<Rightarrow> res_bind (operator_name env predicate) (\<lambda>n. Inr (Some (refusal index (''failed ('' @ n @ '')'')))))))"

fun evaluate_predicates :: "'u postcondition_env \<Rightarrow> jobj \<Rightarrow> nat \<Rightarrow> json list \<Rightarrow> string list res" where
  "evaluate_predicates env context1 index [] = Inr []"
| "evaluate_predicates env context1 index (p # ps) =
     res_bind (evaluate_predicate env context1 index p) (\<lambda>f.
     res_bind (evaluate_predicates env context1 (Suc index) ps) (\<lambda>fs. Inr ((case f of None \<Rightarrow> [] | Some m \<Rightarrow> [m]) @ fs)))"

record PostconditionEvaluation =
  ev_ok :: bool
  ev_failures :: "string list"

definition evaluatePostconditionContract :: "'u postcondition_env \<Rightarrow> jobj \<Rightarrow> jobj \<Rightarrow> PostconditionEvaluation res" where
  "evaluatePostconditionContract env contract context1 =
     (case (jget contract ''version'', list_value (jget contract ''all'')) of
        (Some (JStr v), Some (p # ps)) \<Rightarrow>
          if v = ''1'' then res_bind (evaluate_predicates env context1 0 (p # ps)) (\<lambda>failures.
            Inr \<lparr>ev_ok = (failures = []), ev_failures = failures\<rparr>)
          else Inr \<lparr>ev_ok = False, ev_failures = [''postcondition contract is empty or unsupported'']\<rparr>
      | _ \<Rightarrow> Inr \<lparr>ev_ok = False, ev_failures = [''postcondition contract is empty or unsupported'']\<rparr>)"

end
