(* ===== verification/Postcondition_Properties.thy ===== *)
theory Postcondition_Properties imports Postcondition
begin

text \<open>
  What a passed postcondition says: a reading of the contract as a conjunction of admitted
  predicates, the operators that are each other's negation, and the equality of containers.
\<close>

section \<open>A reading of predicates\<close>

definition left_of :: "'u postcondition_env \<Rightarrow> jobj \<Rightarrow> json \<Rightarrow> operand" where
  "left_of env context1 p = resolveValue env InLeft context1 (member_of p ''left'')"

definition right_of :: "'u postcondition_env \<Rightarrow> jobj \<Rightarrow> json \<Rightarrow> operand" where
  "right_of env context1 p = resolveValue env InRight context1 (member_of p ''right'')"

definition right_fits :: "jobj \<Rightarrow> json \<Rightarrow> operand \<Rightarrow> bool" where
  "right_fits oc p r \<longleftrightarrow> \<not> isEmptyOperand r
     \<and> (jget oc ''type'' = Some (JStr ''any'') \<or> jget oc ''type'' = Some (JStr (operandType r)))
     \<and> (\<exists>n. jget oc ''minLength'' = Some (JNum n) \<and> n \<le> of_nat (operandLength r))
     \<and> (jget oc ''allowSamePath'' = Some (JBool True) \<or> \<not> js_truthy (optional_chain (member_of p ''right'') ''path'')
        \<or> \<not> same_scalar (optional_chain (member_of p ''right'') ''path'') (optional_chain (member_of p ''left'') ''path''))"

definition operands_admitted :: "json \<Rightarrow> operand \<Rightarrow> bool" where
  "operands_admitted p r \<longleftrightarrow> (\<exists>oc. member_of p ''operandContract'' = Some (JObj oc) \<and> operand_contract_valid (Some (JObj oc))
     \<and> (jget oc ''required'' = Some (JBool True) \<longrightarrow> right_present p) \<and> (right_present p \<longrightarrow> right_fits oc p r))"

lemma record_member [simp]: "optional_chain (Some (JObj oc)) k = jget oc k"
  by (simp add: optional_chain_def member_of_def record_value_def)

lemma operand_refusal_None: "operand_refusal p r = None \<longleftrightarrow> operands_admitted p r"
proof (cases "operand_contract_valid (member_of p ''operandContract'')")
  case False
  then show ?thesis by (auto simp: operand_refusal_def operands_admitted_def Let_def)
next
  case True
  then obtain oc t n where oc: "member_of p ''operandContract'' = Some (JObj oc)" "jget oc ''type'' = Some (JStr t)"
      "jget oc ''minLength'' = Some (JNum n)"
    by (auto simp: operand_contract_valid_def split: option.splits)
  then show ?thesis using True
    by (auto simp: operand_refusal_def operands_admitted_def right_fits_def Let_def text_value_def number_value_def not_less)
qed

text \<open>When an operator holds between two operands.\<close>

inductive operator_holds :: "'u postcondition_env \<Rightarrow> json option \<Rightarrow> rat \<Rightarrow> operand \<Rightarrow> operand \<Rightarrow> bool" for env options where
  truthy: "operand_truthy l \<Longrightarrow> operator_holds env options 0 l r"
| falsy: "\<not> operand_truthy l \<Longrightarrow> operator_holds env options 1 l r"
| same: "same_operand l r \<Longrightarrow> operator_holds env options 2 l r"
| other: "\<not> same_operand l r \<Longrightarrow> operator_holds env options 3 l r"
| contains: "operand_text env r = Inr t \<Longrightarrow> js_includes s t \<Longrightarrow> operator_holds env options 4 (Plain (JStr s)) r"
| contains_any_case: "operand_text env r = Inr t \<Longrightarrow> js_includes (js_lower s) (js_lower t) \<Longrightarrow> operator_holds env options 5 (Plain (JStr s)) r"
| lacks: "operand_text env r = Inr t \<Longrightarrow> \<not> js_includes s t \<Longrightarrow> operator_holds env options 6 (Plain (JStr s)) r"
| lacks_no_text: "operand_string l = None \<Longrightarrow> operator_holds env options 6 l r"
| lacks_any_case: "operand_text env r = Inr t \<Longrightarrow> \<not> js_includes (js_lower s) (js_lower t) \<Longrightarrow> operator_holds env options 7 (Plain (JStr s)) r"
| lacks_any_case_no_text: "operand_string l = None \<Longrightarrow> operator_holds env options 7 l r"
| exists: "l \<notin> {Absent, Plain JNull} \<Longrightarrow> operator_holds env options 8 l r"
| missing: "l \<in> {Absent, Plain JNull} \<Longrightarrow> operator_holds env options 9 l r"
| matches: "pe_regexp env t s = Some True \<Longrightarrow> operator_holds env options 10 (Plain (JStr s)) (Plain (JStr t))"
| same_uri: "normalizedUri (pe_url env) options l = Some u \<Longrightarrow> u \<noteq> [] \<Longrightarrow> normalizedUri (pe_url env) options r = Some v \<Longrightarrow> v \<noteq> []
    \<Longrightarrow> accepted_redirects env options = Inr redirects \<Longrightarrow> u = v \<or> u \<in> set redirects \<Longrightarrow> operator_holds env options 11 l r"

inductive_cases operator_holdsE: "operator_holds env options n l r"

lemma operand_string_Some [simp]: "operand_string v = Some s \<longleftrightarrow> v = Plain (JStr s)"
  by (auto simp: operand_string_def split: operand.splits json.splits)

lemma operand_string_text [simp]: "operand_string (Plain (JStr s)) = Some s"
  by simp

lemma apply_operator_holds:
  "apply_operator env opcode options l r = Inr (Some True) \<longleftrightarrow> (\<exists>n. opcode = Some (JNum n) \<and> operator_holds env options n l r)"
  (is "?a \<longleftrightarrow> ?h")
proof
  assume ?a
  then show ?h
    by (auto simp: apply_operator_def text_test_def uri_test_def res_bind_eq_Inr Let_def or_string_def
        split: if_splits option.splits intro: operator_holds.intros)
next
  assume ?h
  then obtain n where n: "opcode = Some (JNum n)" "operator_holds env options n l r" by blast
  from n(2) show ?a
    by cases (auto simp: n(1) apply_operator_def text_test_def uri_test_def or_string_def Let_def)
qed

definition predicate_holds :: "'u postcondition_env \<Rightarrow> jobj \<Rightarrow> json \<Rightarrow> bool" where
  "predicate_holds env context1 p \<longleftrightarrow> p \<noteq> JNull \<and> operands_admitted p (right_of env context1 p)
     \<and> (\<exists>n. member_of p ''operatorOpcode'' = Some (JNum n)
         \<and> operator_holds env (member_of p ''options'') n (left_of env context1 p) (right_of env context1 p))"

lemma evaluate_predicate_None: "evaluate_predicate env context1 i p = Inr None \<longleftrightarrow> predicate_holds env context1 p"
  unfolding evaluate_predicate_def predicate_holds_def left_of_def right_of_def apply_operator_holds [symmetric]
    operand_refusal_None [symmetric]
  by (auto simp: Let_def res_bind_eq_Inr split: option.splits bool.splits)

lemma evaluate_predicates_exact:
  "evaluate_predicates env context1 i ps = Inr fs \<Longrightarrow>
     map Some fs = filter (\<lambda>f. f \<noteq> None) (map (\<lambda>(j, p). case evaluate_predicate env context1 j p of Inr f \<Rightarrow> f | Inl _ \<Rightarrow> None) (enumerate i ps))
   \<and> length fs = length (filter (\<lambda>p. \<not> predicate_holds env context1 p) ps)"
proof (induction ps arbitrary: i fs)
  case (Cons p ps)
  then obtain f gs where f: "evaluate_predicate env context1 i p = Inr f" "evaluate_predicates env context1 (Suc i) ps = Inr gs"
      "fs = (case f of None \<Rightarrow> [] | Some m \<Rightarrow> [m]) @ gs"
    by (auto simp: res_bind_eq_Inr)
  have "f = None \<longleftrightarrow> predicate_holds env context1 p" using f(1) evaluate_predicate_None by (metis sum.inject(2))
  then show ?case using Cons.IH[OF f(2)] f by (cases f) auto
qed simp

section \<open>Contracts\<close>

text \<open>Opcodes that are each other's negation: exactly one of the two holds.\<close>

inductive_simps operator_simps:
  "operator_holds env options 0 l r"
  "operator_holds env options 1 l r"
  "operator_holds env options 2 l r"
  "operator_holds env options 3 l r"
  "operator_holds env options 4 l r"
  "operator_holds env options 5 l r"
  "operator_holds env options 6 l r"
  "operator_holds env options 7 l r"
  "operator_holds env options 8 l r"
  "operator_holds env options 9 l r"

lemma operator_pairs:
  "operator_holds env options 1 l r \<longleftrightarrow> \<not> operator_holds env options 0 l r"
  "operator_holds env options 3 l r \<longleftrightarrow> \<not> operator_holds env options 2 l r"
  "operator_holds env options 9 l r \<longleftrightarrow> \<not> operator_holds env options 8 l r"
  by (simp_all add: operator_simps)

lemma text_operator_pairs:
  assumes "operand_text env r = Inr t"
  shows "operator_holds env options 6 l r \<longleftrightarrow> \<not> operator_holds env options 4 l r"
    "operator_holds env options 7 l r \<longleftrightarrow> \<not> operator_holds env options 5 l r"
  using assms by (cases "operand_string l"; force simp: operator_simps)+

text \<open>
  C16. The evaluation of a postcondition that returns is right: it succeeds exactly when the
  contract has the supported version and at least one predicate and every predicate holds, that
  is, its operand contract is resolved, its right operand is there when it has to be and then
  is filled, typed and long enough and not the left path again, and the operator of its opcode
  holds; and otherwise it names every predicate that does not hold, once and in order, or the
  contract as a whole.
\<close>

theorem postcondition_exact:
  assumes "evaluatePostconditionContract env contract context1 = Inr e"
  shows "(ev_ok e \<longleftrightarrow> jget contract ''version'' = Some (JStr ''1'')
      \<and> (\<exists>ps. jget contract ''all'' = Some (JArr ps) \<and> ps \<noteq> [] \<and> (\<forall>p \<in> set ps. predicate_holds env context1 p)))
    \<and> (\<forall>ps. jget contract ''version'' = Some (JStr ''1'') \<and> jget contract ''all'' = Some (JArr ps) \<and> ps \<noteq> [] \<longrightarrow>
         length (ev_failures e) = length (filter (\<lambda>p. \<not> predicate_holds env context1 p) ps)
       \<and> map Some (ev_failures e) = filter (\<lambda>f. f \<noteq> None)
           (map (\<lambda>(i, p). case evaluate_predicate env context1 i p of Inr f \<Rightarrow> f | Inl _ \<Rightarrow> None) (enumerate 0 ps)))"
proof (cases "jget contract ''version'' = Some (JStr ''1'') \<and> (\<exists>p ps. jget contract ''all'' = Some (JArr (p # ps)))")
  case True
  then obtain p ps where c: "jget contract ''version'' = Some (JStr ''1'')" "jget contract ''all'' = Some (JArr (p # ps))" by blast
  then obtain fs where fs: "evaluate_predicates env context1 0 (p # ps) = Inr fs" "e = \<lparr>ev_ok = (fs = []), ev_failures = fs\<rparr>"
    using assms by (auto simp: evaluatePostconditionContract_def list_value_def res_bind_eq_Inr simp del: evaluate_predicates.simps)
  have "fs = [] \<longleftrightarrow> (\<forall>q \<in> set (p # ps). predicate_holds env context1 q)"
    using evaluate_predicates_exact[OF fs(1)] by (metis filter_empty_conv length_0_conv)
  then show ?thesis using evaluate_predicates_exact[OF fs(1)] c fs(2) by simp
next
  case False
  then have "\<not> ev_ok e"
    using assms by (auto simp: evaluatePostconditionContract_def list_value_def split: option.splits json.splits list.splits if_splits)
  moreover have "ps = []" if "jget contract ''version'' = Some (JStr ''1'')" "jget contract ''all'' = Some (JArr ps)" for ps
    using False that by (cases ps) auto
  ultimately show ?thesis by metis
qed

definition sample_post_env :: "string postcondition_env" where
  "sample_post_env = \<lparr>pe_address = length, pe_text = (\<lambda>_. Inr []), pe_regexp = (\<lambda>_ _. None), pe_url = \<lparr>ui_parse = Some,
     ui_hostname = (\<lambda>u. u), ui_set_hostname = (\<lambda>_ u. u), ui_set_hash = (\<lambda>_ u. u), ui_pathname = (\<lambda>u. u),
     ui_set_pathname = (\<lambda>_ u. u), ui_print = (\<lambda>u. u)\<rparr>\<rparr>"

definition sample_predicate :: "rat \<Rightarrow> string \<Rightarrow> json \<Rightarrow> json" where
  "sample_predicate opcode t v = JObj [(''left'', JObj [(''path'', JStr ''outputs.x'')]), (''operator'', JStr ''op''), (''operatorOpcode'', JNum opcode),
     (''operandContract'', JObj [(''required'', JBool True), (''type'', JStr t), (''minLength'', JNum 1)]), (''right'', JObj [(''value'', v)])]"

definition sample_postcondition :: jobj where
  "sample_postcondition = [(''version'', JStr ''1''), (''all'', JArr [sample_predicate 2 ''number'' (JNum 5), sample_predicate 3 ''number'' (JNum 5)])]"

definition sample_context :: "json \<Rightarrow> jobj" where
  "sample_context v = [(''outputs'', JObj [(''x'', v)])]"

lemma sample_evaluation: "evaluatePostconditionContract sample_post_env sample_postcondition (sample_context (JNum 5))
    = Inr \<lparr>ev_ok = False, ev_failures = [''predicate 1 failed (op)'']\<rparr>"
  by code_simp

theorem postcondition_exact_witness:
  "\<not> (\<forall>p \<in> {sample_predicate 2 ''number'' (JNum 5), sample_predicate 3 ''number'' (JNum 5)}. predicate_holds sample_post_env (sample_context (JNum 5)) p)"
  using postcondition_exact[OF sample_evaluation] by (auto simp: sample_postcondition_def jget_def)

text \<open>
  The operand contract admits an array or an object as expected value, and \<^verbatim>\<open>Object.is\<close> compares
  it by identity: the run produced exactly the expected array, equality fails and inequality passes.
\<close>

lemma expected_containers_never_equal:
  "map (\<lambda>opcode. evaluatePostconditionContract sample_post_env
       [(''version'', JStr ''1''), (''all'', JArr [sample_predicate opcode ''array'' (JArr [JNum 1])])] (sample_context (JArr [JNum 1]))) [2, 3]
   = [Inr \<lparr>ev_ok = False, ev_failures = [''predicate 0 failed (op)'']\<rparr>, Inr \<lparr>ev_ok = True, ev_failures = []\<rparr>]"
  by code_simp

end
