(* ===== verification/Spec2Isabelle.thy ===== *)
theory Spec2Isabelle imports Lifecycle_Properties Row_Properties Arbiter_Egress_Properties Workflow_Executor_Properties Workflow_Waiters UI_Properties Segment_Properties Segment_Compose Template_Dispatch Safety_Dispatch Postcondition_Properties
begin

text \<open>
  A verification library for the control plane of \<^verbatim>\<open>slavegate-server\<close>, the server that
  queues work for a fleet of Android devices and executes it. Paths below are relative to
  \<^verbatim>\<open>src/src/modules\<close>.

  \<^bold>\<open>The program's parts.\<close> Resources (tasks, jobs, workflows, research jobs, agency runs,
  segment executions, device execution roots) carry a status column; which statuses exist
  and which moves are allowed is configuration in PostgreSQL, read by
  \<^verbatim>\<open>lifecycle/lifecycle.service.ts\<close>. The lifecycle services of the single resources select
  a configured transition and update the row. The device execution arbiter
  (\<^verbatim>\<open>device-execution/device-execution-arbiter.ts\<close>) serialises work per device: it admits
  roots, hands a device to one of them at a time, and fences late results by owner
  generations and handles. Workflows are composed of stored segments
  (\<^verbatim>\<open>workflow-segments\<close>) and executed on the server by a queue worker, child job by child
  job, with checkpoints and recovery (\<^verbatim>\<open>workflows/workflow.executor.ts\<close>). On the device side of the control plane, the UI graph
  (\<^verbatim>\<open>ui-graph\<close>) recognises screens, plans routes between them, runs them one transition at
  a time, recovers from failures and promotes what it learned.

  \<^bold>\<open>Theories and code.\<close>
  \<^item> \<open>Prelude\<close>: JSON values, results, tables keyed by an identifier, string functions.
  \<^item> \<open>Lifecycle\<close>, \<open>Lifecycle_Policy\<close>, \<open>Lifecycle_Config\<close>: the tables and every operation of
    \<^verbatim>\<open>lifecycle.service.ts\<close>; \<open>Lifecycle_Facts\<close> has their lemmas, \<open>Samples\<close> a
    configuration for witnesses, \<open>Lifecycle_Properties\<close> the properties.
  \<^item> \<open>Resource_Moves\<close> is the interface of a table whose rows move along configured
    transitions (a locale); \<open>Task_Lifecycle\<close>, \<open>Job_Lifecycle\<close> and \<open>Workflow_Lifecycle\<close> model
    the services (\<^verbatim>\<open>task-lifecycle\<close>, \<^verbatim>\<open>dispatcher/job-lifecycle.service.ts\<close>,
    \<^verbatim>\<open>workflows/*-lifecycle.service.ts\<close>, \<^verbatim>\<open>research\<close>, \<^verbatim>\<open>workflow-segments/execution-lifecycle\<close>)
    and interpret it; \<open>Row_Properties\<close> has the properties.
  \<^item> \<open>Arbiter_Data\<close> (rows, handles, phases), \<open>Arbiter_Store\<close> (the SQL statements, a
    transaction being a function from tables to an error or an answer with new tables),
    \<open>Arbiter_Dispatch\<close> (admission, dispatch, claim), \<open>Arbiter_Results\<close> (terminal
    observations and job results), \<open>Arbiter_Workflow\<close> (workflow roots, timeouts,
    cancellations, ambiguity), \<open>Arbiter_Egress\<close> (the two transactions around a send, the
    recorded decisions, the sweep of in-flight roots at startup, the snapshot): one definition per exported operation and per branch of it.
    \<open>Arbiter_Frame\<close> states as a locale what an assertion on the tables has to satisfy,
    statement by statement, for every handler to keep it, and \<open>Arbiter_Handlers\<close> and \<open>Arbiter_Egress_Frame\<close>
    prove that once; \<open>Arbiter_Facts\<close> and \<open>Arbiter_Slots\<close> interpret it with the history order and with
    the exclusive device slot. \<open>Arbiter_Guards\<close> says what an accepting or refusing handler
    has checked. \<open>Arbiter_Properties\<close>, \<open>Arbiter_Lease\<close> (the refinement of an
    abstract lease machine) and \<open>Arbiter_Egress_Properties\<close> hold the properties.
  \<^item> The executor of workflows: \<open>Workflow_Expression\<close> (conditions, parameter bindings, result
    assertions), \<open>Workflow_Checkpoint\<close> (steps, templates, checkpoints and their JSON),
    \<open>Workflow_Budget\<close> (the recovery policy and its counters), \<open>Workflow_World\<close> (the
    computations the executor is written in, the world that answers them, the operations of
    \<^verbatim>\<open>workflow.service.ts\<close> it calls), \<open>Workflow_Executor\<close> (steps, traversal, recovery, runs,
    attempts), \<open>Workflow_Waiters\<close> (the registry of pending job results as a state machine).
    \<open>Workflow_Executor_Frame\<close> states as locales what an assertion on tables and effects has to
    satisfy for every function of the executor to keep it; \<open>Workflow_Progress\<close> interprets it
    with the persisted step, \<open>Workflow_History\<close> with the effects and with the device slots of
    the arbiter; \<open>Workflow_Executor_Properties\<close> has the properties.
  \<^item> \<open>Segment_Types\<close>, \<open>Segment_Graph\<close> (\<open>validateCompositionGraph\<close>), \<open>Segment_Inputs\<close>
    (\<^verbatim>\<open>input-resolver.ts\<close>), \<open>Segment_Steps\<close> and \<open>Segment_Once\<close> (the rewriting of steps in
    \<^verbatim>\<open>composer.ts\<close>), \<open>Segment_Properties\<close>; \<open>Segment_Goal\<close> (the merging of goal contracts) and
    \<open>Segment_Compose\<close> (keys, policies, the assembled template), which use the template contract below.
  \<^item> The contract of generated templates: \<open>Template_Values\<close> (how untyped JSON is read),
    \<open>Goal_Contract\<close> (\<^verbatim>\<open>workflows/goal-contract.ts\<close>), \<open>Template_Validator\<close> (the checks of
    \<^verbatim>\<open>workflows/workflow-validator.ts\<close>, message by message), \<open>Template_Text\<close> (its stable texts),
    \<open>Template_Plan\<close> (compiled plans, their check and their staleness); \<open>Template_Dispatch\<close>
    is the check of a dispatched workflow. \<open>Template_Steps\<close>, \<open>Template_Plan_Facts\<close>,
    \<open>Template_Normal\<close> and \<open>Template_Goal\<close> have the lemmas, these and \<open>Template_Properties\<close> the properties.
  \<^item> Admission: \<open>Safety_Policy\<close> (policies of safety classes), \<open>Safety_Admission\<close> (the check of a
    workflow, scopes, the ledger of admissions, receipts; both of
    \<^verbatim>\<open>workflows/workflow-safety-admission.service.ts\<close>), \<open>Safety_Properties\<close> and \<open>Safety_Dispatch\<close>.
    \<open>Postcondition\<close> is the evaluator of \<^verbatim>\<open>workflow-segments/postcondition.ts\<close> with
    \<open>Postcondition_Properties\<close>.
  \<^item> \<open>Graph_Planner\<close> (\<^verbatim>\<open>graph-planner.ts\<close>), \<open>Graph_Optimal\<close> (the invariant of its search),
    \<open>Graph_Properties\<close>; \<open>UI_Tree\<close> (\<^verbatim>\<open>app-mapping/page-fingerprint.ts\<close>), \<open>State_Resolver\<close>,
    \<open>Target_Resolver\<close>, \<open>Graph_Runtime\<close> with \<open>Graph_Runs\<close>, \<open>UI_Recovery\<close> with
    \<open>Recovery_Runs\<close> (the files of \<^verbatim>\<open>ui-graph\<close> of the same names), \<open>UI_Properties\<close>.

  \<^bold>\<open>How state and effects are modelled.\<close> A table is a list of rows in insertion order; a
  query is a filter with the code's sort key; a statement with a condition rewrites the rows
  that satisfy it. Row locks of other sessions appear as the predicate \<open>unlocked\<close> of
  statements with \<^verbatim>\<open>SKIP LOCKED\<close>. A transaction is atomic: it fails with the tables
  unchanged or answers. Interleaving is the order of transactions in \<open>slot_step\<close> and
  \<open>arb_step\<close>. Exceptions are the left part of a sum.
  The executor is a state transformer over the tables, the checkpoint in memory and a log of
  effects; its dispatcher, transport, planner and validator, the clock and the random numbers
  answer by the number of the question, so that no two answers need agree, and before every
  access to the tables the other sessions may have changed them. What the UI graph asks of its injected
  dependencies is an environment indexed by the pass of the loop, and what it did a log of
  effects. Clocks, generated identifiers, SHA-256, the regular expression engine and the
  URL parser are parameters. Numbers of the JSON and UI models are rationals where the code
  has doubles; strings consist of the 256 characters of \<^typ>\<open>char\<close>.

  \<^bold>\<open>What the lemmas show.\<close> The configuration operations keep the table constraints, and
  the transition selection is exact. The services move rows along configured transitions
  only. On the arbiter: a device has one active root; ended rows are frozen; histories only
  grow; results, terminal observations, cancellations and timeouts are fenced; a claim takes
  the oldest queued root and succeeds when it can; a permit follows a recorded intent and its
  completion is fenced; and all of it refines the lease machine.
  A workflow run advances over a step only after it was executed and, for an action, after a
  successful result; the persisted step grows exactly with these advances through all
  attempts; a job keeps the device slots; a result reaches the waiter registered last for its
  job, once; recovery stays in its budget; conditions mean what their reference reading says.
  The checks of templates accept exactly the well-formed steps; an accepted template is a normal
  form that fulfils its goal contract and has a plan that passes its own check; stable texts are
  equal exactly for values that are equal up to member order and what printing forgets; a
  dispatched workflow passes exactly when its requirements are known and acyclic.
  The ledger of admissions stays within the limits of its policies in every window of time, an
  admission is honoured at dispatch, and nothing is dispatched without one where the policy asks
  for it; a postcondition passes exactly when all of its predicates hold.
  A composed workflow comes from intact rows, its template is accepted and fulfils the merged
  contract of its segments. Compositions that pass the check are executable in order, their inputs are well typed, and
  steps are rewritten once under stable bindings. The planner is sound, terminates and is
  optimal under nonnegative costs; runs end within their budgets and execute only admitted
  transitions from recognised states; recognition rests on evidence; targets are unique;
  recovery cannot escalate and stays in its budget; promotion is exact.

  \<^bold>\<open>Termination and fuel.\<close> Nothing runs on fuel. The search of the planner is a partial
  function whose undefined value is a call that does not return; \<open>planner_returns\<close> proves
  that it returns when no cost is negative. The loop of the graph runtime terminates by
  its replan budget, the rewriting of nested steps by the number of steps. The executor
  recurses over the steps, its loops over the number of iterations drawn, its retries over
  their count, and a job over the attempts of the queue, which is a parameter.

  \<^bold>\<open>Not modelled.\<close> Of the arbiter: the two sweeps that join the tables of workflows, jobs
  and the command log. Of the template validator: the \<^verbatim>\<open>zod\<close> schema of
  dispatched workflows (a parameter), the summary and the self-description. Of the learning loop: its
  SQL statements. Of postconditions: the stored function that decides which predicates prove something. Of the workflow service: creation, listing, templates and plan caches; of the
  executor: the functions that enqueue a job, console output, metrics, the extension of the
  queue lock. Of the dispatcher: everything but the assertions on results. HTTP routes, sockets, queues in Redis, the task runner, the
  calls of language models, the crawler and the dashboard are effects around this core and
  left out.
\<close>

end
